(* ===== verification/Prelude.thy ===== *)
theory Prelude
  imports Main "HOL-Library.Word" "HOL-Library.Code_Target_Numeral"
begin

text \<open>
  Shared material of the development: bytes and Go strings, the three ways a Go call can end
  (a value, a non-nil error, a run-time panic), slice and index expressions with their bounds
  checks, the big-endian integers of \<^verbatim>\<open>encoding/binary\<close>, splitting a byte string into
  blocks, and iteration over Go maps in an order that the caller of the model supplies.
\<close>

unbundle bit_operations_syntax

section \<open>Named theorem collections\<close>

named_theorems go_defs \<open>definitions of the Go run-time operations\<close>
named_theorems go_inv \<open>inversion of successful runs\<close>

section \<open>Bytes and strings\<close>

type_synonym byte = "8 word"
type_synonym bytes = "byte list"
type_synonym u16 = "16 word"
type_synonym u32 = "32 word"
type_synonym u64 = "64 word"

text \<open>
  Go's conversions \<^verbatim>\<open>byte(n)\<close>, \<^verbatim>\<open>uint16(n)\<close> and \<^verbatim>\<open>uint32(n)\<close> of a
  non-negative integer keep the low bits.
\<close>

definition byte_of_nat :: "nat \<Rightarrow> byte" where
  "byte_of_nat n = word_of_nat n"

definition u16_of_nat :: "nat \<Rightarrow> u16" where
  "u16_of_nat n = word_of_nat n"

definition u32_of_nat :: "nat \<Rightarrow> u32" where
  "u32_of_nat n = word_of_nat n"

lemma unat_of_nat_conv [simp]:
  "unat (byte_of_nat n) = n mod 256"
  "unat (u16_of_nat n) = n mod 65536"
  "unat (u32_of_nat n) = n mod 4294967296"
  by (simp_all add: byte_of_nat_def u16_of_nat_def u32_of_nat_def unat_of_nat)

lemma of_nat_unat_conv [simp]:
  "byte_of_nat (unat b) = b" "u16_of_nat (unat v) = v" "u32_of_nat (unat w) = w"
  by (simp_all add: byte_of_nat_def u16_of_nat_def u32_of_nat_def)

lemma unat_byte_lt [simp]: "unat (b :: byte) < 256"
  using unsigned_less [of b] by simp

lemma unat_byte_le [simp]: "unat (b :: byte) \<le> 255"
  using unat_byte_lt [of b] by linarith

lemma unat_u16_lt [simp]: "unat (w :: u16) < 65536"
  using unsigned_less [of w] by simp

lemma unat_u32_lt [simp]: "unat (w :: u32) < 4294967296"
  using unsigned_less [of w] by simp

lemma byte_of_nat_eq_iff: "byte_of_nat n = b \<longleftrightarrow> n mod 256 = unat b"
  by (metis of_nat_unat_conv(1) unat_of_nat_conv(1) mod_less unat_byte_lt byte_of_nat_def
      unsigned_of_nat word_unat_eq_iff)

text \<open>
  A Go string is an immutable byte sequence; \<^verbatim>\<open>[]byte(s)\<close> and \<^verbatim>\<open>string(b)\<close> copy
  the bytes unchanged.
\<close>

definition bytes_of :: "string \<Rightarrow> bytes" where
  "bytes_of s = map (\<lambda>c. byte_of_nat (of_char c)) s"

definition string_of :: "bytes \<Rightarrow> string" where
  "string_of bs = map (\<lambda>b. char_of (unat b)) bs"

lemma char_of_byte_of_nat [simp]: "char_of (unat (byte_of_nat (of_char c))) = c"
  by simp

lemma byte_of_nat_of_char [simp]: "byte_of_nat (of_char (char_of (unat b))) = b"
proof -
  have "(of_char (char_of (unat b)) :: nat) = unat b"
    using unat_byte_lt [of b] by (simp del: unat_byte_lt)
  then show ?thesis by simp
qed

lemma string_of_bytes_of [simp]: "string_of (bytes_of s) = s"
  by (simp add: string_of_def bytes_of_def o_def)

lemma bytes_of_string_of [simp]: "bytes_of (string_of bs) = bs"
  by (simp add: string_of_def bytes_of_def o_def)

lemma length_bytes_of [simp]: "length (bytes_of s) = length s"
  by (simp add: bytes_of_def)

lemma length_string_of [simp]: "length (string_of bs) = length bs"
  by (simp add: string_of_def)

lemma bytes_of_simps [simp]:
  "bytes_of [] = []" "bytes_of (s @ t) = bytes_of s @ bytes_of t"
  by (simp_all add: bytes_of_def)

lemma string_of_eq_Nil [simp]: "string_of bs = [] \<longleftrightarrow> bs = []"
  by (simp add: string_of_def)

section \<open>How a Go call ends\<close>

text \<open>
  \<^verbatim>\<open>Ok v\<close>: the call returns \<^verbatim>\<open>(v, nil)\<close>; \<^verbatim>\<open>Fail e\<close>: it returns a non-nil
  error; \<^verbatim>\<open>Panic\<close>: a run-time panic (index or slice out of range, nil dereference), which
  no code of the repository recovers from on the paths that are modelled here.
\<close>

datatype ('e, 'a) outcome = Ok 'a | Fail 'e | Panic

fun obind :: "('e, 'a) outcome \<Rightarrow> ('a \<Rightarrow> ('e, 'b) outcome) \<Rightarrow> ('e, 'b) outcome" where
  "obind (Ok v) f = f v"
| "obind (Fail e) f = Fail e"
| "obind Panic f = Panic"

lemma obind_eq_Ok [go_inv]: "obind m f = Ok v \<longleftrightarrow> (\<exists>u. m = Ok u \<and> f u = Ok v)"
  by (cases m) auto

lemma obind_eq_Fail: "obind m f = Fail e \<longleftrightarrow> m = Fail e \<or> (\<exists>u. m = Ok u \<and> f u = Fail e)"
  by (cases m) auto

lemma obind_eq_Panic: "obind m f = Panic \<longleftrightarrow> m = Panic \<or> (\<exists>u. m = Ok u \<and> f u = Panic)"
  by (cases m) auto

text \<open>The same for calls that change a state: a failed call ends the sequence in the state it left.\<close>

fun sbind :: "('e, 'a) outcome \<times> 's \<Rightarrow> ('a \<Rightarrow> 's \<Rightarrow> ('e, 'b) outcome \<times> 's) \<Rightarrow> ('e, 'b) outcome \<times> 's" where
  "sbind (Ok v, s) f = f v s"
| "sbind (Fail e, s) f = (Fail e, s)"
| "sbind (Panic, s) f = (Panic, s)"

lemma sbind_eq_Ok [go_inv]: "sbind m f = (Ok v, s) \<longleftrightarrow> (\<exists>u t. m = (Ok u, t) \<and> f u t = (Ok v, s))"
  by (cases "(m, f)" rule: sbind.cases) auto

text \<open>A call yields \<open>Q\<close> under \<open>I\<close> if its final state meets \<open>I\<close>, whatever the outcome, and its value, if it has one, meets \<open>Q\<close>.\<close>

definition yields :: "('s \<Rightarrow> bool) \<Rightarrow> ('a \<Rightarrow> bool) \<Rightarrow> ('e, 'a) outcome \<times> 's \<Rightarrow> bool" where
  "yields I Q m \<longleftrightarrow> I (snd m) \<and> (\<forall>v. fst m = Ok v \<longrightarrow> Q v)"

lemma yields_simps [simp]:
  "yields I Q (Ok v, s) \<longleftrightarrow> I s \<and> Q v" "yields I Q (Fail e, s) \<longleftrightarrow> I s" "yields I Q (Panic, s) \<longleftrightarrow> I s"
  by (simp_all add: yields_def)

lemma yields_sbind:
  assumes "yields I Q m" and "\<And>v s. I s \<Longrightarrow> Q v \<Longrightarrow> yields I R (f v s)"
  shows "yields I R (sbind m f)"
  using assms by (cases "(m, f)" rule: sbind.cases) auto

lemma yields_pure: "I s \<Longrightarrow> yields I (\<lambda>_. True) (m, s)"
  by (simp add: yields_def)

lemma yields_mono: "yields I Q m \<Longrightarrow> (\<And>v. Q v \<Longrightarrow> R v) \<Longrightarrow> yields I R m"
  by (simp add: yields_def)

section \<open>Slices\<close>

text \<open>
  \<^verbatim>\<open>xs[lo:hi]\<close> panics unless \<open>lo \<le> hi \<le> cap(xs)\<close>. Every slice sliced in the modelled code
  has been made with \<^verbatim>\<open>make([]byte, n)\<close> or has been compared with its length before, so the
  bound is the length.
\<close>

definition go_slice :: "'a list \<Rightarrow> nat \<Rightarrow> nat \<Rightarrow> ('e, 'a list) outcome" where
  "go_slice xs lo hi =
     (if lo \<le> hi \<and> hi \<le> length xs then Ok (take (hi - lo) (drop lo xs)) else Panic)"

definition go_index :: "'a list \<Rightarrow> nat \<Rightarrow> ('e, 'a) outcome" where
  "go_index xs i = (if i < length xs then Ok (xs ! i) else Panic)"

declare go_slice_def [go_defs] go_index_def [go_defs]

lemma go_slice_Ok [go_inv]:
  "go_slice xs lo hi = Ok ys \<longleftrightarrow> lo \<le> hi \<and> hi \<le> length xs \<and> ys = take (hi - lo) (drop lo xs)"
  by (auto simp: go_slice_def)

lemma go_slice_Panic: "go_slice xs lo hi = Panic \<longleftrightarrow> hi < lo \<or> length xs < hi"
  by (auto simp: go_slice_def)

lemma go_slice_not_Fail [simp]: "go_slice xs lo hi \<noteq> Fail e"
  by (simp add: go_slice_def)

lemma go_index_Ok [go_inv]: "go_index xs i = Ok x \<longleftrightarrow> i < length xs \<and> x = xs ! i"
  by (auto simp: go_index_def)

lemma go_index_Panic: "go_index xs i = Panic \<longleftrightarrow> length xs \<le> i"
  by (auto simp: go_index_def)

lemma go_index_not_Fail [simp]: "go_index xs i \<noteq> Fail e"
  by (simp add: go_index_def)

section \<open>Big-endian integers\<close>

definition be16_put :: "u16 \<Rightarrow> bytes" where
  "be16_put w = [byte_of_nat (unat w div 256), byte_of_nat (unat w)]"

definition be16_get :: "byte \<Rightarrow> byte \<Rightarrow> u16" where
  "be16_get b0 b1 = u16_of_nat (unat b0 * 256 + unat b1)"

definition be32_put :: "u32 \<Rightarrow> bytes" where
  "be32_put w =
     [byte_of_nat (unat w div 16777216), byte_of_nat (unat w div 65536),
      byte_of_nat (unat w div 256), byte_of_nat (unat w)]"

definition be32_get :: "byte \<Rightarrow> byte \<Rightarrow> byte \<Rightarrow> byte \<Rightarrow> u32" where
  "be32_get b0 b1 b2 b3 =
     u32_of_nat (unat b0 * 16777216 + unat b1 * 65536 + unat b2 * 256 + unat b3)"

text \<open>\<^verbatim>\<open>binary.BigEndian.Uint32(b)\<close> reads \<^verbatim>\<open>b[0..3]\<close> and panics when fewer are there.\<close>

definition go_uint32 :: "bytes \<Rightarrow> ('e, u32) outcome" where
  "go_uint32 bs =
     (if 4 \<le> length bs then Ok (be32_get (bs ! 0) (bs ! 1) (bs ! 2) (bs ! 3)) else Panic)"

declare go_uint32_def [go_defs]

lemma go_uint32_not_Fail [simp]: "go_uint32 bs \<noteq> Fail e"
  by (simp add: go_uint32_def)

lemma go_uint32_Panic: "go_uint32 bs = Panic \<longleftrightarrow> length bs < 4"
  by (auto simp: go_uint32_def)

lemma length_be_put [simp]: "length (be16_put w) = 2" "length (be32_put v) = 4"
  by (simp_all add: be16_put_def be32_put_def)

lemma be16_get_put [simp]: "be16_get (byte_of_nat (unat w div 256)) (byte_of_nat (unat w)) = w"
proof -
  have "unat w div 256 * 256 + unat w mod 256 = unat w" by presburger
  moreover have "unat w div 256 mod 256 = unat w div 256"
    using unat_u16_lt [of w] by (simp del: unat_u16_lt add: div_less_iff_less_mult)
  ultimately show ?thesis by (simp add: be16_get_def)
qed

lemma unat_be16_get: "unat (be16_get b0 b1) = unat b0 * 256 + unat b1"
proof -
  have "unat b0 * 256 + unat b1 < 65536"
    using unat_byte_lt [of b0] unat_byte_lt [of b1] by linarith
  then show ?thesis by (simp add: be16_get_def)
qed

lemma be16_put_get: "be16_put (be16_get b0 b1) = [b0, b1]"
  by (simp add: be16_put_def unat_be16_get byte_of_nat_eq_iff)

lemma be32_get_put [simp]:
  "be32_get (byte_of_nat (unat w div 16777216)) (byte_of_nat (unat w div 65536))
     (byte_of_nat (unat w div 256)) (byte_of_nat (unat w)) = w"
proof -
  have a: "unat w div 16777216 mod 256 = unat w div 16777216"
    using unat_u32_lt [of w] by (simp del: unat_u32_lt add: div_less_iff_less_mult)
  have "unat w div 16777216 * 16777216 + unat w div 65536 mod 256 * 65536
          + unat w div 256 mod 256 * 256 + unat w mod 256 = unat w"
  proof -
    have b: "unat w div 65536 div 256 = unat w div 16777216"
      and c: "unat w div 256 div 256 = unat w div 65536"
      by (simp_all add: div_mult2_eq [symmetric])
    have "unat w div 65536 = unat w div 16777216 * 256 + unat w div 65536 mod 256"
      using div_mult_mod_eq [of "unat w div 65536" 256] by (simp add: b)
    moreover have "unat w div 256 = unat w div 65536 * 256 + unat w div 256 mod 256"
      using div_mult_mod_eq [of "unat w div 256" 256] by (simp add: c)
    moreover have "unat w = unat w div 256 * 256 + unat w mod 256"
      by simp
    ultimately show ?thesis by linarith
  qed
  then show ?thesis by (simp add: be32_get_def a)
qed

lemma go_uint32_be32_put [simp]: "go_uint32 (be32_put w @ xs) = Ok w"
  by (simp add: go_uint32_def be32_put_def)

lemma be32_put_inject: "be32_put v = be32_put w \<longleftrightarrow> v = w"
proof
  assume "be32_put v = be32_put w"
  then have "go_uint32 (be32_put v @ []) = (go_uint32 (be32_put w @ []) :: (unit, u32) outcome)"
    by simp
  then show "v = w" by (simp only: go_uint32_be32_put outcome.inject)
qed simp

section \<open>Blocks\<close>

function chunks :: "nat \<Rightarrow> 'a list \<Rightarrow> 'a list list" where
  "chunks n xs = (if n = 0 \<or> xs = [] then [] else take n xs # chunks n (drop n xs))"
  by pat_completeness auto
termination
  by (relation "measure (\<lambda>(n, xs). length xs)") (auto simp: length_greater_0_conv)

declare chunks.simps [simp del]

lemma chunks_Nil [simp]: "chunks n [] = []"
  by (simp add: chunks.simps)

lemma chunks_append:
  assumes "0 < n" and "length b = n"
  shows "chunks n (b @ xs) = b # chunks n xs"
  using assms by (subst chunks.simps) auto

lemma concat_chunks: "0 < n \<Longrightarrow> concat (chunks n xs) = xs"
proof (induction n xs rule: chunks.induct)
  case (1 n xs)
  then show ?case by (cases "xs = []") (simp_all add: chunks.simps [of n xs])
qed

lemma length_in_chunks:
  assumes "n dvd length xs" and "c \<in> set (chunks n xs)"
  shows "length c = n"
  using assms
proof (induction n xs rule: chunks.induct)
  case (1 n xs)
  show ?case
  proof (cases "n = 0 \<or> xs = []")
    case True
    with "1.prems" show ?thesis by (auto simp: chunks.simps [of n xs])
  next
    case False
    with "1.prems"(1) have le: "n \<le> length xs" by (auto intro: dvd_imp_le)
    with "1.prems"(1) have "n dvd length (drop n xs)" by (simp add: dvd_minus_self)
    with "1.IH" False "1.prems"(2) le show ?thesis
      by (auto simp: chunks.simps [of n xs])
  qed
qed

lemma find_SomeD: "find P xs = Some x \<Longrightarrow> x \<in> set xs \<and> P x"
  by (auto simp: find_Some_iff)

section \<open>Iteration over Go maps\<close>

text \<open>
  The order in which \<^verbatim>\<open>range\<close> visits a Go map is unspecified. An operation that ranges over a
  map takes the visiting order as an argument; \<^verbatim>\<open>visits ks m\<close> says that \<open>ks\<close> is such an order
  (each key once).
\<close>

definition visits :: "'k list \<Rightarrow> ('k \<rightharpoonup> 'v) \<Rightarrow> bool" where
  "visits ks m \<longleftrightarrow> distinct ks \<and> set ks = dom m"

definition range_values :: "'k list \<Rightarrow> ('k \<rightharpoonup> 'v) \<Rightarrow> 'v list" where
  "range_values ks m = List.map_filter m ks"

lemma set_range_values: "visits ks m \<Longrightarrow> set (range_values ks m) = ran m"
  by (force simp: visits_def range_values_def List.map_filter_def ran_def dom_def)

lemma length_range_values: "visits ks m \<Longrightarrow> length (range_values ks m) = card (dom m)"
proof -
  assume v: "visits ks m"
  have "filter (\<lambda>x. m x \<noteq> None) ks = ks"
    using v by (auto simp: visits_def intro!: filter_True)
  then have "length (range_values ks m) = length ks"
    by (simp add: range_values_def List.map_filter_def)
  also have "\<dots> = card (dom m)"
    using v by (metis visits_def distinct_card)
  finally show ?thesis .
qed

section \<open>Machine integers and integer slices\<close>

text \<open>
  Go's \<^verbatim>\<open>int\<close> has 64 bits; arithmetic wraps around in two's complement.
\<close>

definition go_int :: "int \<Rightarrow> int" where
  "go_int n = (n + 2 ^ 63) mod 2 ^ 64 - 2 ^ 63"

lemma go_int_id [simp]: "- (2 ^ 63) \<le> n \<Longrightarrow> n < 2 ^ 63 \<Longrightarrow> go_int n = n"
  by (simp add: go_int_def)

lemma go_int_range: "- (2 ^ 63) \<le> go_int n" "go_int n < 2 ^ 63"
proof -
  have "(n + 2 ^ 63) mod 18446744073709551616 < 18446744073709551616"
    by (rule pos_mod_bound) simp
  then show "go_int n < 2 ^ 63" by (simp add: go_int_def)
qed (simp add: go_int_def)

text \<open>A slice expression whose bounds are signed integers.\<close>

definition go_slice_int :: "'a list \<Rightarrow> int \<Rightarrow> int \<Rightarrow> ('e, 'a list) outcome" where
  "go_slice_int xs lo hi =
     (if 0 \<le> lo \<and> lo \<le> hi \<and> hi \<le> int (length xs) then Ok (take (nat (hi - lo)) (drop (nat lo) xs))
      else Panic)"

declare go_slice_int_def [go_defs]

text \<open>A string between single quotes, as the format \<^verbatim>\<open>'%s'\<close> prints it.\<close>

definition quoted :: "string \<Rightarrow> string" where
  "quoted s = CHR 0x27 # s @ [CHR 0x27]"

section \<open>Finding in a map\<close>

text \<open>The first key, in the visiting order, whose value satisfies the condition.\<close>

definition range_find :: "'k list \<Rightarrow> ('k \<rightharpoonup> 'v) \<Rightarrow> ('v \<Rightarrow> bool) \<Rightarrow> 'k option" where
  "range_find ks m P = find (\<lambda>k. case m k of None \<Rightarrow> False | Some v \<Rightarrow> P v) ks"

lemma range_find_Some:
  "range_find ks m P = Some k \<Longrightarrow> \<exists>v. k \<in> set ks \<and> m k = Some v \<and> P v"
  by (auto simp: range_find_def dest!: find_SomeD split: option.splits)

lemma range_find_None:
  assumes "visits ks m"
  shows "range_find ks m P = None \<longleftrightarrow> (\<forall>v \<in> ran m. \<not> P v)"
  using assms by (auto simp: range_find_def find_None_iff visits_def ran_def dom_def split: option.splits)

lemma range_find_unique:
  assumes v: "visits ks m" and k: "m k = Some v" "P v"
    and u: "\<And>k' v'. m k' = Some v' \<Longrightarrow> P v' \<Longrightarrow> k' = k"
  shows "range_find ks m P = Some k"
proof (cases "range_find ks m P")
  case None
  with range_find_None [OF v, of P] k show ?thesis by (auto simp: ran_def)
next
  case (Some k')
  with range_find_Some [OF Some] u show ?thesis by auto
qed

section \<open>Splitting strings\<close>

text \<open>\<^verbatim>\<open>strings.Split(s, sep)\<close> for a separator of one character.\<close>

fun split_on :: "char \<Rightarrow> string \<Rightarrow> string list" where
  "split_on c [] = [[]]"
| "split_on c (x # xs) =
     (if x = c then [] # split_on c xs
      else case split_on c xs of [] \<Rightarrow> [[x]] | p # ps \<Rightarrow> (x # p) # ps)"

lemma split_on_not_Nil [simp]: "split_on c s \<noteq> []"
  by (induction s) (auto split: list.split)

lemma split_on_fresh: "c \<notin> set s \<Longrightarrow> split_on c s = [s]"
  by (induction s) auto

lemma split_on_append: "c \<notin> set s \<Longrightarrow> split_on c (s @ c # t) = s # split_on c t"
  by (induction s) auto

lemma length_split_on: "length (split_on c s) = Suc (count_list s c)"
  by (induction s) (auto split: list.splits)

text \<open>\<^verbatim>\<open>strings.Join(xs, sep)\<close>.\<close>

fun str_join :: "string \<Rightarrow> string list \<Rightarrow> string" where
  "str_join sep [] = []"
| "str_join sep [x] = x"
| "str_join sep (x # xs) = x @ sep @ str_join sep xs"

section \<open>Printing numbers\<close>

text \<open>The formats \<^verbatim>\<open>%d\<close> and \<^verbatim>\<open>strconv.Itoa\<close>.\<close>

fun show_nat :: "nat \<Rightarrow> string" where
  "show_nat n = (if n < 10 then [char_of (48 + n)] else show_nat (n div 10) @ [char_of (48 + n mod 10)])"

declare show_nat.simps [simp del]

definition show_int :: "int \<Rightarrow> string" where
  "show_int i = (if i < 0 then ''-'' @ show_nat (nat (- i)) else show_nat (nat i))"

section \<open>Comparing strings\<close>

text \<open>
  \<^verbatim>\<open>strings.ToLower\<close> and \<^verbatim>\<open>strings.EqualFold\<close> on ASCII letters; other characters are left as they are.
\<close>

definition lower_char :: "char \<Rightarrow> char" where
  "lower_char c = (let n = of_char c :: nat in if 65 \<le> n \<and> n \<le> 90 then char_of (n + 32) else c)"

definition ToLower :: "string \<Rightarrow> string" where
  "ToLower s = map lower_char s"

definition EqualFold :: "string \<Rightarrow> string \<Rightarrow> bool" where
  "EqualFold s t = (ToLower s = ToLower t)"

lemma lower_char_idem [simp]: "lower_char (lower_char c) = lower_char c"
  by (auto simp: lower_char_def Let_def of_char_of)

lemma ToLower_idem [simp]: "ToLower (ToLower s) = ToLower s"
  by (simp add: ToLower_def)

lemma ToLower_simps [simp]:
  "ToLower [] = []" "ToLower (c # s) = lower_char c # ToLower s" "ToLower (s @ t) = ToLower s @ ToLower t"
  by (simp_all add: ToLower_def)

lemma length_ToLower [simp]: "length (ToLower s) = length s"
  by (simp add: ToLower_def)

lemma lower_char_comma [simp]: "lower_char c = CHR '','' \<longleftrightarrow> c = CHR '',''"
proof
  assume l: "lower_char c = CHR '',''"
  show "c = CHR '',''"
  proof (cases "65 \<le> (of_char c :: nat) \<and> (of_char c :: nat) \<le> 90")
    case True
    then have "(of_char (lower_char c) :: nat) = of_char c + 32"
      by (simp add: lower_char_def Let_def of_char_of)
    with l True show ?thesis by simp
  next
    case False
    with l show ?thesis by (simp add: lower_char_def Let_def split: if_splits)
  qed
qed (simp add: lower_char_def)

section \<open>Reading numbers\<close>

definition is_space :: "char \<Rightarrow> bool" where
  "is_space c = ((of_char c :: nat) \<in> {9, 10, 11, 12, 13, 32})"

definition is_digit :: "char \<Rightarrow> bool" where
  "is_digit c = (48 \<le> (of_char c :: nat) \<and> (of_char c :: nat) \<le> 57)"

text \<open>
  \<^verbatim>\<open>fmt.Sscanf(s, "%d", &n)\<close>: leading blanks, an optional sign, digits, the rest ignored; \<open>None\<close> is an
  error.
\<close>

definition sscanf_int :: "string \<Rightarrow> int option" where
  "sscanf_int v =
     (let t = dropWhile (\<lambda>c. is_space c \<and> (of_char c :: nat) \<noteq> 10) v;
          (neg, u) = (case t of [] \<Rightarrow> (False, t)
                      | c # r \<Rightarrow> if c = CHR ''-'' then (True, r) else if c = CHR ''+'' then (False, r) else (False, t));
          ds = takeWhile is_digit u;
          n = foldl (\<lambda>a d. a * 10 + (of_char d - 48)) (0 :: int) ds;
          val = (if neg then - n else n)
      in if ds = [] \<or> val < - (2 ^ 63) \<or> 2 ^ 63 \<le> val then None else Some val)"

lemma show_nat_digits: "list_all is_digit (show_nat n) \<and> show_nat n \<noteq> []"
proof (induction n rule: show_nat.induct)
  case (1 n)
  have "is_digit (char_of (48 + m))" if "m < 10" for m :: nat
    using that by (simp add: is_digit_def of_char_of)
  with 1 show ?case by (subst (1 2) show_nat.simps) (auto simp: show_nat.simps)
qed

lemma of_char_int: "m < 256 \<Longrightarrow> (of_char (char_of m) :: int) = int m"
  by (subst of_nat_of_char [symmetric]) (simp add: of_char_of)

lemma foldl_show_nat:
  "foldl (\<lambda>a d. a * 10 + (of_char d - 48)) (0 :: int) (show_nat n) = int n"
proof (induction n rule: show_nat.induct)
  case (1 n)
  show ?case
  proof (cases "n < 10")
    case True
    then show ?thesis by (subst show_nat.simps) (simp add: of_char_int)
  next
    case False
    have "48 + n mod 10 < 256" by (simp add: add.commute less_imp_diff_less)
    moreover have "int (n div 10) * 10 + int (n mod 10) = int n"
      by (metis div_mult_mod_eq of_nat_add of_nat_mult of_nat_numeral)
    ultimately show ?thesis using False 1 by (subst show_nat.simps) (simp add: of_char_int)
  qed
qed

text \<open>Printing a number and reading it back gives the number.\<close>

lemma sscanf_show_nat: "int n < 2 ^ 63 \<Longrightarrow> sscanf_int (show_nat n) = Some (int n)"
proof -
  assume n: "int n < 2 ^ 63"
  obtain c cs where s: "show_nat n = c # cs" using show_nat_digits [of n] by (cases "show_nat n") auto
  with show_nat_digits [of n] have c: "is_digit c" by simp
  then have nb: "\<not> is_space c" "c \<noteq> CHR ''-''" "c \<noteq> CHR ''+''" by (auto simp: is_digit_def is_space_def)
  have "takeWhile is_digit (show_nat n) = show_nat n"
    using show_nat_digits [of n] by (simp add: list_all_iff takeWhile_eq_all_conv)
  then have tw: "takeWhile is_digit (c # cs) = c # cs" by (simp only: s)
  have fl: "foldl (\<lambda>a d. a * 10 + (of_char d - 48)) (0 :: int) (c # cs) = int n" using foldl_show_nat [of n] by (simp only: s)
  have "sscanf_int (c # cs) = Some (int n)"
    unfolding sscanf_int_def Let_def using nb n
    by (simp only: dropWhile.simps if_False simp_thms list.case prod.case tw fl) simp
  then show ?thesis by (simp only: s)
qed

lemma sscanf_show_int: "0 \<le> n \<Longrightarrow> n < 2 ^ 63 \<Longrightarrow> sscanf_int (show_int n) = Some n"
  using sscanf_show_nat [of "nat n"] by (simp add: show_int_def)

lemma show_int_inject: "0 \<le> m \<Longrightarrow> m < 2 ^ 63 \<Longrightarrow> 0 \<le> n \<Longrightarrow> n < 2 ^ 63 \<Longrightarrow> show_int m = show_int n \<longleftrightarrow> m = n"
  by (metis option.inject sscanf_show_int)

end
