(* ===== verification/Digest_MD5.thy ===== *)
theory Digest_MD5
  imports Prelude
begin

text \<open>
  The MD5 digest of the Go standard library (\<^verbatim>\<open>crypto/md5\<close>, RFC 1321), which the RADIUS code
  uses for the response authenticator, for hiding passwords and for CHAP. The definition is
  executable.
\<close>

section \<open>Words\<close>

definition le32_put :: "u32 \<Rightarrow> bytes" where
  "le32_put w = rev (be32_put w)"

fun le32_words :: "bytes \<Rightarrow> u32 list" where
  "le32_words (b0 # b1 # b2 # b3 # bs) = be32_get b3 b2 b1 b0 # le32_words bs"
| "le32_words bs = []"

definition rotl32 :: "u32 \<Rightarrow> nat \<Rightarrow> u32" where
  "rotl32 w n = push_bit n w OR drop_bit (32 - n) w"

lemma length_le32_put [simp]: "length (le32_put w) = 4"
  by (simp add: le32_put_def)

section \<open>Tables\<close>

definition md5_K :: "u32 list" where
  "md5_K =
     [0xd76aa478, 0xe8c7b756, 0x242070db, 0xc1bdceee,
      0xf57c0faf, 0x4787c62a, 0xa8304613, 0xfd469501,
      0x698098d8, 0x8b44f7af, 0xffff5bb1, 0x895cd7be,
      0x6b901122, 0xfd987193, 0xa679438e, 0x49b40821,
      0xf61e2562, 0xc040b340, 0x265e5a51, 0xe9b6c7aa,
      0xd62f105d, 0x02441453, 0xd8a1e681, 0xe7d3fbc8,
      0x21e1cde6, 0xc33707d6, 0xf4d50d87, 0x455a14ed,
      0xa9e3e905, 0xfcefa3f8, 0x676f02d9, 0x8d2a4c8a,
      0xfffa3942, 0x8771f681, 0x6d9d6122, 0xfde5380c,
      0xa4beea44, 0x4bdecfa9, 0xf6bb4b60, 0xbebfbc70,
      0x289b7ec6, 0xeaa127fa, 0xd4ef3085, 0x04881d05,
      0xd9d4d039, 0xe6db99e5, 0x1fa27cf8, 0xc4ac5665,
      0xf4292244, 0x432aff97, 0xab9423a7, 0xfc93a039,
      0x655b59c3, 0x8f0ccc92, 0xffeff47d, 0x85845dd1,
      0x6fa87e4f, 0xfe2ce6e0, 0xa3014314, 0x4e0811a1,
      0xf7537e82, 0xbd3af235, 0x2ad7d2bb, 0xeb86d391]"

definition md5_S :: "nat list" where
  "md5_S = concat (replicate 4 [7, 12, 17, 22]) @ concat (replicate 4 [5, 9, 14, 20])
     @ concat (replicate 4 [4, 11, 16, 23]) @ concat (replicate 4 [6, 10, 15, 21])"

section \<open>Compression\<close>

type_synonym md5_state = "u32 \<times> u32 \<times> u32 \<times> u32"

definition md5_step :: "u32 list \<Rightarrow> nat \<times> u32 \<times> nat \<Rightarrow> md5_state \<Rightarrow> md5_state" where
  "md5_step M = (\<lambda>(i, k, s) (a, b, c, d).
     let f = (if i < 16 then (b AND c) OR (NOT b AND d)
              else if i < 32 then (d AND b) OR (NOT d AND c)
              else if i < 48 then b XOR c XOR d
              else c XOR (b OR NOT d));
         g = (if i < 16 then i
              else if i < 32 then (5 * i + 1) mod 16
              else if i < 48 then (3 * i + 5) mod 16
              else (7 * i) mod 16)
     in (d, b + rotl32 (a + f + k + M ! g) s, b, c))"

definition md5_block :: "bytes \<Rightarrow> md5_state \<Rightarrow> md5_state" where
  "md5_block blk = (\<lambda>(a0, b0, c0, d0).
     case fold (md5_step (le32_words blk)) (zip [0..<64] (zip md5_K md5_S)) (a0, b0, c0, d0) of
       (a, b, c, d) \<Rightarrow> (a0 + a, b0 + b, c0 + c, d0 + d))"

definition md5_pad :: "bytes \<Rightarrow> bytes" where
  "md5_pad msg = msg @ [0x80] @ replicate ((119 - length msg mod 64) mod 64) 0
     @ map (\<lambda>i. byte_of_nat (8 * length msg div 256 ^ i)) [0..<8]"

definition md5 :: "bytes \<Rightarrow> bytes" where
  "md5 msg =
     (case fold md5_block (chunks 64 (md5_pad msg)) (0x67452301, 0xefcdab89, 0x98badcfe, 0x10325476) of
        (a, b, c, d) \<Rightarrow> le32_put a @ le32_put b @ le32_put c @ le32_put d)"

lemma length_md5 [simp]: "length (md5 msg) = 16"
  by (simp add: md5_def split: prod.split)

text \<open>The padded message is a whole number of 64-byte blocks.\<close>

lemma md5_pad_blocks: "64 dvd length (md5_pad msg)"
proof -
  have "length msg mod 64 < 64" by simp
  then have m: "length msg mod 64 + 9 + (119 - length msg mod 64) = 128" by linarith
  have "(length msg + 9 + (119 - length msg mod 64) mod 64) mod 64
      = (length msg mod 64 + 9 + (119 - length msg mod 64)) mod 64"
    by (metis mod_add_left_eq mod_add_right_eq)
  also have "\<dots> = 0" unfolding m by simp
  finally have "64 dvd (length msg + 9 + (119 - length msg mod 64) mod 64)"
    by (simp only: dvd_eq_mod_eq_0)
  moreover have "length (md5_pad msg) = length msg + 9 + (119 - length msg mod 64) mod 64"
    by (simp add: md5_pad_def)
  ultimately show ?thesis by simp
qed

end
