(* ===== verification/Radius_Packet.thy ===== *)
theory Radius_Packet
  imports Prelude Digest_MD5
begin

text \<open>
  The RADIUS packet of \<^verbatim>\<open>internal/protocol/radius/packet.go\<close>: the wire format, its parser and
  serialiser, attribute access, and the response authenticator. A packet is parsed from and encoded to
  a byte list; parse errors are \<^verbatim>\<open>Fail\<close>, out-of-range slices are \<^verbatim>\<open>Panic\<close>.
\<close>

section \<open>Data\<close>

definition CodeAccessRequest :: byte where "CodeAccessRequest = 1"
definition CodeAccessAccept :: byte where "CodeAccessAccept = 2"
definition CodeAccessReject :: byte where "CodeAccessReject = 3"
definition CodeAccountingRequest :: byte where "CodeAccountingRequest = 4"
definition CodeAccountingResponse :: byte where "CodeAccountingResponse = 5"
definition CodeAccessChallenge :: byte where "CodeAccessChallenge = 11"
definition MaxPacketSize :: nat where "MaxPacketSize = 4096"
definition HeaderSize :: nat where "HeaderSize = 20"

lemmas packet_codes = CodeAccessRequest_def CodeAccessAccept_def CodeAccessReject_def
  CodeAccountingRequest_def CodeAccountingResponse_def CodeAccessChallenge_def

record Attribute =
  AType :: byte
  ALength :: byte
  AValue :: bytes

text \<open>\<^verbatim>\<open>Authenticator\<close> is a 16-byte array in Go: see \<^verbatim>\<open>wf_packet\<close> below.\<close>

record Packet =
  Code :: byte
  Identifier :: byte
  PLength :: u16
  PAuthenticator :: bytes
  Attributes :: "Attribute list"
  Secret :: bytes

type_synonym 'a radius_result = "(string, 'a) outcome"

section \<open>Parsing\<close>

text \<open>The loop of \<^verbatim>\<open>parseAttributes\<close>: \<open>offset\<close> walks over \<open>data\<close>, \<open>attrs\<close> grows at its end.\<close>

function parseAttributes_loop :: "bytes \<Rightarrow> nat \<Rightarrow> Attribute list \<Rightarrow> Attribute list radius_result" where
  "parseAttributes_loop data offset attrs =
     (if offset < length data then
        if length data - offset < 2 then Ok attrs
        else
          let attrType = data ! offset; attrLen = data ! (offset + 1) in
          if attrLen < 2 then Fail ''invalid attribute length''
          else if offset + unat attrLen > length data then Fail ''attribute length overflow''
          else parseAttributes_loop data (offset + unat attrLen)
                 (attrs @ [\<lparr>AType = attrType, ALength = attrLen,
                            AValue = take (unat attrLen - 2) (drop (offset + 2) data)\<rparr>])
      else Ok attrs)"
  by pat_completeness auto
termination
proof (relation "measure (\<lambda>(data, offset, attrs). length data - offset)", goal_cases)
  case 1
  show ?case by simp
next
  case (2 data offset attrs attrType attrLen)
  then have "2 \<le> unat attrLen"
    by (simp add: word_less_nat_alt not_less)
  with 2 show ?case by simp
qed

declare parseAttributes_loop.simps [simp del]

definition parseAttributes :: "bytes \<Rightarrow> Attribute list radius_result" where
  "parseAttributes data = parseAttributes_loop data 0 []"

definition ParsePacket :: "bytes \<Rightarrow> bytes \<Rightarrow> Packet radius_result" where
  "ParsePacket data secret =
     (if length data < HeaderSize then Fail ''packet too short''
      else
        let packet = \<lparr>Code = data ! 0, Identifier = data ! 1,
                      PLength = be16_get (data ! 2) (data ! 3),
                      PAuthenticator = take 16 (drop 4 data),
                      Attributes = [], Secret = secret\<rparr>
        in if unat (PLength packet) > length data then Fail ''invalid length''
           else obind (go_slice data 20 (unat (PLength packet))) (\<lambda>body.
                obind (parseAttributes body) (\<lambda>attrs.
                Ok (packet\<lparr>Attributes := attrs\<rparr>))))"

section \<open>Encoding\<close>

definition encode_attr :: "Attribute \<Rightarrow> bytes" where
  "encode_attr a = AType a # ALength a # AValue a"

definition encode_attrs :: "Attribute list \<Rightarrow> bytes" where
  "encode_attrs attrs = concat (map encode_attr attrs)"

text \<open>
  \<^verbatim>\<open>Encode\<close> writes a zero length first and patches bytes 2 and 3 at the end with the length of the
  buffer, taken modulo \<open>2^16\<close>. It never returns an error.
\<close>

definition Encode :: "Packet \<Rightarrow> bytes" where
  "Encode p =
     (let buf = [Code p, Identifier p] @ be16_put 0 @ PAuthenticator p @ encode_attrs (Attributes p);
          len = be16_put (u16_of_nat (length buf))
      in buf[2 := len ! 0, 3 := len ! 1])"

section \<open>Attributes and responses\<close>

definition GetAttribute :: "Packet \<Rightarrow> byte \<Rightarrow> Attribute option" where
  "GetAttribute p attrType = find (\<lambda>a. AType a = attrType) (Attributes p)"

definition GetString :: "Packet \<Rightarrow> byte \<Rightarrow> string" where
  "GetString p attrType =
     (case GetAttribute p attrType of None \<Rightarrow> '''' | Some a \<Rightarrow> string_of (AValue a))"

definition AddAttribute :: "byte \<Rightarrow> bytes \<Rightarrow> Packet \<Rightarrow> Packet" where
  "AddAttribute attrType v p =
     p\<lparr>Attributes := Attributes p @
        [\<lparr>AType = attrType, ALength = byte_of_nat (2 + length v), AValue = v\<rparr>]\<rparr>"

definition CreateResponse :: "Packet \<Rightarrow> byte \<Rightarrow> Packet" where
  "CreateResponse p c =
     \<lparr>Code = c, Identifier = Identifier p, PLength = 0, PAuthenticator = replicate 16 0,
      Attributes = [], Secret = Secret p\<rparr>"

definition CalculateResponseAuthenticator :: "Packet \<Rightarrow> bytes \<Rightarrow> bytes" where
  "CalculateResponseAuthenticator p requestAuth =
     (let encoded = Encode p;
          encoded' = take 4 encoded @ requestAuth @ drop 20 encoded
      in md5 (encoded' @ Secret p))"

section \<open>Reference parser\<close>

text \<open>
  The type-length-value grammar by recursion on the remaining bytes. \<^verbatim>\<open>parseAttributes\<close>, which
  works with offsets into one array, computes the same result, errors included.
\<close>

function parse_tlv :: "bytes \<Rightarrow> Attribute list radius_result" where
  "parse_tlv [] = Ok []"
| "parse_tlv [b] = Ok []"
| "parse_tlv (t # l # rest) =
     (if l < 2 then Fail ''invalid attribute length''
      else if unat l - 2 > length rest then Fail ''attribute length overflow''
      else obind (parse_tlv (drop (unat l - 2) rest)) (\<lambda>as.
           Ok (\<lparr>AType = t, ALength = l, AValue = take (unat l - 2) rest\<rparr> # as)))"
  by pat_completeness auto
termination
  by (relation "measure length") auto

definition wf_attr :: "Attribute \<Rightarrow> bool" where
  "wf_attr a \<longleftrightarrow> unat (ALength a) = 2 + length (AValue a)"

definition wf_packet :: "Packet \<Rightarrow> bool" where
  "wf_packet p \<longleftrightarrow> length (PAuthenticator p) = 16 \<and> list_all wf_attr (Attributes p)
     \<and> HeaderSize + length (encode_attrs (Attributes p)) < 2 ^ 16"

lemma byte_less_2 [simp]: "(l :: byte) < 2 \<longleftrightarrow> unat l < 2"
  by (simp add: word_less_nat_alt)

lemma encode_attrs_simps [simp]:
  "encode_attrs [] = []"
  "encode_attrs (a # as) = encode_attr a @ encode_attrs as"
  "encode_attrs (as @ bs) = encode_attrs as @ encode_attrs bs"
  by (simp_all add: encode_attrs_def)

lemma length_encode_attr [simp]: "length (encode_attr a) = 2 + length (AValue a)"
  by (simp add: encode_attr_def)

lemma parse_tlv_not_Panic [simp]: "parse_tlv xs \<noteq> Panic"
  by (induction xs rule: parse_tlv.induct) (auto simp: obind_eq_Panic)

lemma drop_two:
  assumes "offset < length data" and "\<not> length data - offset < 2"
  shows "drop offset data = data ! offset # data ! (offset + 1) # drop (offset + 2) data"
  using assms by (simp add: Cons_nth_drop_Suc)

lemma parseAttributes_loop_tlv:
  "parseAttributes_loop data offset attrs = obind (parse_tlv (drop offset data)) (\<lambda>as. Ok (attrs @ as))"
proof (induction data offset attrs rule: parseAttributes_loop.induct)
  case (1 data offset attrs)
  consider (fin) "length data \<le> offset" | (one) "offset < length data" "length data - offset < 2"
    | (more) "offset < length data" "\<not> length data - offset < 2" by linarith
  then show ?case
  proof cases
    case fin
    then show ?thesis by (simp add: parseAttributes_loop.simps [of data offset attrs])
  next
    case one
    then have "drop offset data = [data ! offset]"
      by (simp add: Cons_nth_drop_Suc [symmetric])
    with one show ?thesis by (simp add: parseAttributes_loop.simps [of data offset attrs])
  next
    case more
    show ?thesis
    proof (cases "unat (data ! (offset + 1)) < 2 \<or> length data < offset + unat (data ! (offset + 1))")
      case True
      with more show ?thesis
        by (auto simp: parseAttributes_loop.simps [of data offset attrs] drop_two Let_def)
    next
      case False
      define l where "l = data ! (offset + 1)"
      define a where "a = \<lparr>AType = data ! offset, ALength = l,
        AValue = take (unat l - 2) (drop (offset + 2) data)\<rparr>"
      have l: "\<not> unat l < 2" "\<not> length data < offset + unat l" using False by (simp_all add: l_def)
      then have d: "unat l - 2 + (offset + 2) = offset + unat l" "\<not> length data - (offset + 2) < unat l - 2"
        by linarith+
      have "parse_tlv (drop offset data)
          = obind (parse_tlv (drop (offset + unat l) data)) (\<lambda>as. Ok (a # as))"
        unfolding drop_two [OF more] l_def [symmetric] parse_tlv.simps(3) drop_drop d(1)
        using l d(2) by (simp add: a_def)
      moreover have "parseAttributes_loop data offset attrs
          = parseAttributes_loop data (offset + unat l) (attrs @ [a])"
        using more l by (simp add: parseAttributes_loop.simps [of data offset attrs] Let_def l_def a_def)
      moreover have "parseAttributes_loop data (offset + unat l) (attrs @ [a])
          = obind (parse_tlv (drop (offset + unat l) data)) (\<lambda>as. Ok ((attrs @ [a]) @ as))"
        using "1.IH" [OF more refl refl] l by (simp add: l_def a_def)
      ultimately show ?thesis
        by (cases "parse_tlv (drop (offset + unat l) data)") simp_all
    qed
  qed
qed

lemma parseAttributes_tlv: "parseAttributes data = parse_tlv data"
  by (cases "parse_tlv data") (simp_all add: parseAttributes_def parseAttributes_loop_tlv)

lemma parse_tlv_encode: "list_all wf_attr as \<Longrightarrow> parse_tlv (encode_attrs as) = Ok as"
proof (induction as)
  case Nil
  then show ?case by simp
next
  case (Cons a as)
  then have "unat (ALength a) = 2 + length (AValue a)" by (simp add: wf_attr_def)
  with Cons show ?case by (simp add: encode_attr_def)
qed

lemma parse_tlv_Ok:
  assumes "parse_tlv xs = Ok as"
  shows "list_all wf_attr as \<and> (\<exists>junk. xs = encode_attrs as @ junk \<and> length junk \<le> 1)"
  using assms
proof (induction xs arbitrary: as rule: parse_tlv.induct)
  case (3 t l rest)
  from "3.prems" obtain as' where l: "\<not> unat l < 2" "unat l - 2 \<le> length rest"
    and rec: "parse_tlv (drop (unat l - 2) rest) = Ok as'"
    and as: "as = \<lparr>AType = t, ALength = l, AValue = take (unat l - 2) rest\<rparr> # as'"
    by (auto simp: obind_eq_Ok split: if_splits)
  from "3.IH" rec l obtain junk where
    "list_all wf_attr as'" "drop (unat l - 2) rest = encode_attrs as' @ junk" "length junk \<le> 1"
    by auto
  moreover have "rest = take (unat l - 2) rest @ drop (unat l - 2) rest" by simp
  moreover have "wf_attr \<lparr>AType = t, ALength = l, AValue = take (unat l - 2) rest\<rparr>"
    using l by (simp add: wf_attr_def)
  ultimately show ?case by (auto simp: as encode_attr_def)
qed simp_all

section \<open>Encoded packets\<close>

lemma patch_length: "(a # b # [c, d] @ xs)[2 := u, 3 := v] = a # b # u # v # xs"
  by (simp add: numeral_eq_Suc)

lemma be16_put_pair: "be16_put w = [be16_put w ! 0, be16_put w ! 1]"
  by (simp add: be16_put_def)

lemma Encode_layout:
  "Encode p = Code p # Identifier p #
     be16_put (u16_of_nat (4 + length (PAuthenticator p) + length (encode_attrs (Attributes p))))
     @ PAuthenticator p @ encode_attrs (Attributes p)"
proof -
  define len where
    "len = be16_put (u16_of_nat (4 + length (PAuthenticator p) + length (encode_attrs (Attributes p))))"
  have "Encode p = (Code p # Identifier p # [be16_put 0 ! 0, be16_put 0 ! 1]
      @ PAuthenticator p @ encode_attrs (Attributes p))[2 := len ! 0, 3 := len ! 1]"
  proof -
    have L: "length ([Code p, Identifier p] @ be16_put 0 @ PAuthenticator p @ encode_attrs (Attributes p))
        = 4 + length (PAuthenticator p) + length (encode_attrs (Attributes p))" by simp
    show ?thesis
      unfolding be16_put_pair [of 0, symmetric] Encode_def Let_def L len_def by simp
  qed
  also have "\<dots> = Code p # Identifier p # [len ! 0, len ! 1] @ PAuthenticator p @ encode_attrs (Attributes p)"
    unfolding patch_length by simp
  also have "[len ! 0, len ! 1] = len"
    unfolding len_def by (rule be16_put_pair [symmetric])
  finally show ?thesis by (simp only: len_def)
qed

lemma length_Encode:
  "length (Encode p) = 4 + length (PAuthenticator p) + length (encode_attrs (Attributes p))"
  by (simp add: Encode_layout)

lemma ParsePacket_header:
  assumes "length auth = 16"
  shows "ParsePacket (c # i # be16_put w @ auth @ body) secret =
    (if 20 + length body < unat w then Fail ''invalid length''
     else if unat w < 20 then Panic
     else obind (parse_tlv (take (unat w - 20) body)) (\<lambda>attrs.
       Ok \<lparr>Code = c, Identifier = i, PLength = w, PAuthenticator = auth,
           Attributes = attrs, Secret = secret\<rparr>))"
proof -
  have body: "drop 20 (c # i # be16_put w @ auth @ body) = body"
  proof -
    have "length (c # i # be16_put w @ auth) = 20" using assms by simp
    then have "drop 20 ((c # i # be16_put w @ auth) @ body) = body" by (metis append_eq_conv_conj)
    then show ?thesis by simp
  qed
  have auth: "take 16 (drop 4 (c # i # be16_put w @ auth @ body)) = auth"
    using assms by (simp add: be16_put_def)
  have len: "be16_get ((c # i # be16_put w @ auth @ body) ! 2) ((c # i # be16_put w @ auth @ body) ! 3) = w"
    by (simp add: be16_put_def)
  show ?thesis
    using assms unfolding ParsePacket_def Let_def auth len
    by (auto simp: HeaderSize_def go_slice_def body parseAttributes_tlv)
qed

lemma packet_bytes_split:
  assumes "20 \<le> length data"
  obtains c i w auth body where "data = c # i # be16_put w @ auth @ body" "length auth = 16"
    "w = be16_get (data ! 2) (data ! 3)"
proof -
  from assms obtain c i b0 b1 rest where d: "data = c # i # b0 # b1 # rest" and r: "16 \<le> length rest"
    by (cases data; cases "tl data"; cases "tl (tl data)"; cases "tl (tl (tl data))") auto
  show ?thesis
  proof (rule that)
    show "data = c # i # be16_put (be16_get b0 b1) @ take 16 rest @ drop 16 rest"
      by (simp add: d be16_put_get)
    show "length (take 16 rest) = 16" using r by simp
    show "be16_get b0 b1 = be16_get (data ! 2) (data ! 3)" by (simp add: d)
  qed
qed

lemma wf_packet_length:
  assumes "wf_packet p"
  shows "unat (u16_of_nat (20 + length (encode_attrs (Attributes p)))) = 20 + length (encode_attrs (Attributes p))"
  using assms by (simp add: wf_packet_def HeaderSize_def)

lemma Encode_wf:
  assumes "length (PAuthenticator p) = 16"
  shows "Encode p = Code p # Identifier p # be16_put (u16_of_nat (20 + length (encode_attrs (Attributes p))))
     @ PAuthenticator p @ encode_attrs (Attributes p)"
  by (simp only: Encode_layout assms) simp

lemma wf_packet_AddAttribute:
  assumes "wf_packet p" and "length v \<le> 253"
    and "HeaderSize + length (encode_attrs (Attributes p)) + 2 + length v < 2 ^ 16"
  shows "wf_packet (AddAttribute t v p)"
  using assms by (simp add: wf_packet_def wf_attr_def AddAttribute_def encode_attr_def)

lemma wf_packet_CreateResponse [simp]: "wf_packet (CreateResponse p c)"
  by (simp add: wf_packet_def CreateResponse_def HeaderSize_def)

lemma length_CalculateResponseAuthenticator [simp]:
  "length (CalculateResponseAuthenticator p ra) = 16"
  by (simp add: CalculateResponseAuthenticator_def Let_def)

lemma ParsePacket_secret: "ParsePacket data s = Ok p \<Longrightarrow> Secret p = s"
  by (auto simp: ParsePacket_def Let_def obind_eq_Ok split: if_splits)

lemma parse_encode_packet:
  assumes "wf_packet p"
  shows "ParsePacket (Encode p) s =
    Ok (p\<lparr>PLength := u16_of_nat (20 + length (encode_attrs (Attributes p))), Secret := s\<rparr>)"
proof -
  have a: "length (PAuthenticator p) = 16" and w: "list_all wf_attr (Attributes p)"
    using assms by (simp_all add: wf_packet_def)
  show ?thesis
    unfolding Encode_wf [OF a] ParsePacket_header [OF a] wf_packet_length [OF assms]
    by (simp add: parse_tlv_encode [OF w])
qed

lemma parse_panic_iff:
  "ParsePacket data s = Panic \<longleftrightarrow> 20 \<le> length data \<and> unat (be16_get (data ! 2) (data ! 3)) < 20"
proof (cases "20 \<le> length data")
  case True
  then obtain c i w auth body where d: "data = c # i # be16_put w @ auth @ body" "length auth = 16"
    and w: "w = be16_get (data ! 2) (data ! 3)" by (rule packet_bytes_split)
  show ?thesis
    unfolding w [symmetric] unfolding d(1) ParsePacket_header [OF d(2)]
    by (auto simp: obind_eq_Panic d(2))
next
  case False
  then show ?thesis by (simp add: ParsePacket_def HeaderSize_def)
qed

section \<open>Properties\<close>

text \<open>
  C1: parsing what \<^verbatim>\<open>Encode\<close> wrote gives the packet back, with its \<^verbatim>\<open>Length\<close> field filled in and
  the secret of the parsing side, for every packet whose attribute length bytes are right and whose size
  fits the 16-bit length field.
\<close>

theorem ParsePacket_Encode:
  assumes "wf_packet p"
  shows "ParsePacket (Encode p) s =
    Ok (p\<lparr>PLength := u16_of_nat (20 + length (encode_attrs (Attributes p))), Secret := s\<rparr>)"
  using assms by (rule parse_encode_packet)

theorem ParsePacket_Encode_witness:
  "ParsePacket (Encode (AddAttribute 1 (bytes_of ''bob'')
      \<lparr>Code = 1, Identifier = 7, PLength = 0, PAuthenticator = replicate 16 3, Attributes = [], Secret = []\<rparr>)) [9]
   = Ok \<lparr>Code = 1, Identifier = 7, PLength = 25, PAuthenticator = replicate 16 3,
         Attributes = [\<lparr>AType = 1, ALength = 5, AValue = bytes_of ''bob''\<rparr>], Secret = [9]\<rparr>"
proof -
  have "wf_packet (AddAttribute 1 (bytes_of ''bob'')
      \<lparr>Code = 1, Identifier = 7, PLength = 0, PAuthenticator = replicate 16 3, Attributes = [], Secret = []\<rparr>)"
    by (rule wf_packet_AddAttribute) (simp_all add: wf_packet_def HeaderSize_def)
  from ParsePacket_Encode [OF this, of "[9]"] show ?thesis
    by (simp add: AddAttribute_def u16_of_nat_def byte_of_nat_def)
qed

text \<open>
  C2: a packet that is accepted is well formed, its length field lies between the header size and the
  number of bytes received, and the declared bytes are its serialisation, except for at most one
  trailing byte, which the attribute loop ignores.
\<close>

theorem ParsePacket_sound:
  assumes "ParsePacket data s = Ok p"
  shows "wf_packet p \<and> Secret p = s \<and> 20 \<le> unat (PLength p) \<and> unat (PLength p) \<le> length data
    \<and> (\<exists>junk. length junk \<le> 1 \<and>
         take (unat (PLength p)) data
           = Code p # Identifier p # be16_put (PLength p) @ PAuthenticator p @ encode_attrs (Attributes p) @ junk)"
proof -
  have "20 \<le> length data" using assms by (auto simp: ParsePacket_def HeaderSize_def split: if_splits)
  then obtain c i w auth body where d: "data = c # i # be16_put w @ auth @ body" "length auth = 16"
    by (rule packet_bytes_split)
  from assms have w: "unat w \<le> 20 + length body" "20 \<le> unat w"
    and "obind (parse_tlv (take (unat w - 20) body)) (\<lambda>attrs. Ok \<lparr>Code = c, Identifier = i, PLength = w,
           PAuthenticator = auth, Attributes = attrs, Secret = s\<rparr>) = Ok p"
    unfolding d(1) ParsePacket_header [OF d(2)] by (auto split: if_splits)
  then obtain attrs where tlv: "parse_tlv (take (unat w - 20) body) = Ok attrs"
    and p: "p = \<lparr>Code = c, Identifier = i, PLength = w, PAuthenticator = auth, Attributes = attrs, Secret = s\<rparr>"
    by (auto simp: obind_eq_Ok)
  from parse_tlv_Ok [OF tlv] obtain junk where wf: "list_all wf_attr attrs"
    and b: "take (unat w - 20) body = encode_attrs attrs @ junk" and j: "length junk \<le> 1" by auto
  have "take (unat w) data = c # i # be16_put w @ auth @ take (unat w - 20) body"
  proof -
    have "length (c # i # be16_put w @ auth) = 20" by (simp add: d(2))
    then have "take (unat w) ((c # i # be16_put w @ auth) @ body)
        = (c # i # be16_put w @ auth) @ take (unat w - 20) body"
      using w(2) by (simp only: take_append take_all)
    then show ?thesis by (simp add: d(1))
  qed
  moreover have "20 + length (encode_attrs attrs) < 2 ^ 16"
  proof -
    have "length (encode_attrs attrs) \<le> unat w - 20" using arg_cong [OF b, of length] by simp
    then have "20 + length (encode_attrs attrs) < 65536" using unat_u16_lt [of w] w(2) by linarith
    then show ?thesis by simp
  qed
  ultimately show ?thesis
    using wf w j by (auto simp: p b wf_packet_def d HeaderSize_def)
qed

theorem ParsePacket_sound_witness:
  "\<exists>p. ParsePacket ([1, 7, 0, 25] @ replicate 16 3 @ [1, 4, 65, 66, 9]) [9] = Ok p \<and> wf_packet p
     \<and> 20 \<le> unat (PLength p)"
proof -
  have "ParsePacket ([1, 7, 0, 25] @ replicate 16 3 @ [1, 4, 65, 66, 9]) [9]
      = Ok \<lparr>Code = 1, Identifier = 7, PLength = 25, PAuthenticator = replicate 16 3,
            Attributes = [\<lparr>AType = 1, ALength = 4, AValue = [65, 66]\<rparr>], Secret = [9]\<rparr>"
    by code_simp
  then show ?thesis using ParsePacket_sound by blast
qed

text \<open>
  Exactly the datagrams of at least 20 bytes whose length field is below 20 make
  \<^verbatim>\<open>ParsePacket\<close> panic, on the slice expression \<^verbatim>\<open>data[20:packet.Length]\<close>: the length field is compared with the
  size of the datagram but not with the header size.
\<close>

theorem ParsePacket_Panic_iff:
  "ParsePacket data s = Panic \<longleftrightarrow> 20 \<le> length data \<and> unat (be16_get (data ! 2) (data ! 3)) < 20"
  by (rule parse_panic_iff)

text \<open>
  The offset-based attribute loop computes the type-length-value grammar, errors included, and
  therefore terminates on every input without a panic.
\<close>

theorem parseAttributes_refines_tlv: "parseAttributes data = parse_tlv data \<and> parseAttributes data \<noteq> Panic"
  by (simp add: parseAttributes_tlv)

text \<open>
  \<^verbatim>\<open>AddAttribute\<close> writes a correct length byte exactly for values of at most 253 bytes; a longer
  value wraps the byte.
\<close>

theorem AddAttribute_length_byte:
  "list_all wf_attr (Attributes (AddAttribute t v p)) \<longleftrightarrow> list_all wf_attr (Attributes p) \<and> length v \<le> 253"
proof -
  have "(2 + length v) mod 256 = 2 + length v \<longleftrightarrow> length v \<le> 253"
    using mod_less_divisor [of 256 "2 + length v"] by (cases "length v \<le> 253") (simp, linarith)
  then show ?thesis by (simp add: AddAttribute_def wf_attr_def)
qed

end
