(* ===== verification/Radius_Attributes.thy ===== *)
theory Radius_Attributes
  imports Radius_Packet
begin

text \<open>
  The attribute codec of \<^verbatim>\<open>internal/protocol/radius/attributes.go\<close>: attribute numbers, the
  dictionary, the hiding of the \<^verbatim>\<open>User-Password\<close> attribute (RFC 2865, section 5.2) and the
  vendor-specific attribute. The password loops are the source's index loops; they are related to a
  recursion over 16-byte blocks, on which the round trip is proved.
\<close>

section \<open>Attribute numbers\<close>

definition AttrUserName :: byte where "AttrUserName = 1"
definition AttrUserPassword :: byte where "AttrUserPassword = 2"
definition AttrCHAPPassword :: byte where "AttrCHAPPassword = 3"
definition AttrNASIPAddress :: byte where "AttrNASIPAddress = 4"
definition AttrNASPort :: byte where "AttrNASPort = 5"
definition AttrServiceType :: byte where "AttrServiceType = 6"
definition AttrFramedProtocol :: byte where "AttrFramedProtocol = 7"
definition AttrFramedIPAddress :: byte where "AttrFramedIPAddress = 8"
definition AttrFramedIPNetmask :: byte where "AttrFramedIPNetmask = 9"
definition AttrFramedRouting :: byte where "AttrFramedRouting = 10"
definition AttrFilterId :: byte where "AttrFilterId = 11"
definition AttrFramedMTU :: byte where "AttrFramedMTU = 12"
definition AttrFramedCompression :: byte where "AttrFramedCompression = 13"
definition AttrLoginIPHost :: byte where "AttrLoginIPHost = 14"
definition AttrLoginService :: byte where "AttrLoginService = 15"
definition AttrLoginTCPPort :: byte where "AttrLoginTCPPort = 16"
definition AttrReplyMessage :: byte where "AttrReplyMessage = 18"
definition AttrCallbackNumber :: byte where "AttrCallbackNumber = 19"
definition AttrCallbackId :: byte where "AttrCallbackId = 20"
definition AttrFramedRoute :: byte where "AttrFramedRoute = 22"
definition AttrFramedIPXNetwork :: byte where "AttrFramedIPXNetwork = 23"
definition AttrState :: byte where "AttrState = 24"
definition AttrClass :: byte where "AttrClass = 25"
definition AttrVendorSpecific :: byte where "AttrVendorSpecific = 26"
definition AttrSessionTimeout :: byte where "AttrSessionTimeout = 27"
definition AttrIdleTimeout :: byte where "AttrIdleTimeout = 28"
definition AttrTerminationAction :: byte where "AttrTerminationAction = 29"
definition AttrCalledStationId :: byte where "AttrCalledStationId = 30"
definition AttrCallingStationId :: byte where "AttrCallingStationId = 31"
definition AttrNASIdentifier :: byte where "AttrNASIdentifier = 32"
definition AttrProxyState :: byte where "AttrProxyState = 33"
definition AttrLoginLATService :: byte where "AttrLoginLATService = 34"
definition AttrLoginLATNode :: byte where "AttrLoginLATNode = 35"
definition AttrLoginLATGroup :: byte where "AttrLoginLATGroup = 36"
definition AttrFramedAppleTalkLink :: byte where "AttrFramedAppleTalkLink = 37"
definition AttrFramedAppleTalkNetwork :: byte where "AttrFramedAppleTalkNetwork = 38"
definition AttrFramedAppleTalkZone :: byte where "AttrFramedAppleTalkZone = 39"
definition AttrCHAPChallenge :: byte where "AttrCHAPChallenge = 60"
definition AttrNASPortType :: byte where "AttrNASPortType = 61"
definition AttrPortLimit :: byte where "AttrPortLimit = 62"
definition AttrLoginLATPort :: byte where "AttrLoginLATPort = 63"
definition AttrTunnelType :: byte where "AttrTunnelType = 64"
definition AttrTunnelMediumType :: byte where "AttrTunnelMediumType = 65"
definition AttrTunnelClientEndpoint :: byte where "AttrTunnelClientEndpoint = 66"
definition AttrTunnelServerEndpoint :: byte where "AttrTunnelServerEndpoint = 67"
definition AttrConnectInfo :: byte where "AttrConnectInfo = 77"
definition AttrEAPMessage :: byte where "AttrEAPMessage = 79"
definition AttrMessageAuthenticator :: byte where "AttrMessageAuthenticator = 80"
definition AttrTunnelPrivateGroupID :: byte where "AttrTunnelPrivateGroupID = 81"
definition AttrNASPortId :: byte where "AttrNASPortId = 87"
definition AttrAcctStatusType :: byte where "AttrAcctStatusType = 40"
definition AttrAcctDelayTime :: byte where "AttrAcctDelayTime = 41"
definition AttrAcctInputOctets :: byte where "AttrAcctInputOctets = 42"
definition AttrAcctOutputOctets :: byte where "AttrAcctOutputOctets = 43"
definition AttrAcctSessionId :: byte where "AttrAcctSessionId = 44"
definition AttrAcctAuthentic :: byte where "AttrAcctAuthentic = 45"
definition AttrAcctSessionTime :: byte where "AttrAcctSessionTime = 46"
definition AttrAcctInputPackets :: byte where "AttrAcctInputPackets = 47"
definition AttrAcctOutputPackets :: byte where "AttrAcctOutputPackets = 48"
definition AttrAcctTerminateCause :: byte where "AttrAcctTerminateCause = 49"
definition AttrAcctMultiSessionId :: byte where "AttrAcctMultiSessionId = 50"
definition AttrAcctLinkCount :: byte where "AttrAcctLinkCount = 51"
definition AttrAcctInputGigawords :: byte where "AttrAcctInputGigawords = 52"
definition AttrAcctOutputGigawords :: byte where "AttrAcctOutputGigawords = 53"

definition AcctStatusStart :: nat where "AcctStatusStart = 1"
definition AcctStatusStop :: nat where "AcctStatusStop = 2"
definition AcctStatusInterimUpdate :: nat where "AcctStatusInterimUpdate = 3"
definition AcctStatusAccountingOn :: nat where "AcctStatusAccountingOn = 7"
definition AcctStatusAccountingOff :: nat where "AcctStatusAccountingOff = 8"

definition VendorMicrosoft :: u32 where "VendorMicrosoft = 311"
definition MSCHAPChallenge :: byte where "MSCHAPChallenge = 11"
definition MSCHAPResponse :: byte where "MSCHAPResponse = 1"
definition MSCHAP2Response :: byte where "MSCHAP2Response = 25"
definition MSCHAP2Success :: byte where "MSCHAP2Success = 26"
definition MSCHAPError :: byte where "MSCHAPError = 2"
definition MSCHAPDomain :: byte where "MSCHAPDomain = 10"
definition MSCHAPMPPEKeys :: byte where "MSCHAPMPPEKeys = 12"
definition MSMPPESendKey :: byte where "MSMPPESendKey = 16"
definition MSMPPERecvKey :: byte where "MSMPPERecvKey = 17"
definition MSMPPEEncryptionPolicy :: byte where "MSMPPEEncryptionPolicy = 7"
definition MSMPPEEncryptionTypes :: byte where "MSMPPEEncryptionTypes = 8"

lemmas attr_numbers =
  AttrUserName_def AttrUserPassword_def AttrCHAPPassword_def AttrNASIPAddress_def
  AttrNASPort_def AttrServiceType_def AttrFramedProtocol_def AttrFramedIPAddress_def
  AttrFramedIPNetmask_def AttrFramedRouting_def AttrFilterId_def AttrFramedMTU_def
  AttrFramedCompression_def AttrLoginIPHost_def AttrLoginService_def AttrLoginTCPPort_def
  AttrReplyMessage_def AttrCallbackNumber_def AttrCallbackId_def AttrFramedRoute_def
  AttrFramedIPXNetwork_def AttrState_def AttrClass_def AttrVendorSpecific_def
  AttrSessionTimeout_def AttrIdleTimeout_def AttrTerminationAction_def AttrCalledStationId_def
  AttrCallingStationId_def AttrNASIdentifier_def AttrProxyState_def AttrLoginLATService_def
  AttrLoginLATNode_def AttrLoginLATGroup_def AttrFramedAppleTalkLink_def
  AttrFramedAppleTalkNetwork_def AttrFramedAppleTalkZone_def AttrCHAPChallenge_def
  AttrNASPortType_def AttrPortLimit_def AttrLoginLATPort_def AttrTunnelType_def
  AttrTunnelMediumType_def AttrTunnelClientEndpoint_def AttrTunnelServerEndpoint_def
  AttrConnectInfo_def AttrEAPMessage_def AttrMessageAuthenticator_def
  AttrTunnelPrivateGroupID_def AttrNASPortId_def AttrAcctStatusType_def AttrAcctDelayTime_def
  AttrAcctInputOctets_def AttrAcctOutputOctets_def AttrAcctSessionId_def AttrAcctAuthentic_def
  AttrAcctSessionTime_def AttrAcctInputPackets_def AttrAcctOutputPackets_def
  AttrAcctTerminateCause_def AttrAcctMultiSessionId_def AttrAcctLinkCount_def
  AttrAcctInputGigawords_def AttrAcctOutputGigawords_def

lemmas mschap_numbers =
  VendorMicrosoft_def MSCHAPChallenge_def MSCHAPResponse_def MSCHAP2Response_def
  MSCHAP2Success_def MSCHAPError_def MSCHAPDomain_def MSCHAPMPPEKeys_def MSMPPESendKey_def
  MSMPPERecvKey_def MSMPPEEncryptionPolicy_def MSMPPEEncryptionTypes_def

section \<open>Dictionary\<close>

datatype AttrValueType = AttrTypeString | AttrTypeInteger | AttrTypeIPAddr | AttrTypeDate | AttrTypeOctets

record AttrDefinition =
  DName :: string
  DType :: AttrValueType
  DEncrypt :: bool

record AttributeCodec =
  dictionary :: "byte \<rightharpoonup> AttrDefinition"
  vendors :: "u32 \<rightharpoonup> (byte \<rightharpoonup> AttrDefinition)"

definition loadStandardAttributes :: "AttributeCodec \<Rightarrow> AttributeCodec" where
  "loadStandardAttributes c = c\<lparr>dictionary :=
     [AttrUserName \<mapsto> \<lparr>DName = ''User-Name'', DType = AttrTypeString, DEncrypt = False\<rparr>,
      AttrUserPassword \<mapsto> \<lparr>DName = ''User-Password'', DType = AttrTypeString, DEncrypt = True\<rparr>,
      AttrCHAPPassword \<mapsto> \<lparr>DName = ''CHAP-Password'', DType = AttrTypeOctets, DEncrypt = False\<rparr>,
      AttrNASIPAddress \<mapsto> \<lparr>DName = ''NAS-IP-Address'', DType = AttrTypeIPAddr, DEncrypt = False\<rparr>,
      AttrNASPort \<mapsto> \<lparr>DName = ''NAS-Port'', DType = AttrTypeInteger, DEncrypt = False\<rparr>,
      AttrServiceType \<mapsto> \<lparr>DName = ''Service-Type'', DType = AttrTypeInteger, DEncrypt = False\<rparr>,
      AttrFramedIPAddress \<mapsto> \<lparr>DName = ''Framed-IP-Address'', DType = AttrTypeIPAddr, DEncrypt = False\<rparr>,
      AttrReplyMessage \<mapsto> \<lparr>DName = ''Reply-Message'', DType = AttrTypeString, DEncrypt = False\<rparr>,
      AttrState \<mapsto> \<lparr>DName = ''State'', DType = AttrTypeOctets, DEncrypt = False\<rparr>,
      AttrClass \<mapsto> \<lparr>DName = ''Class'', DType = AttrTypeOctets, DEncrypt = False\<rparr>,
      AttrSessionTimeout \<mapsto> \<lparr>DName = ''Session-Timeout'', DType = AttrTypeInteger, DEncrypt = False\<rparr>,
      AttrIdleTimeout \<mapsto> \<lparr>DName = ''Idle-Timeout'', DType = AttrTypeInteger, DEncrypt = False\<rparr>,
      AttrNASIdentifier \<mapsto> \<lparr>DName = ''NAS-Identifier'', DType = AttrTypeString, DEncrypt = False\<rparr>,
      AttrCHAPChallenge \<mapsto> \<lparr>DName = ''CHAP-Challenge'', DType = AttrTypeOctets, DEncrypt = False\<rparr>,
      AttrNASPortType \<mapsto> \<lparr>DName = ''NAS-Port-Type'', DType = AttrTypeInteger, DEncrypt = False\<rparr>,
      AttrAcctStatusType \<mapsto> \<lparr>DName = ''Acct-Status-Type'', DType = AttrTypeInteger, DEncrypt = False\<rparr>,
      AttrAcctSessionId \<mapsto> \<lparr>DName = ''Acct-Session-Id'', DType = AttrTypeString, DEncrypt = False\<rparr>,
      AttrAcctSessionTime \<mapsto> \<lparr>DName = ''Acct-Session-Time'', DType = AttrTypeInteger, DEncrypt = False\<rparr>]\<rparr>"

definition loadMicrosoftAttributes :: "AttributeCodec \<Rightarrow> AttributeCodec" where
  "loadMicrosoftAttributes c = c\<lparr>vendors := (vendors c)(VendorMicrosoft \<mapsto>
       [MSCHAPChallenge \<mapsto> \<lparr>DName = ''MS-CHAP-Challenge'', DType = AttrTypeOctets, DEncrypt = False\<rparr>,
        MSCHAP2Response \<mapsto> \<lparr>DName = ''MS-CHAP2-Response'', DType = AttrTypeOctets, DEncrypt = False\<rparr>,
        MSCHAP2Success \<mapsto> \<lparr>DName = ''MS-CHAP2-Success'', DType = AttrTypeOctets, DEncrypt = False\<rparr>,
        MSCHAPError \<mapsto> \<lparr>DName = ''MS-CHAP-Error'', DType = AttrTypeString, DEncrypt = False\<rparr>])\<rparr>"

definition NewAttributeCodec :: AttributeCodec where
  "NewAttributeCodec =
     loadMicrosoftAttributes (loadStandardAttributes \<lparr>dictionary = Map.empty, vendors = Map.empty\<rparr>)"

section \<open>Password hiding\<close>

definition xor_bytes :: "bytes \<Rightarrow> bytes \<Rightarrow> bytes" where
  "xor_bytes xs ys = map2 (XOR) xs ys"

text \<open>The padding of \<^verbatim>\<open>EncodePassword\<close> to a positive multiple of 16 bytes.\<close>

definition pad_password :: "bytes \<Rightarrow> bytes" where
  "pad_password pass =
     (if length pass = 0 then replicate 16 0
      else if length pass mod 16 \<noteq> 0 then pass @ replicate (16 - length pass mod 16) 0
      else pass)"

text \<open>
  One round per 16 bytes; \<open>result\<close> is the part of the Go result slice that has been written.
\<close>

function EncodePassword_loop :: "bytes \<Rightarrow> bytes \<Rightarrow> nat \<Rightarrow> bytes \<Rightarrow> bytes \<Rightarrow> bytes" where
  "EncodePassword_loop pass secret i prevBlock result =
     (if i < length pass then
        let hash = md5 (secret @ prevBlock);
            block = xor_bytes (take 16 (drop i pass)) hash
        in EncodePassword_loop pass secret (i + 16) block (result @ block)
      else result)"
  by pat_completeness auto
termination
  by (relation "measure (\<lambda>(pass, secret, i, prev, res). length pass - i)") auto

declare EncodePassword_loop.simps [simp del]

definition EncodePassword :: "string \<Rightarrow> bytes \<Rightarrow> bytes \<Rightarrow> bytes" where
  "EncodePassword password authenticator secret =
     EncodePassword_loop (pad_password (bytes_of password)) secret 0 authenticator []"

function DecodePassword_loop :: "bytes \<Rightarrow> bytes \<Rightarrow> nat \<Rightarrow> bytes \<Rightarrow> bytes \<Rightarrow> bytes" where
  "DecodePassword_loop encoded secret i prevBlock result =
     (if i < length encoded then
        let hash = md5 (secret @ prevBlock);
            block = xor_bytes (take 16 (drop i encoded)) hash
        in DecodePassword_loop encoded secret (i + 16) (take 16 (drop i encoded)) (result @ block)
      else result)"
  by pat_completeness auto
termination
  by (relation "measure (\<lambda>(pass, secret, i, prev, res). length pass - i)") auto

declare DecodePassword_loop.simps [simp del]

text \<open>\<^verbatim>\<open>bytes.TrimRight\<close> with the cutset that holds the zero byte only.\<close>

definition trim_zeros :: "bytes \<Rightarrow> bytes" where
  "trim_zeros xs = rev (dropWhile (\<lambda>b. b = 0) (rev xs))"

definition DecodePassword :: "bytes \<Rightarrow> bytes \<Rightarrow> bytes \<Rightarrow> string" where
  "DecodePassword encoded authenticator secret =
     (if length encoded = 0 \<or> length encoded mod 16 \<noteq> 0 then ''''
      else string_of (trim_zeros (DecodePassword_loop encoded secret 0 authenticator [])))"

section \<open>Vendor-specific attributes\<close>

definition EncodeVendorSpecific :: "u32 \<Rightarrow> byte \<Rightarrow> bytes \<Rightarrow> bytes" where
  "EncodeVendorSpecific vendorID attrType v = be32_put vendorID @ [attrType, byte_of_nat (2 + length v)] @ v"

definition DecodeVendorSpecific :: "bytes \<Rightarrow> (u32 \<times> byte \<times> bytes) radius_result" where
  "DecodeVendorSpecific data =
     (if length data < 6 then Fail ''invalid VSA length''
      else
        let vendorID = be32_get (data ! 0) (data ! 1) (data ! 2) (data ! 3);
            attrType = data ! 4;
            vsaLen = data ! 5
        in if unat vsaLen > length data - 4 then Fail ''invalid VSA internal length''
           else let valEnd = 4 + unat vsaLen
                in if valEnd > length data then Fail ''VSA length out of bounds''
                   else obind (go_slice data 6 valEnd) (\<lambda>v. Ok (vendorID, attrType, v)))"

section \<open>Passwords by blocks\<close>

fun enc_blocks :: "bytes \<Rightarrow> bytes \<Rightarrow> bytes list \<Rightarrow> bytes list" where
  "enc_blocks secret prev [] = []"
| "enc_blocks secret prev (b # bs) =
     (let c = xor_bytes b (md5 (secret @ prev)) in c # enc_blocks secret c bs)"

fun dec_blocks :: "bytes \<Rightarrow> bytes \<Rightarrow> bytes list \<Rightarrow> bytes list" where
  "dec_blocks secret prev [] = []"
| "dec_blocks secret prev (c # cs) = xor_bytes c (md5 (secret @ prev)) # dec_blocks secret c cs"

lemma length_xor_bytes [simp]: "length (xor_bytes xs ys) = min (length xs) (length ys)"
  by (simp add: xor_bytes_def)

lemma xor_bytes_cancel: "length xs = length ys \<Longrightarrow> xor_bytes (xor_bytes xs ys) ys = xs"
  unfolding xor_bytes_def
  by (induction xs ys rule: list_induct2) (simp_all add: xor.assoc)

lemma chunks_drop:
  "i < length xs \<Longrightarrow> chunks 16 (drop i xs) = take 16 (drop i xs) # chunks 16 (drop (i + 16) xs)"
  by (subst chunks.simps) (simp add: add.commute)

lemma EncodePassword_loop_blocks:
  "EncodePassword_loop pass secret i prev res
     = res @ concat (enc_blocks secret prev (chunks 16 (drop i pass)))"
proof (induction pass secret i prev res rule: EncodePassword_loop.induct)
  case (1 pass secret i prev res)
  then show ?case
    by (cases "i < length pass")
      (simp_all add: EncodePassword_loop.simps [of pass secret i] chunks_drop Let_def)
qed

lemma DecodePassword_loop_blocks:
  "DecodePassword_loop enc secret i prev res
     = res @ concat (dec_blocks secret prev (chunks 16 (drop i enc)))"
proof (induction enc secret i prev res rule: DecodePassword_loop.induct)
  case (1 enc secret i prev res)
  then show ?case
    by (cases "i < length enc")
      (simp_all add: DecodePassword_loop.simps [of enc secret i] chunks_drop Let_def)
qed

lemma enc_blocks_length: "\<forall>b \<in> set bs. length b = 16 \<Longrightarrow> \<forall>c \<in> set (enc_blocks secret prev bs). length c = 16"
  by (induction bs arbitrary: prev) (auto simp: Let_def)

lemma length_enc_blocks [simp]: "length (enc_blocks secret prev bs) = length bs"
  by (induction bs arbitrary: prev) (simp_all add: Let_def)

lemma dec_enc_blocks: "\<forall>b \<in> set bs. length b = 16 \<Longrightarrow> dec_blocks secret prev (enc_blocks secret prev bs) = bs"
  by (induction bs arbitrary: prev) (simp_all add: Let_def xor_bytes_cancel)

lemma chunks_concat: "\<forall>b \<in> set bs. length b = 16 \<Longrightarrow> chunks 16 (concat bs) = bs"
  by (induction bs) (simp_all add: chunks_append)

lemma length_concat_blocks: "\<forall>b \<in> set bs. length b = 16 \<Longrightarrow> length (concat bs) = 16 * length bs"
  by (induction bs) simp_all

lemma length_pad_password: "length (pad_password pass) = max 16 (16 * ((length pass + 15) div 16))"
proof -
  obtain q r where n: "length pass = 16 * q + r" and r: "r < 16" and m: "length pass mod 16 = r"
  proof
    show "length pass = 16 * (length pass div 16) + length pass mod 16" by simp
  qed simp_all
  show ?thesis
  proof (cases "r = 0")
    case True
    then show ?thesis by (auto simp: pad_password_def n max_def)
  next
    case False
    have "(16 * q + r + 15) div 16 = q + 1"
      by (rule div_nat_eqI) (use r False in simp_all)
    moreover have "16 * q + r + (16 - r) = 16 * (q + 1)" using r by simp
    moreover have "length pass \<noteq> 0" using n False by simp
    ultimately show ?thesis using False r by (simp add: pad_password_def m n max_def)
  qed
qed

lemma pad_password_length: "16 dvd length (pad_password pass)" "0 < length (pad_password pass)"
  by (auto simp: length_pad_password max_def)

lemma pad_password_zeros: "\<exists>n. pad_password pass = pass @ replicate n 0"
  by (cases "length pass = 0"; cases "length pass mod 16 = 0")
    (auto simp: pad_password_def intro: exI [of _ 0])

lemma dropWhile_zeros: "dropWhile (\<lambda>b :: byte. b = 0) (replicate n 0 @ xs) = dropWhile (\<lambda>b. b = 0) xs"
  by (induction n) simp_all

lemma trim_zeros_append [simp]: "trim_zeros (xs @ replicate n 0) = trim_zeros xs"
  by (simp add: trim_zeros_def dropWhile_zeros)

lemma EncodePassword_blocks:
  "EncodePassword pw auth secret = concat (enc_blocks secret auth (chunks 16 (pad_password (bytes_of pw))))"
  by (simp add: EncodePassword_def EncodePassword_loop_blocks)

lemma decode_encode_password:
  "DecodePassword (EncodePassword pw auth secret) auth secret = string_of (trim_zeros (bytes_of pw))"
proof -
  define bs where "bs = chunks 16 (pad_password (bytes_of pw))"
  have bs: "\<forall>b \<in> set bs. length b = 16"
    unfolding bs_def using length_in_chunks pad_password_length(1) by blast
  have concat: "concat bs = pad_password (bytes_of pw)"
    unfolding bs_def by (simp add: concat_chunks)
  have enc: "EncodePassword pw auth secret = concat (enc_blocks secret auth bs)"
    by (simp add: EncodePassword_blocks bs_def)
  have "bs \<noteq> []" using concat pad_password_length(2) [of "bytes_of pw"] by (cases bs) simp_all
  then have len: "length (concat (enc_blocks secret auth bs)) \<noteq> 0"
      "length (concat (enc_blocks secret auth bs)) mod 16 = 0"
    using length_concat_blocks [OF enc_blocks_length [OF bs]] by simp_all
  have "DecodePassword_loop (concat (enc_blocks secret auth bs)) secret 0 auth [] = pad_password (bytes_of pw)"
    by (simp add: DecodePassword_loop_blocks chunks_concat [OF enc_blocks_length [OF bs]]
        dec_enc_blocks [OF bs] concat)
  moreover obtain n where "pad_password (bytes_of pw) = bytes_of pw @ replicate n 0"
    using pad_password_zeros by blast
  ultimately show ?thesis
    unfolding DecodePassword_def enc using len by (simp only: simp_thms if_False trim_zeros_append)
qed

lemma length_encoded_password:
  "length (EncodePassword pw auth secret) = max 16 (16 * ((length pw + 15) div 16))"
proof -
  define bs where "bs = chunks 16 (pad_password (bytes_of pw))"
  have bs: "\<forall>b \<in> set bs. length b = 16"
    unfolding bs_def using length_in_chunks pad_password_length(1) by blast
  have "length (EncodePassword pw auth secret) = 16 * length bs"
    using length_concat_blocks [OF enc_blocks_length [OF bs]] by (simp add: EncodePassword_blocks bs_def)
  also have "\<dots> = length (pad_password (bytes_of pw))"
    using length_concat_blocks [OF bs] concat_chunks [of 16 "pad_password (bytes_of pw)"]
    by (simp add: bs_def)
  also have "\<dots> = max 16 (16 * ((length pw + 15) div 16))"
    by (simp add: length_pad_password)
  finally show ?thesis .
qed

section \<open>Properties\<close>

text \<open>
  C3: \<^verbatim>\<open>DecodePassword\<close> undoes \<^verbatim>\<open>EncodePassword\<close> under the same authenticator and secret for passwords of
  any length, up to the trailing zero bytes that the padding cannot tell apart.
\<close>

theorem DecodePassword_EncodePassword:
  "DecodePassword (EncodePassword pw auth secret) auth secret = string_of (trim_zeros (bytes_of pw))"
  by (rule decode_encode_password)

text \<open>
  The hidden password is a positive multiple of 16 bytes long, and not longer than the
  password rounded up to whole blocks.
\<close>

theorem length_EncodePassword:
  "length (EncodePassword pw auth secret) = max 16 (16 * ((length pw + 15) div 16))"
  by (rule length_encoded_password)

text \<open>
  A vendor-specific attribute of at most 253 value bytes is decoded to what was encoded.
\<close>

theorem DecodeVendorSpecific_EncodeVendorSpecific:
  assumes "length v \<le> 253"
  shows "DecodeVendorSpecific (EncodeVendorSpecific vid t v) = Ok (vid, t, v)"
  using assms
  by (simp add: DecodeVendorSpecific_def EncodeVendorSpecific_def be32_put_def go_slice_def Let_def)

theorem DecodeVendorSpecific_EncodeVendorSpecific_witness:
  "DecodeVendorSpecific (EncodeVendorSpecific 311 26 (bytes_of ''S=1'')) = Ok (311, 26, bytes_of ''S=1'')"
  by (rule DecodeVendorSpecific_EncodeVendorSpecific) simp

text \<open>
  \<^verbatim>\<open>DecodeVendorSpecific\<close> panics exactly on values of at least six bytes whose inner length byte is
  0 or 1, although the function reports every other malformed value as an error.
\<close>

theorem DecodeVendorSpecific_Panic_iff:
  "DecodeVendorSpecific data = Panic \<longleftrightarrow> 6 \<le> length data \<and> unat (data ! 5) < 2"
  by (auto simp: DecodeVendorSpecific_def Let_def obind_eq_Panic go_slice_Panic)

end
