(* ===== verification/Digest_SHA1.thy ===== *)
theory Digest_SHA1
  imports Digest_MD5
begin

text \<open>
  The SHA-1 digest of the Go standard library (\<^verbatim>\<open>crypto/sha1\<close>, FIPS 180-4), used by the
  MS-CHAPv2 handler.
\<close>

definition be32_words :: "bytes \<Rightarrow> u32 list" where
  "be32_words bs = map (\<lambda>c. be32_get (c ! 0) (c ! 1) (c ! 2) (c ! 3)) (chunks 4 bs)"

text \<open>The message schedule, extended from 16 to 80 words.\<close>

fun sha1_extend :: "nat \<Rightarrow> u32 list \<Rightarrow> u32 list" where
  "sha1_extend 0 ws = ws"
| "sha1_extend (Suc n) ws =
     (let t = length ws
      in sha1_extend n (ws @ [rotl32 (ws ! (t - 3) XOR ws ! (t - 8) XOR ws ! (t - 14) XOR ws ! (t - 16)) 1]))"

type_synonym sha1_state = "u32 \<times> u32 \<times> u32 \<times> u32 \<times> u32"

definition sha1_step :: "nat \<times> u32 \<Rightarrow> sha1_state \<Rightarrow> sha1_state" where
  "sha1_step = (\<lambda>(t, w) (a, b, c, d, e).
     let (f, k) = (if t < 20 then ((b AND c) OR (NOT b AND d), 0x5a827999)
                   else if t < 40 then (b XOR c XOR d, 0x6ed9eba1)
                   else if t < 60 then ((b AND c) OR (b AND d) OR (c AND d), 0x8f1bbcdc)
                   else (b XOR c XOR d, 0xca62c1d6))
     in (rotl32 a 5 + f + e + k + w, a, rotl32 b 30, c, d))"

definition sha1_block :: "bytes \<Rightarrow> sha1_state \<Rightarrow> sha1_state" where
  "sha1_block blk = (\<lambda>(h0, h1, h2, h3, h4).
     case fold sha1_step (zip [0..<80] (sha1_extend 64 (be32_words blk))) (h0, h1, h2, h3, h4) of
       (a, b, c, d, e) \<Rightarrow> (h0 + a, h1 + b, h2 + c, h3 + d, h4 + e))"

definition sha1_pad :: "bytes \<Rightarrow> bytes" where
  "sha1_pad msg = msg @ [0x80] @ replicate ((119 - length msg mod 64) mod 64) 0
     @ rev (map (\<lambda>i. byte_of_nat (8 * length msg div 256 ^ i)) [0..<8])"

definition sha1 :: "bytes \<Rightarrow> bytes" where
  "sha1 msg =
     (case fold sha1_block (chunks 64 (sha1_pad msg))
         (0x67452301, 0xefcdab89, 0x98badcfe, 0x10325476, 0xc3d2e1f0) of
        (a, b, c, d, e) \<Rightarrow> be32_put a @ be32_put b @ be32_put c @ be32_put d @ be32_put e)"

lemma length_sha1 [simp]: "length (sha1 msg) = 20"
  by (simp add: sha1_def split: prod.split)

end
