(* ===== verification/Errors.thy ===== *)
theory Errors
  imports Prelude
begin

text \<open>
  The error values of \<^verbatim>\<open>pkg/types/errors.go\<close>. Each standard error is one object that the whole
  process shares: the package variables hold pointers, and \<^verbatim>\<open>WithCause\<close> and \<^verbatim>\<open>WithDetails\<close>
  write to the object and return the same pointer. The model therefore keeps the objects in a store
  and lets an error value be a reference into it; the machine-readable code of a standard error,
  which no two of them share, is its address. \<^verbatim>\<open>errors.Is\<close> follows the chain of causes through the
  store and need not end.
\<close>

section \<open>Errors and the store of standard errors\<close>

text \<open>
  \<^verbatim>\<open>Sentinel c\<close> is the pointer to the standard error with code \<open>c\<close>, \<^verbatim>\<open>Errorf m\<close> an error made by
  \<^verbatim>\<open>fmt.Errorf\<close> without \<^verbatim>\<open>%w\<close> or by a library, \<^verbatim>\<open>Wrapf m e\<close> one made with \<^verbatim>\<open>%w\<close>.
\<close>

datatype go_error =
    Errorf string
  | Wrapf string go_error
  | Sentinel string

record ErrorCell =
  ErrCode :: string
  ErrMessage :: string
  ErrDetails :: "(string \<times> string) list"
  ErrHttpStatus :: nat
  ErrGrpcStatus :: string
  ErrCause :: "go_error option"

type_synonym err_store = "string \<rightharpoonup> ErrorCell"

definition NewError :: "string \<Rightarrow> string \<Rightarrow> nat \<Rightarrow> string \<Rightarrow> ErrorCell" where
  "NewError code message httpStatus grpcStatus =
     \<lparr>ErrCode = code, ErrMessage = message, ErrDetails = [], ErrHttpStatus = httpStatus, ErrGrpcStatus = grpcStatus,
      ErrCause = None\<rparr>"

definition ErrInternal :: go_error where "ErrInternal = Sentinel ''internal_error''"
definition ErrNotFound :: go_error where "ErrNotFound = Sentinel ''not_found''"
definition ErrBadRequest :: go_error where "ErrBadRequest = Sentinel ''bad_request''"
definition ErrValidation :: go_error where "ErrValidation = Sentinel ''validation_failed''"
definition ErrUnauthorized :: go_error where "ErrUnauthorized = Sentinel ''unauthorized''"
definition ErrForbidden :: go_error where "ErrForbidden = Sentinel ''forbidden''"
definition ErrConflict :: go_error where "ErrConflict = Sentinel ''conflict''"
definition ErrTooManyRequests :: go_error where "ErrTooManyRequests = Sentinel ''too_many_requests''"
definition ErrServiceUnavailable :: go_error where "ErrServiceUnavailable = Sentinel ''service_unavailable''"
definition ErrInvalidCredentials :: go_error where "ErrInvalidCredentials = Sentinel ''invalid_credentials''"
definition ErrInvalidToken :: go_error where "ErrInvalidToken = Sentinel ''invalid_token''"
definition ErrTokenExpired :: go_error where "ErrTokenExpired = Sentinel ''token_expired''"
definition ErrMfaRequired :: go_error where "ErrMfaRequired = Sentinel ''mfa_required''"
definition ErrMfaChallengeInvalid :: go_error where "ErrMfaChallengeInvalid = Sentinel ''mfa_challenge_invalid''"
definition ErrUserLocked :: go_error where "ErrUserLocked = Sentinel ''user_locked''"
definition ErrUserDisabled :: go_error where "ErrUserDisabled = Sentinel ''user_disabled''"
definition ErrPluginLoadFailed :: go_error where "ErrPluginLoadFailed = Sentinel ''plugin_load_failed''"
definition ErrPluginNotFound :: go_error where "ErrPluginNotFound = Sentinel ''plugin_not_found''"
definition ErrPluginInitFailed :: go_error where "ErrPluginInitFailed = Sentinel ''plugin_init_failed''"
definition ErrNotImplemented :: go_error where "ErrNotImplemented = Sentinel ''not_implemented''"
definition ErrInvalidRequest :: go_error where "ErrInvalidRequest = Sentinel ''invalid_request''"
definition ErrInvalidClient :: go_error where "ErrInvalidClient = Sentinel ''invalid_client''"
definition ErrInvalidGrant :: go_error where "ErrInvalidGrant = Sentinel ''invalid_grant''"
definition ErrUnsupportedGrantType :: go_error where "ErrUnsupportedGrantType = Sentinel ''unsupported_grant_type''"
definition ErrUserNotFound :: go_error where "ErrUserNotFound = Sentinel ''user_not_found''"
definition ErrSessionExpired :: go_error where "ErrSessionExpired = Sentinel ''session_expired''"
definition ErrDeviceMismatch :: go_error where "ErrDeviceMismatch = Sentinel ''device_mismatch''"
definition ErrMaxSessionsExceeded :: go_error where "ErrMaxSessionsExceeded = Sentinel ''max_sessions_exceeded''"
definition ErrAuthorizationPending :: go_error where "ErrAuthorizationPending = Sentinel ''authorization_pending''"
definition ErrAccessDenied :: go_error where "ErrAccessDenied = Sentinel ''access_denied''"
definition ErrExpiredToken :: go_error where "ErrExpiredToken = Sentinel ''expired_token''"

lemmas std_errors =
  ErrInternal_def ErrNotFound_def ErrBadRequest_def ErrValidation_def ErrUnauthorized_def
  ErrForbidden_def ErrConflict_def ErrTooManyRequests_def ErrServiceUnavailable_def
  ErrInvalidCredentials_def ErrInvalidToken_def ErrTokenExpired_def ErrMfaRequired_def
  ErrMfaChallengeInvalid_def ErrUserLocked_def ErrUserDisabled_def ErrPluginLoadFailed_def
  ErrPluginNotFound_def ErrPluginInitFailed_def ErrNotImplemented_def ErrInvalidRequest_def
  ErrInvalidClient_def ErrInvalidGrant_def ErrUnsupportedGrantType_def ErrUserNotFound_def
  ErrSessionExpired_def ErrDeviceMismatch_def ErrMaxSessionsExceeded_def
  ErrAuthorizationPending_def ErrAccessDenied_def ErrExpiredToken_def

definition error_catalogue :: "ErrorCell list" where
  "error_catalogue =
    [NewError ''internal_error'' ''An unexpected internal error occurred'' 500 ''Internal'',
     NewError ''not_found'' ''The requested resource was not found'' 404 ''NotFound'',
     NewError ''bad_request'' ''The request is malformed or invalid'' 400 ''InvalidArgument'',
     NewError ''validation_failed'' ''Input validation failed'' 400 ''InvalidArgument'',
     NewError ''unauthorized'' ''Authentication is required and has failed or has not yet been provided'' 401 ''Unauthenticated'',
     NewError ''forbidden'' ''You do not have permission to access this resource'' 403 ''PermissionDenied'',
     NewError ''conflict'' ''The resource already exists'' 409 ''AlreadyExists'',
     NewError ''too_many_requests'' ''You have exceeded the rate limit'' 429 ''ResourceExhausted'',
     NewError ''service_unavailable'' ''The service is temporarily unavailable'' 503 ''Unavailable'',
     NewError ''invalid_credentials'' ''Invalid username or password'' 401 ''Unauthenticated'',
     NewError ''invalid_token'' ''The provided token is invalid or expired'' 401 ''Unauthenticated'',
     NewError ''token_expired'' ''The provided token has expired'' 401 ''Unauthenticated'',
     NewError ''mfa_required'' ''Multi-factor authentication is required'' 401 ''Unauthenticated'',
     NewError ''mfa_challenge_invalid'' ''The MFA challenge is invalid or has expired'' 400 ''InvalidArgument'',
     NewError ''user_locked'' ''The user account is locked'' 403 ''PermissionDenied'',
     NewError ''user_disabled'' ''The user account is disabled'' 403 ''PermissionDenied'',
     NewError ''plugin_load_failed'' ''Failed to load plugin'' 500 ''Internal'',
     NewError ''plugin_not_found'' ''The requested plugin was not found'' 404 ''NotFound'',
     NewError ''plugin_init_failed'' ''Failed to initialize plugin'' 500 ''Internal'',
     NewError ''not_implemented'' ''This feature is not implemented'' 501 ''Unimplemented'',
     NewError ''invalid_request'' ''The request is missing a required parameter, includes an invalid parameter value, includes a parameter more than once, or is otherwise malformed.'' 400 ''InvalidArgument'',
     NewError ''invalid_client'' ''Client authentication failed (e.g., unknown client, no client authentication included, or unsupported authentication method).'' 401 ''Unauthenticated'',
     NewError ''invalid_grant'' ''The provided authorization grant (e.g., authorization code, resource owner credentials) or refresh token is invalid, expired, revoked, does not match the redirection URI used in the authorization request, or was issued to another client.'' 400 ''InvalidArgument'',
     NewError ''unsupported_grant_type'' ''The authorization grant type is not supported by the authorization server.'' 400 ''InvalidArgument'',
     NewError ''user_not_found'' ''The user was not found.'' 404 ''NotFound'',
     NewError ''session_expired'' ''The user session has expired.'' 401 ''Unauthenticated'',
     NewError ''device_mismatch'' ''The device fingerprint does not match the session.'' 401 ''Unauthenticated'',
     NewError ''max_sessions_exceeded'' ''The maximum number of concurrent sessions has been exceeded.'' 403 ''PermissionDenied'',
     NewError ''authorization_pending'' ''The authorization request is still pending as the end-user has not yet completed the user interaction steps.'' 400 ''Unavailable'',
     NewError ''access_denied'' ''The resource owner or authorization server denied the request.'' 403 ''PermissionDenied'',
     NewError ''expired_token'' ''The token has expired.'' 400 ''Unauthenticated'']"

text \<open>The store after package initialisation.\<close>

definition initial_errors :: err_store where
  "initial_errors = map_of (map (\<lambda>c. (ErrCode c, c)) error_catalogue)"

section \<open>Operations\<close>

fun WithCause :: "err_store \<Rightarrow> go_error \<Rightarrow> go_error \<Rightarrow> go_error \<times> err_store" where
  "WithCause h (Sentinel c) e =
     (Sentinel c, case h c of None \<Rightarrow> h | Some cell \<Rightarrow> h(c \<mapsto> cell\<lparr>ErrCause := Some e\<rparr>))"
| "WithCause h e _ = (e, h)"

fun WithDetails :: "err_store \<Rightarrow> go_error \<Rightarrow> (string \<times> string) list \<Rightarrow> go_error \<times> err_store" where
  "WithDetails h (Sentinel c) d =
     (Sentinel c, case h c of None \<Rightarrow> h | Some cell \<Rightarrow> h(c \<mapsto> cell\<lparr>ErrDetails := d\<rparr>))"
| "WithDetails h e _ = (e, h)"

text \<open>\<^verbatim>\<open>errors.Unwrap\<close>: the method of \<^verbatim>\<open>types.Error\<close> reads the cause that the store holds now.\<close>

fun Unwrap :: "err_store \<Rightarrow> go_error \<Rightarrow> go_error option" where
  "Unwrap h (Errorf _) = None"
| "Unwrap h (Wrapf _ e) = Some e"
| "Unwrap h (Sentinel c) = (case h c of None \<Rightarrow> None | Some cell \<Rightarrow> ErrCause cell)"

text \<open>
  \<^verbatim>\<open>errors.Is\<close> of the standard library for a target that is a standard error: compare, unwrap,
  repeat. \<^term>\<open>None\<close> is a run that does not end.
\<close>

partial_function (option) errors_Is :: "err_store \<Rightarrow> go_error \<Rightarrow> go_error \<Rightarrow> bool option" where
  "errors_Is h e target =
     (if e = target then Some True
      else case Unwrap h e of None \<Rightarrow> Some False | Some e' \<Rightarrow> errors_Is h e' target)"

definition WithCauseDetails ::
    "err_store \<Rightarrow> go_error \<Rightarrow> go_error \<Rightarrow> (string \<times> string) list \<Rightarrow> go_error \<times> err_store" where
  "WithCauseDetails h e c d = (let (e', h') = WithCause h e c in WithDetails h' e' d)"

section \<open>The chain of causes\<close>

inductive chain :: "err_store \<Rightarrow> go_error \<Rightarrow> go_error \<Rightarrow> bool" for h where
  chain_refl: "chain h e e"
| chain_step: "Unwrap h e = Some e' \<Longrightarrow> chain h e' t \<Longrightarrow> chain h e t"

inductive_cases chain_elim: "chain h e t"

lemma chain_iff: "chain h e t \<longleftrightarrow> e = t \<or> (\<exists>e'. Unwrap h e = Some e' \<and> chain h e' t)"
  by (auto intro: chain.intros elim: chain_elim)


lemmas errors_Is_induct = errors_Is.raw_induct [rotated, consumes 1]

lemma errors_Is_result: "errors_Is h e t = Some b \<Longrightarrow> b \<longleftrightarrow> chain h e t"
proof (induct rule: errors_Is_induct)
  case (1 rec h e t b)
  then show ?case
    by (subst chain_iff) (auto split: if_splits option.splits)
qed

lemma errors_Is_of_chain: "chain h e t \<Longrightarrow> errors_Is h e t = Some True"
  by (induction rule: chain.induct) (subst errors_Is.simps, simp)+

lemma errors_Is_of_end:
  assumes "chain h e l" and "Unwrap h l = None" and "\<not> chain h e t"
  shows "errors_Is h e t = Some False"
  using assms
proof (induction rule: chain.induct)
  case (chain_refl e)
  then have "e \<noteq> t" by (auto intro: chain.intros)
  with chain_refl show ?case by (subst errors_Is.simps) simp
next
  case (chain_step e e' l)
  then have "e \<noteq> t" and "\<not> chain h e' t" by (auto intro: chain.intros)
  with chain_step show ?case by (subst errors_Is.simps) simp
qed

lemma errors_Is_False_end:
  "errors_Is h e t = Some b \<Longrightarrow> \<not> b \<longrightarrow> (\<exists>l. chain h e l \<and> Unwrap h l = None)"
proof (induct rule: errors_Is_induct)
  case (1 rec h e t b)
  then show ?case
    by (fastforce split: if_splits option.splits intro: chain.intros)
qed

text \<open>
  A chain that repeats never ends: when every error of a set has its cause in the set, a search that
  starts in the set for a target outside it does not return.
\<close>

lemma chain_closed:
  assumes "chain h e t" and "e \<in> S" and "\<And>x. x \<in> S \<Longrightarrow> \<exists>y. Unwrap h x = Some y \<and> y \<in> S"
  shows "t \<in> S"
  using assms by (induction rule: chain.induct) fastforce+

lemma errors_Is_diverges:
  assumes "e \<in> S" and "t \<notin> S" and closed: "\<And>x. x \<in> S \<Longrightarrow> \<exists>y. Unwrap h x = Some y \<and> y \<in> S"
  shows "errors_Is h e t = None"
proof (cases "errors_Is h e t")
  case (Some b)
  have "\<not> chain h e t" using chain_closed [OF _ assms(1) closed] assms(2) by blast
  with errors_Is_result [OF Some] have "\<not> b" by simp
  with errors_Is_False_end [OF Some] obtain l where "chain h e l" and "Unwrap h l = None" by blast
  with chain_closed [OF _ assms(1) closed, of l] closed [of l] show ?thesis by auto
qed

section \<open>The store of standard errors\<close>

lemma distinct_error_codes: "distinct (map ErrCode error_catalogue)"
  by (simp add: error_catalogue_def NewError_def)

text \<open>A store in which no error has a cause yet, such as the initial one.\<close>

definition no_causes :: "err_store \<Rightarrow> bool" where
  "no_causes h \<longleftrightarrow> (\<forall>c cell. h c = Some cell \<longrightarrow> ErrCause cell = None)"

lemma no_causes_initial: "no_causes initial_errors"
proof -
  have "\<forall>cell \<in> set error_catalogue. ErrCause cell = None"
    by (simp add: error_catalogue_def NewError_def)
  then show ?thesis
    by (auto simp: no_causes_def initial_errors_def dest!: map_of_SomeD)
qed

lemma WithCause_fst [simp]: "fst (WithCause h e c) = e"
  by (cases e) simp_all

lemma WithDetails_fst [simp]: "fst (WithDetails h e d) = e"
  by (cases e) simp_all

lemma WithCauseDetails_fst [simp]: "fst (WithCauseDetails h e c d) = e"
  by (simp add: WithCauseDetails_def case_prod_beta)

lemma dom_WithCause [simp]: "dom (snd (WithCause h e c)) = dom h"
  by (cases e) (auto split: option.splits)

lemma dom_WithDetails [simp]: "dom (snd (WithDetails h e d)) = dom h"
  by (cases e) (auto split: option.splits)

lemma Unwrap_WithCause:
  "c \<in> dom h \<Longrightarrow> Unwrap (snd (WithCause h (Sentinel c) e)) x = (if x = Sentinel c then Some e else Unwrap h x)"
  by (cases x) (auto split: option.splits)

lemma Unwrap_WithDetails [simp]: "Unwrap (snd (WithDetails h e d)) x = Unwrap h x"
  by (cases e; cases x) (auto split: option.splits)

declare WithCause.simps [simp del] WithDetails.simps [simp del]

end
