(* ===== verification/Types.thy ===== *)
theory Types
  imports Errors
begin

text \<open>
  The shared data of \<^verbatim>\<open>pkg/types\<close>: users, groups and sessions (the standard errors are in \<^verbatim>\<open>Errors\<close>).
  A \<^verbatim>\<open>time.Time\<close> is the number of nanoseconds since the Unix epoch, an optional pointer field is
  an \<open>option\<close>, and a \<^verbatim>\<open>map[string]interface{}\<close> is a partial map into the dynamic values below.
  \<^verbatim>\<open>UserGroup.Users\<close>, which only the object-relational mapper fills, is left out.
\<close>

section \<open>Dynamic values\<close>

type_synonym time = int

datatype gvalue =
    VNil
  | VBool bool
  | VInt int
  | VString string
  | VTime time
  | VStrings "string list"
  | VList "gvalue list"
  | VMap "(string \<times> gvalue) list"

type_synonym gmap = "string \<rightharpoonup> gvalue"

text \<open>A duration in nanoseconds as whole seconds, \<^verbatim>\<open>int64(d.Seconds())\<close>.\<close>

definition whole_seconds :: "int \<Rightarrow> int" where
  "whole_seconds d = (if 0 \<le> d then d div 1000000000 else - ((- d) div 1000000000))"

text \<open>The zero \<^verbatim>\<open>time.Time\<close>, the first of January of the year 1, and \<^verbatim>\<open>time.Since\<close>, clipped to a 64-bit duration.\<close>

definition zero_time :: time where "zero_time = - 62135596800000000000"

definition time_since :: "time \<Rightarrow> time \<Rightarrow> int" where
  "time_since now t = max (- (2 ^ 63)) (min (2 ^ 63 - 1) (now - t))"

text \<open>\<^verbatim>\<open>t.Unix()\<close>, whole seconds.\<close>

definition unix_seconds :: "time \<Rightarrow> int" where "unix_seconds t = t div 1000000000"

section \<open>Users and groups\<close>

type_synonym UserStatus = string

definition UserStatusActive :: UserStatus where "UserStatusActive = ''active''"
definition UserStatusInactive :: UserStatus where "UserStatusInactive = ''inactive''"
definition UserStatusLocked :: UserStatus where "UserStatusLocked = ''locked''"
definition UserStatusPending :: UserStatus where "UserStatusPending = ''pending_verification''"
definition UserStatusDeleted :: UserStatus where "UserStatusDeleted = ''deleted''"

lemmas user_statuses = UserStatusActive_def UserStatusInactive_def UserStatusLocked_def
  UserStatusPending_def UserStatusDeleted_def

record MergeRecord =
  SourceIDs :: "string list"
  MergedAt :: time
  MergeStrategy :: string

record UserGroup =
  GID :: string
  GName :: string
  GDescription :: string
  GParentID :: "string option"
  GMetadata :: gmap
  GCreatedAt :: time
  GUpdatedAt :: time

record User =
  UID :: string
  Username :: string
  Email :: string
  Phone :: string
  Password :: string
  Status :: UserStatus
  UAttributes :: "gmap option"
  PrivacySettings :: "gmap option"
  UGroups :: "UserGroup list"
  UCreatedAt :: time
  UUpdatedAt :: time
  UDeletedAt :: "time option"
  LastLoginAt :: "time option"
  MergeHistory :: "MergeRecord list"
  ExternalID :: string
  SourceType :: string

text \<open>The zero value of a Go \<^verbatim>\<open>User\<close>: what a composite literal leaves in the fields it does not name.\<close>

definition zero_user :: User where
  "zero_user = \<lparr>UID = [], Username = [], Email = [], Phone = [], Password = [], Status = [],
     UAttributes = None, PrivacySettings = None, UGroups = [], UCreatedAt = 0, UUpdatedAt = 0,
     UDeletedAt = None, LastLoginAt = None, MergeHistory = [], ExternalID = [], SourceType = []\<rparr>"

definition HasRole :: "User \<Rightarrow> string \<Rightarrow> bool" where
  "HasRole u roleName = list_ex (\<lambda>g. GName g = roleName) (UGroups u)"

record UserFilter =
  FQuery :: string
  FStatus :: "UserStatus list"
  FPage :: int
  FPageSize :: int
  FSortBy :: string
  FSortOrder :: string

record UserSession =
  SID :: string
  SUserID :: string
  SIPAddress :: string
  SUserAgent :: string
  SCreatedAt :: time
  SExpiresAt :: time
  SDeviceFingerprint :: string
  SLastRotatedAt :: time

section \<open>Authentication data\<close>

type_synonym ProtocolType = string
type_synonym AuthMethod = string

definition ProtocolSAML :: ProtocolType where "ProtocolSAML = ''saml''"
definition ProtocolOAuth :: ProtocolType where "ProtocolOAuth = ''oauth2''"
definition ProtocolOIDC :: ProtocolType where "ProtocolOIDC = ''oidc''"

definition AuthMethodTOTP :: AuthMethod where "AuthMethodTOTP = ''totp''"
definition AuthMethodSMS :: AuthMethod where "AuthMethodSMS = ''sms''"

record Token =
  AccessToken :: string
  RefreshToken :: string
  TokenType :: string
  ExpiresIn :: int
  IDToken :: string

record MFAChallenge =
  MFAProvider :: AuthMethod
  ChallengeID :: string
  ChOptions :: "gmap option"

record AuthRequest =
  ReqProtocol :: ProtocolType
  ReqCredentials :: "string \<rightharpoonup> string"
  ReqContext :: gmap
  ReqUserID :: string

record AuthResponse =
  RespSuccess :: bool
  RespToken :: "Token option"
  RespUser :: "User option"
  RespError :: "go_error option"
  RespNext :: "MFAChallenge option"
  RespCode :: string
  RespRedirectURI :: string
  RespState :: string
  RespNextStep :: string
  RespRequiredMFA :: "string list"

record AuthResult =
  ResSession :: "UserSession option"
  ResToken :: "Token option"
  ResUser :: "User option"
  ResMFAChallenge :: "MFAChallenge option"
  ResIsMfaRequired :: bool

record AuditLog =
  LogID :: string
  LogUserID :: string
  LogActorID :: string
  LogAction :: string
  LogResource :: string
  LogStatus :: string
  LogContext :: "(string \<times> gvalue) list"
  LogTimestamp :: time
  LogIPAddress :: string
  LogUserAgent :: string

section \<open>Policies\<close>

type_synonym Effect = string

definition EffectAllow :: Effect where "EffectAllow = ''allow''"
definition EffectDeny :: Effect where "EffectDeny = ''deny''"

record Policy =
  PolID :: string
  PolVersion :: int
  PolEffect :: Effect
  PolActions :: "string list"
  PolResources :: "string list"
  PolSubjects :: "string list"
  PolConditions :: "(string \<times> (string \<times> gvalue) list) list"
  PolDescription :: string

record PolicyEvaluationContext =
  PSubject :: gmap
  PAction :: string
  PResource :: gmap
  PContext :: gmap

record PolicyDecision =
  PAllowed :: bool
  PReason :: string
  PMatchingPolicies :: "string list"

end
