(* ===== verification/Radius_Auth.thy ===== *)
theory Radius_Auth
  imports Radius_Attributes Digest_SHA1 Cipher_DES Types
begin

text \<open>
  Authentication of RADIUS requests: \<^verbatim>\<open>authenticator.go\<close> (PAP and CHAP) and
  \<^verbatim>\<open>mschap.go\<close> (MS-CHAPv2). The user service and the password service are interfaces in the source; they are
  function-valued fields of the \<^verbatim>\<open>Authenticator\<close> record, as is the MD4 digest, which comes from
  \<^verbatim>\<open>golang.org/x/crypto\<close>.
\<close>

section \<open>Configuration and services\<close>

record AuthenticatorConfig =
  RequireMFA :: bool
  MFAInPassword :: bool
  MFASeparator :: string
  DefaultSessionTimeout :: int

record RADIUSClient =
  CID :: string
  CName :: string
  CIPAddress :: string
  CSecret :: string
  CTenantID :: string
  CEnabled :: bool
  CVendorType :: string

text \<open>
  \<^verbatim>\<open>GetUserByUsername\<close> returns a user pointer, which may be nil (\<open>None\<close>), or an error.
  \<^verbatim>\<open>GetNTHash\<close> is the optional method that \<^verbatim>\<open>getNTHash\<close> looks for with a type assertion.
\<close>

record Authenticator =
  userService :: "string \<Rightarrow> (go_error, User option) outcome"
  Verify :: "string \<Rightarrow> string \<Rightarrow> (go_error, bool) outcome"
  GetNTHash :: "(string \<Rightarrow> (go_error, bytes) outcome) option"
  md4 :: "bytes \<Rightarrow> bytes"
  config :: AuthenticatorConfig

section \<open>Responses\<close>

text \<open>\<^verbatim>\<open>encodeInteger\<close>: the conversion \<^verbatim>\<open>uint32(val)\<close> of a Go int keeps the low 32 bits.\<close>

definition encodeInteger :: "int \<Rightarrow> bytes" where
  "encodeInteger val = be32_put (word_of_int val)"

definition createAccept :: "Authenticator \<Rightarrow> Packet \<Rightarrow> User \<Rightarrow> Packet" where
  "createAccept a request user =
     (let response = AddAttribute AttrServiceType (encodeInteger 2) (CreateResponse request CodeAccessAccept);
          response' = (if DefaultSessionTimeout (config a) > 0
                       then AddAttribute AttrSessionTimeout (encodeInteger (DefaultSessionTimeout (config a))) response
                       else response)
      in AddAttribute AttrClass (bytes_of (''user='' @ UID user)) response')"

definition createReject :: "Packet \<Rightarrow> string \<Rightarrow> Packet" where
  "createReject request message =
     AddAttribute AttrReplyMessage (bytes_of message) (CreateResponse request CodeAccessReject)"

section \<open>PAP\<close>

text \<open>
  \<^verbatim>\<open>strings.SplitN(s, sep, 2)[0]\<close>. A non-empty separator cuts the string before its first
  occurrence. The empty separator splits off the first UTF-8 sequence, and splits the empty
  string into no part at all, so that the index expression panics.
\<close>

fun cut_before :: "string \<Rightarrow> string \<Rightarrow> string" where
  "cut_before sep [] = []"
| "cut_before sep (c # cs) =
     (if take (length sep) (c # cs) = sep then [] else c # cut_before sep cs)"

definition between :: "nat \<Rightarrow> nat \<Rightarrow> bytes \<Rightarrow> nat \<Rightarrow> bool" where
  "between lo hi bs i \<longleftrightarrow> i < length bs \<and> lo \<le> unat (bs ! i) \<and> unat (bs ! i) \<le> hi"

text \<open>The width that \<^verbatim>\<open>utf8.DecodeRuneInString\<close> reports; 1 for an invalid sequence.\<close>

definition rune_width :: "bytes \<Rightarrow> nat" where
  "rune_width bs =
     (if between 0xC2 0xDF bs 0 \<and> between 0x80 0xBF bs 1 then 2
      else if (between 0xE0 0xE0 bs 0 \<and> between 0xA0 0xBF bs 1
               \<or> between 0xE1 0xEC bs 0 \<and> between 0x80 0xBF bs 1
               \<or> between 0xED 0xED bs 0 \<and> between 0x80 0x9F bs 1
               \<or> between 0xEE 0xEF bs 0 \<and> between 0x80 0xBF bs 1) \<and> between 0x80 0xBF bs 2 then 3
      else if (between 0xF0 0xF0 bs 0 \<and> between 0x90 0xBF bs 1
               \<or> between 0xF1 0xF3 bs 0 \<and> between 0x80 0xBF bs 1
               \<or> between 0xF4 0xF4 bs 0 \<and> between 0x80 0x8F bs 1)
              \<and> between 0x80 0xBF bs 2 \<and> between 0x80 0xBF bs 3 then 4
      else 1)"

definition splitN2_first :: "string \<Rightarrow> string \<Rightarrow> (string, string) outcome" where
  "splitN2_first s sep =
     (if sep = [] then (if s = [] then Panic else Ok (take (rune_width (bytes_of s)) s))
      else Ok (cut_before sep s))"

text \<open>The password string that PAP hands to the password service.\<close>

definition pap_password :: "Authenticator \<Rightarrow> Packet \<Rightarrow> RADIUSClient \<Rightarrow> Attribute \<Rightarrow> (string, string) outcome" where
  "pap_password a request client enc =
     (let decoded = DecodePassword (AValue enc) (PAuthenticator request) (bytes_of (CSecret client))
      in if MFAInPassword (config a) then splitN2_first decoded (MFASeparator (config a)) else Ok decoded)"

text \<open>The second half of \<^verbatim>\<open>authenticatePAP\<close>: find the user, verify the password, answer.\<close>

definition verifyPAP :: "Authenticator \<Rightarrow> Packet \<Rightarrow> string \<Rightarrow> string \<Rightarrow> Packet radius_result" where
  "verifyPAP a request username passwordStr =
     (case userService a username of
        Panic \<Rightarrow> Panic
      | Fail e \<Rightarrow> Ok (createReject request ''Invalid credentials'')
      | Ok None \<Rightarrow> Ok (createReject request ''Invalid credentials'')
      | Ok (Some u) \<Rightarrow>
          (case Verify a (UID u) passwordStr of
             Panic \<Rightarrow> Panic
           | Fail e \<Rightarrow> Ok (createReject request ''Invalid credentials'')
           | Ok valid \<Rightarrow>
               if valid then Ok (createAccept a request u)
               else Ok (createReject request ''Invalid credentials'')))"

definition authenticatePAP :: "Authenticator \<Rightarrow> Packet \<Rightarrow> RADIUSClient \<Rightarrow> string \<Rightarrow> Packet radius_result" where
  "authenticatePAP a request client username =
     (case GetAttribute request AttrUserPassword of
        None \<Rightarrow> Ok (createReject request ''Missing password'')
      | Some encPassword \<Rightarrow>
          obind (pap_password a request client encPassword) (\<lambda>passwordStr.
          verifyPAP a request username passwordStr))"

section \<open>CHAP\<close>

definition getPlainPassword :: "string \<Rightarrow> (string, string) outcome" where
  "getPlainPassword userID = Fail ''cleartext password not available''"

definition calculateCHAPResponse :: "byte \<Rightarrow> string \<Rightarrow> bytes \<Rightarrow> bytes" where
  "calculateCHAPResponse chapID password challenge = md5 ([chapID] @ bytes_of password @ challenge)"

definition authenticateCHAP :: "Authenticator \<Rightarrow> Packet \<Rightarrow> string \<Rightarrow> Attribute \<Rightarrow> Packet radius_result" where
  "authenticateCHAP a request username chapPassword =
     (if length (AValue chapPassword) < 17 then Ok (createReject request ''Invalid CHAP response'')
      else
        let chapID = AValue chapPassword ! 0;
            chapResponse = take 16 (drop 1 (AValue chapPassword));
            challengeVal = (case GetAttribute request AttrCHAPChallenge of
                              None \<Rightarrow> PAuthenticator request | Some ch \<Rightarrow> AValue ch)
        in case userService a username of
             Panic \<Rightarrow> Panic
           | Fail e \<Rightarrow> Ok (createReject request ''Invalid credentials'')
           | Ok None \<Rightarrow> Ok (createReject request ''Invalid credentials'')
           | Ok (Some u) \<Rightarrow>
               (case getPlainPassword (UID u) of
                  Panic \<Rightarrow> Panic
                | Fail e \<Rightarrow> Ok (createReject request ''CHAP not supported for this user'')
                | Ok plainPassword \<Rightarrow>
                    if chapResponse \<noteq> calculateCHAPResponse chapID plainPassword challengeVal
                    then Ok (createReject request ''Invalid credentials'')
                    else Ok (createAccept a request u)))"

section \<open>MS-CHAPv2\<close>

text \<open>The parity loop of \<^verbatim>\<open>makeDESKey\<close>: the low bit of each byte makes the number of ones odd.\<close>

definition set_odd_parity :: "byte \<Rightarrow> byte" where
  "set_odd_parity c =
     (let bits = length (filter (\<lambda>j. c AND push_bit j 1 \<noteq> 0) [0..<8])
      in if bits mod 2 = 0 then c OR 1 else c AND 0xFE)"

definition makeDESKey :: "bytes \<Rightarrow> bytes" where
  "makeDESKey key = map set_odd_parity
     [key ! 0 AND 0xFE,
      push_bit 7 (key ! 0) OR drop_bit 1 (key ! 1),
      push_bit 6 (key ! 1) OR drop_bit 2 (key ! 2),
      push_bit 5 (key ! 2) OR drop_bit 3 (key ! 3),
      push_bit 4 (key ! 3) OR drop_bit 4 (key ! 4),
      push_bit 3 (key ! 4) OR drop_bit 5 (key ! 5),
      push_bit 2 (key ! 5) OR drop_bit 6 (key ! 6),
      push_bit 1 (key ! 6)]"

definition desEncrypt :: "bytes \<Rightarrow> bytes \<Rightarrow> bytes" where
  "desEncrypt key plain = des_encrypt key plain"

definition challengeResponse :: "bytes \<Rightarrow> bytes \<Rightarrow> bytes" where
  "challengeResponse challenge ntHash =
     (let hashPad = take 21 (ntHash @ replicate 21 0)
      in desEncrypt (makeDESKey (take 7 hashPad)) challenge
         @ desEncrypt (makeDESKey (take 7 (drop 7 hashPad))) challenge
         @ desEncrypt (makeDESKey (take 7 (drop 14 hashPad))) challenge)"

definition generateNTResponse :: "bytes \<Rightarrow> bytes \<Rightarrow> string \<Rightarrow> bytes \<Rightarrow> bytes" where
  "generateNTResponse authChallenge peerChallenge username ntHash =
     (let challengeHash = take 8 (sha1 (peerChallenge @ authChallenge @ bytes_of username))
      in challengeResponse challengeHash ntHash)"

definition magic1 :: bytes where
  "magic1 = bytes_of ''Magic server to client signing constant''"

definition magic2 :: bytes where
  "magic2 = bytes_of ''Pad to make it do more than one iteration''"

definition hex_digit :: "nat \<Rightarrow> char" where
  "hex_digit n = ''0123456789ABCDEF'' ! (n mod 16)"

definition hex_upper :: "bytes \<Rightarrow> string" where
  "hex_upper bs = concat (map (\<lambda>b. [hex_digit (unat b div 16), hex_digit (unat b)]) bs)"

definition generateAuthenticatorResponse ::
    "(bytes \<Rightarrow> bytes) \<Rightarrow> bytes \<Rightarrow> bytes \<Rightarrow> bytes \<Rightarrow> bytes \<Rightarrow> string \<Rightarrow> string" where
  "generateAuthenticatorResponse MD4 ntHash ntResponse peerChallenge authChallenge username =
     (let passwordHashHash = MD4 ntHash;
          digest = sha1 (passwordHashHash @ ntResponse @ magic1);
          challengeHash = take 8 (sha1 (peerChallenge @ authChallenge @ bytes_of username));
          authResp = sha1 (digest @ challengeHash @ magic2)
      in ''S='' @ hex_upper authResp)"

definition createMSCHAPAccept :: "Packet \<Rightarrow> string \<Rightarrow> Packet" where
  "createMSCHAPAccept request authResponse =
     AddAttribute AttrVendorSpecific
       (EncodeVendorSpecific VendorMicrosoft MSCHAP2Success (bytes_of authResponse))
       (CreateResponse request CodeAccessAccept)"

definition createMSCHAPError :: "Packet \<Rightarrow> string \<Rightarrow> Packet" where
  "createMSCHAPError request message =
     AddAttribute AttrVendorSpecific
       (EncodeVendorSpecific VendorMicrosoft MSCHAPError (bytes_of message))
       (CreateResponse request CodeAccessReject)"

fun getVendorAttribute_loop :: "Attribute list \<Rightarrow> u32 \<Rightarrow> byte \<Rightarrow> Attribute option radius_result" where
  "getVendorAttribute_loop [] vendorID attrType = Ok None"
| "getVendorAttribute_loop (attr # attrs) vendorID attrType =
     (if AType attr = AttrVendorSpecific then
        obind (go_slice (AValue attr) 0 4) (\<lambda>b.
        obind (go_uint32 b) (\<lambda>vid.
        obind (go_index (AValue attr) 4) (\<lambda>atype.
        if vid = vendorID \<and> atype = attrType then
          obind (go_index (AValue attr) 5) (\<lambda>len.
          obind (go_slice (AValue attr) 6 (length (AValue attr))) (\<lambda>v.
          Ok (Some \<lparr>AType = attrType, ALength = len, AValue = v\<rparr>)))
        else getVendorAttribute_loop attrs vendorID attrType)))
      else getVendorAttribute_loop attrs vendorID attrType)"

definition getVendorAttribute :: "Packet \<Rightarrow> u32 \<Rightarrow> byte \<Rightarrow> Attribute option radius_result" where
  "getVendorAttribute p vendorID attrType = getVendorAttribute_loop (Attributes p) vendorID attrType"

definition getNTHash :: "Authenticator \<Rightarrow> string \<Rightarrow> (go_error, bytes) outcome" where
  "getNTHash a userID =
     (case GetNTHash a of
        Some f \<Rightarrow> f userID
      | None \<Rightarrow> Fail (Errorf ''password service does not support NTHash retrieval''))"

definition mschap_failed :: string where
  "mschap_failed = ''E=691 R=0 C=0000000000000000 V=3 M=Auth Failed''"

definition mschapAuthenticate :: "Authenticator \<Rightarrow> Packet \<Rightarrow> string \<Rightarrow> Packet radius_result" where
  "mschapAuthenticate a request username =
     obind (getVendorAttribute request VendorMicrosoft MSCHAP2Response) (\<lambda>respAttr.
     case respAttr of
       None \<Rightarrow> Fail ''MS-CHAPv2 response not found''
     | Some attr \<Rightarrow>
         let mschapResp = AValue attr in
         if length mschapResp \<noteq> 50 then Fail ''invalid MS-CHAPv2 response length''
         else
           let peerChallenge = take 16 (drop 2 mschapResp); ntResponse = take 24 (drop 26 mschapResp) in
           obind (getVendorAttribute request VendorMicrosoft MSCHAPChallenge) (\<lambda>chAttr.
           case chAttr of
             None \<Rightarrow> Fail ''missing MS-CHAP-Challenge''
           | Some ch \<Rightarrow>
               let authChallenge = AValue ch in
               (case userService a username of
                  Panic \<Rightarrow> Panic
                | Fail e \<Rightarrow> Ok (createMSCHAPError request ''Invalid credentials'')
                | Ok None \<Rightarrow> Panic
                | Ok (Some u) \<Rightarrow>
                    (case getNTHash a (UID u) of
                       Panic \<Rightarrow> Panic
                     | Fail e \<Rightarrow> Ok (createMSCHAPError request mschap_failed)
                     | Ok ntHash \<Rightarrow>
                         if ntResponse \<noteq> generateNTResponse authChallenge peerChallenge username ntHash
                         then Ok (createMSCHAPError request mschap_failed)
                         else Ok (createMSCHAPAccept request
                                (generateAuthenticatorResponse (md4 a) ntHash ntResponse
                                   peerChallenge authChallenge username))))))"

section \<open>Dispatch\<close>

fun isMSCHAPRequest_loop :: "Attribute list \<Rightarrow> bool radius_result" where
  "isMSCHAPRequest_loop [] = Ok False"
| "isMSCHAPRequest_loop (attr # attrs) =
     (if AType attr = AttrVendorSpecific then
        obind (go_slice (AValue attr) 0 4) (\<lambda>b.
        obind (go_uint32 b) (\<lambda>vid.
        if vid = VendorMicrosoft then Ok True else isMSCHAPRequest_loop attrs))
      else isMSCHAPRequest_loop attrs)"

definition isMSCHAPRequest :: "Packet \<Rightarrow> bool radius_result" where
  "isMSCHAPRequest request = isMSCHAPRequest_loop (Attributes request)"

definition Authenticate :: "Authenticator \<Rightarrow> Packet \<Rightarrow> RADIUSClient \<Rightarrow> Packet radius_result" where
  "Authenticate a request client =
     (let username = GetString request AttrUserName in
      if username = '''' then Ok (createReject request ''Missing username'')
      else case GetAttribute request AttrCHAPPassword of
             Some chapPassword \<Rightarrow> authenticateCHAP a request username chapPassword
           | None \<Rightarrow>
               obind (isMSCHAPRequest request) (\<lambda>ms.
               if ms then mschapAuthenticate a request username
               else authenticatePAP a request client username))"

section \<open>DES keys\<close>

definition odd_parity :: "byte \<Rightarrow> bool" where
  "odd_parity b \<longleftrightarrow> odd (length (filter (bit b) [0..<8]))"

lemma set_odd_parity_alt: "set_odd_parity c = (if odd_parity c then c AND 0xFE else c OR 1)"
  unfolding set_odd_parity_def odd_parity_def Let_def bit_iff_and_push_bit_not_eq_0 [symmetric]
  by (simp add: odd_iff_mod_2_eq_one)

lemma byte_bit_beyond: "8 \<le> j \<Longrightarrow> \<not> bit (b :: byte) j"
  using bit_imp_le_length [of b j] by auto

lemma bit_0xFE: "bit (0xFE :: byte) j \<longleftrightarrow> 0 < j \<and> j < 8"
proof (cases "j < 8")
  case True
  then have "j \<in> {0, 1, 2, 3, 4, 5, 6, 7}" by auto
  then show ?thesis by auto
next
  case False
  then show ?thesis using byte_bit_beyond [of j "0xFE"] by auto
qed

lemma bit_mask_0xFE: "bit (c AND (0xFE :: byte)) j \<longleftrightarrow> 0 < j \<and> bit c j"
  unfolding bit_and_iff bit_0xFE using byte_bit_beyond [of j c] by (cases "j < 8") auto

lemma bit_push_1: "bit (g * 2 :: byte) j \<longleftrightarrow> 0 < j \<and> j < 8 \<and> bit g (j - 1)"
proof -
  have "g * 2 = push_bit 1 g" by (simp add: push_bit_eq_mult)
  then show ?thesis by (auto simp only: bit_push_bit_iff) (auto simp: byte_bit_beyond bit_simps)
qed

lemma bit_set_odd_parity: "0 < j \<Longrightarrow> bit (set_odd_parity c) j \<longleftrightarrow> bit c j"
  by (simp add: set_odd_parity_alt bit_mask_0xFE bit_or_iff bit_1_iff)

lemma bit_set_odd_parity_0: "bit (set_odd_parity c) 0 \<longleftrightarrow> \<not> odd_parity c"
  by (simp add: set_odd_parity_alt bit_mask_0xFE bit_or_iff bit_1_iff del: bit_0)

lemma byte_bits: "[0..<8] = [0, 1, 2, 3, 4, 5, 6, 7 :: nat]"
  by (simp add: upt_rec)

lemma list_7:
  assumes "length xs = 7"
  obtains a b c d e f g where "xs = [a, b, c, d, e, f, g]"
  using assms by (auto simp: numeral_eq_Suc length_Suc_conv)

lemma des_encrypt_parity:
  assumes "\<And>j. 0 < j \<Longrightarrow> bit a j = bit a' j" "\<And>j. 0 < j \<Longrightarrow> bit b j = bit b' j"
    "\<And>j. 0 < j \<Longrightarrow> bit c j = bit c' j" "\<And>j. 0 < j \<Longrightarrow> bit d j = bit d' j"
    "\<And>j. 0 < j \<Longrightarrow> bit e j = bit e' j" "\<And>j. 0 < j \<Longrightarrow> bit f j = bit f' j"
    "\<And>j. 0 < j \<Longrightarrow> bit g j = bit g' j" "\<And>j. 0 < j \<Longrightarrow> bit h j = bit h' j"
  shows "des_encrypt [a, b, c, d, e, f, g, h] x = des_encrypt [a', b', c', d', e', f', g', h'] x"
proof -
  have "permute des_PC1 (bits_of_bytes [a, b, c, d, e, f, g, h])
      = permute des_PC1 (bits_of_bytes [a', b', c', d', e', f', g', h'])"
    by (simp add: permute_def des_PC1_def bits_of_bytes_def bits_of_byte_def assms)
  then show ?thesis by (simp add: des_encrypt_def des_schedule_def)
qed

section \<open>Properties of the key expansion\<close>

text \<open>
  \<^verbatim>\<open>makeDESKey\<close> spreads the 56 bits of a 7-byte key over the upper seven bits of eight bytes, in
  order.
\<close>

theorem makeDESKey_bits:
  assumes "length key = 7"
  shows "concat (map (\<lambda>b. take 7 (bits_of_byte b)) (makeDESKey key)) = bits_of_bytes key"
proof -
  obtain a b c d e f g where k: "key = [a, b, c, d, e, f, g]" using assms by (rule list_7)
  show ?thesis
    by (simp add: k makeDESKey_def bits_of_bytes_def bits_of_byte_def bit_set_odd_parity
        bit_mask_0xFE bit_or_iff bit_push_bit_iff bit_drop_bit_eq byte_bit_beyond bit_push_1)
      (simp add: eval_nat_numeral)
qed

theorem makeDESKey_bits_witness:
  "concat (map (\<lambda>b. take 7 (bits_of_byte b)) (makeDESKey [0, 1, 2, 3, 4, 5, 255])) = bits_of_bytes [0, 1, 2, 3, 4, 5, 255]"
  by (rule makeDESKey_bits) simp

text \<open>
  The parity bit is right exactly when the expanded byte had a clear low bit. The loop that is to set
  odd parity counts that low bit too, so bytes whose shifted-in low bit is set leave it with even parity.
\<close>

theorem set_odd_parity_odd_iff: "odd_parity (set_odd_parity c) \<longleftrightarrow> \<not> bit c 0"
proof -
  have "filter (bit (set_odd_parity c)) [1, 2, 3, 4, 5, 6, 7] = filter (bit c) [1, 2, 3, 4, 5, 6, 7]"
    by (rule filter_cong) (auto simp: bit_set_odd_parity)
  then have "odd_parity (set_odd_parity c) \<longleftrightarrow>
      odd (length (filter (bit c) [1, 2, 3, 4, 5, 6, 7]) + (if odd_parity c then 0 else 1))"
    unfolding odd_parity_def byte_bits by (simp add: bit_set_odd_parity_0 odd_parity_def byte_bits)
  moreover have "odd_parity c \<longleftrightarrow>
      odd (length (filter (bit c) [1, 2, 3, 4, 5, 6, 7]) + (if bit c 0 then 1 else 0))"
    unfolding odd_parity_def byte_bits by simp
  ultimately show ?thesis by (auto split: if_splits)
qed

text \<open>
  The parity bits do not reach the cipher: DES under the expanded key equals DES under the same
  bytes before the parity loop, so the NT response is not affected by them.
\<close>

theorem desEncrypt_makeDESKey_parity_free:
  "desEncrypt (makeDESKey key) x =
     desEncrypt
       [key ! 0 AND 0xFE, push_bit 7 (key ! 0) OR drop_bit 1 (key ! 1), push_bit 6 (key ! 1) OR drop_bit 2 (key ! 2),
        push_bit 5 (key ! 2) OR drop_bit 3 (key ! 3), push_bit 4 (key ! 3) OR drop_bit 4 (key ! 4),
        push_bit 3 (key ! 4) OR drop_bit 5 (key ! 5), push_bit 2 (key ! 5) OR drop_bit 6 (key ! 6),
        push_bit 1 (key ! 6)] x"
  unfolding desEncrypt_def makeDESKey_def list.map
  by (rule des_encrypt_parity) (simp_all only: bit_set_odd_parity)

section \<open>Responses of the authenticator\<close>

text \<open>What every response shares: it answers the request's identifier under the request's secret.\<close>

definition answers :: "Packet \<Rightarrow> Packet \<Rightarrow> bool" where
  "answers request resp \<longleftrightarrow> Identifier resp = Identifier request \<and> Secret resp = Secret request
     \<and> PAuthenticator resp = replicate 16 0"

lemma Code_responses [simp]:
  "Code (createReject r m) = CodeAccessReject" "Code (createMSCHAPError r m) = CodeAccessReject"
  "Code (createAccept a r u) = CodeAccessAccept" "Code (createMSCHAPAccept r m) = CodeAccessAccept"
  by (simp_all add: createReject_def createMSCHAPError_def createAccept_def createMSCHAPAccept_def
      AddAttribute_def CreateResponse_def Let_def)

lemma answers_responses [simp]:
  "answers r (createReject r m)" "answers r (createMSCHAPError r m)"
  "answers r (createAccept a r u)" "answers r (createMSCHAPAccept r m)"
  by (simp_all add: answers_def createReject_def createMSCHAPError_def createAccept_def createMSCHAPAccept_def
      AddAttribute_def CreateResponse_def Let_def)

lemma accept_not_reject [simp]: "CodeAccessAccept \<noteq> CodeAccessReject" "CodeAccessReject \<noteq> CodeAccessAccept"
  by (simp_all add: packet_codes)

lemma getPlainPassword_Fail [simp]: "getPlainPassword uid = Fail ''cleartext password not available''"
  by (simp add: getPlainPassword_def)

lemma verifyPAP_cases:
  assumes "verifyPAP a request username pw = Ok resp"
  shows "(\<exists>m. resp = createReject request m) \<or>
    (\<exists>u. userService a username = Ok (Some u) \<and> Verify a (UID u) pw = Ok True \<and> resp = createAccept a request u)"
proof (cases "userService a username")
  case (Ok uo)
  show ?thesis
  proof (cases uo)
    case (Some u)
    with Ok assms show ?thesis
      by (cases "Verify a (UID u) pw") (auto simp: verifyPAP_def split: if_splits)
  qed (use Ok assms in \<open>auto simp: verifyPAP_def\<close>)
qed (use assms in \<open>auto simp: verifyPAP_def\<close>)

lemma authenticatePAP_cases:
  assumes "authenticatePAP a request client username = Ok resp"
  shows "(\<exists>m. resp = createReject request m) \<or>
    (\<exists>enc pw u. GetAttribute request AttrUserPassword = Some enc
       \<and> pap_password a request client enc = Ok pw \<and> userService a username = Ok (Some u)
       \<and> Verify a (UID u) pw = Ok True \<and> resp = createAccept a request u)"
proof (cases "GetAttribute request AttrUserPassword")
  case None
  with assms show ?thesis by (auto simp: authenticatePAP_def)
next
  case (Some enc)
  with assms obtain pw where pw: "pap_password a request client enc = Ok pw"
    and v: "verifyPAP a request username pw = Ok resp"
    by (auto simp: authenticatePAP_def obind_eq_Ok)
  show ?thesis using verifyPAP_cases [OF v] pw Some by blast
qed

lemma authenticateCHAP_cases:
  assumes "authenticateCHAP a request username chap = Ok resp"
  shows "\<exists>m. resp = createReject request m"
  using assms by (auto simp: authenticateCHAP_def Let_def split: option.splits outcome.splits if_splits)

lemma mschapAuthenticate_cases:
  assumes "mschapAuthenticate a request username = Ok resp"
  shows "(\<exists>m. resp = createMSCHAPError request m) \<or>
    (\<exists>attr ch u ntHash. getVendorAttribute request VendorMicrosoft MSCHAP2Response = Ok (Some attr)
       \<and> length (AValue attr) = 50
       \<and> getVendorAttribute request VendorMicrosoft MSCHAPChallenge = Ok (Some ch)
       \<and> userService a username = Ok (Some u) \<and> getNTHash a (UID u) = Ok ntHash
       \<and> take 24 (drop 26 (AValue attr))
           = generateNTResponse (AValue ch) (take 16 (drop 2 (AValue attr))) username ntHash
       \<and> (\<exists>m. resp = createMSCHAPAccept request m))"
proof (rule disjCI)
  assume no: "\<not> (\<exists>attr ch u ntHash. getVendorAttribute request VendorMicrosoft MSCHAP2Response = Ok (Some attr)
       \<and> length (AValue attr) = 50
       \<and> getVendorAttribute request VendorMicrosoft MSCHAPChallenge = Ok (Some ch)
       \<and> userService a username = Ok (Some u) \<and> getNTHash a (UID u) = Ok ntHash
       \<and> take 24 (drop 26 (AValue attr))
           = generateNTResponse (AValue ch) (take 16 (drop 2 (AValue attr))) username ntHash
       \<and> (\<exists>m. resp = createMSCHAPAccept request m))"
  from assms obtain attr ch where
    attrs: "getVendorAttribute request VendorMicrosoft MSCHAP2Response = Ok (Some attr)"
      "length (AValue attr) = 50" "getVendorAttribute request VendorMicrosoft MSCHAPChallenge = Ok (Some ch)"
    by (auto simp: mschapAuthenticate_def Let_def obind_eq_Ok split: option.splits if_splits)
  consider (fail) e where "userService a username = Fail e" | (bad) "userService a username \<in> {Panic, Ok None}"
    | (user) u where "userService a username = Ok (Some u)"
    by (cases "userService a username") (auto simp: not_None_eq)
  then show "\<exists>m. resp = createMSCHAPError request m"
  proof cases
    case user
    show ?thesis
    proof (cases "getNTHash a (UID u)")
      case (Ok ntHash)
      then show ?thesis
        using assms attrs user no unfolding mschapAuthenticate_def Let_def by (auto split: if_splits)
    qed (use assms attrs user in \<open>auto simp: mschapAuthenticate_def\<close>)
  qed (use assms attrs in \<open>auto simp: mschapAuthenticate_def\<close>)
qed

lemma Authenticate_cases:
  assumes "Authenticate a request client = Ok resp"
  shows "(\<exists>m. resp = createReject request m) \<or>
    (GetAttribute request AttrCHAPPassword = None \<and>
      (authenticatePAP a request client (GetString request AttrUserName) = Ok resp \<or>
       mschapAuthenticate a request (GetString request AttrUserName) = Ok resp))"
  using assms
  by (auto simp: Authenticate_def Let_def obind_eq_Ok split: option.splits if_splits dest: authenticateCHAP_cases)

lemma RequireMFA_unread:
  "authenticateCHAP (a\<lparr>config := (config a)\<lparr>RequireMFA := b\<rparr>\<rparr>) request n chap = authenticateCHAP a request n chap"
  "authenticatePAP (a\<lparr>config := (config a)\<lparr>RequireMFA := b\<rparr>\<rparr>) request client n = authenticatePAP a request client n"
  "mschapAuthenticate (a\<lparr>config := (config a)\<lparr>RequireMFA := b\<rparr>\<rparr>) request n = mschapAuthenticate a request n"
proof -
  have accept: "createAccept (a\<lparr>config := (config a)\<lparr>RequireMFA := b\<rparr>\<rparr>) = createAccept a"
    by (simp add: fun_eq_iff createAccept_def Let_def)
  have hash: "getNTHash (a\<lparr>config := (config a)\<lparr>RequireMFA := b\<rparr>\<rparr>) = getNTHash a"
    by (simp add: fun_eq_iff getNTHash_def)
  have proj: "userService (a\<lparr>config := c\<rparr>) = userService a" "Verify (a\<lparr>config := c\<rparr>) = Verify a"
    "md4 (a\<lparr>config := c\<rparr>) = md4 a" "config (a\<lparr>config := c\<rparr>) = c"
    "MFAInPassword (d\<lparr>RequireMFA := b\<rparr>) = MFAInPassword d" "MFASeparator (d\<lparr>RequireMFA := b\<rparr>) = MFASeparator d"
    for c d by simp_all
  show "authenticateCHAP (a\<lparr>config := (config a)\<lparr>RequireMFA := b\<rparr>\<rparr>) request n chap = authenticateCHAP a request n chap"
    unfolding authenticateCHAP_def accept proj by (rule refl)
  show "authenticatePAP (a\<lparr>config := (config a)\<lparr>RequireMFA := b\<rparr>\<rparr>) request client n = authenticatePAP a request client n"
    unfolding authenticatePAP_def verifyPAP_def pap_password_def accept proj by (rule refl)
  show "mschapAuthenticate (a\<lparr>config := (config a)\<lparr>RequireMFA := b\<rparr>\<rparr>) request n = mschapAuthenticate a request n"
    unfolding mschapAuthenticate_def hash proj by (rule refl)
qed

definition password_confirmed :: "Authenticator \<Rightarrow> Packet \<Rightarrow> RADIUSClient \<Rightarrow> User \<Rightarrow> bool" where
  "password_confirmed a request client u \<longleftrightarrow>
     (\<exists>enc pw. GetAttribute request AttrUserPassword = Some enc \<and> pap_password a request client enc = Ok pw
        \<and> Verify a (UID u) pw = Ok True)"

definition nt_response_matches :: "Authenticator \<Rightarrow> Packet \<Rightarrow> User \<Rightarrow> bool" where
  "nt_response_matches a request u \<longleftrightarrow>
     (\<exists>attr ch ntHash. getVendorAttribute request VendorMicrosoft MSCHAP2Response = Ok (Some attr)
        \<and> getVendorAttribute request VendorMicrosoft MSCHAPChallenge = Ok (Some ch)
        \<and> getNTHash a (UID u) = Ok ntHash
        \<and> take 24 (drop 26 (AValue attr)) =
            generateNTResponse (AValue ch) (take 16 (drop 2 (AValue attr))) (GetString request AttrUserName) ntHash)"

lemma Authenticate_accept_user:
  assumes "Authenticate a request client = Ok resp" and "Code resp = CodeAccessAccept"
  shows "\<exists>u. userService a (GetString request AttrUserName) = Ok (Some u) \<and>
    (password_confirmed a request client u \<or> nt_response_matches a request u)"
proof -
  have "resp \<noteq> createReject request m" "resp \<noteq> createMSCHAPError request m" for m
    using assms(2) by auto
  then show ?thesis
    unfolding password_confirmed_def nt_response_matches_def
    using Authenticate_cases [OF assms(1)] authenticatePAP_cases [of a request client _ resp]
      mschapAuthenticate_cases [of a request _ resp]
    by blast
qed

section \<open>Properties of the authenticator\<close>

text \<open>
  An Access-Accept is only ever made for a user that the user service returned for the request's
  User-Name, after either the password service confirmed the decoded password (PAP) or the peer's NT response
  matched the one computed from that user's NT hash (MS-CHAPv2).
\<close>

theorem Authenticate_accept_sound:
  assumes "Authenticate a request client = Ok resp" and "Code resp = CodeAccessAccept"
  shows "\<exists>u. userService a (GetString request AttrUserName) = Ok (Some u) \<and>
    (password_confirmed a request client u \<or> nt_response_matches a request u)"
  using assms by (rule Authenticate_accept_user)

definition demo_user :: User where
  "demo_user = zero_user\<lparr>UID := ''u1'', Username := ''bob''\<rparr>"

definition demo_authenticator :: Authenticator where
  "demo_authenticator =
     \<lparr>userService = (\<lambda>n. if n = ''bob'' then Ok (Some demo_user) else Fail ErrNotFound),
      Verify = (\<lambda>i pw. Ok (pw = ''s3cret'')), GetNTHash = None, md4 = (\<lambda>bs. bs),
      config = \<lparr>RequireMFA = True, MFAInPassword = False, MFASeparator = '','', DefaultSessionTimeout = 60\<rparr>\<rparr>"

definition demo_client :: RADIUSClient where
  "demo_client = \<lparr>CID = ''c1'', CName = ''nas'', CIPAddress = ''10.0.0.1'', CSecret = ''k'', CTenantID = ''t'',
     CEnabled = True, CVendorType = ''generic''\<rparr>"

definition demo_request :: Packet where
  "demo_request =
     AddAttribute AttrUserPassword (EncodePassword ''s3cret'' (replicate 16 3) (bytes_of ''k''))
       (AddAttribute AttrUserName (bytes_of ''bob'')
          \<lparr>Code = CodeAccessRequest, Identifier = 7, PLength = 0, PAuthenticator = replicate 16 3,
           Attributes = [], Secret = bytes_of ''k''\<rparr>)"

lemma demo_trim: "string_of (trim_zeros (bytes_of ''s3cret'')) = ''s3cret''"
  by code_simp

lemma demo_Authenticate:
  "Authenticate demo_authenticator (demo_request\<lparr>PLength := n, Secret := k\<rparr>) demo_client
     = Ok (createAccept demo_authenticator (demo_request\<lparr>PLength := n, Secret := k\<rparr>) demo_user)"
proof -
  let ?r = "demo_request\<lparr>PLength := n, Secret := k\<rparr>"
  have "GetString ?r AttrUserName = ''bob''"
    by (simp add: GetString_def GetAttribute_def demo_request_def AddAttribute_def attr_numbers)
  moreover have "GetAttribute ?r AttrCHAPPassword = None"
    by (simp add: GetAttribute_def demo_request_def AddAttribute_def attr_numbers)
  moreover have "isMSCHAPRequest ?r = Ok False"
    by (simp add: isMSCHAPRequest_def demo_request_def AddAttribute_def attr_numbers)
  moreover have "\<exists>l. GetAttribute ?r AttrUserPassword = Some \<lparr>AType = 2, ALength = l,
      AValue = EncodePassword ''s3cret'' (replicate 16 3) (bytes_of ''k'')\<rparr>"
    by (simp add: GetAttribute_def demo_request_def AddAttribute_def attr_numbers)
  moreover have "PAuthenticator ?r = replicate 16 3"
    by (simp add: demo_request_def AddAttribute_def)
  ultimately show ?thesis
    by (auto simp: Authenticate_def authenticatePAP_def pap_password_def verifyPAP_def demo_client_def
        decode_encode_password demo_trim demo_authenticator_def demo_user_def)
qed

theorem Authenticate_accept_sound_witness:
  "\<exists>n u. userService demo_authenticator (GetString (demo_request\<lparr>PLength := n, Secret := []\<rparr>) AttrUserName) = Ok (Some u)
     \<and> (password_confirmed demo_authenticator (demo_request\<lparr>PLength := n, Secret := []\<rparr>) demo_client u
        \<or> nt_response_matches demo_authenticator (demo_request\<lparr>PLength := n, Secret := []\<rparr>) u)"
  using Authenticate_accept_sound [OF demo_Authenticate [where n = 0 and k = "[]"]] by auto

text \<open>
  A request that carries a CHAP-Password attribute is never accepted, whatever the user and the
  response: no clear-text password is available to compute the expected response from.
\<close>

theorem CHAP_never_accepted:
  assumes "GetAttribute request AttrCHAPPassword \<noteq> None"
    and "Authenticate a request client = Ok resp"
  shows "Code resp = CodeAccessReject"
  using Authenticate_cases [OF assms(2)] assms(1) by auto

theorem CHAP_never_accepted_witness:
  "\<exists>resp. Authenticate demo_authenticator (AddAttribute AttrCHAPPassword (replicate 17 1) demo_request) demo_client
     = Ok resp \<and> Code resp = CodeAccessReject"
proof -
  let ?r = "AddAttribute AttrCHAPPassword (replicate 17 1) demo_request"
  have g: "GetAttribute ?r AttrCHAPPassword \<noteq> None"
    by (simp add: GetAttribute_def demo_request_def AddAttribute_def attr_numbers)
  have "GetString ?r AttrUserName = ''bob''"
    by (simp add: GetString_def GetAttribute_def demo_request_def AddAttribute_def attr_numbers)
  with g obtain chap where "Authenticate demo_authenticator ?r demo_client
      = authenticateCHAP demo_authenticator ?r ''bob'' chap"
    by (auto simp: Authenticate_def)
  moreover have "\<exists>resp. authenticateCHAP demo_authenticator ?r ''bob'' chap = Ok resp"
    by (simp add: authenticateCHAP_def demo_authenticator_def Let_def)
  ultimately show ?thesis using CHAP_never_accepted [OF g] by metis
qed

text \<open>
  The answer does not depend on \<^verbatim>\<open>RequireMFA\<close>: the configuration option is read nowhere, so a
  user accepted without a second factor is accepted in both settings.
\<close>

theorem Authenticate_ignores_RequireMFA:
  "Authenticate (a\<lparr>config := (config a)\<lparr>RequireMFA := b\<rparr>\<rparr>) request client = Authenticate a request client"
  unfolding Authenticate_def RequireMFA_unread by (rule refl)

definition short_vsa :: "Attribute \<Rightarrow> bool" where
  "short_vsa attr \<longleftrightarrow> AType attr = AttrVendorSpecific \<and> length (AValue attr) < 4"

definition microsoft_vsa :: "Attribute \<Rightarrow> bool" where
  "microsoft_vsa attr \<longleftrightarrow> AType attr = AttrVendorSpecific \<and> 4 \<le> length (AValue attr)
     \<and> be32_get (AValue attr ! 0) (AValue attr ! 1) (AValue attr ! 2) (AValue attr ! 3) = VendorMicrosoft"

lemma vsa_vendor:
  "obind (go_slice v 0 4) go_uint32 =
     (if length v < 4 then Panic else Ok (be32_get (v ! 0) (v ! 1) (v ! 2) (v ! 3)))"
  by (auto simp: go_slice_def go_uint32_def)

text \<open>
  Looking for a Microsoft attribute panics exactly when a vendor-specific attribute
  shorter than four bytes comes before the first Microsoft one.
\<close>

theorem isMSCHAPRequest_Panic_iff:
  "isMSCHAPRequest request = Panic \<longleftrightarrow>
     (\<exists>pre attr post. Attributes request = pre @ attr # post \<and> short_vsa attr
        \<and> \<not> list_ex short_vsa pre \<and> \<not> list_ex microsoft_vsa pre)"
proof -
  have "isMSCHAPRequest_loop attrs = Panic \<longleftrightarrow>
     (\<exists>pre attr post. attrs = pre @ attr # post \<and> short_vsa attr
        \<and> \<not> list_ex short_vsa pre \<and> \<not> list_ex microsoft_vsa pre)" for attrs
  proof (induction attrs)
    case (Cons a attrs)
    have "isMSCHAPRequest_loop (a # attrs) = Panic \<longleftrightarrow>
        short_vsa a \<or> \<not> microsoft_vsa a \<and> isMSCHAPRequest_loop attrs = Panic"
      by (auto simp: short_vsa_def microsoft_vsa_def go_slice_def go_uint32_def)
    also have "\<dots> \<longleftrightarrow> (\<exists>pre attr post. a # attrs = pre @ attr # post \<and> short_vsa attr
        \<and> \<not> list_ex short_vsa pre \<and> \<not> list_ex microsoft_vsa pre)" (is "?L \<longleftrightarrow> (\<exists>pre attr post. ?R pre attr post)")
    proof
      assume L: ?L
      show "\<exists>pre attr post. ?R pre attr post"
      proof (cases "short_vsa a")
        case True
        then have "?R [] a attrs" by simp
        then show ?thesis by blast
      next
        case False
        with L obtain pre attr post where "attrs = pre @ attr # post" "short_vsa attr"
          "\<not> list_ex short_vsa pre" "\<not> list_ex microsoft_vsa pre" "\<not> microsoft_vsa a"
          unfolding Cons.IH by blast
        with False have "?R (a # pre) attr post" by simp
        then show ?thesis by blast
      qed
    next
      assume "\<exists>pre attr post. ?R pre attr post"
      then obtain pre attr post where R: "?R pre attr post" by blast
      then show ?L unfolding Cons.IH by (cases pre) auto
    qed
    finally show ?case .
  qed simp
  then show ?thesis by (simp add: isMSCHAPRequest_def)
qed

end
