(* ===== verification/Radius_Server.thy ===== *)
theory Radius_Server
  imports Radius_Auth
begin

text \<open>
  The RADIUS server around the authenticator: the NAS client registry with its cache
  (\<^verbatim>\<open>client_manager.go\<close>), accounting (\<^verbatim>\<open>accounting.go\<close>), the upstream proxy
  (\<^verbatim>\<open>proxy.go\<close>) and the two request handlers (\<^verbatim>\<open>server.go\<close>). The database behind gorm,
  the address parser of \<^verbatim>\<open>net\<close>, the clock and the upstream socket are parameters. A handler returns
  the datagram that it sends, if any.
\<close>

section \<open>The client registry\<close>

text \<open>A row of the table \<^verbatim>\<open>radius_clients\<close>, without the JSON column that no modelled code reads.\<close>

record RadiusClientRow =
  RowID :: string
  RowName :: string
  RowIPAddress :: string
  RowSecret :: string
  RowTenantID :: string
  RowEnabled :: bool
  RowVendorType :: string

text \<open>
  \<^verbatim>\<open>find_exact ip\<close> is the query for an enabled row with this address (\<open>Ok None\<close> for
  \<^verbatim>\<open>gorm.ErrRecordNotFound\<close>), \<^verbatim>\<open>find_cidr\<close> the query for the enabled rows whose address holds a
  slash; \<^verbatim>\<open>parse_ip\<close> and \<^verbatim>\<open>subnet_contains\<close> are \<^verbatim>\<open>net.ParseIP\<close> and
  \<^verbatim>\<open>net.ParseCIDR\<close> followed by \<^verbatim>\<open>Contains\<close> (\<open>None\<close> when the CIDR does not parse).
\<close>

record 'ip ClientDB =
  find_exact :: "string \<Rightarrow> (go_error, RadiusClientRow option) outcome"
  find_cidr :: "(go_error, RadiusClientRow list) outcome"
  parse_ip :: "string \<Rightarrow> 'ip option"
  subnet_contains :: "string \<Rightarrow> 'ip \<Rightarrow> bool option"

type_synonym client_cache = "string \<rightharpoonup> RADIUSClient"

definition toDomain :: "RadiusClientRow \<Rightarrow> RADIUSClient" where
  "toDomain c = \<lparr>CID = RowID c, CName = RowName c, CIPAddress = RowIPAddress c, CSecret = RowSecret c,
     CTenantID = RowTenantID c, CEnabled = RowEnabled c, CVendorType = RowVendorType c\<rparr>"

definition GetByIP ::
    "'ip ClientDB \<Rightarrow> client_cache \<Rightarrow> string \<Rightarrow> (go_error, RADIUSClient) outcome \<times> client_cache" where
  "GetByIP db cache ip =
     (case cache ip of
        Some client \<Rightarrow> (Ok client, cache)
      | None \<Rightarrow>
          (case find_exact db ip of
             Panic \<Rightarrow> (Panic, cache)
           | Fail e \<Rightarrow> (Fail e, cache)
           | Ok (Some row) \<Rightarrow> (Ok (toDomain row), cache(ip \<mapsto> toDomain row))
           | Ok None \<Rightarrow>
               (case find_cidr db of
                  Panic \<Rightarrow> (Panic, cache)
                | Fail e \<Rightarrow> (Fail e, cache)
                | Ok clients \<Rightarrow>
                    (case parse_ip db ip of
                       None \<Rightarrow> (Fail (Errorf ''invalid request IP''), cache)
                     | Some requestIP \<Rightarrow>
                         (case find (\<lambda>c. subnet_contains db (RowIPAddress c) requestIP = Some True) clients of
                            None \<Rightarrow> (Fail (Errorf ''client not found''), cache)
                          | Some c \<Rightarrow> (Ok (toDomain c), cache(ip \<mapsto> toDomain c)))))))"

definition InvalidateCache :: "client_cache \<Rightarrow> client_cache" where
  "InvalidateCache cache = Map.empty"

section \<open>Accounting\<close>

record RadiusAccounting =
  AcctID :: string
  AcctSessionID :: string
  AcctUsername :: string
  AcctNASIdentifier :: string
  AcctNASIPAddress :: string
  AcctStatusType :: nat
  AcctSessionTime :: nat
  AcctInputOctets :: nat
  AcctOutputOctets :: nat
  AcctInputPackets :: nat
  AcctOutputPackets :: nat
  AcctTerminateCause :: nat
  AcctCreatedAt :: time

text \<open>An optional 32-bit attribute: absent means 0, a value of fewer than four bytes panics.\<close>

definition acct_metric :: "Packet \<Rightarrow> byte \<Rightarrow> nat radius_result" where
  "acct_metric request t =
     (case GetAttribute request t of
        None \<Rightarrow> Ok 0
      | Some a \<Rightarrow> obind (go_uint32 (AValue a)) (\<lambda>w. Ok (unat w)))"

text \<open>
  \<^verbatim>\<open>Handle\<close>. \<open>nano\<close> and \<open>now\<close> are the two readings of the clock, \<open>create\<close> the insert (an error or none),
  \<open>log\<close> the table of accounting records.
\<close>

definition acct_Handle ::
    "(RadiusAccounting \<Rightarrow> go_error option) \<Rightarrow> int \<Rightarrow> time \<Rightarrow> RadiusAccounting list \<Rightarrow> Packet \<Rightarrow> string option
      \<Rightarrow> (Packet \<times> RadiusAccounting list) radius_result" where
  "acct_Handle create nano now log request remoteIP =
     (case GetAttribute request AttrAcctStatusType of
        None \<Rightarrow> Fail ''missing Acct-Status-Type''
      | Some statusAttr \<Rightarrow>
          if length (AValue statusAttr) \<noteq> 4 then Fail ''invalid Acct-Status-Type length''
          else
            obind (go_uint32 (AValue statusAttr)) (\<lambda>statusType.
            let sessionID = GetString request AttrAcctSessionId in
            if sessionID = '''' then Fail ''missing Acct-Session-Id''
            else
              let nasIP = GetString request AttrNASIPAddress;
                  nasIP' = (if nasIP = '''' then (case remoteIP of Some ip \<Rightarrow> ip | None \<Rightarrow> nasIP) else nasIP)
              in
              obind (acct_metric request AttrAcctSessionTime) (\<lambda>sessionTime.
              obind (acct_metric request AttrAcctInputOctets) (\<lambda>inputOctets.
              obind (acct_metric request AttrAcctOutputOctets) (\<lambda>outputOctets.
              obind (acct_metric request AttrAcctInputPackets) (\<lambda>inputPackets.
              obind (acct_metric request AttrAcctOutputPackets) (\<lambda>outputPackets.
              obind (acct_metric request AttrAcctTerminateCause) (\<lambda>terminateCause.
              let record = \<lparr>AcctID = sessionID @ ''-'' @ show_int nano, AcctSessionID = sessionID,
                    AcctUsername = GetString request AttrUserName,
                    AcctNASIdentifier = GetString request AttrNASIdentifier, AcctNASIPAddress = nasIP',
                    AcctStatusType = unat statusType, AcctSessionTime = sessionTime,
                    AcctInputOctets = inputOctets, AcctOutputOctets = outputOctets,
                    AcctInputPackets = inputPackets, AcctOutputPackets = outputPackets,
                    AcctTerminateCause = terminateCause, AcctCreatedAt = now\<rparr>
              in case create record of
                   Some e \<Rightarrow> Fail ''failed to save accounting record''
                 | None \<Rightarrow> Ok (CreateResponse request CodeAccountingResponse, log @ [record]))))))))) "

section \<open>Proxy\<close>

record UpstreamServer =
  UpAddress :: string
  UpSecret :: string
  UpWeight :: int

record ProxyConfig =
  PEnabled :: bool
  UpstreamServers :: "UpstreamServer list"

text \<open>
  \<^verbatim>\<open>Forward\<close>. \<open>exchange\<close> stands for the connection to the upstream server: it resolves and dials the address,
  writes the datagram and reads one datagram back, or fails.
\<close>

definition proxy_packet :: "Packet \<Rightarrow> UpstreamServer \<Rightarrow> Packet" where
  "proxy_packet request upstream =
     \<lparr>Code = Code request, Identifier = Identifier request, PLength = 0,
      PAuthenticator = PAuthenticator request, Attributes = Attributes request,
      Secret = bytes_of (UpSecret upstream)\<rparr>"

definition Forward ::
    "(string \<Rightarrow> bytes \<Rightarrow> (string, bytes) outcome) \<Rightarrow> ProxyConfig \<Rightarrow> Packet \<Rightarrow> RADIUSClient \<Rightarrow> Packet radius_result" where
  "Forward exchange cfg request client =
     (if \<not> PEnabled cfg \<or> UpstreamServers cfg = [] then Fail ''proxy not enabled or no upstream servers''
      else
        let upstream = hd (UpstreamServers cfg) in
        obind (exchange (UpAddress upstream) (Encode (proxy_packet request upstream))) (\<lambda>reply.
        obind (ParsePacket reply (bytes_of (UpSecret upstream))) (\<lambda>respPacket.
        Ok (respPacket\<lparr>Secret := bytes_of (CSecret client)\<rparr>))))"

section \<open>Request handlers\<close>

definition createRejectResponse :: "Packet \<Rightarrow> string \<Rightarrow> Packet" where
  "createRejectResponse request message =
     AddAttribute AttrReplyMessage (bytes_of message) (CreateResponse request CodeAccessReject)"

definition sign_response :: "Packet \<Rightarrow> bytes \<Rightarrow> Packet" where
  "sign_response response requestAuth =
     response\<lparr>PAuthenticator := CalculateResponseAuthenticator response requestAuth\<rparr>"

text \<open>
  \<^verbatim>\<open>handleAuthRequest\<close>: the datagram sent back, or none when the request is dropped. The
  handler logs errors instead of returning them, so the only abnormal end is a panic.
\<close>

definition handleAuthRequest ::
    "'ip ClientDB \<Rightarrow> Authenticator option \<Rightarrow> client_cache \<Rightarrow> bytes \<Rightarrow> string
      \<Rightarrow> (unit, bytes option) outcome \<times> client_cache" where
  "handleAuthRequest db authenticator cache data ip =
     (case GetByIP db cache ip of
        (Panic, cache') \<Rightarrow> (Panic, cache')
      | (Fail e, cache') \<Rightarrow> (Ok None, cache')
      | (Ok client, cache') \<Rightarrow>
          (case ParsePacket data (bytes_of (CSecret client)) of
             Panic \<Rightarrow> (Panic, cache')
           | Fail e \<Rightarrow> (Ok None, cache')
           | Ok packet \<Rightarrow>
               if Code packet \<noteq> CodeAccessRequest then (Ok None, cache')
               else
                 (case (case authenticator of
                          None \<Rightarrow> Ok (createRejectResponse packet ''Server not configured'')
                        | Some a \<Rightarrow>
                            (case Authenticate a packet client of
                               Fail e \<Rightarrow> Ok (createRejectResponse packet ''Internal error'')
                             | r \<Rightarrow> r)) of
                    Ok response \<Rightarrow> (Ok (Some (Encode (sign_response response (PAuthenticator packet)))), cache')
                  | _ \<Rightarrow> (Panic, cache'))))"

definition handleAcctRequest ::
    "'ip ClientDB \<Rightarrow> (RadiusAccounting \<Rightarrow> go_error option) option \<Rightarrow> int \<Rightarrow> time
      \<Rightarrow> client_cache \<times> RadiusAccounting list \<Rightarrow> bytes \<Rightarrow> string
      \<Rightarrow> (unit, bytes option) outcome \<times> client_cache \<times> RadiusAccounting list" where
  "handleAcctRequest db accounting nano now = (\<lambda>(cache, log) data ip.
     (case GetByIP db cache ip of
        (Panic, cache') \<Rightarrow> (Panic, cache', log)
      | (Fail e, cache') \<Rightarrow> (Ok None, cache', log)
      | (Ok client, cache') \<Rightarrow>
          (case ParsePacket data (bytes_of (CSecret client)) of
             Panic \<Rightarrow> (Panic, cache', log)
           | Fail e \<Rightarrow> (Ok None, cache', log)
           | Ok packet \<Rightarrow>
               if Code packet \<noteq> CodeAccountingRequest then (Ok None, cache', log)
               else
                 (case accounting of
                    None \<Rightarrow> (Ok None, cache', log)
                  | Some create \<Rightarrow>
                      (case acct_Handle create nano now log packet (Some ip) of
                         Panic \<Rightarrow> (Panic, cache', log)
                       | Fail e \<Rightarrow> (Ok None, cache', log)
                       | Ok (response, log') \<Rightarrow>
                           (Ok (Some (Encode (sign_response response (PAuthenticator packet)))), cache', log'))))))"

section \<open>The registry contract\<close>

text \<open>
  What the registry relies on: both queries return enabled rows only. \<^verbatim>\<open>table_db\<close> answers them from a
  table, as the database does.
\<close>

locale client_store =
  fixes db :: "'ip ClientDB"
  assumes exact_enabled: "find_exact db ip = Ok (Some row) \<Longrightarrow> RowEnabled row \<and> RowIPAddress row = ip"
    and cidr_enabled: "find_cidr db = Ok rows \<Longrightarrow> row \<in> set rows \<Longrightarrow> RowEnabled row"
begin

lemma GetByIP_fresh_enabled:
  assumes "cache ip = None" and "GetByIP db cache ip = (Ok client, cache')"
  shows "CEnabled client \<and> cache' = cache(ip \<mapsto> client)"
proof -
  from assms consider
    (exact) row where "find_exact db ip = Ok (Some row)" "client = toDomain row" "cache' = cache(ip \<mapsto> client)"
  | (cidr) rows c where "find_cidr db = Ok rows" "c \<in> set rows" "client = toDomain c" "cache' = cache(ip \<mapsto> client)"
    by (fastforce simp: GetByIP_def dest: find_SomeD split: outcome.splits option.splits)
  then show ?thesis
    by cases (auto simp: toDomain_def dest: exact_enabled cidr_enabled)
qed

lemma GetByIP_keeps_enabled:
  assumes "\<forall>c \<in> ran cache. CEnabled c"
  shows "\<forall>c \<in> ran (snd (GetByIP db cache ip)). CEnabled c"
proof (cases "cache ip")
  case (Some c)
  with assms show ?thesis by (simp add: GetByIP_def)
next
  case None
  show ?thesis
  proof (cases "GetByIP db cache ip")
    case (Pair r cache')
    show ?thesis
    proof (cases r)
      case (Ok client)
      with None Pair have "CEnabled client" "cache' = cache(ip \<mapsto> client)"
        using GetByIP_fresh_enabled by blast+
      with assms Pair None show ?thesis by (auto simp: ran_map_upd)
    qed (use assms Pair None in \<open>auto simp: GetByIP_def split: outcome.splits option.splits\<close>)
  qed
qed

end

definition table_db :: "RadiusClientRow list \<Rightarrow> (string \<Rightarrow> 'ip option) \<Rightarrow> (string \<Rightarrow> 'ip \<Rightarrow> bool option) \<Rightarrow> 'ip ClientDB" where
  "table_db rows parse contains =
     \<lparr>find_exact = (\<lambda>ip. Ok (find (\<lambda>r. RowIPAddress r = ip \<and> RowEnabled r) rows)),
      find_cidr = Ok (filter (\<lambda>r. RowEnabled r \<and> CHR ''/'' \<in> set (RowIPAddress r)) rows),
      parse_ip = parse, subnet_contains = contains\<rparr>"

interpretation table: client_store "table_db rows parse contains"
  by unfold_locales (auto simp: table_db_def dest: find_SomeD)

section \<open>Response authenticators\<close>

text \<open>The check of RFC 2865, section 3, that a NAS makes on a response it receives.\<close>

definition valid_response :: "bytes \<Rightarrow> bytes \<Rightarrow> bytes \<Rightarrow> bool" where
  "valid_response requestAuth secret data \<longleftrightarrow> 20 \<le> length data \<and>
     take 16 (drop 4 data) = md5 (take 4 data @ requestAuth @ drop 20 data @ secret)"

lemma length_PAuthenticator_sign [simp]: "length (PAuthenticator (sign_response r ra)) = 16"
  by (simp add: sign_response_def)

lemma sign_response_simps [simp]:
  "Code (sign_response r ra) = Code r" "Identifier (sign_response r ra) = Identifier r"
  "Attributes (sign_response r ra) = Attributes r" "Secret (sign_response r ra) = Secret r"
  by (simp_all add: sign_response_def)

lemma Encode_parts:
  assumes "length (PAuthenticator p) = 16"
  shows "take 4 (Encode p) = Code p # Identifier p # be16_put (u16_of_nat (20 + length (encode_attrs (Attributes p))))"
    and "take 16 (drop 4 (Encode p)) = PAuthenticator p"
    and "drop 20 (Encode p) = encode_attrs (Attributes p)"
    and "20 \<le> length (Encode p)"
proof -
  let ?h = "Code p # Identifier p # be16_put (u16_of_nat (20 + length (encode_attrs (Attributes p))))"
  have e: "Encode p = ?h @ PAuthenticator p @ encode_attrs (Attributes p)"
    by (simp add: Encode_wf [OF assms])
  have h: "length ?h = 4" "length (?h @ PAuthenticator p) = 20" using assms by simp_all
  show "take 4 (Encode p) = ?h" unfolding e using h(1) by (metis append_eq_conv_conj)
  have "drop 4 (Encode p) = PAuthenticator p @ encode_attrs (Attributes p)"
    unfolding e using h(1) by (metis append_eq_conv_conj)
  then show "take 16 (drop 4 (Encode p)) = PAuthenticator p" using assms by simp
  show "drop 20 (Encode p) = encode_attrs (Attributes p)"
    unfolding e append_assoc [symmetric] using h(2) by (metis append_eq_conv_conj)
  show "20 \<le> length (Encode p)" using assms by (simp add: length_Encode)
qed

lemma sign_response_valid:
  assumes "length (PAuthenticator r) = 16"
  shows "valid_response ra (Secret r) (Encode (sign_response r ra))"
proof -
  note signed = Encode_parts [OF length_PAuthenticator_sign [of r ra]]
  have "PAuthenticator (sign_response r ra) = md5 ((take 4 (Encode r) @ ra @ drop 20 (Encode r)) @ Secret r)"
    by (simp add: sign_response_def CalculateResponseAuthenticator_def Let_def)
  then show ?thesis
    unfolding valid_response_def using signed Encode_parts [OF assms] by simp
qed

lemma Authenticate_answers:
  assumes "Authenticate a request client = Ok resp"
  shows "answers request resp \<and> (Code resp = CodeAccessAccept \<or> Code resp = CodeAccessReject)"
proof -
  have "(\<exists>m. resp = createReject request m \<or> resp = createMSCHAPError request m \<or> resp = createMSCHAPAccept request m)
      \<or> (\<exists>u. resp = createAccept a request u)"
    using Authenticate_cases [OF assms] authenticatePAP_cases [of a request client _ resp]
      mschapAuthenticate_cases [of a request _ resp]
    by blast
  then show ?thesis by auto
qed

lemma createRejectResponse_eq: "createRejectResponse = createReject"
  by (simp add: fun_eq_iff createRejectResponse_def createReject_def)

section \<open>Properties of the handlers\<close>

lemma handleAuthRequest_sends:
  assumes "handleAuthRequest db auth cache data ip = (Ok (Some out), cache')"
  shows "\<exists>client packet resp. GetByIP db cache ip = (Ok client, cache')
    \<and> ParsePacket data (bytes_of (CSecret client)) = Ok packet \<and> Code packet = CodeAccessRequest
    \<and> out = Encode (sign_response resp (PAuthenticator packet))
    \<and> ((\<exists>m. resp = createReject packet m) \<or> (\<exists>a. auth = Some a \<and> Authenticate a packet client = Ok resp))"
proof -
  from assms obtain client where c: "GetByIP db cache ip = (Ok client, cache')"
    by (auto simp: handleAuthRequest_def split: prod.splits outcome.splits if_splits)
  with assms obtain packet where p: "ParsePacket data (bytes_of (CSecret client)) = Ok packet"
    "Code packet = CodeAccessRequest"
    by (auto simp: handleAuthRequest_def split: outcome.splits if_splits)
  show ?thesis
  proof (cases auth)
    case None
    with assms c p show ?thesis
      by (auto simp: handleAuthRequest_def createRejectResponse_eq)
  next
    case (Some a)
    show ?thesis
    proof (cases "Authenticate a packet client")
      case (Ok resp)
      with assms c p Some show ?thesis by (auto simp: handleAuthRequest_def)
    next
      case (Fail e)
      with assms c p Some show ?thesis
        by (auto simp: handleAuthRequest_def createRejectResponse_eq)
    next
      case Panic
      with assms c p Some show ?thesis by (simp add: handleAuthRequest_def)
    qed
  qed
qed

text \<open>
  C12: every datagram that the authentication port sends answers a well-formed Access-Request of a
  registered client: it is an Accept or a Reject, carries the request's identifier, and its response authenticator
  is the one that RFC 2865 prescribes for the client's secret and the request's authenticator.
\<close>

theorem handleAuthRequest_response:
  assumes "handleAuthRequest db auth cache data ip = (Ok (Some out), cache')"
  shows "\<exists>client packet. fst (GetByIP db cache ip) = Ok client
    \<and> ParsePacket data (bytes_of (CSecret client)) = Ok packet \<and> Code packet = CodeAccessRequest
    \<and> (out ! 0 = CodeAccessAccept \<or> out ! 0 = CodeAccessReject) \<and> out ! 1 = Identifier packet
    \<and> valid_response (PAuthenticator packet) (bytes_of (CSecret client)) out"
proof -
  from handleAuthRequest_sends [OF assms] obtain client packet resp where
    c: "GetByIP db cache ip = (Ok client, cache')"
      "ParsePacket data (bytes_of (CSecret client)) = Ok packet" "Code packet = CodeAccessRequest"
    and out: "out = Encode (sign_response resp (PAuthenticator packet))"
    and resp: "(\<exists>m. resp = createReject packet m) \<or> (\<exists>a. auth = Some a \<and> Authenticate a packet client = Ok resp)"
    by blast
  have "answers packet resp \<and> (Code resp = CodeAccessAccept \<or> Code resp = CodeAccessReject)"
    using resp Authenticate_answers by auto
  moreover have "Secret packet = bytes_of (CSecret client)"
    using ParsePacket_secret [OF c(2)] .
  ultimately have r: "Identifier resp = Identifier packet" "Secret resp = bytes_of (CSecret client)"
      "length (PAuthenticator resp) = 16" "Code resp = CodeAccessAccept \<or> Code resp = CodeAccessReject"
    by (auto simp: answers_def)
  have "out ! 0 = Code resp" "out ! 1 = Identifier resp"
    by (simp_all add: out Encode_layout)
  moreover have "valid_response (PAuthenticator packet) (bytes_of (CSecret client)) out"
    using sign_response_valid [OF r(3)] r(2) by (simp add: out)
  ultimately show ?thesis using c r by auto
qed

definition demo_row :: RadiusClientRow where
  "demo_row = \<lparr>RowID = ''c1'', RowName = ''nas'', RowIPAddress = ''10.0.0.1'', RowSecret = ''k'',
     RowTenantID = ''t'', RowEnabled = True, RowVendorType = ''generic''\<rparr>"

definition demo_db :: "nat ClientDB" where
  "demo_db = table_db [demo_row] (\<lambda>_. None) (\<lambda>_ _. None)"

lemma demo_GetByIP: "GetByIP demo_db Map.empty ''10.0.0.1'' = (Ok demo_client, [''10.0.0.1'' \<mapsto> demo_client])"
  by (simp add: GetByIP_def demo_db_def table_db_def demo_row_def toDomain_def demo_client_def)

text \<open>A datagram of that client with nothing but a header: it is rejected for its missing user name.\<close>

definition demo_datagram :: bytes where
  "demo_datagram = [1, 7, 0, 20] @ replicate 16 3"

lemma demo_ParsePacket:
  "ParsePacket demo_datagram (bytes_of (CSecret demo_client)) =
     Ok \<lparr>Code = 1, Identifier = 7, PLength = 20, PAuthenticator = replicate 16 3, Attributes = [], Secret = bytes_of ''k''\<rparr>"
  by code_simp

lemma demo_handleAuthRequest:
  "\<exists>out cache'. handleAuthRequest demo_db (Some demo_authenticator) Map.empty demo_datagram ''10.0.0.1'' = (Ok (Some out), cache')"
  unfolding handleAuthRequest_def demo_GetByIP
  by (simp add: demo_ParsePacket packet_codes Authenticate_def GetString_def GetAttribute_def)

theorem handleAuthRequest_response_witness:
  "\<exists>out. valid_response (replicate 16 3) (bytes_of ''k'') out"
proof -
  obtain out cache' where h: "handleAuthRequest demo_db (Some demo_authenticator) Map.empty demo_datagram ''10.0.0.1'' = (Ok (Some out), cache')"
    using demo_handleAuthRequest by blast
  have "\<exists>client packet. fst (GetByIP demo_db Map.empty ''10.0.0.1'') = Ok client
    \<and> ParsePacket demo_datagram (bytes_of (CSecret client)) = Ok packet \<and>
     valid_response (PAuthenticator packet) (bytes_of (CSecret client)) out"
    using handleAuthRequest_response [OF h] by blast
  then show ?thesis
    by (auto simp: demo_GetByIP demo_ParsePacket) (auto simp: demo_client_def)
qed

lemma demo_request_wf: "wf_packet demo_request"
proof -
  have "wf_packet (AddAttribute AttrUserName (bytes_of ''bob'')
          \<lparr>Code = CodeAccessRequest, Identifier = 7, PLength = 0, PAuthenticator = replicate 16 3,
           Attributes = [], Secret = bytes_of ''k''\<rparr>)"
    by (rule wf_packet_AddAttribute) (simp_all add: wf_packet_def HeaderSize_def)
  then show ?thesis
    unfolding demo_request_def
    by (rule wf_packet_AddAttribute)
      (simp_all add: length_encoded_password AddAttribute_def encode_attr_def HeaderSize_def)
qed

text \<open>The encoded request of the demonstration user is answered with an Accept.\<close>

lemma demo_handle_accept:
  "\<exists>out cache'. handleAuthRequest demo_db (Some demo_authenticator) Map.empty (Encode demo_request) ''10.0.0.1''
     = (Ok (Some out), cache') \<and> out ! 0 = CodeAccessAccept"
proof -
  define packet where "packet = demo_request\<lparr>PLength := u16_of_nat (20 + length (encode_attrs (Attributes demo_request))),
    Secret := bytes_of (CSecret demo_client)\<rparr>"
  have parse: "ParsePacket (Encode demo_request) (bytes_of (CSecret demo_client)) = Ok packet"
    unfolding packet_def by (rule parse_encode_packet [OF demo_request_wf])
  have code: "Code packet = CodeAccessRequest"
    by (simp add: packet_def demo_request_def AddAttribute_def)
  have "Authenticate demo_authenticator packet demo_client = Ok (createAccept demo_authenticator packet demo_user)"
    unfolding packet_def by (rule demo_Authenticate)
  with parse code show ?thesis
    unfolding handleAuthRequest_def demo_GetByIP by (auto simp: Encode_layout)
qed

text \<open>
  C4: an Access-Accept on the wire means that the authenticator is configured, the client is registered and
  the request's user was authenticated: its password was confirmed, or its NT response matched.
\<close>

theorem handleAuthRequest_accept_sound:
  assumes "handleAuthRequest db auth cache data ip = (Ok (Some out), cache')" and "out ! 0 = CodeAccessAccept"
  shows "\<exists>a client packet u. auth = Some a \<and> fst (GetByIP db cache ip) = Ok client
    \<and> ParsePacket data (bytes_of (CSecret client)) = Ok packet
    \<and> userService a (GetString packet AttrUserName) = Ok (Some u)
    \<and> (password_confirmed a packet client u \<or> nt_response_matches a packet u)"
proof -
  from handleAuthRequest_sends [OF assms(1)] obtain client packet resp where
    c: "GetByIP db cache ip = (Ok client, cache')"
      "ParsePacket data (bytes_of (CSecret client)) = Ok packet"
    and out: "out = Encode (sign_response resp (PAuthenticator packet))"
    and resp: "(\<exists>m. resp = createReject packet m) \<or> (\<exists>a. auth = Some a \<and> Authenticate a packet client = Ok resp)"
    by blast
  have "Code resp = CodeAccessAccept" using assms(2) by (simp add: out Encode_layout)
  with resp obtain a where a: "auth = Some a" "Authenticate a packet client = Ok resp" by auto
  show ?thesis
    using Authenticate_accept_user [OF a(2) \<open>Code resp = CodeAccessAccept\<close>] a(1) c by fastforce
qed

theorem handleAuthRequest_accept_sound_witness:
  "\<exists>a client packet u. userService a (GetString packet AttrUserName) = Ok (Some u)
     \<and> (password_confirmed a packet client u \<or> nt_response_matches a packet u)"
proof -
  obtain out cache' where "handleAuthRequest demo_db (Some demo_authenticator) Map.empty (Encode demo_request) ''10.0.0.1''
     = (Ok (Some out), cache')" "out ! 0 = CodeAccessAccept"
    using demo_handle_accept by blast
  from handleAuthRequest_accept_sound [OF this] show ?thesis by blast
qed

text \<open>
  One datagram of a registered client whose length field is below 20 makes the authentication handler panic,
  and with it the server process: the worker that runs the handler does not recover.
\<close>

theorem handleAuthRequest_short_length_panics:
  assumes "fst (GetByIP db cache ip) = Ok client"
    and "20 \<le> length data" and "unat (be16_get (data ! 2) (data ! 3)) < 20"
  shows "fst (handleAuthRequest db auth cache data ip) = Panic"
proof -
  obtain cache' where c: "GetByIP db cache ip = (Ok client, cache')"
    using assms(1) by (cases "GetByIP db cache ip") auto
  have "ParsePacket data (bytes_of (CSecret client)) = Panic"
    using assms(2,3) parse_panic_iff by blast
  then show ?thesis unfolding handleAuthRequest_def c by simp
qed

theorem handleAuthRequest_short_length_panics_witness:
  "fst (handleAuthRequest demo_db (Some demo_authenticator) Map.empty (replicate 20 0) ''10.0.0.1'') = Panic"
  by (rule handleAuthRequest_short_length_panics [where client = demo_client])
    (simp_all add: demo_GetByIP be16_get_def)

section \<open>Properties of accounting and of the registry\<close>

lemma acct_Handle_Ok:
  assumes "acct_Handle create nano now log request remoteIP = Ok (resp, log')"
  shows "\<exists>r. log' = log @ [r] \<and> create r = None \<and> AcctSessionID r = GetString request AttrAcctSessionId
    \<and> AcctSessionID r \<noteq> '''' \<and> AcctUsername r = GetString request AttrUserName
    \<and> acct_metric request AttrAcctInputOctets = Ok (AcctInputOctets r)
    \<and> acct_metric request AttrAcctOutputOctets = Ok (AcctOutputOctets r)
    \<and> AcctInputOctets r < 2 ^ 32 \<and> AcctOutputOctets r < 2 ^ 32
    \<and> resp = CreateResponse request CodeAccountingResponse"
proof -
  have bound: "acct_metric request t = Ok n \<Longrightarrow> n < 4294967296" for t n
    using unat_u32_lt by (auto simp: acct_metric_def obind_eq_Ok split: option.splits)
  show ?thesis
    using assms
    by (auto simp: acct_Handle_def Let_def obind_eq_Ok bound split: option.splits if_splits)
qed

text \<open>
  The accounting port acknowledges a request exactly when it has appended one record for it: an
  answer means one new record with the request's session and counters, no answer means that the log is
  unchanged.
\<close>

theorem handleAcctRequest_acknowledges:
  assumes "handleAcctRequest db accounting nano now (cache, log) data ip = (r, cache', log')"
  shows "(r \<notin> range (\<lambda>out. Ok (Some out)) \<and> log' = log) \<or>
    (\<exists>out rec client packet. r = Ok (Some out) \<and> log' = log @ [rec] \<and> fst (GetByIP db cache ip) = Ok client
      \<and> ParsePacket data (bytes_of (CSecret client)) = Ok packet \<and> Code packet = CodeAccountingRequest
      \<and> AcctSessionID rec = GetString packet AttrAcctSessionId
      \<and> acct_metric packet AttrAcctInputOctets = Ok (AcctInputOctets rec)
      \<and> acct_metric packet AttrAcctOutputOctets = Ok (AcctOutputOctets rec)
      \<and> valid_response (PAuthenticator packet) (bytes_of (CSecret client)) out)"
proof (cases "\<exists>out. r = Ok (Some out)")
  case False
  with assms show ?thesis
    by (auto simp: handleAcctRequest_def split: prod.splits outcome.splits option.splits if_splits)
next
  case True
  then obtain out where r: "r = Ok (Some out)" by blast
  from assms r obtain client where c: "GetByIP db cache ip = (Ok client, cache')"
    by (auto simp: handleAcctRequest_def split: prod.splits outcome.splits if_splits option.splits)
  with assms r obtain packet where p: "ParsePacket data (bytes_of (CSecret client)) = Ok packet"
    "Code packet = CodeAccountingRequest"
    by (auto simp: handleAcctRequest_def split: outcome.splits if_splits)
  with assms r c obtain create resp where
    h: "acct_Handle create nano now log packet (Some ip) = Ok (resp, log')"
    and out: "out = Encode (sign_response resp (PAuthenticator packet))"
    by (auto simp: handleAcctRequest_def split: outcome.splits option.splits)
  from acct_Handle_Ok [OF h] have resp: "resp = CreateResponse packet CodeAccountingResponse" by blast
  have "valid_response (PAuthenticator packet) (Secret resp) out"
    unfolding out by (rule sign_response_valid) (simp add: resp CreateResponse_def)
  moreover have "Secret resp = bytes_of (CSecret client)"
    using ParsePacket_secret [OF p(1)] by (simp add: resp CreateResponse_def)
  ultimately show ?thesis
    using acct_Handle_Ok [OF h] r c p by auto
qed

definition demo_acct_packet :: Packet where
  "demo_acct_packet =
     AddAttribute AttrAcctSessionId (bytes_of ''s1'') (AddAttribute AttrAcctStatusType (be32_put 1)
       \<lparr>Code = CodeAccountingRequest, Identifier = 9, PLength = 0, PAuthenticator = replicate 16 0,
        Attributes = [], Secret = []\<rparr>)"

lemma demo_acct_datagram:
  "\<exists>r log' cache'. handleAcctRequest demo_db (Some (\<lambda>_. None)) 1 2 (Map.empty, []) (Encode demo_acct_packet) ''10.0.0.1''
     = (r, cache', log') \<and> log' \<noteq> []"
proof -
  define packet where "packet = demo_acct_packet\<lparr>
    PLength := u16_of_nat (20 + length (encode_attrs (Attributes demo_acct_packet))),
    Secret := bytes_of (CSecret demo_client)\<rparr>"
  have "wf_packet demo_acct_packet"
    unfolding demo_acct_packet_def
    by (intro wf_packet_AddAttribute) (simp_all add: wf_packet_def HeaderSize_def AddAttribute_def encode_attr_def)
  then have "ParsePacket (Encode demo_acct_packet) (bytes_of (CSecret demo_client)) = Ok packet"
    unfolding packet_def by (rule parse_encode_packet)
  moreover have "\<exists>resp rec. acct_Handle (\<lambda>_. None) 1 2 [] packet (Some ''10.0.0.1'') = Ok (resp, [rec])"
    by (simp add: acct_Handle_def packet_def demo_acct_packet_def AddAttribute_def GetAttribute_def GetString_def
        attr_numbers acct_metric_def go_uint32_def Let_def)
  moreover have "Code packet = CodeAccountingRequest"
    by (simp add: packet_def demo_acct_packet_def AddAttribute_def)
  ultimately show ?thesis
    unfolding handleAcctRequest_def by (auto simp: demo_GetByIP)
qed

theorem handleAcctRequest_acknowledges_witness:
  "\<exists>r log' cache'. handleAcctRequest demo_db (Some (\<lambda>_. None)) 1 2 (Map.empty, []) (Encode demo_acct_packet) ''10.0.0.1''
     = (r, cache', log') \<and> (\<exists>out rec. r = Ok (Some out) \<and> log' = [rec])"
proof -
  obtain r log' cache' where h: "handleAcctRequest demo_db (Some (\<lambda>_. None)) 1 2 (Map.empty, []) (Encode demo_acct_packet) ''10.0.0.1''
     = (r, cache', log')" "log' \<noteq> []" using demo_acct_datagram by blast
  from handleAcctRequest_acknowledges [OF h(1)] h show ?thesis by auto
qed

section \<open>The registry over time\<close>

text \<open>
  The life of the cache: lookups against whatever the database holds at that moment, and invalidations.
\<close>

inductive registry_run :: "'ip ClientDB set \<Rightarrow> client_cache \<Rightarrow> bool" for dbs where
  start: "registry_run dbs Map.empty"
| get: "registry_run dbs (snd (GetByIP db cache ip))" if "registry_run dbs cache" and "db \<in> dbs"
| invalidate: "registry_run dbs (InvalidateCache cache)" if "registry_run dbs cache"

lemma registry_run_enabled:
  assumes "registry_run (range (\<lambda>rows. table_db rows parse contains)) cache"
  shows "\<forall>c \<in> ran cache. CEnabled c"
  using assms
proof (induction rule: registry_run.induct)
  case (get cache db ip)
  then show ?case using table.GetByIP_keeps_enabled by fast
qed (simp_all add: InvalidateCache_def)

text \<open>
  However the table changes between lookups, a cached client was enabled when it was read, and from
  then on it is served from the cache whatever the table says, until the cache is invalidated: disabling a client in the
  database does not stop it.
\<close>

theorem registry_cache_sticky:
  assumes "registry_run (range (\<lambda>rows. table_db rows parse contains)) cache" and "cache ip = Some client"
  shows "CEnabled client \<and> GetByIP db cache ip = (Ok client, cache)"
  using registry_run_enabled [OF assms(1)] assms(2) by (auto simp: GetByIP_def ran_def)

theorem registry_cache_sticky_witness:
  "GetByIP (table_db [] (\<lambda>_. None) (\<lambda>_ _. None) :: nat ClientDB) [''10.0.0.1'' \<mapsto> demo_client] ''10.0.0.1''
     = (Ok demo_client, [''10.0.0.1'' \<mapsto> demo_client])"
proof -
  let ?p = "\<lambda>_ :: string. None :: nat option" and ?c = "\<lambda>(_ :: string) (_ :: nat). None :: bool option"
  have "registry_run (range (\<lambda>rows. table_db rows ?p ?c)) (snd (GetByIP demo_db Map.empty ''10.0.0.1''))"
    by (rule registry_run.get [OF registry_run.start]) (simp add: demo_db_def)
  then have "registry_run (range (\<lambda>rows. table_db rows ?p ?c)) [''10.0.0.1'' \<mapsto> demo_client]"
    by (simp add: demo_GetByIP)
  from registry_cache_sticky [OF this, where ip = "''10.0.0.1''" and client = demo_client and db = "table_db [] ?p ?c"]
  show ?thesis by simp
qed

end
