(* ===== verification/Plugins.thy ===== *)
theory Plugins
  imports Types
begin

text \<open>
  The plugin registry and the plugin manager of \<^verbatim>\<open>pkg/plugins\<close>, and their clients: the
  authentication engine, \<^verbatim>\<open>pkg/auth/engine.go\<close>, and the manager of multi-factor challenges,
  \<^verbatim>\<open>pkg/auth/mfa/manager.go\<close>. A plugin is a record of what its methods do; the optional interfaces
  that a Go type assertion looks for are optional fields. The store of standard errors is threaded
  through every call that writes it.
\<close>

section \<open>Plugins\<close>

type_synonym PluginType = string

record IMFAProvider =
  SendChallenge :: "User \<Rightarrow> (go_error, MFAChallenge) outcome"
  mfa_VerifyChallenge :: "string \<Rightarrow> string \<Rightarrow> (go_error, bool) outcome"

record IPlugin =
  PluginName :: string
  PluginKind :: PluginType
  PluginInitialize :: "gmap \<Rightarrow> go_error option"
  PluginStart :: "go_error option"
  AsProtocolAdapter :: "(AuthRequest \<Rightarrow> (go_error, AuthResponse) outcome) option"
  AsMFAProvider :: "IMFAProvider option"

type_synonym Registry = "string \<rightharpoonup> IPlugin"

definition RegisterPlugin :: "Registry \<Rightarrow> string \<Rightarrow> IPlugin \<Rightarrow> (go_error, unit) outcome \<times> Registry" where
  "RegisterPlugin r name factory =
     (case r name of
        Some _ \<Rightarrow> (Fail (Errorf (''plugin with name '' @ quoted name @ '' is already registered'')), r)
      | None \<Rightarrow> (Ok (), r(name \<mapsto> factory)))"

definition GetPluginFactory :: "Registry \<Rightarrow> err_store \<Rightarrow> string \<Rightarrow> (go_error, IPlugin) outcome \<times> err_store" where
  "GetPluginFactory r h name =
     (case r name of
        None \<Rightarrow> (let (e, h') = WithDetails h ErrPluginNotFound [(''name'', name)] in (Fail e, h'))
      | Some factory \<Rightarrow> (Ok factory, h))"

definition ListPlugins :: "string list \<Rightarrow> Registry \<Rightarrow> string list" where
  "ListPlugins ord r = ord"

definition ListPluginsByType :: "string list \<Rightarrow> Registry \<Rightarrow> PluginType \<Rightarrow> string list" where
  "ListPluginsByType ord r pluginType =
     filter (\<lambda>name. case r name of None \<Rightarrow> False | Some p \<Rightarrow> PluginKind p = pluginType) ord"

section \<open>The plugin manager\<close>

record PluginConfig =
  PCName :: string
  PCEnabled :: bool
  PCSettings :: gmap

record Manager =
  registry :: Registry
  activePlugins :: "string \<rightharpoonup> IPlugin"

definition NewManager :: "Registry \<Rightarrow> Manager" where
  "NewManager r = \<lparr>registry = r, activePlugins = Map.empty\<rparr>"

text \<open>The loop of \<^verbatim>\<open>LoadAndStartPlugins\<close>; the first failure ends it.\<close>

fun load_plugins ::
    "PluginConfig list \<Rightarrow> Manager \<Rightarrow> err_store \<Rightarrow> (go_error, unit) outcome \<times> Manager \<times> err_store" where
  "load_plugins [] m h = (Ok (), m, h)"
| "load_plugins (pconf # ps) m h =
     (if \<not> PCEnabled pconf then load_plugins ps m h
      else case GetPluginFactory (registry m) h (PCName pconf) of
        (Panic, h') \<Rightarrow> (Panic, m, h')
      | (Fail err, h') \<Rightarrow> (Fail err, m, h')
      | (Ok plugin, h') \<Rightarrow>
          (case PluginInitialize plugin (PCSettings pconf) of
             Some err \<Rightarrow> (Fail err, m, h')
           | None \<Rightarrow>
               (case PluginStart plugin of
                  Some err \<Rightarrow> (Fail err, m, h')
                | None \<Rightarrow>
                    load_plugins ps
                      (m\<lparr>activePlugins := (activePlugins m)(PluginName plugin \<mapsto> plugin)\<rparr>) h')))"

text \<open>The slice of plugin configurations is declared and never filled.\<close>

definition LoadAndStartPlugins :: "Manager \<Rightarrow> err_store \<Rightarrow> (go_error, unit) outcome \<times> Manager \<times> err_store" where
  "LoadAndStartPlugins m h = load_plugins [] m h"

definition GetPlugin :: "Manager \<Rightarrow> err_store \<Rightarrow> string \<Rightarrow> (go_error, IPlugin) outcome \<times> err_store" where
  "GetPlugin m h name =
     (case activePlugins m name of
        None \<Rightarrow> (let (e, h') = WithDetails h ErrPluginNotFound [(''name'', name)] in (Fail e, h'))
      | Some plugin \<Rightarrow> (Ok plugin, h))"

section \<open>The authentication engine\<close>

definition getPluginNameForProtocol :: "ProtocolType \<Rightarrow> string" where
  "getPluginNameForProtocol protocol =
     (if protocol = ProtocolOAuth then ''oauth2_adapter''
      else if protocol = ProtocolSAML then ''saml_adapter''
      else if protocol = ProtocolOIDC then ''oidc_adapter''
      else ''default_password_connector'')"

fun is_std_error :: "go_error \<Rightarrow> bool" where
  "is_std_error (Sentinel _) = True"
| "is_std_error _ = False"

definition engine_Authenticate :: "Manager \<Rightarrow> err_store \<Rightarrow> AuthRequest \<Rightarrow> (go_error, AuthResponse) outcome \<times> err_store" where
  "engine_Authenticate m h request =
     (let pluginName = getPluginNameForProtocol (ReqProtocol request)
      in case GetPlugin m h pluginName of
           (Panic, h1) \<Rightarrow> (Panic, h1)
         | (Fail err, h1) \<Rightarrow> (let (e, h2) = WithCause h1 ErrPluginNotFound err in (Fail e, h2))
         | (Ok plugin, h1) \<Rightarrow>
             (case AsProtocolAdapter plugin of
                None \<Rightarrow>
                  (let (e, h2) = WithCause h1 ErrPluginLoadFailed
                     (Errorf (''plugin '' @ quoted pluginName @ '' does not implement IProtocolAdapter''))
                   in (Fail e, h2))
              | Some HandleAuthRequest \<Rightarrow>
                  (case HandleAuthRequest request of
                     Panic \<Rightarrow> (Panic, h1)
                   | Ok resp \<Rightarrow> (Ok resp, h1)
                   | Fail err \<Rightarrow>
                       (if is_std_error err then (Fail err, h1)
                        else let (e, h2) = WithCause h1 ErrInternal err in (Fail e, h2)))))"

section \<open>The manager of multi-factor challenges\<close>

type_synonym challengeStore = "string \<rightharpoonup> MFAChallenge"

definition getMfaMethodForUser :: "User \<Rightarrow> AuthMethod" where
  "getMfaMethodForUser user = AuthMethodTOTP"

definition getPluginNameForMethod :: "AuthMethod \<Rightarrow> string" where
  "getPluginNameForMethod m =
     (if m = AuthMethodTOTP then ''totp_provider''
      else if m = AuthMethodSMS then ''sms_provider''
      else [])"

definition TriggerChallenge ::
    "Manager \<Rightarrow> challengeStore \<Rightarrow> err_store \<Rightarrow> User \<Rightarrow> (go_error, MFAChallenge) outcome \<times> challengeStore \<times> err_store" where
  "TriggerChallenge m cs h user =
     (let pluginName = getPluginNameForMethod (getMfaMethodForUser user)
      in case GetPlugin m h pluginName of
           (Panic, h1) \<Rightarrow> (Panic, cs, h1)
         | (Fail err, h1) \<Rightarrow> (let (e, h2) = WithCause h1 ErrPluginNotFound err in (Fail e, cs, h2))
         | (Ok plugin, h1) \<Rightarrow>
             (case AsMFAProvider plugin of
                None \<Rightarrow>
                  (let (e, h2) = WithCause h1 ErrPluginLoadFailed
                     (Errorf (''plugin '' @ quoted pluginName @ '' does not implement IMFAProvider''))
                   in (Fail e, cs, h2))
              | Some provider \<Rightarrow>
                  (case SendChallenge provider user of
                     Panic \<Rightarrow> (Panic, cs, h1)
                   | Fail err \<Rightarrow> (Fail err, cs, h1)
                   | Ok ch \<Rightarrow> (Ok ch, cs(ChallengeID ch \<mapsto> ch), h1))))"

definition VerifyChallenge ::
    "Manager \<Rightarrow> challengeStore \<Rightarrow> err_store \<Rightarrow> string \<Rightarrow> string \<Rightarrow> (go_error, bool) outcome \<times> challengeStore \<times> err_store" where
  "VerifyChallenge m cs h challengeID code =
     (case cs challengeID of
        None \<Rightarrow> (let (e, h1) = WithDetails h ErrMfaChallengeInvalid [(''reason'', ''not found or expired'')]
                 in (Fail e, cs, h1))
      | Some ch \<Rightarrow>
          (case GetPlugin m h (getPluginNameForMethod (MFAProvider ch)) of
             (Panic, h1) \<Rightarrow> (Panic, cs, h1)
           | (Fail err, h1) \<Rightarrow> (let (e, h2) = WithCause h1 ErrPluginNotFound err in (Fail e, cs, h2))
           | (Ok plugin, h1) \<Rightarrow>
               (case AsMFAProvider plugin of
                  None \<Rightarrow> (Fail ErrPluginLoadFailed, cs, h1)
                | Some provider \<Rightarrow>
                    (case mfa_VerifyChallenge provider challengeID code of
                       Panic \<Rightarrow> (Panic, cs, h1)
                     | Fail err \<Rightarrow> (Fail err, cs, h1)
                     | Ok isValid \<Rightarrow> (Ok isValid, cs(challengeID := None), h1)))))"

section \<open>Properties\<close>

lemma GetPlugin_missing:
  "activePlugins m name = None \<Longrightarrow>
     GetPlugin m h name = (Fail ErrPluginNotFound, snd (WithDetails h ErrPluginNotFound [(''name'', name)]))"
  by (simp add: GetPlugin_def ErrPluginNotFound_def case_prod_beta)

text \<open>A manager as a process can have it: new, and loaded any number of times.\<close>

inductive manager_run :: "Manager \<Rightarrow> bool" where
  mgr_new: "manager_run (NewManager r)"
| mgr_load: "manager_run m \<Longrightarrow> LoadAndStartPlugins m h = (res, m', h') \<Longrightarrow> manager_run m'"

lemma manager_run_empty: "manager_run m \<Longrightarrow> activePlugins m = Map.empty"
  by (induction rule: manager_run.induct) (simp_all add: NewManager_def LoadAndStartPlugins_def)

lemma self_cause_diverges:
  assumes "c \<in> dom h" and "t \<noteq> Sentinel c"
  shows "errors_Is (snd (WithCause h (Sentinel c) (Sentinel c))) (Sentinel c) t = None"
  by (rule errors_Is_diverges [of _ "{Sentinel c}"])
    (use assms Unwrap_WithCause [OF assms(1), of "Sentinel c"] in \<open>auto simp del: Unwrap.simps\<close>)

text \<open>
  No configuration is ever read, so the engine has no plugin, and every call of \<^verbatim>\<open>Authenticate\<close>
  fails with \<^verbatim>\<open>ErrPluginNotFound\<close>, an error that is from then on its own cause: \<^verbatim>\<open>errors.Is\<close> on it
  never returns for any other target.
\<close>

theorem Authenticate_self_cause:
  assumes "manager_run m" and "''plugin_not_found'' \<in> dom h"
  shows "\<exists>h'. engine_Authenticate m h req = (Fail ErrPluginNotFound, h') \<and>
    (\<forall>t. t \<noteq> ErrPluginNotFound \<longrightarrow> errors_Is h' ErrPluginNotFound t = None)"
proof -
  let ?name = "getPluginNameForProtocol (ReqProtocol req)"
  let ?h1 = "snd (WithDetails h ErrPluginNotFound [(''name'', ?name)])"
  let ?h2 = "snd (WithCause ?h1 ErrPluginNotFound ErrPluginNotFound)"
  have "engine_Authenticate m h req = (Fail ErrPluginNotFound, ?h2)"
    using GetPlugin_missing [of m ?name h] manager_run_empty [OF assms(1)]
    by (simp add: engine_Authenticate_def Let_def case_prod_beta)
  moreover have "errors_Is ?h2 ErrPluginNotFound t = None" if "t \<noteq> ErrPluginNotFound" for t
    using that assms(2) self_cause_diverges [of "''plugin_not_found''" ?h1 t]
    by (simp add: ErrPluginNotFound_def)
  ultimately show ?thesis by blast
qed

theorem Authenticate_self_cause_witness:
  "\<exists>h'. engine_Authenticate (NewManager Map.empty) initial_errors
      \<lparr>ReqProtocol = ''oidc'', ReqCredentials = Map.empty, ReqContext = Map.empty, ReqUserID = []\<rparr> =
        (Fail ErrPluginNotFound, h') \<and> errors_Is h' ErrPluginNotFound ErrInternal = None"
proof -
  have "''plugin_not_found'' \<in> dom initial_errors"
    by (simp add: initial_errors_def error_catalogue_def NewError_def)
  moreover have "ErrInternal \<noteq> ErrPluginNotFound" by (simp add: ErrInternal_def ErrPluginNotFound_def)
  ultimately show ?thesis using Authenticate_self_cause [OF mgr_new] by blast
qed

text \<open>
  A challenge can be answered once: whatever code is given, a call of \<^verbatim>\<open>VerifyChallenge\<close> that
  reaches the provider's decision removes the challenge, and the next call for it is refused without
  asking the provider.
\<close>

theorem VerifyChallenge_once:
  assumes "VerifyChallenge m cs h i code = (Ok b, cs', h')"
  shows "cs' = cs(i := None) \<and>
    (\<exists>h''. VerifyChallenge m cs' h' i code' = (Fail ErrMfaChallengeInvalid, cs', h''))"
proof -
  have "cs' = cs(i := None)" using assms
    by (auto simp: VerifyChallenge_def case_prod_beta split: option.splits outcome.splits prod.splits)
  then show ?thesis by (simp add: VerifyChallenge_def case_prod_beta)
qed

definition demo_provider :: IPlugin where
  "demo_provider = \<lparr>PluginName = ''totp_provider'', PluginKind = ''mfa_provider'',
     PluginInitialize = (\<lambda>_. None), PluginStart = None, AsProtocolAdapter = None,
     AsMFAProvider = Some \<lparr>SendChallenge = (\<lambda>u. Fail (Errorf [])), mfa_VerifyChallenge = (\<lambda>i c. Ok (c = ''42''))\<rparr>\<rparr>"

theorem VerifyChallenge_once_witness:
  "\<exists>h'. VerifyChallenge \<lparr>registry = Map.empty, activePlugins = [''totp_provider'' \<mapsto> demo_provider]\<rparr>
      Map.empty initial_errors ''c'' ''42'' = (Fail ErrMfaChallengeInvalid, Map.empty, h')"
  using VerifyChallenge_once [of "\<lparr>registry = Map.empty, activePlugins = [''totp_provider'' \<mapsto> demo_provider]\<rparr>"
      "[''c'' \<mapsto> \<lparr>MFAProvider = ''totp'', ChallengeID = ''c'', ChOptions = None\<rparr>]" initial_errors "''c''" "''41''"
      False Map.empty initial_errors "''42''"]
  by (simp add: VerifyChallenge_def GetPlugin_def getPluginNameForMethod_def AuthMethodTOTP_def demo_provider_def)

end
