(* ===== verification/Auth_Repository.thy ===== *)
theory Auth_Repository
  imports Types
begin

text \<open>
  The session and token repository interfaces of \<^verbatim>\<open>internal/domain/auth/repository.go\<close>, as records of
  the methods that the authentication service calls. Durations and times are in nanoseconds; the
  repository's clock reading is an argument where the provider reads the clock. A family lookup
  returns an optional family because the Go method returns a pointer. The locale is the contract of a
  token store.
\<close>

record 's AuthRepo =
  sr_CreateSession :: "'s \<Rightarrow> UserSession \<Rightarrow> int \<Rightarrow> (go_error, unit) outcome \<times> 's"
  sr_DeleteSession :: "'s \<Rightarrow> string \<Rightarrow> (go_error, unit) outcome \<times> 's"
  tr_StoreRefreshToken :: "'s \<Rightarrow> string \<Rightarrow> string \<Rightarrow> int \<Rightarrow> (go_error, unit) outcome \<times> 's"
  tr_GetRefreshTokenUserID :: "'s \<Rightarrow> string \<Rightarrow> (go_error, string) outcome"
  tr_DeleteRefreshToken :: "'s \<Rightarrow> string \<Rightarrow> (go_error, unit) outcome \<times> 's"
  tr_AddToDenyList :: "'s \<Rightarrow> time \<Rightarrow> string \<Rightarrow> int \<Rightarrow> (go_error, unit) outcome \<times> 's"
  tr_IsInDenyList :: "'s \<Rightarrow> time \<Rightarrow> string \<Rightarrow> (go_error, bool) outcome"

record TokenFamily =
  FamilyID :: string
  OriginalToken :: string
  CurrentToken :: string
  IssuedTokens :: "string list"
  FUserID :: string
  FClientID :: string
  FRevokedAt :: "time option"

record 'f FamilyRepo =
  fr_GetFamilyByToken :: "'f \<Rightarrow> string \<Rightarrow> (go_error, TokenFamily option) outcome"
  fr_UpdateFamily :: "'f \<Rightarrow> TokenFamily \<Rightarrow> (go_error, unit) outcome \<times> 'f"
  fr_RevokeFamily :: "'f \<Rightarrow> string \<Rightarrow> (go_error, unit) outcome \<times> 'f"

text \<open>
  What the service relies on: a stored refresh token is found with its user, storing and deleting one
  token leaves the others alone, and a deleted token is not found.
\<close>

locale token_store =
  fixes repo :: "'s AuthRepo"
  assumes delete_total: "\<exists>s'. tr_DeleteRefreshToken repo s t = (Ok (), s')"
    and store_get: "tr_StoreRefreshToken repo s t u d = (Ok (), s') \<Longrightarrow>
      tr_GetRefreshTokenUserID repo s' t' = (if t' = t then Ok u else tr_GetRefreshTokenUserID repo s t')"
    and delete_get: "tr_DeleteRefreshToken repo s t = (Ok (), s') \<Longrightarrow> t' \<noteq> t \<Longrightarrow>
      tr_GetRefreshTokenUserID repo s' t' = tr_GetRefreshTokenUserID repo s t'"
    and deleted: "tr_DeleteRefreshToken repo s t = (Ok (), s') \<Longrightarrow> tr_GetRefreshTokenUserID repo s' t \<noteq> Ok u"

end
