(* ===== verification/Identity_Repository.thy ===== *)
theory Identity_Repository
  imports Types
begin

text \<open>
  The repository interfaces of \<^verbatim>\<open>internal/domain/identity/repository.go\<close>: a Go interface value is a
  record of the methods that the identity service calls, over the state \<open>'s\<close> of the provider. A method
  that writes returns the new state; \<^verbatim>\<open>CreateUser\<close> and \<^verbatim>\<open>CreateGroup\<close> also return the object they were
  given, whose identifier they may have written. The locales are the contracts that the service
  relies on; the providers interpret them.
\<close>

record PaginationQuery =
  POffset :: int
  PPageSize :: int

record 's UserRepository =
  ur_CreateUser :: "'s \<Rightarrow> User \<Rightarrow> (go_error, User) outcome \<times> 's"
  ur_GetUserByID :: "'s \<Rightarrow> string \<Rightarrow> (go_error, User) outcome"
  ur_GetUserByUsername :: "'s \<Rightarrow> string \<Rightarrow> (go_error, User) outcome"
  ur_GetUserByEmail :: "'s \<Rightarrow> string \<Rightarrow> (go_error, User) outcome"
  ur_UpdateUser :: "'s \<Rightarrow> User \<Rightarrow> (go_error, unit) outcome \<times> 's"
  ur_DeleteUser :: "'s \<Rightarrow> string \<Rightarrow> (go_error, unit) outcome \<times> 's"
  ur_ListUsers :: "'s \<Rightarrow> UserFilter \<Rightarrow> (go_error, User list \<times> int) outcome"
  ur_GetUserByExternalID :: "'s \<Rightarrow> string \<Rightarrow> string \<Rightarrow> (go_error, User) outcome"

record 's GroupRepository =
  gr_CreateGroup :: "'s \<Rightarrow> UserGroup \<Rightarrow> (go_error, UserGroup) outcome \<times> 's"
  gr_GetGroupByID :: "'s \<Rightarrow> string \<Rightarrow> (go_error, UserGroup) outcome"
  gr_UpdateGroup :: "'s \<Rightarrow> UserGroup \<Rightarrow> (go_error, unit) outcome \<times> 's"
  gr_DeleteGroup :: "'s \<Rightarrow> string \<Rightarrow> (go_error, unit) outcome \<times> 's"
  gr_ListGroups :: "'s \<Rightarrow> PaginationQuery \<Rightarrow> (go_error, UserGroup list) outcome"
  gr_AddUserToGroup :: "'s \<Rightarrow> string \<Rightarrow> string \<Rightarrow> (go_error, unit) outcome \<times> 's"
  gr_GetUserGroups :: "'s \<Rightarrow> string \<Rightarrow> (go_error, UserGroup list) outcome"

text \<open>
  The contract of a user repository: \<open>stored s u\<close> says that \<open>u\<close> is in the repository, \<open>inv\<close> is the
  invariant under which the laws hold.
\<close>

locale user_repository =
  fixes repo :: "'s UserRepository"
    and inv :: "'s \<Rightarrow> bool"
    and stored :: "'s \<Rightarrow> User \<Rightarrow> bool"
  assumes name_sound: "inv s \<Longrightarrow> ur_GetUserByUsername repo s n = Ok u \<Longrightarrow> stored s u \<and> Username u = n"
    and name_complete: "inv s \<Longrightarrow> stored s u \<Longrightarrow> \<exists>v. ur_GetUserByUsername repo s (Username u) = Ok v"
    and no_panic: "inv s \<Longrightarrow> ur_GetUserByUsername repo s n \<noteq> Panic \<and> ur_GetUserByEmail repo s m \<noteq> Panic"
    and create_Ok: "inv s \<Longrightarrow> ur_CreateUser repo s u = (Ok u', s') \<Longrightarrow>
      (\<exists>i. u' = u\<lparr>UID := i\<rparr>) \<and> (\<forall>v. stored s' v \<longleftrightarrow> stored s v \<or> v = u')"
    and create_Fail: "inv s \<Longrightarrow> ur_CreateUser repo s u = (Fail e, s') \<Longrightarrow> s' = s"

text \<open>A repository that also finds users by e-mail address.\<close>

locale email_repository = user_repository +
  assumes email_sound: "inv s \<Longrightarrow> ur_GetUserByEmail repo s m = Ok u \<Longrightarrow> stored s u \<and> Email u = m"
    and email_complete: "inv s \<Longrightarrow> stored s u \<Longrightarrow> \<exists>v. ur_GetUserByEmail repo s (Email u) = Ok v"

text \<open>A repository that tells a missing user apart from every other failure.\<close>

locale reporting_repository = user_repository +
  assumes name_missing: "inv s \<Longrightarrow> ur_GetUserByUsername repo s n = Fail e \<Longrightarrow> e = ErrUserNotFound"
    and email_missing: "inv s \<Longrightarrow> ur_GetUserByEmail repo s m = Fail e \<Longrightarrow> e = ErrUserNotFound"

end
