(* ===== verification/Auth_Memory.thy ===== *)
theory Auth_Memory
  imports Auth_Repository Identity_Repository
begin

text \<open>
  The in-memory session, token and audit-log repository,
  \<^verbatim>\<open>internal/storage/memory/auth_memory_repository.go\<close>. As in the identity repository, every method
  holds the mutex for its whole body.
\<close>

record AuthMemoryRepository =
  a_sessions :: "string \<rightharpoonup> UserSession"
  a_refreshTokens :: "string \<rightharpoonup> string"
  a_denyList :: "string \<rightharpoonup> time"
  a_auditLogs :: "AuditLog list"

definition NewAuthMemoryRepository :: AuthMemoryRepository where
  "NewAuthMemoryRepository =
     \<lparr>a_sessions = Map.empty, a_refreshTokens = Map.empty, a_denyList = Map.empty, a_auditLogs = []\<rparr>"

section \<open>Sessions\<close>

definition amem_CreateSession ::
    "AuthMemoryRepository \<Rightarrow> UserSession \<Rightarrow> int \<Rightarrow> (go_error, unit) outcome \<times> AuthMemoryRepository" where
  "amem_CreateSession r session duration = (Ok (), r\<lparr>a_sessions := (a_sessions r)(SID session \<mapsto> session)\<rparr>)"

definition amem_GetSession :: "AuthMemoryRepository \<Rightarrow> string \<Rightarrow> (go_error, UserSession) outcome" where
  "amem_GetSession r sessionID =
     (case a_sessions r sessionID of
        None \<Rightarrow> Fail (Errorf (''session with ID '' @ quoted sessionID @ '' not found''))
      | Some session \<Rightarrow> Ok session)"

definition amem_DeleteSession ::
    "AuthMemoryRepository \<Rightarrow> string \<Rightarrow> (go_error, unit) outcome \<times> AuthMemoryRepository" where
  "amem_DeleteSession r sessionID = (Ok (), r\<lparr>a_sessions := (a_sessions r)(sessionID := None)\<rparr>)"

definition amem_GetUserSessions :: "string list \<Rightarrow> AuthMemoryRepository \<Rightarrow> string \<Rightarrow> UserSession list" where
  "amem_GetUserSessions ord r userID =
     filter (\<lambda>s. SUserID s = userID) (range_values ord (a_sessions r))"

section \<open>Tokens\<close>

definition amem_StoreRefreshToken ::
    "AuthMemoryRepository \<Rightarrow> string \<Rightarrow> string \<Rightarrow> int \<Rightarrow> (go_error, unit) outcome \<times> AuthMemoryRepository" where
  "amem_StoreRefreshToken r tok userID duration =
     (Ok (), r\<lparr>a_refreshTokens := (a_refreshTokens r)(tok \<mapsto> userID)\<rparr>)"

definition amem_GetRefreshTokenUserID :: "AuthMemoryRepository \<Rightarrow> string \<Rightarrow> (go_error, string) outcome" where
  "amem_GetRefreshTokenUserID r tok =
     (case a_refreshTokens r tok of
        None \<Rightarrow> Fail (Errorf ''refresh token not found'')
      | Some userID \<Rightarrow> Ok userID)"

definition amem_DeleteRefreshToken ::
    "AuthMemoryRepository \<Rightarrow> string \<Rightarrow> (go_error, unit) outcome \<times> AuthMemoryRepository" where
  "amem_DeleteRefreshToken r tok = (Ok (), r\<lparr>a_refreshTokens := (a_refreshTokens r)(tok := None)\<rparr>)"

definition amem_AddToDenyList ::
    "AuthMemoryRepository \<Rightarrow> time \<Rightarrow> string \<Rightarrow> int \<Rightarrow> (go_error, unit) outcome \<times> AuthMemoryRepository" where
  "amem_AddToDenyList r now jti duration =
     (Ok (), r\<lparr>a_denyList := (a_denyList r)(jti \<mapsto> now + duration)\<rparr>)"

definition amem_IsInDenyList :: "AuthMemoryRepository \<Rightarrow> time \<Rightarrow> string \<Rightarrow> (go_error, bool) outcome" where
  "amem_IsInDenyList r now jti =
     (case a_denyList r jti of
        None \<Rightarrow> Ok False
      | Some expiry \<Rightarrow> Ok (\<not> now > expiry))"

section \<open>Audit log\<close>

definition amem_CreateLogEntry :: "string \<Rightarrow> AuthMemoryRepository \<Rightarrow> AuditLog \<Rightarrow> AuthMemoryRepository" where
  "amem_CreateLogEntry uuid r entry =
     r\<lparr>a_auditLogs := a_auditLogs r @ [if LogID entry = [] then entry\<lparr>LogID := uuid\<rparr> else entry]\<rparr>"

text \<open>The part that both log queries share: the offset is cut at the length, then the end.\<close>

definition log_page :: "AuditLog list \<Rightarrow> PaginationQuery \<Rightarrow> (go_error, AuditLog list) outcome" where
  "log_page logs pq =
     (let n = int (length logs);
          start = (if POffset pq > n then n else POffset pq);
          end' = go_int (start + PPageSize pq)
      in go_slice_int logs start (if end' > n then n else end'))"

definition amem_GetLogsForUser ::
    "AuthMemoryRepository \<Rightarrow> string \<Rightarrow> PaginationQuery \<Rightarrow> (go_error, AuditLog list) outcome" where
  "amem_GetLogsForUser r userID pq = log_page (filter (\<lambda>l. LogActorID l = userID) (a_auditLogs r)) pq"

definition amem_GetLogsByAction ::
    "AuthMemoryRepository \<Rightarrow> string \<Rightarrow> PaginationQuery \<Rightarrow> (go_error, AuditLog list) outcome" where
  "amem_GetLogsByAction r action pq = log_page (filter (\<lambda>l. LogAction l = action) (a_auditLogs r)) pq"

section \<open>The repository interface\<close>

definition memory_auth :: "AuthMemoryRepository AuthRepo" where
  "memory_auth =
     \<lparr>sr_CreateSession = amem_CreateSession, sr_DeleteSession = amem_DeleteSession,
      tr_StoreRefreshToken = amem_StoreRefreshToken, tr_GetRefreshTokenUserID = amem_GetRefreshTokenUserID,
      tr_DeleteRefreshToken = amem_DeleteRefreshToken, tr_AddToDenyList = amem_AddToDenyList,
      tr_IsInDenyList = amem_IsInDenyList\<rparr>"

lemma memory_auth_sel [simp]:
  "sr_CreateSession memory_auth = amem_CreateSession" "sr_DeleteSession memory_auth = amem_DeleteSession"
  "tr_StoreRefreshToken memory_auth = amem_StoreRefreshToken"
  "tr_GetRefreshTokenUserID memory_auth = amem_GetRefreshTokenUserID"
  "tr_DeleteRefreshToken memory_auth = amem_DeleteRefreshToken"
  "tr_AddToDenyList memory_auth = amem_AddToDenyList" "tr_IsInDenyList memory_auth = amem_IsInDenyList"
  by (simp_all add: memory_auth_def)

lemmas amem_defs = amem_CreateSession_def amem_DeleteSession_def amem_StoreRefreshToken_def
  amem_GetRefreshTokenUserID_def amem_DeleteRefreshToken_def amem_AddToDenyList_def amem_IsInDenyList_def

interpretation memory_tokens: token_store memory_auth
  by unfold_locales (auto simp: amem_defs)

lemma log_page_Ok:
  assumes "0 \<le> POffset pq" and "0 \<le> PPageSize pq" and "POffset pq + PPageSize pq < 2 ^ 63"
    and "int (length logs) < 2 ^ 63"
  shows "log_page logs pq = Ok (take (nat (PPageSize pq)) (drop (nat (POffset pq)) logs))"
proof -
  let ?n = "int (length logs)"
  let ?s = "if POffset pq > ?n then ?n else POffset pq"
  have "go_int (?s + PPageSize pq) = ?s + PPageSize pq"
    by (rule go_int_id) (use assms in auto)
  then show ?thesis using assms
    by (auto simp: log_page_def Let_def go_slice_int_def nat_diff_distrib nat_add_distrib)
qed

end
