(* ===== verification/Identity_Memory.thy ===== *)
theory Identity_Memory
  imports Identity_Repository
begin

text \<open>
  The in-memory identity repository, \<^verbatim>\<open>internal/storage/memory/identity_memory_repository.go\<close>:
  its three maps as a record, one definition per method, and the invariants of the states that the
  methods can reach. A stored pointer is the value it points to; the identifier that
  \<^verbatim>\<open>uuid.New()\<close> returns and the order in which \<^verbatim>\<open>range\<close> visits a map are arguments. Every method
  holds the repository's mutex for its whole body, so a concurrent history is a sequence of calls.
\<close>

section \<open>State\<close>

record IdentityMemoryRepository =
  m_users :: "string \<rightharpoonup> User"
  m_groups :: "string \<rightharpoonup> UserGroup"
  m_userGroups :: "string \<rightharpoonup> string set"

definition NewIdentityMemoryRepository :: IdentityMemoryRepository where
  "NewIdentityMemoryRepository = \<lparr>m_users = Map.empty, m_groups = Map.empty, m_userGroups = Map.empty\<rparr>"

section \<open>Users\<close>

definition user_not_found :: "string \<Rightarrow> string \<Rightarrow> string \<Rightarrow> go_error" where
  "user_not_found key v suffix = Errorf (''user with '' @ key @ '' '' @ quoted v @ '' not found'' @ suffix)"

definition mem_CreateUser ::
    "string list \<Rightarrow> string \<Rightarrow> IdentityMemoryRepository \<Rightarrow> User
      \<Rightarrow> (go_error, User) outcome \<times> IdentityMemoryRepository" where
  "mem_CreateUser ord uuid r user =
     (case range_find ord (m_users r) (\<lambda>u. Username u = Username user \<or> Email u = Email user) of
        Some k \<Rightarrow>
          (if map_option Username (m_users r k) = Some (Username user)
           then (Fail (Errorf (''username '' @ quoted (Username user) @ '' already exists'')), r)
           else (Fail (Errorf (''email '' @ quoted (Email user) @ '' already exists'')), r))
      | None \<Rightarrow>
          (let user' = user\<lparr>UID := uuid\<rparr>
           in (Ok user', r\<lparr>m_users := (m_users r)(uuid \<mapsto> user')\<rparr>)))"

definition mem_FindUsersBySource :: "string list \<Rightarrow> IdentityMemoryRepository \<Rightarrow> string \<Rightarrow> User list" where
  "mem_FindUsersBySource ord r sourceID = range_values ord (m_users r)"

fun mem_CreateBatch :: "IdentityMemoryRepository \<Rightarrow> (User \<times> string) list \<Rightarrow> IdentityMemoryRepository" where
  "mem_CreateBatch r [] = r"
| "mem_CreateBatch r ((user, uuid) # us) =
     mem_CreateBatch (r\<lparr>m_users := (m_users r)(uuid \<mapsto> user\<lparr>UID := uuid\<rparr>)\<rparr>) us"

fun mem_UpdateBatch ::
    "IdentityMemoryRepository \<Rightarrow> User list \<Rightarrow> (go_error, unit) outcome \<times> IdentityMemoryRepository" where
  "mem_UpdateBatch r [] = (Ok (), r)"
| "mem_UpdateBatch r (user # us) =
     (if m_users r (UID user) = None then (Fail (user_not_found ''ID'' (UID user) '' for update''), r)
      else mem_UpdateBatch (r\<lparr>m_users := (m_users r)(UID user \<mapsto> user)\<rparr>) us)"

fun mem_DeleteBatch :: "IdentityMemoryRepository \<Rightarrow> string list \<Rightarrow> IdentityMemoryRepository" where
  "mem_DeleteBatch r [] = r"
| "mem_DeleteBatch r (i # ids) = mem_DeleteBatch (r\<lparr>m_users := (m_users r)(i := None)\<rparr>) ids"

definition mem_GetUserByID :: "IdentityMemoryRepository \<Rightarrow> string \<Rightarrow> (go_error, User) outcome" where
  "mem_GetUserByID r i =
     (case m_users r i of None \<Rightarrow> Fail (user_not_found ''ID'' i []) | Some u \<Rightarrow> Ok u)"

definition mem_GetUserByUsername ::
    "string list \<Rightarrow> IdentityMemoryRepository \<Rightarrow> string \<Rightarrow> (go_error, User) outcome" where
  "mem_GetUserByUsername ord r username =
     (case find (\<lambda>u. Username u = username) (range_values ord (m_users r)) of
        Some u \<Rightarrow> Ok u
      | None \<Rightarrow> Fail (user_not_found ''username'' username []))"

definition mem_GetUserByEmail ::
    "string list \<Rightarrow> IdentityMemoryRepository \<Rightarrow> string \<Rightarrow> (go_error, User) outcome" where
  "mem_GetUserByEmail ord r email =
     (case find (\<lambda>u. Email u = email) (range_values ord (m_users r)) of
        Some u \<Rightarrow> Ok u
      | None \<Rightarrow> Fail (user_not_found ''email'' email []))"

definition mem_GetUserByExternalID ::
    "string list \<Rightarrow> IdentityMemoryRepository \<Rightarrow> string \<Rightarrow> string \<Rightarrow> (go_error, User) outcome" where
  "mem_GetUserByExternalID ord r externalID sourceID =
     (case find (\<lambda>u. ExternalID u = externalID \<and> SourceType u = sourceID) (range_values ord (m_users r)) of
        Some u \<Rightarrow> Ok u
      | None \<Rightarrow> Fail ErrUserNotFound)"

definition mem_UpdateUser ::
    "IdentityMemoryRepository \<Rightarrow> User \<Rightarrow> (go_error, unit) outcome \<times> IdentityMemoryRepository" where
  "mem_UpdateUser r user =
     (if m_users r (UID user) = None then (Fail (user_not_found ''ID'' (UID user) '' for update''), r)
      else (Ok (), r\<lparr>m_users := (m_users r)(UID user \<mapsto> user)\<rparr>))"

definition mem_DeleteUser ::
    "IdentityMemoryRepository \<Rightarrow> string \<Rightarrow> (go_error, unit) outcome \<times> IdentityMemoryRepository" where
  "mem_DeleteUser r i =
     (if m_users r i = None then (Fail (user_not_found ''ID'' i '' for deletion''), r)
      else (Ok (), r\<lparr>m_users := (m_users r)(i := None), m_userGroups := (m_userGroups r)(i := None)\<rparr>))"

definition mem_ListUsers ::
    "string list \<Rightarrow> IdentityMemoryRepository \<Rightarrow> UserFilter \<Rightarrow> (go_error, User list \<times> int) outcome" where
  "mem_ListUsers ord r flt =
     (let users = range_values ord (m_users r);
          n = int (length users);
          start = go_int (go_int (FPage flt - 1) * FPageSize flt);
          end' = go_int (start + FPageSize flt)
      in if start > n then Ok ([], 0)
         else obind (go_slice_int users start (if end' > n then n else end')) (\<lambda>us. Ok (us, n)))"

definition mem_ChangeUserStatus ::
    "IdentityMemoryRepository \<Rightarrow> string \<Rightarrow> UserStatus
      \<Rightarrow> (go_error, unit) outcome \<times> IdentityMemoryRepository" where
  "mem_ChangeUserStatus r userID newStatus =
     (case m_users r userID of
        None \<Rightarrow> (Fail (user_not_found ''ID'' userID []), r)
      | Some u \<Rightarrow> (Ok (), r\<lparr>m_users := (m_users r)(userID \<mapsto> u\<lparr>Status := newStatus\<rparr>)\<rparr>))"

definition mem_FindUsersByAttribute ::
    "string list \<Rightarrow> IdentityMemoryRepository \<Rightarrow> string \<Rightarrow> gvalue \<Rightarrow> User list" where
  "mem_FindUsersByAttribute ord r attribute v =
     filter (\<lambda>u. if attribute = ''email'' then v = VString (Email u)
                 else if attribute = ''username'' then v = VString (Username u)
                 else False)
       (range_values ord (m_users r))"

text \<open>One iteration of the loop of \<^verbatim>\<open>UpsertBatch\<close>.\<close>

definition upsert_user ::
    "string list \<Rightarrow> string \<Rightarrow> IdentityMemoryRepository \<Rightarrow> User \<Rightarrow> IdentityMemoryRepository" where
  "upsert_user ord uuid r user =
     (case range_find ord (m_users r) (\<lambda>u. Email u = Email user) of
        Some k \<Rightarrow>
          r\<lparr>m_users := (m_users r)(k := map_option
              (\<lambda>e. e\<lparr>Username := Username user, UAttributes := UAttributes user, Status := Status user\<rparr>)
              (m_users r k))\<rparr>
      | None \<Rightarrow>
          (let i = (if UID user = [] then uuid else UID user)
           in r\<lparr>m_users := (m_users r)(i \<mapsto> user\<lparr>UID := i\<rparr>)\<rparr>))"

fun mem_UpsertBatch ::
    "IdentityMemoryRepository \<Rightarrow> (User \<times> string list \<times> string) list \<Rightarrow> IdentityMemoryRepository" where
  "mem_UpsertBatch r [] = r"
| "mem_UpsertBatch r ((user, ord, uuid) # us) = mem_UpsertBatch (upsert_user ord uuid r user) us"

section \<open>Groups\<close>

definition group_not_found :: "string \<Rightarrow> string \<Rightarrow> string \<Rightarrow> go_error" where
  "group_not_found key v suffix = Errorf (''group with '' @ key @ '' '' @ quoted v @ '' not found'' @ suffix)"

definition mem_CreateGroup ::
    "string list \<Rightarrow> string \<Rightarrow> IdentityMemoryRepository \<Rightarrow> UserGroup
      \<Rightarrow> (go_error, UserGroup) outcome \<times> IdentityMemoryRepository" where
  "mem_CreateGroup ord uuid r grp =
     (case range_find ord (m_groups r) (\<lambda>g. GName g = GName grp) of
        Some _ \<Rightarrow> (Fail (Errorf (''group with name '' @ quoted (GName grp) @ '' already exists'')), r)
      | None \<Rightarrow>
          (let grp' = grp\<lparr>GID := uuid\<rparr>
           in (Ok grp', r\<lparr>m_groups := (m_groups r)(uuid \<mapsto> grp')\<rparr>)))"

definition mem_GetGroupByID :: "IdentityMemoryRepository \<Rightarrow> string \<Rightarrow> (go_error, UserGroup) outcome" where
  "mem_GetGroupByID r i =
     (case m_groups r i of None \<Rightarrow> Fail (group_not_found ''ID'' i []) | Some g \<Rightarrow> Ok g)"

definition mem_GetGroupByName ::
    "string list \<Rightarrow> IdentityMemoryRepository \<Rightarrow> string \<Rightarrow> (go_error, UserGroup) outcome" where
  "mem_GetGroupByName ord r name =
     (case find (\<lambda>g. GName g = name) (range_values ord (m_groups r)) of
        Some g \<Rightarrow> Ok g
      | None \<Rightarrow> Fail (group_not_found ''name'' name []))"

definition mem_UpdateGroup ::
    "IdentityMemoryRepository \<Rightarrow> UserGroup \<Rightarrow> (go_error, unit) outcome \<times> IdentityMemoryRepository" where
  "mem_UpdateGroup r grp =
     (if m_groups r (GID grp) = None then (Fail (group_not_found ''ID'' (GID grp) '' for update''), r)
      else (Ok (), r\<lparr>m_groups := (m_groups r)(GID grp \<mapsto> grp)\<rparr>))"

definition mem_DeleteGroup ::
    "IdentityMemoryRepository \<Rightarrow> string \<Rightarrow> (go_error, unit) outcome \<times> IdentityMemoryRepository" where
  "mem_DeleteGroup r i =
     (if m_groups r i = None then (Fail (group_not_found ''ID'' i '' for deletion''), r)
      else (Ok (), r\<lparr>m_groups := (m_groups r)(i := None),
                     m_userGroups := (\<lambda>u. map_option (\<lambda>S. S - {i}) (m_userGroups r u))\<rparr>))"

definition mem_ListGroups ::
    "string list \<Rightarrow> IdentityMemoryRepository \<Rightarrow> PaginationQuery \<Rightarrow> (go_error, UserGroup list) outcome" where
  "mem_ListGroups ord r pq =
     (let groups = range_values ord (m_groups r);
          n = int (length groups);
          start = POffset pq;
          end' = go_int (start + PPageSize pq)
      in if start > n then Ok []
         else go_slice_int groups start (if end' > n then n else end'))"

definition mem_AddUserToGroup ::
    "IdentityMemoryRepository \<Rightarrow> string \<Rightarrow> string
      \<Rightarrow> (go_error, unit) outcome \<times> IdentityMemoryRepository" where
  "mem_AddUserToGroup r userID groupID =
     (if m_users r userID = None then (Fail (user_not_found ''ID'' userID []), r)
      else if m_groups r groupID = None then (Fail (group_not_found ''ID'' groupID []), r)
      else (Ok (), r\<lparr>m_userGroups := (m_userGroups r)(userID \<mapsto>
              insert groupID (case m_userGroups r userID of None \<Rightarrow> {} | Some S \<Rightarrow> S))\<rparr>))"

definition mem_RemoveUserFromGroup ::
    "IdentityMemoryRepository \<Rightarrow> string \<Rightarrow> string \<Rightarrow> IdentityMemoryRepository" where
  "mem_RemoveUserFromGroup r userID groupID =
     (case m_userGroups r userID of
        None \<Rightarrow> r
      | Some S \<Rightarrow> r\<lparr>m_userGroups := (m_userGroups r)(userID \<mapsto> S - {groupID})\<rparr>)"

text \<open>\<open>gord\<close> is the order in which the user's set of group identifiers is visited.\<close>

definition mem_GetUserGroups ::
    "string list \<Rightarrow> IdentityMemoryRepository \<Rightarrow> string \<Rightarrow> UserGroup list" where
  "mem_GetUserGroups gord r userID =
     (case m_userGroups r userID of
        None \<Rightarrow> []
      | Some S \<Rightarrow> List.map_filter (m_groups r) (filter (\<lambda>g. g \<in> S) gord))"

section \<open>Histories\<close>

datatype repo_op =
    OpCreateUser "string list" string User
  | OpCreateBatch "(User \<times> string) list"
  | OpUpdateBatch "User list"
  | OpDeleteBatch "string list"
  | OpUpsertBatch "(User \<times> string list \<times> string) list"
  | OpUpdateUser User
  | OpDeleteUser string
  | OpChangeUserStatus string UserStatus
  | OpCreateGroup "string list" string UserGroup
  | OpUpdateGroup UserGroup
  | OpDeleteGroup string
  | OpAddUserToGroup string string
  | OpRemoveUserFromGroup string string

primrec apply_op :: "repo_op \<Rightarrow> IdentityMemoryRepository \<Rightarrow> IdentityMemoryRepository" where
  "apply_op (OpCreateUser ord uuid u) r = snd (mem_CreateUser ord uuid r u)"
| "apply_op (OpCreateBatch us) r = mem_CreateBatch r us"
| "apply_op (OpUpdateBatch us) r = snd (mem_UpdateBatch r us)"
| "apply_op (OpDeleteBatch ids) r = mem_DeleteBatch r ids"
| "apply_op (OpUpsertBatch us) r = mem_UpsertBatch r us"
| "apply_op (OpUpdateUser u) r = snd (mem_UpdateUser r u)"
| "apply_op (OpDeleteUser i) r = snd (mem_DeleteUser r i)"
| "apply_op (OpChangeUserStatus i st) r = snd (mem_ChangeUserStatus r i st)"
| "apply_op (OpCreateGroup ord uuid g) r = snd (mem_CreateGroup ord uuid r g)"
| "apply_op (OpUpdateGroup g) r = snd (mem_UpdateGroup r g)"
| "apply_op (OpDeleteGroup i) r = snd (mem_DeleteGroup r i)"
| "apply_op (OpAddUserToGroup u g) r = snd (mem_AddUserToGroup r u g)"
| "apply_op (OpRemoveUserFromGroup u g) r = mem_RemoveUserFromGroup r u g"

text \<open>
  What the run-time environment guarantees of a call: a visiting order lists the keys of the map it
  ranges over, and a new identifier is not in use.
\<close>

primrec op_ok :: "repo_op \<Rightarrow> IdentityMemoryRepository \<Rightarrow> bool" where
  "op_ok (OpCreateUser ord uuid u) r \<longleftrightarrow> visits ord (m_users r) \<and> m_users r uuid = None"
| "op_ok (OpCreateBatch us) r \<longleftrightarrow> True"
| "op_ok (OpUpdateBatch us) r \<longleftrightarrow> True"
| "op_ok (OpDeleteBatch ids) r \<longleftrightarrow> True"
| "op_ok (OpUpsertBatch us) r \<longleftrightarrow> True"
| "op_ok (OpUpdateUser u) r \<longleftrightarrow> True"
| "op_ok (OpDeleteUser i) r \<longleftrightarrow> True"
| "op_ok (OpChangeUserStatus i st) r \<longleftrightarrow> True"
| "op_ok (OpCreateGroup ord uuid g) r \<longleftrightarrow> visits ord (m_groups r) \<and> m_groups r uuid = None"
| "op_ok (OpUpdateGroup g) r \<longleftrightarrow> True"
| "op_ok (OpDeleteGroup i) r \<longleftrightarrow> True"
| "op_ok (OpAddUserToGroup u g) r \<longleftrightarrow> True"
| "op_ok (OpRemoveUserFromGroup u g) r \<longleftrightarrow> True"

text \<open>The states that a history of calls, all of them satisfying \<open>P\<close>, can reach.\<close>

inductive repo_run :: "(repo_op \<Rightarrow> bool) \<Rightarrow> IdentityMemoryRepository \<Rightarrow> bool" for P where
  run_new: "repo_run P NewIdentityMemoryRepository"
| run_op: "repo_run P r \<Longrightarrow> P op \<Longrightarrow> op_ok op r \<Longrightarrow> repo_run P (apply_op op r)"

section \<open>Identifiers and memberships\<close>

text \<open>
  Every stored object is under its own identifier, and a membership names a group that exists.
\<close>

definition wf_repo :: "IdentityMemoryRepository \<Rightarrow> bool" where
  "wf_repo r \<longleftrightarrow>
     (\<forall>k u. m_users r k = Some u \<longrightarrow> UID u = k) \<and>
     (\<forall>k g. m_groups r k = Some g \<longrightarrow> GID g = k) \<and>
     (\<forall>k S g. m_userGroups r k = Some S \<longrightarrow> g \<in> S \<longrightarrow> m_groups r g \<noteq> None)"

definition members :: "IdentityMemoryRepository \<Rightarrow> (string \<times> string) set" where
  "members r = {(u, g). \<exists>S. m_userGroups r u = Some S \<and> g \<in> S}"

lemmas mem_defs = mem_CreateUser_def mem_UpdateUser_def mem_DeleteUser_def mem_ChangeUserStatus_def
  mem_CreateGroup_def mem_UpdateGroup_def mem_DeleteGroup_def mem_AddUserToGroup_def
  mem_RemoveUserFromGroup_def

lemma upsert_user_frame [simp]:
  "m_groups (upsert_user ord uuid r u) = m_groups r"
  "m_userGroups (upsert_user ord uuid r u) = m_userGroups r"
  by (simp_all add: upsert_user_def Let_def split: option.split)

lemma wf_repo_put_user: "wf_repo r \<Longrightarrow> UID u = k \<Longrightarrow> wf_repo (r\<lparr>m_users := (m_users r)(k \<mapsto> u)\<rparr>)"
  by (simp add: wf_repo_def)

lemma wf_repo_drop_user: "wf_repo r \<Longrightarrow> wf_repo (r\<lparr>m_users := (m_users r)(k := None)\<rparr>)"
  by (simp add: wf_repo_def)

lemma wf_repo_upsert_user: "wf_repo r \<Longrightarrow> wf_repo (upsert_user ord uuid r u)"
  by (auto simp: wf_repo_def upsert_user_def Let_def split: option.split)

lemma batch_groups [simp]:
  "m_groups (mem_CreateBatch r us) = m_groups r"
  "m_groups (snd (mem_UpdateBatch r vs)) = m_groups r"
  "m_groups (mem_DeleteBatch r ids) = m_groups r"
  "m_groups (mem_UpsertBatch r ws) = m_groups r"
     apply (induction r us rule: mem_CreateBatch.induct; simp)
    apply (induction r vs rule: mem_UpdateBatch.induct; simp)
   apply (induction r ids rule: mem_DeleteBatch.induct; simp)
  apply (induction r ws rule: mem_UpsertBatch.induct; simp)
  done

lemma batch_userGroups [simp]:
  "m_userGroups (mem_CreateBatch r us) = m_userGroups r"
  "m_userGroups (snd (mem_UpdateBatch r vs)) = m_userGroups r"
  "m_userGroups (mem_DeleteBatch r ids) = m_userGroups r"
  "m_userGroups (mem_UpsertBatch r ws) = m_userGroups r"
     apply (induction r us rule: mem_CreateBatch.induct; simp)
    apply (induction r vs rule: mem_UpdateBatch.induct; simp)
   apply (induction r ids rule: mem_DeleteBatch.induct; simp)
  apply (induction r ws rule: mem_UpsertBatch.induct; simp)
  done

lemma wf_repo_CreateBatch: "wf_repo r \<Longrightarrow> wf_repo (mem_CreateBatch r us)"
  by (induction r us rule: mem_CreateBatch.induct) (simp_all add: wf_repo_put_user)

lemma wf_repo_UpdateBatch: "wf_repo r \<Longrightarrow> wf_repo (snd (mem_UpdateBatch r us))"
  by (induction r us rule: mem_UpdateBatch.induct) (simp_all add: wf_repo_put_user)

lemma wf_repo_DeleteBatch: "wf_repo r \<Longrightarrow> wf_repo (mem_DeleteBatch r ids)"
  by (induction r ids rule: mem_DeleteBatch.induct) (simp_all add: wf_repo_drop_user)

lemma wf_repo_UpsertBatch: "wf_repo r \<Longrightarrow> wf_repo (mem_UpsertBatch r us)"
  by (induction r us rule: mem_UpsertBatch.induct) (simp_all add: wf_repo_upsert_user)

lemmas wf_repo_batch = wf_repo_CreateBatch wf_repo_UpdateBatch wf_repo_DeleteBatch wf_repo_UpsertBatch

lemma wf_repo_apply: "wf_repo r \<Longrightarrow> wf_repo (apply_op op r)"
proof (cases op)
  case (OpAddUserToGroup u g)
  then show "wf_repo r \<Longrightarrow> ?thesis"
    by (auto simp: mem_AddUserToGroup_def wf_repo_def split: option.splits)
qed (auto simp: wf_repo_batch, auto simp: mem_defs wf_repo_def Let_def split: option.splits if_splits)

lemma wf_repo_run: "repo_run P r \<Longrightarrow> wf_repo r"
  by (induction rule: repo_run.induct)
    (simp_all add: wf_repo_apply, simp add: wf_repo_def NewIdentityMemoryRepository_def)

lemma members_apply:
  "members (apply_op op r) =
     (case op of
        OpAddUserToGroup u g \<Rightarrow>
          if u \<in> dom (m_users r) \<and> g \<in> dom (m_groups r) then insert (u, g) (members r) else members r
      | OpRemoveUserFromGroup u g \<Rightarrow> members r - {(u, g)}
      | OpDeleteUser u \<Rightarrow>
          if u \<in> dom (m_users r) then {(u', g) \<in> members r. u' \<noteq> u} else members r
      | OpDeleteGroup g \<Rightarrow>
          if g \<in> dom (m_groups r) then {(u, g') \<in> members r. g' \<noteq> g} else members r
      | _ \<Rightarrow> members r)"
  by (cases op) (auto simp: mem_defs members_def Let_def split: option.splits if_splits)

section \<open>Unique names\<close>

definition unique_by :: "('v \<Rightarrow> 'a) \<Rightarrow> ('k \<rightharpoonup> 'v) \<Rightarrow> bool" where
  "unique_by f m \<longleftrightarrow> (\<forall>k k' v v'. m k = Some v \<longrightarrow> m k' = Some v' \<longrightarrow> f v = f v' \<longrightarrow> k = k')"

text \<open>
  The calls that check user names and e-mail addresses or do not change them. The batch calls and
  \<^verbatim>\<open>UpdateUser\<close> store what they are given.
\<close>

primrec keeps_names :: "repo_op \<Rightarrow> bool" where
  "keeps_names (OpCreateUser ord uuid u) = True"
| "keeps_names (OpCreateBatch us) = False"
| "keeps_names (OpUpdateBatch us) = False"
| "keeps_names (OpDeleteBatch ids) = True"
| "keeps_names (OpUpsertBatch us) = False"
| "keeps_names (OpUpdateUser u) = False"
| "keeps_names (OpDeleteUser i) = True"
| "keeps_names (OpChangeUserStatus i st) = True"
| "keeps_names (OpCreateGroup ord uuid g) = True"
| "keeps_names (OpUpdateGroup g) = True"
| "keeps_names (OpDeleteGroup i) = True"
| "keeps_names (OpAddUserToGroup u g) = True"
| "keeps_names (OpRemoveUserFromGroup u g) = True"

lemma unique_by_empty [simp]: "unique_by f Map.empty"
  by (simp add: unique_by_def)

lemma unique_by_drop: "unique_by f m \<Longrightarrow> unique_by f (m(k := None))"
  by (simp add: unique_by_def)

lemma unique_by_put:
  "unique_by f m \<Longrightarrow> (\<And>k' v'. m k' = Some v' \<Longrightarrow> k' \<noteq> k \<Longrightarrow> f v' \<noteq> f v) \<Longrightarrow> unique_by f (m(k \<mapsto> v))"
  by (fastforce simp: unique_by_def)

lemma unique_by_update:
  "unique_by f m \<Longrightarrow> m k = Some v \<Longrightarrow> f v' = f v \<Longrightarrow> unique_by f (m(k \<mapsto> v'))"
  by (fastforce simp: unique_by_def)

lemma unique_by_DeleteBatch: "unique_by f (m_users r) \<Longrightarrow> unique_by f (m_users (mem_DeleteBatch r ids))"
  by (induction r ids rule: mem_DeleteBatch.induct) (simp_all add: unique_by_drop)

lemma CreateUser_cases:
  assumes "visits ord (m_users r)"
  obtains (clash) e where "mem_CreateUser ord uuid r u = (Fail e, r)"
      "\<exists>v \<in> ran (m_users r). Username v = Username u \<or> Email v = Email u"
    | (fresh) "mem_CreateUser ord uuid r u =
        (Ok (u\<lparr>UID := uuid\<rparr>), r\<lparr>m_users := (m_users r)(uuid \<mapsto> u\<lparr>UID := uuid\<rparr>)\<rparr>)"
      "\<forall>v \<in> ran (m_users r). Username v \<noteq> Username u \<and> Email v \<noteq> Email u"
proof (cases "range_find ord (m_users r) (\<lambda>v. Username v = Username u \<or> Email v = Email u)")
  case None
  with range_find_None [OF assms] that(2) show ?thesis by (simp add: mem_CreateUser_def Let_def)
next
  case (Some k)
  with range_find_Some [OF Some] have
    "\<exists>v \<in> ran (m_users r). Username v = Username u \<or> Email v = Email u"
    by (auto simp: ran_def)
  moreover from Some have "\<exists>e. mem_CreateUser ord uuid r u = (Fail e, r)"
    by (simp add: mem_CreateUser_def)
  ultimately show ?thesis using that(1) by blast
qed

lemma unique_CreateUser:
  assumes "visits ord (m_users r)" and "unique_by f (m_users r)" and "f = Username \<or> f = Email"
  shows "unique_by f (m_users (snd (mem_CreateUser ord uuid r u)))"
proof (rule CreateUser_cases [OF assms(1), of uuid u])
  fix e
  assume "mem_CreateUser ord uuid r u = (Fail e, r)"
  with assms show ?thesis by simp
next
  assume fresh: "mem_CreateUser ord uuid r u =
        (Ok (u\<lparr>UID := uuid\<rparr>), r\<lparr>m_users := (m_users r)(uuid \<mapsto> u\<lparr>UID := uuid\<rparr>)\<rparr>)"
      "\<forall>v \<in> ran (m_users r). Username v \<noteq> Username u \<and> Email v \<noteq> Email u"
  have "unique_by f ((m_users r)(uuid \<mapsto> u\<lparr>UID := uuid\<rparr>))"
    using assms(2,3) fresh(2) by (intro unique_by_put) (auto simp: ran_def)
  with fresh show ?thesis by simp
qed

lemma unique_by_apply:
  assumes "unique_by f (m_users r)" and "op_ok op r" and "keeps_names op" and "f = Username \<or> f = Email"
  shows "unique_by f (m_users (apply_op op r))"
proof (cases op)
  case (OpCreateUser ord uuid u)
  with assms show ?thesis by (simp add: unique_CreateUser)
next
  case (OpChangeUserStatus i st)
  with assms show ?thesis
    by (auto simp: mem_ChangeUserStatus_def split: option.split intro!: unique_by_update)
qed (use assms in \<open>auto simp: unique_by_DeleteBatch unique_by_drop mem_defs Let_def split: option.split\<close>)

lemma unique_names_run:
  "repo_run keeps_names r \<Longrightarrow> unique_by Username (m_users r) \<and> unique_by Email (m_users r)"
  by (induction rule: repo_run.induct) (simp_all add: unique_by_apply NewIdentityMemoryRepository_def)

lemma find_range_values_unique:
  assumes v: "visits ord m" and u: "unique_by f m"
  shows "find (\<lambda>x. f x = a) (range_values ord m) = Some x \<longleftrightarrow> (\<exists>k. m k = Some x) \<and> f x = a"
proof -
  have one: "y = x" if "m k = Some x" "m k' = Some y" "f x = a" "f y = a" for x y k k'
    using u that unfolding unique_by_def by (metis option.inject)
  have "find (\<lambda>x. f x = a) (range_values ord m) = Some x"
    if m: "m k = Some x" and f: "f x = a" for k
  proof (cases "find (\<lambda>x. f x = a) (range_values ord m)")
    case None
    with m f set_range_values [OF v] show ?thesis by (auto simp: find_None_iff ran_def)
  next
    case (Some y)
    then have "y \<in> ran m" and "f y = a" using find_SomeD [OF Some] set_range_values [OF v] by auto
    then obtain k' where "m k' = Some y" by (auto simp: ran_def)
    with one [OF m this f] \<open>f y = a\<close> Some show ?thesis by simp
  qed
  then show ?thesis
    using set_range_values [OF v] by (auto dest!: find_SomeD simp: ran_def)
qed

section \<open>The repository interfaces\<close>

text \<open>
  The repository as a provider of both interfaces. \<open>ord\<close> gives the visiting order of the ranging
  methods by name, \<open>uuid\<close> the identifier that the next call of \<^verbatim>\<open>uuid.New()\<close> returns.
\<close>

definition memory_users :: "(string \<Rightarrow> string list) \<Rightarrow> string \<Rightarrow> IdentityMemoryRepository UserRepository" where
  "memory_users ord uuid =
     \<lparr>ur_CreateUser = mem_CreateUser (ord ''CreateUser'') uuid,
      ur_GetUserByID = mem_GetUserByID,
      ur_GetUserByUsername = mem_GetUserByUsername (ord ''GetUserByUsername''),
      ur_GetUserByEmail = mem_GetUserByEmail (ord ''GetUserByEmail''),
      ur_UpdateUser = mem_UpdateUser,
      ur_DeleteUser = mem_DeleteUser,
      ur_ListUsers = mem_ListUsers (ord ''ListUsers''),
      ur_GetUserByExternalID = mem_GetUserByExternalID (ord ''GetUserByExternalID'')\<rparr>"

definition memory_groups :: "(string \<Rightarrow> string list) \<Rightarrow> string \<Rightarrow> IdentityMemoryRepository GroupRepository" where
  "memory_groups ord uuid =
     \<lparr>gr_CreateGroup = mem_CreateGroup (ord ''CreateGroup'') uuid,
      gr_GetGroupByID = mem_GetGroupByID,
      gr_UpdateGroup = mem_UpdateGroup,
      gr_DeleteGroup = mem_DeleteGroup,
      gr_ListGroups = mem_ListGroups (ord ''ListGroups''),
      gr_AddUserToGroup = mem_AddUserToGroup,
      gr_GetUserGroups = (\<lambda>r u. Ok (mem_GetUserGroups (ord ''GetUserGroups'') r u))\<rparr>"

text \<open>The user orders list the users, and the next identifier is not in use.\<close>

definition memory_inv :: "(string \<Rightarrow> string list) \<Rightarrow> string \<Rightarrow> IdentityMemoryRepository \<Rightarrow> bool" where
  "memory_inv ord uuid r \<longleftrightarrow>
     (\<forall>op \<in> {''CreateUser'', ''GetUserByUsername'', ''GetUserByEmail''}. visits (ord op) (m_users r)) \<and>
     m_users r uuid = None"

definition memory_stored :: "IdentityMemoryRepository \<Rightarrow> User \<Rightarrow> bool" where
  "memory_stored r u \<longleftrightarrow> u \<in> ran (m_users r)"

lemma memory_users_sel [simp]:
  "ur_CreateUser (memory_users ord uuid) = mem_CreateUser (ord ''CreateUser'') uuid"
  "ur_GetUserByID (memory_users ord uuid) = mem_GetUserByID"
  "ur_GetUserByUsername (memory_users ord uuid) = mem_GetUserByUsername (ord ''GetUserByUsername'')"
  "ur_GetUserByEmail (memory_users ord uuid) = mem_GetUserByEmail (ord ''GetUserByEmail'')"
  "ur_UpdateUser (memory_users ord uuid) = mem_UpdateUser"
  "ur_DeleteUser (memory_users ord uuid) = mem_DeleteUser"
  "ur_ListUsers (memory_users ord uuid) = mem_ListUsers (ord ''ListUsers'')"
  by (simp_all add: memory_users_def)

lemma GetUserByUsername_cases:
  assumes "visits ord (m_users r)"
  shows "mem_GetUserByUsername ord r n = Ok u \<Longrightarrow> u \<in> ran (m_users r) \<and> Username u = n"
    and "u \<in> ran (m_users r) \<Longrightarrow> \<exists>v. mem_GetUserByUsername ord r (Username u) = Ok v"
    and "mem_GetUserByUsername ord r n \<noteq> Panic"
  using set_range_values [OF assms]
  by (auto simp: mem_GetUserByUsername_def find_None_iff dest!: find_SomeD split: option.splits)

lemma GetUserByEmail_cases:
  assumes "visits ord (m_users r)"
  shows "mem_GetUserByEmail ord r n = Ok u \<Longrightarrow> u \<in> ran (m_users r) \<and> Email u = n"
    and "u \<in> ran (m_users r) \<Longrightarrow> \<exists>v. mem_GetUserByEmail ord r (Email u) = Ok v"
    and "mem_GetUserByEmail ord r n \<noteq> Panic"
  using set_range_values [OF assms]
  by (auto simp: mem_GetUserByEmail_def find_None_iff dest!: find_SomeD split: option.splits)

interpretation memory: email_repository "memory_users ord uuid" "memory_inv ord uuid" memory_stored
proof
  fix s u u' s' e n m
  assume inv: "memory_inv ord uuid s"
  then have v: "visits (ord ''CreateUser'') (m_users s)" "visits (ord ''GetUserByUsername'') (m_users s)"
      "visits (ord ''GetUserByEmail'') (m_users s)" and f: "m_users s uuid = None"
    by (simp_all add: memory_inv_def)
  show "ur_GetUserByUsername (memory_users ord uuid) s n = Ok u \<Longrightarrow> memory_stored s u \<and> Username u = n"
    using GetUserByUsername_cases(1) [OF v(2)] by (simp add: memory_stored_def)
  show "memory_stored s u \<Longrightarrow> \<exists>v. ur_GetUserByUsername (memory_users ord uuid) s (Username u) = Ok v"
    using GetUserByUsername_cases(2) [OF v(2)] by (simp add: memory_stored_def)
  show "ur_GetUserByEmail (memory_users ord uuid) s n = Ok u \<Longrightarrow> memory_stored s u \<and> Email u = n"
    using GetUserByEmail_cases(1) [OF v(3)] by (simp add: memory_stored_def)
  show "memory_stored s u \<Longrightarrow> \<exists>v. ur_GetUserByEmail (memory_users ord uuid) s (Email u) = Ok v"
    using GetUserByEmail_cases(2) [OF v(3)] by (simp add: memory_stored_def)
  show "ur_GetUserByUsername (memory_users ord uuid) s n \<noteq> Panic \<and> ur_GetUserByEmail (memory_users ord uuid) s m \<noteq> Panic"
    using GetUserByUsername_cases(3) [OF v(2)] GetUserByEmail_cases(3) [OF v(3)] by simp
  show "ur_CreateUser (memory_users ord uuid) s u = (Fail e, s') \<Longrightarrow> s' = s"
    by (rule CreateUser_cases [OF v(1), of uuid u]) simp_all
  show "ur_CreateUser (memory_users ord uuid) s u = (Ok u', s') \<Longrightarrow>
      (\<exists>i. u' = u\<lparr>UID := i\<rparr>) \<and> (\<forall>v. memory_stored s' v \<longleftrightarrow> memory_stored s v \<or> v = u')"
    using f by (rule_tac CreateUser_cases [OF v(1), of uuid u]) (auto simp: memory_stored_def)
qed

section \<open>A small directory\<close>

definition alice :: User where
  "alice = zero_user\<lparr>Username := ''alice'', Email := ''a@x'', Status := UserStatusActive\<rparr>"

definition staff :: UserGroup where
  "staff = \<lparr>GID = [], GName = ''staff'', GDescription = [], GParentID = None, GMetadata = Map.empty,
     GCreatedAt = 0, GUpdatedAt = 0\<rparr>"

definition small_ops :: "repo_op list" where
  "small_ops = [OpCreateUser [] ''u1'' alice, OpCreateGroup [] ''g1'' staff, OpAddUserToGroup ''u1'' ''g1'']"

definition small_repo :: IdentityMemoryRepository where
  "small_repo = fold apply_op small_ops NewIdentityMemoryRepository"

lemma small_repo_eq:
  "small_repo = \<lparr>m_users = [''u1'' \<mapsto> alice\<lparr>UID := ''u1''\<rparr>], m_groups = [''g1'' \<mapsto> staff\<lparr>GID := ''g1''\<rparr>],
     m_userGroups = [''u1'' \<mapsto> {''g1''}]\<rparr>"
  by (simp add: small_repo_def small_ops_def NewIdentityMemoryRepository_def mem_defs range_find_def Let_def)

lemma visits_empty [simp]: "visits [] Map.empty"
  by (simp add: visits_def)

lemma visits_single [simp]: "visits [k] [k \<mapsto> v]"
  by (simp add: visits_def)

lemma small_repo_run: "repo_run keeps_names small_repo"
proof -
  let ?n = NewIdentityMemoryRepository
  have 1: "repo_run keeps_names (apply_op (OpCreateUser [] ''u1'' alice) ?n)"
    by (rule run_op [OF run_new]) (simp_all add: NewIdentityMemoryRepository_def)
  have 2: "repo_run keeps_names (apply_op (OpCreateGroup [] ''g1'' staff)
      (apply_op (OpCreateUser [] ''u1'' alice) ?n))"
    by (rule run_op [OF 1]) (simp_all add: NewIdentityMemoryRepository_def mem_CreateUser_def
        range_find_def Let_def)
  have "repo_run keeps_names (apply_op (OpAddUserToGroup ''u1'' ''g1'')
      (apply_op (OpCreateGroup [] ''g1'' staff) (apply_op (OpCreateUser [] ''u1'' alice) ?n)))"
    by (rule run_op [OF 2]) simp_all
  then show ?thesis by (simp add: small_repo_def small_ops_def)
qed

lemma members_small_repo: "members small_repo = {(''u1'', ''g1'')}"
  by (auto simp: members_def small_repo_eq split: if_splits)

section \<open>What the methods return\<close>

text \<open>
  Creation and lookup agree: when the in-memory \<^verbatim>\<open>CreateUser\<close> succeeds, the stored user carries the
  new identifier, and looking it up by that identifier, by its user name and by its e-mail address
  returns exactly the stored user, whatever order the lookups visit the map in.
\<close>

theorem CreateUser_lookup:
  assumes "visits ord (m_users r)" and "m_users r uuid = None"
    and "mem_CreateUser ord uuid r u = (Ok u', r')"
    and "visits ord1 (m_users r')" and "visits ord2 (m_users r')"
  shows "u' = u\<lparr>UID := uuid\<rparr> \<and> mem_GetUserByID r' uuid = Ok u' \<and>
    mem_GetUserByUsername ord1 r' (Username u) = Ok u' \<and> mem_GetUserByEmail ord2 r' (Email u) = Ok u'"
proof (rule CreateUser_cases [OF assms(1), of uuid u])
  fix e
  assume "mem_CreateUser ord uuid r u = (Fail e, r)"
  with assms(3) show ?thesis by simp
next
  assume "mem_CreateUser ord uuid r u =
        (Ok (u\<lparr>UID := uuid\<rparr>), r\<lparr>m_users := (m_users r)(uuid \<mapsto> u\<lparr>UID := uuid\<rparr>)\<rparr>)"
    and new: "\<forall>v \<in> ran (m_users r). Username v \<noteq> Username u \<and> Email v \<noteq> Email u"
  with assms(3) have u': "u' = u\<lparr>UID := uuid\<rparr>" and r': "m_users r' = (m_users r)(uuid \<mapsto> u')" by auto
  have ran: "ran (m_users r') = insert u' (ran (m_users r))" using assms(2) by (simp add: r')
  obtain v where v: "mem_GetUserByUsername ord1 r' (Username u) = Ok v"
    using GetUserByUsername_cases(2) [OF assms(4), of u'] ran u' by auto
  obtain w where w: "mem_GetUserByEmail ord2 r' (Email u) = Ok w"
    using GetUserByEmail_cases(2) [OF assms(5), of u'] ran u' by auto
  have "v = u'" using GetUserByUsername_cases(1) [OF assms(4) v] new ran by auto
  moreover have "w = u'" using GetUserByEmail_cases(1) [OF assms(5) w] new ran by auto
  ultimately show ?thesis using u' v w by (simp add: mem_GetUserByID_def r')
qed

theorem CreateUser_lookup_witness:
  "mem_GetUserByUsername [''u1''] (snd (mem_CreateUser [] ''u1'' NewIdentityMemoryRepository alice)) ''alice''
     = Ok (alice\<lparr>UID := ''u1''\<rparr>)"
  using CreateUser_lookup [of "[]" NewIdentityMemoryRepository "''u1''" alice "alice\<lparr>UID := ''u1''\<rparr>"
      "NewIdentityMemoryRepository\<lparr>m_users := [''u1'' \<mapsto> alice\<lparr>UID := ''u1''\<rparr>]\<rparr>" "[''u1'']" "[''u1'']"]
  by (simp add: NewIdentityMemoryRepository_def mem_CreateUser_def range_find_def Let_def alice_def zero_user_def)

text \<open>
  As long as no call stores users unchecked (\<^verbatim>\<open>UpdateUser\<close> and the batch calls do), user names are
  unique in every reachable state, and \<^verbatim>\<open>GetUserByUsername\<close> returns the user with that name and
  fails exactly when there is none: the random order of map iteration is not observable.
\<close>

theorem GetUserByUsername_order_free:
  assumes "repo_run keeps_names r" and "visits ord (m_users r)"
  shows "mem_GetUserByUsername ord r n = Ok u \<longleftrightarrow> (\<exists>k. m_users r k = Some u) \<and> Username u = n"
proof -
  have "find (\<lambda>u. Username u = n) (range_values ord (m_users r)) = Some u \<longleftrightarrow>
      (\<exists>k. m_users r k = Some u) \<and> Username u = n"
    using find_range_values_unique [OF assms(2), of Username n u] unique_names_run [OF assms(1)] by simp
  then show ?thesis by (auto simp: mem_GetUserByUsername_def split: option.split)
qed

theorem GetUserByUsername_order_free_witness:
  "mem_GetUserByUsername [''u1''] small_repo ''alice'' = Ok (alice\<lparr>UID := ''u1''\<rparr>)"
proof -
  have "visits [''u1''] (m_users small_repo)" by (simp add: small_repo_eq)
  with GetUserByUsername_order_free [OF small_repo_run this, of "''alice''" "alice\<lparr>UID := ''u1''\<rparr>"]
  show ?thesis by (simp add: small_repo_eq alice_def)
qed

text \<open>
  C15: Memberships refine the relation that the calls describe. Adding, removing, deleting a user and
  deleting a group change the membership relation as a set of pairs should change, no other call
  changes it, and in every reachable state \<^verbatim>\<open>GetUserGroups\<close> lists exactly the groups the relation
  gives the user: no membership points to a group that is gone.
\<close>

theorem GetUserGroups_refines_members:
  assumes "repo_run P r" and "set gord = {g. (u, g) \<in> members r}"
  shows "map GID (mem_GetUserGroups gord r u) = gord \<and>
    members (apply_op op r) =
     (case op of
        OpAddUserToGroup u g \<Rightarrow>
          if u \<in> dom (m_users r) \<and> g \<in> dom (m_groups r) then insert (u, g) (members r) else members r
      | OpRemoveUserFromGroup u g \<Rightarrow> members r - {(u, g)}
      | OpDeleteUser u \<Rightarrow>
          if u \<in> dom (m_users r) then {(u', g) \<in> members r. u' \<noteq> u} else members r
      | OpDeleteGroup g \<Rightarrow>
          if g \<in> dom (m_groups r) then {(u, g') \<in> members r. g' \<noteq> g} else members r
      | _ \<Rightarrow> members r)"
proof -
  have wf: "wf_repo r" by (rule wf_repo_run [OF assms(1)])
  have "map GID (List.map_filter (m_groups r) (filter (\<lambda>g. g \<in> S) gs)) = gs"
    if "m_userGroups r u = Some S" "set gs \<subseteq> S" for S gs
    using that(2)
  proof (induction gs)
    case (Cons g gs)
    with that(1) wf obtain x where "m_groups r g = Some x" and "GID x = g"
      by (fastforce simp: wf_repo_def)
    with Cons show ?case by (simp add: List.map_filter_simps)
  qed (simp add: List.map_filter_simps)
  moreover have "m_userGroups r u = Some S \<Longrightarrow> set gord \<subseteq> S" for S
    using assms(2) by (auto simp: members_def)
  moreover have "m_userGroups r u = None \<Longrightarrow> gord = []"
    using assms(2) by (auto simp: members_def)
  ultimately have "map GID (mem_GetUserGroups gord r u) = gord"
    by (auto simp: mem_GetUserGroups_def split: option.split)
  with members_apply [of op r] show ?thesis by blast
qed

theorem GetUserGroups_refines_members_witness:
  "map GID (mem_GetUserGroups [''g1''] small_repo ''u1'') = [''g1''] \<and>
   members (apply_op (OpDeleteGroup ''g1'') small_repo) = {}"
proof -
  have "m_groups small_repo ''g1'' = Some (staff\<lparr>GID := ''g1''\<rparr>)" by (simp add: small_repo_eq)
  with GetUserGroups_refines_members [OF small_repo_run, of "[''g1'']" "''u1''" "OpDeleteGroup ''g1''"]
  show ?thesis by (auto simp add: members_small_repo dom_def)
qed

section \<open>Pages\<close>

definition page_of :: "int \<Rightarrow> int \<Rightarrow> UserFilter" where
  "page_of p sz = \<lparr>FQuery = [], FStatus = [], FPage = p, FPageSize = sz, FSortBy = [], FSortOrder = []\<rparr>"

lemma ListUsers_page:
  assumes "0 < sz" and "Suc p * sz < 2 ^ 63"
  shows "\<exists>t. mem_ListUsers ord r (page_of (int (Suc p)) (int sz)) =
    Ok (take sz (drop (p * sz) (range_values ord (m_users r))), t)"
proof -
  let ?us = "range_values ord (m_users r)"
  have b: "int (p * sz) < 2 ^ 63" "int (p * sz) + int sz < 2 ^ 63" "int p < 2 ^ 63"
  proof -
    have "int (Suc p * sz) < int (2 ^ 63)" using assms(2) by (simp only: of_nat_less_iff)
    then show *: "int (p * sz) + int sz < 2 ^ 63" by (simp add: algebra_simps)
    then show "int (p * sz) < 2 ^ 63" by linarith
    have "int p * 1 \<le> int p * int sz" using assms(1) by (intro mult_left_mono) simp_all
    with * show "int p < 2 ^ 63" by simp
  qed
  have id: "go_int x = x" if "0 \<le> x" "x < 2 ^ 63" for x
    by (rule go_int_id) (use that in simp_all)
  have s: "go_int (go_int (int (Suc p) - 1) * int sz) = int (p * sz)"
    using id [OF _ b(1)] id [OF _ b(3)] by simp
  have e: "go_int (int (p * sz) + int sz) = int (p * sz) + int sz"
    by (rule id [OF _ b(2)]) simp
  define a where "a = p * sz"
  have "mem_ListUsers ord r (page_of (int (Suc p)) (int sz)) =
      (if int a > int (length ?us) then Ok ([], 0)
       else obind (go_slice_int ?us (int a)
              (if int a + int sz > int (length ?us) then int (length ?us) else int a + int sz))
             (\<lambda>us. Ok (us, int (length ?us))))"
    unfolding a_def by (simp only: mem_ListUsers_def page_of_def Let_def s e UserFilter.select_convs)
  also have "\<exists>t. \<dots> = Ok (take sz (drop a ?us), t)"
    by (auto simp: go_slice_int_def nat_diff_distrib nat_add_distrib)
  finally show ?thesis by (simp only: a_def)
qed


text \<open>
  Paging through the in-memory repository is complete and free of repetitions: with a positive page
  size, pages \<open>1\<close> to \<open>n\<close> all succeed, and put together they are the first \<open>n \<cdot> size\<close> users of the visiting
  order, each once.
\<close>

theorem ListUsers_pages:
  assumes "0 < sz" and "n * sz < 2 ^ 63"
  shows "\<exists>pages. map (\<lambda>p. mem_ListUsers ord r (page_of (int (Suc p)) (int sz))) [0..<n] = map Ok pages \<and>
    concat (map fst pages) = take (n * sz) (range_values ord (m_users r))"
  using assms(2)
proof (induction n)
  case (Suc n)
  then have "n * sz < 2 ^ 63" by simp
  with Suc.IH obtain pages where
    ps: "map (\<lambda>p. mem_ListUsers ord r (page_of (int (Suc p)) (int sz))) [0..<n] = map Ok pages"
    and cs: "concat (map fst pages) = take (n * sz) (range_values ord (m_users r))" by blast
  obtain t where t: "mem_ListUsers ord r (page_of (int (Suc n)) (int sz)) =
      Ok (take sz (drop (n * sz) (range_values ord (m_users r))), t)"
    using ListUsers_page [OF assms(1) Suc.prems] by blast
  have "take (Suc n * sz) xs = take (n * sz) xs @ take sz (drop (n * sz) xs)" for xs :: "User list"
    by (simp add: take_add [symmetric] add.commute)
  with ps cs t show ?case
    by (intro exI [of _ "pages @ [(take sz (drop (n * sz) (range_values ord (m_users r))), t)]"]) simp
qed simp

theorem ListUsers_pages_witness:
  "\<exists>pages. map (\<lambda>p. mem_ListUsers [''u1''] small_repo (page_of (int (Suc p)) 20)) [0..<2] = map Ok pages \<and>
    concat (map fst pages) = [alice\<lparr>UID := ''u1''\<rparr>]"
  using ListUsers_pages [of 20 2 "[''u1'']" small_repo]
  by (simp add: small_repo_eq range_values_def List.map_filter_simps)

text \<open>A page number below one and a positive size make the start of the slice negative.\<close>

lemma ListUsers_page_zero:
  assumes "0 < sz" and "sz < 2 ^ 63"
  shows "mem_ListUsers ord r (page_of 0 sz) = Panic"
proof -
  have "go_int (- sz) = - sz" by (rule go_int_id) (use assms in simp_all)
  moreover have "go_int (- 1) = - 1" by simp
  ultimately show ?thesis using assms(1)
    by (simp add: mem_ListUsers_def page_of_def Let_def go_slice_int_def)
qed

text \<open>The empty filter, page \<open>0\<close> of size \<open>0\<close>, selects nobody.\<close>

lemma ListUsers_empty_filter:
  "mem_ListUsers ord r (page_of 0 0) = Ok ([], int (length (range_values ord (m_users r))))"
  by (simp add: mem_ListUsers_def page_of_def Let_def go_slice_int_def)

end
