(* ===== verification/Field_Encryption.thy ===== *)
theory Field_Encryption
  imports Errors
begin

text \<open>
  Field-level encryption: the local key provider, \<^verbatim>\<open>pkg/kms/local/provider.go\<close>, and
  \<^verbatim>\<open>types.EncryptedString\<close>, \<^verbatim>\<open>pkg/types/encrypted.go\<close>, which encrypts a string on its way into
  the database and stores it in base64. The AES-256-GCM primitives are arguments: \<open>seal key nonce plaintext\<close>
  and \<open>open key nonce ciphertext\<close>, the latter \<^term>\<open>None\<close> when authentication fails. The random nonce is
  an argument of every encryption.
\<close>

section \<open>Base64 and hexadecimal\<close>

definition b64_alphabet :: string where
  "b64_alphabet = ''ABCDEFGHIJKLMNOPQRSTUVWXYZabcdefghijklmnopqrstuvwxyz0123456789+/''"

definition b64_char :: "nat \<Rightarrow> char" where
  "b64_char i = b64_alphabet ! i"

definition b64_val :: "char \<Rightarrow> nat option" where
  "b64_val c = find (\<lambda>i. b64_alphabet ! i = c) [0..<64]"

text \<open>\<^verbatim>\<open>base64.StdEncoding.EncodeToString\<close>: three bytes become four characters, with padding at the end.\<close>

fun b64_encode :: "bytes \<Rightarrow> string" where
  "b64_encode [] = []"
| "b64_encode [a] =
     [b64_char (unat a div 4), b64_char (unat a mod 4 * 16), CHR ''='', CHR ''='']"
| "b64_encode [a, b] =
     [b64_char (unat a div 4), b64_char (unat a mod 4 * 16 + unat b div 16),
      b64_char (unat b mod 16 * 4), CHR ''='']"
| "b64_encode (a # b # c # bs) =
     [b64_char (unat a div 4), b64_char (unat a mod 4 * 16 + unat b div 16),
      b64_char (unat b mod 16 * 4 + unat c div 64), b64_char (unat c mod 64)] @ b64_encode bs"

text \<open>
  \<^verbatim>\<open>base64.StdEncoding.DecodeString\<close>, without the line breaks it skips: padding may only end the
  input, and unused bits of the last character are dropped.
\<close>

definition b64_byte0 :: "nat \<Rightarrow> nat \<Rightarrow> byte" where "b64_byte0 v0 v1 = byte_of_nat (v0 * 4 + v1 div 16)"
definition b64_byte1 :: "nat \<Rightarrow> nat \<Rightarrow> byte" where "b64_byte1 v1 v2 = byte_of_nat (v1 mod 16 * 16 + v2 div 4)"
definition b64_byte2 :: "nat \<Rightarrow> nat \<Rightarrow> byte" where "b64_byte2 v2 v3 = byte_of_nat (v2 mod 4 * 64 + v3)"

fun b64_quads :: "string \<Rightarrow> bytes option" where
  "b64_quads [] = Some []"
| "b64_quads (c0 # c1 # c2 # c3 # cs) =
     (case (b64_val c0, b64_val c1) of
        (Some v0, Some v1) \<Rightarrow>
          (if c2 = CHR ''='' then
             (if c3 = CHR ''='' \<and> cs = [] then Some [b64_byte0 v0 v1] else None)
           else case b64_val c2 of
             None \<Rightarrow> None
           | Some v2 \<Rightarrow>
               (if c3 = CHR ''='' then
                  (if cs = [] then Some [b64_byte0 v0 v1, b64_byte1 v1 v2] else None)
                else case b64_val c3 of
                  None \<Rightarrow> None
                | Some v3 \<Rightarrow>
                    map_option (\<lambda>bs. b64_byte0 v0 v1 # b64_byte1 v1 v2 # b64_byte2 v2 v3 # bs) (b64_quads cs)))
      | _ \<Rightarrow> None)"
| "b64_quads _ = None"

definition b64_decode :: "string \<Rightarrow> bytes option" where
  "b64_decode s = b64_quads (filter (\<lambda>c. c \<noteq> CHR 0x0A \<and> c \<noteq> CHR 0x0D) s)"

definition hex_value :: "char \<Rightarrow> nat option" where
  "hex_value c =
     (let n = of_char c :: nat
      in if 48 \<le> n \<and> n \<le> 57 then Some (n - 48)
         else if 97 \<le> n \<and> n \<le> 102 then Some (n - 87)
         else if 65 \<le> n \<and> n \<le> 70 then Some (n - 55)
         else None)"

fun hex_decode :: "string \<Rightarrow> bytes option" where
  "hex_decode [] = Some []"
| "hex_decode [_] = None"
| "hex_decode (c # d # cs) =
     (case (hex_value c, hex_value d) of
        (Some x, Some y) \<Rightarrow> map_option ((#) (byte_of_nat (x * 16 + y))) (hex_decode cs)
      | _ \<Rightarrow> None)"

section \<open>The local key provider\<close>

record LocalProvider =
  kms_key :: bytes
  kms_keyID :: string

definition kms_New :: "string \<Rightarrow> (go_error, LocalProvider) outcome" where
  "kms_New keyHex =
     (case hex_decode keyHex of
        None \<Rightarrow> Fail (Wrapf ''failed to decode key hex'' (Errorf ''encoding/hex''))
      | Some key \<Rightarrow>
          if length key \<noteq> 32
          then Fail (Errorf ''invalid key length: expected 32 bytes (AES-256)'')
          else Ok \<lparr>kms_key = key, kms_keyID = ''v1''\<rparr>)"

type_synonym gcm_seal = "bytes \<Rightarrow> bytes \<Rightarrow> bytes \<Rightarrow> bytes"
type_synonym gcm_open = "bytes \<Rightarrow> bytes \<Rightarrow> bytes \<Rightarrow> bytes option"

text \<open>\<^verbatim>\<open>aes.NewCipher\<close> accepts keys of 16, 24 and 32 bytes; the nonce has 12 bytes.\<close>

definition aes_key_ok :: "bytes \<Rightarrow> bool" where
  "aes_key_ok k \<longleftrightarrow> length k \<in> {16, 24, 32}"

definition gcm_NonceSize :: nat where "gcm_NonceSize = 12"

definition kms_Encrypt ::
    "gcm_seal \<Rightarrow> LocalProvider \<Rightarrow> bytes \<Rightarrow> bytes \<Rightarrow> (go_error, bytes \<times> string) outcome" where
  "kms_Encrypt seal p nonce plaintext =
     (if \<not> aes_key_ok (kms_key p)
      then Fail (Wrapf ''failed to create cipher block'' (Errorf ''crypto/aes: invalid key size''))
      else Ok (nonce @ seal (kms_key p) nonce plaintext, kms_keyID p))"

definition kms_Decrypt ::
    "gcm_open \<Rightarrow> LocalProvider \<Rightarrow> bytes \<Rightarrow> (go_error, bytes) outcome" where
  "kms_Decrypt opn p ciphertext =
     (if \<not> aes_key_ok (kms_key p)
      then Fail (Wrapf ''failed to create cipher block'' (Errorf ''crypto/aes: invalid key size''))
      else if length ciphertext < gcm_NonceSize then Fail (Errorf ''ciphertext too short'')
      else case opn (kms_key p) (take gcm_NonceSize ciphertext) (drop gcm_NonceSize ciphertext) of
        None \<Rightarrow> Fail (Wrapf ''failed to decrypt'' (Errorf ''cipher: message authentication failed''))
      | Some plaintext \<Rightarrow> Ok plaintext)"

section \<open>Encrypted strings\<close>

text \<open>The driver value that is written for a string, and what reading a column gives.\<close>

definition Value :: "gcm_seal \<Rightarrow> LocalProvider option \<Rightarrow> bytes \<Rightarrow> string \<Rightarrow> (go_error, string) outcome" where
  "Value seal globalKMS nonce es =
     (case globalKMS of
        None \<Rightarrow> Fail (Errorf ''global KMS not initialized'')
      | Some p \<Rightarrow>
          if es = [] then Ok []
          else case kms_Encrypt seal p nonce (bytes_of es) of
            Fail err \<Rightarrow> Fail (Wrapf ''encryption failed'' err)
          | Panic \<Rightarrow> Panic
          | Ok (ciphertext, _) \<Rightarrow> Ok (b64_encode ciphertext))"

datatype db_value = DBNull | DBString string | DBBytes bytes | DBOther

definition Scan :: "gcm_open \<Rightarrow> LocalProvider option \<Rightarrow> db_value \<Rightarrow> (go_error, string) outcome" where
  "Scan opn globalKMS v =
     (case globalKMS of
        None \<Rightarrow> Fail (Errorf ''global KMS not initialized'')
      | Some p \<Rightarrow>
          (case (case v of DBNull \<Rightarrow> Ok [] | DBString t \<Rightarrow> Ok t | DBBytes b \<Rightarrow> Ok (string_of b)
                  | DBOther \<Rightarrow> Fail (Errorf ''failed to scan EncryptedString: unexpected type'')) of
             Fail e \<Rightarrow> Fail e
           | Panic \<Rightarrow> Panic
           | Ok text \<Rightarrow>
               if text = [] then Ok []
               else case b64_decode text of
                 None \<Rightarrow> Fail (Wrapf ''failed to decode base64 ciphertext'' (Errorf ''illegal base64 data''))
               | Some ciphertext \<Rightarrow>
                   (case kms_Decrypt opn p ciphertext of
                      Fail err \<Rightarrow> Fail (Wrapf ''decryption failed'' err)
                    | Panic \<Rightarrow> Panic
                    | Ok plaintext \<Rightarrow> Ok (string_of plaintext))))"

section \<open>Base64 round trip\<close>

lemma b64_alphabet_facts:
  "length b64_alphabet = 64" "distinct b64_alphabet"
  "CHR ''='' \<notin> set b64_alphabet" "CHR 0x0A \<notin> set b64_alphabet" "CHR 0x0D \<notin> set b64_alphabet"
  "CHR ''@'' \<notin> set b64_alphabet"
  by (simp_all add: b64_alphabet_def)

lemma b64_val_char: "i < 64 \<Longrightarrow> b64_val (b64_char i) = Some i"
  using b64_alphabet_facts(1,2)
  by (auto simp: b64_val_def b64_char_def find_Some_iff nth_eq_iff_index_eq intro!: exI [of _ i])

lemma b64_char_text:
  assumes "i < 64"
  shows "b64_char i \<noteq> CHR ''=''" "b64_char i \<noteq> CHR 0x0A" "b64_char i \<noteq> CHR 0x0D" "b64_char i \<noteq> CHR ''@''"
proof -
  have "b64_char i \<in> set b64_alphabet"
    using assms by (simp add: b64_char_def b64_alphabet_facts(1))
  then show "b64_char i \<noteq> CHR ''=''" "b64_char i \<noteq> CHR 0x0A" "b64_char i \<noteq> CHR 0x0D" "b64_char i \<noteq> CHR ''@''"
    using b64_alphabet_facts(3-6) by metis+
qed

lemma b64_index_bounds [simp]:
  "unat (a :: byte) div 4 < 64" "unat (a :: byte) mod 4 * 16 < 64"
  "unat (a :: byte) mod 4 * 16 + unat (b :: byte) div 16 < 64"
  "unat (b :: byte) mod 16 * 4 < 64"
  "unat (b :: byte) mod 16 * 4 + unat (c :: byte) div 64 < 64"
  using unat_byte_lt [of a] unat_byte_lt [of b] unat_byte_lt [of c] by linarith+

lemma b64_bytes [simp]:
  "b64_byte0 (unat a div 4) (unat a mod 4 * 16 + unat b div 16) = a"
  "b64_byte0 (unat a div 4) (unat a mod 4 * 16) = a"
  "b64_byte1 (unat a mod 4 * 16 + unat b div 16) (unat b mod 16 * 4 + unat c div 64) = b"
  "b64_byte1 (unat a mod 4 * 16 + unat b div 16) (unat b mod 16 * 4) = b"
  "b64_byte2 (unat b mod 16 * 4 + unat c div 64) (unat c mod 64) = c"
proof -
  have ab: "unat b div 16 < 16" "unat c div 64 < 4" using unat_byte_lt [of b] unat_byte_lt [of c] by linarith+
  have "unat a div 4 * 4 + (unat a mod 4 * 16 + unat b div 16) div 16 = unat a"
    using ab by (simp add: div_add1_eq)
  then show "b64_byte0 (unat a div 4) (unat a mod 4 * 16 + unat b div 16) = a" by (simp only: b64_byte0_def of_nat_unat_conv)
  show "b64_byte0 (unat a div 4) (unat a mod 4 * 16) = a" by (simp add: b64_byte0_def)
  have "(unat a mod 4 * 16 + unat b div 16) mod 16 * 16 + (unat b mod 16 * 4 + unat c div 64) div 4 = unat b"
    using ab by (simp add: mod_add_eq)
  then show "b64_byte1 (unat a mod 4 * 16 + unat b div 16) (unat b mod 16 * 4 + unat c div 64) = b"
    by (simp only: b64_byte1_def of_nat_unat_conv)
  have "(unat a mod 4 * 16 + unat b div 16) mod 16 * 16 + (unat b mod 16 * 4) div 4 = unat b"
    using ab by (simp add: mod_add_eq)
  then show "b64_byte1 (unat a mod 4 * 16 + unat b div 16) (unat b mod 16 * 4) = b"
    by (simp only: b64_byte1_def of_nat_unat_conv)
  have "(unat b mod 16 * 4 + unat c div 64) mod 4 * 64 + unat c mod 64 = unat c"
    using ab by (simp add: mod_add_eq)
  then show "b64_byte2 (unat b mod 16 * 4 + unat c div 64) (unat c mod 64) = c"
    by (simp only: b64_byte2_def of_nat_unat_conv)
qed

lemma b64_quads_encode: "b64_quads (b64_encode bs) = Some bs"
  by (induction bs rule: b64_encode.induct)
    (simp_all add: b64_val_char b64_char_text)

lemma b64_encode_text: "c \<in> set (b64_encode bs) \<Longrightarrow> c \<noteq> CHR 0x0A \<and> c \<noteq> CHR 0x0D \<and> c \<noteq> CHR ''@''"
  by (induction bs rule: b64_encode.induct) (auto simp: b64_char_text)

lemma b64_decode_encode [simp]: "b64_decode (b64_encode bs) = Some bs"
proof -
  have "filter (\<lambda>c. c \<noteq> CHR 0x0A \<and> c \<noteq> CHR 0x0D) (b64_encode bs) = b64_encode bs"
    using b64_encode_text by (auto intro!: filter_True)
  then show ?thesis by (simp add: b64_decode_def b64_quads_encode)
qed

section \<open>Reading back what was written\<close>

lemma b64_encode_eq_Nil [simp]: "b64_encode bs = [] \<longleftrightarrow> bs = []"
  by (cases bs rule: b64_encode.cases) simp_all

lemma kms_New_key: "kms_New keyHex = Ok p \<Longrightarrow> length (kms_key p) = 32"
  by (auto simp: kms_New_def split: option.splits if_splits)

lemma Value_column:
  assumes "Value seal (Some p) nonce es = Ok col" and "es \<noteq> []"
  shows "col = b64_encode (nonce @ seal (kms_key p) nonce (bytes_of es)) \<and> CHR ''@'' \<notin> set col"
  using assms b64_encode_text
  by (auto simp: Value_def kms_Encrypt_def split: if_splits outcome.splits)

text \<open>
  Field encryption loses nothing: with a provider made by \<^verbatim>\<open>New\<close> and a cipher whose \<^verbatim>\<open>Open\<close> undoes
  \<^verbatim>\<open>Seal\<close>, writing any string succeeds and reading the column back, as text or as bytes, returns it;
  base64 and the nonce prefix included. The column of a non-empty string never contains an \<open>@\<close>.
\<close>

theorem Scan_Value:
  assumes gcm: "\<forall>k n t. opn k n (seal k n t) = Some t"
    and "kms_New keyHex = Ok p" and "length nonce = gcm_NonceSize"
  shows "\<exists>col. Value seal (Some p) nonce es = Ok col \<and> Scan opn (Some p) (DBString col) = Ok es \<and>
    Scan opn (Some p) (DBBytes (bytes_of col)) = Ok es \<and> CHR ''@'' \<notin> set col"
proof (cases "es = []")
  case True
  then show ?thesis by (simp add: Value_def Scan_def)
next
  case False
  have key: "aes_key_ok (kms_key p)" using kms_New_key [OF assms(2)] by (simp add: aes_key_ok_def)
  let ?ct = "nonce @ seal (kms_key p) nonce (bytes_of es)"
  have v: "Value seal (Some p) nonce es = Ok (b64_encode ?ct)"
    using False key by (simp add: Value_def kms_Encrypt_def)
  have d: "kms_Decrypt opn p ?ct = Ok (bytes_of es)"
    using key assms(3) gcm by (simp add: kms_Decrypt_def)
  have "nonce \<noteq> []" using assms(3) by (auto simp: gcm_NonceSize_def)
  then have "Scan opn (Some p) (DBString (b64_encode ?ct)) = Ok es"
    and "Scan opn (Some p) (DBBytes (bytes_of (b64_encode ?ct))) = Ok es"
    using d by (simp_all add: Scan_def)
  with v Value_column [OF v False] show ?thesis by blast
qed

theorem Scan_Value_witness:
  "\<exists>col. Value (\<lambda>k n t. t) (Some \<lparr>kms_key = replicate 32 0, kms_keyID = ''v1''\<rparr>) (replicate 12 7) ''a@x'' = Ok col \<and>
    Scan (\<lambda>k n t. Some t) (Some \<lparr>kms_key = replicate 32 0, kms_keyID = ''v1''\<rparr>) (DBString col) = Ok ''a@x''"
proof -
  have "kms_New (replicate 64 CHR ''0'') = Ok \<lparr>kms_key = replicate 32 0, kms_keyID = ''v1''\<rparr>" by code_simp
  with Scan_Value [of "\<lambda>k n t. Some t" "\<lambda>k n t. t" "replicate 64 CHR ''0''"
      "\<lparr>kms_key = replicate 32 0, kms_keyID = ''v1''\<rparr>" "replicate 12 7" "''a@x''"]
  show ?thesis by (auto simp: gcm_NonceSize_def)
qed

end
