(* ===== verification/Identity_Postgres.thy ===== *)
theory Identity_Postgres
  imports Identity_Repository Field_Encryption
begin

text \<open>
  The methods of the PostgreSQL identity repository,
  \<^verbatim>\<open>internal/storage/postgresql/identity_repo.go\<close>, that the identity service calls for users. The
  object-relational mapper is an argument, the record \<^verbatim>\<open>gorm\<close>: \<open>g_first\<close> evaluates a condition on the
  columns of the stored rows and loads the first row that satisfies it, \<open>g_create\<close> inserts an object.
  A row holds the columns as they are stored: the e-mail column is the encrypted text.
\<close>

record user_row =
  col_user :: User
  col_email :: string

record 'd gorm =
  g_create :: "'d \<Rightarrow> User \<Rightarrow> (go_error, User) outcome \<times> 'd"
  g_first :: "'d \<Rightarrow> (user_row \<Rightarrow> bool) \<Rightarrow> (go_error, User) outcome"
  g_save :: "'d \<Rightarrow> User \<Rightarrow> (go_error, unit) outcome \<times> 'd"
  g_delete :: "'d \<Rightarrow> (user_row \<Rightarrow> bool) \<Rightarrow> (go_error, unit) outcome \<times> 'd"

definition gorm_ErrRecordNotFound :: go_error where
  "gorm_ErrRecordNotFound = Errorf ''record not found''"

definition pg_CreateUser :: "'d gorm \<Rightarrow> 'd \<Rightarrow> User \<Rightarrow> (go_error, User) outcome \<times> 'd" where
  "pg_CreateUser db d user = g_create db d user"

definition pg_GetUserByID :: "'d gorm \<Rightarrow> 'd \<Rightarrow> string \<Rightarrow> (go_error, User) outcome" where
  "pg_GetUserByID db d i = g_first db d (\<lambda>row. UID (col_user row) = i)"

definition pg_not_found :: "(go_error, User) outcome \<Rightarrow> (go_error, User) outcome" where
  "pg_not_found res =
     (case res of
        Fail err \<Rightarrow> Fail (if err = gorm_ErrRecordNotFound then ErrUserNotFound else err)
      | _ \<Rightarrow> res)"

definition pg_GetUserByUsername :: "'d gorm \<Rightarrow> 'd \<Rightarrow> string \<Rightarrow> (go_error, User) outcome" where
  "pg_GetUserByUsername db d username =
     pg_not_found (g_first db d (\<lambda>row. Username (col_user row) = username))"

definition pg_GetUserByEmail :: "'d gorm \<Rightarrow> 'd \<Rightarrow> string \<Rightarrow> (go_error, User) outcome" where
  "pg_GetUserByEmail db d email = pg_not_found (g_first db d (\<lambda>row. col_email row = email))"

definition pg_UpdateUser :: "'d gorm \<Rightarrow> 'd \<Rightarrow> User \<Rightarrow> (go_error, unit) outcome \<times> 'd" where
  "pg_UpdateUser db d user = g_save db d user"

definition pg_DeleteUser :: "'d gorm \<Rightarrow> 'd \<Rightarrow> string \<Rightarrow> (go_error, unit) outcome \<times> 'd" where
  "pg_DeleteUser db d i = g_delete db d (\<lambda>row. UID (col_user row) = i)"

definition pg_GetUserByExternalID :: "'d gorm \<Rightarrow> 'd \<Rightarrow> string \<Rightarrow> string \<Rightarrow> (go_error, User) outcome" where
  "pg_GetUserByExternalID db d externalID sourceID =
     pg_not_found (g_first db d (\<lambda>row. ExternalID (col_user row) = externalID \<and> SourceType (col_user row) = sourceID))"

text \<open>The listing query is not translated; \<open>lst\<close> stands for it.\<close>

definition pg_users ::
    "'d gorm \<Rightarrow> ('d \<Rightarrow> UserFilter \<Rightarrow> (go_error, User list \<times> int) outcome) \<Rightarrow> 'd UserRepository" where
  "pg_users db lst =
     \<lparr>ur_CreateUser = pg_CreateUser db, ur_GetUserByID = pg_GetUserByID db,
      ur_GetUserByUsername = pg_GetUserByUsername db, ur_GetUserByEmail = pg_GetUserByEmail db,
      ur_UpdateUser = pg_UpdateUser db, ur_DeleteUser = pg_DeleteUser db, ur_ListUsers = lst,
      ur_GetUserByExternalID = pg_GetUserByExternalID db\<rparr>"

section \<open>A table\<close>

text \<open>
  The mapper over a list of rows with the indexes that the struct tags of \<^verbatim>\<open>types.User\<close> declare: the
  identifier, the user name, the e-mail column and the external identity are unique. The e-mail column
  is written by \<^verbatim>\<open>EncryptedString.Value\<close>, with the nonces that the state holds.
\<close>

record table =
  t_rows :: "user_row list"
  t_nonces :: "nat \<Rightarrow> bytes"

definition row_clash :: "user_row \<Rightarrow> user_row \<Rightarrow> bool" where
  "row_clash a b \<longleftrightarrow> UID (col_user a) = UID (col_user b) \<or> Username (col_user a) = Username (col_user b) \<or>
     col_email a = col_email b \<or>
     (ExternalID (col_user a) = ExternalID (col_user b) \<and> SourceType (col_user a) = SourceType (col_user b))"

definition table_insert ::
    "gcm_seal \<Rightarrow> LocalProvider option \<Rightarrow> table \<Rightarrow> User \<Rightarrow> (go_error, User) outcome \<times> table" where
  "table_insert seal kms t user =
     (case Value seal kms (t_nonces t (length (t_rows t))) (Email user) of
        Panic \<Rightarrow> (Panic, t)
      | Fail e \<Rightarrow> (Fail e, t)
      | Ok col \<Rightarrow>
          (let row = \<lparr>col_user = user, col_email = col\<rparr>
           in if list_ex (row_clash row) (t_rows t)
              then (Fail (Errorf ''duplicate key value violates unique constraint''), t)
              else (Ok user, t\<lparr>t_rows := t_rows t @ [row]\<rparr>)))"

definition table_first :: "table \<Rightarrow> (user_row \<Rightarrow> bool) \<Rightarrow> (go_error, User) outcome" where
  "table_first t P =
     (case find P (t_rows t) of None \<Rightarrow> Fail gorm_ErrRecordNotFound | Some row \<Rightarrow> Ok (col_user row))"

definition table_delete :: "table \<Rightarrow> (user_row \<Rightarrow> bool) \<Rightarrow> (go_error, unit) outcome \<times> table" where
  "table_delete t P = (Ok (), t\<lparr>t_rows := filter (\<lambda>row. \<not> P row) (t_rows t)\<rparr>)"

definition table_save :: "gcm_seal \<Rightarrow> LocalProvider option \<Rightarrow> table \<Rightarrow> User \<Rightarrow> (go_error, unit) outcome \<times> table" where
  "table_save seal kms t user =
     (case Value seal kms (t_nonces t (length (t_rows t))) (Email user) of
        Panic \<Rightarrow> (Panic, t)
      | Fail e \<Rightarrow> (Fail e, t)
      | Ok col \<Rightarrow>
          (Ok (), t\<lparr>t_rows := filter (\<lambda>row. UID (col_user row) \<noteq> UID user) (t_rows t)
                @ [\<lparr>col_user = user, col_email = col\<rparr>]\<rparr>))"

definition table_gorm :: "gcm_seal \<Rightarrow> LocalProvider option \<Rightarrow> table gorm" where
  "table_gorm seal kms =
     \<lparr>g_create = table_insert seal kms, g_first = table_first, g_save = table_save seal kms,
      g_delete = table_delete\<rparr>"

section \<open>The contract\<close>

definition table_stored :: "table \<Rightarrow> User \<Rightarrow> bool" where
  "table_stored t u \<longleftrightarrow> u \<in> col_user ` set (t_rows t)"

lemma table_gorm_sel [simp]:
  "g_create (table_gorm seal kms) = table_insert seal kms" "g_first (table_gorm seal kms) = table_first"
  by (simp_all add: table_gorm_def)

lemma pg_users_sel [simp]:
  "ur_CreateUser (pg_users db lst) = g_create db"
  "ur_GetUserByUsername (pg_users db lst) = pg_GetUserByUsername db"
  "ur_GetUserByEmail (pg_users db lst) = pg_GetUserByEmail db"
  by (simp_all add: pg_users_def pg_CreateUser_def fun_eq_iff)

lemma pg_not_found_table:
  "pg_not_found (table_first t P) =
     (case find P (t_rows t) of None \<Rightarrow> Fail ErrUserNotFound | Some row \<Rightarrow> Ok (col_user row))"
  by (simp add: pg_not_found_def table_first_def split: option.split)

interpretation pg: reporting_repository "pg_users (table_gorm seal kms) lst" "\<lambda>_. True" table_stored
proof
  fix s u u' s' e n m
  show "ur_GetUserByUsername (pg_users (table_gorm seal kms) lst) s n = Ok u \<Longrightarrow> table_stored s u \<and> Username u = n"
    by (auto simp: pg_GetUserByUsername_def pg_not_found_table table_stored_def dest!: find_SomeD split: option.splits)
  show "table_stored s u \<Longrightarrow> \<exists>v. ur_GetUserByUsername (pg_users (table_gorm seal kms) lst) s (Username u) = Ok v"
    by (auto simp: pg_GetUserByUsername_def pg_not_found_table table_stored_def find_None_iff split: option.splits)
  show "ur_GetUserByUsername (pg_users (table_gorm seal kms) lst) s n \<noteq> Panic \<and>
      ur_GetUserByEmail (pg_users (table_gorm seal kms) lst) s m \<noteq> Panic"
    by (simp add: pg_GetUserByUsername_def pg_GetUserByEmail_def pg_not_found_table split: option.splits)
  show "ur_GetUserByUsername (pg_users (table_gorm seal kms) lst) s n = Fail e \<Longrightarrow> e = ErrUserNotFound"
    by (auto simp: pg_GetUserByUsername_def pg_not_found_table split: option.splits)
  show "ur_GetUserByEmail (pg_users (table_gorm seal kms) lst) s m = Fail e \<Longrightarrow> e = ErrUserNotFound"
    by (auto simp: pg_GetUserByEmail_def pg_not_found_table split: option.splits)
  show "ur_CreateUser (pg_users (table_gorm seal kms) lst) s u = (Fail e, s') \<Longrightarrow> s' = s"
    by (auto simp: table_insert_def Let_def split: outcome.splits if_splits)
  show "ur_CreateUser (pg_users (table_gorm seal kms) lst) s u = (Ok u', s') \<Longrightarrow>
      (\<exists>i. u' = u\<lparr>UID := i\<rparr>) \<and> (\<forall>v. table_stored s' v \<longleftrightarrow> table_stored s v \<or> v = u')"
    by (auto simp: table_insert_def table_stored_def Let_def split: outcome.splits if_splits
        intro: exI [of _ "UID u"])
qed

end
