(* ===== verification/Identity_Service.thy ===== *)
theory Identity_Service
  imports Identity_Memory Identity_Postgres
begin

text \<open>
  The identity service, \<^verbatim>\<open>internal/domain/identity/service.go\<close>, over any provider of the repository
  interfaces. Every method also takes and returns the store of the standard errors, which it writes
  through \<^verbatim>\<open>WithCause\<close> and \<^verbatim>\<open>WithDetails\<close>. The methods that call \<^verbatim>\<open>errors.Is\<close> return an option:
  \<^term>\<open>None\<close> is a call that does not return. The password hash (bcrypt) and the generated identifier
  are arguments; log lines have no effect on the result and are left out.
\<close>

type_synonym ('s, 'a) svc = "(go_error, 'a) outcome \<times> 's \<times> err_store"

definition fail_with :: "'s \<Rightarrow> go_error \<times> err_store \<Rightarrow> ('s, 'a) svc" where
  "fail_with s eh = (Fail (fst eh), s, snd eh)"

section \<open>Users\<close>

text \<open>The composite literal of \<^verbatim>\<open>CreateUser\<close>.\<close>

definition new_user :: "string \<Rightarrow> string \<Rightarrow> string \<Rightarrow> string \<Rightarrow> User" where
  "new_user i username email hashed =
     zero_user\<lparr>UID := i, Username := username, Email := email, Password := hashed, Status := UserStatusActive\<rparr>"

lemma new_user_UID [simp]: "(new_user i n e p)\<lparr>UID := j\<rparr> = new_user j n e p"
  by (simp add: new_user_def zero_user_def)

lemma Email_new_user [simp]: "Email (new_user i n e p) = e"
  by (simp add: new_user_def)

definition svc_CreateUser ::
    "'s UserRepository \<Rightarrow> (string \<Rightarrow> (go_error, string) outcome) \<Rightarrow> string \<Rightarrow> 's \<Rightarrow> err_store
      \<Rightarrow> string \<Rightarrow> string \<Rightarrow> string \<Rightarrow> ('s, User) svc option" where
  "svc_CreateUser users HashPassword uuid s h username email password =
     (if username = [] \<or> email = [] \<or> password = []
      then Some (fail_with s (WithDetails h ErrValidation
             [(''field'', ''username/email/password''), (''error'', ''cannot be empty'')]))
      else case ur_GetUserByUsername users s username of
        Panic \<Rightarrow> Some (Panic, s, h)
      | Ok _ \<Rightarrow> Some (fail_with s (WithDetails h ErrConflict [(''field'', ''username''), (''value'', username)]))
      | Fail err \<Rightarrow>
        (case errors_Is h err ErrUserNotFound of
           None \<Rightarrow> None
         | Some False \<Rightarrow> Some (fail_with s (WithCause h ErrInternal err))
         | Some True \<Rightarrow>
           (case ur_GetUserByEmail users s email of
              Panic \<Rightarrow> Some (Panic, s, h)
            | Ok _ \<Rightarrow> Some (fail_with s (WithDetails h ErrConflict [(''field'', ''email''), (''value'', email)]))
            | Fail err \<Rightarrow>
              (case errors_Is h err ErrUserNotFound of
                 None \<Rightarrow> None
               | Some False \<Rightarrow> Some (fail_with s (WithCause h ErrInternal err))
               | Some True \<Rightarrow>
                 (case HashPassword password of
                    Panic \<Rightarrow> Some (Panic, s, h)
                  | Fail err \<Rightarrow> Some (fail_with s (WithCause h ErrInternal err))
                  | Ok hashed \<Rightarrow>
                    (case ur_CreateUser users s
                        (new_user uuid username email hashed) of
                       (Panic, s') \<Rightarrow> Some (Panic, s', h)
                     | (Fail err, s') \<Rightarrow> Some (fail_with s' (WithCause h ErrInternal err))
                     | (Ok user, s') \<Rightarrow> Some (Ok user, s', h)))))))"

definition svc_GetUser :: "'s UserRepository \<Rightarrow> 's \<Rightarrow> err_store \<Rightarrow> string \<Rightarrow> ('s, User) svc" where
  "svc_GetUser users s h userID =
     (case ur_GetUserByID users s userID of
        Panic \<Rightarrow> (Panic, s, h)
      | Fail err \<Rightarrow> fail_with s (WithCauseDetails h ErrNotFound err [(''userID'', userID)])
      | Ok user \<Rightarrow> (Ok user, s, h))"

definition svc_ListUsers :: "'s UserRepository \<Rightarrow> 's \<Rightarrow> err_store \<Rightarrow> UserFilter \<Rightarrow> ('s, User list \<times> int) svc" where
  "svc_ListUsers users s h flt = (ur_ListUsers users s flt, s, h)"

definition svc_GetUserByID :: "'s UserRepository \<Rightarrow> 's \<Rightarrow> err_store \<Rightarrow> string \<Rightarrow> ('s, User) svc" where
  "svc_GetUserByID users s h userID =
     (case ur_GetUserByID users s userID of
        Panic \<Rightarrow> (Panic, s, h)
      | Fail err \<Rightarrow> fail_with s (WithCauseDetails h ErrNotFound err [(''userID'', userID)])
      | Ok user \<Rightarrow> (Ok user, s, h))"

definition svc_GetUserByUsername :: "'s UserRepository \<Rightarrow> 's \<Rightarrow> err_store \<Rightarrow> string \<Rightarrow> ('s, User) svc" where
  "svc_GetUserByUsername users s h username =
     (case ur_GetUserByUsername users s username of
        Panic \<Rightarrow> (Panic, s, h)
      | Fail err \<Rightarrow> fail_with s (WithCauseDetails h ErrNotFound err [(''username'', username)])
      | Ok user \<Rightarrow> (Ok user, s, h))"

definition svc_ChangeUserStatus ::
    "'s UserRepository \<Rightarrow> 's \<Rightarrow> err_store \<Rightarrow> string \<Rightarrow> UserStatus \<Rightarrow> ('s, unit) svc" where
  "svc_ChangeUserStatus users s h userID newStatus =
     (case ur_GetUserByID users s userID of
        Panic \<Rightarrow> (Panic, s, h)
      | Fail err \<Rightarrow> fail_with s (WithCauseDetails h ErrNotFound err [(''userID'', userID)])
      | Ok user \<Rightarrow>
          (case ur_UpdateUser users s (user\<lparr>Status := newStatus\<rparr>) of
             (Panic, s') \<Rightarrow> (Panic, s', h)
           | (Fail err, s') \<Rightarrow> fail_with s' (WithCause h ErrInternal err)
           | (Ok _, s') \<Rightarrow> (Ok (), s', h)))"

definition svc_UpdateUser :: "'s UserRepository \<Rightarrow> 's \<Rightarrow> err_store \<Rightarrow> User \<Rightarrow> ('s, unit) svc" where
  "svc_UpdateUser users s h user =
     (case ur_UpdateUser users s user of
        (Panic, s') \<Rightarrow> (Panic, s', h)
      | (Fail err, s') \<Rightarrow> fail_with s' (WithCause h ErrInternal err)
      | (Ok _, s') \<Rightarrow> (Ok (), s', h))"

definition svc_DeleteUser :: "'s UserRepository \<Rightarrow> 's \<Rightarrow> err_store \<Rightarrow> string \<Rightarrow> ('s, unit) svc option" where
  "svc_DeleteUser users s h userID =
     (case ur_DeleteUser users s userID of
        (Panic, s') \<Rightarrow> Some (Panic, s', h)
      | (Fail err, s') \<Rightarrow>
          (case errors_Is h err ErrNotFound of
             None \<Rightarrow> None
           | Some True \<Rightarrow> Some (fail_with s' (WithCauseDetails h ErrNotFound err [(''userID'', userID)]))
           | Some False \<Rightarrow> Some (fail_with s' (WithCause h ErrInternal err)))
      | (Ok _, s') \<Rightarrow> Some (Ok (), s', h))"

definition svc_GetUserByExternalID ::
    "'s UserRepository \<Rightarrow> 's \<Rightarrow> err_store \<Rightarrow> string \<Rightarrow> string \<Rightarrow> ('s, User) svc" where
  "svc_GetUserByExternalID users s h externalID sourceID =
     (case ur_GetUserByExternalID users s externalID sourceID of
        Panic \<Rightarrow> (Panic, s, h)
      | Fail err \<Rightarrow> fail_with s (WithCauseDetails h ErrNotFound err
                     [(''externalId'', externalID), (''sourceId'', sourceID)])
      | Ok user \<Rightarrow> (Ok user, s, h))"

section \<open>Groups\<close>

definition svc_GetUserGroups :: "'s GroupRepository \<Rightarrow> 's \<Rightarrow> err_store \<Rightarrow> string \<Rightarrow> ('s, UserGroup list) svc" where
  "svc_GetUserGroups grps s h userID =
     (case gr_GetUserGroups grps s userID of
        Panic \<Rightarrow> (Panic, s, h)
      | Fail err \<Rightarrow> fail_with s (WithCause h ErrInternal err)
      | Ok gs \<Rightarrow> (Ok gs, s, h))"

definition svc_AddUserToGroup ::
    "'s UserRepository \<Rightarrow> 's GroupRepository \<Rightarrow> 's \<Rightarrow> err_store \<Rightarrow> string \<Rightarrow> string \<Rightarrow> ('s, unit) svc" where
  "svc_AddUserToGroup users grps s h userID groupID =
     (case ur_GetUserByID users s userID of
        Panic \<Rightarrow> (Panic, s, h)
      | Fail err \<Rightarrow> fail_with s (WithCauseDetails h ErrNotFound err [(''user_id'', userID)])
      | Ok _ \<Rightarrow>
          (case gr_GetGroupByID grps s groupID of
             Panic \<Rightarrow> (Panic, s, h)
           | Fail err \<Rightarrow> fail_with s (WithCauseDetails h ErrNotFound err [(''group_id'', groupID)])
           | Ok _ \<Rightarrow>
               (case gr_AddUserToGroup grps s userID groupID of
                  (Panic, s') \<Rightarrow> (Panic, s', h)
                | (Fail err, s') \<Rightarrow> fail_with s' (WithCause h ErrInternal err)
                | (Ok _, s') \<Rightarrow> (Ok (), s', h))))"

definition svc_CreateGroup :: "'s GroupRepository \<Rightarrow> 's \<Rightarrow> err_store \<Rightarrow> UserGroup \<Rightarrow> ('s, UserGroup) svc" where
  "svc_CreateGroup grps s h grp =
     (case gr_CreateGroup grps s grp of
        (Panic, s') \<Rightarrow> (Panic, s', h)
      | (Fail err, s') \<Rightarrow> fail_with s' (WithCause h ErrInternal err)
      | (Ok g, s') \<Rightarrow> (Ok g, s', h))"

definition svc_GetGroup :: "'s GroupRepository \<Rightarrow> 's \<Rightarrow> err_store \<Rightarrow> string \<Rightarrow> ('s, UserGroup) svc" where
  "svc_GetGroup grps s h groupID =
     (case gr_GetGroupByID grps s groupID of
        Panic \<Rightarrow> (Panic, s, h)
      | Fail err \<Rightarrow> fail_with s (WithCauseDetails h ErrNotFound err [(''groupID'', groupID)])
      | Ok g \<Rightarrow> (Ok g, s, h))"

definition svc_UpdateGroup :: "'s GroupRepository \<Rightarrow> 's \<Rightarrow> err_store \<Rightarrow> UserGroup \<Rightarrow> ('s, unit) svc" where
  "svc_UpdateGroup grps s h grp =
     (case gr_UpdateGroup grps s grp of
        (Panic, s') \<Rightarrow> (Panic, s', h)
      | (Fail err, s') \<Rightarrow> fail_with s' (WithCause h ErrInternal err)
      | (Ok _, s') \<Rightarrow> (Ok (), s', h))"

definition svc_DeleteGroup :: "'s GroupRepository \<Rightarrow> 's \<Rightarrow> err_store \<Rightarrow> string \<Rightarrow> ('s, unit) svc" where
  "svc_DeleteGroup grps s h groupID =
     (case gr_DeleteGroup grps s groupID of
        (Panic, s') \<Rightarrow> (Panic, s', h)
      | (Fail err, s') \<Rightarrow> fail_with s' (WithCause h ErrInternal err)
      | (Ok _, s') \<Rightarrow> (Ok (), s', h))"

definition svc_ListGroups :: "'s GroupRepository \<Rightarrow> 's \<Rightarrow> err_store \<Rightarrow> int \<Rightarrow> int \<Rightarrow> ('s, UserGroup list) svc" where
  "svc_ListGroups grps s h off limit =
     (case gr_ListGroups grps s \<lparr>POffset = off, PPageSize = limit\<rparr> of
        Panic \<Rightarrow> (Panic, s, h)
      | Fail err \<Rightarrow> fail_with s (WithCause h ErrInternal err)
      | Ok gs \<Rightarrow> (Ok gs, s, h))"

section \<open>Creating a user\<close>

lemma errors_Is_Errorf [simp]: "errors_Is h (Errorf m) (Sentinel c) = Some False"
  by (subst errors_Is.simps) simp

lemma errors_Is_self [simp]: "errors_Is h e e = Some True"
  by (subst errors_Is.simps) simp

lemma fail_with_std [simp]:
  "fail_with s (WithDetails h e d) = (Fail e, s, snd (WithDetails h e d))"
  "fail_with s (WithCause h e c) = (Fail e, s, snd (WithCause h e c))"
  "fail_with s (WithCauseDetails h e c d) = (Fail e, s, snd (WithCauseDetails h e c d))"
  by (simp_all add: fail_with_def)

text \<open>Clients of the repository contract.\<close>

context user_repository
begin

lemma CreateUser_run:
  assumes "svc_CreateUser repo hash uuid s h username email password = Some (Ok u, s', h')"
  obtains e1 e2 hp where "ur_GetUserByUsername repo s username = Fail e1"
    and "ur_GetUserByEmail repo s email = Fail e2" and "hash password = Ok hp"
    and "ur_CreateUser repo s (new_user uuid username email hp) = (Ok u, s')" and "h' = h"
  using assms
  by (auto simp: svc_CreateUser_def fail_with_def
      split: if_splits outcome.splits option.splits bool.splits prod.splits)

lemma CreateUser_returns_stored:
  assumes "inv s" and "svc_CreateUser repo hash uuid s h username email password = Some (Ok u, s', h')"
  shows "\<exists>i hp. hash password = Ok hp \<and> u = new_user i username email hp \<and>
      (\<forall>v. stored s' v \<longleftrightarrow> stored s v \<or> v = u) \<and> (\<forall>v. stored s v \<longrightarrow> Username v \<noteq> username) \<and> h' = h"
proof (rule CreateUser_run [OF assms(2)])
  fix e1 e2 hp
  assume n: "ur_GetUserByUsername repo s username = Fail e1" and hp: "hash password = Ok hp"
    and c: "ur_CreateUser repo s (new_user uuid username email hp) = (Ok u, s')" and h: "h' = h"
  have "stored s v \<longrightarrow> Username v \<noteq> username" for v
    using name_complete [OF assms(1), of v] n by auto
  with create_Ok [OF assms(1) c] hp h show ?thesis by auto
qed

lemma CreateUser_conflict:
  assumes "inv s" and "stored s v" and "Username v = username"
    and "username \<noteq> []" and "email \<noteq> []" and "password \<noteq> []"
  shows "\<exists>h'. svc_CreateUser repo hash uuid s h username email password = Some (Fail ErrConflict, s, h')"
  using name_complete [OF assms(1,2)] assms(3-6) by (auto simp: svc_CreateUser_def)

end

context reporting_repository
begin

text \<open>When neither lookup finds a user, the service goes on to hash the password and to create the user.\<close>

lemma CreateUser_new:
  assumes "inv s" and "username \<noteq> []" and "email \<noteq> []" and "password \<noteq> []"
    and "\<forall>v. stored s v \<longrightarrow> Username v \<noteq> username"
    and "\<forall>v. ur_GetUserByEmail repo s email \<noteq> Ok v"
    and "hash password = Ok hp"
  shows "svc_CreateUser repo hash uuid s h username email password =
    Some (case ur_CreateUser repo s (new_user uuid username email hp) of
            (Panic, s') \<Rightarrow> (Panic, s', h)
          | (Fail err, s') \<Rightarrow> (Fail ErrInternal, s', snd (WithCause h ErrInternal err))
          | (Ok u, s') \<Rightarrow> (Ok u, s', h))"
proof -
  obtain e1 where e1: "ur_GetUserByUsername repo s username = Fail e1"
    using name_sound [OF assms(1)] no_panic [OF assms(1)] assms(5) by (metis outcome.exhaust)
  obtain e2 where e2: "ur_GetUserByEmail repo s email = Fail e2"
    using no_panic [OF assms(1)] assms(6) by (metis outcome.exhaust)
  from e1 e2 have "e1 = ErrUserNotFound" "e2 = ErrUserNotFound"
    using name_missing [OF assms(1)] email_missing [OF assms(1)] by blast+
  with e1 e2 assms show ?thesis
    by (simp add: svc_CreateUser_def split: prod.split outcome.split)
qed

end

text \<open>
  Over the in-memory repository, which reports a missing user with an ordinary error and not with
  \<^verbatim>\<open>ErrUserNotFound\<close>, the service can create no user: \<^verbatim>\<open>CreateUser\<close> always returns one of three
  errors and leaves the repository as it is, and for a new name the error is \<^verbatim>\<open>ErrInternal\<close>.
\<close>

theorem CreateUser_over_memory_fails:
  "\<exists>e h'. svc_CreateUser (memory_users ord uuid) hash uuid' r h username email password = Some (Fail e, r, h') \<and>
    e \<in> {ErrValidation, ErrConflict, ErrInternal} \<and>
    (username \<noteq> [] \<and> email \<noteq> [] \<and> password \<noteq> [] \<and> username \<notin> Username ` ran (m_users r) \<longrightarrow> e = ErrInternal)"
proof -
  have "mem_GetUserByUsername (ord ''GetUserByUsername'') r username
      = Fail (user_not_found ''username'' username []) \<or>
      (\<exists>u \<in> ran (m_users r). Username u = username \<and>
        mem_GetUserByUsername (ord ''GetUserByUsername'') r username = Ok u)"
    by (auto simp: mem_GetUserByUsername_def range_values_def List.map_filter_def ran_def image_iff
        dest!: find_SomeD split: option.split) blast
  then show ?thesis
    by (auto simp: svc_CreateUser_def user_not_found_def ErrUserNotFound_def)
qed

theorem CreateUser_over_memory_fails_witness:
  "\<exists>h'. svc_CreateUser (memory_users (\<lambda>_. []) ''u1'') (\<lambda>p. Ok p) ''u0'' NewIdentityMemoryRepository initial_errors
     ''bob'' ''b@x'' ''pw'' = Some (Fail ErrInternal, NewIdentityMemoryRepository, h')"
  using CreateUser_over_memory_fails [of "\<lambda>_. []" "''u1''" "\<lambda>p. Ok p" "''u0''" NewIdentityMemoryRepository
      initial_errors "''bob''" "''b@x''" "''pw''"]
  by (auto simp: NewIdentityMemoryRepository_def)

section \<open>Users over PostgreSQL\<close>

text \<open>Every stored e-mail column has been written by \<^verbatim>\<open>EncryptedString.Value\<close>.\<close>

definition encrypted_table :: "table \<Rightarrow> bool" where
  "encrypted_table t \<longleftrightarrow> (\<forall>row \<in> set (t_rows t). CHR ''@'' \<notin> set (col_email row))"

lemma encrypted_table_insert:
  assumes "encrypted_table t"
  shows "encrypted_table (snd (table_insert seal (Some p) t u))"
proof (cases "Email u = []")
  case True
  then show ?thesis using assms
    by (auto simp: table_insert_def Value_def encrypted_table_def Let_def)
next
  case False
  then show ?thesis using assms Value_column [OF _ False]
    by (auto simp: table_insert_def encrypted_table_def Let_def split: outcome.split)
qed

lemma GetUserByEmail_encrypted:
  assumes "encrypted_table t" and "CHR ''@'' \<in> set email"
  shows "pg_GetUserByEmail (table_gorm seal kms) t email = Fail ErrUserNotFound"
proof -
  have "find (\<lambda>row. col_email row = email) (t_rows t) = None"
    using assms by (auto simp: find_None_iff encrypted_table_def)
  then show ?thesis by (simp add: pg_GetUserByEmail_def pg_not_found_table)
qed

text \<open>A user without an external identity, as the service creates them.\<close>

definition local_user :: "User \<Rightarrow> bool" where
  "local_user u \<longleftrightarrow> ExternalID u = [] \<and> SourceType u = []"

text \<open>
  Over PostgreSQL, for a new user name, a fresh identifier and a fresh nonce, the service creates the
  user exactly when the table holds no other user without an external identity: the unique index over
  external identity and source type admits a single such row, so every later creation ends in
  \<^verbatim>\<open>ErrInternal\<close>. The e-mail address plays no part: it is compared with the encrypted column, and a
  second user may have the address of an existing one.
\<close>

theorem CreateUser_over_postgres:
  assumes "kms_New keyHex = Ok p" and "hash password = Ok hp"
    and "username \<noteq> []" and "password \<noteq> []" and "CHR ''@'' \<in> set email"
    and "encrypted_table t"
    and "\<forall>row \<in> set (t_rows t). Username (col_user row) \<noteq> username \<and> UID (col_user row) \<noteq> uuid"
    and "Value seal (Some p) (t_nonces t (length (t_rows t))) email = Ok col"
    and "\<forall>row \<in> set (t_rows t). col_email row \<noteq> col"
  shows "svc_CreateUser (pg_users (table_gorm seal (Some p)) lst) hash uuid t h username email password =
    Some (if \<exists>row \<in> set (t_rows t). local_user (col_user row)
          then (Fail ErrInternal, t,
                snd (WithCause h ErrInternal (Errorf ''duplicate key value violates unique constraint'')))
          else (Ok (new_user uuid username email hp),
                t\<lparr>t_rows := t_rows t @ [\<lparr>col_user = new_user uuid username email hp, col_email = col\<rparr>]\<rparr>, h))"
proof -
  have names: "\<forall>v. table_stored t v \<longrightarrow> Username v \<noteq> username"
    using assms(7) by (auto simp: table_stored_def)
  have mail: "\<forall>v. ur_GetUserByEmail (pg_users (table_gorm seal (Some p)) lst) t email \<noteq> Ok v"
    using GetUserByEmail_encrypted [OF assms(6,5)] by simp
  have "email \<noteq> []" using assms(5) by auto
  note run = pg.CreateUser_new [OF TrueI assms(3) this assms(4) names mail, of hash hp uuid h]
  have clash: "list_ex (row_clash \<lparr>col_user = new_user uuid username email hp, col_email = col\<rparr>) (t_rows t)
      \<longleftrightarrow> (\<exists>row \<in> set (t_rows t). local_user (col_user row))"
  proof -
    have "row_clash \<lparr>col_user = new_user uuid username email hp, col_email = col\<rparr> row \<longleftrightarrow> local_user (col_user row)"
      if "row \<in> set (t_rows t)" for row
      using assms(7,9) that by (fastforce simp: row_clash_def local_user_def new_user_def zero_user_def)
    then show ?thesis by (auto simp: list_ex_iff)
  qed
  have "table_insert seal (Some p) t (new_user uuid username email hp) =
      (if \<exists>row \<in> set (t_rows t). local_user (col_user row)
       then (Fail (Errorf ''duplicate key value violates unique constraint''), t)
       else (Ok (new_user uuid username email hp),
             t\<lparr>t_rows := t_rows t @ [\<lparr>col_user = new_user uuid username email hp, col_email = col\<rparr>]\<rparr>))"
    using assms(8) clash by (simp add: table_insert_def Let_def)
  with run assms(2) show ?thesis by simp
qed

definition demo_kms :: LocalProvider where
  "demo_kms = \<lparr>kms_key = replicate 32 0, kms_keyID = ''v1''\<rparr>"

definition demo_row :: user_row where
  "demo_row = \<lparr>col_user = new_user ''u1'' ''alice'' ''a@x'' ''h'', col_email = ''AAAA''\<rparr>"

theorem CreateUser_over_postgres_witness:
  "svc_CreateUser (pg_users (table_gorm (\<lambda>k n t. t) (Some demo_kms)) (\<lambda>_ _. Ok ([], 0))) Ok ''u2''
      \<lparr>t_rows = [demo_row], t_nonces = (\<lambda>_. replicate 12 7)\<rparr> initial_errors ''bob'' ''b@x'' ''pw'' =
    Some (Fail ErrInternal, \<lparr>t_rows = [demo_row], t_nonces = (\<lambda>_. replicate 12 7)\<rparr>,
      snd (WithCause initial_errors ErrInternal (Errorf ''duplicate key value violates unique constraint'')))"
proof -
  have key: "kms_New (replicate 64 CHR ''0'') = Ok demo_kms" unfolding demo_kms_def by code_simp
  obtain col where v: "Value (\<lambda>k n t. t) (Some demo_kms) (replicate 12 7) ''b@x'' = Ok col"
    and c: "col = b64_encode (replicate 12 7 @ bytes_of ''b@x'')"
    by (simp add: Value_def kms_Encrypt_def demo_kms_def aes_key_ok_def)
  have "length col \<noteq> 4" unfolding c by code_simp
  then have "''AAAA'' \<noteq> col" by auto
  moreover have "Username (col_user demo_row) = ''alice''" "UID (col_user demo_row) = ''u1''"
    "col_email demo_row = ''AAAA''" "local_user (col_user demo_row)"
    by (simp_all add: demo_row_def new_user_def zero_user_def local_user_def)
  ultimately show ?thesis
    using v CreateUser_over_postgres [OF key, of Ok "''pw''" "''pw''" "''bob''" "''b@x''"
      "\<lparr>t_rows = [demo_row], t_nonces = (\<lambda>_. replicate 12 7)\<rparr>" "''u2''" "\<lambda>k n t. t" col
      "\<lambda>_ _. Ok ([], 0)" initial_errors]
    by (simp add: encrypted_table_def)
qed

end
