(* ===== verification/Auth_Service.thy ===== *)
theory Auth_Service
  imports Auth_Memory Identity_Service
begin

text \<open>
  The authentication service, \<^verbatim>\<open>internal/domain/auth/service.go\<close>: password login, the second step of
  a multi-factor login, logout, refresh-token rotation and revocation. Its collaborators are the fields
  of \<^verbatim>\<open>AuthService\<close>: the identity service's lookups, the session and token repository, the family
  repository (an interface value that may be nil), password check and tokens (bcrypt, JWT), the risk
  engine and the policy engine. \<open>clock\<close> and \<open>fresh\<close> give the readings of the clock and the
  generated identifiers of one call, numbered by call site. The audit entries that a call hands to goroutines are collected
  in the world; a goroutine runs later, and panics when the audit repository is nil.
\<close>

record Config =
  AccessTokenDuration :: int
  RefreshTokenDuration :: int
  SessionDuration :: int

record AuthnRequest =
  RUsername :: string
  RPassword :: string
  RIPAddress :: string
  RDeviceFingerprint :: string
  RIsKnownDevice :: bool

record VerifyMFARequest =
  VChallengeID :: string
  VCode :: string
  VUserID :: string

record AuthContext =
  AcUserID :: string
  AcIPAddress :: string
  AcUserAgent :: string
  AcAcceptLanguage :: string
  AcTimestamp :: time
  AcDeviceFingerprint :: string
  AcIsKnownDevice :: bool

type_synonym RiskLevel = string

record ('s, 'f) AuthService =
  as_GetUserByUsername :: "err_store \<Rightarrow> string \<Rightarrow> (go_error, User) outcome \<times> err_store"
  as_GetUserByID :: "err_store \<Rightarrow> string \<Rightarrow> (go_error, User) outcome \<times> err_store"
  as_repo :: "'s AuthRepo"
  as_families :: "'f FamilyRepo option"
  as_CheckPasswordHash :: "string \<Rightarrow> string \<Rightarrow> bool"
  as_GenerateJWT :: "string \<Rightarrow> int \<Rightarrow> (go_error, string) outcome"
  as_ValidateJWT :: "string \<Rightarrow> (go_error, gmap) outcome"
  as_risk :: "AuthContext \<Rightarrow> (go_error, RiskLevel) outcome"
  as_Decide :: "RiskLevel \<Rightarrow> AuthContext \<Rightarrow> string"

record ('s, 'f) world =
  w_repo :: 's
  w_families :: 'f
  w_errs :: err_store
  w_spawned :: "AuditLog list"

type_synonym ('s, 'f, 'a) run = "(go_error, 'a) outcome \<times> ('s, 'f) world"

definition fail_cause :: "('s, 'f) world \<Rightarrow> go_error \<Rightarrow> go_error \<Rightarrow> ('s, 'f, 'a) run" where
  "fail_cause w e c = (let (e', h) = WithCause (w_errs w) e c in (Fail e', w\<lparr>w_errs := h\<rparr>))"

section \<open>Audit goroutines\<close>

definition auth_log :: "string \<Rightarrow> time \<Rightarrow> string \<Rightarrow> string \<Rightarrow> string \<Rightarrow> (string \<times> gvalue) list \<Rightarrow> AuditLog" where
  "auth_log uuid now userID action status ctx =
     \<lparr>LogID = uuid, LogUserID = [], LogActorID = userID, LogAction = action,
      LogResource = ''user:'' @ userID, LogStatus = status, LogContext = ctx, LogTimestamp = now,
      LogIPAddress = [], LogUserAgent = []\<rparr>"

definition logAuthSuccess :: "string \<Rightarrow> time \<Rightarrow> string \<Rightarrow> string \<Rightarrow> ('s, 'f) world \<Rightarrow> ('s, 'f) world" where
  "logAuthSuccess uuid now userID mth w =
     w\<lparr>w_spawned := w_spawned w @
        [auth_log uuid now userID ''user.login.success'' ''success'' [(''method'', VString mth)]]\<rparr>"

definition logAuthFailure :: "string \<Rightarrow> time \<Rightarrow> string \<Rightarrow> string \<Rightarrow> string \<Rightarrow> ('s, 'f) world \<Rightarrow> ('s, 'f) world" where
  "logAuthFailure uuid now userID mth reason w =
     w\<lparr>w_spawned := w_spawned w @
        [auth_log uuid now userID ''user.login.failure'' ''failure''
           [(''method'', VString mth), (''reason'', VString reason)]]\<rparr>"

text \<open>What a goroutine does when it is scheduled: \<open>auditRepo\<close> is the repository's \<^verbatim>\<open>CreateLogEntry\<close>, if there is one.\<close>

definition audit_goroutine :: "('r \<Rightarrow> AuditLog \<Rightarrow> 'r) option \<Rightarrow> 'r \<Rightarrow> AuditLog \<Rightarrow> (go_error, 'r) outcome" where
  "audit_goroutine auditRepo r entry =
     (case auditRepo of None \<Rightarrow> Panic | Some CreateLogEntry \<Rightarrow> Ok (CreateLogEntry r entry))"

section \<open>Login\<close>

definition createSessionAndTokens ::
    "('s, 'f) AuthService \<Rightarrow> (nat \<Rightarrow> time) \<Rightarrow> (nat \<Rightarrow> string) \<Rightarrow> Config \<Rightarrow> ('s, 'f) world \<Rightarrow> User
      \<Rightarrow> ('s, 'f, AuthResult) run" where
  "createSessionAndTokens svc clock fresh cfg w user =
     (case as_GenerateJWT svc (UID user) (AccessTokenDuration cfg) of
        Panic \<Rightarrow> (Panic, w)
      | Fail err \<Rightarrow> fail_cause w ErrInternal err
      | Ok accessToken \<Rightarrow>
          (let refreshToken = fresh 0
           in case tr_StoreRefreshToken (as_repo svc) (w_repo w) refreshToken (UID user) (RefreshTokenDuration cfg) of
                (Panic, s) \<Rightarrow> (Panic, w\<lparr>w_repo := s\<rparr>)
              | (Fail err, s) \<Rightarrow> fail_cause (w\<lparr>w_repo := s\<rparr>) ErrInternal err
              | (Ok _, s) \<Rightarrow>
                  (let session = \<lparr>SID = fresh 1, SUserID = UID user, SIPAddress = [], SUserAgent = [],
                                  SCreatedAt = clock 0, SExpiresAt = clock 1 + SessionDuration cfg,
                                  SDeviceFingerprint = [], SLastRotatedAt = 0\<rparr>
                   in case sr_CreateSession (as_repo svc) s session (SessionDuration cfg) of
                        (Panic, s') \<Rightarrow> (Panic, w\<lparr>w_repo := s'\<rparr>)
                      | (Fail err, s') \<Rightarrow> fail_cause (w\<lparr>w_repo := s'\<rparr>) ErrInternal err
                      | (Ok _, s') \<Rightarrow>
                          (Ok \<lparr>ResSession = Some session,
                               ResToken = Some \<lparr>AccessToken = accessToken, RefreshToken = refreshToken,
                                 TokenType = ''Bearer'', ExpiresIn = whole_seconds (AccessTokenDuration cfg),
                                 IDToken = []\<rparr>,
                               ResUser = Some user, ResMFAChallenge = None, ResIsMfaRequired = False\<rparr>,
                           logAuthSuccess (fresh 2) (clock 2) (UID user) ''login_password''
                             (w\<lparr>w_repo := s'\<rparr>)))))"

definition LoginWithPassword ::
    "('s, 'f) AuthService \<Rightarrow> (nat \<Rightarrow> time) \<Rightarrow> (nat \<Rightarrow> string) \<Rightarrow> Config \<Rightarrow> ('s, 'f) world \<Rightarrow> AuthnRequest
      \<Rightarrow> ('s, 'f, AuthResult) run" where
  "LoginWithPassword svc clock fresh cfg w req =
     (case as_GetUserByUsername svc (w_errs w) (RUsername req) of
        (Panic, h) \<Rightarrow> (Panic, w\<lparr>w_errs := h\<rparr>)
      | (Fail err, h) \<Rightarrow> fail_cause (w\<lparr>w_errs := h\<rparr>) ErrInvalidCredentials err
      | (Ok user, h) \<Rightarrow>
          (let w1 = w\<lparr>w_errs := h\<rparr>
           in if Status user \<noteq> UserStatusActive
              then (Fail ErrUserDisabled,
                    logAuthFailure (fresh 0) (clock 0) (UID user) ''login_password'' ''user_not_active'' w1)
              else if \<not> as_CheckPasswordHash svc (RPassword req) (Password user)
              then (Fail ErrInvalidCredentials,
                    logAuthFailure (fresh 0) (clock 0) (UID user) ''login_password'' ''invalid_password'' w1)
              else
                (let ac = \<lparr>AcUserID = UID user, AcIPAddress = RIPAddress req, AcUserAgent = [], AcAcceptLanguage = [],
                           AcTimestamp = clock 3, AcDeviceFingerprint = [], AcIsKnownDevice = RIsKnownDevice req\<rparr>
                 in case as_risk svc ac of
                      Panic \<Rightarrow> (Panic, w1)
                    | Fail err \<Rightarrow> fail_cause w1 ErrInternal err
                    | Ok level \<Rightarrow>
                        (if as_Decide svc level ac = ''REQUIRE_MFA''
                         then (Ok \<lparr>ResSession = None, ResToken = None, ResUser = Some user,
                                   ResMFAChallenge = Some \<lparr>MFAProvider = ''totp'',
                                     ChallengeID = ''challenge-id-placeholder'', ChOptions = None\<rparr>,
                                   ResIsMfaRequired = True\<rparr>, w1)
                         else createSessionAndTokens svc clock fresh cfg w1 user))))"

definition VerifyMFAChallenge ::
    "('s, 'f) AuthService \<Rightarrow> (nat \<Rightarrow> time) \<Rightarrow> (nat \<Rightarrow> string) \<Rightarrow> Config \<Rightarrow> ('s, 'f) world \<Rightarrow> VerifyMFARequest
      \<Rightarrow> ('s, 'f, AuthResult) run" where
  "VerifyMFAChallenge svc clock fresh cfg w req =
     (case as_GetUserByID svc (w_errs w) (VUserID req) of
        (Panic, h) \<Rightarrow> (Panic, w\<lparr>w_errs := h\<rparr>)
      | (Fail err, h) \<Rightarrow> fail_cause (w\<lparr>w_errs := h\<rparr>) ErrInvalidCredentials err
      | (Ok user, h) \<Rightarrow> createSessionAndTokens svc clock fresh cfg (w\<lparr>w_errs := h\<rparr>) user)"

section \<open>Logout, rotation, revocation\<close>

text \<open>The claims \<^verbatim>\<open>jti\<close> and \<^verbatim>\<open>exp\<close>, with the zero value when they are absent or of another type.\<close>

definition claim_jti :: "gmap \<Rightarrow> string" where
  "claim_jti claims = (case claims ''jti'' of Some (VString s) \<Rightarrow> s | _ \<Rightarrow> [])"

definition claim_exp :: "gmap \<Rightarrow> int" where
  "claim_exp claims = (case claims ''exp'' of Some (VInt n) \<Rightarrow> n | _ \<Rightarrow> 0)"

definition deny_token ::
    "('s, 'f) AuthService \<Rightarrow> (nat \<Rightarrow> time) \<Rightarrow> ('s, 'f) world \<Rightarrow> gmap \<Rightarrow> (go_error, unit) outcome \<times> 's" where
  "deny_token svc clock w claims =
     tr_AddToDenyList (as_repo svc) (w_repo w) (clock 1) (claim_jti claims)
       (claim_exp claims * 1000000000 - clock 0)"

definition Logout ::
    "('s, 'f) AuthService \<Rightarrow> (nat \<Rightarrow> time) \<Rightarrow> ('s, 'f) world \<Rightarrow> string \<Rightarrow> string \<Rightarrow> ('s, 'f, unit) run" where
  "Logout svc clock w sessionID accessToken =
     (case sr_DeleteSession (as_repo svc) (w_repo w) sessionID of
        (Panic, s) \<Rightarrow> (Panic, w\<lparr>w_repo := s\<rparr>)
      | (_, s) \<Rightarrow>
          (let w1 = w\<lparr>w_repo := s\<rparr>
           in case as_ValidateJWT svc accessToken of
                Panic \<Rightarrow> (Panic, w1)
              | Fail err \<Rightarrow> fail_cause w1 ErrInvalidToken err
              | Ok claims \<Rightarrow>
                  (case deny_token svc clock w1 claims of
                     (Panic, s') \<Rightarrow> (Panic, w1\<lparr>w_repo := s'\<rparr>)
                   | (Fail err, s') \<Rightarrow> fail_cause (w1\<lparr>w_repo := s'\<rparr>) ErrInternal err
                   | (Ok _, s') \<Rightarrow> (Ok (), w1\<lparr>w_repo := s'\<rparr>))))"

text \<open>The part of \<^verbatim>\<open>RefreshAccessToken\<close> after the family has been found and is not revoked.\<close>

definition rotate_token ::
    "('s, 'f) AuthService \<Rightarrow> 'f FamilyRepo \<Rightarrow> (nat \<Rightarrow> string) \<Rightarrow> Config \<Rightarrow> ('s, 'f) world \<Rightarrow> string \<Rightarrow> string \<Rightarrow> TokenFamily
      \<Rightarrow> ('s, 'f, Token) run" where
  "rotate_token svc families fresh cfg w refreshToken userID family =
     (case as_GenerateJWT svc userID (AccessTokenDuration cfg) of
        Panic \<Rightarrow> (Panic, w)
      | Fail err \<Rightarrow> fail_cause w ErrInternal err
      | Ok newAccessToken \<Rightarrow>
          (let newRefreshToken = fresh 0
           in case tr_StoreRefreshToken (as_repo svc) (w_repo w) newRefreshToken userID (RefreshTokenDuration cfg) of
                (Panic, s) \<Rightarrow> (Panic, w\<lparr>w_repo := s\<rparr>)
              | (Fail err, s) \<Rightarrow> fail_cause (w\<lparr>w_repo := s\<rparr>) ErrInternal err
              | (Ok _, s) \<Rightarrow>
                  (case fr_UpdateFamily families (w_families w)
                      (family\<lparr>IssuedTokens := IssuedTokens family @ [newRefreshToken],
                              CurrentToken := newRefreshToken\<rparr>) of
                     (Panic, f) \<Rightarrow> (Panic, w\<lparr>w_repo := s, w_families := f\<rparr>)
                   | (Fail err, f) \<Rightarrow> fail_cause (w\<lparr>w_repo := s, w_families := f\<rparr>) ErrInternal err
                   | (Ok _, f) \<Rightarrow>
                       (case tr_DeleteRefreshToken (as_repo svc) s refreshToken of
                          (Panic, s') \<Rightarrow> (Panic, w\<lparr>w_repo := s', w_families := f\<rparr>)
                        | (_, s') \<Rightarrow>
                            (Ok \<lparr>AccessToken = newAccessToken, RefreshToken = newRefreshToken,
                                 TokenType = ''Bearer'', ExpiresIn = whole_seconds (AccessTokenDuration cfg),
                                 IDToken = []\<rparr>,
                             w\<lparr>w_repo := s', w_families := f\<rparr>)))))"

definition RefreshAccessToken ::
    "('s, 'f) AuthService \<Rightarrow> (nat \<Rightarrow> string) \<Rightarrow> Config \<Rightarrow> ('s, 'f) world \<Rightarrow> string \<Rightarrow> ('s, 'f, Token) run" where
  "RefreshAccessToken svc fresh cfg w refreshToken =
     (case tr_GetRefreshTokenUserID (as_repo svc) (w_repo w) refreshToken of
        Panic \<Rightarrow> (Panic, w)
      | Fail err \<Rightarrow> fail_cause w ErrInvalidGrant err
      | Ok userID \<Rightarrow>
          (case as_families svc of
             None \<Rightarrow> (Panic, w)
           | Some families \<Rightarrow>
               (case fr_GetFamilyByToken families (w_families w) refreshToken of
                  Panic \<Rightarrow> (Panic, w)
                | Fail err \<Rightarrow> fail_cause w ErrInternal err
                | Ok None \<Rightarrow> (Panic, w)
                | Ok (Some family) \<Rightarrow>
                    (if FRevokedAt family \<noteq> None then (Fail ErrInvalidGrant, w)
                     else rotate_token svc families fresh cfg w refreshToken userID family))))"

definition RevokeToken ::
    "('s, 'f) AuthService \<Rightarrow> (nat \<Rightarrow> time) \<Rightarrow> ('s, 'f) world \<Rightarrow> string \<Rightarrow> string \<Rightarrow> ('s, 'f, unit) run" where
  "RevokeToken svc clock w tok tokenTypeHint =
     (if tokenTypeHint = ''refresh_token'' then
        (case as_families svc of
           None \<Rightarrow> (Panic, w)
         | Some families \<Rightarrow>
             (case fr_GetFamilyByToken families (w_families w) tok of
                Panic \<Rightarrow> (Panic, w)
              | Ok (Some family) \<Rightarrow>
                  (let (res, f) = fr_RevokeFamily families (w_families w) (FamilyID family)
                   in (res, w\<lparr>w_families := f\<rparr>))
              | _ \<Rightarrow>
                  (let (res, s) = tr_DeleteRefreshToken (as_repo svc) (w_repo w) tok
                   in (res, w\<lparr>w_repo := s\<rparr>))))
      else
        (case as_ValidateJWT svc tok of
           Panic \<Rightarrow> (Panic, w)
         | Fail err \<Rightarrow> fail_cause w ErrInvalidToken err
         | Ok claims \<Rightarrow>
             (let (res, s) = deny_token svc clock w claims in (res, w\<lparr>w_repo := s\<rparr>))))"

section \<open>A service over the in-memory repositories\<close>

text \<open>The identity service's lookups as the authentication service sees them.\<close>

definition lookup_by_name :: "'s UserRepository \<Rightarrow> 's \<Rightarrow> err_store \<Rightarrow> string \<Rightarrow> (go_error, User) outcome \<times> err_store" where
  "lookup_by_name users s h n = (let (r, _, h') = svc_GetUserByUsername users s h n in (r, h'))"

definition lookup_by_id :: "'s UserRepository \<Rightarrow> 's \<Rightarrow> err_store \<Rightarrow> string \<Rightarrow> (go_error, User) outcome \<times> err_store" where
  "lookup_by_id users s h i = (let (r, _, h') = svc_GetUserByID users s h i in (r, h'))"

definition demo_families :: "TokenFamily FamilyRepo" where
  "demo_families =
     \<lparr>fr_GetFamilyByToken = (\<lambda>f t. Ok (if t \<in> set (IssuedTokens f) then Some f else None)),
      fr_UpdateFamily = (\<lambda>f g. (Ok (), g)),
      fr_RevokeFamily = (\<lambda>f i. (Ok (), f\<lparr>FRevokedAt := Some 0\<rparr>))\<rparr>"

definition demo_svc :: "(AuthMemoryRepository, TokenFamily) AuthService" where
  "demo_svc =
     \<lparr>as_GetUserByUsername = lookup_by_name (memory_users (\<lambda>_. [''u1'']) []) small_repo,
      as_GetUserByID = lookup_by_id (memory_users (\<lambda>_. [''u1'']) []) small_repo,
      as_repo = memory_auth, as_families = Some demo_families,
      as_CheckPasswordHash = (\<lambda>pw hash. pw = ''secret''),
      as_GenerateJWT = (\<lambda>u d. Ok (''jwt:'' @ u)),
      as_ValidateJWT = (\<lambda>t. Ok [''jti'' \<mapsto> VString ''j1'', ''exp'' \<mapsto> VInt 60]),
      as_risk = (\<lambda>ac. Ok ''LOW''), as_Decide = (\<lambda>l ac. ''ALLOW'')\<rparr>"

definition demo_cfg :: Config where
  "demo_cfg = \<lparr>AccessTokenDuration = 60000000000, RefreshTokenDuration = 0, SessionDuration = 0\<rparr>"

definition demo_world :: "(AuthMemoryRepository, TokenFamily) world" where
  "demo_world = \<lparr>w_repo = NewAuthMemoryRepository\<lparr>a_refreshTokens := [''r0'' \<mapsto> ''u1'']\<rparr>,
     w_families = \<lparr>FamilyID = ''f'', OriginalToken = ''r0'', CurrentToken = ''r0'', IssuedTokens = [''r0''],
       FUserID = ''u1'', FClientID = [], FRevokedAt = None\<rparr>,
     w_errs = initial_errors, w_spawned = []\<rparr>"

definition demo_fresh :: "nat \<Rightarrow> string" where
  "demo_fresh n = replicate (Suc n) CHR ''x''"

lemma demo_lookup:
  "as_GetUserByUsername demo_svc h ''alice'' = (Ok (alice\<lparr>UID := ''u1''\<rparr>), h)"
  "as_GetUserByID demo_svc h ''u1'' = (Ok (alice\<lparr>UID := ''u1''\<rparr>), h)"
  by (simp_all add: demo_svc_def lookup_by_name_def lookup_by_id_def svc_GetUserByUsername_def
      svc_GetUserByID_def mem_GetUserByUsername_def mem_GetUserByID_def small_repo_eq range_values_def
      List.map_filter_simps alice_def)

lemma demo_svc_sel [simp]:
  "as_repo demo_svc = memory_auth" "as_GenerateJWT demo_svc u d = Ok (''jwt:'' @ u)"
  "as_ValidateJWT demo_svc t = Ok [''jti'' \<mapsto> VString ''j1'', ''exp'' \<mapsto> VInt 60]"
  "as_families demo_svc = Some demo_families" "as_risk demo_svc ac = Ok ''LOW''"
  "as_Decide demo_svc l ac = ''ALLOW''" "as_CheckPasswordHash demo_svc pw hash \<longleftrightarrow> pw = ''secret''"
  by (simp_all add: demo_svc_def)

section \<open>Properties\<close>

lemma fail_cause_eq [simp]: "fail_cause w e c = (Fail e, w\<lparr>w_errs := snd (WithCause (w_errs w) e c)\<rparr>)"
  by (simp add: fail_cause_def case_prod_beta)

lemma createSessionAndTokens_Ok:
  assumes "createSessionAndTokens svc clock fresh cfg w user = (Ok res, w')"
  shows "ResUser res = Some user \<and> \<not> ResIsMfaRequired res \<and>
    (\<exists>jwt tok s. as_GenerateJWT svc (UID user) (AccessTokenDuration cfg) = Ok jwt \<and>
       ResToken res = Some tok \<and> AccessToken tok = jwt \<and> RefreshToken tok = fresh 0 \<and>
       ResSession res = Some s \<and> SUserID s = UID user \<and> SID s = fresh 1)"
  using assms
  by (auto simp: createSessionAndTokens_def Let_def split: outcome.splits prod.splits)


definition demo_login :: AuthnRequest where
  "demo_login = \<lparr>RUsername = ''alice'', RPassword = ''secret'', RIPAddress = [], RDeviceFingerprint = [],
     RIsKnownDevice = True\<rparr>"


text \<open>
  The second step of a multi-factor login checks nothing: over the in-memory repository, for every
  user that exists, active or not, and for every challenge identifier and every code, a session is
  stored and a token pair is returned whenever the access token can be signed.
\<close>

theorem VerifyMFAChallenge_unchecked:
  assumes "as_repo svc = memory_auth" and "as_GetUserByID svc (w_errs w) (VUserID req) = (Ok user, h)"
    and "as_GenerateJWT svc (UID user) (AccessTokenDuration cfg) = Ok jwt"
  shows "\<exists>res w' tok s. VerifyMFAChallenge svc clock fresh cfg w
        (req\<lparr>VChallengeID := challenge, VCode := code\<rparr>) = (Ok res, w') \<and>
    ResToken res = Some tok \<and> AccessToken tok = jwt \<and>
    a_sessions (w_repo w') (fresh 1) = Some s \<and> SUserID s = UID user \<and>
    amem_GetRefreshTokenUserID (w_repo w') (RefreshToken tok) = Ok (UID user)"
  using assms
  by (simp add: VerifyMFAChallenge_def createSessionAndTokens_def Let_def logAuthSuccess_def amem_defs)

theorem VerifyMFAChallenge_unchecked_witness:
  "\<exists>res w'. VerifyMFAChallenge demo_svc (\<lambda>_. 0) demo_fresh demo_cfg demo_world
      \<lparr>VChallengeID = ''none'', VCode = ''wrong'', VUserID = ''u1''\<rparr> = (Ok res, w') \<and> ResToken res \<noteq> None"
  using VerifyMFAChallenge_unchecked [of demo_svc demo_world "\<lparr>VChallengeID = [], VCode = [], VUserID = ''u1''\<rparr>"
      "alice\<lparr>UID := ''u1''\<rparr>" initial_errors demo_cfg "''jwt:u1''" "\<lambda>_. 0" demo_fresh "''wrong''" "''none''"]
  by (auto simp: demo_lookup demo_world_def)

context token_store
begin

lemma rotate_replaces:
  assumes "rotate_token svc families fresh cfg w old userID family = (Ok tok, w')"
    and "as_repo svc = repo" and "fresh 0 \<noteq> old"
  shows "tr_GetRefreshTokenUserID repo (w_repo w') (RefreshToken tok) = Ok userID \<and>
    (\<forall>u. tr_GetRefreshTokenUserID repo (w_repo w') old \<noteq> Ok u)"
proof -
  from assms obtain s f s' r where
    st: "tr_StoreRefreshToken repo (w_repo w) (fresh 0) userID (RefreshTokenDuration cfg) = (Ok (), s)"
    and del: "tr_DeleteRefreshToken repo s old = (r, s')" and t: "RefreshToken tok = fresh 0"
    and w': "w_repo w' = s'"
    by (auto simp: rotate_token_def Let_def split: outcome.splits prod.splits)
  have del': "tr_DeleteRefreshToken repo s old = (Ok (), s')"
    using delete_total [of s old] del by auto
  show ?thesis
    using store_get [OF st, of "fresh 0"] delete_get [OF del' assms(3)] deleted [OF del'] t w' by simp
qed

end

text \<open>
  C11: Refresh tokens rotate: when a refresh succeeds over the in-memory repository, the new refresh token
  belongs to the same user, and every later use of the old one is refused with \<^verbatim>\<open>ErrInvalidGrant\<close>.
\<close>

theorem RefreshAccessToken_rotates:
  assumes "as_repo svc = memory_auth" and "fresh 0 \<noteq> old"
    and "RefreshAccessToken svc fresh cfg w old = (Ok tok, w')"
  shows "amem_GetRefreshTokenUserID (w_repo w') (RefreshToken tok) = amem_GetRefreshTokenUserID (w_repo w) old \<and>
    (\<exists>w''. RefreshAccessToken svc fresh' cfg' w' old = (Fail ErrInvalidGrant, w''))"
proof -
  from assms(1,3) obtain userID families family where
    u: "amem_GetRefreshTokenUserID (w_repo w) old = Ok userID"
    and r: "rotate_token svc families fresh cfg w old userID family = (Ok tok, w')"
    by (auto simp: RefreshAccessToken_def split: outcome.splits option.splits if_splits)
  have *: "amem_GetRefreshTokenUserID (w_repo w') (RefreshToken tok) = Ok userID"
      "\<forall>u. amem_GetRefreshTokenUserID (w_repo w') old \<noteq> Ok u"
    using memory_tokens.rotate_replaces [OF r assms(1,2)] by simp_all
  then obtain e where "amem_GetRefreshTokenUserID (w_repo w') old = Fail e"
    by (auto simp: amem_GetRefreshTokenUserID_def split: option.splits)
  with assms(1) u *(1) show ?thesis by (simp add: RefreshAccessToken_def)
qed

theorem RefreshAccessToken_rotates_witness:
  "\<exists>tok w'. RefreshAccessToken demo_svc demo_fresh demo_cfg demo_world ''r0'' = (Ok tok, w') \<and>
     (\<exists>w''. RefreshAccessToken demo_svc demo_fresh demo_cfg w' ''r0'' = (Fail ErrInvalidGrant, w''))"
proof -
  obtain tok w' where run: "RefreshAccessToken demo_svc demo_fresh demo_cfg demo_world ''r0'' = (Ok tok, w')"
    by (simp add: RefreshAccessToken_def rotate_token_def demo_world_def demo_families_def amem_defs Let_def)
  have "demo_fresh 0 \<noteq> ''r0''" by (simp add: demo_fresh_def)
  from RefreshAccessToken_rotates [OF _ this run, of demo_fresh demo_cfg] run show ?thesis by simp
qed

text \<open>
  C23: A logout that succeeds over the in-memory repository removes the session and puts the access token's
  identifier on the deny list until the token expires (up to the time between the call's two readings
  of the clock).
\<close>

theorem Logout_denies:
  assumes "as_repo svc = memory_auth" and "as_ValidateJWT svc jwt = Ok claims"
  shows "\<exists>w'. Logout svc clock w sid jwt = (Ok (), w') \<and> a_sessions (w_repo w') sid = None \<and>
    (\<forall>now. amem_IsInDenyList (w_repo w') now (claim_jti claims) =
       Ok (now \<le> claim_exp claims * 1000000000 + (clock 1 - clock 0)))"
  using assms by (auto simp: Logout_def deny_token_def Let_def amem_defs)

theorem Logout_denies_witness:
  "\<exists>w'. Logout demo_svc (\<lambda>_. 0) demo_world ''s'' ''t'' = (Ok (), w') \<and>
    amem_IsInDenyList (w_repo w') 60000000000 ''j1'' = Ok True \<and>
    amem_IsInDenyList (w_repo w') 60000000001 ''j1'' = Ok False"
  using Logout_denies [of demo_svc "''t''" "[''jti'' \<mapsto> VString ''j1'', ''exp'' \<mapsto> VInt 60]" "\<lambda>_. 0" demo_world "''s''"]
  by (auto simp: claim_jti_def claim_exp_def)

text \<open>
  The HTTP server wires the service without a family repository: a refresh with a valid token, and a
  revocation of a refresh token, then dereference nil.
\<close>

lemma refresh_without_families:
  assumes "as_families svc = None"
  shows "tr_GetRefreshTokenUserID (as_repo svc) (w_repo w) tok = Ok u \<Longrightarrow>
      RefreshAccessToken svc fresh cfg w tok = (Panic, w)"
    and "RevokeToken svc clock w tok ''refresh_token'' = (Panic, w)"
  using assms by (simp_all add: RefreshAccessToken_def RevokeToken_def)

text \<open>In memory mode there is no audit repository: the goroutine that every login starts panics.\<close>

lemma login_goroutine_panics:
  assumes "createSessionAndTokens svc clock fresh cfg w user = (Ok res, w')"
  shows "\<exists>entry. w_spawned w' = w_spawned w @ [entry] \<and> audit_goroutine None r entry = Panic"
  using assms
  by (auto simp: createSessionAndTokens_def Let_def logAuthSuccess_def audit_goroutine_def
      split: outcome.splits prod.splits)

end
