(* ===== verification/Policy_Service.thy ===== *)
theory Policy_Service
  imports Identity_Repository
begin

text \<open>
  Stored policies: the in-memory policy repository,
  \<^verbatim>\<open>internal/storage/memory/policy_memory_repository.go\<close>, the policy service,
  \<^verbatim>\<open>internal/domain/policy/service.go\<close>, and the default evaluator of
  \<^verbatim>\<open>internal/services/authorization/evaluator.go\<close>, with deny-overrides as the specification of both.
\<close>

section \<open>The in-memory policy repository\<close>

record PolicyMemoryRepository =
  m_policies :: "string \<rightharpoonup> Policy"

definition policy_not_found :: "string \<Rightarrow> string \<Rightarrow> go_error" where
  "policy_not_found i suffix = Errorf (''policy with ID '' @ quoted i @ '' not found'' @ suffix)"

definition pmem_CreatePolicy :: "string \<Rightarrow> PolicyMemoryRepository \<Rightarrow> Policy \<Rightarrow> Policy \<times> PolicyMemoryRepository" where
  "pmem_CreatePolicy uuid r policy =
     (let policy' = policy\<lparr>PolID := uuid\<rparr>
      in (policy', r\<lparr>m_policies := (m_policies r)(uuid \<mapsto> policy')\<rparr>))"

definition pmem_GetPolicyByID :: "PolicyMemoryRepository \<Rightarrow> string \<Rightarrow> (go_error, Policy) outcome" where
  "pmem_GetPolicyByID r i =
     (case m_policies r i of None \<Rightarrow> Fail (policy_not_found i []) | Some p \<Rightarrow> Ok p)"

definition pmem_UpdatePolicy ::
    "PolicyMemoryRepository \<Rightarrow> Policy \<Rightarrow> (go_error, unit) outcome \<times> PolicyMemoryRepository" where
  "pmem_UpdatePolicy r policy =
     (if m_policies r (PolID policy) = None then (Fail (policy_not_found (PolID policy) '' for update''), r)
      else (Ok (), r\<lparr>m_policies := (m_policies r)(PolID policy \<mapsto> policy)\<rparr>))"

definition pmem_DeletePolicy :: "PolicyMemoryRepository \<Rightarrow> string \<Rightarrow> PolicyMemoryRepository" where
  "pmem_DeletePolicy r i = r\<lparr>m_policies := (m_policies r)(i := None)\<rparr>"

definition pmem_ListPolicies ::
    "string list \<Rightarrow> PolicyMemoryRepository \<Rightarrow> PaginationQuery \<Rightarrow> (go_error, Policy list) outcome" where
  "pmem_ListPolicies ord r pq =
     (let policies = range_values ord (m_policies r);
          n = int (length policies);
          start = POffset pq;
          end' = go_int (start + PPageSize pq)
      in if start > n then Ok []
         else go_slice_int policies start (if end' > n then n else end'))"

definition pmem_FindPoliciesForSubject :: "string list \<Rightarrow> PolicyMemoryRepository \<Rightarrow> string \<Rightarrow> Policy list" where
  "pmem_FindPoliciesForSubject ord r subject =
     filter (\<lambda>p. list_ex (\<lambda>s. s = subject) (PolSubjects p)) (range_values ord (m_policies r))"

definition pmem_FindPoliciesForResource :: "string list \<Rightarrow> PolicyMemoryRepository \<Rightarrow> string \<Rightarrow> Policy list" where
  "pmem_FindPoliciesForResource ord r resource =
     filter (\<lambda>p. list_ex (\<lambda>s. s = resource) (PolResources p)) (range_values ord (m_policies r))"

definition pmem_FindPoliciesForAction :: "string list \<Rightarrow> PolicyMemoryRepository \<Rightarrow> string \<Rightarrow> Policy list" where
  "pmem_FindPoliciesForAction ord r action =
     filter (\<lambda>p. list_ex (\<lambda>s. s = action) (PolActions p)) (range_values ord (m_policies r))"

section \<open>The policy service\<close>

definition pol_matchesAction :: "string list \<Rightarrow> string \<Rightarrow> bool" where
  "pol_matchesAction policyActions requestAction \<longleftrightarrow>
     requestAction \<in> set policyActions \<or> ''*'' \<in> set policyActions"

definition pol_matchesResource :: "string list \<Rightarrow> string \<Rightarrow> bool" where
  "pol_matchesResource policyResources requestResource \<longleftrightarrow>
     requestResource \<in> set policyResources \<or> ''*'' \<in> set policyResources"

text \<open>The type assertion on the resource identifier panics when there is no string.\<close>

definition policyMatches :: "Policy \<Rightarrow> PolicyEvaluationContext \<Rightarrow> (go_error, bool) outcome" where
  "policyMatches policy evalCtx =
     (if \<not> pol_matchesAction (PolActions policy) (PAction evalCtx) then Ok False
      else case PResource evalCtx ''id'' of
        Some (VString rid) \<Rightarrow> Ok (pol_matchesResource (PolResources policy) rid)
      | _ \<Rightarrow> Panic)"

definition getSubjectsFromContext :: "PolicyEvaluationContext \<Rightarrow> string list" where
  "getSubjectsFromContext evalCtx =
     (case PSubject evalCtx ''id'' of Some (VString userID) \<Rightarrow> [''user:'' @ userID] | _ \<Rightarrow> []) @
     (case PSubject evalCtx ''groups'' of Some (VStrings gs) \<Rightarrow> map (\<lambda>g. ''group:'' @ g) gs | _ \<Rightarrow> [])"

text \<open>The first loop: the policies of every subject, in order; the first error ends it.\<close>

fun collect_policies ::
    "(string \<Rightarrow> (go_error, Policy list) outcome) \<Rightarrow> string list \<Rightarrow> (go_error, Policy list) outcome" where
  "collect_policies find_policies [] = Ok []"
| "collect_policies find_policies (subject # subjects) =
     obind (find_policies subject) (\<lambda>ps. obind (collect_policies find_policies subjects) (\<lambda>qs. Ok (ps @ qs)))"

text \<open>The second loop: a matching deny ends it.\<close>

fun decide_loop ::
    "Policy list \<Rightarrow> PolicyEvaluationContext \<Rightarrow> bool \<Rightarrow> string list \<Rightarrow> (go_error, PolicyDecision) outcome" where
  "decide_loop [] evalCtx isAllowed matching =
     Ok \<lparr>PAllowed = isAllowed,
         PReason = (if isAllowed then [] else ''No allowing policy found''),
         PMatchingPolicies = matching\<rparr>"
| "decide_loop (policy # ps) evalCtx isAllowed matching =
     obind (policyMatches policy evalCtx) (\<lambda>matched.
       if \<not> matched then decide_loop ps evalCtx isAllowed matching
       else if PolEffect policy = EffectDeny
       then Ok \<lparr>PAllowed = False, PReason = ''Explicitly denied by policy '' @ PolID policy,
                PMatchingPolicies = matching @ [PolID policy]\<rparr>
       else if PolEffect policy = EffectAllow
       then decide_loop ps evalCtx True (matching @ [PolID policy])
       else decide_loop ps evalCtx isAllowed matching)"

definition policy_Evaluate ::
    "(string \<Rightarrow> (go_error, Policy list) outcome) \<Rightarrow> err_store \<Rightarrow> PolicyEvaluationContext
      \<Rightarrow> (go_error, PolicyDecision) outcome \<times> err_store" where
  "policy_Evaluate find_policies h evalCtx =
     (case collect_policies find_policies (getSubjectsFromContext evalCtx) of
        Panic \<Rightarrow> (Panic, h)
      | Fail err \<Rightarrow> (let (e, h') = WithCause h ErrInternal err in (Fail e, h'))
      | Ok relevantPolicies \<Rightarrow> (decide_loop relevantPolicies evalCtx False [], h))"

section \<open>The default evaluator\<close>

record Subject =
  SubUserID :: string
  SubGroups :: "string list"
  SubAttributes :: "(string \<times> string) list"

record Resource =
  ResType :: string
  ResID :: string
  ResAttributes :: "(string \<times> string) list"

record Environment =
  EnvIP :: string
  EnvTime :: time
  EnvDeviceTrust :: string

record EvaluationContext =
  ECSubject :: Subject
  ECResource :: Resource
  ECAction :: string
  ECEnvironment :: Environment

type_synonym Decision = string

definition DecisionAllow :: Decision where "DecisionAllow = ''allow''"
definition DecisionDeny :: Decision where "DecisionDeny = ''deny''"

definition de_matchesAction :: "Policy \<Rightarrow> EvaluationContext \<Rightarrow> bool" where
  "de_matchesAction p evalCtx \<longleftrightarrow>
     PolActions p = [] \<or> ''*'' \<in> set (PolActions p) \<or> ECAction evalCtx \<in> set (PolActions p)"

definition de_matchesSubject :: "Policy \<Rightarrow> EvaluationContext \<Rightarrow> bool" where
  "de_matchesSubject p evalCtx \<longleftrightarrow>
     PolSubjects p = [] \<or> ''*'' \<in> set (PolSubjects p) \<or>
     list_ex (\<lambda>subject. subject = ''user:'' @ SubUserID (ECSubject evalCtx) \<or>
        list_ex (\<lambda>g. subject = ''group:'' @ g) (SubGroups (ECSubject evalCtx))) (PolSubjects p)"

definition de_matches :: "Policy \<Rightarrow> EvaluationContext \<Rightarrow> bool" where
  "de_matches p evalCtx \<longleftrightarrow> de_matchesAction p evalCtx \<and> de_matchesSubject p evalCtx"

text \<open>An error comes with the decision to deny.\<close>

definition default_Evaluate ::
    "(string \<Rightarrow> (go_error, Policy list) outcome) \<Rightarrow> EvaluationContext \<Rightarrow> (go_error, Decision) outcome" where
  "default_Evaluate find_policies evalCtx =
     obind (find_policies (''user:'' @ SubUserID (ECSubject evalCtx))) (\<lambda>policies.
       if list_ex (\<lambda>p. de_matches p evalCtx \<and> PolEffect p = EffectDeny) policies then Ok DecisionDeny
       else if list_ex (\<lambda>p. de_matches p evalCtx \<and> PolEffect p = EffectAllow) policies then Ok DecisionAllow
       else Ok DecisionDeny)"

section \<open>Deny overrides\<close>

lemma effects_distinct [simp]: "EffectAllow \<noteq> EffectDeny" "EffectDeny \<noteq> EffectAllow"
  by (simp_all add: EffectAllow_def EffectDeny_def)

definition applies :: "Policy \<Rightarrow> PolicyEvaluationContext \<Rightarrow> bool" where
  "applies p c \<longleftrightarrow> policyMatches p c = Ok True"

lemma policyMatches_total:
  "PResource c ''id'' = Some (VString rid) \<Longrightarrow> policyMatches p c = Ok (applies p c)"
  by (auto simp: policyMatches_def applies_def)

lemma decide_loop_decision:
  assumes "PResource c ''id'' = Some (VString rid)"
  shows "\<exists>d. decide_loop ps c a ms = Ok d \<and>
    (PAllowed d \<longleftrightarrow> (\<forall>p \<in> set ps. applies p c \<longrightarrow> PolEffect p \<noteq> EffectDeny) \<and>
       (a \<or> (\<exists>p \<in> set ps. applies p c \<and> PolEffect p = EffectAllow)))"
proof (induction ps arbitrary: a ms)
  case (Cons p ps)
  show ?case
  proof (cases "applies p c")
    case False
    with Cons.IH [of a ms] show ?thesis by (auto simp: policyMatches_total [OF assms])
  next
    case True
    then show ?thesis
      using Cons.IH [of a ms] Cons.IH [of True "ms @ [PolID p]"]
      by (auto simp: policyMatches_total [OF assms])
  qed
qed simp

lemma collect_policies_Ok:
  assumes "\<And>s. s \<in> set subjects \<Longrightarrow> \<exists>ps. find_policies s = Ok ps"
  shows "\<exists>ps. collect_policies find_policies subjects = Ok ps \<and>
    set ps = (\<Union>s \<in> set subjects. {p. \<exists>qs. find_policies s = Ok qs \<and> p \<in> set qs})"
  using assms
proof (induction subjects)
  case (Cons s subjects)
  then obtain ps qs where "find_policies s = Ok qs" "collect_policies find_policies subjects = Ok ps"
    "set ps = (\<Union>s \<in> set subjects. {p. \<exists>qs. find_policies s = Ok qs \<and> p \<in> set qs})"
    by fastforce
  then show ?case by auto
qed simp

text \<open>
  C6: Deny overrides: over the in-memory repository and for a request that names its resource, the policy
  service always reaches a decision, and it allows the request exactly when some stored policy for one
  of the request's subjects that covers the action and the resource allows it and none denies it. The
  order in which policies are stored or visited makes no difference.
\<close>

theorem policy_Evaluate_deny_overrides:
  assumes "PResource c ''id'' = Some (VString rid)"
    and "\<forall>s. visits (ord s) (m_policies r)"
  shows "\<exists>d. policy_Evaluate (\<lambda>s. Ok (pmem_FindPoliciesForSubject (ord s) r s)) h c = (Ok d, h) \<and>
    (PAllowed d \<longleftrightarrow>
      (\<exists>p \<in> ran (m_policies r). set (PolSubjects p) \<inter> set (getSubjectsFromContext c) \<noteq> {} \<and>
         applies p c \<and> PolEffect p = EffectAllow) \<and>
      \<not> (\<exists>p \<in> ran (m_policies r). set (PolSubjects p) \<inter> set (getSubjectsFromContext c) \<noteq> {} \<and>
         applies p c \<and> PolEffect p = EffectDeny))"
proof -
  let ?find = "\<lambda>s. Ok (pmem_FindPoliciesForSubject (ord s) r s) :: (go_error, Policy list) outcome"
  obtain ps where ps: "collect_policies ?find (getSubjectsFromContext c) = Ok ps"
    and "set ps = (\<Union>s \<in> set (getSubjectsFromContext c). set (pmem_FindPoliciesForSubject (ord s) r s))"
    using collect_policies_Ok [of "getSubjectsFromContext c" ?find] by auto
  then have mem: "p \<in> set ps \<longleftrightarrow> p \<in> ran (m_policies r) \<and> set (PolSubjects p) \<inter> set (getSubjectsFromContext c) \<noteq> {}" for p
    using set_range_values assms(2) by (fastforce simp: pmem_FindPoliciesForSubject_def list_ex_iff)
  let ?for = "\<lambda>p. set (PolSubjects p) \<inter> set (getSubjectsFromContext c) \<noteq> {}"
  have allow: "(\<exists>p \<in> set ps. applies p c \<and> PolEffect p = EffectAllow) \<longleftrightarrow>
      (\<exists>p \<in> ran (m_policies r). ?for p \<and> applies p c \<and> PolEffect p = EffectAllow)"
    using mem by metis
  have deny: "(\<forall>p \<in> set ps. applies p c \<longrightarrow> PolEffect p \<noteq> EffectDeny) \<longleftrightarrow>
      \<not> (\<exists>p \<in> ran (m_policies r). ?for p \<and> applies p c \<and> PolEffect p = EffectDeny)"
    using mem by metis
  obtain d where "decide_loop ps c False [] = Ok d"
    and "PAllowed d \<longleftrightarrow> (\<forall>p \<in> set ps. applies p c \<longrightarrow> PolEffect p \<noteq> EffectDeny) \<and>
      (\<exists>p \<in> set ps. applies p c \<and> PolEffect p = EffectAllow)"
    using decide_loop_decision [OF assms(1), of ps False "[]"] by auto
  with ps show ?thesis unfolding allow deny by (intro exI [of _ d]) (simp add: policy_Evaluate_def conj_commute)
qed

definition demo_policy :: Policy where
  "demo_policy = \<lparr>PolID = ''p1'', PolVersion = 1, PolEffect = ''allow'', PolActions = [''read''],
     PolResources = [''*''], PolSubjects = [''user:u1''], PolConditions = [], PolDescription = []\<rparr>"

theorem policy_Evaluate_deny_overrides_witness:
  "\<exists>d. policy_Evaluate (\<lambda>s. Ok (pmem_FindPoliciesForSubject [''p1''] \<lparr>m_policies = [''p1'' \<mapsto> demo_policy]\<rparr> s))
      initial_errors \<lparr>PSubject = [''id'' \<mapsto> VString ''u1''], PAction = ''read'',
        PResource = [''id'' \<mapsto> VString ''doc''], PContext = Map.empty\<rparr> = (Ok d, initial_errors) \<and> PAllowed d"
  using policy_Evaluate_deny_overrides [of "\<lparr>PSubject = [''id'' \<mapsto> VString ''u1''], PAction = ''read'',
        PResource = [''id'' \<mapsto> VString ''doc''], PContext = Map.empty\<rparr>" "''doc''" "\<lambda>_. [''p1'']"
        "\<lparr>m_policies = [''p1'' \<mapsto> demo_policy]\<rparr>" initial_errors]
  by (auto simp: visits_def demo_policy_def applies_def policyMatches_def pol_matchesAction_def
      pol_matchesResource_def getSubjectsFromContext_def EffectAllow_def EffectDeny_def)

text \<open>The default evaluator never looks at the resource.\<close>

lemma default_Evaluate_ignores_resource:
  "default_Evaluate find_policies (c\<lparr>ECResource := res\<rparr>) = default_Evaluate find_policies c"
proof -
  have "de_matches p (c\<lparr>ECResource := res\<rparr>) = de_matches p c" for p
    by (simp add: de_matches_def de_matchesAction_def de_matchesSubject_def)
  then show ?thesis by (simp add: default_Evaluate_def cong: if_cong)
qed

lemma default_Evaluate_deny_overrides:
  assumes "find_policies (''user:'' @ SubUserID (ECSubject c)) = Ok ps"
  shows "default_Evaluate find_policies c =
    Ok (if (\<exists>p \<in> set ps. de_matches p c \<and> PolEffect p = EffectAllow) \<and>
           (\<forall>p \<in> set ps. de_matches p c \<longrightarrow> PolEffect p \<noteq> EffectDeny)
        then DecisionAllow else DecisionDeny)"
  using assms by (auto simp: default_Evaluate_def list_ex_iff)

end
