(* ===== verification/Policy_Engine.thy ===== *)
theory Policy_Engine
  imports Policy_Service
begin

text \<open>
  The policy engine, \<^verbatim>\<open>internal/policy/engine\<close>, and the authorization services built on it,
  \<^verbatim>\<open>internal/services/authorization\<close>: role-based permissions with a cache, attribute rules, the
  Open Policy Agent, their combination, and the login decision. The permission cache (go-cache), the
  evaluation of Rego and the request to an OPA sidecar are arguments.
\<close>

record EvaluationRequest =
  ReqSubjectID :: string
  ReqAction :: string
  ReqResource :: string
  ReqAttrs :: "(string \<times> gvalue) list"

section \<open>Role-based permissions\<close>

record Permission =
  PermResource :: string
  PermAction :: string
  PermDescription :: string

record Role =
  RoleCode :: string
  RoleDescription :: string
  RolePermissions :: "Permission list"

record 'c perm_cache =
  pc_Get :: "'c \<Rightarrow> string \<Rightarrow> string set option"
  pc_Set :: "'c \<Rightarrow> string \<Rightarrow> string set \<Rightarrow> 'c"

definition role_permissions :: "Role list \<Rightarrow> string set" where
  "role_permissions roles =
     (\<Union>role \<in> set roles. (\<lambda>perm. PermResource perm @ '':'' @ PermAction perm) ` set (RolePermissions role))"

definition getPermissionsForUser ::
    "'c perm_cache \<Rightarrow> (string \<Rightarrow> (go_error, Role list) outcome) \<Rightarrow> 'c \<Rightarrow> string \<Rightarrow> (go_error, string set) outcome \<times> 'c" where
  "getPermissionsForUser cache GetRolesForUser c subjectID =
     (case pc_Get cache c subjectID of
        Some perms \<Rightarrow> (Ok perms, c)
      | None \<Rightarrow>
          (case GetRolesForUser subjectID of
             Panic \<Rightarrow> (Panic, c)
           | Fail err \<Rightarrow> (Fail err, c)
           | Ok roles \<Rightarrow>
               (let permissions = role_permissions roles
                in (Ok permissions, pc_Set cache c subjectID permissions))))"

definition perm_match :: "string \<Rightarrow> string \<Rightarrow> string \<Rightarrow> bool" where
  "perm_match permission action resource =
     (case split_on CHR '':'' permission of
        [p0, p1] \<Rightarrow> p0 = resource \<and> p1 = action
      | _ \<Rightarrow> False)"

definition IsAllowed ::
    "'c perm_cache \<Rightarrow> (string \<Rightarrow> (go_error, Role list) outcome) \<Rightarrow> 'c \<Rightarrow> string \<Rightarrow> string \<Rightarrow> string
      \<Rightarrow> (go_error, bool) outcome \<times> 'c" where
  "IsAllowed cache GetRolesForUser c subjectID action resource =
     (case getPermissionsForUser cache GetRolesForUser c subjectID of
        (Panic, c') \<Rightarrow> (Panic, c')
      | (Fail err, c') \<Rightarrow> (Fail err, c')
      | (Ok permissions, c') \<Rightarrow> (Ok (\<exists>perm \<in> permissions. perm_match perm action resource), c'))"

section \<open>Attribute rules\<close>

definition checkOwnership :: "gmap \<Rightarrow> bool" where
  "checkOwnership ctx =
     (case (ctx ''resource.owner_id'', ctx ''subject.id'') of
        (Some (VString owner), Some (VString subject)) \<Rightarrow> owner = subject
      | _ \<Rightarrow> False)"

definition checkWorkingHours :: "int \<Rightarrow> bool" where
  "checkWorkingHours hour \<longleftrightarrow> hour \<ge> 9 \<and> hour \<le> 18"

definition abac_Evaluate :: "int \<Rightarrow> gmap \<Rightarrow> (go_error, bool) outcome" where
  "abac_Evaluate hour ctx =
     (case ctx ''rule'' of
        None \<Rightarrow> Ok True
      | Some rule \<Rightarrow>
          if rule = VString ''resource.owner_id == subject.id'' then Ok (checkOwnership ctx)
          else if rule = VString ''time.hour >= 9 && time.hour <= 18'' then Ok (checkWorkingHours hour)
          else Fail (Errorf ''unknown rule''))"

section \<open>Open Policy Agent\<close>

record OPAConfig =
  OPAEnabled :: bool
  OPAMode :: string

text \<open>
  \<open>opa_rego\<close> evaluates the prepared query on the input document: an error, no result, or a value.
  \<open>opa_sidecar\<close> is the HTTP exchange: an error, or the status with the decoded body (\<^term>\<open>None\<close> when
  it does not decode). Error messages leave out the values that \<^verbatim>\<open>Errorf\<close> prints into them.
\<close>

record OPAProvider =
  opa_config :: OPAConfig
  opa_rego :: "gvalue \<Rightarrow> (go_error, gvalue option) outcome"
  opa_sidecar :: "gvalue \<Rightarrow> (go_error, nat \<times> gmap option) outcome"

text \<open>The input document; reading a missing key of a Go map gives \<^verbatim>\<open>nil\<close>.\<close>

definition attr :: "(string \<times> gvalue) list \<Rightarrow> string \<Rightarrow> gvalue" where
  "attr kvs k = (case map_of kvs k of None \<Rightarrow> VNil | Some v \<Rightarrow> v)"

definition opa_input :: "EvaluationRequest \<Rightarrow> gvalue" where
  "opa_input req =
     VMap [(''user'', VMap [(''id'', VString (ReqSubjectID req)), (''roles'', attr (ReqAttrs req) ''roles'')]),
           (''resource'', VMap [(''id'', VString (ReqResource req)), (''type'', attr (ReqAttrs req) ''resource_type'')]),
           (''action'', VString (ReqAction req)),
           (''context'', VMap (ReqAttrs req)),
           (''env'', attr (ReqAttrs req) ''env'')]"

definition bool_of :: "gvalue option \<Rightarrow> bool" where
  "bool_of v = (case v of Some (VBool b) \<Rightarrow> b | _ \<Rightarrow> False)"

definition evaluateSidecar :: "OPAProvider \<Rightarrow> gvalue \<Rightarrow> (go_error, bool \<times> bool) outcome" where
  "evaluateSidecar p input =
     (case opa_sidecar p input of
        Panic \<Rightarrow> Panic
      | Fail err \<Rightarrow> Fail (Wrapf ''opa sidecar request failed'' err)
      | Ok (status, body) \<Rightarrow>
          if status \<noteq> 200 then Fail (Errorf ''opa sidecar returned status'')
          else case body of
            None \<Rightarrow> Fail (Wrapf ''failed to decode response'' (Errorf ''json''))
          | Some result \<Rightarrow> Ok (bool_of (result ''allow''), bool_of (result ''deny'')))"

definition opa_Evaluate :: "OPAProvider \<Rightarrow> EvaluationRequest \<Rightarrow> (go_error, bool \<times> bool) outcome" where
  "opa_Evaluate p req =
     (if \<not> OPAEnabled (opa_config p) then Ok (False, False)
      else if OPAMode (opa_config p) = ''sdk'' \<or> OPAMode (opa_config p) = [] then
        (case opa_rego p (opa_input req) of
           Panic \<Rightarrow> Panic
         | Fail err \<Rightarrow> Fail (Wrapf ''opa eval error'' err)
         | Ok None \<Rightarrow> Ok (False, False)
         | Ok (Some (VMap kvs)) \<Rightarrow> Ok (bool_of (map_of kvs ''allow''), bool_of (map_of kvs ''deny''))
         | Ok (Some _) \<Rightarrow> Fail (Errorf ''unexpected result type from opa: expected map''))
      else if OPAMode (opa_config p) = ''sidecar'' then evaluateSidecar p (opa_input req)
      else Fail (Errorf (''unknown opa mode: '' @ OPAMode (opa_config p))))"

section \<open>The hybrid evaluator\<close>

definition hybrid_Evaluate ::
    "(string \<Rightarrow> string \<Rightarrow> string \<Rightarrow> (go_error, bool) outcome) \<Rightarrow> OPAProvider option \<Rightarrow> EvaluationRequest
      \<Rightarrow> (go_error, bool) outcome" where
  "hybrid_Evaluate rbac opa req =
     (case rbac (ReqSubjectID req) (ReqAction req) (ReqResource req) of
        Panic \<Rightarrow> Panic
      | Fail err \<Rightarrow> Fail err
      | Ok rbacAllowed \<Rightarrow>
          (case (case opa of None \<Rightarrow> Ok (False, False) | Some p \<Rightarrow> opa_Evaluate p req) of
             Panic \<Rightarrow> Panic
           | Fail err \<Rightarrow> Fail (Wrapf ''OPA evaluation failed'' err)
           | Ok (opaAllowed, opaDenied) \<Rightarrow>
               if opaDenied then Ok False else if opaAllowed then Ok True else Ok rbacAllowed))"

section \<open>Authorization\<close>

text \<open>The adapter puts the structures of the context into the request as maps of their fields.\<close>

definition fields_of :: "(string \<times> string) list \<Rightarrow> gvalue" where
  "fields_of kvs = VMap (map (\<lambda>(k, v). (k, VString v)) kvs)"

definition subject_value :: "Subject \<Rightarrow> gvalue" where
  "subject_value s =
     VMap [(''user_id'', VString (SubUserID s)), (''groups'', VStrings (SubGroups s)),
           (''attributes'', fields_of (SubAttributes s))]"

definition resource_value :: "Resource \<Rightarrow> gvalue" where
  "resource_value r =
     VMap [(''type'', VString (ResType r)), (''id'', VString (ResID r)), (''attributes'', fields_of (ResAttributes r))]"

definition environment_value :: "Environment \<Rightarrow> gvalue" where
  "environment_value e =
     VMap [(''ip'', VString (EnvIP e)), (''time'', VTime (EnvTime e)), (''device_trust'', VString (EnvDeviceTrust e))]"

definition adapter_request :: "EvaluationContext \<Rightarrow> EvaluationRequest" where
  "adapter_request evalCtx =
     \<lparr>ReqSubjectID = SubUserID (ECSubject evalCtx), ReqAction = ECAction evalCtx,
      ReqResource = ResID (ECResource evalCtx),
      ReqAttrs = [(''resource_type'', VString (ResType (ECResource evalCtx))),
                  (''resource'', resource_value (ECResource evalCtx)),
                  (''environment'', environment_value (ECEnvironment evalCtx)),
                  (''subject'', subject_value (ECSubject evalCtx)),
                  (''roles'', VStrings (SubGroups (ECSubject evalCtx)))]\<rparr>"

definition adapter_Evaluate ::
    "(EvaluationRequest \<Rightarrow> (go_error, bool) outcome) \<Rightarrow> EvaluationContext \<Rightarrow> (go_error, Decision) outcome" where
  "adapter_Evaluate evaluator evalCtx =
     obind (evaluator (adapter_request evalCtx))
       (\<lambda>allowed. Ok (if allowed then DecisionAllow else DecisionDeny))"

text \<open>\<^verbatim>\<open>Authorize\<close> records the decision, which does not change it, and passes it on.\<close>

definition Authorize ::
    "(EvaluationContext \<Rightarrow> (go_error, Decision) outcome) \<Rightarrow> EvaluationContext
      \<Rightarrow> (go_error, Decision) outcome \<times> (string \<times> string \<times> Decision) list" where
  "Authorize evaluator evalCtx =
     (case evaluator evalCtx of
        Ok decision \<Rightarrow>
          (Ok decision, [(SubUserID (ECSubject evalCtx), ResID (ECResource evalCtx), decision)])
      | other \<Rightarrow> (other, []))"

text \<open>
  The middleware: \<^term>\<open>True\<close> when the request is passed on, otherwise it is answered 403. The client's address is
  the first element of \<^verbatim>\<open>X-Forwarded-For\<close>, or \<^verbatim>\<open>X-Real-IP\<close>, or the peer's.
\<close>

definition getClientIP :: "(string \<Rightarrow> string) \<Rightarrow> string \<Rightarrow> string" where
  "getClientIP header remoteAddr =
     (if header ''X-Forwarded-For'' \<noteq> [] then hd (split_on CHR '','' (header ''X-Forwarded-For''))
      else if header ''X-Real-IP'' \<noteq> [] then header ''X-Real-IP''
      else remoteAddr)"

definition authz_context ::
    "string \<Rightarrow> string \<Rightarrow> (string \<Rightarrow> string) \<Rightarrow> string \<Rightarrow> time \<Rightarrow> string \<Rightarrow> string list \<Rightarrow> string \<Rightarrow> EvaluationContext" where
  "authz_context action resourceType header remoteAddr now userID groups resourceID =
     \<lparr>ECSubject = \<lparr>SubUserID = userID, SubGroups = groups, SubAttributes = []\<rparr>,
      ECResource = \<lparr>ResType = resourceType, ResID = resourceID, ResAttributes = []\<rparr>,
      ECAction = action,
      ECEnvironment = \<lparr>EnvIP = getClientIP header remoteAddr, EnvTime = now, EnvDeviceTrust = []\<rparr>\<rparr>"

definition authz_Execute ::
    "(EvaluationContext \<Rightarrow> (go_error, Decision) outcome) \<Rightarrow> string \<Rightarrow> string \<Rightarrow> (string \<Rightarrow> string) \<Rightarrow> string \<Rightarrow> time
      \<Rightarrow> string option \<Rightarrow> string list \<Rightarrow> string \<Rightarrow> (go_error, bool) outcome" where
  "authz_Execute evaluator action resourceType header remoteAddr now user groups resourceID =
     (case user of
        None \<Rightarrow> Ok False
      | Some userID \<Rightarrow>
          (case fst (Authorize evaluator
              (authz_context action resourceType header remoteAddr now userID groups resourceID)) of
             Panic \<Rightarrow> Panic
           | Fail _ \<Rightarrow> Ok False
           | Ok decision \<Rightarrow> Ok (decision = DecisionAllow)))"

text \<open>The login decision for a user at an address.\<close>

definition Decide ::
    "(EvaluationContext \<Rightarrow> (go_error, Decision) outcome) \<Rightarrow> string \<Rightarrow> string \<Rightarrow> string \<Rightarrow> (go_error, string) outcome" where
  "Decide evaluator level userID ip =
     (case evaluator
        \<lparr>ECSubject = \<lparr>SubUserID = userID, SubGroups = [], SubAttributes = []\<rparr>,
         ECResource = \<lparr>ResType = [], ResID = [], ResAttributes = []\<rparr>,
         ECAction = ''login'',
         ECEnvironment = \<lparr>EnvIP = ip, EnvTime = 0, EnvDeviceTrust = []\<rparr>\<rparr> of
        Panic \<Rightarrow> Panic
      | Fail _ \<Rightarrow> Ok ''DENY''
      | Ok decision \<Rightarrow>
          Ok (if decision = DecisionAllow then (if level = ''HIGH'' then ''REQUIRE_MFA'' else ''ALLOW'')
              else ''DENY''))"

section \<open>Properties\<close>

lemma perm_match_iff:
  "perm_match (r @ '':'' @ a) action resource \<longleftrightarrow>
     r = resource \<and> a = action \<and> CHR '':'' \<notin> set resource \<and> CHR '':'' \<notin> set action"
proof (cases "CHR '':'' \<in> set r \<or> CHR '':'' \<in> set a")
  case False
  then have "split_on CHR '':'' (r @ '':'' @ a) = [r, a]"
    by (simp add: split_on_append split_on_fresh)
  with False show ?thesis by (auto simp: perm_match_def)
next
  case True
  then have "count_list r CHR '':'' \<noteq> 0 \<or> count_list a CHR '':'' \<noteq> 0"
    by (auto simp: count_list_0_iff)
  then have "length (split_on CHR '':'' (r @ '':'' @ a)) \<noteq> 2" by (auto simp: length_split_on)
  then have "\<not> perm_match (r @ '':'' @ a) action resource"
    by (auto simp: perm_match_def split: list.splits)
  with True show ?thesis by auto
qed

text \<open>What a permission cache promises; \<open>covers c s\<close> gives the roles behind a cached entry.\<close>

locale permission_cache =
  fixes cache :: "'c perm_cache"
  assumes get_set: "pc_Get cache (pc_Set cache c s ps) t = Some qs \<Longrightarrow>
      qs = (if t = s then ps else qs) \<and> (t \<noteq> s \<longrightarrow> pc_Get cache c t = Some qs)"
begin

lemma getPermissions_sound:
  assumes "getPermissionsForUser cache roles c s = (Ok ps, c')"
    and inv: "\<And>t qs. pc_Get cache c t = Some qs \<Longrightarrow> \<exists>rs. past t rs \<and> qs = role_permissions rs"
    and now: "\<And>t rs. roles t = Ok rs \<Longrightarrow> past t rs"
  shows "(\<exists>rs. past s rs \<and> ps = role_permissions rs) \<and>
    (\<forall>t qs. pc_Get cache c' t = Some qs \<longrightarrow> (\<exists>rs. past t rs \<and> qs = role_permissions rs))"
proof (cases "pc_Get cache c s")
  case (Some qs)
  with assms(1) have "ps = qs" "c' = c" by (auto simp: getPermissionsForUser_def)
  with Some inv show ?thesis by auto
next
  case None
  with assms(1) obtain rs where rs: "roles s = Ok rs" "ps = role_permissions rs" "c' = pc_Set cache c s ps"
    by (auto simp: getPermissionsForUser_def Let_def split: outcome.splits)
  have "\<exists>rs. past t rs \<and> qs = role_permissions rs" if "pc_Get cache c' t = Some qs" for t qs
    using get_set [of c s ps t qs] that rs now [OF rs(1)] inv by (cases "t = s") auto
  with rs now show ?thesis by blast
qed

end

text \<open>
  The cache that \<^verbatim>\<open>NewDBRBACProvider\<close> makes: entries that expire five minutes after they are set. The
  state holds the clock.
\<close>

record ttl_state =
  tc_now :: time
  tc_items :: "string \<rightharpoonup> string set \<times> time"

definition five_minutes :: int where "five_minutes = 300000000000"

definition ttl_cache :: "ttl_state perm_cache" where
  "ttl_cache =
     \<lparr>pc_Get = (\<lambda>c s. case tc_items c s of
                   None \<Rightarrow> None
                 | Some (ps, expiry) \<Rightarrow> if tc_now c > expiry then None else Some ps),
      pc_Set = (\<lambda>c s ps. c\<lparr>tc_items := (tc_items c)(s \<mapsto> (ps, tc_now c + five_minutes))\<rparr>)\<rparr>"

interpretation ttl: permission_cache ttl_cache
  by unfold_locales (auto simp: ttl_cache_def split: option.splits if_splits prod.splits)

lemma role_permission_match:
  "(\<exists>perm \<in> role_permissions roles. perm_match perm action resource) \<longleftrightarrow>
     (\<exists>role \<in> set roles. \<exists>perm \<in> set (RolePermissions role).
        PermResource perm = resource \<and> PermAction perm = action) \<and>
     CHR '':'' \<notin> set resource \<and> CHR '':'' \<notin> set action"
proof -
  have "(\<exists>perm \<in> role_permissions roles. perm_match perm action resource) \<longleftrightarrow>
      (\<exists>role \<in> set roles. \<exists>perm \<in> set (RolePermissions role).
         perm_match (PermResource perm @ '':'' @ PermAction perm) action resource)"
    unfolding role_permissions_def by blast
  then show ?thesis unfolding perm_match_iff by blast
qed

text \<open>
  Role-based decisions are exact when they are not cached: the provider allows an action on a resource
  exactly when one of the user's roles has the permission for that resource and that action, and
  neither name contains a colon. A permission for a resource such as \<^verbatim>\<open>urn:app:doc\<close> is never
  granted, because the joined key is split into more than two parts.
\<close>

theorem IsAllowed_iff:
  assumes "pc_Get cache c subject = None" and "GetRolesForUser subject = Ok roles"
  shows "IsAllowed cache GetRolesForUser c subject action resource =
    (Ok ((\<exists>role \<in> set roles. \<exists>perm \<in> set (RolePermissions role).
            PermResource perm = resource \<and> PermAction perm = action) \<and>
         CHR '':'' \<notin> set resource \<and> CHR '':'' \<notin> set action),
     pc_Set cache c subject (role_permissions roles))"
  using assms by (simp add: IsAllowed_def getPermissionsForUser_def Let_def role_permission_match)

definition demo_role :: Role where
  "demo_role = \<lparr>RoleCode = ''ops'', RoleDescription = [],
     RolePermissions = [\<lparr>PermResource = ''urn:doc'', PermAction = ''read'', PermDescription = []\<rparr>,
                        \<lparr>PermResource = ''doc'', PermAction = ''read'', PermDescription = []\<rparr>]\<rparr>"

theorem IsAllowed_iff_witness:
  "fst (IsAllowed ttl_cache (\<lambda>_. Ok [demo_role]) \<lparr>tc_now = 0, tc_items = Map.empty\<rparr> ''u1'' ''read'' ''doc'') = Ok True \<and>
   fst (IsAllowed ttl_cache (\<lambda>_. Ok [demo_role]) \<lparr>tc_now = 0, tc_items = Map.empty\<rparr> ''u1'' ''read'' ''urn:doc'') = Ok False"
  using IsAllowed_iff [of ttl_cache "\<lparr>tc_now = 0, tc_items = Map.empty\<rparr>" "''u1''" "\<lambda>_. Ok [demo_role]" "[demo_role]"]
  by (simp add: ttl_cache_def demo_role_def)

text \<open>
  A cached decision outlives a change of roles, but not for longer than five minutes: once permissions
  have been read at time \<open>t0\<close>, the same question gets the same answer until \<open>t0\<close> plus five minutes, whatever
  the repository says by then, and after that the answer comes from the repository's current roles.
\<close>

theorem IsAllowed_stale:
  assumes "pc_Get ttl_cache c subject = None" and "roles0 subject = Ok rs0"
    and "IsAllowed ttl_cache roles0 c subject action resource = (res, c')" and "roles1 subject = Ok rs1"
  shows "fst (IsAllowed ttl_cache roles1 (c'\<lparr>tc_now := t\<rparr>) subject action resource) =
    (if t \<le> tc_now c + five_minutes then res
     else Ok (\<exists>perm \<in> role_permissions rs1. perm_match perm action resource))"
proof -
  have "c' = c\<lparr>tc_items := (tc_items c)(subject \<mapsto> (role_permissions rs0, tc_now c + five_minutes))\<rparr>"
    and "res = Ok (\<exists>perm \<in> role_permissions rs0. perm_match perm action resource)"
    using assms by (auto simp: IsAllowed_def getPermissionsForUser_def Let_def ttl_cache_def)
  with assms(4) show ?thesis
    by (auto simp: IsAllowed_def getPermissionsForUser_def ttl_cache_def Let_def)
qed

theorem IsAllowed_stale_witness:
  "\<exists>c'. IsAllowed ttl_cache (\<lambda>_. Ok [demo_role]) \<lparr>tc_now = 0, tc_items = Map.empty\<rparr> ''u1'' ''read'' ''doc'' = (Ok True, c') \<and>
     fst (IsAllowed ttl_cache (\<lambda>_. Ok []) (c'\<lparr>tc_now := 1\<rparr>) ''u1'' ''read'' ''doc'') = Ok True"
proof -
  obtain c' where c': "IsAllowed ttl_cache (\<lambda>_. Ok [demo_role]) \<lparr>tc_now = 0, tc_items = Map.empty\<rparr> ''u1'' ''read'' ''doc'' = (Ok True, c')"
    by (simp add: IsAllowed_def getPermissionsForUser_def ttl_cache_def Let_def role_permission_match demo_role_def)
  from IsAllowed_stale [OF _ _ c', of "[demo_role]" "\<lambda>_. Ok []" "[]" 1] c' show ?thesis
    by (auto simp: ttl_cache_def five_minutes_def)
qed

text \<open>
  C7: The chain from the HTTP middleware to the policy engines fails closed: a request is passed on exactly
  when it carries a user, the role check succeeds without an error, the policy agent (if there is one)
  answers without an error and does not deny, and one of the two allows.
\<close>

theorem authz_fails_closed:
  "authz_Execute (adapter_Evaluate (hybrid_Evaluate rbac opa)) action rtype header remote now user groups rid = Ok True \<longleftrightarrow>
    (\<exists>u rbacAllowed opaAllowed. user = Some u \<and> rbac u action rid = Ok rbacAllowed \<and>
       (case opa of None \<Rightarrow> Ok (False, False)
          | Some p \<Rightarrow> opa_Evaluate p (adapter_request (authz_context action rtype header remote now u groups rid)))
         = Ok (opaAllowed, False) \<and> (rbacAllowed \<or> opaAllowed))"
proof -
  have [simp]: "ReqSubjectID (adapter_request (authz_context action rtype header remote now u groups rid)) = u"
    "ReqAction (adapter_request (authz_context action rtype header remote now u groups rid)) = action"
    "ReqResource (adapter_request (authz_context action rtype header remote now u groups rid)) = rid" for u
    by (simp_all add: adapter_request_def authz_context_def)
  show ?thesis
    by (auto simp: authz_Execute_def Authorize_def adapter_Evaluate_def hybrid_Evaluate_def
        DecisionAllow_def DecisionDeny_def split: option.splits outcome.splits prod.splits if_splits)
qed

end
