(* ===== verification/Digest_SHA256.thy ===== *)
theory Digest_SHA256
  imports Digest_SHA1
begin

text \<open>
  The SHA-256 digest of the Go standard library (\<^verbatim>\<open>crypto/sha256\<close>, FIPS 180-4), used for device
  fingerprints and for proof keys (PKCE).
\<close>

definition rotr32 :: "u32 \<Rightarrow> nat \<Rightarrow> u32" where
  "rotr32 w n = rotl32 w (32 - n)"

text \<open>The round constants, in decimal.\<close>

definition sha256_K :: "u32 list" where
  "sha256_K =
     [1116352408, 1899447441, 3049323471, 3921009573, 961987163, 1508970993,
      2453635748, 2870763221, 3624381080, 310598401, 607225278, 1426881987,
      1925078388, 2162078206, 2614888103, 3248222580, 3835390401, 4022224774,
      264347078, 604807628, 770255983, 1249150122, 1555081692, 1996064986,
      2554220882, 2821834349, 2952996808, 3210313671, 3336571891, 3584528711,
      113926993, 338241895, 666307205, 773529912, 1294757372, 1396182291,
      1695183700, 1986661051, 2177026350, 2456956037, 2730485921, 2820302411,
      3259730800, 3345764771, 3516065817, 3600352804, 4094571909, 275423344,
      430227734, 506948616, 659060556, 883997877, 958139571, 1322822218,
      1537002063, 1747873779, 1955562222, 2024104815, 2227730452, 2361852424,
      2428436474, 2756734187, 3204031479, 3329325298]"

fun sha256_extend :: "nat \<Rightarrow> u32 list \<Rightarrow> u32 list" where
  "sha256_extend 0 ws = ws"
| "sha256_extend (Suc n) ws =
     (let t = length ws; x = ws ! (t - 15); y = ws ! (t - 2);
          s0 = rotr32 x 7 XOR rotr32 x 18 XOR drop_bit 3 x;
          s1 = rotr32 y 17 XOR rotr32 y 19 XOR drop_bit 10 y
      in sha256_extend n (ws @ [ws ! (t - 16) + s0 + ws ! (t - 7) + s1]))"

type_synonym sha256_state = "u32 \<times> u32 \<times> u32 \<times> u32 \<times> u32 \<times> u32 \<times> u32 \<times> u32"

definition sha256_step :: "u32 \<times> u32 \<Rightarrow> sha256_state \<Rightarrow> sha256_state" where
  "sha256_step = (\<lambda>(k, w) (a, b, c, d, e, f, g, h).
     let s1 = rotr32 e 6 XOR rotr32 e 11 XOR rotr32 e 25;
         ch = (e AND f) XOR (NOT e AND g);
         t1 = h + s1 + ch + k + w;
         s0 = rotr32 a 2 XOR rotr32 a 13 XOR rotr32 a 22;
         mj = (a AND b) XOR (a AND c) XOR (b AND c)
     in (t1 + s0 + mj, a, b, c, d + t1, e, f, g))"

definition sha256_block :: "bytes \<Rightarrow> sha256_state \<Rightarrow> sha256_state" where
  "sha256_block blk = (\<lambda>(h0, h1, h2, h3, h4, h5, h6, h7).
     case fold sha256_step (zip sha256_K (sha256_extend 48 (be32_words blk))) (h0, h1, h2, h3, h4, h5, h6, h7) of
       (a, b, c, d, e, f, g, h) \<Rightarrow> (h0 + a, h1 + b, h2 + c, h3 + d, h4 + e, h5 + f, h6 + g, h7 + h))"

definition sha256 :: "bytes \<Rightarrow> bytes" where
  "sha256 msg =
     (case fold sha256_block (chunks 64 (sha1_pad msg))
         (0x6a09e667, 0xbb67ae85, 0x3c6ef372, 0xa54ff53a, 0x510e527f, 0x9b05688c, 0x1f83d9ab, 0x5be0cd19) of
        (a, b, c, d, e, f, g, h) \<Rightarrow>
          be32_put a @ be32_put b @ be32_put c @ be32_put d @ be32_put e @ be32_put f @ be32_put g @ be32_put h)"

lemma length_sha256 [simp]: "length (sha256 msg) = 32"
  by (simp add: sha256_def split: prod.split)

end
