(* ===== verification/Redis_Store.thy ===== *)
theory Redis_Store
  imports Auth_Repository Field_Encryption Digest_SHA256 "HOL-Library.List_Lexorder" "HOL-Library.Char_ord"
begin

text \<open>
  The Redis client interface, \<^verbatim>\<open>internal/storage/redis/interface.go\<close>, as far as the session and token
  other stores use it, and the token and session repositories of \<^verbatim>\<open>internal/storage/redis/cache.go\<close> and
  \<^verbatim>\<open>session.go\<close>. The server is the state \<open>'r\<close>. A stored value is the JSON text of a session,
  of a token, of the risk data of a session or of a map from strings to strings, or a text that is no JSON
  object. \<^verbatim>\<open>json.Unmarshal\<close> ignores keys that it does not know, and the kinds of objects have no key in common, so an
  object of another kind gives the zero value. The last section is a key space with
  expiry and sorted sets that behaves as the Redis commands are documented to.
\<close>

section \<open>The client\<close>

record SessionRiskData =
  RdSessionID :: string
  RdRiskScore :: int
  RdRiskLevel :: string
  RdLastEvaluated :: time
  RdSignals :: "string list"
  RdActionsTaken :: "string list"
  RdNextEvaluation :: time

datatype redis_value =
    Json UserSession
  | JsonToken Token
  | JsonRisk SessionRiskData
  | JsonMap "(string \<times> string) list"
  | Text string

definition zero_session :: UserSession where
  "zero_session = \<lparr>SID = [], SUserID = [], SIPAddress = [], SUserAgent = [], SCreatedAt = 0, SExpiresAt = 0,
     SDeviceFingerprint = [], SLastRotatedAt = 0\<rparr>"

definition zero_token :: Token where
  "zero_token = \<lparr>AccessToken = [], RefreshToken = [], TokenType = [], ExpiresIn = 0, IDToken = []\<rparr>"

fun unmarshal :: "redis_value \<Rightarrow> UserSession option" where
  "unmarshal (Json s) = Some s"
| "unmarshal (JsonToken _) = Some zero_session"
| "unmarshal (JsonRisk _) = Some zero_session"
| "unmarshal (JsonMap _) = Some zero_session"
| "unmarshal (Text _) = None"

fun unmarshal_token :: "redis_value \<Rightarrow> Token option" where
  "unmarshal_token (JsonToken t) = Some t"
| "unmarshal_token (Json _) = Some zero_token"
| "unmarshal_token (JsonRisk _) = Some zero_token"
| "unmarshal_token (JsonMap _) = Some zero_token"
| "unmarshal_token (Text _) = None"

definition redis_Nil :: go_error where "redis_Nil = Errorf ''redis: nil''"

record 'r RedisClient =
  rd_Set :: "'r \<Rightarrow> string \<Rightarrow> redis_value \<Rightarrow> int \<Rightarrow> (go_error, unit) outcome \<times> 'r"
  rd_SetNX :: "'r \<Rightarrow> string \<Rightarrow> redis_value \<Rightarrow> int \<Rightarrow> (go_error, bool) outcome \<times> 'r"
  rd_SetEx :: "'r \<Rightarrow> string \<Rightarrow> redis_value \<Rightarrow> int \<Rightarrow> (go_error, unit) outcome \<times> 'r"
  rd_Get :: "'r \<Rightarrow> string \<Rightarrow> (go_error, redis_value) outcome"
  rd_MGet :: "'r \<Rightarrow> string list \<Rightarrow> (go_error, redis_value option list) outcome"
  rd_Del :: "'r \<Rightarrow> string \<Rightarrow> (go_error, unit) outcome \<times> 'r"
  rd_Exists :: "'r \<Rightarrow> string \<Rightarrow> (go_error, int) outcome"
  rd_ZAdd :: "'r \<Rightarrow> string \<Rightarrow> int \<Rightarrow> string \<Rightarrow> (go_error, unit) outcome \<times> 'r"
  rd_ZCard :: "'r \<Rightarrow> string \<Rightarrow> (go_error, int) outcome"
  rd_ZRemRangeByRank :: "'r \<Rightarrow> string \<Rightarrow> int \<Rightarrow> int \<Rightarrow> (go_error, int) outcome \<times> 'r"
  rd_ZRem :: "'r \<Rightarrow> string \<Rightarrow> string \<Rightarrow> (go_error, int) outcome \<times> 'r"
  rd_ZRangeAll :: "'r \<Rightarrow> string \<Rightarrow> (go_error, string list) outcome"

section \<open>Tokens and sessions\<close>

definition red_SaveToken :: "'r RedisClient \<Rightarrow> 'r \<Rightarrow> Token \<Rightarrow> (go_error, unit) outcome \<times> 'r" where
  "red_SaveToken client r token =
     (let expiration = go_int (ExpiresIn token * 1000000000)
      in rd_Set client r (''token:'' @ AccessToken token) (JsonToken token)
           (if expiration \<le> 0 then 3600000000000 else expiration))"

definition red_FetchToken :: "'r RedisClient \<Rightarrow> 'r \<Rightarrow> string \<Rightarrow> (go_error, Token) outcome" where
  "red_FetchToken client r accessToken =
     (case rd_Get client r (''token:'' @ accessToken) of
        Panic \<Rightarrow> Panic
      | Fail err \<Rightarrow> if err = redis_Nil then Fail ErrNotFound else Fail (Wrapf ''could not fetch token from redis'' err)
      | Ok data \<Rightarrow>
          (case unmarshal_token data of
             None \<Rightarrow> Fail (Wrapf ''could not unmarshal token'' (Errorf ''json''))
           | Some token \<Rightarrow> Ok token))"

definition red_DeleteToken :: "'r RedisClient \<Rightarrow> 'r \<Rightarrow> string \<Rightarrow> (go_error, unit) outcome \<times> 'r" where
  "red_DeleteToken client r accessToken = rd_Del client r (''token:'' @ accessToken)"

text \<open>
  Under \<^verbatim>\<open>refresh_token:\<close> this repository stores the bare identifier of the user. A JSON object under such a key is
  returned as its text, which is nobody's identifier; the model returns the empty string for it.
\<close>

definition red_StoreRefreshToken ::
    "'r RedisClient \<Rightarrow> 'r \<Rightarrow> string \<Rightarrow> string \<Rightarrow> int \<Rightarrow> (go_error, unit) outcome \<times> 'r" where
  "red_StoreRefreshToken client r tok userID duration =
     rd_SetEx client r (''refresh_token:'' @ tok) (Text userID) duration"

definition red_GetRefreshTokenUserID :: "'r RedisClient \<Rightarrow> 'r \<Rightarrow> string \<Rightarrow> (go_error, string) outcome" where
  "red_GetRefreshTokenUserID client r tok =
     (case rd_Get client r (''refresh_token:'' @ tok) of
        Panic \<Rightarrow> Panic
      | Fail err \<Rightarrow> if err = redis_Nil then Fail ErrNotFound else Fail (Wrapf ''redis get'' err)
      | Ok (Text userID) \<Rightarrow> Ok userID
      | Ok _ \<Rightarrow> Ok [])"

definition red_DeleteRefreshToken :: "'r RedisClient \<Rightarrow> 'r \<Rightarrow> string \<Rightarrow> (go_error, unit) outcome \<times> 'r" where
  "red_DeleteRefreshToken client r tok = rd_Del client r (''refresh_token:'' @ tok)"

definition red_AddToDenyList :: "'r RedisClient \<Rightarrow> 'r \<Rightarrow> string \<Rightarrow> int \<Rightarrow> (go_error, unit) outcome \<times> 'r" where
  "red_AddToDenyList client r jti duration = rd_SetEx client r (''deny_list:'' @ jti) (Text []) duration"

definition red_IsInDenyList :: "'r RedisClient \<Rightarrow> 'r \<Rightarrow> string \<Rightarrow> (go_error, bool) outcome" where
  "red_IsInDenyList client r jti =
     (case rd_Exists client r (''deny_list:'' @ jti) of
        Panic \<Rightarrow> Panic
      | Fail err \<Rightarrow> Fail (Wrapf ''redis exists'' err)
      | Ok n \<Rightarrow> Ok (n = 1))"

definition red_CreateSession :: "'r RedisClient \<Rightarrow> 'r \<Rightarrow> UserSession \<Rightarrow> int \<Rightarrow> (go_error, unit) outcome \<times> 'r" where
  "red_CreateSession client r session ttl = rd_Set client r (''session:'' @ SID session) (Json session) ttl"

definition red_GetSession :: "'r RedisClient \<Rightarrow> 'r \<Rightarrow> string \<Rightarrow> (go_error, UserSession) outcome" where
  "red_GetSession client r sessionID =
     (case rd_Get client r (''session:'' @ sessionID) of
        Panic \<Rightarrow> Panic
      | Fail err \<Rightarrow> Fail (Wrapf ''failed to get session'' err)
      | Ok data \<Rightarrow>
          (case unmarshal data of
             None \<Rightarrow> Fail (Wrapf ''failed to unmarshal session'' (Errorf ''json''))
           | Some session \<Rightarrow> Ok session))"

definition red_DeleteSession :: "'r RedisClient \<Rightarrow> 'r \<Rightarrow> string \<Rightarrow> (go_error, unit) outcome \<times> 'r" where
  "red_DeleteSession client r sessionID = rd_Del client r (''session:'' @ sessionID)"

section \<open>A key space\<close>

record keyspace =
  ks_now :: time
  ks_strings :: "string \<rightharpoonup> redis_value \<times> time option"
  ks_zsets :: "string \<Rightarrow> (int \<times> string) list"

definition ks_live :: "keyspace \<Rightarrow> string \<Rightarrow> redis_value option" where
  "ks_live r k =
     (case ks_strings r k of
        None \<Rightarrow> None
      | Some (v, None) \<Rightarrow> Some v
      | Some (v, Some expiry) \<Rightarrow> if ks_now r < expiry then Some v else None)"

text \<open>An expiration of zero or less means no expiry for \<^verbatim>\<open>SET\<close> and is an error for \<^verbatim>\<open>SETEX\<close>.\<close>

definition ks_put :: "keyspace \<Rightarrow> string \<Rightarrow> redis_value \<Rightarrow> int \<Rightarrow> keyspace" where
  "ks_put r k v ttl =
     r\<lparr>ks_strings := (ks_strings r)(k \<mapsto> (v, if 0 < ttl then Some (ks_now r + ttl) else None))\<rparr>"

fun z_insert :: "int \<Rightarrow> string \<Rightarrow> (int \<times> string) list \<Rightarrow> (int \<times> string) list" where
  "z_insert s m [] = [(s, m)]"
| "z_insert s m ((s', m') # zs) =
     (if s < s' \<or> s = s' \<and> m \<le> m' then (s, m) # (s', m') # zs else (s', m') # z_insert s m zs)"

definition ks_client :: "keyspace RedisClient" where
  "ks_client =
     \<lparr>rd_Set = (\<lambda>r k v ttl. (Ok (), ks_put r k v ttl)),
      rd_SetNX = (\<lambda>r k v ttl. case ks_live r k of None \<Rightarrow> (Ok True, ks_put r k v ttl) | Some _ \<Rightarrow> (Ok False, r)),
      rd_SetEx = (\<lambda>r k v ttl. if 0 < ttl then (Ok (), ks_put r k v ttl) else (Fail (Errorf ''ERR invalid expire time''), r)),
      rd_Get = (\<lambda>r k. case ks_live r k of None \<Rightarrow> Fail redis_Nil | Some v \<Rightarrow> Ok v),
      rd_MGet = (\<lambda>r ks. Ok (map (ks_live r) ks)),
      rd_Del = (\<lambda>r k. (Ok (), r\<lparr>ks_strings := (ks_strings r)(k := None)\<rparr>)),
      rd_Exists = (\<lambda>r k. Ok (if ks_live r k = None then 0 else 1)),
      rd_ZAdd = (\<lambda>r k s m. (Ok (), r\<lparr>ks_zsets := (ks_zsets r)
                   (k := z_insert s m (filter (\<lambda>z. snd z \<noteq> m) (ks_zsets r k)))\<rparr>)),
      rd_ZCard = (\<lambda>r k. Ok (int (length (ks_zsets r k)))),
      rd_ZRemRangeByRank = (\<lambda>r k lo hi.
         let zs = ks_zsets r k; n = nat (hi + 1 - lo)
         in (Ok (int (length (take n (drop (nat lo) zs)))),
             r\<lparr>ks_zsets := (ks_zsets r)(k := take (nat lo) zs @ drop (nat lo + n) zs)\<rparr>)),
      rd_ZRem = (\<lambda>r k m. (Ok (if m \<in> snd ` set (ks_zsets r k) then 1 else 0),
         r\<lparr>ks_zsets := (ks_zsets r)(k := filter (\<lambda>z. snd z \<noteq> m) (ks_zsets r k))\<rparr>)),
      rd_ZRangeAll = (\<lambda>r k. Ok (map snd (ks_zsets r k)))\<rparr>"

lemma ks_client_sel [simp]:
  "rd_Set ks_client r k v ttl = (Ok (), ks_put r k v ttl)"
  "rd_SetNX ks_client r k v ttl = (case ks_live r k of None \<Rightarrow> (Ok True, ks_put r k v ttl) | Some _ \<Rightarrow> (Ok False, r))"
  "rd_SetEx ks_client r k v ttl =
     (if 0 < ttl then (Ok (), ks_put r k v ttl) else (Fail (Errorf ''ERR invalid expire time''), r))"
  "rd_Get ks_client r k = (case ks_live r k of None \<Rightarrow> Fail redis_Nil | Some v \<Rightarrow> Ok v)"
  "rd_MGet ks_client r ks = Ok (map (ks_live r) ks)"
  "rd_Del ks_client r k = (Ok (), r\<lparr>ks_strings := (ks_strings r)(k := None)\<rparr>)"
  "rd_Exists ks_client r k = Ok (if ks_live r k = None then 0 else 1)"
  "rd_ZAdd ks_client r k s m = (Ok (), r\<lparr>ks_zsets := (ks_zsets r)
      (k := z_insert s m (filter (\<lambda>z. snd z \<noteq> m) (ks_zsets r k)))\<rparr>)"
  "rd_ZCard ks_client r k = Ok (int (length (ks_zsets r k)))"
  "rd_ZRem ks_client r k m = (Ok (if m \<in> snd ` set (ks_zsets r k) then 1 else 0),
      r\<lparr>ks_zsets := (ks_zsets r)(k := filter (\<lambda>z. snd z \<noteq> m) (ks_zsets r k))\<rparr>)"
  "rd_ZRangeAll ks_client r k = Ok (map snd (ks_zsets r k))"
  by (simp_all add: ks_client_def)

lemma ks_live_simps [simp]:
  "ks_live (r\<lparr>ks_zsets := z\<rparr>) k = ks_live r k"
  "ks_live (r\<lparr>ks_strings := (ks_strings r)(k' := None)\<rparr>) k = (if k = k' then None else ks_live r k)"
  by (auto simp: ks_live_def split: option.split prod.split)

lemma ks_live_put: "ks_live (ks_put r k' v ttl) k = (if k = k' then Some v else ks_live r k)"
  by (auto simp: ks_live_def ks_put_def split: option.split prod.split)

lemma ks_put_sel [simp]: "ks_zsets (ks_put r k v ttl) = ks_zsets r" "ks_now (ks_put r k v ttl) = ks_now r"
  by (simp_all add: ks_put_def)

lemma set_z_insert [simp]: "set (z_insert s m zs) = insert (s, m) (set zs)"
  by (induction s m zs rule: z_insert.induct) auto

lemma length_z_insert [simp]: "length (z_insert s m zs) = Suc (length zs)"
  by (induction s m zs rule: z_insert.induct) auto

section \<open>The token store contract\<close>

definition redis_auth :: "'r RedisClient \<Rightarrow> 'r AuthRepo" where
  "redis_auth client =
     \<lparr>sr_CreateSession = red_CreateSession client, sr_DeleteSession = red_DeleteSession client,
      tr_StoreRefreshToken = red_StoreRefreshToken client,
      tr_GetRefreshTokenUserID = red_GetRefreshTokenUserID client,
      tr_DeleteRefreshToken = red_DeleteRefreshToken client,
      tr_AddToDenyList = (\<lambda>r now. red_AddToDenyList client r),
      tr_IsInDenyList = (\<lambda>r now. red_IsInDenyList client r)\<rparr>"

interpretation redis_tokens: token_store "redis_auth ks_client"
  by unfold_locales
    (auto simp: redis_auth_def red_DeleteRefreshToken_def red_StoreRefreshToken_def
      red_GetRefreshTokenUserID_def ks_live_put split: if_splits)

end
