(* ===== verification/Session_Manager.thy ===== *)
theory Session_Manager
  imports Redis_Store
begin

text \<open>
  The session manager, \<^verbatim>\<open>internal/storage/redis/session_manager.go\<close>. A request is the value of its
  \<^verbatim>\<open>User-Agent\<close> header, or \<^term>\<open>None\<close> for a nil request. \<open>now\<close> is the reading of the clock that the
  call compares or stores; metrics and log lines are left out.
\<close>

record SessionConfig =
  DefaultTTL :: int
  EnableRotation :: bool
  RotationInterval :: int
  EnableDeviceBinding :: bool
  MaxSessionsPerUser :: int

definition session_key :: "string \<Rightarrow> string" where "session_key i = ''session:'' @ i"
definition user_sessions_key :: "string \<Rightarrow> string" where "user_sessions_key u = ''user_sessions:'' @ u"

definition computeDeviceFingerprint :: "string \<Rightarrow> string" where
  "computeDeviceFingerprint ua = b64_encode (sha256 (bytes_of ua))"

section \<open>Operations\<close>

definition sm_DeleteSession :: "'r RedisClient \<Rightarrow> 'r \<Rightarrow> string \<Rightarrow> string \<Rightarrow> (go_error, unit) outcome \<times> 'r" where
  "sm_DeleteSession client r userID sessionID =
     (case rd_Del client r (session_key sessionID) of
        (Panic, r1) \<Rightarrow> (Panic, r1)
      | (Fail err, r1) \<Rightarrow> (Fail (Wrapf ''could not delete session key'' err), r1)
      | (Ok _, r1) \<Rightarrow>
          (case rd_ZRem client r1 (user_sessions_key userID) sessionID of
             (Panic, r2) \<Rightarrow> (Panic, r2)
           | (Fail err, r2) \<Rightarrow> (Fail (Wrapf ''could not remove session from user set'' err), r2)
           | (Ok _, r2) \<Rightarrow> (Ok (), r2)))"

definition sm_GetSession ::
    "'r RedisClient \<Rightarrow> SessionConfig \<Rightarrow> time \<Rightarrow> 'r \<Rightarrow> string \<Rightarrow> string option \<Rightarrow> (go_error, UserSession) outcome \<times> 'r" where
  "sm_GetSession client cfg now r sessionID req =
     (case rd_Get client r (session_key sessionID) of
        Panic \<Rightarrow> (Panic, r)
      | Fail _ \<Rightarrow> (Fail ErrNotFound, r)
      | Ok data \<Rightarrow>
          (case unmarshal data of
             None \<Rightarrow> (Fail (Wrapf ''could not unmarshal session'' (Errorf ''json'')), r)
           | Some session \<Rightarrow>
               if now > SExpiresAt session
               then (case sm_DeleteSession client r (SUserID session) (SID session) of
                       (Panic, r1) \<Rightarrow> (Panic, r1)
                     | (_, r1) \<Rightarrow> (Fail ErrSessionExpired, r1))
               else if EnableDeviceBinding cfg
               then (case req of
                       None \<Rightarrow> (Panic, r)
                     | Some ua \<Rightarrow>
                         if SDeviceFingerprint session \<noteq> computeDeviceFingerprint ua then (Fail ErrDeviceMismatch, r)
                         else (Ok session, r))
               else (Ok session, r)))"

definition enforceMaxSessions ::
    "'r RedisClient \<Rightarrow> SessionConfig \<Rightarrow> 'r \<Rightarrow> string \<Rightarrow> (go_error, unit) outcome \<times> 'r" where
  "enforceMaxSessions client cfg r userID =
     (case rd_ZCard client r (user_sessions_key userID) of
        Panic \<Rightarrow> (Panic, r)
      | Fail err \<Rightarrow> (Fail (Wrapf ''could not get user session count'' err), r)
      | Ok count \<Rightarrow>
          if count < MaxSessionsPerUser cfg then (Ok (), r)
          else
            (let numToEvict = count - MaxSessionsPerUser cfg + 1
             in if numToEvict \<le> 0 then (Ok (), r)
                else case rd_ZRemRangeByRank client r (user_sessions_key userID) 0 (numToEvict - 1) of
                  (Panic, r1) \<Rightarrow> (Panic, r1)
                | (Fail err, r1) \<Rightarrow> (Fail (Wrapf ''could not retrieve sessions for eviction'' err), r1)
                | (Ok _, r1) \<Rightarrow> (Ok (), r1)))"

definition sm_CreateSession ::
    "'r RedisClient \<Rightarrow> SessionConfig \<Rightarrow> time \<Rightarrow> string \<Rightarrow> 'r \<Rightarrow> string \<Rightarrow> (go_error, UserSession) outcome \<times> 'r" where
  "sm_CreateSession client cfg now uuid r userID =
     (case (if MaxSessionsPerUser cfg > 0 then enforceMaxSessions client cfg r userID else (Ok (), r)) of
        (Panic, r1) \<Rightarrow> (Panic, r1)
      | (_, r1) \<Rightarrow>
          (let session = \<lparr>SID = uuid, SUserID = userID, SIPAddress = [], SUserAgent = [], SCreatedAt = now,
                          SExpiresAt = now + DefaultTTL cfg, SDeviceFingerprint = [], SLastRotatedAt = now\<rparr>
           in case rd_SetNX client r1 (session_key uuid) (Json session) (DefaultTTL cfg) of
                (Panic, r2) \<Rightarrow> (Panic, r2)
              | (Fail err, r2) \<Rightarrow> (Fail (Wrapf ''could not store session in redis'' err), r2)
              | (Ok False, r2) \<Rightarrow> (Fail (Errorf ''session already exists''), r2)
              | (Ok True, r2) \<Rightarrow>
                  (case rd_ZAdd client r2 (user_sessions_key userID) now uuid of
                     (Panic, r3) \<Rightarrow> (Panic, r3)
                   | (Fail err, r3) \<Rightarrow>
                       (case rd_Del client r3 (session_key uuid) of
                          (Panic, r4) \<Rightarrow> (Panic, r4)
                        | (_, r4) \<Rightarrow> (Fail (Wrapf ''could not add session to user set'' err), r4))
                   | (Ok _, r3) \<Rightarrow> (Ok session, r3))))"

definition grace_period :: int where "grace_period = 300000000000"

definition RotateSession ::
    "'r RedisClient \<Rightarrow> SessionConfig \<Rightarrow> time \<Rightarrow> string \<Rightarrow> 'r \<Rightarrow> string \<Rightarrow> string option \<Rightarrow> (go_error, UserSession) outcome \<times> 'r" where
  "RotateSession client cfg now uuid r oldSessionID req =
     (case sm_GetSession client cfg now r oldSessionID req of
        (Panic, r1) \<Rightarrow> (Panic, r1)
      | (Fail err, r1) \<Rightarrow> (Fail err, r1)
      | (Ok oldSession, r1) \<Rightarrow>
          (case sm_CreateSession client cfg now uuid r1 (SUserID oldSession) of
             (Panic, r2) \<Rightarrow> (Panic, r2)
           | (Fail err, r2) \<Rightarrow> (Fail (Wrapf ''could not create new session during rotation'' err), r2)
           | (Ok newSession, r2) \<Rightarrow>
               (case rd_Set client r2 (session_key oldSessionID) (Text (SID newSession)) grace_period of
                  (Panic, r3) \<Rightarrow> (Panic, r3)
                | (_, r3) \<Rightarrow>
                    (case rd_ZRem client r3 (user_sessions_key (SUserID oldSession)) oldSessionID of
                       (Panic, r4) \<Rightarrow> (Panic, r4)
                     | (_, r4) \<Rightarrow>
                         (Ok (newSession\<lparr>SDeviceFingerprint := SDeviceFingerprint oldSession,
                                SIPAddress := SIPAddress oldSession, SUserAgent := SUserAgent oldSession\<rparr>),
                          r4)))))"

text \<open>
  The last loop of \<^verbatim>\<open>GetUserSessions\<close>, over the identifiers and the values read for them. Missing and
  expired sessions are removed from the set.
\<close>

fun collect_sessions ::
    "'r RedisClient \<Rightarrow> time \<Rightarrow> string \<Rightarrow> (string \<times> redis_value option) list \<Rightarrow> 'r \<Rightarrow> (go_error, UserSession list) outcome \<times> 'r" where
  "collect_sessions client now userID [] r = (Ok [], r)"
| "collect_sessions client now userID ((i, v) # ivs) r =
     (let cleanup = (case sm_DeleteSession client r userID i of
                       (Panic, r1) \<Rightarrow> (Panic, r1)
                     | (_, r1) \<Rightarrow> collect_sessions client now userID ivs r1)
      in case v of
           None \<Rightarrow> cleanup
         | Some data \<Rightarrow>
             (case unmarshal data of
                None \<Rightarrow> collect_sessions client now userID ivs r
              | Some session \<Rightarrow>
                  if now > SExpiresAt session then cleanup
                  else (case collect_sessions client now userID ivs r of
                          (Ok ss, r1) \<Rightarrow> (Ok (session # ss), r1)
                        | other \<Rightarrow> other)))"

definition sm_GetUserSessions ::
    "'r RedisClient \<Rightarrow> time \<Rightarrow> 'r \<Rightarrow> string \<Rightarrow> (go_error, UserSession list) outcome \<times> 'r" where
  "sm_GetUserSessions client now r userID =
     (case rd_ZRangeAll client r (user_sessions_key userID) of
        Panic \<Rightarrow> (Panic, r)
      | Fail err \<Rightarrow> (Fail (Wrapf ''could not retrieve session IDs'' err), r)
      | Ok ids \<Rightarrow>
          if ids = [] then (Ok [], r)
          else case rd_MGet client r (map session_key ids) of
            Panic \<Rightarrow> (Panic, r)
          | Fail err \<Rightarrow> (Fail (Wrapf ''could not retrieve sessions'' err), r)
          | Ok results \<Rightarrow> collect_sessions client now userID (zip ids results) r)"

definition RevokeSession ::
    "'r RedisClient \<Rightarrow> SessionConfig \<Rightarrow> time \<Rightarrow> 'r \<Rightarrow> string \<Rightarrow> string \<Rightarrow> (go_error, unit) outcome \<times> 'r" where
  "RevokeSession client cfg now r userID sessionID =
     (if userID \<noteq> [] then sm_DeleteSession client r userID sessionID
      else case sm_GetSession client cfg now r sessionID None of
        (Panic, r1) \<Rightarrow> (Panic, r1)
      | (Fail err, r1) \<Rightarrow> if err = ErrNotFound then (Ok (), r1) else (Fail err, r1)
      | (Ok session, r1) \<Rightarrow> sm_DeleteSession client r1 (SUserID session) sessionID)"

fun revoke_each :: "'r RedisClient \<Rightarrow> string \<Rightarrow> string list \<Rightarrow> 'r \<Rightarrow> (go_error, unit) outcome \<times> 'r" where
  "revoke_each client userID [] r = (Ok (), r)"
| "revoke_each client userID (i # ids) r =
     (case sm_DeleteSession client r userID i of
        (Panic, r1) \<Rightarrow> (Panic, r1)
      | (_, r1) \<Rightarrow> revoke_each client userID ids r1)"

definition RevokeAllUserSessions :: "'r RedisClient \<Rightarrow> 'r \<Rightarrow> string \<Rightarrow> (go_error, unit) outcome \<times> 'r" where
  "RevokeAllUserSessions client r userID =
     (case rd_ZRangeAll client r (user_sessions_key userID) of
        Panic \<Rightarrow> (Panic, r)
      | Fail err \<Rightarrow> (Fail err, r)
      | Ok ids \<Rightarrow> revoke_each client userID ids r)"

section \<open>Deleting and revoking\<close>

lemma session_key_inject [simp]: "session_key i = session_key j \<longleftrightarrow> i = j"
  by (simp add: session_key_def)

lemma sm_DeleteSession_ks:
  "sm_DeleteSession ks_client r u i =
     (Ok (), r\<lparr>ks_strings := (ks_strings r)(session_key i := None),
               ks_zsets := (ks_zsets r)(user_sessions_key u := filter (\<lambda>z. snd z \<noteq> i) (ks_zsets r (user_sessions_key u)))\<rparr>)"
  by (simp add: sm_DeleteSession_def)

text \<open>What a live session key holds decides what \<^verbatim>\<open>GetSession\<close> returns.\<close>

lemma sm_GetSession_cong:
  "ks_live r' (session_key i) = ks_live r (session_key i) \<Longrightarrow>
     fst (sm_GetSession ks_client cfg now r' i req) = fst (sm_GetSession ks_client cfg now r i req)"
  by (auto simp: sm_GetSession_def sm_DeleteSession_ks split: option.splits)

lemma revoke_each_ks:
  "\<exists>r'. revoke_each ks_client u ids r = (Ok (), r') \<and>
    (\<forall>i. ks_live r' (session_key i) = (if i \<in> set ids then None else ks_live r (session_key i))) \<and>
    ks_zsets r' = (ks_zsets r)(user_sessions_key u := filter (\<lambda>z. snd z \<notin> set ids) (ks_zsets r (user_sessions_key u)))"
proof (induction ids arbitrary: r)
  case (Cons j ids)
  let ?r1 = "snd (sm_DeleteSession ks_client r u j)"
  obtain r' where r': "revoke_each ks_client u ids ?r1 = (Ok (), r')"
    and live: "\<forall>i. ks_live r' (session_key i) = (if i \<in> set ids then None else ks_live ?r1 (session_key i))"
    and zs: "ks_zsets r' = (ks_zsets ?r1)(user_sessions_key u :=
        filter (\<lambda>z. snd z \<notin> set ids) (ks_zsets ?r1 (user_sessions_key u)))"
    using Cons.IH [of ?r1] by blast
  have "revoke_each ks_client u (j # ids) r = (Ok (), r')"
    using r' by (simp add: sm_DeleteSession_ks)
  moreover have "\<forall>i. ks_live r' (session_key i) = (if i \<in> set (j # ids) then None else ks_live r (session_key i))"
    using live by (simp add: sm_DeleteSession_ks)
  moreover have "ks_zsets r' = (ks_zsets r)(user_sessions_key u :=
      filter (\<lambda>z. snd z \<notin> set (j # ids)) (ks_zsets r (user_sessions_key u)))"
    using zs by (simp add: sm_DeleteSession_ks conj_commute)
  ultimately show ?case by blast
qed simp

lemma RevokeAll_ks:
  "\<exists>r'. RevokeAllUserSessions ks_client r u = (Ok (), r') \<and>
    (\<forall>i. ks_live r' (session_key i) =
       (if i \<in> snd ` set (ks_zsets r (user_sessions_key u)) then None else ks_live r (session_key i))) \<and>
    ks_zsets r' (user_sessions_key u) = []"
  using revoke_each_ks [of u "map snd (ks_zsets r (user_sessions_key u))" r]
  by (auto simp: RevokeAllUserSessions_def)

section \<open>Creating\<close>

lemma enforceMaxSessions_ks:
  assumes "0 < MaxSessionsPerUser cfg"
  shows "enforceMaxSessions ks_client cfg r u = (Ok (), r\<lparr>ks_zsets := (ks_zsets r)(user_sessions_key u :=
      drop (Suc (length (ks_zsets r (user_sessions_key u))) - nat (MaxSessionsPerUser cfg))
        (ks_zsets r (user_sessions_key u)))\<rparr>)"
proof -
  let ?zs = "ks_zsets r (user_sessions_key u)"
  show ?thesis
  proof (cases "int (length ?zs) < MaxSessionsPerUser cfg")
    case True
    with assms show ?thesis by (simp add: enforceMaxSessions_def)
  next
    case False
    moreover have "nat (int (length ?zs) - MaxSessionsPerUser cfg + 1) = Suc (length ?zs) - nat (MaxSessionsPerUser cfg)"
      using False assms by simp
    ultimately show ?thesis
      by (simp add: enforceMaxSessions_def Let_def) (simp add: ks_client_def Let_def)
  qed
qed

lemma CreateSession_ks:
  assumes "sm_CreateSession ks_client cfg now uuid r u = (Ok s, r')"
  shows "s = \<lparr>SID = uuid, SUserID = u, SIPAddress = [], SUserAgent = [], SCreatedAt = now,
           SExpiresAt = now + DefaultTTL cfg, SDeviceFingerprint = [], SLastRotatedAt = now\<rparr> \<and>
    (\<forall>i. ks_live r' (session_key i) = (if i = uuid then Some (Json s) else ks_live r (session_key i))) \<and>
    (\<exists>k. ks_zsets r' (user_sessions_key u) =
       z_insert now uuid (filter (\<lambda>z. snd z \<noteq> uuid) (drop k (ks_zsets r (user_sessions_key u)))) \<and>
       (0 < MaxSessionsPerUser cfg \<longrightarrow>
          k = Suc (length (ks_zsets r (user_sessions_key u))) - nat (MaxSessionsPerUser cfg)))"
proof -
  define r1 where "r1 = (if MaxSessionsPerUser cfg > 0 then snd (enforceMaxSessions ks_client cfg r u) else r)"
  have e: "(if MaxSessionsPerUser cfg > 0 then enforceMaxSessions ks_client cfg r u else (Ok (), r)) = (Ok (), r1)"
    and live: "\<forall>k. ks_live r1 k = ks_live r k"
    by (simp_all add: r1_def enforceMaxSessions_ks)
  have z: "\<exists>k. ks_zsets r1 (user_sessions_key u) = drop k (ks_zsets r (user_sessions_key u)) \<and>
       (0 < MaxSessionsPerUser cfg \<longrightarrow>
          k = Suc (length (ks_zsets r (user_sessions_key u))) - nat (MaxSessionsPerUser cfg))"
  proof (cases "0 < MaxSessionsPerUser cfg")
    case False
    then show ?thesis by (intro exI [of _ 0]) (simp add: r1_def)
  qed (simp add: r1_def enforceMaxSessions_ks)
  show ?thesis
    using assms z by (simp only: sm_CreateSession_def e)
      (auto simp: Let_def live ks_live_put split: option.splits)
qed

section \<open>Properties\<close>

definition demo_session_cfg :: SessionConfig where
  "demo_session_cfg = \<lparr>DefaultTTL = 86400000000000, EnableRotation = True, RotationInterval = 3600000000000,
     EnableDeviceBinding = True, MaxSessionsPerUser = 1\<rparr>"

definition demo_old_session :: UserSession where
  "demo_old_session = \<lparr>SID = ''s0'', SUserID = ''u1'', SIPAddress = [], SUserAgent = [], SCreatedAt = 0,
     SExpiresAt = 100, SDeviceFingerprint = [], SLastRotatedAt = 0\<rparr>"

definition demo_keys :: keyspace where
  "demo_keys = \<lparr>ks_now = 0, ks_strings = [session_key ''s0'' \<mapsto> (Json demo_old_session, None)],
     ks_zsets = (\<lambda>k. if k = user_sessions_key ''u1'' then [(0, ''s0'')] else [])\<rparr>"

text \<open>
  The limit on concurrent sessions removes the oldest session from the user's set but not the session
  itself: the evicted session is as valid as before, and because it is no longer in the set, revoking
  all of the user's sessions (as a password reset does) does not end it either.
\<close>

theorem evicted_session_survives:
  assumes "0 < MaxSessionsPerUser cfg" and "ks_zsets r (user_sessions_key u) = (score, old) # rest"
    and "MaxSessionsPerUser cfg \<le> int (length ((score, old) # rest))" and "old \<notin> snd ` set rest" and "old \<noteq> uuid"
    and "sm_CreateSession ks_client cfg now uuid r u = (Ok s, r')"
    and "RevokeAllUserSessions ks_client r' u = (res, r'')"
  shows "fst (sm_GetSession ks_client cfg' now' r'' old req) = fst (sm_GetSession ks_client cfg' now' r old req)"
proof -
  let ?zs = "(score, old) # rest"
  have live: "ks_live r' (session_key old) = ks_live r (session_key old)"
    using CreateSession_ks [OF assms(6)] assms(5) by simp
  have "ks_zsets r' (user_sessions_key u) = z_insert now uuid
      (filter (\<lambda>z. snd z \<noteq> uuid) (drop (Suc (length ?zs) - nat (MaxSessionsPerUser cfg)) ?zs))"
    using CreateSession_ks [OF assms(6)] assms(1,2) by simp
  moreover obtain k where "Suc (length ?zs) - nat (MaxSessionsPerUser cfg) = Suc k"
    using assms(3) by (cases "Suc (length ?zs) - nat (MaxSessionsPerUser cfg)") auto
  ultimately have "old \<notin> snd ` set (ks_zsets r' (user_sessions_key u))"
    using assms(4,5) by (auto dest: in_set_dropD)
  with RevokeAll_ks [of r' u] assms(7) live
  have "ks_live r'' (session_key old) = ks_live r (session_key old)" by auto
  then show ?thesis by (rule sm_GetSession_cong)
qed

theorem evicted_session_survives_witness:
  "\<exists>s r' r''. sm_CreateSession ks_client demo_session_cfg 5 ''s1'' demo_keys ''u1'' = (Ok s, r') \<and>
     RevokeAllUserSessions ks_client r' ''u1'' = (Ok (), r'') \<and>
     fst (sm_GetSession ks_client (demo_session_cfg\<lparr>EnableDeviceBinding := False\<rparr>) 6 r'' ''s0'' None) = Ok demo_old_session"
proof -
  obtain s r' where c: "sm_CreateSession ks_client demo_session_cfg 5 ''s1'' demo_keys ''u1'' = (Ok s, r')"
    by (simp add: sm_CreateSession_def enforceMaxSessions_ks demo_session_cfg_def demo_keys_def Let_def
        ks_live_def session_key_def)
  obtain r'' where v: "RevokeAllUserSessions ks_client r' ''u1'' = (Ok (), r'')"
    using RevokeAll_ks by blast
  have "fst (sm_GetSession ks_client (demo_session_cfg\<lparr>EnableDeviceBinding := False\<rparr>) 6 r'' ''s0'' None) =
      fst (sm_GetSession ks_client (demo_session_cfg\<lparr>EnableDeviceBinding := False\<rparr>) 6 demo_keys ''s0'' None)"
    by (rule evicted_session_survives [OF _ _ _ _ _ c v, of 0 "''s0''" "[]"])
      (simp_all add: demo_session_cfg_def demo_keys_def)
  also have "\<dots> = Ok demo_old_session"
    by (simp add: sm_GetSession_def demo_session_cfg_def demo_keys_def ks_live_def demo_old_session_def)
  finally show ?thesis using c v by blast
qed

text \<open>
  With device binding on, as the server configures it, no session can be used: \<^verbatim>\<open>CreateSession\<close> stores
  no fingerprint, and every later \<^verbatim>\<open>GetSession\<close> within the session's lifetime is refused with
  \<^verbatim>\<open>ErrDeviceMismatch\<close>, from the device that created it as from any other.
\<close>

theorem CreateSession_never_readable:
  assumes "EnableDeviceBinding cfg" and "sm_CreateSession ks_client cfg now uuid r u = (Ok s, r')"
    and "now' \<le> now + DefaultTTL cfg"
  shows "fst (sm_GetSession ks_client cfg now' r' uuid (Some ua)) = Fail ErrDeviceMismatch"
proof -
  have "computeDeviceFingerprint ua \<noteq> []"
    using length_sha256 [of "bytes_of ua"] by (auto simp: computeDeviceFingerprint_def simp del: length_sha256)
  with CreateSession_ks [OF assms(2)] assms(1,3) show ?thesis
    by (simp add: sm_GetSession_def)
qed

theorem CreateSession_never_readable_witness:
  "\<exists>s r'. sm_CreateSession ks_client demo_session_cfg 5 ''s1'' demo_keys ''u1'' = (Ok s, r') \<and>
     fst (sm_GetSession ks_client demo_session_cfg 6 r' ''s1'' (Some ''curl'')) = Fail ErrDeviceMismatch"
proof -
  obtain s r' where c: "sm_CreateSession ks_client demo_session_cfg 5 ''s1'' demo_keys ''u1'' = (Ok s, r')"
    by (simp add: sm_CreateSession_def enforceMaxSessions_ks demo_session_cfg_def demo_keys_def Let_def
        ks_live_def session_key_def)
  with CreateSession_never_readable [OF _ c, of 6 "''curl''"] show ?thesis
    by (simp add: demo_session_cfg_def)
qed

text \<open>
  C33: Revoking all sessions ends exactly the sessions of the user's set: each of them is gone, the set is
  empty, and every other session answers as before.
\<close>

theorem RevokeAllUserSessions_exact:
  "\<exists>r'. RevokeAllUserSessions ks_client r u = (Ok (), r') \<and> ks_zsets r' (user_sessions_key u) = [] \<and>
    (\<forall>i. fst (sm_GetSession ks_client cfg now r' i req) =
       (if i \<in> snd ` set (ks_zsets r (user_sessions_key u)) then Fail ErrNotFound
        else fst (sm_GetSession ks_client cfg now r i req)))"
proof -
  obtain r' where r': "RevokeAllUserSessions ks_client r u = (Ok (), r')" "ks_zsets r' (user_sessions_key u) = []"
    and live: "\<forall>i. ks_live r' (session_key i) =
       (if i \<in> snd ` set (ks_zsets r (user_sessions_key u)) then None else ks_live r (session_key i))"
    using RevokeAll_ks [of r u] by blast
  have "fst (sm_GetSession ks_client cfg now r' i req) =
       (if i \<in> snd ` set (ks_zsets r (user_sessions_key u)) then Fail ErrNotFound
        else fst (sm_GetSession ks_client cfg now r i req))" for i
  proof (cases "i \<in> snd ` set (ks_zsets r (user_sessions_key u))")
    case True
    with live have "ks_live r' (session_key i) = None" by simp
    with True show ?thesis by (simp add: sm_GetSession_def)
  next
    case False
    with live sm_GetSession_cong [of r' i r] show ?thesis by simp
  qed
  with r' show ?thesis by blast
qed

text \<open>Revoking a session without a user passes a nil request on, which device binding dereferences.\<close>

lemma RevokeSession_nil_request:
  assumes "EnableDeviceBinding cfg" and "ks_live r (session_key i) = Some (Json s)" and "now \<le> SExpiresAt s"
  shows "RevokeSession ks_client cfg now r [] i = (Panic, r)"
  using assms by (simp add: RevokeSession_def sm_GetSession_def)

text \<open>In the grace period after a rotation the old identifier does not lead to the new session.\<close>

lemma RotateSession_old_id_unreadable:
  assumes "RotateSession ks_client cfg now uuid r old req = (Ok s, r')"
  shows "\<exists>e. fst (sm_GetSession ks_client cfg now' r' old req') = Fail (Wrapf ''could not unmarshal session'' e)"
proof -
  have "ks_live r' (session_key old) = Some (Text (SID s))"
    using assms by (auto simp: RotateSession_def ks_live_put split: outcome.splits prod.splits)
  then show ?thesis by (simp add: sm_GetSession_def)
qed

end
