(* ===== verification/OAuth.thy ===== *)
theory OAuth
  imports Redis_Store Identity_Repository
begin

text \<open>
  OAuth 2.1 and OpenID Connect: the protocol adapters \<^verbatim>\<open>pkg/auth/protocols/oauth.go\<close> and
  \<^verbatim>\<open>oidc.go\<close>, proof keys (\<^verbatim>\<open>internal/domain/auth/pkce.go\<close>), and the device flow, client
  registration and claims mapping of \<^verbatim>\<open>internal/domain/oauth\<close>. Signing and parsing tokens (JWT), the
  repositories, the clock and the random bytes are arguments. The state of the adapter is the Redis
  server together with the store of the standard errors.
\<close>

section \<open>Proof keys\<close>

text \<open>\<^verbatim>\<open>base64.URLEncoding\<close> and \<^verbatim>\<open>base64.RawURLEncoding\<close>: two other characters, and no padding.\<close>

definition b64url_char :: "char \<Rightarrow> char" where
  "b64url_char c = (if c = CHR ''+'' then CHR ''-'' else if c = CHR ''/'' then CHR ''_'' else c)"

definition b64url_encode :: "bytes \<Rightarrow> string" where
  "b64url_encode bs = map b64url_char (b64_encode bs)"

definition b64rawurl_encode :: "bytes \<Rightarrow> string" where
  "b64rawurl_encode bs = takeWhile (\<lambda>c. c \<noteq> CHR ''='') (b64url_encode bs)"

definition VerifyPKCE :: "string \<Rightarrow> string \<Rightarrow> string \<Rightarrow> bool" where
  "VerifyPKCE codeVerifier codeChallenge codeChallengeMethod =
     (if codeChallengeMethod = ''S256'' then b64rawurl_encode (sha256 (bytes_of codeVerifier)) = codeChallenge
      else if codeChallengeMethod = ''plain'' then codeVerifier = codeChallenge
      else False)"

section \<open>Requests, responses and collaborators\<close>

record Application =
  AppID :: string
  AppName :: string
  AppDescription :: string
  AppStatus :: string
  AppClientType :: string
  AppProtocol :: ProtocolType
  AppProtocolConfig :: gmap
  AppCreatedAt :: time
  AppUpdatedAt :: time

definition ClientTypePublic :: string where "ClientTypePublic = ''public''"

record TokenRequest =
  TqGrantType :: string
  TqCode :: string
  TqRedirectURI :: string
  TqClientID :: string
  TqClientSecret :: string
  TqCodeVerifier :: string
  TqRefreshToken :: string
  TqUserID :: string
  TqScope :: string

record TokenResponse =
  TrAccessToken :: string
  TrTokenType :: string
  TrExpiresIn :: int
  TrRefreshToken :: string
  TrIDToken :: string
  TrScope :: string

definition ScopeContains :: "string \<Rightarrow> string \<Rightarrow> bool" where
  "ScopeContains scope s = list_ex (\<lambda>sc. sc = s) (split_on CHR '' '' scope)"

text \<open>
  Collaborators that may be nil are optional. \<open>oi_sign\<close> signs with the private key, \<open>oi_parse\<close> parses and
  verifies a token under the shared secret, \<open>oa_sign\<close> signs with that secret.
\<close>

record OIDCAdapter =
  oi_sign :: "gmap \<Rightarrow> (go_error, string) outcome"
  oi_parse :: "string \<Rightarrow> (go_error, gmap) outcome"
  oi_GetUserByID :: "string \<Rightarrow> (go_error, User) outcome"

record 'r OAuthAdapter =
  oa_redis :: "'r RedisClient"
  oa_appRepo :: "(string \<Rightarrow> (go_error, Application) outcome) option"
  oa_GetUserByID :: "string \<Rightarrow> (go_error, User) outcome"
  oa_sign :: "gmap \<Rightarrow> (go_error, string) outcome"
  oa_oidc :: "OIDCAdapter option"

record 'r oauth_world =
  ow_redis :: 'r
  ow_errs :: err_store

definition of_cause ::
    "'r oauth_world \<Rightarrow> go_error \<Rightarrow> go_error \<Rightarrow> (go_error, 'a) outcome \<times> 'r oauth_world" where
  "of_cause w e err = (let (e', h) = WithCause (ow_errs w) e err in (Fail e', w\<lparr>ow_errs := h\<rparr>))"

definition of_details ::
    "'r oauth_world \<Rightarrow> go_error \<Rightarrow> string \<Rightarrow> (go_error, 'a) outcome \<times> 'r oauth_world" where
  "of_details w e msg = (let (e', h) = WithDetails (ow_errs w) e [(''error'', msg)] in (Fail e', w\<lparr>ow_errs := h\<rparr>))"

text \<open>Reading a missing key of a \<^verbatim>\<open>map[string]string\<close> gives the empty string.\<close>

definition cred :: "(string \<rightharpoonup> string) \<Rightarrow> string \<Rightarrow> string" where
  "cred m k = (case m k of None \<Rightarrow> [] | Some v \<Rightarrow> v)"

text \<open>
  The stored JSON object as a map; text that is no object leaves the map nil (the code ignores the error). A type
  assertion to \<^verbatim>\<open>string\<close> on a missing key panics.
\<close>

fun unmarshal_map :: "redis_value \<Rightarrow> (string \<times> string) list" where
  "unmarshal_map (JsonMap kvs) = kvs"
| "unmarshal_map _ = []"

definition str_field :: "(string \<times> string) list \<Rightarrow> string \<Rightarrow> (go_error, string) outcome" where
  "str_field kvs k = (case map_of kvs k of None \<Rightarrow> Panic | Some v \<Rightarrow> Ok v)"

section \<open>The authorization endpoint\<close>

definition authcode_ttl :: int where "authcode_ttl = 600000000000"
definition refresh_ttl :: int where "refresh_ttl = 604800000000000"

text \<open>\<open>rnd\<close> holds the 32 random bytes of the code.\<close>

definition auth_code_data :: "(string \<rightharpoonup> string) \<Rightarrow> (string \<times> string) list" where
  "auth_code_data q =
     [(''user_id'', cred q ''user_id''), (''client_id'', cred q ''client_id''),
      (''redirect_uri'', cred q ''redirect_uri''), (''code_challenge'', cred q ''code_challenge''),
      (''challenge_method'', cred q ''code_challenge_method''), (''scope'', cred q ''scope''),
      (''nonce'', cred q ''nonce'')]"

definition HandleAuthRequest ::
    "'r OAuthAdapter \<Rightarrow> bytes \<Rightarrow> 'r oauth_world \<Rightarrow> AuthRequest \<Rightarrow> (go_error, AuthResponse) outcome \<times> 'r oauth_world" where
  "HandleAuthRequest a rnd w request =
     (case oa_appRepo a of
        None \<Rightarrow> (Panic, w)
      | Some GetApplicationByClientID \<Rightarrow>
          (let q = ReqCredentials request in
           if cred q ''response_type'' \<noteq> ''code'' then of_details w ErrInvalidRequest ''unsupported response_type''
           else case GetApplicationByClientID (cred q ''client_id'') of
             Panic \<Rightarrow> (Panic, w)
           | Fail err \<Rightarrow> of_cause w ErrInvalidClient err
           | Ok app \<Rightarrow>
               (case AppProtocolConfig app ''redirect_uris'' of
                  Some (VStrings redirectURIs) \<Rightarrow>
                    (if \<not> list_ex (\<lambda>uri. uri = cred q ''redirect_uri'') redirectURIs
                     then of_details w ErrInvalidRequest ''invalid redirect_uri''
                     else if AppClientType app = ClientTypePublic \<and>
                        (cred q ''code_challenge'' = [] \<or> cred q ''code_challenge_method'' = [])
                     then of_details w ErrInvalidRequest ''public clients must use pkce''
                     else
                       (let code = b64url_encode rnd
                        in case rd_Set (oa_redis a) (ow_redis w) (''authcode:'' @ code)
                              (JsonMap (auth_code_data q)) authcode_ttl of
                             (Panic, r) \<Rightarrow> (Panic, w\<lparr>ow_redis := r\<rparr>)
                           | (Fail err, r) \<Rightarrow> of_cause (w\<lparr>ow_redis := r\<rparr>) ErrInternal err
                           | (Ok _, r) \<Rightarrow>
                               (Ok \<lparr>RespSuccess = False, RespToken = None, RespUser = None, RespError = None,
                                    RespNext = None, RespCode = code, RespRedirectURI = cred q ''redirect_uri'',
                                    RespState = cred q ''state'', RespNextStep = [], RespRequiredMFA = []\<rparr>,
                                w\<lparr>ow_redis := r\<rparr>)))
                | _ \<Rightarrow> of_details w ErrInvalidClient ''invalid client configuration'')))"

section \<open>Tokens\<close>

definition unix :: "time \<Rightarrow> int" where "unix t = t div 1000000000"
definition one_hour :: int where "one_hour = 3600000000000"

definition user_attr :: "User \<Rightarrow> string \<Rightarrow> gvalue" where
  "user_attr u k =
     (case UAttributes u of None \<Rightarrow> VNil | Some m \<Rightarrow> (case m k of None \<Rightarrow> VNil | Some v \<Rightarrow> v))"

text \<open>The claims that a scope adds; with such a scope and no user the code dereferences nil.\<close>

definition scope_claims :: "User \<Rightarrow> string \<Rightarrow> gmap \<Rightarrow> gmap" where
  "scope_claims user scope claims =
     (let c1 = (if ScopeContains scope ''email''
                then claims(''email'' \<mapsto> VString (Email user), ''email_verified'' \<mapsto> VBool (Status user = UserStatusActive))
                else claims)
      in if ScopeContains scope ''profile'' then c1(''name'' \<mapsto> user_attr user ''name'') else c1)"

definition generateAccessToken ::
    "'r OAuthAdapter \<Rightarrow> (nat \<Rightarrow> time) \<Rightarrow> User option \<Rightarrow> string \<Rightarrow> (go_error, string) outcome" where
  "generateAccessToken a clock user scope =
     (let claims = [''exp'' \<mapsto> VInt (unix (clock 0 + one_hour)), ''iat'' \<mapsto> VInt (unix (clock 1)),
                    ''scope'' \<mapsto> VString scope]
      in case user of
           None \<Rightarrow> if ScopeContains scope ''email'' \<or> ScopeContains scope ''profile'' then Panic else oa_sign a claims
         | Some u \<Rightarrow> oa_sign a (scope_claims u scope (claims(''sub'' \<mapsto> VString (UID u)))))"

definition generateIDToken ::
    "OIDCAdapter option \<Rightarrow> (nat \<Rightarrow> time) \<Rightarrow> User \<Rightarrow> string \<Rightarrow> string \<Rightarrow> string \<Rightarrow> (go_error, string) outcome" where
  "generateIDToken oidc clock user scope nonce clientID =
     (case oidc of
        None \<Rightarrow> Panic
      | Some oi \<Rightarrow> oi_sign oi (scope_claims user scope
          [''iss'' \<mapsto> VString ''https://localhost:8080'', ''sub'' \<mapsto> VString (UID user), ''aud'' \<mapsto> VString clientID,
           ''exp'' \<mapsto> VInt (unix (clock 2 + one_hour)), ''iat'' \<mapsto> VInt (unix (clock 3)), ''nonce'' \<mapsto> VString nonce]))"

text \<open>\<open>rnd\<close> holds the 64 random bytes of the refresh token.\<close>

definition generateTokens ::
    "'r OAuthAdapter \<Rightarrow> (nat \<Rightarrow> time) \<Rightarrow> bytes \<Rightarrow> 'r oauth_world \<Rightarrow> User option \<Rightarrow> string \<Rightarrow> string \<Rightarrow> string
      \<Rightarrow> (go_error, TokenResponse) outcome \<times> 'r oauth_world" where
  "generateTokens a clock rnd w user scope nonce clientID =
     (case generateAccessToken a clock user scope of
        Panic \<Rightarrow> (Panic, w)
      | Fail err \<Rightarrow> (Fail err, w)
      | Ok accessToken \<Rightarrow>
          (let refreshToken = b64url_encode rnd;
               response = (\<lambda>idToken. \<lparr>TrAccessToken = accessToken, TrTokenType = ''Bearer'', TrExpiresIn = 3600,
                             TrRefreshToken = refreshToken, TrIDToken = idToken, TrScope = scope\<rparr>)
           in case user of
                None \<Rightarrow> (Ok (response []), w)
              | Some u \<Rightarrow>
                  (case rd_Set (oa_redis a) (ow_redis w) (''refresh_token:'' @ refreshToken)
                       (JsonMap [(''user_id'', UID u), (''scope'', scope), (''client_id'', clientID)]) refresh_ttl of
                     (Panic, r) \<Rightarrow> (Panic, w\<lparr>ow_redis := r\<rparr>)
                   | (Fail err, r) \<Rightarrow> of_cause (w\<lparr>ow_redis := r\<rparr>) ErrInternal err
                   | (Ok _, r) \<Rightarrow>
                       (if ScopeContains scope ''openid''
                        then (case generateIDToken (oa_oidc a) clock u scope nonce clientID of
                                Panic \<Rightarrow> (Panic, w\<lparr>ow_redis := r\<rparr>)
                              | Fail err \<Rightarrow> (Fail err, w\<lparr>ow_redis := r\<rparr>)
                              | Ok idToken \<Rightarrow> (Ok (response idToken), w\<lparr>ow_redis := r\<rparr>))
                        else (Ok (response []), w\<lparr>ow_redis := r\<rparr>)))))"

section \<open>The token endpoint\<close>

text \<open>A failing \<^verbatim>\<open>Del\<close> is logged only; the assertions on the fields are evaluated where the code evaluates them.\<close>

definition oauth_del :: "'r OAuthAdapter \<Rightarrow> 'r oauth_world \<Rightarrow> string \<Rightarrow> (go_error, unit) outcome \<times> 'r oauth_world" where
  "oauth_del a w key =
     (case rd_Del (oa_redis a) (ow_redis w) key of
        (Panic, r) \<Rightarrow> (Panic, w\<lparr>ow_redis := r\<rparr>)
      | (_, r) \<Rightarrow> (Ok (), w\<lparr>ow_redis := r\<rparr>))"

definition handleAuthorizationCode ::
    "'r OAuthAdapter \<Rightarrow> (nat \<Rightarrow> time) \<Rightarrow> bytes \<Rightarrow> 'r oauth_world \<Rightarrow> TokenRequest
      \<Rightarrow> (go_error, TokenResponse) outcome \<times> 'r oauth_world" where
  "handleAuthorizationCode a clock rnd w request =
     (case rd_Get (oa_redis a) (ow_redis w) (''authcode:'' @ TqCode request) of
        Panic \<Rightarrow> (Panic, w)
      | Fail err \<Rightarrow> of_cause w ErrInvalidGrant err
      | Ok val \<Rightarrow>
          (let d = unmarshal_map val
           in case (str_field d ''code_challenge'', str_field d ''challenge_method'') of
                (Ok challenge, Ok challengeMethod) \<Rightarrow>
                  (if \<not> VerifyPKCE (TqCodeVerifier request) challenge challengeMethod
                   then of_details w ErrInvalidGrant ''pkce verification failed''
                   else case oauth_del a w (''authcode:'' @ TqCode request) of
                     (Ok _, w1) \<Rightarrow>
                       (case str_field d ''user_id'' of
                          Ok userID \<Rightarrow>
                            (case oa_GetUserByID a userID of
                               Panic \<Rightarrow> (Panic, w1)
                             | Fail err \<Rightarrow> of_cause w1 ErrInternal err
                             | Ok user \<Rightarrow>
                                 (case (str_field d ''scope'', str_field d ''nonce'', str_field d ''client_id'') of
                                    (Ok scope, Ok nonce, Ok clientID) \<Rightarrow>
                                      generateTokens a clock rnd w1 (Some user) scope nonce clientID
                                  | _ \<Rightarrow> (Panic, w1)))
                        | _ \<Rightarrow> (Panic, w1))
                   | (_, w1) \<Rightarrow> (Panic, w1))
              | _ \<Rightarrow> (Panic, w)))"

definition handleRefreshToken ::
    "'r OAuthAdapter \<Rightarrow> (nat \<Rightarrow> time) \<Rightarrow> bytes \<Rightarrow> 'r oauth_world \<Rightarrow> TokenRequest
      \<Rightarrow> (go_error, TokenResponse) outcome \<times> 'r oauth_world" where
  "handleRefreshToken a clock rnd w request =
     (case rd_Get (oa_redis a) (ow_redis w) (''refresh_token:'' @ TqRefreshToken request) of
        Panic \<Rightarrow> (Panic, w)
      | Fail err \<Rightarrow> of_cause w ErrInvalidGrant err
      | Ok val \<Rightarrow>
          (let d = unmarshal_map val
           in case str_field d ''user_id'' of
                Ok userID \<Rightarrow>
                  (case oa_GetUserByID a userID of
                     Panic \<Rightarrow> (Panic, w)
                   | Fail err \<Rightarrow> of_cause w ErrInternal err
                   | Ok user \<Rightarrow>
                       (case oauth_del a w (''refresh_token:'' @ TqRefreshToken request) of
                          (Ok _, w1) \<Rightarrow>
                            (case (str_field d ''scope'', str_field d ''client_id'') of
                               (Ok scope, Ok clientID) \<Rightarrow> generateTokens a clock rnd w1 (Some user) scope [] clientID
                             | _ \<Rightarrow> (Panic, w1))
                        | (_, w1) \<Rightarrow> (Panic, w1)))
              | _ \<Rightarrow> (Panic, w)))"

definition handleClientCredentials ::
    "'r OAuthAdapter \<Rightarrow> (nat \<Rightarrow> time) \<Rightarrow> bytes \<Rightarrow> 'r oauth_world \<Rightarrow> TokenRequest
      \<Rightarrow> (go_error, TokenResponse) outcome \<times> 'r oauth_world" where
  "handleClientCredentials a clock rnd w request =
     (case oa_appRepo a of
        None \<Rightarrow> (Panic, w)
      | Some GetApplicationByClientID \<Rightarrow>
          (case GetApplicationByClientID (TqClientID request) of
             Panic \<Rightarrow> (Panic, w)
           | Fail err \<Rightarrow> of_cause w ErrInvalidClient err
           | Ok app \<Rightarrow>
               (case AppProtocolConfig app ''client_secret'' of
                  Some (VString clientSecret) \<Rightarrow>
                    (if clientSecret \<noteq> TqClientSecret request then of_details w ErrInvalidClient ''invalid client_secret''
                     else generateTokens a clock rnd w None [] [] (TqClientID request))
                | _ \<Rightarrow> of_details w ErrInvalidClient ''invalid client configuration'')))"

definition HandleTokenRequest ::
    "'r OAuthAdapter \<Rightarrow> (nat \<Rightarrow> time) \<Rightarrow> bytes \<Rightarrow> 'r oauth_world \<Rightarrow> TokenRequest
      \<Rightarrow> (go_error, TokenResponse) outcome \<times> 'r oauth_world" where
  "HandleTokenRequest a clock rnd w request =
     (if TqGrantType request = ''authorization_code'' then handleAuthorizationCode a clock rnd w request
      else if TqGrantType request = ''refresh_token'' then handleRefreshToken a clock rnd w request
      else if TqGrantType request = ''client_credentials'' then handleClientCredentials a clock rnd w request
      else (Fail ErrUnsupportedGrantType, w))"

section \<open>User information\<close>

definition claim_value :: "gmap \<Rightarrow> string \<Rightarrow> gvalue" where
  "claim_value m k = (case m k of None \<Rightarrow> VNil | Some v \<Rightarrow> v)"

definition GetUserInfo ::
    "OIDCAdapter \<Rightarrow> err_store \<Rightarrow> string \<Rightarrow> (go_error, gmap) outcome \<times> err_store" where
  "GetUserInfo oi h accessToken =
     (case oi_parse oi accessToken of
        Panic \<Rightarrow> (Panic, h)
      | Fail err \<Rightarrow> (let (e, h') = WithCause h ErrInvalidToken err in (Fail e, h'))
      | Ok claims \<Rightarrow>
          (case claims ''sub'' of
             Some (VString userID) \<Rightarrow>
               (case oi_GetUserByID oi userID of
                  Panic \<Rightarrow> (Panic, h)
                | Fail err \<Rightarrow> (let (e, h') = WithCause h ErrUserNotFound err in (Fail e, h'))
                | Ok user \<Rightarrow>
                    (case claims ''scope'' of
                       Some (VString scope) \<Rightarrow>
                         (let i0 = [''sub'' \<mapsto> VString (UID user)];
                              i1 = (if ScopeContains scope ''profile'' then i0(''name'' \<mapsto> claim_value claims ''name'') else i0);
                              i2 = (if ScopeContains scope ''email''
                                    then i1(''email'' \<mapsto> claim_value claims ''email'',
                                            ''email_verified'' \<mapsto> claim_value claims ''email_verified'') else i1)
                          in (Ok i2, h))
                     | _ \<Rightarrow> (Panic, h)))
           | _ \<Rightarrow> (Panic, h)))"


section \<open>Properties\<close>

lemmas oauth_fail = of_cause_def of_details_def

lemma of_cause_fst [simp]: "fst (of_cause w e err) = Fail e"
  by (simp add: of_cause_def split_beta)

lemma of_details_fst [simp]: "fst (of_details w e msg) = Fail e"
  by (simp add: of_details_def split_beta)

lemma of_cause_redis [simp]: "ow_redis (snd (of_cause w e err)) = ow_redis w"
  by (simp add: of_cause_def split_beta)

lemma of_details_redis [simp]: "ow_redis (snd (of_details w e msg)) = ow_redis w"
  by (simp add: of_details_def split_beta)

lemma of_fail_not_Ok [simp]:
  "of_cause w e err \<noteq> (Ok v, w')" "of_details w e msg \<noteq> (Ok v, w')"
  using of_cause_fst [of w e err] of_details_fst [of w e msg] by (metis fst_conv outcome.distinct(1))+

lemma oauth_del_ks [simp]:
  "oa_redis a = ks_client \<Longrightarrow>
     oauth_del a w k = (Ok (), w\<lparr>ow_redis := (ow_redis w)\<lparr>ks_strings := (ks_strings (ow_redis w))(k := None)\<rparr>\<rparr>)"
  by (simp add: oauth_del_def)

text \<open>Over the key space, the world decides nothing about the tokens that are generated.\<close>

lemma generateTokens_fst_world:
  assumes "oa_redis a = ks_client"
  shows "fst (generateTokens a clock rnd w user scope nonce cid) = fst (generateTokens a clock rnd w' user scope nonce cid)"
  using assms by (simp add: generateTokens_def Let_def split: outcome.split option.split)

lemma generateTokens_live:
  assumes "oa_redis a = ks_client" and "generateTokens a clock rnd w (Some u) scope nonce cid = (Ok resp, w')"
  shows "TrRefreshToken resp = b64url_encode rnd"
    and "ks_live (ow_redis w') k =
      (if k = ''refresh_token:'' @ b64url_encode rnd
       then Some (JsonMap [(''user_id'', UID u), (''scope'', scope), (''client_id'', cid)])
       else ks_live (ow_redis w) k)"
  using assms by (auto simp: generateTokens_def Let_def ks_live_put split: outcome.splits if_splits)

text \<open>
  C9: An authorization code buys tokens once, and only for the holder of the proof key: when the exchange
  succeeds, the code was stored with a challenge that the verifier meets, and from then on every
  exchange of the same code is refused with \<^verbatim>\<open>ErrInvalidGrant\<close>.
\<close>

theorem authorization_code_once:
  assumes ks: "oa_redis a = ks_client" and grant: "TqGrantType q = ''authorization_code''"
    and ok: "HandleTokenRequest a clock rnd w q = (Ok resp, w')"
    and again: "TqGrantType q' = ''authorization_code''" "TqCode q' = TqCode q"
  shows "(\<exists>v challenge m. ks_live (ow_redis w) (''authcode:'' @ TqCode q) = Some v \<and>
            str_field (unmarshal_map v) ''code_challenge'' = Ok challenge \<and>
            str_field (unmarshal_map v) ''challenge_method'' = Ok m \<and> VerifyPKCE (TqCodeVerifier q) challenge m) \<and>
    fst (HandleTokenRequest a clock' rnd' w' q') = Fail ErrInvalidGrant"
proof -
  from ok grant ks obtain v challenge m where v: "ks_live (ow_redis w) (''authcode:'' @ TqCode q) = Some v"
    "str_field (unmarshal_map v) ''code_challenge'' = Ok challenge"
    "str_field (unmarshal_map v) ''challenge_method'' = Ok m" "VerifyPKCE (TqCodeVerifier q) challenge m"
    by (auto simp: HandleTokenRequest_def handleAuthorizationCode_def Let_def split: option.splits outcome.splits if_splits)
  from ok grant ks v obtain u scope nonce cid where
    "generateTokens a clock rnd
       (w\<lparr>ow_redis := (ow_redis w)\<lparr>ks_strings := (ks_strings (ow_redis w))(''authcode:'' @ TqCode q := None)\<rparr>\<rparr>)
       (Some u) scope nonce cid = (Ok resp, w')"
    by (auto simp: HandleTokenRequest_def handleAuthorizationCode_def Let_def split: option.splits outcome.splits if_splits)
  from generateTokens_live(2) [OF ks this, of "''authcode:'' @ TqCode q"]
  have "ks_live (ow_redis w') (''authcode:'' @ TqCode q) = None" by simp
  with v again ks show ?thesis
    by (auto simp: HandleTokenRequest_def handleAuthorizationCode_def)
qed

text \<open>The key space at a later time.\<close>

lemma ks_live_later:
  "ks_live ((ks_put r k' v ttl)\<lparr>ks_now := t\<rparr>) k =
     (if k = k' then (if 0 < ttl \<and> ks_now r + ttl \<le> t then None else Some v) else ks_live (r\<lparr>ks_now := t\<rparr>) k)"
  by (auto simp: ks_live_def ks_put_def split: option.split prod.split)

text \<open>
  C8: The code flow from end to end. When the authorization endpoint answers with a code, the client is
  registered with the redirect address, and a public client has sent a challenge. The exchange of that code at
  any later time answers with the tokens of the user and scope of the authorization request if ten minutes
  have not passed and the verifier meets the challenge, and is refused with \<^verbatim>\<open>ErrInvalidGrant\<close> otherwise.
\<close>

theorem authorization_code_flow:
  assumes ks: "oa_redis a = ks_client"
    and ok: "HandleAuthRequest a rnd w request = (Ok resp, w1)"
    and user: "oa_GetUserByID a (cred (ReqCredentials request) ''user_id'') = Ok user"
    and q: "TqGrantType q = ''authorization_code''" "TqCode q = RespCode resp"
  shows "(\<exists>get app uris. oa_appRepo a = Some get \<and> get (cred (ReqCredentials request) ''client_id'') = Ok app \<and>
            AppProtocolConfig app ''redirect_uris'' = Some (VStrings uris) \<and> RespRedirectURI resp \<in> set uris \<and>
            (AppClientType app = ClientTypePublic \<longrightarrow> cred (ReqCredentials request) ''code_challenge'' \<noteq> [])) \<and>
    fst (HandleTokenRequest a clock rnd' (w1\<lparr>ow_redis := (ow_redis w1)\<lparr>ks_now := t\<rparr>\<rparr>) q) =
      (if t < ks_now (ow_redis w) + authcode_ttl \<and>
          VerifyPKCE (TqCodeVerifier q) (cred (ReqCredentials request) ''code_challenge'')
            (cred (ReqCredentials request) ''code_challenge_method'')
       then fst (generateTokens a clock rnd' w1 (Some user) (cred (ReqCredentials request) ''scope'')
                   (cred (ReqCredentials request) ''nonce'') (cred (ReqCredentials request) ''client_id''))
       else Fail ErrInvalidGrant)"
proof -
  let ?c = "cred (ReqCredentials request)"
  from ok ks have resp: "RespCode resp = b64url_encode rnd"
      "w1 = w\<lparr>ow_redis := ks_put (ow_redis w) (''authcode:'' @ b64url_encode rnd)
                (JsonMap (auth_code_data (ReqCredentials request))) authcode_ttl\<rparr>"
    and app: "\<exists>get app uris. oa_appRepo a = Some get \<and> get (?c ''client_id'') = Ok app \<and>
            AppProtocolConfig app ''redirect_uris'' = Some (VStrings uris) \<and> RespRedirectURI resp \<in> set uris \<and>
            (AppClientType app = ClientTypePublic \<longrightarrow> ?c ''code_challenge'' \<noteq> [])"
    by (auto simp: HandleAuthRequest_def Let_def list_ex_iff
        split: option.splits outcome.splits gvalue.splits if_splits)
  have "ks_live ((ow_redis w1)\<lparr>ks_now := t\<rparr>) (''authcode:'' @ TqCode q) =
      (if t < ks_now (ow_redis w) + authcode_ttl then Some (JsonMap (auth_code_data (ReqCredentials request))) else None)"
    by (auto simp: resp q ks_live_later authcode_ttl_def)
  with ks q user have "fst (HandleTokenRequest a clock rnd' (w1\<lparr>ow_redis := (ow_redis w1)\<lparr>ks_now := t\<rparr>\<rparr>) q) =
      (if t < ks_now (ow_redis w) + authcode_ttl \<and> VerifyPKCE (TqCodeVerifier q) (?c ''code_challenge'') (?c ''code_challenge_method'')
       then fst (generateTokens a clock rnd' w1 (Some user) (?c ''scope'') (?c ''nonce'') (?c ''client_id''))
       else Fail ErrInvalidGrant)"
    by (auto simp: HandleTokenRequest_def handleAuthorizationCode_def str_field_def auth_code_data_def
        intro: generateTokens_fst_world [OF ks])
  with app show ?thesis by blast
qed

text \<open>
  Refresh tokens rotate: a refresh that succeeds with a new random token invalidates the old one, and the
  new one is stored for the same user, scope and client.
\<close>

theorem oauth_refresh_rotates:
  assumes ks: "oa_redis a = ks_client" and q: "TqGrantType q = ''refresh_token''"
    and fresh: "b64url_encode rnd \<noteq> TqRefreshToken q"
    and ok: "HandleTokenRequest a clock rnd w q = (Ok resp, w')"
  shows "\<exists>d user scope cid. ks_live (ow_redis w) (''refresh_token:'' @ TqRefreshToken q) = Some d \<and>
      (\<exists>uid. str_field (unmarshal_map d) ''user_id'' = Ok uid \<and> oa_GetUserByID a uid = Ok user) \<and>
      str_field (unmarshal_map d) ''scope'' = Ok scope \<and> str_field (unmarshal_map d) ''client_id'' = Ok cid \<and>
      ks_live (ow_redis w') (''refresh_token:'' @ TqRefreshToken q) = None \<and>
      ks_live (ow_redis w') (''refresh_token:'' @ TrRefreshToken resp) =
        Some (JsonMap [(''user_id'', UID user), (''scope'', scope), (''client_id'', cid)])"
proof -
  from ok q ks obtain d uid user scope cid where d: "ks_live (ow_redis w) (''refresh_token:'' @ TqRefreshToken q) = Some d"
      "str_field (unmarshal_map d) ''user_id'' = Ok uid" "oa_GetUserByID a uid = Ok user"
      "str_field (unmarshal_map d) ''scope'' = Ok scope" "str_field (unmarshal_map d) ''client_id'' = Ok cid"
    and g: "generateTokens a clock rnd
      (w\<lparr>ow_redis := (ow_redis w)\<lparr>ks_strings := (ks_strings (ow_redis w))(''refresh_token:'' @ TqRefreshToken q := None)\<rparr>\<rparr>)
      (Some user) scope [] cid = (Ok resp, w')"
    by (auto simp: HandleTokenRequest_def handleRefreshToken_def Let_def split: option.splits outcome.splits)
  from generateTokens_live [OF ks g] fresh d show ?thesis by auto
qed

text \<open>
  The token endpoint does not authenticate the client: for a code and for a refresh token the answer does
  not depend on the client identifier, the client secret or the redirect address of the request.
\<close>

theorem token_request_ignores_client:
  assumes "TqGrantType q = ''authorization_code'' \<or> TqGrantType q = ''refresh_token''"
  shows "HandleTokenRequest a clock rnd w (q\<lparr>TqClientID := c, TqClientSecret := s, TqRedirectURI := u\<rparr>) =
    HandleTokenRequest a clock rnd w q"
proof -
  let ?q = "q\<lparr>TqClientID := c, TqClientSecret := s, TqRedirectURI := u\<rparr>"
  have "handleAuthorizationCode a clock rnd w ?q = handleAuthorizationCode a clock rnd w q"
    by (cases q, hypsubst, unfold handleAuthorizationCode_def TokenRequest.update_convs TokenRequest.select_convs, rule refl)
  moreover have "handleRefreshToken a clock rnd w ?q = handleRefreshToken a clock rnd w q"
    by (cases q, hypsubst, unfold handleRefreshToken_def TokenRequest.update_convs TokenRequest.select_convs, rule refl)
  ultimately show ?thesis using assms by (auto simp: HandleTokenRequest_def)
qed

text \<open>
  The access token of a client without a user has no subject, and asking for user information with it
  crashes the handler instead of being refused.
\<close>

theorem GetUserInfo_client_token_panics:
  assumes "TqGrantType q = ''client_credentials''" and "HandleTokenRequest a clock rnd w q = (Ok resp, w')"
    and "\<And>c t. oa_sign a c = Ok t \<Longrightarrow> \<exists>c'. oi_parse oi t = Ok c' \<and> c' ''sub'' = c ''sub''"
  shows "fst (GetUserInfo oi h (TrAccessToken resp)) = Panic"
proof -
  from assms(1,2) obtain c where "oa_sign a c = Ok (TrAccessToken resp)" "c ''sub'' = None"
    by (auto simp: HandleTokenRequest_def handleClientCredentials_def generateTokens_def generateAccessToken_def Let_def
        split: option.splits outcome.splits gvalue.splits if_splits)
  with assms(3) [OF this(1)] show ?thesis by (auto simp: GetUserInfo_def)
qed

section \<open>An instance\<close>

definition demo_app :: Application where
  "demo_app = \<lparr>AppID = ''a1'', AppName = ''app'', AppDescription = [], AppStatus = ''active'', AppClientType = ''public'',
     AppProtocol = ProtocolOAuth,
     AppProtocolConfig = [''redirect_uris'' \<mapsto> VStrings [''https://app/cb''], ''client_secret'' \<mapsto> VString ''s3''],
     AppCreatedAt = 0, AppUpdatedAt = 0\<rparr>"

definition demo_oauth :: "keyspace OAuthAdapter" where
  "demo_oauth = \<lparr>oa_redis = ks_client, oa_appRepo = Some (\<lambda>_. Ok demo_app), oa_GetUserByID = (\<lambda>i. Ok (zero_user\<lparr>UID := i\<rparr>)),
     oa_sign = (\<lambda>c. case c ''sub'' of None \<Rightarrow> Ok ''-'' | Some (VString s) \<Rightarrow> Ok (CHR ''s'' # s) | _ \<Rightarrow> Fail (Errorf ''sub'')),
     oa_oidc = None\<rparr>"

definition demo_oidc :: OIDCAdapter where
  "demo_oidc = \<lparr>oi_sign = (\<lambda>_. Fail (Errorf ''no key'')),
     oi_parse = (\<lambda>t. Ok (if t = ''-'' then Map.empty else [''sub'' \<mapsto> VString (tl t)])),
     oi_GetUserByID = (\<lambda>i. Ok (zero_user\<lparr>UID := i\<rparr>))\<rparr>"

definition demo_oauth_world :: "keyspace oauth_world" where
  "demo_oauth_world = \<lparr>ow_redis = \<lparr>ks_now = 0, ks_strings = Map.empty, ks_zsets = (\<lambda>_. [])\<rparr>, ow_errs = initial_errors\<rparr>"

definition demo_auth_request :: AuthRequest where
  "demo_auth_request = \<lparr>ReqProtocol = ProtocolOAuth,
     ReqCredentials = [''response_type'' \<mapsto> ''code'', ''client_id'' \<mapsto> ''a1'', ''redirect_uri'' \<mapsto> ''https://app/cb'',
       ''user_id'' \<mapsto> ''u1'', ''code_challenge'' \<mapsto> ''v'', ''code_challenge_method'' \<mapsto> ''plain''],
     ReqContext = Map.empty, ReqUserID = []\<rparr>"

definition demo_token_request :: TokenRequest where
  "demo_token_request = \<lparr>TqGrantType = ''authorization_code'', TqCode = [], TqRedirectURI = [], TqClientID = [],
     TqClientSecret = ''s3'', TqCodeVerifier = ''v'', TqRefreshToken = [], TqUserID = [], TqScope = []\<rparr>"

lemmas demo_oauth_defs = demo_app_def demo_oauth_def demo_oauth_world_def demo_auth_request_def demo_token_request_def

lemma demo_authorized:
  "\<exists>resp w1. HandleAuthRequest demo_oauth [0] demo_oauth_world demo_auth_request = (Ok resp, w1)"
  by (simp add: HandleAuthRequest_def demo_oauth_defs cred_def ClientTypePublic_def Let_def)

lemma demo_tokens:
  "\<exists>resp. fst (generateTokens demo_oauth clock rnd w (Some (zero_user\<lparr>UID := u\<rparr>)) [] n c) = Ok resp \<and>
     TrAccessToken resp = CHR ''s'' # u"
  by (simp add: generateTokens_def generateAccessToken_def demo_oauth_def scope_claims_def ScopeContains_def Let_def zero_user_def)

theorem authorization_code_flow_witness:
  "\<exists>resp w1 res. HandleAuthRequest demo_oauth [0] demo_oauth_world demo_auth_request = (Ok resp, w1) \<and>
     fst (HandleTokenRequest demo_oauth (\<lambda>_. 0) [1] (w1\<lparr>ow_redis := (ow_redis w1)\<lparr>ks_now := 599999999999\<rparr>\<rparr>)
            (demo_token_request\<lparr>TqCode := RespCode resp\<rparr>)) = Ok res \<and> TrAccessToken res = ''su1'' \<and>
     fst (HandleTokenRequest demo_oauth (\<lambda>_. 0) [1] (w1\<lparr>ow_redis := (ow_redis w1)\<lparr>ks_now := 600000000000\<rparr>\<rparr>)
            (demo_token_request\<lparr>TqCode := RespCode resp\<rparr>)) = Fail ErrInvalidGrant"
proof -
  obtain resp w1 where ok: "HandleAuthRequest demo_oauth [0] demo_oauth_world demo_auth_request = (Ok resp, w1)"
    using demo_authorized by blast
  have flow: "fst (HandleTokenRequest demo_oauth (\<lambda>_. 0) [1] (w1\<lparr>ow_redis := (ow_redis w1)\<lparr>ks_now := t\<rparr>\<rparr>)
            (demo_token_request\<lparr>TqCode := RespCode resp\<rparr>)) =
      (if t < 600000000000 then fst (generateTokens demo_oauth (\<lambda>_. 0) [1] w1 (Some (zero_user\<lparr>UID := ''u1''\<rparr>)) [] [] ''a1'')
       else Fail ErrInvalidGrant)" for t
    using authorization_code_flow [OF _ ok, of "zero_user\<lparr>UID := ''u1''\<rparr>" "demo_token_request\<lparr>TqCode := RespCode resp\<rparr>"
        "\<lambda>_. 0" "[1]" t]
    by (simp add: demo_oauth_defs cred_def VerifyPKCE_def authcode_ttl_def)
  show ?thesis
    using ok demo_tokens [of "\<lambda>_. 0" "[1]" w1 "''u1''" "[]" "''a1''"]
    by (auto simp: flow)
qed

theorem authorization_code_once_witness:
  "\<exists>resp w1 res w2. HandleAuthRequest demo_oauth [0] demo_oauth_world demo_auth_request = (Ok resp, w1) \<and>
     HandleTokenRequest demo_oauth (\<lambda>_. 0) [1] w1 (demo_token_request\<lparr>TqCode := RespCode resp\<rparr>) = (Ok res, w2) \<and>
     fst (HandleTokenRequest demo_oauth (\<lambda>_. 0) [2] w2 (demo_token_request\<lparr>TqCode := RespCode resp\<rparr>)) = Fail ErrInvalidGrant"
proof -
  obtain resp w1 where ok: "HandleAuthRequest demo_oauth [0] demo_oauth_world demo_auth_request = (Ok resp, w1)"
    using demo_authorized by blast
  let ?q = "demo_token_request\<lparr>TqCode := RespCode resp\<rparr>"
  obtain res w2 where r: "HandleTokenRequest demo_oauth (\<lambda>_. 0) [1] w1 ?q = (Ok res, w2)"
    using ok by (auto simp: HandleAuthRequest_def HandleTokenRequest_def handleAuthorizationCode_def demo_oauth_defs cred_def
        ClientTypePublic_def ks_live_put auth_code_data_def str_field_def VerifyPKCE_def generateTokens_def
        generateAccessToken_def scope_claims_def ScopeContains_def Let_def)
  from authorization_code_once [OF _ _ r, of ?q "\<lambda>_. 0" "[2]"] ok r show ?thesis
    by (auto simp: demo_oauth_def demo_token_request_def)
qed

theorem oauth_refresh_rotates_witness:
  "\<exists>resp w'. HandleTokenRequest demo_oauth (\<lambda>_. 0) [1]
      (demo_oauth_world\<lparr>ow_redis := ks_put (ow_redis demo_oauth_world) ''refresh_token:r0''
         (JsonMap [(''user_id'', ''u1''), (''scope'', []), (''client_id'', ''a1'')]) refresh_ttl\<rparr>)
      (demo_token_request\<lparr>TqGrantType := ''refresh_token'', TqRefreshToken := ''r0''\<rparr>) = (Ok resp, w') \<and>
    ks_live (ow_redis w') ''refresh_token:r0'' = None"
proof -
  let ?w = "demo_oauth_world\<lparr>ow_redis := ks_put (ow_redis demo_oauth_world) ''refresh_token:r0''
         (JsonMap [(''user_id'', ''u1''), (''scope'', []), (''client_id'', ''a1'')]) refresh_ttl\<rparr>"
  let ?q = "demo_token_request\<lparr>TqGrantType := ''refresh_token'', TqRefreshToken := ''r0''\<rparr>"
  obtain resp w' where r: "HandleTokenRequest demo_oauth (\<lambda>_. 0) [1] ?w ?q = (Ok resp, w')"
    by (simp add: HandleTokenRequest_def handleRefreshToken_def demo_oauth_defs ks_live_put str_field_def generateTokens_def
        generateAccessToken_def scope_claims_def ScopeContains_def Let_def)
  from oauth_refresh_rotates [OF _ _ _ r] r show ?thesis
    by (auto simp: demo_oauth_def demo_token_request_def b64url_encode_def)
qed

theorem token_request_ignores_client_witness:
  "HandleTokenRequest demo_oauth (\<lambda>_. 0) [1] demo_oauth_world
      (demo_token_request\<lparr>TqClientID := ''evil'', TqClientSecret := [], TqRedirectURI := []\<rparr>) =
    HandleTokenRequest demo_oauth (\<lambda>_. 0) [1] demo_oauth_world demo_token_request"
  using token_request_ignores_client [of demo_token_request] by (simp add: demo_token_request_def)

theorem GetUserInfo_client_token_panics_witness:
  "\<exists>resp w'. HandleTokenRequest demo_oauth (\<lambda>_. 0) [1] demo_oauth_world
      (demo_token_request\<lparr>TqGrantType := ''client_credentials''\<rparr>) = (Ok resp, w') \<and>
    fst (GetUserInfo demo_oidc initial_errors (TrAccessToken resp)) = Panic"
proof -
  let ?q = "demo_token_request\<lparr>TqGrantType := ''client_credentials''\<rparr>"
  obtain resp w' where r: "HandleTokenRequest demo_oauth (\<lambda>_. 0) [1] demo_oauth_world ?q = (Ok resp, w')"
    by (simp add: HandleTokenRequest_def handleClientCredentials_def demo_oauth_defs generateTokens_def generateAccessToken_def
        ScopeContains_def Let_def)
  have "\<exists>c'. oi_parse demo_oidc t = Ok c' \<and> c' ''sub'' = c ''sub''" if "oa_sign demo_oauth c = Ok t" for c t
    using that by (auto simp: demo_oauth_def demo_oidc_def split: option.splits gvalue.splits)
  then show ?thesis using GetUserInfo_client_token_panics [of ?q demo_oauth "\<lambda>_. 0" "[1]" demo_oauth_world resp w' demo_oidc] r
    by auto
qed

end
