(* ===== verification/OAuth_Device.thy ===== *)
theory OAuth_Device
  imports OAuth
begin

text \<open>
  The device authorization grant, client registration and claims mapping of
  \<^verbatim>\<open>internal/domain/oauth\<close>. The repository of device codes has no implementation in the program; it is a
  record of functions over its state \<open>'d\<close>, and so is the repository of clients.
\<close>

section \<open>Device flow\<close>

record DeviceFlowConfig =
  DeviceCodeLength :: int
  UserCodeLength :: int
  UserCodeCharset :: string
  DExpiresIn :: int
  PollingInterval :: int
  VerificationURI :: string

record DeviceAuthorizationResponse =
  DarDeviceCode :: string
  DarUserCode :: string
  DarVerificationURI :: string
  DarVerificationURIComplete :: string
  DarExpiresIn :: int
  DarInterval :: int

record DeviceCodeRecord =
  DeviceCode :: string
  UserCode :: string
  DClientID :: string
  DScope :: string
  DStatus :: string
  DUserID :: string
  DExpiresAt :: time

record 'd DeviceCodeRepository =
  dc_Create :: "'d \<Rightarrow> DeviceCodeRecord \<Rightarrow> (go_error, unit) outcome \<times> 'd"
  dc_GetByDeviceCode :: "'d \<Rightarrow> string \<Rightarrow> (go_error, DeviceCodeRecord) outcome"
  dc_GetByUserCode :: "'d \<Rightarrow> string \<Rightarrow> (go_error, DeviceCodeRecord) outcome"
  dc_UpdateStatus :: "'d \<Rightarrow> string \<Rightarrow> string \<Rightarrow> (go_error, unit) outcome \<times> 'd"
  dc_MarkUsed :: "'d \<Rightarrow> string \<Rightarrow> (go_error, unit) outcome \<times> 'd"
  dc_Update :: "'d \<Rightarrow> string \<Rightarrow> (string \<times> string) list \<Rightarrow> (go_error, unit) outcome \<times> 'd"

definition generateSecureCode :: "int \<Rightarrow> string" where
  "generateSecureCode length' = ''temp_device_code''"

definition generateUserFriendlyCode :: "int \<Rightarrow> string \<Rightarrow> string" where
  "generateUserFriendlyCode length' charset = ''ABCD-EFGH''"

definition HandleDeviceAuthorizationRequest ::
    "'d DeviceCodeRepository \<Rightarrow> DeviceFlowConfig \<Rightarrow> time \<Rightarrow> 'd \<Rightarrow> string \<Rightarrow> string
      \<Rightarrow> (go_error, DeviceAuthorizationResponse) outcome \<times> 'd" where
  "HandleDeviceAuthorizationRequest repo cfg now d clientID scope =
     (let deviceCode = generateSecureCode (DeviceCodeLength cfg);
          userCode = generateUserFriendlyCode (UserCodeLength cfg) (UserCodeCharset cfg);
          rec = \<lparr>DeviceCode = deviceCode, UserCode = userCode, DClientID = clientID, DScope = scope,
                 DStatus = ''pending'', DUserID = [], DExpiresAt = now + DExpiresIn cfg\<rparr>
      in case dc_Create repo d rec of
           (Panic, d') \<Rightarrow> (Panic, d')
         | (Fail err, d') \<Rightarrow> (Fail (Wrapf ''failed to store device code'' err), d')
         | (Ok _, d') \<Rightarrow>
             (Ok \<lparr>DarDeviceCode = deviceCode, DarUserCode = userCode, DarVerificationURI = VerificationURI cfg,
                  DarVerificationURIComplete = VerificationURI cfg @ ''?user_code='' @ userCode,
                  DarExpiresIn = whole_seconds (DExpiresIn cfg), DarInterval = PollingInterval cfg\<rparr>, d'))"

text \<open>
  A failing update of the status and a failing \<^verbatim>\<open>MarkUsed\<close> are ignored. \<open>issue\<close> is the token service.
\<close>

definition HandleDeviceTokenRequest ::
    "'d DeviceCodeRepository \<Rightarrow> (TokenRequest \<Rightarrow> (go_error, Token) outcome) \<Rightarrow> time \<Rightarrow> 'd \<Rightarrow> string \<Rightarrow> string
      \<Rightarrow> (go_error, Token) outcome \<times> 'd" where
  "HandleDeviceTokenRequest repo issue now d deviceCode clientID =
     (case dc_GetByDeviceCode repo d deviceCode of
        Panic \<Rightarrow> (Panic, d)
      | Fail _ \<Rightarrow> (Fail ErrInvalidGrant, d)
      | Ok rec \<Rightarrow>
          (if now > DExpiresAt rec
           then (case dc_UpdateStatus repo d deviceCode ''expired'' of
                   (Panic, d') \<Rightarrow> (Panic, d') | (_, d') \<Rightarrow> (Fail ErrExpiredToken, d'))
           else if DStatus rec = ''pending'' then (Fail ErrAuthorizationPending, d)
           else if DStatus rec = ''denied'' then (Fail ErrAccessDenied, d)
           else if DStatus rec = ''authorized''
           then (case issue \<lparr>TqGrantType = ''urn:ietf:params:oauth:grant-type:device_code'', TqCode = [], TqRedirectURI = [],
                        TqClientID = DClientID rec, TqClientSecret = [], TqCodeVerifier = [], TqRefreshToken = [],
                        TqUserID = DUserID rec, TqScope = DScope rec\<rparr> of
                   Panic \<Rightarrow> (Panic, d)
                 | Fail err \<Rightarrow> (Fail err, d)
                 | Ok tokens \<Rightarrow>
                     (case dc_MarkUsed repo d deviceCode of
                        (Panic, d') \<Rightarrow> (Panic, d') | (_, d') \<Rightarrow> (Ok tokens, d')))
           else (Fail ErrInvalidGrant, d)))"

definition ActivateDeviceCode ::
    "'d DeviceCodeRepository \<Rightarrow> 'd \<Rightarrow> string \<Rightarrow> string \<Rightarrow> (go_error, unit) outcome \<times> 'd" where
  "ActivateDeviceCode repo d userCode userID =
     (case dc_GetByUserCode repo d userCode of
        Panic \<Rightarrow> (Panic, d)
      | Fail err \<Rightarrow> (Fail (Wrapf ''invalid user code'' err), d)
      | Ok rec \<Rightarrow> dc_Update repo d (DeviceCode rec) [(''status'', ''authorized''), (''user_id'', userID)])"

section \<open>Client registration\<close>

record OAuthClient =
  ClID :: string
  ClSecret :: string
  ClRedirectURIs :: "string list"
  ClGrantTypes :: "string list"
  ClResponseTypes :: "string list"
  ClName :: string
  ClAuthMethod :: string

record ClientMetadata =
  CmRedirectURIs :: "string list"
  CmGrantTypes :: "string list"
  CmResponseTypes :: "string list"
  CmName :: string
  CmAuthMethod :: string

record ClientRegistryConfig =
  DefaultGrantTypes :: "string list"
  DefaultResponseTypes :: "string list"
  DefaultScopes :: "string list"

definition generateClientID :: string where "generateClientID = ''temp_client_id''"
definition generateClientSecret :: string where "generateClientSecret = ''temp_client_secret''"

definition RegisterClient ::
    "('c \<Rightarrow> OAuthClient \<Rightarrow> (go_error, unit) outcome \<times> 'c) \<Rightarrow> ClientRegistryConfig \<Rightarrow> 'c \<Rightarrow> ClientMetadata
      \<Rightarrow> (go_error, OAuthClient) outcome \<times> 'c" where
  "RegisterClient CreateClient cfg s req =
     (let client = \<lparr>ClID = generateClientID, ClSecret = generateClientSecret, ClRedirectURIs = CmRedirectURIs req,
            ClGrantTypes = (if CmGrantTypes req = [] then DefaultGrantTypes cfg else CmGrantTypes req),
            ClResponseTypes = (if CmResponseTypes req = [] then DefaultResponseTypes cfg else CmResponseTypes req),
            ClName = CmName req, ClAuthMethod = CmAuthMethod req\<rparr>
      in case CreateClient s client of
           (Panic, s') \<Rightarrow> (Panic, s')
         | (Fail err, s') \<Rightarrow> (Fail (Wrapf ''failed to create client'' err), s')
         | (Ok _, s') \<Rightarrow> (Ok client, s'))"

section \<open>Claims\<close>

record MappingRule =
  MrScope :: string
  MrClaims :: "string list"
  MrTransforms :: "string \<rightharpoonup> string"

text \<open>
  An \<^verbatim>\<open>EncryptedString\<close> and a string are both \<^verbatim>\<open>VString\<close> here. \<^verbatim>\<open>parts[0][:1]\<close> panics on an empty local part.
  The conditions of a rule are always met.
\<close>

definition mask_email :: "gvalue \<Rightarrow> (go_error, gvalue) outcome" where
  "mask_email v =
     (case v of
        VString email \<Rightarrow>
          (case split_on CHR ''@'' email of
             [p0, p1] \<Rightarrow> if p0 = [] then Panic else Ok (VString (hd p0 # ''***@'' @ p1))
           | _ \<Rightarrow> Ok v)
      | _ \<Rightarrow> Ok v)"

definition extractUserAttribute :: "User \<Rightarrow> string \<Rightarrow> gvalue" where
  "extractUserAttribute user claimName =
     (if claimName = ''email'' then VString (Email user)
      else if claimName = ''username'' then VString (Username user)
      else VNil)"

definition apply_transform :: "MappingRule \<Rightarrow> string \<Rightarrow> gvalue \<Rightarrow> (go_error, gvalue) outcome" where
  "apply_transform rule claimName v =
     (case MrTransforms rule claimName of
        Some t \<Rightarrow> if t = ''mask_email'' then mask_email v else Ok v
      | None \<Rightarrow> Ok v)"

fun map_rule_claims :: "User \<Rightarrow> MappingRule \<Rightarrow> string list \<Rightarrow> gmap \<Rightarrow> (go_error, gmap) outcome" where
  "map_rule_claims user rule [] claims = Ok claims"
| "map_rule_claims user rule (c # cs) claims =
     obind (apply_transform rule c (extractUserAttribute user c))
       (\<lambda>v. map_rule_claims user rule cs (claims(c \<mapsto> v)))"

definition findRulesByScope :: "MappingRule list \<Rightarrow> string \<Rightarrow> MappingRule list" where
  "findRulesByScope rules scope = filter (\<lambda>r. MrScope r = scope) rules"

fun map_rules :: "User \<Rightarrow> MappingRule list \<Rightarrow> gmap \<Rightarrow> (go_error, gmap) outcome" where
  "map_rules user [] claims = Ok claims"
| "map_rules user (r # rs) claims = obind (map_rule_claims user r (MrClaims r) claims) (map_rules user rs)"

definition MapClaims :: "MappingRule list \<Rightarrow> time \<Rightarrow> User \<Rightarrow> string list \<Rightarrow> (go_error, gmap) outcome" where
  "MapClaims rules now user scopes =
     obind (map_rules user (concat (map (findRulesByScope rules) scopes)) Map.empty)
       (\<lambda>claims. Ok (claims(''sub'' \<mapsto> VString (UID user), ''iat'' \<mapsto> VInt (unix now))))"


section \<open>Properties\<close>

text \<open>A table of device codes that behaves as the repository's methods are named.\<close>

type_synonym device_table = "string \<rightharpoonup> DeviceCodeRecord"

definition missing_code :: go_error where "missing_code = Errorf ''device code not found''"

definition set_field :: "DeviceCodeRecord \<Rightarrow> string \<times> string \<Rightarrow> DeviceCodeRecord" where
  "set_field rec kv =
     (if fst kv = ''status'' then rec\<lparr>DStatus := snd kv\<rparr>
      else if fst kv = ''user_id'' then rec\<lparr>DUserID := snd kv\<rparr> else rec)"

definition table_update :: "device_table \<Rightarrow> string \<Rightarrow> (string \<times> string) list \<Rightarrow> (go_error, unit) outcome \<times> device_table" where
  "table_update d c kvs =
     (case d c of None \<Rightarrow> (Fail missing_code, d) | Some rec \<Rightarrow> (Ok (), d(c \<mapsto> foldl set_field rec kvs)))"

definition table_devices :: "string list \<Rightarrow> device_table DeviceCodeRepository" where
  "table_devices ord =
     \<lparr>dc_Create = (\<lambda>d rec. (Ok (), d(DeviceCode rec \<mapsto> rec))),
      dc_GetByDeviceCode = (\<lambda>d c. case d c of None \<Rightarrow> Fail missing_code | Some rec \<Rightarrow> Ok rec),
      dc_GetByUserCode = (\<lambda>d u. case range_find ord d (\<lambda>rec. UserCode rec = u) of
                            None \<Rightarrow> Fail missing_code | Some c \<Rightarrow> Ok (the (d c))),
      dc_UpdateStatus = (\<lambda>d c s. table_update d c [(''status'', s)]),
      dc_MarkUsed = (\<lambda>d c. table_update d c [(''status'', ''used'')]),
      dc_Update = table_update\<rparr>"

text \<open>
  Every device gets the same two codes, whatever the client, the configuration and the time.
\<close>

lemma device_codes_constant:
  assumes "HandleDeviceAuthorizationRequest repo cfg now d clientID scope = (Ok resp, d')"
  shows "DarDeviceCode resp = ''temp_device_code'' \<and> DarUserCode resp = ''ABCD-EFGH''"
  using assms by (auto simp: HandleDeviceAuthorizationRequest_def Let_def generateSecureCode_def
      generateUserFriendlyCode_def split: prod.splits outcome.splits)

text \<open>
  The device flow hands a user's tokens to a stranger. A first client asks for codes, then a second one; the
  user enters the code and means the first. Every later poll of the device code before the expiry of
  the second request, by any client, is answered with tokens for the second client and its scope, in the name
  of the user.
\<close>

theorem device_flow_mixes_clients:
  assumes "HandleDeviceAuthorizationRequest (table_devices ord) cfg now1 d c1 scope1 = (Ok resp1, d1)"
    and "HandleDeviceAuthorizationRequest (table_devices ord) cfg now2 d1 c2 scope2 = (Ok resp2, d2)"
    and "visits ord d2" and "\<forall>c rec. d c = Some rec \<longrightarrow> UserCode rec \<noteq> ''ABCD-EFGH'' \<or> c = ''temp_device_code''"
    and "ActivateDeviceCode (table_devices ord) d2 (DarUserCode resp1) userID = (Ok (), d3)"
    and "now3 \<le> now2 + DExpiresIn cfg"
    and "\<And>q. TqClientID q = c2 \<Longrightarrow> TqUserID q = userID \<Longrightarrow> TqScope q = scope2 \<Longrightarrow> issue q = Ok tokens"
  shows "fst (HandleDeviceTokenRequest (table_devices ord) issue now3 d3 (DarDeviceCode resp1) c1) = Ok tokens"
proof -
  let ?dc = "''temp_device_code''"
  let ?rec = "\<lparr>DeviceCode = ?dc, UserCode = ''ABCD-EFGH'', DClientID = c2, DScope = scope2, DStatus = ''pending'',
    DUserID = [], DExpiresAt = now2 + DExpiresIn cfg\<rparr>"
  note codes = device_codes_constant [OF assms(1)]
  note request_defs = HandleDeviceAuthorizationRequest_def Let_def generateSecureCode_def
    generateUserFriendlyCode_def table_devices_def
  have d2: "d2 = d1(?dc \<mapsto> ?rec)" using assms(2) by (auto simp: request_defs)
  have other: "d2 k = d k" if "k \<noteq> ?dc" for k using assms(1,2) that by (auto simp: request_defs)
  have "range_find ord d2 (\<lambda>rec. UserCode rec = ''ABCD-EFGH'') = Some ?dc"
  proof (rule range_find_unique [OF assms(3), of _ ?rec])
    fix k v assume "d2 k = Some v" "UserCode v = ''ABCD-EFGH''"
    then show "k = ?dc" using assms(4) other [of k] by (cases "k = ?dc") auto
  qed (simp_all add: d2)
  with assms(5) codes have "d3 = d2(?dc \<mapsto> ?rec\<lparr>DStatus := ''authorized'', DUserID := userID\<rparr>)"
    by (auto simp: ActivateDeviceCode_def table_devices_def table_update_def set_field_def d2)
  with assms(6,7) codes show ?thesis
    by (simp add: HandleDeviceTokenRequest_def table_devices_def table_update_def)
qed

text \<open>The masked address keeps one character of the local part and the domain.\<close>

lemma mask_email_shape:
  assumes "CHR ''@'' \<notin> set l" and "CHR ''@'' \<notin> set host" and "l \<noteq> []"
  shows "mask_email (VString (l @ ''@'' @ host)) = Ok (VString (hd l # ''***@'' @ host))"
  using assms by (simp add: mask_email_def split_on_append split_on_fresh)

text \<open>The subject is always the user, whatever the rules map.\<close>

lemma MapClaims_sub: "MapClaims rules now user scopes = Ok claims \<Longrightarrow> claims ''sub'' = Some (VString (UID user))"
  by (auto simp: MapClaims_def obind_eq_Ok)
end
