(* ===== verification/Crypto_Manager.thy ===== *)
theory Crypto_Manager
  imports Field_Encryption Digest_SHA256 Types
begin

text \<open>
  The cryptographic helpers of \<^verbatim>\<open>pkg/utils/crypto.go\<close>. AES-GCM, bcrypt, the signing and parsing of
  tokens and the random bytes are arguments; the rest is translated.
\<close>

section \<open>Encryption\<close>

record CryptoManager =
  cm_jwtSecret :: bytes
  cm_aesKey :: bytes

definition NewCryptoManager :: "string \<Rightarrow> CryptoManager" where
  "NewCryptoManager jwtSecret = \<lparr>cm_jwtSecret = bytes_of jwtSecret, cm_aesKey = sha256 (bytes_of jwtSecret)\<rparr>"

text \<open>\<^verbatim>\<open>hex.EncodeToString\<close>.\<close>

definition hex_char :: "nat \<Rightarrow> char" where
  "hex_char n = ''0123456789abcdef'' ! n"

fun hex_encode :: "bytes \<Rightarrow> string" where
  "hex_encode [] = []"
| "hex_encode (b # bs) = hex_char (unat b div 16) # hex_char (unat b mod 16) # hex_encode bs"

definition cm_Encrypt :: "gcm_seal \<Rightarrow> CryptoManager \<Rightarrow> bytes \<Rightarrow> string \<Rightarrow> (go_error, string) outcome" where
  "cm_Encrypt seal cm nonce plaintext =
     (if \<not> aes_key_ok (cm_aesKey cm)
      then Fail (Wrapf ''failed to create cipher block'' (Errorf ''crypto/aes: invalid key size''))
      else Ok (hex_encode (nonce @ seal (cm_aesKey cm) nonce (bytes_of plaintext))))"

definition cm_Decrypt :: "gcm_open \<Rightarrow> CryptoManager \<Rightarrow> string \<Rightarrow> (go_error, string) outcome" where
  "cm_Decrypt opn cm ciphertextHex =
     (case hex_decode ciphertextHex of
        None \<Rightarrow> Fail (Wrapf ''failed to decode hex ciphertext'' (Errorf ''encoding/hex''))
      | Some ciphertext \<Rightarrow>
          if \<not> aes_key_ok (cm_aesKey cm)
          then Fail (Wrapf ''failed to create cipher block'' (Errorf ''crypto/aes: invalid key size''))
          else if length ciphertext < gcm_NonceSize then Fail (Errorf ''ciphertext is too short'')
          else case opn (cm_aesKey cm) (take gcm_NonceSize ciphertext) (drop gcm_NonceSize ciphertext) of
            None \<Rightarrow> Fail (Wrapf ''failed to decrypt'' (Errorf ''cipher: message authentication failed''))
          | Some plaintext \<Rightarrow> Ok (string_of plaintext))"

section \<open>Hashes, random text and tokens\<close>

definition cm_HashPassword :: "(string \<Rightarrow> (go_error, string) outcome) \<Rightarrow> string \<Rightarrow> (go_error, string) outcome" where
  "cm_HashPassword bcrypt_gen password =
     (case bcrypt_gen password of Fail err \<Rightarrow> Fail (Wrapf ''failed to hash password'' err) | r \<Rightarrow> r)"

definition cm_HashRecoveryCode :: "(string \<Rightarrow> (go_error, string) outcome) \<Rightarrow> string \<Rightarrow> (go_error, string) outcome" where
  "cm_HashRecoveryCode bcrypt_gen code =
     (case bcrypt_gen code of Fail err \<Rightarrow> Fail (Wrapf ''failed to hash recovery code'' err) | r \<Rightarrow> r)"

definition cm_CheckPasswordHash :: "(string \<Rightarrow> string \<Rightarrow> go_error option) \<Rightarrow> string \<Rightarrow> string \<Rightarrow> bool" where
  "cm_CheckPasswordHash bcrypt_compare password hash \<longleftrightarrow> bcrypt_compare hash password = None"

text \<open>Each random byte selects a character by its remainder.\<close>

definition random_text :: "string \<Rightarrow> bytes \<Rightarrow> string" where
  "random_text charset bs = map (\<lambda>b. charset ! (unat b mod length charset)) bs"

definition recovery_letters :: string where
  "recovery_letters = ''0123456789ABCDEFGHIJKLMNOPQRSTUVWXYZ''"

definition generateSingleRecoveryCode :: "bytes \<Rightarrow> string" where
  "generateSingleRecoveryCode bs = random_text recovery_letters bs"

definition GenerateRecoveryCodes :: "bytes list \<Rightarrow> string list" where
  "GenerateRecoveryCodes rnd = map generateSingleRecoveryCode rnd"

definition GenerateRandomString :: "bytes \<Rightarrow> string" where
  "GenerateRandomString bs =
     random_text ''abcdefghijklmnopqrstuvwxyzABCDEFGHIJKLMNOPQRSTUVWXYZ0123456789!@#$%^&*()_+'' bs"

definition cm_GenerateJWT ::
    "(gmap \<Rightarrow> (go_error, string) outcome) \<Rightarrow> (nat \<Rightarrow> time) \<Rightarrow> string \<Rightarrow> string \<Rightarrow> int \<Rightarrow> gmap option
      \<Rightarrow> (go_error, string) outcome" where
  "cm_GenerateJWT sign clock jti userID duration claims =
     (let c = (case claims of None \<Rightarrow> Map.empty | Some m \<Rightarrow> m)
      in case sign (c(''sub'' \<mapsto> VString userID, ''iss'' \<mapsto> VString ''QuantaID'',
                     ''iat'' \<mapsto> VInt (clock 0 div 1000000000), ''exp'' \<mapsto> VInt ((clock 1 + duration) div 1000000000),
                     ''jti'' \<mapsto> VString jti)) of
           Fail err \<Rightarrow> Fail (Wrapf ''failed to sign JWT'' err)
         | r \<Rightarrow> r)"

text \<open>\<open>parse\<close> verifies the signature under the secret and returns the claims and whether the token is valid.\<close>

definition cm_ValidateJWT :: "(string \<Rightarrow> (go_error, gmap \<times> bool) outcome) \<Rightarrow> string \<Rightarrow> (go_error, gmap) outcome" where
  "cm_ValidateJWT parse tokenString =
     (case parse tokenString of
        Panic \<Rightarrow> Panic
      | Fail err \<Rightarrow> Fail (Wrapf ''failed to parse JWT'' err)
      | Ok (claims, valid) \<Rightarrow> if valid then Ok claims else Fail (Errorf ''invalid token''))"

section \<open>Properties\<close>

lemma hex_value_char [simp]: "n < 16 \<Longrightarrow> hex_value (hex_char n) = Some n"
proof -
  have "\<forall>n \<in> {..<16}. hex_value (hex_char n) = Some n" by code_simp
  then show "n < 16 \<Longrightarrow> hex_value (hex_char n) = Some n" by simp
qed

lemma hex_decode_encode [simp]: "hex_decode (hex_encode bs) = Some bs"
proof (induction bs)
  case (Cons b bs)
  have "unat b div 16 < 16" using unat_byte_lt [of b] by (simp del: unat_byte_lt)
  with Cons show ?case by simp
qed simp

text \<open>
  Decryption undoes encryption: for a manager made from any secret, a nonce of the right size and a cipher
  whose \<^verbatim>\<open>Open\<close> undoes its \<^verbatim>\<open>Seal\<close>, the stored text decrypts to what was encrypted.
\<close>

theorem Decrypt_Encrypt:
  assumes "length nonce = gcm_NonceSize"
    and "\<And>k n p. opn k n (seal k n p) = Some p"
  shows "\<exists>c. cm_Encrypt seal (NewCryptoManager secret) nonce plaintext = Ok c \<and>
    cm_Decrypt opn (NewCryptoManager secret) c = Ok plaintext"
  using assms by (simp add: cm_Encrypt_def cm_Decrypt_def NewCryptoManager_def aes_key_ok_def)

lemma random_text_chars:
  assumes "charset \<noteq> []"
  shows "length (random_text charset bs) = length bs" and "set (random_text charset bs) \<subseteq> set charset"
  using assms by (auto simp: random_text_def)

end
