(* ===== verification/MFA_Providers.thy ===== *)
theory MFA_Providers
  imports Redis_Store Crypto_Manager Identity_Repository "HOL-Library.Multiset"
begin

text \<open>
  Second factors: the in-memory store of factors (\<^verbatim>\<open>internal/storage/memory/mfa_memory_repository.go\<close>), the
  providers of \<^verbatim>\<open>internal/auth/mfa\<close> for authenticator apps, one-time codes by message and recovery codes,
  their manager, and the policy of \<^verbatim>\<open>internal/domain/auth/mfa_policy.go\<close>. A UUID is its canonical
  text; \<open>uuid_Parse\<close> is the parser, an argument, as are TOTP itself, the encryption of secrets, bcrypt and
  the notifiers.
\<close>

section \<open>Factors\<close>

text \<open>The column of backup codes: empty, a JSON list of hashes, or text that is no such list.\<close>

datatype backup_codes = NoCodes | Codes "string list" | BadCodes

record MFAFactor =
  FcID :: string
  FcUserID :: string
  FcType :: string
  FcStatus :: string
  FcSecret :: string
  FcPhoneNumber :: string
  FcBackupCodes :: backup_codes

record MFAMethod =
  MmID :: string
  MmType :: string

record MFAEnrollment =
  EnSecret :: string
  EnURL :: string

definition uuid_Nil :: string where "uuid_Nil = ''00000000-0000-0000-0000-000000000000''"

type_synonym factor_store = "string \<rightharpoonup> MFAFactor"

definition fmem_CreateMFAFactor :: "string \<Rightarrow> factor_store \<Rightarrow> MFAFactor \<Rightarrow> MFAFactor \<times> factor_store" where
  "fmem_CreateMFAFactor uuid r factor =
     (let factor' = (if FcID factor = uuid_Nil then factor\<lparr>FcID := uuid\<rparr> else factor)
      in (factor', r(FcID factor' \<mapsto> factor')))"

definition fmem_UpdateMFAFactor :: "factor_store \<Rightarrow> MFAFactor \<Rightarrow> (go_error, unit) outcome \<times> factor_store" where
  "fmem_UpdateMFAFactor r factor =
     (if r (FcID factor) = None then (Fail (Errorf ''factor not found''), r)
      else (Ok (), r(FcID factor \<mapsto> factor)))"

definition fmem_GetMFAFactorsByUserID ::
    "(string \<Rightarrow> string option) \<Rightarrow> string list \<Rightarrow> factor_store \<Rightarrow> string \<Rightarrow> (go_error, MFAFactor list) outcome" where
  "fmem_GetMFAFactorsByUserID uuid_Parse ord r userID =
     (case uuid_Parse userID of
        None \<Rightarrow> Fail (Wrapf ''invalid user ID'' (Errorf ''uuid''))
      | Some u \<Rightarrow> Ok (filter (\<lambda>f. FcUserID f = u) (range_values ord r)))"

section \<open>Authenticator apps\<close>

text \<open>\<open>generate\<close> makes a key for an account name: its secret and its URL.\<close>

definition totp_Enroll ::
    "(string \<Rightarrow> (go_error, string \<times> string) outcome) \<Rightarrow> (string \<Rightarrow> (go_error, string) outcome) \<Rightarrow> (string \<Rightarrow> string option)
      \<Rightarrow> string \<Rightarrow> factor_store \<Rightarrow> User \<Rightarrow> (go_error, MFAEnrollment) outcome \<times> factor_store" where
  "totp_Enroll generate encrypt uuid_Parse uuid r user =
     (case generate (Username user) of
        Panic \<Rightarrow> (Panic, r)
      | Fail err \<Rightarrow> (Fail (Wrapf ''failed to generate TOTP key'' err), r)
      | Ok (secret, url) \<Rightarrow>
          (case encrypt secret of
             Panic \<Rightarrow> (Panic, r)
           | Fail err \<Rightarrow> (Fail (Wrapf ''failed to encrypt TOTP secret'' err), r)
           | Ok encryptedSecret \<Rightarrow>
               (case uuid_Parse (UID user) of
                  None \<Rightarrow> (Fail (Wrapf ''invalid user ID'' (Errorf ''uuid'')), r)
                | Some userID \<Rightarrow>
                    (let (factor, r') = fmem_CreateMFAFactor uuid r
                           \<lparr>FcID = uuid_Nil, FcUserID = userID, FcType = ''totp'', FcStatus = ''pending'',
                            FcSecret = encryptedSecret, FcPhoneNumber = [], FcBackupCodes = NoCodes\<rparr>
                     in (Ok \<lparr>EnSecret = secret, EnURL = url\<rparr>, r')))))"

definition totp_Challenge :: MFAChallenge where
  "totp_Challenge = \<lparr>MFAProvider = ''totp'', ChallengeID = ''totp-challenge'', ChOptions = None\<rparr>"

text \<open>A secret that does not decrypt is skipped.\<close>

fun totp_match ::
    "(string \<Rightarrow> (go_error, string) outcome) \<Rightarrow> (string \<Rightarrow> string \<Rightarrow> bool) \<Rightarrow> string \<Rightarrow> MFAFactor list \<Rightarrow> (go_error, bool) outcome" where
  "totp_match decrypt validate code [] = Ok False"
| "totp_match decrypt validate code (f # fs) =
     (if FcType f \<noteq> ''totp'' then totp_match decrypt validate code fs
      else case decrypt (FcSecret f) of
        Panic \<Rightarrow> Panic
      | Fail _ \<Rightarrow> totp_match decrypt validate code fs
      | Ok secret \<Rightarrow> if validate code secret then Ok True else totp_match decrypt validate code fs)"

definition totp_Verify ::
    "(string \<Rightarrow> (go_error, MFAFactor list) outcome) \<Rightarrow> (string \<Rightarrow> (go_error, string) outcome) \<Rightarrow> (string \<Rightarrow> string \<Rightarrow> bool)
      \<Rightarrow> User \<Rightarrow> string \<Rightarrow> (go_error, bool) outcome" where
  "totp_Verify get_factors decrypt validate user code =
     (case get_factors (UID user) of
        Panic \<Rightarrow> Panic
      | Fail err \<Rightarrow> Fail (Wrapf ''failed to get MFA factors'' err)
      | Ok factors \<Rightarrow> totp_match decrypt validate code factors)"

definition totp_ListMethods ::
    "(string \<Rightarrow> (go_error, MFAFactor list) outcome) \<Rightarrow> User \<Rightarrow> (go_error, MFAMethod list) outcome" where
  "totp_ListMethods get_factors user =
     (case get_factors (UID user) of
        Panic \<Rightarrow> Panic
      | Fail err \<Rightarrow> Fail (Wrapf ''failed to get MFA factors'' err)
      | Ok factors \<Rightarrow>
          Ok (map (\<lambda>f. \<lparr>MmID = FcID f, MmType = ''totp''\<rparr>)
                (filter (\<lambda>f. FcType f = ''totp'' \<and> FcStatus f = ''enrolled'') factors)))"

section \<open>Recovery codes\<close>

fun hash_codes :: "(string \<Rightarrow> (go_error, string) outcome) \<Rightarrow> string list \<Rightarrow> (go_error, string list) outcome" where
  "hash_codes hash_code [] = Ok []"
| "hash_codes hash_code (c # cs) =
     (case hash_code c of
        Panic \<Rightarrow> Panic
      | Fail err \<Rightarrow> Fail (Wrapf ''failed to hash recovery code'' err)
      | Ok h \<Rightarrow> obind (hash_codes hash_code cs) (\<lambda>hs. Ok (h # hs)))"

definition GenerateAndStore ::
    "(go_error, string list) outcome \<Rightarrow> (string \<Rightarrow> (go_error, string) outcome) \<Rightarrow> factor_store \<Rightarrow> MFAFactor
      \<Rightarrow> (go_error, string list) outcome \<times> factor_store" where
  "GenerateAndStore codes hash_code r factor =
     (case codes of
        Panic \<Rightarrow> (Panic, r)
      | Fail err \<Rightarrow> (Fail (Wrapf ''failed to generate recovery codes'' err), r)
      | Ok plaintextCodes \<Rightarrow>
          (case hash_codes hash_code plaintextCodes of
             Panic \<Rightarrow> (Panic, r)
           | Fail err \<Rightarrow> (Fail err, r)
           | Ok hashedCodes \<Rightarrow>
               (case fmem_UpdateMFAFactor r (factor\<lparr>FcBackupCodes := Codes hashedCodes\<rparr>) of
                  (Panic, r') \<Rightarrow> (Panic, r')
                | (Fail err, r') \<Rightarrow> (Fail (Wrapf ''failed to update MFA factor with recovery codes'' err), r')
                | (Ok _, r') \<Rightarrow> (Ok plaintextCodes, r'))))"

text \<open>The first code of the list whose hash matches, and the list without it.\<close>

fun take_code :: "(string \<Rightarrow> string \<Rightarrow> bool) \<Rightarrow> string \<Rightarrow> string list \<Rightarrow> string list option" where
  "take_code check code [] = None"
| "take_code check code (h # hs) =
     (if check code h then Some hs else map_option ((#) h) (take_code check code hs))"

fun recovery_scan ::
    "(string \<Rightarrow> string \<Rightarrow> bool) \<Rightarrow> string \<Rightarrow> factor_store \<Rightarrow> MFAFactor list \<Rightarrow> (go_error, bool) outcome \<times> factor_store" where
  "recovery_scan check code r [] = (Ok False, r)"
| "recovery_scan check code r (f # fs) =
     (case FcBackupCodes f of
        Codes hashedCodes \<Rightarrow>
          (case take_code check code hashedCodes of
             None \<Rightarrow> recovery_scan check code r fs
           | Some rest \<Rightarrow>
               (case fmem_UpdateMFAFactor r (f\<lparr>FcBackupCodes := Codes rest\<rparr>) of
                  (Panic, r') \<Rightarrow> (Panic, r')
                | (Fail err, r') \<Rightarrow> (Fail (Wrapf ''failed to update MFA factor after using recovery code'' err), r')
                | (Ok _, r') \<Rightarrow> (Ok True, r')))
      | _ \<Rightarrow> recovery_scan check code r fs)"

definition recovery_Verify ::
    "(string \<Rightarrow> string option) \<Rightarrow> string list \<Rightarrow> (string \<Rightarrow> string \<Rightarrow> bool) \<Rightarrow> factor_store \<Rightarrow> User \<Rightarrow> string
      \<Rightarrow> (go_error, bool) outcome \<times> factor_store" where
  "recovery_Verify uuid_Parse ord check r user code =
     (case fmem_GetMFAFactorsByUserID uuid_Parse ord r (UID user) of
        Panic \<Rightarrow> (Panic, r)
      | Fail err \<Rightarrow> (Fail (Wrapf ''failed to get MFA factors'' err), r)
      | Ok factors \<Rightarrow> recovery_scan check code r factors)"

section \<open>One-time codes by message\<close>

record OTPConfig =
  OtpTTL :: int
  OtpLength :: int

record Message =
  MsgRecipient :: string
  MsgSubject :: string
  MsgBody :: string
  MsgType :: string

text \<open>The notifier manager may be nil; a notifier is its \<^verbatim>\<open>Send\<close> method.\<close>

type_synonym notifiers = "(string \<Rightarrow> (go_error, Message \<Rightarrow> (go_error, unit) outcome) outcome) option"

definition whole_minutes :: "int \<Rightarrow> int" where
  "whole_minutes d = (if 0 \<le> d then d div 60000000000 else - ((- d) div 60000000000))"

definition otp_key :: "string \<Rightarrow> string" where "otp_key userID = ''mfa:otp:'' @ userID"

definition generateRandomNumberString :: "bytes \<Rightarrow> string" where
  "generateRandomNumberString bs = random_text ''0123456789'' bs"

text \<open>\<open>rnd n\<close> gives \<open>n\<close> random bytes; \<^verbatim>\<open>make\<close> panics on a negative length.\<close>

definition otp_Challenge ::
    "'r RedisClient \<Rightarrow> notifiers \<Rightarrow> OTPConfig \<Rightarrow> (nat \<Rightarrow> bytes) \<Rightarrow> 'r \<Rightarrow> string \<Rightarrow> string \<Rightarrow> string
      \<Rightarrow> (go_error, string) outcome \<times> 'r" where
  "otp_Challenge client notifierManager cfg rnd r userID target mthd =
     (case notifierManager of
        None \<Rightarrow> (Panic, r)
      | Some GetNotifier \<Rightarrow>
          (case GetNotifier mthd of
             Panic \<Rightarrow> (Panic, r)
           | Fail err \<Rightarrow> (Fail (Wrapf (''failed to get notifier for method '' @ mthd) err), r)
           | Ok send \<Rightarrow>
               if OtpLength cfg < 0 then (Panic, r)
               else
                 (let code = generateRandomNumberString (rnd (nat (OtpLength cfg)))
                  in case rd_SetEx client r (otp_key userID) (Text code) (OtpTTL cfg) of
                       (Panic, r') \<Rightarrow> (Panic, r')
                     | (Fail err, r') \<Rightarrow> (Fail (Wrapf ''failed to store OTP in Redis'' err), r')
                     | (Ok _, r') \<Rightarrow>
                         (case send \<lparr>MsgRecipient = target, MsgSubject = ''Your OTP Code'',
                              MsgBody = ''Your One-Time Password is: <b>'' @ code @ ''</b>. It expires in '' @
                                 show_int (whole_minutes (OtpTTL cfg)) @ '' minutes.'',
                              MsgType = ''otp''\<rparr> of
                            Panic \<Rightarrow> (Panic, r')
                          | Fail err \<Rightarrow> (Fail (Wrapf ''failed to send OTP notification'' err), r')
                          | Ok _ \<Rightarrow> (Ok [], r')))))"

definition otp_Verify ::
    "'r RedisClient \<Rightarrow> 'r \<Rightarrow> string \<Rightarrow> string \<Rightarrow> (go_error, bool) outcome \<times> 'r" where
  "otp_Verify client r userID code =
     (case rd_Get client r (otp_key userID) of
        Panic \<Rightarrow> (Panic, r)
      | Fail err \<Rightarrow> (Fail (Wrapf ''failed to retrieve OTP from Redis (might be expired)'' err), r)
      | Ok storedCode \<Rightarrow>
          if storedCode = Text code
          then (case rd_Del client r (otp_key userID) of (Panic, r') \<Rightarrow> (Panic, r') | (_, r') \<Rightarrow> (Ok True, r'))
          else (Ok False, r))"

section \<open>The manager\<close>

text \<open>A registered provider as its methods; the providers are read-only here except through Redis.\<close>

record provider =
  pv_Challenge :: "User \<Rightarrow> (go_error, MFAChallenge) outcome"
  pv_Verify :: "User \<Rightarrow> string \<Rightarrow> (go_error, bool) outcome"
  pv_ListMethods :: "User \<Rightarrow> (go_error, MFAMethod list) outcome"
  pv_Strength :: string

record MFAManager =
  mm_providers :: "string \<rightharpoonup> provider"
  mm_otp :: "(notifiers \<times> OTPConfig) option"

definition RegisterProvider :: "MFAManager \<Rightarrow> string \<Rightarrow> provider \<Rightarrow> MFAManager" where
  "RegisterProvider m name p = m\<lparr>mm_providers := (mm_providers m)(name \<mapsto> p)\<rparr>"

fun collect_methods :: "provider list \<Rightarrow> User \<Rightarrow> string \<Rightarrow> (go_error, MFAMethod list) outcome" where
  "collect_methods [] user strength = Ok []"
| "collect_methods (p # ps) user strength =
     (if pv_Strength p = strength
      then obind (pv_ListMethods p user) (\<lambda>ms. obind (collect_methods ps user strength) (\<lambda>ns. Ok (ms @ ns)))
      else collect_methods ps user strength)"

definition GetAvailableMFAMethods ::
    "string list \<Rightarrow> MFAManager \<Rightarrow> User \<Rightarrow> string \<Rightarrow> (go_error, MFAMethod list) outcome" where
  "GetAvailableMFAMethods ord m user requiredStrength =
     collect_methods (range_values ord (mm_providers m)) user requiredStrength"

definition mm_Challenge ::
    "'r RedisClient \<Rightarrow> MFAManager \<Rightarrow> (nat \<Rightarrow> bytes) \<Rightarrow> 'r \<Rightarrow> User \<Rightarrow> string \<Rightarrow> (go_error, MFAChallenge) outcome \<times> 'r" where
  "mm_Challenge client m rnd r user providerName =
     (if providerName = ''email'' \<or> providerName = ''sms'' then
        (case mm_otp m of
           None \<Rightarrow> (Fail (Errorf ''otp provider not configured''), r)
         | Some (notifierManager, cfg) \<Rightarrow>
             (let target = (if providerName = ''sms'' then Phone user else Email user)
              in if target = [] then (Fail (Errorf (''user contact info missing for '' @ providerName)), r)
                 else case otp_Challenge client notifierManager cfg rnd r (UID user) target providerName of
                   (Panic, r') \<Rightarrow> (Panic, r')
                 | (Fail err, r') \<Rightarrow> (Fail err, r')
                 | (Ok _, r') \<Rightarrow>
                     (Ok \<lparr>MFAProvider = (if providerName = ''sms'' then AuthMethodSMS else ''email_otp''),
                          ChallengeID = [], ChOptions = None\<rparr>, r')))
      else case mm_providers m providerName of
        None \<Rightarrow> (Fail (Errorf (''provider not found: '' @ providerName)), r)
      | Some p \<Rightarrow> (pv_Challenge p user, r))"

definition mm_Verify ::
    "'r RedisClient \<Rightarrow> MFAManager \<Rightarrow> 'r \<Rightarrow> User \<Rightarrow> string \<Rightarrow> string \<Rightarrow> (go_error, bool) outcome \<times> 'r" where
  "mm_Verify client m r user providerName code =
     (if providerName = ''email'' \<or> providerName = ''sms'' then
        (case mm_otp m of
           None \<Rightarrow> (Fail (Errorf ''otp provider not configured''), r)
         | Some _ \<Rightarrow> otp_Verify client r (UID user) code)
      else case mm_providers m providerName of
        None \<Rightarrow> (Fail (Errorf (''provider not found: '' @ providerName)), r)
      | Some p \<Rightarrow> (pv_Verify p user code, r))"

section \<open>The policy\<close>

definition ShouldEnforceMFA ::
    "(string \<Rightarrow> string option) \<Rightarrow> (string \<Rightarrow> (go_error, MFAFactor list) outcome) \<Rightarrow> User \<Rightarrow> (go_error, bool) outcome" where
  "ShouldEnforceMFA uuid_Parse GetUserFactors user =
     (case uuid_Parse (UID user) of
        None \<Rightarrow> Fail (Errorf ''uuid'')
      | Some userID \<Rightarrow> obind (GetUserFactors userID) (\<lambda>factors. Ok (list_ex (\<lambda>f. FcStatus f = ''active'') factors)))"

definition mp_GetAvailableMFAMethods :: "(string \<Rightarrow> (go_error, MFAFactor list) outcome) \<Rightarrow> string \<Rightarrow> (go_error, string list) outcome" where
  "mp_GetAvailableMFAMethods GetUserFactors userID =
     obind (GetUserFactors userID) (\<lambda>factors. Ok (map FcType (filter (\<lambda>f. FcStatus f = ''active'') factors)))"

definition VerifyTOTP ::
    "(string \<Rightarrow> (go_error, MFAFactor list) outcome) \<Rightarrow> (string \<Rightarrow> string \<Rightarrow> bool) \<Rightarrow> err_store \<Rightarrow> string \<Rightarrow> string
      \<Rightarrow> (go_error, bool) outcome \<times> err_store" where
  "VerifyTOTP GetUserFactors validate h userID code =
     (case GetUserFactors userID of
        Panic \<Rightarrow> (Panic, h)
      | Fail err \<Rightarrow> (let (e, h') = WithCause h ErrNotFound err in (Fail e, h'))
      | Ok factors \<Rightarrow>
          (case find (\<lambda>f. FcType f = ''totp'') factors of
             Some f \<Rightarrow> (Ok (validate code (FcSecret f)), h)
           | None \<Rightarrow> (Fail ErrNotFound, h)))"

text \<open>The user of a stored challenge; errors of the decoder are ignored and leave the zero UUID.\<close>

definition challenge_user :: "(string \<Rightarrow> string option) \<Rightarrow> redis_value \<Rightarrow> string" where
  "challenge_user uuid_Parse v =
     (case v of
        JsonMap kvs \<Rightarrow>
          (case map_of kvs ''UserID'' of
             None \<Rightarrow> uuid_Nil
           | Some s \<Rightarrow> (case uuid_Parse s of None \<Rightarrow> uuid_Nil | Some u \<Rightarrow> u))
      | _ \<Rightarrow> uuid_Nil)"

text \<open>The checks of the two methods that the code knows; \<^term>\<open>True\<close> lets the challenge through.\<close>

definition challenge_passes ::
    "'r RedisClient \<Rightarrow> (string \<Rightarrow> (go_error, MFAFactor list) outcome) \<Rightarrow> (string \<Rightarrow> string \<Rightarrow> bool) \<Rightarrow> 'r
      \<Rightarrow> string \<Rightarrow> string \<Rightarrow> string \<Rightarrow> (go_error, bool) outcome" where
  "challenge_passes client GetUserFactors validate r userID mthd code =
     (if mthd = ''totp'' then
        (case GetUserFactors userID of
           Panic \<Rightarrow> Panic
         | Fail _ \<Rightarrow> Ok False
         | Ok factors \<Rightarrow> Ok (list_all (\<lambda>f. FcType f = ''totp'' \<longrightarrow> validate code (FcSecret f)) factors))
      else if mthd = ''sms'' then
        (case rd_Get client r (''sms:otp:'' @ userID) of
           Panic \<Rightarrow> Panic
         | Fail _ \<Rightarrow> Ok False
         | Ok storedCode \<Rightarrow> Ok (storedCode = Text code))
      else Ok True)"

definition mp_VerifyMFAChallenge ::
    "'r RedisClient \<Rightarrow> (string \<Rightarrow> string option) \<Rightarrow> (string \<Rightarrow> (go_error, MFAFactor list) outcome) \<Rightarrow> (string \<Rightarrow> string \<Rightarrow> bool)
      \<Rightarrow> 'r \<Rightarrow> string \<Rightarrow> string \<Rightarrow> string \<Rightarrow> (go_error, unit) outcome \<times> 'r" where
  "mp_VerifyMFAChallenge client uuid_Parse GetUserFactors validate r challengeID mthd code =
     (case rd_Get client r (''mfa:challenge:'' @ challengeID) of
        Panic \<Rightarrow> (Panic, r)
      | Fail _ \<Rightarrow> (Fail ErrInvalidRequest, r)
      | Ok challenge \<Rightarrow>
          (case challenge_passes client GetUserFactors validate r (challenge_user uuid_Parse challenge) mthd code of
             Panic \<Rightarrow> (Panic, r)
           | Ok False \<Rightarrow> (Fail ErrUnauthorized, r)
           | _ \<Rightarrow>
               (case rd_Del client r (''mfa:challenge:'' @ challengeID) of
                  (Panic, r') \<Rightarrow> (Panic, r') | (_, r') \<Rightarrow> (Ok (), r'))))"


section \<open>Recovery codes are used up\<close>

lemma take_code_None: "take_code check code hs = None \<longleftrightarrow> (\<forall>h \<in> set hs. \<not> check code h)"
  by (induction hs) auto

lemma take_code_Some:
  "take_code check code hs = Some rest \<Longrightarrow> \<exists>pre h post. hs = pre @ h # post \<and> rest = pre @ post \<and> check code h"
proof (induction hs arbitrary: rest)
  case (Cons g hs)
  show ?case
  proof (cases "check code g")
    case True
    with Cons.prems have "g # hs = [] @ g # hs \<and> rest = [] @ hs \<and> check code g" by simp
    then show ?thesis by blast
  next
    case False
    with Cons.prems obtain rest' where "take_code check code hs = Some rest'" "rest = g # rest'" by auto
    with Cons.IH obtain pre h post where "hs = pre @ h # post" "rest' = pre @ post" "check code h" by blast
    with \<open>rest = g # rest'\<close> have "g # hs = (g # pre) @ h # post \<and> rest = (g # pre) @ post \<and> check code h" by simp
    then show ?thesis by blast
  qed
qed simp

fun codes_of :: "MFAFactor \<Rightarrow> string list" where
  "codes_of f = (case FcBackupCodes f of Codes hs \<Rightarrow> hs | _ \<Rightarrow> [])"

text \<open>
  Over a list of stored factors, the scan either finds no matching hash and changes nothing, or removes one
  matching hash from one factor.
\<close>

lemma recovery_scan_cases:
  assumes "\<forall>f \<in> set fs. r (FcID f) = Some f"
  obtains (none) "recovery_scan check code r fs = (Ok False, r)" "\<forall>f \<in> set fs. \<forall>h \<in> set (codes_of f). \<not> check code h"
  | (hit) f pre h post where "f \<in> set fs" "FcBackupCodes f = Codes (pre @ h # post)" "check code h"
      "recovery_scan check code r fs = (Ok True, r(FcID f \<mapsto> f\<lparr>FcBackupCodes := Codes (pre @ post)\<rparr>))"
  using assms
proof (induction fs arbitrary: thesis)
  case Nil
  then show ?case by simp
next
  case (Cons g fs)
  show ?case
  proof (cases "\<exists>hs rest. FcBackupCodes g = Codes hs \<and> take_code check code hs = Some rest")
    case True
    then obtain hs rest where g: "FcBackupCodes g = Codes hs" "take_code check code hs = Some rest" by blast
    from take_code_Some [OF g(2)] obtain pre h post where "hs = pre @ h # post" "rest = pre @ post" "check code h" by blast
    with g Cons.prems(3) show ?thesis
      by (intro Cons.prems(2) [of g pre h post]) (simp_all add: fmem_UpdateMFAFactor_def fun_upd_def)
  next
    case False
    then have no: "take_code check code hs = None" if "FcBackupCodes g = Codes hs" for hs
      using that by (cases "take_code check code hs") auto
    then have skip: "recovery_scan check code r (g # fs) = recovery_scan check code r fs"
      by (cases "FcBackupCodes g") auto
    have none: "\<forall>h \<in> set (codes_of g). \<not> check code h"
      using no by (cases "FcBackupCodes g") (auto simp: take_code_None)
    from Cons.prems(3) have "\<forall>f \<in> set fs. r (FcID f) = Some f" by simp
    with Cons.IH skip none Cons.prems(1,2) show ?thesis
      by (metis list.set_intros(2) set_ConsD)
  qed
qed

definition keyed :: "factor_store \<Rightarrow> bool" where
  "keyed r \<longleftrightarrow> (\<forall>k f. r k = Some f \<longrightarrow> FcID f = k)"

text \<open>The hashes that a user holds, with their multiplicities.\<close>

definition user_codes :: "string list \<Rightarrow> factor_store \<Rightarrow> string \<Rightarrow> string multiset" where
  "user_codes ord r u = mset (concat (map codes_of (filter (\<lambda>f. FcUserID f = u) (range_values ord r))))"

lemma range_values_append: "range_values (ks @ ls) m = range_values ks m @ range_values ls m"
  by (simp add: range_values_def List.map_filter_def)

lemma range_values_Cons:
  "range_values (k # ks) m = (case m k of None \<Rightarrow> range_values ks m | Some v \<Rightarrow> v # range_values ks m)"
  by (simp add: range_values_def List.map_filter_def split: option.split)

lemma range_values_other: "k \<notin> set ks \<Longrightarrow> range_values ks (m(k \<mapsto> v)) = range_values ks m"
  by (auto simp: range_values_def List.map_filter_def intro!: map_cong filter_cong)

text \<open>Replacing a stored factor replaces its contribution to the user's hashes.\<close>

lemma user_codes_update:
  assumes "visits ord r" and "r k = Some f" and "FcUserID f = u" and "FcUserID f' = u"
  shows "user_codes ord (r(k \<mapsto> f')) u + mset (codes_of f) = user_codes ord r u + mset (codes_of f')"
proof -
  from assms(1,2) obtain a b where ord: "ord = a @ k # b" "k \<notin> set a" "k \<notin> set b"
    by (metis visits_def domI split_list distinct.simps(2) distinct_append disjoint_iff list.set_intros(1))
  show ?thesis
    unfolding user_codes_def ord(1) range_values_append range_values_Cons
    using assms(2-4) ord(2,3) by (simp add: range_values_other del: codes_of.simps)
qed

text \<open>
  A recovery code is used up: over a store with consistent keys, verification always gives an answer. It
  accepts exactly when the user holds a hash that the code matches; then one such hash is gone, and all the
  others remain. Otherwise nothing changes.
\<close>

theorem recovery_code_consumed:
  assumes "keyed r" and "visits ord r" and "uuid_Parse (UID user) = Some u"
  shows "\<exists>ok r'. recovery_Verify uuid_Parse ord check r user code = (Ok ok, r') \<and>
    (ok \<longleftrightarrow> (\<exists>h \<in># user_codes ord r u. check code h)) \<and>
    (if ok then \<exists>h \<in># user_codes ord r u. check code h \<and> user_codes ord r' u = user_codes ord r u - {#h#} else r' = r)"
proof -
  let ?fs = "filter (\<lambda>f. FcUserID f = u) (range_values ord r)"
  have set_fs: "set ?fs = {f \<in> ran r. FcUserID f = u}" using set_range_values [OF assms(2)] by auto
  with assms(1) have stored: "\<forall>f \<in> set ?fs. r (FcID f) = Some f"
    by (auto simp: keyed_def ran_def)
  have v: "recovery_Verify uuid_Parse ord check r user code = recovery_scan check code r ?fs"
    using assms(3) by (simp add: recovery_Verify_def fmem_GetMFAFactorsByUserID_def)
  have codes: "set_mset (user_codes ord r u) = (\<Union>f \<in> set ?fs. set (codes_of f))"
    by (simp add: user_codes_def del: codes_of.simps)
  from stored show ?thesis
  proof (cases rule: recovery_scan_cases [where check = check and code = code])
    case none
    with v codes show ?thesis by auto
  next
    case (hit f pre h post)
    let ?f' = "f\<lparr>FcBackupCodes := Codes (pre @ post)\<rparr>"
    from hit(1) stored have f: "r (FcID f) = Some f" "FcUserID f = u" by auto
    have "user_codes ord (r(FcID f \<mapsto> ?f')) u + mset (codes_of f) = user_codes ord r u + mset (codes_of ?f')"
      by (rule user_codes_update [OF assms(2)]) (use f in simp_all)
    with hit(2) have "add_mset h (user_codes ord (r(FcID f \<mapsto> ?f')) u) = user_codes ord r u" by simp
    then have "user_codes ord (r(FcID f \<mapsto> ?f')) u = user_codes ord r u - {#h#}"
      by (metis add_mset_remove_trivial)
    moreover have "h \<in># user_codes ord r u" using hit(1,2) codes by force
    ultimately show ?thesis using v hit(3,4) by auto
  qed
qed

section \<open>One-time codes\<close>

text \<open>
  C31: A one-time code that was sent is accepted once: over the key space, as long as it has not expired, wrong
  guesses are refused and change nothing, the right code is accepted, and after that every code is refused.
\<close>

theorem otp_accepted_once:
  assumes sent: "otp_Challenge ks_client notifierManager cfg rnd r userID target mthd = (Ok x, r1)"
    and time: "t < ks_now r + OtpTTL cfg"
  defines "right \<equiv> generateRandomNumberString (rnd (nat (OtpLength cfg)))" and "r2 \<equiv> r1\<lparr>ks_now := t\<rparr>"
  shows "(\<forall>code. code \<noteq> right \<longrightarrow> otp_Verify ks_client r2 userID code = (Ok False, r2)) \<and>
    (\<exists>r3. otp_Verify ks_client r2 userID right = (Ok True, r3) \<and>
       (\<forall>code. \<exists>e. otp_Verify ks_client r3 userID code = (Fail e, r3)))"
proof -
  from sent have "r1 = ks_put r (otp_key userID) (Text right) (OtpTTL cfg)"
    by (auto simp: otp_Challenge_def right_def Let_def split: option.splits outcome.splits if_splits)
  then have "ks_live r2 (otp_key userID) = Some (Text right)"
    using time by (auto simp: r2_def ks_live_def ks_put_def)
  then show ?thesis by (simp add: otp_Verify_def)
qed

text \<open>A one-time code consists of the configured number of digits.\<close>

lemma otp_digits: "length (generateRandomNumberString bs) = length bs \<and> set (generateRandomNumberString bs) \<subseteq> set ''0123456789''"
  using random_text_chars [of "''0123456789''" bs] by (simp add: generateRandomNumberString_def)

section \<open>Weaknesses of the policy\<close>

text \<open>
  A challenge is passed without any check by naming a method that the code does not know, and with the method
  \<open>totp\<close> by a user without such a factor.
\<close>

theorem VerifyMFAChallenge_bypass:
  assumes "ks_live r (''mfa:challenge:'' @ challengeID) = Some v"
    and "mthd \<notin> {''totp'', ''sms''} \<or>
      mthd = ''totp'' \<and> (\<exists>fs. GetUserFactors (challenge_user uuid_Parse v) = Ok fs \<and> (\<forall>f \<in> set fs. FcType f \<noteq> ''totp''))"
  shows "fst (mp_VerifyMFAChallenge ks_client uuid_Parse GetUserFactors validate r challengeID mthd code) = Ok ()"
  using assms by (auto simp: mp_VerifyMFAChallenge_def challenge_passes_def list_all_iff)

section \<open>Enrolled factors\<close>

text \<open>The states that enrolment and recovery codes can reach from an empty store.\<close>

inductive totp_reachable :: "factor_store \<Rightarrow> bool" where
  start: "totp_reachable Map.empty"
| enroll: "totp_reachable r \<Longrightarrow> totp_Enroll generate encrypt uuid_Parse uuid r user = (res, r') \<Longrightarrow> totp_reachable r'"
| codes: "totp_reachable r \<Longrightarrow> r k = Some factor \<Longrightarrow> GenerateAndStore cs hash_code r factor = (res', r') \<Longrightarrow> totp_reachable r'"
| verify: "totp_reachable r \<Longrightarrow> visits ord r \<Longrightarrow> recovery_Verify uuid_Parse ord check r user code = (res'', r') \<Longrightarrow> totp_reachable r'"

definition all_pending :: "factor_store \<Rightarrow> bool" where
  "all_pending r \<longleftrightarrow> (\<forall>k f. r k = Some f \<longrightarrow> FcID f = k \<and> FcStatus f = ''pending'')"

lemma all_pending_update:
  assumes "all_pending r" and "r k = Some f"
  shows "all_pending (r(FcID f \<mapsto> f\<lparr>FcBackupCodes := c\<rparr>))"
  using assms by (auto simp: all_pending_def)

lemma totp_reachable_pending: "totp_reachable r \<Longrightarrow> all_pending r"
proof (induction rule: totp_reachable.induct)
  case start
  show ?case by (simp add: all_pending_def)
next
  case (enroll r generate encrypt uuid_Parse uuid user res r')
  then show ?case
    by (auto simp: totp_Enroll_def fmem_CreateMFAFactor_def Let_def all_pending_def
        split: outcome.splits option.splits if_splits)
next
  case (codes r k factor cs hash_code res' r')
  from all_pending_update [OF codes.IH codes.hyps(2)] codes show ?case
    by (auto simp: GenerateAndStore_def fmem_UpdateMFAFactor_def split: outcome.splits if_splits)
next
  case (verify r ord uuid_Parse check user code res'' r')
  show ?case
  proof (cases "uuid_Parse (UID user)")
    case None
    with verify show ?thesis by (simp add: recovery_Verify_def fmem_GetMFAFactorsByUserID_def)
  next
    case (Some u)
    let ?fs = "filter (\<lambda>f. FcUserID f = u) (range_values ord r)"
    have stored: "\<forall>f \<in> set ?fs. r (FcID f) = Some f"
      using set_range_values [OF verify.hyps(2)] verify.IH by (auto simp: all_pending_def ran_def)
    have r': "(res'', r') = recovery_scan check code r ?fs"
      using verify.hyps(3) Some by (simp add: recovery_Verify_def fmem_GetMFAFactorsByUserID_def)
    from stored show ?thesis
    proof (cases rule: recovery_scan_cases [where check = check and code = code])
      case (hit f pre h post)
      from hit(1) stored have "r (FcID f) = Some f" by blast
      from all_pending_update [OF verify.IH this] hit(4) r' show ?thesis by (simp add: fun_upd_def)
    qed (use r' verify.IH in simp)
  qed
qed

text \<open>
  A factor that is enrolled with an authenticator app stays pending for ever: no operation confirms it, so the
  provider never lists it as a method and the policy never enforces it, although its codes are accepted.
\<close>

theorem enrolled_factor_never_listed:
  assumes "totp_reachable r" and "visits ord r" and "uuid_Parse (UID user) = Some u"
  shows "totp_ListMethods (fmem_GetMFAFactorsByUserID uuid_Parse ord r) user = Ok [] \<and>
    ShouldEnforceMFA uuid_Parse (\<lambda>v. Ok (filter (\<lambda>f. FcUserID f = v) (range_values ord r))) user = Ok False"
proof -
  have "\<forall>f \<in> set (range_values ord r). FcStatus f = ''pending''"
    using totp_reachable_pending [OF assms(1)] set_range_values [OF assms(2)] by (auto simp: all_pending_def ran_def)
  with assms(3) show ?thesis
    by (auto simp: totp_ListMethods_def fmem_GetMFAFactorsByUserID_def ShouldEnforceMFA_def filter_empty_conv list_ex_iff)
qed

section \<open>Instances\<close>

definition demo_factor :: MFAFactor where
  "demo_factor = \<lparr>FcID = ''f1'', FcUserID = ''u1'', FcType = ''totp'', FcStatus = ''pending'', FcSecret = ''s'',
     FcPhoneNumber = [], FcBackupCodes = Codes [''#a'', ''#b'']\<rparr>"

definition demo_space :: keyspace where
  "demo_space = \<lparr>ks_now = 0, ks_strings = [''mfa:challenge:c1'' \<mapsto> (JsonMap [(''UserID'', ''u1'')], None)], ks_zsets = (\<lambda>_. [])\<rparr>"

theorem recovery_code_consumed_witness:
  "\<exists>r'. recovery_Verify Some [''f1''] (\<lambda>c h. h = CHR ''#'' # c) [''f1'' \<mapsto> demo_factor] (zero_user\<lparr>UID := ''u1''\<rparr>) ''a'' = (Ok True, r') \<and>
     user_codes [''f1''] r' ''u1'' = {#''#b''#}"
proof -
  let ?r = "[''f1'' \<mapsto> demo_factor]"
  have "keyed ?r" by (simp add: keyed_def demo_factor_def)
  moreover have "visits [''f1''] ?r" by (simp add: visits_def)
  moreover have codes: "user_codes [''f1''] ?r ''u1'' = {#''#a'', ''#b''#}"
    by (simp add: user_codes_def range_values_Cons range_values_def List.map_filter_def demo_factor_def)
  ultimately show ?thesis
    using recovery_code_consumed [of ?r "[''f1'']" Some "zero_user\<lparr>UID := ''u1''\<rparr>" "''u1''" "\<lambda>c h. h = CHR ''#'' # c" "''a''"]
    by (auto simp: codes zero_user_def)
qed

theorem otp_accepted_once_witness:
  "\<exists>r1 r2. otp_Challenge ks_client (Some (\<lambda>_. Ok (\<lambda>_. Ok ()))) \<lparr>OtpTTL = 300, OtpLength = 2\<rparr> (\<lambda>_. [11, 22]) demo_space
       ''u1'' ''a@b'' ''email'' = (Ok [], r1) \<and>
     otp_Verify ks_client (r1\<lparr>ks_now := 200\<rparr>) ''u1'' ''12'' = (Ok True, r2) \<and>
     (\<exists>e. otp_Verify ks_client r2 ''u1'' ''12'' = (Fail e, r2))"
proof -
  let ?cfg = "\<lparr>OtpTTL = 300, OtpLength = 2\<rparr>"
  obtain r1 where r1: "otp_Challenge ks_client (Some (\<lambda>_. Ok (\<lambda>_. Ok ()))) ?cfg (\<lambda>_. [11, 22]) demo_space
       ''u1'' ''a@b'' ''email'' = (Ok [], r1)"
    by (simp add: otp_Challenge_def Let_def)
  have "generateRandomNumberString [11, 22] = ''12''"
    by (simp add: generateRandomNumberString_def random_text_def)
  with otp_accepted_once [OF r1, of 200] r1 show ?thesis by (auto simp: demo_space_def)
qed

theorem VerifyMFAChallenge_bypass_witness:
  "fst (mp_VerifyMFAChallenge ks_client Some (\<lambda>_. Ok [demo_factor]) (\<lambda>_ _. False) demo_space ''c1'' ''voice'' ''0'') = Ok () \<and>
   fst (mp_VerifyMFAChallenge ks_client Some (\<lambda>_. Ok [demo_factor]) (\<lambda>_ _. False) demo_space ''c1'' ''totp'' ''0'') = Fail ErrUnauthorized"
  using VerifyMFAChallenge_bypass [of demo_space "''c1''" "JsonMap [(''UserID'', ''u1'')]" "''voice''" "\<lambda>_. Ok [demo_factor]" Some
      "\<lambda>_ _. False" "''0''"]
  by (simp add: demo_space_def ks_live_def mp_VerifyMFAChallenge_def challenge_passes_def demo_factor_def)

theorem enrolled_factor_never_listed_witness:
  "\<exists>r. snd (totp_Enroll (\<lambda>n. Ok (''s'', ''url'')) Ok Some ''f1'' Map.empty (zero_user\<lparr>UID := ''u1''\<rparr>)) = r \<and> r ''f1'' \<noteq> None \<and>
     totp_ListMethods (fmem_GetMFAFactorsByUserID Some [''f1''] r) (zero_user\<lparr>UID := ''u1''\<rparr>) = Ok []"
proof -
  let ?u = "zero_user\<lparr>UID := ''u1''\<rparr>"
  let ?run = "totp_Enroll (\<lambda>n. Ok (''s'', ''url'')) Ok Some ''f1'' Map.empty ?u"
  have r: "totp_reachable (snd ?run)"
    by (rule totp_reachable.enroll [OF totp_reachable.start, of _ _ _ _ _ "fst ?run"]) simp
  have d: "visits [''f1''] (snd ?run)" "snd ?run ''f1'' \<noteq> None"
    by (auto simp: totp_Enroll_def fmem_CreateMFAFactor_def visits_def Let_def)
  from enrolled_factor_never_listed [OF r d(1), of Some ?u "UID ?u"] d(2) show ?thesis by blast
qed
end
