(* ===== verification/Recovery_Service.thy ===== *)
theory Recovery_Service
  imports MFA_Providers Session_Manager Identity_Memory
begin

text \<open>
  Password recovery, \<^verbatim>\<open>internal/domain/auth/recovery_service.go\<close>, over any user repository, the provider of
  one-time codes and the session manager, both in Redis. A call that does not return, because
  \<^verbatim>\<open>errors.Is\<close> does not, is \<^term>\<open>None\<close>. The password hash is an argument.
\<close>

definition ErrInvalidCode :: go_error where "ErrInvalidCode = Errorf ''invalid or expired OTP code''"

definition InitiateRecovery ::
    "'s UserRepository \<Rightarrow> 'r RedisClient \<Rightarrow> notifiers \<Rightarrow> OTPConfig \<Rightarrow> (nat \<Rightarrow> bytes) \<Rightarrow> err_store \<Rightarrow> 's \<Rightarrow> 'r \<Rightarrow> string
      \<Rightarrow> ((go_error, unit) outcome \<times> 'r) option" where
  "InitiateRecovery repo client notifierManager cfg rnd h s r email =
     (case ur_GetUserByEmail repo s email of
        Panic \<Rightarrow> Some (Panic, r)
      | Fail err \<Rightarrow>
          (case errors_Is h err ErrUserNotFound of
             None \<Rightarrow> None
           | Some True \<Rightarrow> Some (Ok (), r)
           | Some False \<Rightarrow> Some (Fail err, r))
      | Ok user \<Rightarrow>
          (case otp_Challenge client notifierManager cfg rnd r (UID user) email ''email'' of
             (Panic, r') \<Rightarrow> Some (Panic, r')
           | (Fail err, r') \<Rightarrow> Some (Fail err, r')
           | (Ok _, r') \<Rightarrow> Some (Ok (), r')))"

text \<open>A failure to revoke the sessions is logged only: the password has been changed.\<close>

definition VerifyAndReset ::
    "'s UserRepository \<Rightarrow> 'r RedisClient \<Rightarrow> (string \<Rightarrow> (go_error, string) outcome) \<Rightarrow> err_store \<Rightarrow> 's \<Rightarrow> 'r
      \<Rightarrow> string \<Rightarrow> string \<Rightarrow> string \<Rightarrow> ((go_error, unit) outcome \<times> 's \<times> 'r) option" where
  "VerifyAndReset repo client HashPassword h s r email code newPassword =
     (case ur_GetUserByEmail repo s email of
        Panic \<Rightarrow> Some (Panic, s, r)
      | Fail err \<Rightarrow>
          (case errors_Is h err ErrUserNotFound of
             None \<Rightarrow> None
           | Some True \<Rightarrow> Some (Fail ErrInvalidCredentials, s, r)
           | Some False \<Rightarrow> Some (Fail err, s, r))
      | Ok user \<Rightarrow>
          (case otp_Verify client r (UID user) code of
             (Panic, r1) \<Rightarrow> Some (Panic, s, r1)
           | (Fail err, r1) \<Rightarrow> Some (Fail err, s, r1)
           | (Ok False, r1) \<Rightarrow> Some (Fail ErrInvalidCode, s, r1)
           | (Ok True, r1) \<Rightarrow>
               (case HashPassword newPassword of
                  Panic \<Rightarrow> Some (Panic, s, r1)
                | Fail err \<Rightarrow> Some (Fail (Wrapf ''failed to hash password'' err), s, r1)
                | Ok hashedPassword \<Rightarrow>
                    (case ur_UpdateUser repo s (user\<lparr>Password := hashedPassword\<rparr>) of
                       (Panic, s1) \<Rightarrow> Some (Panic, s1, r1)
                     | (Fail err, s1) \<Rightarrow> Some (Fail (Wrapf ''failed to update user password'' err), s1, r1)
                     | (Ok _, s1) \<Rightarrow>
                         (case RevokeAllUserSessions client r1 (UID user) of
                            (Panic, r2) \<Rightarrow> Some (Panic, s1, r2)
                          | (_, r2) \<Rightarrow> Some (Ok (), s1, r2))))))"

section \<open>Properties\<close>

lemma session_keys_apart [simp]: "otp_key u \<noteq> session_key i" "session_key i \<noteq> otp_key u"
  by (simp_all add: otp_key_def session_key_def)

text \<open>Deleting and revoking sessions keep every key that is not a session's.\<close>

lemma revoke_each_other:
  assumes "\<And>i. k \<noteq> session_key i" and "revoke_each ks_client u ids r = (res, r')"
  shows "ks_live r' k = ks_live r k"
  using assms(2)
proof (induction ids arbitrary: r)
  case (Cons i ids)
  then have "ks_live r' k = ks_live (snd (sm_DeleteSession ks_client r u i)) k"
    by (simp add: sm_DeleteSession_def)
  with assms(1) show ?case by (simp add: sm_DeleteSession_def)
qed simp


text \<open>
  As the server is set up, without notifiers, a recovery request crashes for every registered address, while
  an unknown one is answered silently by a repository that reports missing users: the answers tell the
  two apart.
\<close>

lemma InitiateRecovery_without_notifiers:
  assumes "ur_GetUserByEmail repo s email = Ok user"
  shows "InitiateRecovery repo client None cfg rnd h s r email = Some (Panic, r)"
  using assms by (simp add: InitiateRecovery_def otp_Challenge_def)

lemma InitiateRecovery_unknown_silent:
  assumes "ur_GetUserByEmail repo s email = Fail ErrUserNotFound"
  shows "InitiateRecovery repo client notifierManager cfg rnd h s r email = Some (Ok (), r)"
proof -
  have "errors_Is h ErrUserNotFound ErrUserNotFound = Some True" by (subst errors_Is.simps) simp
  with assms show ?thesis by (simp add: InitiateRecovery_def)
qed

definition demo_mailbox :: keyspace where
  "demo_mailbox = \<lparr>ks_now = 0, ks_strings = [''mfa:otp:u1'' \<mapsto> (Text ''123456'', Some 300)],
     ks_zsets = (\<lambda>k. if k = ''user_sessions:u1'' then [(0, ''s1'')] else [])\<rparr>"

definition demo_accounts :: IdentityMemoryRepository where
  "demo_accounts = \<lparr>m_users = [''u1'' \<mapsto> zero_user\<lparr>UID := ''u1'', Email := ''a@b''\<rparr>], m_groups = Map.empty, m_userGroups = Map.empty\<rparr>"


end
