(* ===== verification/LDAP_Filter.thy ===== *)
theory LDAP_Filter
  imports Errors "HOL-Library.Sublist"
begin

text \<open>
  The search filters of the LDAP server: \<^verbatim>\<open>internal/protocol/ldap/filter_parser.go\<close> and the constants of
  \<^verbatim>\<open>schema.go\<close>. A filter is a packet tree of the package \<^verbatim>\<open>go-asn1-ber\<close>; of a packet the model keeps the
  fields that the code reads or writes. A type assertion on a value of another type and an index past the
  children are panics. \<^verbatim>\<open>strings.HasPrefix(s, p)\<close>, \<^verbatim>\<open>HasSuffix\<close> and \<^verbatim>\<open>Contains\<close> are \<open>prefix p s\<close>,
  \<open>suffix p s\<close> and \<open>sublist p s\<close>. The filters of RFC 4511 are a data type of their own, with their meaning
  and their encoding as packets; the matcher is compared with them.
\<close>

section \<open>Packets\<close>

datatype ber_class = ClassUniversal | ClassApplication | ClassContext | ClassPrivate

datatype ber_value = NoValue | StringValue string | IntValue int | BoolValue bool | BytesValue bytes

datatype ber_packet =
  Ber (ber_class: ber_class) (ber_tag: nat) (ber_value: ber_value) (ber_data: string)
      (ber_desc: string) (ber_children: "ber_packet list")

text \<open>\<^verbatim>\<open>p.Value.(string)\<close> and \<^verbatim>\<open>p.Value.(int64)\<close>.\<close>

definition as_string :: "ber_packet \<Rightarrow> (go_error, string) outcome" where
  "as_string p = (case ber_value p of StringValue s \<Rightarrow> Ok s | _ \<Rightarrow> Panic)"

definition as_int :: "ber_packet \<Rightarrow> (go_error, int) outcome" where
  "as_int p = (case ber_value p of IntValue i \<Rightarrow> Ok i | _ \<Rightarrow> Panic)"

section \<open>Constants of the schema\<close>

definition FilterAnd :: nat where "FilterAnd = 0"
definition FilterOr :: nat where "FilterOr = 1"
definition FilterNot :: nat where "FilterNot = 2"
definition FilterEqualityMatch :: nat where "FilterEqualityMatch = 3"
definition FilterSubstrings :: nat where "FilterSubstrings = 4"
definition FilterGreaterOrEqual :: nat where "FilterGreaterOrEqual = 5"
definition FilterLessOrEqual :: nat where "FilterLessOrEqual = 6"
definition FilterPresent :: nat where "FilterPresent = 7"
definition FilterApproxMatch :: nat where "FilterApproxMatch = 8"
definition FilterExtensibleMatch :: nat where "FilterExtensibleMatch = 9"

lemmas filter_tags = FilterAnd_def FilterOr_def FilterNot_def FilterEqualityMatch_def FilterSubstrings_def
  FilterGreaterOrEqual_def FilterLessOrEqual_def FilterPresent_def FilterApproxMatch_def
  FilterExtensibleMatch_def

section \<open>The matcher\<close>

record Entry =
  EDN :: string
  EAttributes :: "string \<rightharpoonup> string list"

definition checkAttributeMatch ::
    "Entry \<Rightarrow> ber_packet \<Rightarrow> (string \<Rightarrow> string \<Rightarrow> bool) \<Rightarrow> (go_error, bool) outcome" where
  "checkAttributeMatch entry flt matcher =
     (if length (ber_children flt) < 2 then Ok False
      else obind (as_string (ber_children flt ! 0)) (\<lambda>attr.
           obind (as_string (ber_children flt ! 1)) (\<lambda>val.
           case EAttributes entry attr of
             None \<Rightarrow> Ok False
           | Some entryVals \<Rightarrow> Ok (list_ex (\<lambda>v. matcher v val) entryVals))))"

text \<open>The loop over the components of a substring filter, for one value of the attribute.\<close>

fun match_components :: "string \<Rightarrow> bool \<Rightarrow> ber_packet list \<Rightarrow> (go_error, bool) outcome" where
  "match_components v matched [] = Ok matched"
| "match_components v matched (sub # subs) =
     obind (as_string sub) (\<lambda>subVal.
       match_components v
         (if ber_tag sub = 0 then matched \<and> prefix (ToLower subVal) (ToLower v)
          else if ber_tag sub = 1 then matched \<and> sublist (ToLower subVal) (ToLower v)
          else if ber_tag sub = 2 then matched \<and> suffix (ToLower subVal) (ToLower v)
          else matched) subs)"

fun match_values :: "ber_packet list \<Rightarrow> string list \<Rightarrow> (go_error, bool) outcome" where
  "match_values subs [] = Ok False"
| "match_values subs (v # vs) =
     obind (match_components v True subs) (\<lambda>matched. if matched then Ok True else match_values subs vs)"

definition match_substrings :: "Entry \<Rightarrow> ber_packet list \<Rightarrow> (go_error, bool) outcome" where
  "match_substrings entry cs =
     obind (go_index cs 0) (\<lambda>c0. obind (as_string c0) (\<lambda>attrType.
     obind (go_index cs 1) (\<lambda>s.
       case EAttributes entry attrType of
         None \<Rightarrow> Ok False
       | Some vals \<Rightarrow> match_values (ber_children s) vals)))"

text \<open>\<open>match_all\<close> and \<open>match_any\<close> are the loops of the cases \<^verbatim>\<open>FilterAnd\<close> and \<^verbatim>\<open>FilterOr\<close>.\<close>

fun MatchesFilter :: "Entry \<Rightarrow> ber_packet \<Rightarrow> (go_error, bool) outcome"
  and match_all :: "Entry \<Rightarrow> ber_packet list \<Rightarrow> (go_error, bool) outcome"
  and match_any :: "Entry \<Rightarrow> ber_packet list \<Rightarrow> (go_error, bool) outcome" where
  "MatchesFilter entry (Ber cls tag v d desc cs) =
     (if tag = FilterAnd then match_all entry cs
      else if tag = FilterOr then match_any entry cs
      else if tag = FilterNot then
        (case cs of [] \<Rightarrow> Panic | c # _ \<Rightarrow> obind (MatchesFilter entry c) (\<lambda>b. Ok (\<not> b)))
      else if tag = FilterEqualityMatch then
        checkAttributeMatch entry (Ber cls tag v d desc cs) EqualFold
      else if tag = FilterSubstrings then match_substrings entry cs
      else if tag = FilterPresent then Ok (EAttributes entry d \<noteq> None)
      else Ok False)"
| "match_all entry [] = Ok True"
| "match_all entry (c # cs) =
     obind (MatchesFilter entry c) (\<lambda>b. if b then match_all entry cs else Ok False)"
| "match_any entry [] = Ok False"
| "match_any entry (c # cs) =
     obind (MatchesFilter entry c) (\<lambda>b. if b then Ok True else match_any entry cs)"

section \<open>Filters of the standard\<close>

datatype rfilter =
    RAnd "rfilter list"
  | ROr "rfilter list"
  | RNot rfilter
  | REquality string string
  | RSubstrings string "string option" "string list" "string option"
  | RPresent string

definition octets :: "string \<Rightarrow> ber_packet" where
  "octets s = Ber ClassUniversal 4 (StringValue s) s [] []"

definition component :: "nat \<Rightarrow> string \<Rightarrow> ber_packet" where
  "component t s = Ber ClassContext t (StringValue s) s [] []"

definition components :: "string option \<Rightarrow> string list \<Rightarrow> string option \<Rightarrow> ber_packet list" where
  "components ini anys fin =
     (case ini of None \<Rightarrow> [] | Some s \<Rightarrow> [component 0 s]) @ map (component 1) anys @
     (case fin of None \<Rightarrow> [] | Some s \<Rightarrow> [component 2 s])"

fun filter_packet :: "rfilter \<Rightarrow> ber_packet" where
  "filter_packet (RAnd fs) = Ber ClassContext FilterAnd NoValue [] [] (map filter_packet fs)"
| "filter_packet (ROr fs) = Ber ClassContext FilterOr NoValue [] [] (map filter_packet fs)"
| "filter_packet (RNot f) = Ber ClassContext FilterNot NoValue [] [] [filter_packet f]"
| "filter_packet (REquality a v) = Ber ClassContext FilterEqualityMatch NoValue [] [] [octets a, octets v]"
| "filter_packet (RSubstrings a ini anys fin) =
     Ber ClassContext FilterSubstrings NoValue [] []
       [octets a, Ber ClassUniversal 16 NoValue [] [] (components ini anys fin)]"
| "filter_packet (RPresent a) = Ber ClassContext FilterPresent NoValue a [] []"

text \<open>
  The substrings of a filter occur in the value in their order and without overlap: the initial one at
  the beginning, the final one at the end.
\<close>

fun in_order :: "string list \<Rightarrow> string \<Rightarrow> bool" where
  "in_order [] m = True"
| "in_order (a # as) m =
     list_ex (\<lambda>k. prefix a (drop k m) \<and> in_order as (drop (k + length a) m)) [0..<Suc (length m)]"

definition text_of :: "string option \<Rightarrow> string" where
  "text_of x = (case x of None \<Rightarrow> [] | Some s \<Rightarrow> ToLower s)"

definition like :: "string option \<Rightarrow> string list \<Rightarrow> string option \<Rightarrow> string \<Rightarrow> bool" where
  "like ini anys fin v =
     (let x = ToLower v; i = text_of ini; f = text_of fin
      in prefix i x \<and> suffix f x \<and> length i + length f \<le> length x \<and>
         in_order (map ToLower anys) (take (length x - length i - length f) (drop (length i) x)))"

fun satisfies_by ::
    "(string option \<Rightarrow> string list \<Rightarrow> string option \<Rightarrow> string \<Rightarrow> bool) \<Rightarrow> Entry \<Rightarrow> rfilter \<Rightarrow> bool" where
  "satisfies_by R e (RAnd fs) = list_all (satisfies_by R e) fs"
| "satisfies_by R e (ROr fs) = list_ex (satisfies_by R e) fs"
| "satisfies_by R e (RNot f) = (\<not> satisfies_by R e f)"
| "satisfies_by R e (REquality a v) =
     (case EAttributes e a of None \<Rightarrow> False | Some vs \<Rightarrow> list_ex (\<lambda>w. EqualFold w v) vs)"
| "satisfies_by R e (RSubstrings a ini anys fin) =
     (case EAttributes e a of None \<Rightarrow> False | Some vs \<Rightarrow> list_ex (R ini anys fin) vs)"
| "satisfies_by R e (RPresent a) = (EAttributes e a \<noteq> None)"

definition satisfies :: "Entry \<Rightarrow> rfilter \<Rightarrow> bool" where
  "satisfies = satisfies_by like"

text \<open>Filters whose substring items have at most one component, and filters without negation.\<close>

fun one_component :: "rfilter \<Rightarrow> bool" where
  "one_component (RAnd fs) = list_all one_component fs"
| "one_component (ROr fs) = list_all one_component fs"
| "one_component (RNot f) = one_component f"
| "one_component (RSubstrings a ini anys fin) = (length (components ini anys fin) \<le> 1)"
| "one_component _ = True"

fun negation_free :: "rfilter \<Rightarrow> bool" where
  "negation_free (RAnd fs) = list_all negation_free fs"
| "negation_free (ROr fs) = list_all negation_free fs"
| "negation_free (RNot f) = False"
| "negation_free _ = True"

section \<open>What the matcher computes\<close>

text \<open>The components are compared one by one with the whole value.\<close>

definition loose :: "string option \<Rightarrow> string list \<Rightarrow> string option \<Rightarrow> string \<Rightarrow> bool" where
  "loose ini anys fin v =
     (let x = ToLower v
      in prefix (text_of ini) x \<and> list_all (\<lambda>a. sublist (ToLower a) x) anys \<and> suffix (text_of fin) x)"

lemma match_components_append:
  "match_components v m (xs @ ys) = obind (match_components v m xs) (\<lambda>b. match_components v b ys)"
proof (induction xs arbitrary: m)
  case (Cons x xs)
  then show ?case by (cases "as_string x :: (go_error, string) outcome") simp_all
qed simp

lemma match_components_any [simplified]:
  "match_components v m (map (component 1) anys) =
     Ok (m \<and> list_all (\<lambda>a. sublist (ToLower a) (ToLower v)) anys)"
  by (induction anys arbitrary: m) (simp_all add: component_def as_string_def)

lemma match_components_eq: "match_components v m (components ini anys fin) = Ok (m \<and> loose ini anys fin v)"
  by (auto simp: components_def match_components_append match_components_any loose_def text_of_def Let_def
      component_def as_string_def split: option.split)

lemma match_values_eq: "match_values (components ini anys fin) vs = Ok (list_ex (loose ini anys fin) vs)"
  by (induction vs) (simp_all add: match_components_eq)

lemma match_all_eq:
  "\<forall>f\<in>set fs. MatchesFilter e (filter_packet f) = Ok (P f) \<Longrightarrow>
   match_all e (map filter_packet fs) = Ok (list_all P fs)"
  by (induction fs) auto

lemma match_any_eq:
  "\<forall>f\<in>set fs. MatchesFilter e (filter_packet f) = Ok (P f) \<Longrightarrow>
   match_any e (map filter_packet fs) = Ok (list_ex P fs)"
  by (induction fs) auto

lemma MatchesFilter_loose: "MatchesFilter e (filter_packet f) = Ok (satisfies_by loose e f)"
proof (induction f)
  case (RAnd fs)
  then show ?case by (simp add: FilterAnd_def match_all_eq)
next
  case (ROr fs)
  then show ?case by (simp add: filter_tags match_any_eq)
next
  case (RSubstrings a ini anys fin)
  show ?case
    by (simp add: filter_tags match_substrings_def go_index_def octets_def as_string_def match_values_eq
        split: option.split)
qed (simp_all add: filter_tags checkAttributeMatch_def octets_def as_string_def split: option.split)

lemma in_order_sublist: "in_order as m \<Longrightarrow> a \<in> set as \<Longrightarrow> sublist a m"
proof (induction as arbitrary: m)
  case (Cons b as)
  then obtain k where k: "prefix b (drop k m)" "in_order as (drop (k + length b) m)"
    by (auto simp: list_ex_iff simp del: upt_Suc)
  have d: "sublist (drop n m) m" for n by (rule suffix_imp_sublist) (rule suffix_drop)
  show ?case
  proof (cases "a = b")
    case True
    with k(1) d [of k] show ?thesis by (meson prefix_imp_sublist sublist_order.order.trans)
  next
    case False
    with Cons.prems have "a \<in> set as" by simp
    with Cons.IH [OF k(2)] d [of "k + length b"] show ?thesis by (meson sublist_order.order.trans)
  qed
qed simp

lemma like_loose: "like ini anys fin v \<Longrightarrow> loose ini anys fin v"
proof -
  assume l: "like ini anys fin v"
  define x where "x = ToLower v"
  define m where "m = take (length x - length (text_of ini) - length (text_of fin)) (drop (length (text_of ini)) x)"
  have "sublist m x"
    unfolding m_def by (meson sublist_order.order.trans sublist_take sublist_drop)
  with l show ?thesis
    unfolding like_def loose_def Let_def x_def [symmetric] m_def [symmetric]
    by (auto simp: list_all_iff dest!: in_order_sublist intro: sublist_order.order.trans)
qed

lemma in_order_one: "in_order [a] m \<longleftrightarrow> sublist a m"
proof
  assume "sublist a m"
  then obtain ps ss where m: "m = ps @ a @ ss" by (auto simp: sublist_def)
  then have "prefix a (drop (length ps) m) \<and> length ps \<in> set [0..<Suc (length m)]" by simp
  then show "in_order [a] m" by (auto simp: list_ex_iff simp del: upt_Suc)
qed (erule in_order_sublist, simp)

lemma like_one: "length (components ini anys fin) \<le> 1 \<Longrightarrow> like ini anys fin v \<longleftrightarrow> loose ini anys fin v"
proof (cases anys)
  case Nil
  then show "length (components ini anys fin) \<le> 1 \<Longrightarrow> ?thesis"
    by (auto simp: components_def like_def loose_def text_of_def Let_def
        dest: prefix_length_le suffix_length_le split: option.splits)
next
  case (Cons a as)
  then show "length (components ini anys fin) \<le> 1 \<Longrightarrow> ?thesis"
    by (auto simp: components_def like_def loose_def text_of_def Let_def in_order_one
        simp del: in_order.simps split: option.splits)
qed

section \<open>The matcher against the standard\<close>

lemma satisfies_by_one: "one_component f \<Longrightarrow> satisfies_by loose e f = satisfies_by like e f"
proof (induction f)
  case (RAnd fs)
  then show ?case by (auto simp: list_all_iff)
next
  case (ROr fs)
  then show ?case by (auto simp: list_all_iff list_ex_iff)
next
  case (RSubstrings a ini anys fin)
  then have "loose ini anys fin = like ini anys fin" by (intro ext) (simp add: like_one)
  then show ?case by (simp split: option.split)
qed simp_all

lemma satisfies_by_mono: "negation_free f \<Longrightarrow> satisfies_by like e f \<Longrightarrow> satisfies_by loose e f"
proof (induction f)
  case (RSubstrings a ini anys fin)
  then show ?case by (auto simp: list_ex_iff intro: like_loose split: option.splits)
qed (auto simp: list_all_iff list_ex_iff)


definition demo_entry :: Entry where
  "demo_entry = \<lparr>EDN = ''uid=jdoe,ou=users,dc=example,dc=com'',
     EAttributes = [''uid'' \<mapsto> [''jdoe''], ''mail'' \<mapsto> [''abab@example.com'']]\<rparr>"


text \<open>
  With several components the matcher lets through at least what the standard does: an entry that
  satisfies a filter without negation is always matched.
\<close>

theorem MatchesFilter_complete:
  "negation_free f \<Longrightarrow> satisfies e f \<Longrightarrow> MatchesFilter e (filter_packet f) = Ok True"
  by (simp add: MatchesFilter_loose satisfies_def satisfies_by_mono)

text \<open>
  It lets through more: the components may overlap. The value \<^verbatim>\<open>aba\<close> is matched by \<^verbatim>\<open>ab*ba\<close>.
\<close>

lemma MatchesFilter_overlap:
  assumes "EAttributes e ''cn'' = Some [''aba'']"
  shows "MatchesFilter e (filter_packet (RSubstrings ''cn'' (Some ''ab'') [] (Some ''ba''))) = Ok True"
    and "\<not> satisfies e (RSubstrings ''cn'' (Some ''ab'') [] (Some ''ba''))"
  using assms unfolding MatchesFilter_loose
  by (simp_all add: satisfies_def loose_def like_def text_of_def Let_def lower_char_def suffix_def)

text \<open>
  A component that the decoder left without a string value panics as soon as the entry has a value for
  the attribute.
\<close>

lemma MatchesFilter_component_panics:
  assumes "EAttributes e a = Some (v # vs)" and "sub \<in> set subs" and "as_string sub = Panic"
  shows "MatchesFilter e (Ber cls FilterSubstrings NoValue d desc [octets a, Ber cls' t NoValue d' desc' subs]) = Panic"
proof -
  have "match_components v m subs = Panic" for m
    using assms(2)
  proof (induction subs arbitrary: m)
    case (Cons s subs)
    have "as_string s = Panic \<or> (\<exists>t. as_string s = Ok t)" by (simp add: as_string_def split: ber_value.split)
    with Cons assms(3) show ?case by auto
  qed simp
  with assms(1) show ?thesis
    by (simp add: filter_tags match_substrings_def go_index_def octets_def as_string_def)
qed
end
