(* ===== verification/LDAP_Server.thy ===== *)
theory LDAP_Server
  imports LDAP_Filter Identity_Memory
begin

text \<open>
  The LDAP server of \<^verbatim>\<open>internal/protocol/ldap\<close>: the virtual tree of users, bind and search requests, and
  the loop that serves one connection. The identity service, the password service and \<^verbatim>\<open>ldap.ParseDN\<close> of
  \<^verbatim>\<open>go-ldap\<close> are fields of the server; a parsed name is the list of its components, each the list of its
  attribute-value pairs, and \<open>ls_ErrorText\<close> is the text of an error. A packet that the package builds is its tree: the byte encoding is not modelled.
\<close>

section \<open>Constants and results\<close>

definition ApplicationBindRequest :: nat where "ApplicationBindRequest = 0"
definition ApplicationBindResponse :: nat where "ApplicationBindResponse = 1"
definition ApplicationUnbindRequest :: nat where "ApplicationUnbindRequest = 2"
definition ApplicationSearchRequest :: nat where "ApplicationSearchRequest = 3"
definition ApplicationSearchResultEntry :: nat where "ApplicationSearchResultEntry = 4"
definition ApplicationSearchResultDone :: nat where "ApplicationSearchResultDone = 5"
definition ApplicationExtendedResponse :: nat where "ApplicationExtendedResponse = 24"

definition LDAPResultSuccess :: int where "LDAPResultSuccess = 0"
definition LDAPResultOperationsError :: int where "LDAPResultOperationsError = 1"
definition LDAPResultProtocolError :: int where "LDAPResultProtocolError = 2"
definition LDAPResultAuthMethodNotSupported :: int where "LDAPResultAuthMethodNotSupported = 7"
definition LDAPResultInvalidCredentials :: int where "LDAPResultInvalidCredentials = 49"
definition LDAPResultUnwillingToPerform :: int where "LDAPResultUnwillingToPerform = 53"

definition ScopeBaseObject :: int where "ScopeBaseObject = 0"
definition ScopeSingleLevel :: int where "ScopeSingleLevel = 1"
definition ScopeWholeSubtree :: int where "ScopeWholeSubtree = 2"

lemmas ldap_tags = ApplicationBindRequest_def ApplicationBindResponse_def ApplicationUnbindRequest_def
  ApplicationSearchRequest_def ApplicationSearchResultEntry_def ApplicationSearchResultDone_def
  ApplicationExtendedResponse_def

lemmas ldap_codes = LDAPResultSuccess_def LDAPResultOperationsError_def LDAPResultProtocolError_def
  LDAPResultAuthMethodNotSupported_def LDAPResultInvalidCredentials_def LDAPResultUnwillingToPerform_def

text \<open>\<^verbatim>\<open>ber.NewInteger\<close>, \<^verbatim>\<open>ber.NewString\<close> and \<^verbatim>\<open>ber.Encode\<close> with the children that are appended to it.\<close>

definition ber_int :: "nat \<Rightarrow> int \<Rightarrow> string \<Rightarrow> ber_packet" where
  "ber_int tag i desc = Ber ClassUniversal tag (IntValue i) [] desc []"

definition ber_string :: "string \<Rightarrow> string \<Rightarrow> ber_packet" where
  "ber_string s desc = Ber ClassUniversal 4 (StringValue s) s desc []"

definition ber_node :: "ber_class \<Rightarrow> nat \<Rightarrow> string \<Rightarrow> ber_packet list \<Rightarrow> ber_packet" where
  "ber_node cls tag desc cs = Ber cls tag NoValue [] desc cs"

definition encodeLDAPResult :: "int \<Rightarrow> nat \<Rightarrow> int \<Rightarrow> string \<Rightarrow> string \<Rightarrow> ber_packet" where
  "encodeLDAPResult messageID appTag resultCode matchedDN errorMessage =
     ber_node ClassUniversal 16 ''LDAP Message''
       [ber_int 2 messageID ''MessageID'',
        ber_node ClassApplication appTag ''ProtocolOp''
          [ber_int 10 resultCode ''ResultCode'', ber_string matchedDN ''MatchedDN'',
           ber_string errorMessage ''ErrorMessage'']]"

text \<open>The attributes of an entry are written in the iteration order \<open>ord\<close> of the Go map.\<close>

definition encodeSearchResultEntry :: "string list \<Rightarrow> int \<Rightarrow> Entry \<Rightarrow> ber_packet" where
  "encodeSearchResultEntry ord messageID entry =
     ber_node ClassUniversal 16 ''LDAP Message''
       [ber_int 2 messageID ''MessageID'',
        ber_node ClassApplication ApplicationSearchResultEntry ''SearchResultEntry''
          [ber_string (EDN entry) ''objectName'',
           ber_node ClassUniversal 16 ''attributes''
             (List.map_filter (\<lambda>k. map_option (\<lambda>vals.
                ber_node ClassUniversal 16 ''PartialAttribute''
                  [ber_string k ''type'', ber_node ClassUniversal 17 ''vals'' (map (\<lambda>v. ber_string v ''value'') vals)])
                (EAttributes entry k)) ord)]]"

section \<open>The virtual tree\<close>

record LDAPServer =
  ls_baseDN :: string
  ls_ListUsers :: "UserFilter \<Rightarrow> (go_error, User list \<times> int) outcome"
  ls_GetUserByUsername :: "string \<Rightarrow> (go_error, User) outcome"
  ls_Verify :: "string \<Rightarrow> string \<Rightarrow> (go_error, bool) outcome"
  ls_ParseDN :: "string \<Rightarrow> (go_error, (string \<times> string) list list) outcome"
  ls_ErrorText :: "go_error \<Rightarrow> string"
  ls_order :: "string list"

text \<open>\<^verbatim>\<open>u.Attributes[k].(string)\<close> with the test \<^verbatim>\<open>ok\<close>.\<close>

definition attr_string :: "User \<Rightarrow> string \<Rightarrow> string option" where
  "attr_string u k =
     (case UAttributes u of
        None \<Rightarrow> None
      | Some m \<Rightarrow> (case m k of Some (VString s) \<Rightarrow> Some s | _ \<Rightarrow> None))"

definition ConvertUserToEntry :: "string \<Rightarrow> User \<Rightarrow> Entry" where
  "ConvertUserToEntry baseDN u =
     (let dn = ''uid='' @ Username u @ '',ou=users,'' @ baseDN;
          sn = (case attr_string u ''sn'' of None \<Rightarrow> Username u | Some s \<Rightarrow> s);
          cn = (case attr_string u ''displayName'' of None \<Rightarrow> Username u | Some s \<Rightarrow> s);
          attrs = [''objectClass'' \<mapsto> [''top'', ''person'', ''organizationalPerson'', ''inetOrgPerson''],
                   ''uid'' \<mapsto> [Username u], ''cn'' \<mapsto> [cn], ''sn'' \<mapsto> [sn], ''mail'' \<mapsto> [Email u]];
          attrs1 = (case attr_string u ''firstName'' of None \<Rightarrow> attrs | Some s \<Rightarrow> attrs(''givenName'' \<mapsto> [s]));
          attrs2 = (case attr_string u ''lastName'' of None \<Rightarrow> attrs1 | Some s \<Rightarrow> attrs1(''sn'' \<mapsto> [s]))
      in \<lparr>EDN = dn, EAttributes = attrs2\<rparr>)"

text \<open>\<^verbatim>\<open>strings.TrimSuffix(s, t)\<close>.\<close>

definition TrimSuffix :: "string \<Rightarrow> string \<Rightarrow> string" where
  "TrimSuffix s t = (if suffix t s then take (length s - length t) s else s)"

definition isDNInScope :: "string \<Rightarrow> string \<Rightarrow> int \<Rightarrow> bool" where
  "isDNInScope dn0 base0 scope =
     (let dn = ToLower dn0; base = ToLower base0
      in if scope = ScopeBaseObject then dn = base
         else if \<not> suffix base dn then False
         else let remaining = (if base = [] then dn else TrimSuffix dn ('','' @ base));
                  parts = split_on CHR '','' remaining
              in if scope = ScopeSingleLevel then length parts = 1 else True)"

text \<open>The loop over the users.\<close>

fun collect_entries :: "string \<Rightarrow> string \<Rightarrow> int \<Rightarrow> ber_packet \<Rightarrow> User list \<Rightarrow> (go_error, Entry list) outcome" where
  "collect_entries treeDN baseDN scope flt [] = Ok []"
| "collect_entries treeDN baseDN scope flt (u # us) =
     (let entry = ConvertUserToEntry treeDN u
      in if \<not> isDNInScope (EDN entry) baseDN scope then collect_entries treeDN baseDN scope flt us
         else obind (MatchesFilter entry flt) (\<lambda>b.
              obind (collect_entries treeDN baseDN scope flt us) (\<lambda>es. Ok (if b then entry # es else es))))"

definition empty_filter :: UserFilter where
  "empty_filter = \<lparr>FQuery = [], FStatus = [], FPage = 0, FPageSize = 0, FSortBy = [], FSortOrder = []\<rparr>"

definition vt_Search :: "LDAPServer \<Rightarrow> string \<Rightarrow> int \<Rightarrow> ber_packet \<Rightarrow> (go_error, Entry list) outcome" where
  "vt_Search s baseDN0 scope flt =
     (let baseDN = ToLower baseDN0; serverBase = ToLower (ls_baseDN s)
      in if \<not> suffix serverBase baseDN \<and> baseDN \<noteq> [] then Ok []
         else obind (ls_ListUsers s empty_filter) (\<lambda>(users, _).
              collect_entries (ls_baseDN s) baseDN scope flt users))"

section \<open>Requests\<close>

definition bind_result :: "int \<Rightarrow> int \<Rightarrow> string \<Rightarrow> ber_packet" where
  "bind_result messageID code msg = encodeLDAPResult messageID ApplicationBindResponse code [] msg"

definition doSimpleBind :: "LDAPServer \<Rightarrow> int \<Rightarrow> string \<Rightarrow> string \<Rightarrow> (go_error, ber_packet) outcome" where
  "doSimpleBind s messageID dn password =
     (if dn = [] \<and> password = [] then Ok (bind_result messageID LDAPResultSuccess [])
      else case ls_ParseDN s dn of
        Panic \<Rightarrow> Panic
      | Fail _ \<Rightarrow> Ok (bind_result messageID LDAPResultInvalidCredentials ''Invalid DN'')
      | Ok [] \<Rightarrow> Ok (bind_result messageID LDAPResultInvalidCredentials ''Invalid DN'')
      | Ok ([] # _) \<Rightarrow> Ok (bind_result messageID LDAPResultInvalidCredentials ''Invalid RDN'')
      | Ok (((_, val) # _) # _) \<Rightarrow>
          (case ls_GetUserByUsername s val of
             Panic \<Rightarrow> Panic
           | Fail _ \<Rightarrow> Ok (bind_result messageID LDAPResultInvalidCredentials ''Invalid Credentials'')
           | Ok user \<Rightarrow>
               (case ls_Verify s (UID user) password of
                  Panic \<Rightarrow> Panic
                | Fail _ \<Rightarrow> Ok (bind_result messageID LDAPResultInvalidCredentials ''Invalid Credentials'')
                | Ok valid \<Rightarrow>
                    if \<not> valid then Ok (bind_result messageID LDAPResultInvalidCredentials ''Invalid Credentials'')
                    else Ok (bind_result messageID LDAPResultSuccess []))))"

definition bind_password :: "ber_packet \<Rightarrow> string" where
  "bind_password authChoice =
     (case ber_value authChoice of
        NoValue \<Rightarrow> ber_data authChoice
      | StringValue p \<Rightarrow> p
      | BytesValue p \<Rightarrow> string_of p
      | _ \<Rightarrow> [])"

definition HandleBind :: "LDAPServer \<Rightarrow> int \<Rightarrow> ber_packet \<Rightarrow> (go_error, ber_packet) outcome" where
  "HandleBind s messageID req =
     (let cs = ber_children req
      in if length cs < 3 then Ok (bind_result messageID LDAPResultProtocolError ''Invalid BindRequest'')
         else obind (as_int (cs ! 0)) (\<lambda>version.
              obind (as_string (cs ! 1)) (\<lambda>dn.
              if version \<noteq> 3 then Ok (bind_result messageID LDAPResultProtocolError ''Only LDAPv3 supported'')
              else if ber_tag (cs ! 2) = 0 then doSimpleBind s messageID dn (bind_password (cs ! 2))
              else Ok (bind_result messageID LDAPResultAuthMethodNotSupported ''Unsupported auth method''))))"

fun requested_attrs :: "ber_packet list \<Rightarrow> (go_error, string list) outcome" where
  "requested_attrs [] = Ok []"
| "requested_attrs (c # cs) = obind (as_string c) (\<lambda>a. obind (requested_attrs cs) (\<lambda>as. Ok (a # as)))"

definition HandleSearch :: "LDAPServer \<Rightarrow> int \<Rightarrow> ber_packet \<Rightarrow> (go_error, ber_packet) outcome" where
  "HandleSearch s messageID req =
     (let cs = ber_children req
      in if length cs < 8
         then Ok (encodeLDAPResult messageID ApplicationSearchResultDone LDAPResultProtocolError [] ''Invalid SearchRequest'')
         else obind (as_string (cs ! 0)) (\<lambda>baseObject.
              obind (as_int (cs ! 1)) (\<lambda>scope.
              obind (requested_attrs (ber_children (cs ! 7))) (\<lambda>_.
              case vt_Search s baseObject scope (cs ! 6) of
                Panic \<Rightarrow> Panic
              | Fail err \<Rightarrow>
                  Ok (encodeLDAPResult messageID ApplicationSearchResultDone LDAPResultOperationsError [] (ls_ErrorText s err))
              | Ok entries \<Rightarrow>
                  Ok (ber_node ClassContext 0 ''MultiResponse''
                    (map (encodeSearchResultEntry (ls_order s) messageID) entries @
                     [encodeLDAPResult messageID ApplicationSearchResultDone LDAPResultSuccess [] []]))))))"

section \<open>A connection\<close>

text \<open>
  \<^verbatim>\<open>handleConnection\<close> for the packets that are read from the connection, \<open>Fail\<close> standing for a read error;
  the connection ends with the input. \<open>wr\<close> says whether a write succeeds, given what was written before.
  A panic is not recovered and ends the process.
\<close>

datatype conn_end = Closed | Crashed

fun write_all :: "(ber_packet list \<Rightarrow> bool) \<Rightarrow> ber_packet list \<Rightarrow> ber_packet list \<Rightarrow> bool \<times> ber_packet list" where
  "write_all wr out [] = (True, out)"
| "write_all wr out (p # ps) = (if wr out then write_all wr (out @ [p]) ps else (False, out))"

definition responses :: "ber_packet \<Rightarrow> ber_packet list" where
  "responses resp =
     (if ber_tag resp = 0 \<and> ber_class resp = ClassContext \<and> ber_desc resp = ''MultiResponse''
      then ber_children resp else [resp])"

datatype dispatched = Hangup | Respond "(go_error, ber_packet) outcome"

definition dispatch :: "LDAPServer \<Rightarrow> ber_packet \<Rightarrow> dispatched" where
  "dispatch s packet =
     (case ber_children packet of
        m # protocolOp # _ \<Rightarrow>
          (case ber_value m of
             IntValue messageID \<Rightarrow>
               if ber_class protocolOp \<noteq> ClassApplication then Hangup
               else if ber_tag protocolOp = ApplicationBindRequest then Respond (HandleBind s messageID protocolOp)
               else if ber_tag protocolOp = ApplicationSearchRequest then Respond (HandleSearch s messageID protocolOp)
               else if ber_tag protocolOp = ApplicationUnbindRequest then Hangup
               else Respond (Ok (encodeLDAPResult messageID ApplicationExtendedResponse
                      LDAPResultUnwillingToPerform [] ''Operation not supported''))
           | _ \<Rightarrow> Hangup)
      | _ \<Rightarrow> Hangup)"

fun handleConnection ::
    "LDAPServer \<Rightarrow> (ber_packet list \<Rightarrow> bool) \<Rightarrow> (go_error, ber_packet) outcome list \<Rightarrow> ber_packet list
      \<Rightarrow> ber_packet list \<times> conn_end" where
  "handleConnection s wr [] out = (out, Closed)"
| "handleConnection s wr (Ok packet # rest) out =
     (case dispatch s packet of
        Hangup \<Rightarrow> (out, Closed)
      | Respond Panic \<Rightarrow> (out, Crashed)
      | Respond (Fail _) \<Rightarrow> (out, Closed)
      | Respond (Ok resp) \<Rightarrow>
          (case write_all wr out (responses resp) of
             (True, out') \<Rightarrow> handleConnection s wr rest out'
           | (False, out') \<Rightarrow> (out', Closed)))"
| "handleConnection s wr (Fail _ # rest) out = (out, Closed)"
| "handleConnection s wr (Panic # rest) out = (out, Crashed)"

section \<open>Binding\<close>

lemma result_inject [simp]:
  "bind_result m c msg = bind_result m' c' msg' \<longleftrightarrow> m = m' \<and> c = c' \<and> msg = msg'"
  by (auto simp: bind_result_def encodeLDAPResult_def ber_node_def ber_int_def ber_string_def)

lemma failure_codes [simp]:
  "LDAPResultProtocolError \<noteq> LDAPResultSuccess" "LDAPResultAuthMethodNotSupported \<noteq> LDAPResultSuccess"
  "LDAPResultInvalidCredentials \<noteq> LDAPResultSuccess" "LDAPResultOperationsError \<noteq> LDAPResultSuccess"
  by (simp_all add: ldap_codes)

text \<open>The name that a bind request proves: the value of the first attribute of the first component.\<close>

definition first_value :: "(string \<times> string) list list \<Rightarrow> string option" where
  "first_value rdns = (case rdns of ((_, v) # _) # _ \<Rightarrow> Some v | _ \<Rightarrow> None)"

lemma doSimpleBind_success:
  "doSimpleBind s m dn pw = Ok (bind_result m' LDAPResultSuccess msg) \<longleftrightarrow>
     m' = m \<and> msg = [] \<and>
     (dn = [] \<and> pw = [] \<or>
      (\<exists>rdns v u. ls_ParseDN s dn = Ok rdns \<and> first_value rdns = Some v \<and>
         ls_GetUserByUsername s v = Ok u \<and> ls_Verify s (UID u) pw = Ok True))"
  by (auto simp: doSimpleBind_def first_value_def ldap_codes split: outcome.splits list.splits prod.splits)

text \<open>
  A bind request succeeds exactly when it is an LDAPv3 simple bind that is either anonymous (empty name
  and empty password) or names, in the first component of its DN, a user whose password verifies. The
  rest of the DN is not looked at.
\<close>

theorem HandleBind_success:
  "HandleBind s m req = Ok (bind_result m LDAPResultSuccess []) \<longleftrightarrow>
     (\<exists>v3 name auth rest. ber_children req = v3 # name # auth # rest \<and> ber_value v3 = IntValue 3 \<and>
        ber_tag auth = 0 \<and>
        (\<exists>dn. ber_value name = StringValue dn \<and>
          (dn = [] \<and> bind_password auth = [] \<or>
           (\<exists>rdns v u. ls_ParseDN s dn = Ok rdns \<and> first_value rdns = Some v \<and>
              ls_GetUserByUsername s v = Ok u \<and> ls_Verify s (UID u) (bind_password auth) = Ok True))))"
proof (cases "ber_children req")
  case Nil
  then show ?thesis by (simp add: HandleBind_def)
next
  case (Cons c0 cs)
  then show ?thesis
  proof (cases "\<exists>c1 c2 rest. cs = c1 # c2 # rest")
    case True
    with Cons show ?thesis
      by (auto simp: HandleBind_def as_int_def as_string_def doSimpleBind_success Let_def
          split: ber_value.splits if_splits)
  next
    case False
    then have "length cs < 2" by (cases cs; cases "tl cs") auto
    with Cons False show ?thesis by (auto simp: HandleBind_def)
  qed
qed

section \<open>Searching\<close>

definition visible :: "LDAPServer \<Rightarrow> string \<Rightarrow> bool" where
  "visible s base = (base = [] \<or> suffix (ToLower (ls_baseDN s)) (ToLower base))"

lemma collect_entries_eq:
  assumes "\<And>u. u \<in> set users \<Longrightarrow> MatchesFilter (ConvertUserToEntry dn u) flt = Ok (P (ConvertUserToEntry dn u))"
  shows "collect_entries dn base scope flt users =
     Ok (filter (\<lambda>e. isDNInScope (EDN e) base scope \<and> P e) (map (ConvertUserToEntry dn) users))"
  using assms by (induction users) (auto simp: Let_def)

lemma isDNInScope_lower: "isDNInScope dn (ToLower base) scope = isDNInScope dn base scope"
  by (simp add: isDNInScope_def)

lemma suffix_ToLower: "suffix s t \<Longrightarrow> suffix (ToLower s) (ToLower t)"
  by (auto simp: suffix_def)

text \<open>One level below \<^verbatim>\<open>ou=users\<close> of the tree lie exactly the users whose name has no comma.\<close>

lemma TrimSuffix_append [simp]: "TrimSuffix (s @ t) t = s"
  by (simp add: TrimSuffix_def suffix_def)

lemma comma_ToLower [simp]: "CHR '','' \<in> set (ToLower s) \<longleftrightarrow> CHR '','' \<in> set s"
  unfolding ToLower_def set_map image_iff by (metis lower_char_comma)

lemma single_level_split:
  assumes "ToLower base \<noteq> []" and "ToLower dn = p @ '','' @ ToLower base"
  shows "isDNInScope dn base ScopeSingleLevel \<longleftrightarrow> CHR '','' \<notin> set p"
proof -
  have "suffix (ToLower base) (p @ '','' @ ToLower base)" by (metis append.assoc suffixI)
  with assms show ?thesis
    unfolding isDNInScope_def Let_def assms(2) TrimSuffix_append length_split_on
    by (simp add: ScopeBaseObject_def ScopeSingleLevel_def count_list_0_iff)
qed

lemma users_one_level:
  "isDNInScope (EDN (ConvertUserToEntry dn u)) (''ou=users,'' @ dn) ScopeSingleLevel \<longleftrightarrow>
     CHR '','' \<notin> set (Username u)"
proof -
  have c: "ToLower '','' = '',''" by (simp add: lower_char_def)
  have "ToLower (EDN (ConvertUserToEntry dn u)) =
      ToLower (''uid='' @ Username u) @ ToLower '','' @ ToLower (''ou=users,'' @ dn)"
    by (simp add: ConvertUserToEntry_def Let_def)
  then have "isDNInScope (EDN (ConvertUserToEntry dn u)) (''ou=users,'' @ dn) ScopeSingleLevel \<longleftrightarrow>
      CHR '','' \<notin> set (ToLower (''uid='' @ Username u))"
    unfolding c by (rule single_level_split [rotated]) simp
  then show ?thesis unfolding comma_ToLower by simp
qed

lemma vt_Search_users:
  assumes "visible s base" and "ls_ListUsers s empty_filter = Ok (users, n)" and "one_component f"
  shows "vt_Search s base scope (filter_packet f) =
     Ok (filter (\<lambda>e. isDNInScope (EDN e) base scope \<and> satisfies e f)
           (map (ConvertUserToEntry (ls_baseDN s)) users))"
proof -
  have m: "MatchesFilter e (filter_packet f) = Ok (satisfies e f)" for e
    using assms(3) by (simp add: MatchesFilter_loose satisfies_def satisfies_by_one)
  have "ToLower base \<noteq> [] \<longleftrightarrow> base \<noteq> []" by (metis length_0_conv length_ToLower)
  with assms(1,2) show ?thesis
    by (auto simp: vt_Search_def visible_def collect_entries_eq [where P = "\<lambda>e. satisfies e f"] m
        isDNInScope_lower Let_def)
qed

text \<open>The server of a directory with one user, whose password is \<^verbatim>\<open>pw\<close>.\<close>

definition demo_user :: User where
  "demo_user = zero_user\<lparr>UID := ''u1'', Username := ''jdoe'', Email := ''j@x''\<rparr>"

definition demo_ldap :: LDAPServer where
  "demo_ldap = \<lparr>ls_baseDN = ''dc=x'', ls_ListUsers = (\<lambda>_. Ok ([demo_user], 1)),
     ls_GetUserByUsername = (\<lambda>n. if n = ''jdoe'' then Ok demo_user else Fail (Errorf ''not found'')),
     ls_Verify = (\<lambda>i p. Ok (i = ''u1'' \<and> p = ''pw'')),
     ls_ParseDN = (\<lambda>dn. Ok [[(''uid'', dn)]]), ls_ErrorText = (\<lambda>_. []), ls_order = []\<rparr>"


text \<open>The base is compared as text: it need not begin at a component of the name.\<close>

lemma scope_is_textual:
  "isDNInScope (EDN (ConvertUserToEntry dn u)) (''rs,'' @ dn) ScopeWholeSubtree"
proof -
  have "suffix (''rs,'' @ dn) (EDN (ConvertUserToEntry dn u))"
    unfolding suffix_def
    by (rule exI [of _ "''uid='' @ Username u @ '',ou=use''"]) (simp add: ConvertUserToEntry_def Let_def)
  from suffix_ToLower [OF this] show ?thesis
    by (simp add: isDNInScope_def Let_def ScopeBaseObject_def ScopeSingleLevel_def ScopeWholeSubtree_def)
qed

text \<open>
  Over the in-memory repository every search comes back empty: the empty filter of the virtual tree asks
  for a page of size zero.
\<close>

lemma mem_ListUsers_empty_filter:
  "mem_ListUsers ord r empty_filter = Ok ([], int (length (range_values ord (m_users r))))"
  by (simp add: mem_ListUsers_def empty_filter_def go_int_def go_slice_int_def Let_def go_slice_def)

theorem vt_Search_over_memory:
  assumes "ls_ListUsers s = mem_ListUsers ord r"
  shows "vt_Search s base scope flt = Ok []"
  using assms by (simp add: vt_Search_def mem_ListUsers_empty_filter Let_def)
theorem vt_Search_over_memory_witness:
  "vt_Search (demo_ldap\<lparr>ls_ListUsers := mem_ListUsers [''u1''] (NewIdentityMemoryRepository\<lparr>m_users := [''u1'' \<mapsto> demo_user]\<rparr>)\<rparr>)
     ''dc=x'' ScopeWholeSubtree (filter_packet (RPresent ''uid'')) = Ok []"
  by (rule vt_Search_over_memory) simp

section \<open>Serving a connection\<close>

text \<open>What the server writes in answer to one packet, whatever came before it on the connection.\<close>

definition answer :: "LDAPServer \<Rightarrow> ber_packet \<Rightarrow> ber_packet list option" where
  "answer s packet =
     (case dispatch s packet of Respond (Ok resp) \<Rightarrow> Some (responses resp) | _ \<Rightarrow> None)"

lemma write_all_ok: "write_all (\<lambda>_. True) out ps = (True, out @ ps)"
  by (induction ps arbitrary: out) simp_all

lemma handleConnection_append:
  assumes "\<forall>p\<in>set ps. answer s p \<noteq> None"
  shows "handleConnection s (\<lambda>_. True) (map Ok ps @ rest) out =
    handleConnection s (\<lambda>_. True) rest (out @ concat (map (\<lambda>p. the (answer s p)) ps))"
  using assms
  by (induction ps arbitrary: out)
    (auto simp: answer_def write_all_ok split: dispatched.splits outcome.splits)

lemma doSimpleBind_not_Fail [simp]: "doSimpleBind s m dn pw \<noteq> Fail e"
  by (auto simp: doSimpleBind_def split: outcome.splits list.splits prod.splits)

lemma as_not_Fail [simp]: "as_string p \<noteq> Fail e" "as_int p \<noteq> Fail e"
  by (auto simp: as_string_def as_int_def split: ber_value.splits)

lemma requested_attrs_not_Fail [simp]: "requested_attrs cs \<noteq> Fail e"
  by (induction cs) (auto simp: obind_eq_Fail)

text \<open>A handler answers with a packet or panics.\<close>

lemma dispatch_not_Fail: "dispatch s p \<noteq> Respond (Fail e)"
proof -
  have "HandleBind s m r \<noteq> Fail e" for m r
    by (auto simp: HandleBind_def Let_def obind_eq_Fail)
  moreover have "HandleSearch s m r \<noteq> Fail e" for m r
    by (auto simp: HandleSearch_def Let_def obind_eq_Fail split: outcome.splits)
  ultimately show ?thesis by (auto simp: dispatch_def split: list.splits ber_value.splits)
qed

text \<open>
  The server keeps no bind state: after any answered packets, binds that failed or none at all included,
  the answer to a search is the same complete result.
\<close>

theorem search_needs_no_bind:
  assumes "\<forall>p\<in>set before. answer s p \<noteq> None"
    and "ber_children packet = mid # op # ctrls" and "ber_value mid = IntValue m"
    and "ber_class op = ClassApplication" and "ber_tag op = ApplicationSearchRequest"
    and "length (ber_children op) = 8" and "as_string (ber_children op ! 0) = Ok base"
    and "as_int (ber_children op ! 1) = Ok scope" and "requested_attrs (ber_children (ber_children op ! 7)) = Ok attrs"
    and "vt_Search s base scope (ber_children op ! 6) = Ok entries"
  shows "handleConnection s (\<lambda>_. True) (map Ok (before @ [packet])) [] =
    (concat (map (\<lambda>p. the (answer s p)) before) @ map (encodeSearchResultEntry (ls_order s) m) entries @
       [encodeLDAPResult m ApplicationSearchResultDone LDAPResultSuccess [] []], Closed)"
proof -
  have "dispatch s packet = Respond (HandleSearch s m op)"
    using assms(2-5) by (simp add: dispatch_def ldap_tags)
  moreover have "HandleSearch s m op = Ok (ber_node ClassContext 0 ''MultiResponse''
      (map (encodeSearchResultEntry (ls_order s) m) entries @
       [encodeLDAPResult m ApplicationSearchResultDone LDAPResultSuccess [] []]))"
    using assms(6-10) by (simp add: HandleSearch_def Let_def)
  ultimately show ?thesis
    using handleConnection_append [OF assms(1), of "[Ok packet]" "[]"]
    by (simp add: responses_def ber_node_def write_all_ok)
qed

definition demo_search :: ber_packet where
  "demo_search = ber_node ClassUniversal 16 [] [ber_int 2 7 [],
     ber_node ClassApplication ApplicationSearchRequest []
       [ber_string ''dc=x'' [], ber_int 10 2 [], ber_int 10 0 [], ber_int 2 0 [], ber_int 2 0 [],
        ber_node ClassUniversal 1 [] [], filter_packet (RPresent ''uid''), ber_node ClassUniversal 16 [] []]]"

definition demo_bad_bind :: ber_packet where
  "demo_bad_bind = ber_node ClassUniversal 16 [] [ber_int 2 1 [],
     ber_node ClassApplication ApplicationBindRequest []
       [ber_int 2 3 [], ber_string ''jdoe'' [], Ber ClassContext 0 NoValue ''wrong'' [] []]]"

theorem search_needs_no_bind_witness:
  "handleConnection demo_ldap (\<lambda>_. True) (map Ok ([demo_bad_bind] @ [demo_search])) [] =
    (concat (map (\<lambda>p. the (answer demo_ldap p)) [demo_bad_bind]) @
     map (encodeSearchResultEntry (ls_order demo_ldap) 7) [ConvertUserToEntry ''dc=x'' demo_user] @
     [encodeLDAPResult 7 ApplicationSearchResultDone LDAPResultSuccess [] []], Closed)"
proof (rule search_needs_no_bind [where mid = "ber_int 2 7 []"])
  show "\<forall>p\<in>set [demo_bad_bind]. answer demo_ldap p \<noteq> None"
    by (simp add: answer_def dispatch_def demo_bad_bind_def ber_node_def ber_int_def ber_string_def ldap_tags
        HandleBind_def as_int_def as_string_def doSimpleBind_def bind_password_def demo_ldap_def Let_def)
  have "vt_Search demo_ldap ''dc=x'' 2 (filter_packet (RPresent ''uid'')) =
      Ok (filter (\<lambda>e. isDNInScope (EDN e) ''dc=x'' 2 \<and> satisfies e (RPresent ''uid''))
           (map (ConvertUserToEntry (ls_baseDN demo_ldap)) [demo_user]))"
    by (rule vt_Search_users) (simp_all add: visible_def demo_ldap_def)
  also have "\<dots> = Ok [ConvertUserToEntry ''dc=x'' demo_user]"
    by (simp add: demo_ldap_def satisfies_def isDNInScope_def ConvertUserToEntry_def demo_user_def zero_user_def
        attr_string_def Let_def ScopeBaseObject_def ScopeSingleLevel_def lower_char_def suffix_def)
  finally show "vt_Search demo_ldap ''dc=x'' 2 (ber_children (ber_node ClassApplication ApplicationSearchRequest []
       [ber_string ''dc=x'' [], ber_int 10 2 [], ber_int 10 0 [], ber_int 2 0 [], ber_int 2 0 [],
        ber_node ClassUniversal 1 [] [], filter_packet (RPresent ''uid''), ber_node ClassUniversal 16 [] []]) ! 6)
     = Ok [ConvertUserToEntry ''dc=x'' demo_user]"
    by (simp add: ber_node_def)
qed (simp_all add: demo_search_def ber_node_def ber_int_def ber_string_def as_int_def as_string_def)
end
