(* ===== verification/LDAP_Sync.thy ===== *)
theory LDAP_Sync
  imports Identity_Memory
begin

text \<open>
  Synchronisation with an LDAP directory: conflict resolution (\<^verbatim>\<open>internal/domain/identity/conflict_manager.go\<close>),
  deduplication, the schema mapper and the sync engine (\<^verbatim>\<open>internal/identity/ldap\<close>), and the older
  \<^verbatim>\<open>internal/services/sync/ldap_sync_service.go\<close>. The directory client is an argument: a call of
  \<^verbatim>\<open>SearchPaged\<close> takes the state of the directory and a cookie. The producer of the full synchronisation
  runs in a goroutine and only sends users through a channel that the consumer drains until it is
  closed, so the consumer sees the users in the order of production: the model runs the producer first.
\<close>

section \<open>Conflict resolution\<close>

definition StrategyRemoteWins :: string where "StrategyRemoteWins = ''RemoteWins''"
definition StrategyLocalWins :: string where "StrategyLocalWins = ''LocalWins''"
definition StrategyMerge :: string where "StrategyMerge = ''Merge''"

lemmas strategies = StrategyRemoteWins_def StrategyLocalWins_def StrategyMerge_def

text \<open>The loop that copies the attributes the local user does not have; its result does not depend on the order.\<close>

definition merge_attributes :: "gmap option \<Rightarrow> gmap option \<Rightarrow> gmap" where
  "merge_attributes local remote =
     (let l = (case local of None \<Rightarrow> Map.empty | Some m \<Rightarrow> m); r = (case remote of None \<Rightarrow> Map.empty | Some m \<Rightarrow> m)
      in (\<lambda>k. case l k of Some v \<Rightarrow> Some v | None \<Rightarrow> r k))"

definition Resolve :: "time \<Rightarrow> User option \<Rightarrow> User option \<Rightarrow> string \<Rightarrow> User option" where
  "Resolve now localUser remoteUser strategy =
     (case localUser of None \<Rightarrow> remoteUser
      | Some l \<Rightarrow> (case remoteUser of None \<Rightarrow> Some l
      | Some r \<Rightarrow>
          if strategy = StrategyLocalWins then Some l
          else let l' =
                 (if strategy = StrategyRemoteWins
                  then l\<lparr>Username := Username r, Email := Email r, Phone := Phone r, UAttributes := UAttributes r,
                         SourceType := SourceType r, ExternalID := ExternalID r\<rparr>
                  else if strategy = StrategyMerge
                  then l\<lparr>Username := (if Username l = [] then Username r else Username l),
                         Email := (if Email l = [] then Email r else Email l),
                         Phone := (if Phone l = [] then Phone r else Phone l),
                         UAttributes := Some (merge_attributes (UAttributes l) (UAttributes r))\<rparr>
                  else l);
                 record = \<lparr>SourceIDs = [], MergedAt = now, MergeStrategy = strategy\<rparr>
               in Some (l'\<lparr>MergeHistory := MergeHistory l' @ [record]\<rparr>)))"

section \<open>Deduplication\<close>

record DeduplicationRule =
  MatchFields :: "string list"
  RulePriority :: int

record Conflict =
  CExisting :: User
  CNew :: User

text \<open>\<^verbatim>\<open>ResolveConflict\<close> returns an action and a merge strategy; the manager of the package keeps the existing user.\<close>

definition ResolveConflict :: "User \<Rightarrow> User \<Rightarrow> string \<times> string" where
  "ResolveConflict existing newUser = (''keep_existing'', [])"

definition SaveConflicts :: "Conflict list \<Rightarrow> (go_error, unit) outcome" where
  "SaveConflicts conflicts = Ok ()"

fun join :: "string \<Rightarrow> string list \<Rightarrow> string" where
  "join sep [] = []"
| "join sep [s] = s"
| "join sep (s # t # ts) = s @ sep @ join sep (t # ts)"

definition keyParts :: "User \<Rightarrow> string list \<Rightarrow> string list" where
  "keyParts user flds = (if Email user = [] then [] else map (\<lambda>_. ''email:'' @ Email user) (filter (\<lambda>f. f = ''email'') flds))"

fun generateDeduplicationKey :: "DeduplicationRule list \<Rightarrow> User \<Rightarrow> string" where
  "generateDeduplicationKey [] user = []"
| "generateDeduplicationKey (rule # rules) user =
     (if keyParts user (MatchFields rule) \<noteq> [] then join '';'' (keyParts user (MatchFields rule))
      else generateDeduplicationKey rules user)"

definition coalesce :: "string \<Rightarrow> string \<Rightarrow> string" where
  "coalesce a b = (if a \<noteq> [] then a else b)"

definition mergeIdentities :: "time \<Rightarrow> User \<Rightarrow> User \<Rightarrow> string \<Rightarrow> User" where
  "mergeIdentities now a b strategy =
     zero_user\<lparr>Username := coalesce (Username a) (Username b), Email := coalesce (Email a) (Email b),
       UAttributes := Some (merge_attributes (UAttributes a) (UAttributes b)),
       MergeHistory := MergeHistory a @ [\<lparr>SourceIDs = [UID a, UID b], MergedAt = now, MergeStrategy = strategy\<rparr>]\<rparr>"

text \<open>\<open>rc\<close> is the conflict manager's decision; the loop's state is the map by key and the deferred conflicts.\<close>

fun dedup_loop ::
    "(User \<Rightarrow> User \<Rightarrow> string \<times> string) \<Rightarrow> time \<Rightarrow> DeduplicationRule list \<Rightarrow> (string \<rightharpoonup> User) \<Rightarrow> Conflict list
      \<Rightarrow> User list \<Rightarrow> (string \<rightharpoonup> User) \<times> Conflict list" where
  "dedup_loop rc now rules dm conflicts [] = (dm, conflicts)"
| "dedup_loop rc now rules dm conflicts (user # users) =
     (let key = generateDeduplicationKey rules user
      in if key = [] then dedup_loop rc now rules dm conflicts users
         else case dm key of
           None \<Rightarrow> dedup_loop rc now rules (dm(key \<mapsto> user)) conflicts users
         | Some existing \<Rightarrow>
             (case rc existing user of (action, mergeStrategy) \<Rightarrow>
                if action = ''replace'' then dedup_loop rc now rules (dm(key \<mapsto> user)) conflicts users
                else if action = ''merge''
                then dedup_loop rc now rules (dm(key \<mapsto> mergeIdentities now existing user mergeStrategy)) conflicts users
                else if action = ''defer''
                then dedup_loop rc now rules dm (conflicts @ [\<lparr>CExisting = existing, CNew = user\<rparr>]) users
                else dedup_loop rc now rules dm conflicts users))"

text \<open>\<open>ord\<close> is the order in which the map of results is visited.\<close>

definition Process :: "string list \<Rightarrow> time \<Rightarrow> DeduplicationRule list \<Rightarrow> User list \<Rightarrow> User list" where
  "Process ord now rules users = range_values ord (fst (dedup_loop ResolveConflict now rules Map.empty [] users))"

section \<open>The schema mapper\<close>

record AttributeMapping =
  LDAPAttr :: string
  QuantaField :: string
  Required :: bool
  Transform :: string
  FallbackAttr :: string

record SchemaMapConfig =
  Mappings :: "AttributeMapping list"
  Defaults :: "string \<rightharpoonup> string"

text \<open>An entry of \<^verbatim>\<open>go-ldap\<close>: its attribute list and its lookup of the first value of an attribute.\<close>

record LdapEntry =
  GetAttributeValue :: "string \<Rightarrow> string"
  LAttributes :: "(string \<times> string list) list"

definition TrimSpace :: "string \<Rightarrow> string" where
  "TrimSpace s = rev (dropWhile is_space (rev (dropWhile is_space s)))"

definition applyTransform :: "string \<Rightarrow> string \<Rightarrow> string" where
  "applyTransform v transform =
     (if transform = ''lowercase'' then ToLower v else if transform = ''trim'' then TrimSpace v else v)"

definition parseUserAccountControl :: "string \<Rightarrow> int option" where
  "parseUserAccountControl v = sscanf_int v"

definition setField :: "User \<Rightarrow> string \<Rightarrow> string \<Rightarrow> User" where
  "setField user fld v =
     (if fld = ''username'' then user\<lparr>Username := v\<rparr>
      else if fld = ''email'' then user\<lparr>Email := v\<rparr>
      else if fld = ''phone'' then user\<lparr>Phone := v\<rparr>
      else if fld = ''userAccountControl'' then
        (case parseUserAccountControl v of
           None \<Rightarrow> user
         | Some val \<Rightarrow> if (val div 2) mod 2 \<noteq> 0 then user\<lparr>Status := UserStatusInactive\<rparr> else user)
      else user\<lparr>UAttributes := map_option (\<lambda>m. m(fld \<mapsto> VString v)) (UAttributes user)\<rparr>)"

definition isMapped :: "SchemaMapConfig \<Rightarrow> string \<Rightarrow> bool" where
  "isMapped cfg attrName = list_ex (\<lambda>mp. LDAPAttr mp = attrName) (Mappings cfg)"

fun apply_mappings :: "LdapEntry \<Rightarrow> AttributeMapping list \<Rightarrow> User \<Rightarrow> (go_error, User) outcome" where
  "apply_mappings entry [] user = Ok user"
| "apply_mappings entry (mp # mps) user =
     (let v = GetAttributeValue entry (LDAPAttr mp);
          v' = (if v = [] \<and> FallbackAttr mp \<noteq> [] then GetAttributeValue entry (FallbackAttr mp) else v)
      in if v' = [] \<and> Required mp then Fail (Errorf (''required field '' @ LDAPAttr mp @ '' is missing''))
         else apply_mappings entry mps (setField user (QuantaField mp) (applyTransform v' (Transform mp))))"

definition copy_unmapped :: "SchemaMapConfig \<Rightarrow> User \<Rightarrow> string \<times> string list \<Rightarrow> User" where
  "copy_unmapped cfg user a =
     (if isMapped cfg (fst a) then user
      else user\<lparr>UAttributes := map_option (\<lambda>m. m(fst a \<mapsto> VStrings (snd a))) (UAttributes user)\<rparr>)"

definition MapEntry :: "SchemaMapConfig \<Rightarrow> LdapEntry \<Rightarrow> (go_error, User) outcome" where
  "MapEntry cfg entry =
     obind (apply_mappings entry (Mappings cfg) (zero_user\<lparr>UAttributes := Some Map.empty, Status := UserStatusActive\<rparr>))
       (\<lambda>user. Ok (foldl (copy_unmapped cfg) user (LAttributes entry)))"

section \<open>The sync engine\<close>

record SyncConfig =
  BatchSize :: int
  ConflictStrategy :: string

text \<open>
  The repository methods that the engine calls, the directory and the record of completed runs.
  \<open>se_now\<close> is the clock reading of a conflict resolution.
\<close>

record ('s, 'c) SyncEngine =
  se_UpsertBatch :: "'s \<Rightarrow> User list \<Rightarrow> (go_error, unit) outcome \<times> 's"
  se_GetUserByExternalID :: "'s \<Rightarrow> string \<Rightarrow> string \<Rightarrow> (go_error, User) outcome"
  se_SearchPaged :: "'c \<Rightarrow> string \<Rightarrow> (go_error, LdapEntry list \<times> string) outcome \<times> 'c"
  se_mapper :: SchemaMapConfig
  se_config :: SyncConfig
  se_now :: time

text \<open>The loop of \<^verbatim>\<open>processBatch\<close> for the strategies other than \<^verbatim>\<open>RemoteWins\<close>.\<close>

fun resolve_batch ::
    "('s, 'c) SyncEngine \<Rightarrow> string \<Rightarrow> string \<Rightarrow> 's \<Rightarrow> User list \<Rightarrow> (go_error, User list) outcome" where
  "resolve_batch se strategy sourceID s [] = Ok []"
| "resolve_batch se strategy sourceID s (remote # rest) =
     (case se_GetUserByExternalID se s (ExternalID remote) sourceID of
        Panic \<Rightarrow> Panic
      | Fail err \<Rightarrow>
          if err \<noteq> ErrUserNotFound then resolve_batch se strategy sourceID s rest
          else obind (resolve_batch se strategy sourceID s rest) (\<lambda>us. Ok (remote # us))
      | Ok local \<Rightarrow>
          obind (resolve_batch se strategy sourceID s rest) (\<lambda>us.
            Ok ((case Resolve (se_now se) (Some local) (Some remote) strategy of None \<Rightarrow> us | Some u \<Rightarrow> u # us))))"

definition processBatch ::
    "('s, 'c) SyncEngine \<Rightarrow> 's \<Rightarrow> User list \<Rightarrow> string \<Rightarrow> (go_error, unit) outcome \<times> 's" where
  "processBatch se s remoteUsers sourceID =
     (let strategy = (if ConflictStrategy (se_config se) = [] then StrategyRemoteWins else ConflictStrategy (se_config se))
      in if strategy = StrategyRemoteWins then se_UpsertBatch se s remoteUsers
         else case resolve_batch se strategy sourceID s remoteUsers of
           Panic \<Rightarrow> (Panic, s)
         | Fail err \<Rightarrow> (Fail err, s)
         | Ok finalBatch \<Rightarrow> se_UpsertBatch se s finalBatch)"

text \<open>The producer: the users of one page, entries that cannot be mapped left out.\<close>

definition page_users :: "SchemaMapConfig \<Rightarrow> string \<Rightarrow> LdapEntry list \<Rightarrow> User list" where
  "page_users cfg sourceID entries =
     List.map_filter (\<lambda>e. case MapEntry cfg e of Ok u \<Rightarrow> Some (u\<lparr>SourceType := sourceID\<rparr>) | _ \<Rightarrow> None) entries"

text \<open>
  The paging loop ends when the directory returns an empty cookie or an error; a directory that never
  does keeps it running (\<open>None\<close>). The result is the users that were sent and the error, if any.
\<close>

partial_function (option) produce ::
    "('s, 'c) SyncEngine \<Rightarrow> string \<Rightarrow> 'c \<Rightarrow> string \<Rightarrow> (User list \<times> (go_error, unit) outcome) option" where
  "produce se sourceID dir pageCookie =
     (case se_SearchPaged se dir pageCookie of
        (Panic, _) \<Rightarrow> Some ([], Panic)
      | (Fail err, _) \<Rightarrow> Some ([], Fail err)
      | (Ok (entries, newCookie), dir') \<Rightarrow>
          if newCookie = [] then Some (page_users (se_mapper se) sourceID entries, Ok ())
          else Option.bind (produce se sourceID dir' newCookie) (\<lambda>(us, r).
                 Some (page_users (se_mapper se) sourceID entries @ us, r)))"

text \<open>The consumer: it fills a batch and hands it on when it is full; errors of a batch are only logged.\<close>

fun consume ::
    "('s, 'c) SyncEngine \<Rightarrow> string \<Rightarrow> 's \<Rightarrow> User list \<Rightarrow> User list \<Rightarrow> (go_error, unit) outcome \<times> 's" where
  "consume se sourceID s batch [] =
     (if batch \<noteq> [] then (case processBatch se s batch sourceID of (Panic, s') \<Rightarrow> (Panic, s') | (_, s') \<Rightarrow> (Ok (), s'))
      else (Ok (), s))"
| "consume se sourceID s batch (user # users) =
     (let batch' = batch @ [user]
      in if int (length batch') \<ge> BatchSize (se_config se)
         then (case processBatch se s batch' sourceID of
                 (Panic, s') \<Rightarrow> (Panic, s')
               | (_, s') \<Rightarrow> consume se sourceID s' [] users)
         else consume se sourceID s batch' users)"

text \<open>A channel of negative size is a panic. The last component says whether the run was marked as completed.\<close>

definition StartFullSync ::
    "('s, 'c) SyncEngine \<Rightarrow> 's \<Rightarrow> 'c \<Rightarrow> string \<Rightarrow> ((go_error, unit) outcome \<times> 's \<times> bool) option" where
  "StartFullSync se s dir sourceID =
     (if BatchSize (se_config se) < 0 then Some (Panic, s, False)
      else Option.bind (produce se sourceID dir []) (\<lambda>(users, r).
        Some (case consume se sourceID s [] users of
          (Panic, s') \<Rightarrow> (Panic, s', False)
        | (_, s') \<Rightarrow>
            (case r of
               Panic \<Rightarrow> (Panic, s', False)
             | Fail err \<Rightarrow> (Fail (Wrapf ''sync failed during production'' err), s', False)
             | Ok _ \<Rightarrow> (Ok (), s', True)))))"

definition processChangeNotification ::
    "('s, 'c) SyncEngine \<Rightarrow> string \<Rightarrow> 's \<Rightarrow> LdapEntry \<Rightarrow> (go_error, unit) outcome \<times> 's" where
  "processChangeNotification se sourceID s entry =
     (case MapEntry (se_mapper se) entry of
        Panic \<Rightarrow> (Panic, s)
      | Fail _ \<Rightarrow> (Ok (), s)
      | Ok user \<Rightarrow>
          (case processBatch se s [user\<lparr>SourceType := sourceID\<rparr>] sourceID of
             (Panic, s') \<Rightarrow> (Panic, s')
           | (_, s') \<Rightarrow> (Ok (), s')))"

fun notify_all ::
    "('s, 'c) SyncEngine \<Rightarrow> string \<Rightarrow> 's \<Rightarrow> LdapEntry list \<Rightarrow> (go_error, unit) outcome \<times> 's" where
  "notify_all se sourceID s [] = (Ok (), s)"
| "notify_all se sourceID s (entry # es) =
     (case processChangeNotification se sourceID s entry of
        (Panic, s') \<Rightarrow> (Panic, s')
      | (_, s') \<Rightarrow> notify_all se sourceID s' es)"

text \<open>\<open>found\<close> is the result of the persistent search.\<close>

definition StartIncrementalSync ::
    "('s, 'c) SyncEngine \<Rightarrow> (go_error, LdapEntry list) outcome \<Rightarrow> 's \<Rightarrow> string \<Rightarrow> (go_error, unit) outcome \<times> 's" where
  "StartIncrementalSync se found s sourceID =
     (case found of
        Panic \<Rightarrow> (Panic, s)
      | Fail err \<Rightarrow> (Fail err, s)
      | Ok entries \<Rightarrow> notify_all se sourceID s entries)"

section \<open>The sync service\<close>

definition ConflictPreferLocal :: string where "ConflictPreferLocal = ''prefer_local''"
definition ConflictPreferRemote :: string where "ConflictPreferRemote = ''prefer_remote''"

record SyncLifecycleRule =
  SourceAttr :: string
  MatchValue :: string
  TargetStatus :: string

record LDAPSyncConfig =
  SConflictStrategy :: string
  LifecycleRules :: "SyncLifecycleRule list"

text \<open>The counters of \<^verbatim>\<open>SyncStats\<close>; start, end and duration are only reported.\<close>

record SyncStats =
  Created :: nat
  Updated :: nat
  Disabled :: nat
  Unchanged :: nat
  Errors :: nat
  TotalRemote :: nat
  TotalLocal :: nat

definition zero_stats :: SyncStats where
  "zero_stats = \<lparr>Created = 0, Updated = 0, Disabled = 0, Unchanged = 0, Errors = 0, TotalRemote = 0, TotalLocal = 0\<rparr>"

fun applyLifecycleRules :: "SyncLifecycleRule list \<Rightarrow> User \<Rightarrow> User" where
  "applyLifecycleRules [] user = user"
| "applyLifecycleRules (rule # rules) user =
     (if (case UAttributes user of None \<Rightarrow> None | Some m \<Rightarrow> m (SourceAttr rule)) = Some (VString (MatchValue rule))
      then user\<lparr>Status := TargetStatus rule\<rparr>
      else applyLifecycleRules rules user)"

text \<open>\<open>None\<close> in the place of the new state of a call is a panic of the repository.\<close>

definition sync_createUser ::
    "'s UserRepository \<Rightarrow> LDAPSyncConfig \<Rightarrow> User \<Rightarrow> SyncStats \<Rightarrow> 's \<Rightarrow> (SyncStats \<times> 's) option" where
  "sync_createUser repo cfg ldapUser stats s =
     (case ur_CreateUser repo s (applyLifecycleRules (LifecycleRules cfg) ldapUser) of
        (Panic, _) \<Rightarrow> None
      | (Fail _, s') \<Rightarrow> Some (stats\<lparr>Errors := Errors stats + 1\<rparr>, s')
      | (Ok _, s') \<Rightarrow> Some (stats\<lparr>Created := Created stats + 1\<rparr>, s'))"

text \<open>\<^verbatim>\<open>updateUser\<close> also returns the local user, which it changes in place.\<close>

definition sync_updateUser ::
    "'s UserRepository \<Rightarrow> LDAPSyncConfig \<Rightarrow> User \<Rightarrow> User \<Rightarrow> SyncStats \<Rightarrow> 's \<Rightarrow> (User \<times> SyncStats \<times> 's) option" where
  "sync_updateUser repo cfg localUser ldapUser stats s =
     (if SConflictStrategy cfg = ConflictPreferLocal
      then Some (localUser, stats\<lparr>Unchanged := Unchanged stats + 1\<rparr>, s)
      else let updated = (Email localUser \<noteq> Email ldapUser \<or> Phone localUser \<noteq> Phone ldapUser);
               u = applyLifecycleRules (LifecycleRules cfg)
                     (localUser\<lparr>Email := Email ldapUser, Phone := Phone ldapUser, UAttributes := UAttributes ldapUser\<rparr>)
           in if updated
              then (case ur_UpdateUser repo s u of
                      (Panic, _) \<Rightarrow> None
                    | (Fail _, s') \<Rightarrow> Some (u, stats\<lparr>Errors := Errors stats + 1\<rparr>, s')
                    | (Ok _, s') \<Rightarrow> Some (u, stats\<lparr>Updated := Updated stats + 1\<rparr>, s'))
              else Some (u, stats\<lparr>Unchanged := Unchanged stats + 1\<rparr>, s))"

fun sync_remote ::
    "'s UserRepository \<Rightarrow> LDAPSyncConfig \<Rightarrow> (string \<rightharpoonup> User) \<Rightarrow> User list \<Rightarrow> SyncStats \<Rightarrow> 's \<Rightarrow> (SyncStats \<times> 's) option" where
  "sync_remote repo cfg local [] stats s = Some (stats, s)"
| "sync_remote repo cfg local (ldapUser # us) stats s =
     (case local (Username ldapUser) of
        Some localUser \<Rightarrow>
          (case sync_updateUser repo cfg localUser ldapUser stats s of
             None \<Rightarrow> None
           | Some (u, stats', s') \<Rightarrow> sync_remote repo cfg (local(Username ldapUser \<mapsto> u)) us stats' s')
      | None \<Rightarrow>
          (case sync_createUser repo cfg ldapUser stats s of
             None \<Rightarrow> None
           | Some (stats', s') \<Rightarrow> sync_remote repo cfg local us stats' s'))"

fun sync_disable ::
    "'s UserRepository \<Rightarrow> string set \<Rightarrow> User list \<Rightarrow> SyncStats \<Rightarrow> 's \<Rightarrow> (SyncStats \<times> 's) option" where
  "sync_disable repo remote [] stats s = Some (stats, s)"
| "sync_disable repo remote (u # us) stats s =
     (if Username u \<in> remote \<or> Status u = UserStatusInactive then sync_disable repo remote us stats s
      else case ur_UpdateUser repo s (u\<lparr>Status := UserStatusInactive\<rparr>) of
          (Panic, _) \<Rightarrow> None
        | (Fail _, s') \<Rightarrow> sync_disable repo remote us (stats\<lparr>Errors := Errors stats + 1\<rparr>) s'
        | (Ok _, s') \<Rightarrow> sync_disable repo remote us (stats\<lparr>Disabled := Disabled stats + 1\<rparr>) s')"

definition sync_page :: UserFilter where
  "sync_page = \<lparr>FQuery = [], FStatus = [], FPage = 1, FPageSize = 10000, FSortBy = [], FSortOrder = []\<rparr>"

definition FullSync ::
    "'s UserRepository \<Rightarrow> LDAPSyncConfig \<Rightarrow> (go_error, User list) outcome \<Rightarrow> 's \<Rightarrow> (go_error, SyncStats) outcome \<times> 's" where
  "FullSync repo cfg fetched s =
     (case fetched of
        Panic \<Rightarrow> (Panic, s)
      | Fail err \<Rightarrow> (Fail (Wrapf ''failed to fetch users from LDAP'' err), s)
      | Ok ldapUsers \<Rightarrow>
          (case ur_ListUsers repo s sync_page of
             Panic \<Rightarrow> (Panic, s)
           | Fail err \<Rightarrow> (Fail (Wrapf ''failed to list local users'' err), s)
           | Ok (localUsers, _) \<Rightarrow>
               (let stats = zero_stats\<lparr>TotalRemote := length ldapUsers, TotalLocal := length localUsers\<rparr>;
                    localMap = map_of (rev (map (\<lambda>u. (Username u, u)) localUsers))
                in case sync_remote repo cfg localMap ldapUsers stats s of
                     None \<Rightarrow> (Panic, s)
                   | Some (stats', s') \<Rightarrow>
                       (case sync_disable repo (Username ` set ldapUsers) localUsers stats' s' of
                          None \<Rightarrow> (Panic, s')
                        | Some (stats'', s'') \<Rightarrow> (Ok stats'', s'')))))"

text \<open>\<^verbatim>\<open>errors.As\<close> for \<^verbatim>\<open>*types.Error\<close>: the code of the first standard error of the chain.\<close>

fun as_code :: "go_error \<Rightarrow> string option" where
  "as_code (Errorf _) = None"
| "as_code (Wrapf _ e) = as_code e"
| "as_code (Sentinel c) = Some c"

fun sync_changed ::
    "'s UserRepository \<Rightarrow> LDAPSyncConfig \<Rightarrow> User list \<Rightarrow> SyncStats \<Rightarrow> 's \<Rightarrow> (SyncStats \<times> 's) option" where
  "sync_changed repo cfg [] stats s = Some (stats, s)"
| "sync_changed repo cfg (ldapUser # us) stats s =
     (case ur_GetUserByUsername repo s (Username ldapUser) of
        Panic \<Rightarrow> None
      | Fail err \<Rightarrow>
          if as_code err = as_code ErrUserNotFound
          then (case sync_createUser repo cfg ldapUser stats s of
                  None \<Rightarrow> None
                | Some (stats', s') \<Rightarrow> sync_changed repo cfg us stats' s')
          else sync_changed repo cfg us (stats\<lparr>Errors := Errors stats + 1\<rparr>) s
      | Ok localUser \<Rightarrow>
          (case sync_updateUser repo cfg localUser ldapUser stats s of
             None \<Rightarrow> None
           | Some (_, stats', s') \<Rightarrow> sync_changed repo cfg us stats' s'))"

definition IncrementalSync ::
    "'s UserRepository \<Rightarrow> LDAPSyncConfig \<Rightarrow> (go_error, User list) outcome \<Rightarrow> 's \<Rightarrow> (go_error, SyncStats) outcome \<times> 's" where
  "IncrementalSync repo cfg fetched s =
     (case fetched of
        Panic \<Rightarrow> (Panic, s)
      | Fail err \<Rightarrow> (Fail (Wrapf ''failed to fetch incremental changes from LDAP'' err), s)
      | Ok changedUsers \<Rightarrow>
          (case sync_changed repo cfg changedUsers (zero_stats\<lparr>TotalRemote := length changedUsers\<rparr>) s of
             None \<Rightarrow> (Panic, s)
           | Some (stats, s') \<Rightarrow> (Ok stats, s')))"
section \<open>Conflicts and duplicates\<close>

text \<open>
  Whatever the strategy, resolving a conflict keeps the local account: its identifier, password, status,
  groups and creation time.
\<close>

lemma Resolve_keeps_account:
  "Resolve now (Some l) (Some r) strategy = Some u \<Longrightarrow>
     UID u = UID l \<and> Password u = Password l \<and> Status u = Status l \<and> UGroups u = UGroups l \<and> UCreatedAt u = UCreatedAt l"
  by (auto simp: Resolve_def Let_def split: if_splits)

text \<open>
  Merging fills gaps and overwrites nothing: a field or an attribute that the local user has is kept, one
  it lacks comes from the directory, and the history grows by one record.
\<close>

theorem Resolve_Merge:
  "\<exists>u at. Resolve now (Some l) (Some r) StrategyMerge = Some u \<and> UAttributes u = Some at \<and>
     Username u = coalesce (Username l) (Username r) \<and> Email u = coalesce (Email l) (Email r) \<and>
     Phone u = coalesce (Phone l) (Phone r) \<and>
     (\<forall>k. at k = (case Option.bind (UAttributes l) (\<lambda>m. m k) of
                    Some v \<Rightarrow> Some v | None \<Rightarrow> Option.bind (UAttributes r) (\<lambda>m. m k))) \<and>
     length (MergeHistory u) = Suc (length (MergeHistory l)) \<and>
     UID u = UID l \<and> Password u = Password l \<and> Status u = Status l"
  by (cases "UAttributes l"; cases "UAttributes r")
    (simp_all add: Resolve_def Let_def strategies coalesce_def merge_attributes_def split: option.split)

text \<open>The users that are kept: the first of every key.\<close>

definition first_of_key :: "DeduplicationRule list \<Rightarrow> User list \<Rightarrow> string \<Rightarrow> User option" where
  "first_of_key rules users key =
     (if key = [] then None else find (\<lambda>u. generateDeduplicationKey rules u = key) users)"

lemma dedup_loop_keeps_first:
  "fst (dedup_loop ResolveConflict now rules dm cs users) =
     (\<lambda>k. case dm k of Some u \<Rightarrow> Some u | None \<Rightarrow> first_of_key rules users k)"
proof (induction users arbitrary: dm cs)
  case Nil
  then show ?case by (auto simp: first_of_key_def fun_eq_iff split: option.split)
next
  case (Cons u us)
  let ?k = "generateDeduplicationKey rules u"
  consider "?k = []" | "?k \<noteq> []" "dm ?k = None" | e where "?k \<noteq> []" "dm ?k = Some e"
    by (cases "dm ?k") auto
  then show ?case
  proof cases
    case 1
    then show ?thesis by (auto simp: Cons.IH first_of_key_def fun_eq_iff split: option.split)
  next
    case 2
    then show ?thesis by (auto simp: Cons.IH first_of_key_def fun_eq_iff split: option.split)
  next
    case 3
    then have "dedup_loop ResolveConflict now rules dm cs (u # us) = dedup_loop ResolveConflict now rules dm cs us"
      by (simp add: Let_def ResolveConflict_def)
    with 3 show ?thesis by (auto simp: Cons.IH first_of_key_def fun_eq_iff split: option.split)
  qed
qed

lemma find_first:
  "find P xs = Some x \<longleftrightarrow> P x \<and> (\<exists>pre post. xs = pre @ x # post \<and> (\<forall>v\<in>set pre. \<not> P v))"
proof (induction xs)
  case (Cons a xs)
  show ?case
  proof (cases "P a")
    case True
    then show ?thesis by (auto simp: Cons_eq_append_conv)
  next
    case False
    have "(\<exists>pre post. a # xs = pre @ x # post \<and> (\<forall>v\<in>set pre. \<not> P v)) \<longleftrightarrow>
        (\<exists>pre post. xs = pre @ x # post \<and> (\<forall>v\<in>set pre. \<not> P v))" if "P x"
      using False that by (auto simp: Cons_eq_append_conv) (metis list.set_intros(1) set_ConsD)+
    with False Cons.IH show ?thesis by auto
  qed
qed simp

lemma first_of_key_Some:
  "first_of_key rules users k = Some u \<longleftrightarrow>
     k \<noteq> [] \<and> generateDeduplicationKey rules u = k \<and>
     (\<exists>pre post. users = pre @ u # post \<and> (\<forall>v\<in>set pre. generateDeduplicationKey rules v \<noteq> k))"
  by (auto simp: first_of_key_def find_first)

text \<open>
  Deduplication returns, whatever order the Go map is visited in, exactly the first user of every
  non-empty key, each once; users without a key are dropped.
\<close>

theorem Process_keeps_first:
  assumes "visits ord (fst (dedup_loop ResolveConflict now rules Map.empty [] users))"
  shows "set (Process ord now rules users) =
      {u. generateDeduplicationKey rules u \<noteq> [] \<and>
          (\<exists>pre post. users = pre @ u # post \<and>
             (\<forall>v\<in>set pre. generateDeduplicationKey rules v \<noteq> generateDeduplicationKey rules u))} \<and>
    distinct (map (generateDeduplicationKey rules) (Process ord now rules users))"
proof
  let ?dm = "fst (dedup_loop ResolveConflict now rules Map.empty [] users)"
  have dm: "?dm = first_of_key rules users" by (simp add: dedup_loop_keeps_first)
  show "set (Process ord now rules users) =
      {u. generateDeduplicationKey rules u \<noteq> [] \<and>
          (\<exists>pre post. users = pre @ u # post \<and>
             (\<forall>v\<in>set pre. generateDeduplicationKey rules v \<noteq> generateDeduplicationKey rules u))}"
    unfolding Process_def set_range_values [OF assms] unfolding dm
    by (auto simp: ran_def first_of_key_Some)
  have key: "generateDeduplicationKey rules u = k" if "first_of_key rules users k = Some u" for u k
    using that by (simp add: first_of_key_Some)
  have "map (generateDeduplicationKey rules) (Process ord now rules users) = filter (\<lambda>k. ?dm k \<noteq> None) ord"
    unfolding Process_def range_values_def dm
    by (induction ord) (auto simp: map_filter_simps key split: option.split)
  moreover have "distinct ord" using assms by (simp add: visits_def)
  ultimately show "distinct (map (generateDeduplicationKey rules) (Process ord now rules users))" by simp
qed

definition demo_twins :: "User list" where
  "demo_twins = [zero_user\<lparr>Username := ''a'', Email := ''x@y''\<rparr>, zero_user\<lparr>Username := ''b'', Email := ''x@y''\<rparr>]"

theorem Process_keeps_first_witness:
  "set (Process [''email:x@y''] 0 [\<lparr>MatchFields = [''email''], RulePriority = 1\<rparr>] demo_twins) = {hd demo_twins}"
proof -
  let ?rules = "[\<lparr>MatchFields = [''email''], RulePriority = 1\<rparr>]"
  have "visits [''email:x@y''] (fst (dedup_loop ResolveConflict 0 ?rules Map.empty [] demo_twins))"
    by (auto simp: visits_def demo_twins_def keyParts_def ResolveConflict_def)
  note r = Process_keeps_first [OF this, THEN conjunct1]
  show ?thesis
    unfolding r by (auto simp: demo_twins_def Cons_eq_append_conv keyParts_def)
qed

section \<open>The schema mapper\<close>

lemma setField_external [simp]: "ExternalID (setField u f v) = ExternalID u" "SourceType (setField u f v) = SourceType u"
  by (simp_all add: setField_def split: option.split)

lemma apply_mappings_external:
  "apply_mappings e mps u = Ok v \<Longrightarrow> ExternalID v = ExternalID u \<and> SourceType v = SourceType u"
  by (induction mps arbitrary: u) (auto simp: Let_def split: if_splits)

lemma copy_unmapped_external:
  "ExternalID (foldl (copy_unmapped cfg) u as) = ExternalID u \<and> SourceType (foldl (copy_unmapped cfg) u as) = SourceType u"
  by (induction as arbitrary: u) (simp_all add: copy_unmapped_def)

lemma MapEntry_external: "MapEntry cfg e = Ok u \<Longrightarrow> ExternalID u = []"
  using copy_unmapped_external [of cfg] apply_mappings_external
  by (fastforce simp: MapEntry_def obind_eq_Ok zero_user_def)

lemma MapEntry_not_Panic [simp]: "MapEntry cfg e \<noteq> Panic"
proof -
  have "apply_mappings e mps u \<noteq> Panic" for mps u by (induction mps arbitrary: u) (auto simp: Let_def)
  then show ?thesis by (simp add: MapEntry_def obind_eq_Panic)
qed

text \<open>
  No mapping can fill the external identifier: all users that one synchronisation sends have the same
  external identity, the empty identifier with the identifier of the source, on which the batch is
  matched with the stored users.
\<close>

theorem page_users_same_identity:
  "u \<in> set (page_users cfg sourceID entries) \<Longrightarrow> (ExternalID u, SourceType u) = ([], sourceID)"
  by (auto simp: page_users_def List.map_filter_def dest: MapEntry_external split: outcome.splits)

definition demo_mapper :: SchemaMapConfig where
  "demo_mapper = \<lparr>Mappings = [\<lparr>LDAPAttr = ''uid'', QuantaField = ''username'', Required = True, Transform = ''lowercase'',
       FallbackAttr = []\<rparr>, \<lparr>LDAPAttr = ''uid'', QuantaField = ''externalID'', Required = False, Transform = [],
       FallbackAttr = []\<rparr>], Defaults = Map.empty\<rparr>"

definition demo_ldap_entry :: LdapEntry where
  "demo_ldap_entry = \<lparr>GetAttributeValue = (\<lambda>a. if a = ''uid'' then ''u7'' else []), LAttributes = [(''uid'', [''u7''])]\<rparr>"

theorem page_users_same_identity_witness:
  "(ExternalID (hd (page_users demo_mapper ''corp'' [demo_ldap_entry])),
    SourceType (hd (page_users demo_mapper ''corp'' [demo_ldap_entry]))) = ([], ''corp'')"
proof (rule page_users_same_identity [of _ demo_mapper "''corp''" "[demo_ldap_entry]"])
  have "\<exists>u. MapEntry demo_mapper demo_ldap_entry = Ok u"
    by (simp add: MapEntry_def demo_mapper_def demo_ldap_entry_def Let_def)
  then have "page_users demo_mapper ''corp'' [demo_ldap_entry] \<noteq> []"
    by (auto simp: page_users_def map_filter_simps)
  then show "hd (page_users demo_mapper ''corp'' [demo_ldap_entry]) \<in> set (page_users demo_mapper ''corp'' [demo_ldap_entry])"
    by simp
qed

section \<open>The sync engine\<close>

text \<open>Processing batches one after the other, going on after an error.\<close>

fun run_batches ::
    "('s, 'c) SyncEngine \<Rightarrow> string \<Rightarrow> 's \<Rightarrow> User list list \<Rightarrow> (go_error, unit) outcome \<times> 's" where
  "run_batches se sourceID s [] = (Ok (), s)"
| "run_batches se sourceID s (b # bs) =
     (case processBatch se s b sourceID of
        (Panic, s') \<Rightarrow> (Panic, s')
      | (_, s') \<Rightarrow> run_batches se sourceID s' bs)"

text \<open>The size of a full batch: a size of zero or less hands on every user by itself.\<close>

definition batch_len :: "SyncConfig \<Rightarrow> nat" where
  "batch_len cfg = max 1 (nat (BatchSize cfg))"

lemma consume_batches:
  assumes "length batch < batch_len (se_config se)"
  shows "consume se sourceID s batch users =
    run_batches se sourceID s (chunks (batch_len (se_config se)) (batch @ users))"
  using assms
proof (induction users arbitrary: s batch)
  case Nil
  then show ?case by (cases "batch = []") (auto simp: chunks.simps split: outcome.split prod.split)
next
  case (Cons u us)
  have pos: "0 < batch_len (se_config se)" by (simp add: batch_len_def)
  show ?case
  proof (cases "int (length (batch @ [u])) \<ge> BatchSize (se_config se)")
    case True
    then have "length (batch @ [u]) = batch_len (se_config se)" using Cons.prems by (auto simp: batch_len_def)
    then have "chunks (batch_len (se_config se)) (batch @ u # us) =
        (batch @ [u]) # chunks (batch_len (se_config se)) us"
      using chunks_append [of "batch_len (se_config se)" "batch @ [u]" us] pos by simp
    with True Cons.IH [of "[]"] pos show ?thesis
      by (auto simp: Let_def split: prod.split outcome.split)
  next
    case False
    then have "length (batch @ [u]) < batch_len (se_config se)" by (auto simp: batch_len_def)
    with False Cons.IH [of "batch @ [u]"] show ?thesis by (simp add: Let_def)
  qed
qed

text \<open>A directory that gives out its pages one after the other, with a cookie while there are more.\<close>

definition paged :: "LdapEntry list list \<Rightarrow> string \<Rightarrow> (go_error, LdapEntry list \<times> string) outcome \<times> LdapEntry list list" where
  "paged pages cookie =
     (case pages of
        [] \<Rightarrow> (Ok ([], []), [])
      | p # ps \<Rightarrow> (Ok (p, if ps = [] then [] else ''more''), ps))"

lemma page_users_append: "page_users cfg src (xs @ ys) = page_users cfg src xs @ page_users cfg src ys"
  by (simp add: page_users_def List.map_filter_def)

lemma produce_paged:
  assumes "se_SearchPaged se = paged"
  shows "produce se src pages ck = Some (page_users (se_mapper se) src (concat pages), Ok ())"
proof (induction pages arbitrary: ck)
  case Nil
  show ?case by (subst produce.simps) (simp add: assms paged_def page_users_def)
next
  case (Cons p ps)
  then show ?case
    by (subst produce.simps) (cases ps; simp add: assms paged_def page_users_append)
qed



lemmas produce_induct = produce.raw_induct [rotated, consumes 1]

definition endless :: "('s, 'c) SyncEngine \<Rightarrow> bool" where
  "endless se \<longleftrightarrow> (\<forall>d ck. \<exists>es ck' d'. se_SearchPaged se d ck = (Ok (es, ck'), d') \<and> ck' \<noteq> [])"

lemma produce_stops: "produce se src d ck = Some r \<Longrightarrow> \<not> endless se"
proof (induct rule: produce_induct)
  case (1 prod se src d ck r)
  show ?case
  proof
    assume e: "endless se"
    then obtain es ck' d' where c: "se_SearchPaged se d ck = (Ok (es, ck'), d')" "ck' \<noteq> []"
      unfolding endless_def by meson
    with 1(2) obtain r' where "prod se src d' ck' = Some r'" by (auto split: Option.bind_splits)
    from 1(1) [OF this] e show False by simp
  qed
qed

lemma StartFullSync_endless:
  "endless se \<Longrightarrow> 0 \<le> BatchSize (se_config se) \<Longrightarrow> StartFullSync se s dir src = None"
  using produce_stops [of se src dir "[]"]
  by (cases "produce se src dir []") (auto simp: StartFullSync_def)

text \<open>An engine over the in-memory repository's users by name, for a directory of two pages.\<close>

definition demo_engine :: "(User list, LdapEntry list list) SyncEngine" where
  "demo_engine = \<lparr>se_UpsertBatch = (\<lambda>s us. (Ok (), s @ us)), se_GetUserByExternalID = (\<lambda>_ _ _. Fail ErrUserNotFound),
     se_SearchPaged = paged, se_mapper = demo_mapper,
     se_config = \<lparr>BatchSize = 2, ConflictStrategy = StrategyRemoteWins\<rparr>, se_now = 0\<rparr>"



section \<open>The sync service\<close>

text \<open>The number of users that a run has counted in any way.\<close>

definition handled :: "SyncStats \<Rightarrow> nat" where
  "handled st = Created st + Updated st + Unchanged st + Disabled st + Errors st"

lemma sync_updateUser_handled:
  "sync_updateUser repo cfg l r st s = Some (u, st', s') \<Longrightarrow> handled st' = Suc (handled st)"
  by (auto simp: sync_updateUser_def handled_def Let_def split: if_splits prod.splits outcome.splits)

lemma sync_createUser_handled: "sync_createUser repo cfg r st s = Some (st', s') \<Longrightarrow> handled st' = Suc (handled st)"
  by (auto simp: sync_createUser_def handled_def split: prod.splits outcome.splits)

lemma sync_remote_handled:
  "sync_remote repo cfg local us st s = Some (st', s') \<Longrightarrow> handled st' = handled st + length us"
  by (induction us arbitrary: local st s)
    (auto split: option.splits prod.splits dest!: sync_updateUser_handled sync_createUser_handled)

lemma sync_disable_handled:
  "sync_disable repo remote us st s = Some (st', s') \<Longrightarrow>
     handled st' = handled st + length (filter (\<lambda>u. Username u \<notin> remote \<and> Status u \<noteq> UserStatusInactive) us)"
  by (induction us arbitrary: st s) (auto simp: handled_def split: if_splits prod.splits outcome.splits)


text \<open>A user whose address and telephone number agree is not written, whatever else has changed.\<close>

lemma sync_updateUser_unsaved:
  assumes "Email l = Email r" and "Phone l = Phone r"
  shows "\<exists>u st'. sync_updateUser repo cfg l r st s = Some (u, st', s)"
  using assms by (simp add: sync_updateUser_def Let_def)

text \<open>
  The in-memory repository reports a missing user with an ordinary error, so the incremental
  synchronisation counts an error for every new user of the directory and creates none.
\<close>

lemma sync_changed_unknown:
  assumes "\<forall>u\<in>set us. \<exists>m. ur_GetUserByUsername repo s (Username u) = Fail (Errorf m)"
  shows "sync_changed repo cfg us st s = Some (st\<lparr>Errors := Errors st + length us\<rparr>, s)"
  using assms by (induction us arbitrary: st) (auto simp: std_errors)

theorem IncrementalSync_over_memory:
  assumes "\<forall>u\<in>set changed. \<forall>v\<in>ran (m_users r). Username v \<noteq> Username u"
    and "\<And>k. visits (ord k) (m_users r)"
  shows "\<exists>stats. IncrementalSync (memory_users ord uuid) cfg (Ok changed) r = (Ok stats, r) \<and>
    Errors stats = length changed \<and> Created stats = 0"
proof -
  have "\<exists>m. ur_GetUserByUsername (memory_users ord uuid) r (Username u) = Fail (Errorf m)" if "u \<in> set changed" for u
  proof -
    have "find (\<lambda>v. Username v = Username u) (range_values (ord ''GetUserByUsername'') (m_users r)) = None"
      using assms that by (auto simp: find_None_iff set_range_values)
    then show ?thesis by (simp add: memory_users_def mem_GetUserByUsername_def user_not_found_def)
  qed
  then have "sync_changed (memory_users ord uuid) cfg changed (zero_stats\<lparr>TotalRemote := length changed\<rparr>) r =
      Some ((zero_stats\<lparr>TotalRemote := length changed\<rparr>)\<lparr>Errors := length changed\<rparr>, r)"
    using sync_changed_unknown [of changed "memory_users ord uuid" r cfg "zero_stats\<lparr>TotalRemote := length changed\<rparr>"]
    by (simp add: zero_stats_def)
  then show ?thesis by (simp add: IncrementalSync_def zero_stats_def)
qed
theorem IncrementalSync_over_memory_witness:
  "\<exists>stats. IncrementalSync (memory_users (\<lambda>_. []) ''id'') \<lparr>SConflictStrategy = ConflictPreferRemote, LifecycleRules = []\<rparr>
      (Ok demo_twins) NewIdentityMemoryRepository = (Ok stats, NewIdentityMemoryRepository) \<and>
    Errors stats = length demo_twins \<and> Created stats = 0"
  by (rule IncrementalSync_over_memory) (simp_all add: NewIdentityMemoryRepository_def visits_def)

end
