(* ===== verification/Lifecycle.thy ===== *)
theory Lifecycle
  imports Identity_Service "HOL-Library.Sublist" "HOL-Library.Char_ord" "HOL-Library.List_Lexorder"
begin

text \<open>
  Lifecycle rules and data governance: \<^verbatim>\<open>internal/domain/identity/lifecycle\<close> (conditions over users),
  \<^verbatim>\<open>internal/domain/identity/governance\<close> (quality checks) and the job that runs both over all users,
  \<^verbatim>\<open>internal/worker/lifecycle_job.go\<close>. The reflection over the fields of \<^verbatim>\<open>types.User\<close> is the table of
  their names and JSON tags. \<^verbatim>\<open>time.ParseDuration\<close> and the \<^verbatim>\<open>%v\<close> format of lists, maps, times and structs
  are fields of the environment; so is the clock reading, one for a whole run. An integer is compared as \<^verbatim>\<open>float64\<close>, with the
  rounding to 53 bits; other floating-point numbers do not occur among the values of the model.
\<close>

section \<open>Rules\<close>

definition OpEq :: string where "OpEq = ''eq''"
definition OpNeq :: string where "OpNeq = ''neq''"
definition OpGt :: string where "OpGt = ''gt''"
definition OpLt :: string where "OpLt = ''lt''"
definition OpGte :: string where "OpGte = ''gte''"
definition OpLte :: string where "OpLte = ''lte''"
definition OpContains :: string where "OpContains = ''contains''"

lemmas operators = OpEq_def OpNeq_def OpGt_def OpLt_def OpGte_def OpLte_def OpContains_def

definition ActionDisable :: string where "ActionDisable = ''disable''"
definition ActionDelete :: string where "ActionDelete = ''delete''"
definition ActionNotify :: string where "ActionNotify = ''notify''"
definition ActionArchive :: string where "ActionArchive = ''archive''"

lemmas action_types = ActionDisable_def ActionDelete_def ActionNotify_def ActionArchive_def

record Action =
  AType :: string
  AParams :: "(string \<times> gvalue) list"

record Condition =
  CAttribute :: string
  COperator :: string
  CValue :: gvalue

record LifecycleRule =
  RName :: string
  RDescription :: string
  RConditions :: "Condition list"
  RActions :: "Action list"

section \<open>Values\<close>

text \<open>
  What \<^verbatim>\<open>getAttributeValue\<close> returns: the nil interface, a value, an interface that holds a nil
  \<^verbatim>\<open>*time.Time\<close>, or a field of another type, of which only the text matters.
\<close>

datatype dyn = DNil | DValue gvalue | DNilTime | DField string

record env =
  e_now :: time
  e_ParseDuration :: "string \<Rightarrow> int option"
  e_format :: "gvalue \<Rightarrow> string"
  e_field :: "User \<Rightarrow> string \<Rightarrow> string"

definition sprint_value :: "env \<Rightarrow> gvalue \<Rightarrow> string" where
  "sprint_value env v =
     (case v of
        VNil \<Rightarrow> ''<nil>''
      | VBool b \<Rightarrow> (if b then ''true'' else ''false'')
      | VInt i \<Rightarrow> show_int i
      | VString s \<Rightarrow> s
      | _ \<Rightarrow> e_format env v)"

definition sprint :: "env \<Rightarrow> dyn \<Rightarrow> string" where
  "sprint env d =
     (case d of DNil \<Rightarrow> ''<nil>'' | DValue v \<Rightarrow> sprint_value env v | DNilTime \<Rightarrow> ''<nil>'' | DField s \<Rightarrow> s)"

definition toTime :: "dyn \<Rightarrow> time option" where
  "toTime d = (case d of DValue (VTime t) \<Rightarrow> Some t | _ \<Rightarrow> None)"

text \<open>The number of binary digits, and the nearest \<^verbatim>\<open>float64\<close> of an integer, ties to even.\<close>

fun bit_length :: "nat \<Rightarrow> nat" where
  "bit_length n = (if n = 0 then 0 else Suc (bit_length (n div 2)))"

declare bit_length.simps [simp del]

definition float64 :: "int \<Rightarrow> int" where
  "float64 i =
     (let a = nat \<bar>i\<bar>; k = bit_length a - 53; q = a div 2 ^ k; r = a mod 2 ^ k;
          q' = (if k = 0 then q else if 2 ^ (k - 1) < r \<or> r = 2 ^ (k - 1) \<and> odd q then Suc q else q)
      in sgn i * int (q' * 2 ^ k))"

fun number :: "gvalue \<Rightarrow> int option" where
  "number (VInt i) = Some (float64 i)"
| "number _ = None"

definition toFloat :: "dyn \<Rightarrow> int option" where
  "toFloat d = (case d of DValue v \<Rightarrow> number v | _ \<Rightarrow> None)"

definition parseDuration :: "env \<Rightarrow> gvalue \<Rightarrow> int option" where
  "parseDuration env v =
     (case v of
        VString s \<Rightarrow>
          (case (if suffix ''d'' s then sscanf_int (butlast s) else None) of
             Some days \<Rightarrow> Some (go_int (days * 86400000000000))
           | None \<Rightarrow> e_ParseDuration env s)
      | _ \<Rightarrow> None)"

definition since :: "env \<Rightarrow> time \<Rightarrow> int" where
  "since env = time_since (e_now env)"

section \<open>Evaluating rules\<close>

text \<open>The fields of \<^verbatim>\<open>types.User\<close> in their order: name, JSON tag, value.\<close>

definition opt_time :: "time option \<Rightarrow> dyn" where
  "opt_time t = (case t of None \<Rightarrow> DNilTime | Some t \<Rightarrow> DValue (VTime t))"

definition user_fields :: "env \<Rightarrow> User \<Rightarrow> (string \<times> string \<times> dyn) list" where
  "user_fields env u =
     [(''ID'', ''id'', DValue (VString (UID u))), (''Username'', ''username'', DValue (VString (Username u))),
      (''Email'', ''email'', DValue (VString (Email u))), (''Phone'', ''phone'', DValue (VString (Phone u))),
      (''Password'', ''-'', DValue (VString (Password u))), (''Status'', ''status'', DValue (VString (Status u))),
      (''Attributes'', ''attributes'', DField (e_field env u ''Attributes'')),
      (''PrivacySettings'', ''privacySettings'', DField (e_field env u ''PrivacySettings'')),
      (''Groups'', ''groups'', DField (e_field env u ''Groups'')),
      (''CreatedAt'', ''createdAt'', DValue (VTime (UCreatedAt u))), (''UpdatedAt'', ''updatedAt'', DValue (VTime (UUpdatedAt u))),
      (''DeletedAt'', ''deletedAt'', opt_time (UDeletedAt u)), (''LastLoginAt'', ''lastLoginAt'', opt_time (LastLoginAt u)),
      (''MergeHistory'', ''mergeHistory'', DField (e_field env u ''MergeHistory'')),
      (''ExternalID'', ''externalId'', DValue (VString (ExternalID u))),
      (''SourceType'', ''sourceType'', DValue (VString (SourceType u)))]"

definition getAttributeValue :: "env \<Rightarrow> User \<Rightarrow> string \<Rightarrow> (go_error, dyn) outcome" where
  "getAttributeValue env u attribute =
     (if prefix ''attributes.'' attribute
      then (case Option.bind (UAttributes u) (\<lambda>m. m (drop (length ''attributes.'') attribute)) of
              None \<Rightarrow> Ok DNil | Some VNil \<Rightarrow> Ok DNil | Some v \<Rightarrow> Ok (DValue v))
      else case find (\<lambda>(name, tag, _). EqualFold name attribute \<or> tag \<noteq> [] \<and> EqualFold tag attribute) (user_fields env u) of
             Some (_, _, v) \<Rightarrow> Ok v
           | None \<Rightarrow> Fail (Errorf (''unknown attribute: '' @ attribute)))"

definition compare_int :: "string \<Rightarrow> int \<Rightarrow> int \<Rightarrow> bool option" where
  "compare_int op a b =
     (if op = OpEq then Some (a = b) else if op = OpGt then Some (a > b) else if op = OpLt then Some (a < b)
      else if op = OpGte then Some (a \<ge> b) else if op = OpLte then Some (a \<le> b) else None)"

definition compare_text :: "env \<Rightarrow> dyn \<Rightarrow> string \<Rightarrow> gvalue \<Rightarrow> bool" where
  "compare_text env actual op expected =
     (let s = sprint env actual; t = sprint_value env expected
      in if op = OpEq then s = t else if op = OpNeq then s \<noteq> t else if op = OpContains then sublist t s else False)"

definition compare_numbers :: "env \<Rightarrow> dyn \<Rightarrow> string \<Rightarrow> gvalue \<Rightarrow> bool" where
  "compare_numbers env actual op expected =
     (case (toFloat actual, number expected) of
        (Some a, Some b) \<Rightarrow>
          if op = OpNeq then a \<noteq> b
          else (case compare_int op a b of Some r \<Rightarrow> r | None \<Rightarrow> compare_text env actual op expected)
      | _ \<Rightarrow> compare_text env actual op expected)"

definition compare :: "env \<Rightarrow> dyn \<Rightarrow> string \<Rightarrow> gvalue \<Rightarrow> (go_error, bool) outcome" where
  "compare env actual op expected =
     (if actual = DNil then Ok False
      else case (toTime actual, parseDuration env expected) of
        (Some t, Some d) \<Rightarrow>
          (case compare_int op (since env t) d of
             Some r \<Rightarrow> Ok r
           | None \<Rightarrow> Fail (Errorf (''unsupported operator for time duration: '' @ op)))
      | _ \<Rightarrow> Ok (compare_numbers env actual op expected))"

definition evaluateCondition :: "env \<Rightarrow> User \<Rightarrow> Condition \<Rightarrow> (go_error, bool) outcome" where
  "evaluateCondition env u c =
     obind (getAttributeValue env u (CAttribute c)) (\<lambda>v. compare env v (COperator c) (CValue c))"

fun evaluate_all :: "env \<Rightarrow> User \<Rightarrow> Condition list \<Rightarrow> (go_error, bool) outcome" where
  "evaluate_all env u [] = Ok True"
| "evaluate_all env u (c # cs) =
     obind (evaluateCondition env u c) (\<lambda>matched. if \<not> matched then Ok False else evaluate_all env u cs)"

definition evaluateRule :: "env \<Rightarrow> User \<Rightarrow> LifecycleRule \<Rightarrow> (go_error, bool) outcome" where
  "evaluateRule env u rule =
     (if RConditions rule = [] then Ok False else evaluate_all env u (RConditions rule))"

fun add_actions :: "Action list \<Rightarrow> string set \<Rightarrow> Action list \<Rightarrow> Action list \<times> string set" where
  "add_actions acts seen [] = (acts, seen)"
| "add_actions acts seen (a # as) =
     (if AType a \<notin> seen then add_actions (acts @ [a]) (insert (AType a) seen) as else add_actions acts seen as)"

fun evaluate_rules ::
    "env \<Rightarrow> User \<Rightarrow> Action list \<Rightarrow> string set \<Rightarrow> LifecycleRule list \<Rightarrow> (go_error, Action list) outcome" where
  "evaluate_rules env u acts seen [] = Ok acts"
| "evaluate_rules env u acts seen (rule # rules) =
     (case evaluateRule env u rule of
        Panic \<Rightarrow> Panic
      | Fail err \<Rightarrow> Fail (Wrapf (''failed to evaluate rule '' @ RName rule) err)
      | Ok matched \<Rightarrow>
          if matched then (case add_actions acts seen (RActions rule) of (acts', seen') \<Rightarrow> evaluate_rules env u acts' seen' rules)
          else evaluate_rules env u acts seen rules)"

definition lc_Evaluate :: "env \<Rightarrow> User \<Rightarrow> LifecycleRule list \<Rightarrow> (go_error, Action list) outcome" where
  "lc_Evaluate env u rules = evaluate_rules env u [] {} rules"

section \<open>Data governance\<close>

definition IssueMissingField :: string where "IssueMissingField = ''missing_field''"
definition IssueInvalidFormat :: string where "IssueInvalidFormat = ''invalid_format''"
definition IssueLogicalError :: string where "IssueLogicalError = ''logical_error''"
definition IssueDuplicateValue :: string where "IssueDuplicateValue = ''duplicate_value''"

record QualityIssue =
  QUserID :: string
  QField :: string
  QIssueType :: string
  QMessage :: string

definition in_range :: "nat \<Rightarrow> nat \<Rightarrow> char \<Rightarrow> bool" where
  "in_range lo hi c = (lo \<le> (of_char c :: nat) \<and> (of_char c :: nat) \<le> hi)"

definition lower_or_digit :: "char \<Rightarrow> bool" where
  "lower_or_digit c = (in_range 97 122 c \<or> is_digit c)"

text \<open>
  The regular expressions of the inspector. No character before the \<^verbatim>\<open>@\<close> or after it is an \<^verbatim>\<open>@\<close>, and none of
  the last two to four is a dot, so the split at the \<^verbatim>\<open>@\<close> and at the last dot is the only one.
\<close>

definition emailRegex :: "string \<Rightarrow> bool" where
  "emailRegex s =
     (case split_on CHR ''@'' s of
        [l, d] \<Rightarrow>
          l \<noteq> [] \<and> list_all (\<lambda>c. lower_or_digit c \<or> c \<in> set ''._%+-'') l \<and>
          (let tld = rev (takeWhile (\<lambda>c. c \<noteq> CHR ''.'') (rev d)); n = length d - length tld
           in CHR ''.'' \<in> set d \<and> 2 \<le> length tld \<and> length tld \<le> 4 \<and> list_all (in_range 97 122) tld \<and>
              2 \<le> n \<and> list_all (\<lambda>c. lower_or_digit c \<or> c \<in> set ''.-'') (take (n - 1) d))
      | _ \<Rightarrow> False)"

definition phoneRegex :: "string \<Rightarrow> bool" where
  "phoneRegex s =
     (let t = (case s of [] \<Rightarrow> [] | c # r \<Rightarrow> if c = CHR ''+'' then r else s)
      in case t of [] \<Rightarrow> False
         | c # r \<Rightarrow> in_range 49 57 c \<and> 1 \<le> length r \<and> length r \<le> 14 \<and> list_all is_digit r)"

definition isFieldMissing :: "User \<Rightarrow> string \<Rightarrow> bool" where
  "isFieldMissing u fld =
     (if fld = ''email'' then Email u = []
      else if fld = ''username'' then Username u = []
      else if fld = ''phone'' then Phone u = []
      else case Option.bind (UAttributes u) (\<lambda>m. m fld) of
        None \<Rightarrow> True
      | Some v \<Rightarrow> v = VNil \<or> v = VString [])"

text \<open>The zero time is \<open>0\<close>, as in \<^const>\<open>zero_user\<close>.\<close>

definition Check :: "string list \<Rightarrow> User \<Rightarrow> QualityIssue list" where
  "Check requiredFields u =
     map (\<lambda>f. \<lparr>QUserID = UID u, QField = f, QIssueType = IssueMissingField, QMessage = ''Required field is missing or empty''\<rparr>)
       (filter (isFieldMissing u) requiredFields) @
     (if Email u \<noteq> [] \<and> \<not> emailRegex (Email u)
      then [\<lparr>QUserID = UID u, QField = ''email'', QIssueType = IssueInvalidFormat, QMessage = ''Invalid email format''\<rparr>] else []) @
     (if Phone u \<noteq> [] \<and> \<not> phoneRegex (Phone u)
      then [\<lparr>QUserID = UID u, QField = ''phone'', QIssueType = IssueInvalidFormat, QMessage = ''Invalid phone format''\<rparr>] else []) @
     (if UUpdatedAt u \<noteq> 0 \<and> UCreatedAt u > UUpdatedAt u
      then [\<lparr>QUserID = UID u, QField = ''timestamps'', QIssueType = IssueLogicalError,
             QMessage = ''CreatedAt is after UpdatedAt''\<rparr>] else [])"

section \<open>The job\<close>

record LifecycleJobConfig =
  LJBatchSize :: int
  LJRules :: "LifecycleRule list"
  LJRequiredFields :: "string list"
  LJDryRun :: bool

text \<open>The methods of the identity service that the job calls; \<open>None\<close> is a call that does not return.\<close>

record 's LifecycleService =
  lj_ListUsers :: "'s \<Rightarrow> UserFilter \<Rightarrow> (go_error, User list \<times> int) outcome"
  lj_ChangeUserStatus :: "'s \<Rightarrow> string \<Rightarrow> UserStatus \<Rightarrow> (go_error, unit) outcome \<times> 's"
  lj_DeleteUser :: "'s \<Rightarrow> string \<Rightarrow> ((go_error, unit) outcome \<times> 's) option"

fun executeActions ::
    "'s LifecycleService \<Rightarrow> User \<Rightarrow> Action list \<Rightarrow> 's \<Rightarrow> ((go_error, unit) outcome \<times> 's) option" where
  "executeActions svc user [] s = Some (Ok (), s)"
| "executeActions svc user (action # rest) s =
     (if AType action = ActionDisable then
        (if Status user \<noteq> UserStatusInactive then
           (case lj_ChangeUserStatus svc s (UID user) UserStatusInactive of
              (Panic, s') \<Rightarrow> Some (Panic, s')
            | (Fail err, s') \<Rightarrow> Some (Fail (Wrapf ''failed to disable user'' err), s')
            | (Ok _, s') \<Rightarrow> executeActions svc user rest s')
         else executeActions svc user rest s)
      else if AType action = ActionDelete then
        (case lj_DeleteUser svc s (UID user) of
           None \<Rightarrow> None
         | Some (Panic, s') \<Rightarrow> Some (Panic, s')
         | Some (Fail err, s') \<Rightarrow> Some (Fail (Wrapf ''failed to delete user'' err), s')
         | Some (Ok _, s') \<Rightarrow> executeActions svc user rest s')
      else executeActions svc user rest s)"

text \<open>The result of a user and of a batch is \<open>Panic\<close> or \<open>Ok\<close>: errors are logged. Governance issues are logged too.\<close>

definition processUser ::
    "'s LifecycleService \<Rightarrow> LifecycleJobConfig \<Rightarrow> env \<Rightarrow> User \<Rightarrow> 's \<Rightarrow> ((go_error, QualityIssue list) outcome \<times> 's) option" where
  "processUser svc cfg env user s =
     (let issues = Check (LJRequiredFields cfg) user
      in case lc_Evaluate env user (LJRules cfg) of
           Panic \<Rightarrow> Some (Panic, s)
         | Fail _ \<Rightarrow> Some (Ok issues, s)
         | Ok actions \<Rightarrow>
             if actions = [] \<or> LJDryRun cfg then Some (Ok issues, s)
             else (case executeActions svc user actions s of
                     None \<Rightarrow> None
                   | Some (Panic, s') \<Rightarrow> Some (Panic, s')
                   | Some (_, s') \<Rightarrow> Some (Ok issues, s')))"

fun lj_processBatch ::
    "'s LifecycleService \<Rightarrow> LifecycleJobConfig \<Rightarrow> env \<Rightarrow> User list \<Rightarrow> 's \<Rightarrow> ((go_error, unit) outcome \<times> 's) option" where
  "lj_processBatch svc cfg env [] s = Some (Ok (), s)"
| "lj_processBatch svc cfg env (user # users) s =
     (case processUser svc cfg env user s of
        None \<Rightarrow> None
      | Some (Panic, s') \<Rightarrow> Some (Panic, s')
      | Some (_, s') \<Rightarrow> lj_processBatch svc cfg env users s')"

definition page_filter :: "int \<Rightarrow> int \<Rightarrow> UserFilter" where
  "page_filter page sz = \<lparr>FQuery = [], FStatus = [], FPage = page, FPageSize = sz, FSortBy = [], FSortOrder = []\<rparr>"

partial_function (option) run_pages ::
    "'s LifecycleService \<Rightarrow> LifecycleJobConfig \<Rightarrow> env \<Rightarrow> int \<Rightarrow> int \<Rightarrow> 's \<Rightarrow> ((go_error, unit) outcome \<times> 's) option" where
  "run_pages svc cfg env sz page s =
     (case lj_ListUsers svc s (page_filter page sz) of
        Panic \<Rightarrow> Some (Panic, s)
      | Fail _ \<Rightarrow> Some (Ok (), s)
      | Ok (users, tot) \<Rightarrow>
          if users = [] then Some (Ok (), s)
          else (case lj_processBatch svc cfg env users s of
                  None \<Rightarrow> None
                | Some (res, s') \<Rightarrow>
                    if res = Panic then Some (Panic, s')
                    else if go_int (page * sz) \<ge> tot then Some (Ok (), s')
                    else run_pages svc cfg env sz (go_int (page + 1)) s'))"

definition lj_Run :: "'s LifecycleService \<Rightarrow> LifecycleJobConfig \<Rightarrow> env \<Rightarrow> 's \<Rightarrow> ((go_error, unit) outcome \<times> 's) option" where
  "lj_Run svc cfg env s = run_pages svc cfg env (if LJBatchSize cfg \<le> 0 then 100 else LJBatchSize cfg) 1 s"

section \<open>Which actions are taken\<close>

text \<open>The first action of every type.\<close>

fun first_of_type :: "Action list \<Rightarrow> Action list" where
  "first_of_type [] = []"
| "first_of_type (a # as) = a # filter (\<lambda>b. AType b \<noteq> AType a) (first_of_type as)"

lemma add_actions_eq:
  "add_actions acts seen as =
     (acts @ filter (\<lambda>a. AType a \<notin> seen) (first_of_type as), seen \<union> AType ` set as)"
proof (induction as arbitrary: acts seen)
  case (Cons a as)
  then show ?case
    by (auto intro!: filter_cong simp: insert_absorb)
qed simp

lemma first_of_type_append:
  "first_of_type (as @ bs) =
     first_of_type as @ filter (\<lambda>b. AType b \<notin> AType ` set as) (first_of_type bs)"
  by (induction as) (auto intro!: filter_cong)

lemma distinct_first_of_type: "distinct (map AType (first_of_type as))"
proof (induction as)
  case (Cons a as)
  then show ?case by (auto simp: distinct_map intro: inj_on_subset)
qed simp

definition matched_actions :: "env \<Rightarrow> User \<Rightarrow> LifecycleRule list \<Rightarrow> Action list" where
  "matched_actions env u rules = concat (map RActions (filter (\<lambda>r. evaluateRule env u r = Ok True) rules))"

lemma evaluate_rules_eq:
  "evaluate_rules env u acts seen rules = Ok res \<longleftrightarrow>
     (\<forall>r\<in>set rules. \<exists>b. evaluateRule env u r = Ok b) \<and>
     res = acts @ filter (\<lambda>a. AType a \<notin> seen) (first_of_type (matched_actions env u rules))"
proof (induction rules arbitrary: acts seen)
  case Nil
  then show ?case by (auto simp: matched_actions_def)
next
  case (Cons r rules)
  show ?case
  proof (cases "evaluateRule env u r")
    case (Ok b)
    show ?thesis
    proof (cases b)
      case True
      with Ok have m: "matched_actions env u (r # rules) = RActions r @ matched_actions env u rules"
        by (simp add: matched_actions_def)
      have "filter (\<lambda>a. AType a \<notin> seen) (filter (\<lambda>a. AType a \<notin> AType ` set (RActions r)) as) =
          filter (\<lambda>a. AType a \<notin> seen \<union> AType ` set (RActions r)) as" for as
        unfolding filter_filter by (rule filter_cong) auto
      with True Ok show ?thesis
        by (simp only: m evaluate_rules.simps outcome.case add_actions_eq prod.case Cons.IH first_of_type_append
            filter_append append_assoc if_True) auto
    next
      case False
      with Ok have m: "matched_actions env u (r # rules) = matched_actions env u rules"
        by (simp add: matched_actions_def)
      from False Ok show ?thesis by (auto simp: m Cons.IH)
    qed
  qed simp_all
qed

text \<open>
  C27: Evaluation succeeds exactly when every rule can be evaluated, and then returns the actions of the rules
  that match, in their order, the first of every type.
\<close>

theorem lc_Evaluate_exact:
  "lc_Evaluate env u rules = Ok acts \<longleftrightarrow>
     list_all (\<lambda>r. \<exists>b. evaluateRule env u r = Ok b) rules \<and>
     acts = first_of_type (matched_actions env u rules) \<and> distinct (map AType acts)"
  by (auto simp: lc_Evaluate_def evaluate_rules_eq distinct_first_of_type list_all_iff)

text \<open>
  A rule about the last login compares the time since it; a user who has never logged in matches no
  comparison, so that such a rule never disables an account that was never used.
\<close>

theorem last_login_rule:
  "evaluateCondition env u \<lparr>CAttribute = ''lastLoginAt'', COperator = OpGt, CValue = VString ''90d''\<rparr> =
     Ok (\<exists>t. LastLoginAt u = Some t \<and> since env t > 90 * 86400000000000)"
proof -
  have p: "parseDuration env (VString ''90d'') = Some (90 * 86400000000000)"
    by (simp add: parseDuration_def suffix_def sscanf_int_def is_space_def is_digit_def go_int_def)
  have "\<not> prefix ''attributes.'' ''lastLoginAt''" by simp
  then have g: "getAttributeValue env u ''lastLoginAt'' = Ok (opt_time (LastLoginAt u))"
    by (simp add: getAttributeValue_def user_fields_def EqualFold_def lower_char_def)
  show ?thesis
    by (cases "LastLoginAt u")
      (simp_all add: evaluateCondition_def g opt_time_def compare_def p toTime_def compare_int_def operators
        compare_numbers_def toFloat_def compare_text_def Let_def)
qed
section \<open>The job over a service\<close>

lemmas run_pages_induct = run_pages.raw_induct [rotated, consumes 1]

lemma processUser_dry: "LJDryRun cfg \<Longrightarrow> processUser svc cfg env u s = Some (res, s') \<Longrightarrow> s' = s"
  by (auto simp: processUser_def Let_def split: outcome.splits)

lemma lj_processBatch_dry: "LJDryRun cfg \<Longrightarrow> lj_processBatch svc cfg env us s = Some (res, s') \<Longrightarrow> s' = s"
  by (induction us arbitrary: s) (auto dest: processUser_dry split: option.splits outcome.splits)

lemma run_pages_dry: "run_pages svc cfg env sz p s = Some r \<Longrightarrow> LJDryRun cfg \<longrightarrow> snd r = s"
proof (induct rule: run_pages_induct)
  case (1 run svc cfg env sz p s r)
  show ?case
  proof (intro impI)
    assume dry: "LJDryRun cfg"
    show "snd r = s"
    proof (cases "lj_ListUsers svc s (page_filter p sz)")
      case (Ok l)
      obtain us n where l: "l = (us, n)" by fastforce
      show ?thesis
      proof (cases "us = []")
        case False
        with 1(2) Ok l obtain res s' where b: "lj_processBatch svc cfg env us s = Some (res, s')"
          by (auto split: option.splits)
        from lj_processBatch_dry [OF dry b] have "s' = s" .
        with 1 Ok l False b dry show ?thesis by (auto split: if_splits)
      qed (use 1(2) Ok l in auto)
    qed (use 1(2) in auto)
  qed
qed

text \<open>A dry run changes nothing.\<close>

theorem lj_Run_dry:
  assumes "LJDryRun cfg" and "lj_Run svc cfg env s = Some (res, s')"
  shows "s' = s"
  using assms run_pages_dry unfolding lj_Run_def by fastforce

text \<open>
  What the job needs of the service to come to an end: neither operation adds users, a call of
  \<^verbatim>\<open>DeleteUser\<close> returns, and a page past the last user is empty, under the bounds within which the page
  arithmetic does not wrap.
\<close>

locale listing_service =
  fixes svc :: "'s LifecycleService" and user_count :: "'s \<Rightarrow> nat"
  assumes change_count: "lj_ChangeUserStatus svc s i st = (res, s') \<Longrightarrow> user_count s' \<le> user_count s"
    and delete_count: "\<exists>res s'. lj_DeleteUser svc s i = Some (res, s') \<and> user_count s' \<le> user_count s"
    and list_end: "0 < sz \<Longrightarrow> sz < 2 ^ 62 \<Longrightarrow> 1 \<le> p \<Longrightarrow> (p - 1) * sz < 2 ^ 62 \<Longrightarrow>
      int (user_count s) \<le> (p - 1) * sz \<Longrightarrow> lj_ListUsers svc s (page_filter p sz) = Ok (us, n) \<Longrightarrow> us = []"
    and list_total: "0 < sz \<Longrightarrow> sz < 2 ^ 62 \<Longrightarrow> 1 \<le> p \<Longrightarrow> (p - 1) * sz < 2 ^ 62 \<Longrightarrow>
      lj_ListUsers svc s (page_filter p sz) = Ok (us, n) \<Longrightarrow> us \<noteq> [] \<Longrightarrow> n = int (user_count s)"
begin

lemma executeActions_returns:
  "\<exists>res s'. executeActions svc u as s = Some (res, s') \<and> user_count s' \<le> user_count s"
proof (induction as arbitrary: s)
  case (Cons a as)
  obtain r1 s1 where c: "lj_ChangeUserStatus svc s (UID u) UserStatusInactive = (r1, s1)" by fastforce
  obtain r2 s2 where d: "lj_DeleteUser svc s (UID u) = Some (r2, s2)" "user_count s2 \<le> user_count s"
    using delete_count by blast
  from Cons.IH [of s1] Cons.IH [of s2] Cons.IH [of s] change_count [OF c] d c show ?case
    by (auto split: outcome.split; fastforce)
qed auto

lemma processUser_returns: "\<exists>res s'. processUser svc cfg env u s = Some (res, s') \<and> user_count s' \<le> user_count s"
proof (cases "lc_Evaluate env u (LJRules cfg)")
  case (Ok as)
  obtain res s' where "executeActions svc u as s = Some (res, s')" "user_count s' \<le> user_count s"
    using executeActions_returns by blast
  with Ok show ?thesis by (cases res) (auto simp: processUser_def Let_def)
qed (auto simp: processUser_def)

lemma lj_processBatch_returns:
  "\<exists>res s'. lj_processBatch svc cfg env us s = Some (res, s') \<and> user_count s' \<le> user_count s"
proof (induction us arbitrary: s)
  case (Cons u us)
  obtain r1 s1 where u: "processUser svc cfg env u s = Some (r1, s1)" "user_count s1 \<le> user_count s"
    using processUser_returns by blast
  from Cons.IH [of s1] u show ?case by (cases r1) (auto intro: order_trans)
qed auto

lemma run_pages_returns:
  assumes "0 < sz" "sz < 2 ^ 62" "1 \<le> p" "(p - 1) * sz < 2 ^ 62" "user_count s < 2 ^ 62"
  shows "\<exists>r. run_pages svc cfg env sz p s = Some r"
  using assms(3-5)
proof (induction "nat (int (user_count s) - (p - 1) * sz)" arbitrary: p s rule: less_induct)
  case less
  note b = less.prems
  show ?case
  proof (cases "lj_ListUsers svc s (page_filter p sz)")
    case (Ok l)
    obtain us n where l: "l = (us, n)" by fastforce
    show ?thesis
    proof (cases "us = []")
      case False
      obtain res s' where pb: "lj_processBatch svc cfg env us s = Some (res, s')" "user_count s' \<le> user_count s"
        using lj_processBatch_returns by blast
      have n: "n = int (user_count s)" and lt: "(p - 1) * sz < int (user_count s)"
        using list_total [OF assms(1,2) b(1,2)] list_end [OF assms(1,2) b(1,2)] Ok l False by force+
      have p: "p \<le> (p - 1) * sz + 1" using assms(1) b(1) mult_mono [of "p - 1" "p - 1" 1 sz] by simp
      have psz: "p * sz = (p - 1) * sz + sz" by (simp add: algebra_simps)
      have g: "go_int (p * sz) = p * sz" "go_int (p + 1) = p + 1"
        using b assms(1,2) p psz by (auto intro!: go_int_id)
      show ?thesis
      proof (cases "res = Panic \<or> p * sz \<ge> n")
        case True
        with Ok l False pb g show ?thesis by (subst run_pages.simps) auto
      next
        case False
        then have "\<exists>r. run_pages svc cfg env sz (p + 1) s' = Some r"
        proof (intro less.hyps)
          have lt': "p * sz < n" using False by simp
          show "nat (int (user_count s') - (p + 1 - 1) * sz) < nat (int (user_count s) - (p - 1) * sz)"
            using pb(2) lt lt' n psz assms(1) by simp
          show "(p + 1 - 1) * sz < 2 ^ 62" using lt' n b(3) by simp
          show "user_count s' < 2 ^ 62" using pb(2) b(3) by linarith
        qed (use b(1) in simp)
        with Ok l \<open>us \<noteq> []\<close> pb g False show ?thesis by (subst run_pages.simps) auto
      qed
    qed (subst run_pages.simps, simp add: Ok l)
  qed (subst run_pages.simps, simp)+
qed

end
section \<open>The job over the identity service\<close>

text \<open>
  The identity service over the in-memory repository; \<open>ordf\<close> gives the order in which a Go map is visited.
\<close>

definition identity_job ::
    "((string \<rightharpoonup> User) \<Rightarrow> string list) \<Rightarrow> string \<Rightarrow> (IdentityMemoryRepository \<times> err_store) LifecycleService" where
  "identity_job ordf uuid =
     \<lparr>lj_ListUsers = (\<lambda>(r, h) flt. fst (svc_ListUsers (memory_users (\<lambda>_. ordf (m_users r)) uuid) r h flt)),
      lj_ChangeUserStatus = (\<lambda>(r, h) i st. svc_ChangeUserStatus (memory_users (\<lambda>_. ordf (m_users r)) uuid) r h i st),
      lj_DeleteUser = (\<lambda>(r, h) i. svc_DeleteUser (memory_users (\<lambda>_. ordf (m_users r)) uuid) r h i)\<rparr>"

definition order_ok :: "((string \<rightharpoonup> User) \<Rightarrow> string list) \<Rightarrow> bool" where
  "order_ok ordf \<longleftrightarrow> (\<forall>m. if finite (dom m) then visits (ordf m) m else ordf m = [])"

definition job_count :: "IdentityMemoryRepository \<times> err_store \<Rightarrow> nat" where
  "job_count s = card (dom (m_users (fst s)))"

lemma length_order: "order_ok ordf \<Longrightarrow> length (range_values (ordf m) m) = card (dom m)"
  by (cases "finite (dom m)")
    (simp_all add: order_ok_def length_range_values, simp add: range_values_def map_filter_simps)

lemma card_dom_remove: "card (dom m - {i}) \<le> card (dom m)"
  by (cases "finite (dom m)") (auto intro: card_mono)

lemma mem_ListUsers_page:
  assumes "order_ok ordf" "0 < sz" "sz < 2 ^ 62" "1 \<le> p" "(p - 1) * sz < 2 ^ 62"
    and "mem_ListUsers (ordf (m_users r)) r (page_filter p sz) = Ok (us, n)"
  shows "us \<noteq> [] \<longrightarrow> n = int (card (dom (m_users r)))" and "int (card (dom (m_users r))) \<le> (p - 1) * sz \<Longrightarrow> us = []"
proof -
  have le: "p - 1 \<le> (p - 1) * sz" using assms(2,4) mult_mono [of "p - 1" "p - 1" 1 sz] by simp
  have g: "go_int (p - 1) = p - 1" "go_int ((p - 1) * sz) = (p - 1) * sz" "go_int ((p - 1) * sz + sz) = (p - 1) * sz + sz"
    using assms(2-5) le by (auto intro!: go_int_id)
  note u = assms(6) [unfolded mem_ListUsers_def page_filter_def Let_def UserFilter.select_convs g length_order [OF assms(1)]]
  show "us \<noteq> [] \<longrightarrow> n = int (card (dom (m_users r)))"
    using u by (auto split: if_splits simp: obind_eq_Ok)
  assume "int (card (dom (m_users r))) \<le> (p - 1) * sz"
  with u assms(2) show "us = []"
    by (auto split: if_splits simp: obind_eq_Ok go_slice_int_def go_slice_def)
qed

lemma identity_job_listing:
  assumes "order_ok ordf"
  shows "listing_service (identity_job ordf uuid) job_count"
proof
  fix s i st res s'
  show "lj_ChangeUserStatus (identity_job ordf uuid) s i st = (res, s') \<Longrightarrow> job_count s' \<le> job_count s"
    by (cases s) (auto simp: identity_job_def job_count_def svc_ChangeUserStatus_def fail_with_def mem_GetUserByID_def
        mem_UpdateUser_def insert_absorb domIff split: option.splits outcome.splits prod.splits if_splits)
  show "\<exists>res s'. lj_DeleteUser (identity_job ordf uuid) s i = Some (res, s') \<and> job_count s' \<le> job_count s"
    by (cases s) (auto simp: identity_job_def job_count_def svc_DeleteUser_def fail_with_def mem_DeleteUser_def
        user_not_found_def card_dom_remove errors_Is.simps [of _ "Errorf _"] std_errors split: if_splits)
next
  fix sz p s us n
  assume b: "0 < sz" "sz < 2 ^ 62" "1 \<le> p" "(p - 1) * sz < 2 ^ 62"
    and l: "lj_ListUsers (identity_job ordf uuid) s (page_filter p sz) = Ok (us, n)"
  from l have "mem_ListUsers (ordf (m_users (fst s))) (fst s) (page_filter p sz) = Ok (us, n)"
    by (cases s) (simp add: identity_job_def svc_ListUsers_def)
  note pg = mem_ListUsers_page [OF assms b this]
  show "us \<noteq> [] \<Longrightarrow> n = int (job_count s)" using pg(1) by (simp add: job_count_def)
  show "int (job_count s) \<le> (p - 1) * sz \<Longrightarrow> us = []" using pg(2) by (simp add: job_count_def)
qed
text \<open>
  C28: The job ends over the in-memory repository, whatever the rules do and in whatever order the map is
  visited.
\<close>

theorem lj_Run_ends:
  assumes "order_ok ordf" and "LJBatchSize cfg < 2 ^ 62" and "card (dom (m_users r)) < 2 ^ 62"
  shows "\<exists>res. lj_Run (identity_job ordf uuid) cfg env (r, h) = Some res"
  unfolding lj_Run_def using assms(2,3)
  by (intro listing_service.run_pages_returns [OF identity_job_listing [OF assms(1)]]) (simp_all add: job_count_def)
definition key_order :: "(string \<rightharpoonup> User) \<Rightarrow> string list" where
  "key_order m = sorted_list_of_set (dom m)"

lemma order_ok_key_order: "order_ok key_order"
  by (auto simp: order_ok_def key_order_def visits_def sorted_list_of_set.fold_insort_key.infinite)

interpretation memory_job: listing_service "identity_job key_order uuid" job_count for uuid
  by (rule identity_job_listing) (rule order_ok_key_order)

definition cleanup :: LifecycleJobConfig where
  "cleanup = \<lparr>LJBatchSize = 1, LJRules = [\<lparr>RName = ''r'', RDescription = [],
       RConditions = [\<lparr>CAttribute = ''status'', COperator = OpEq, CValue = VString ''inactive''\<rparr>],
       RActions = [\<lparr>AType = ActionDelete, AParams = []\<rparr>]\<rparr>], LJRequiredFields = [], LJDryRun = False\<rparr>"

definition demo_env :: env where
  "demo_env = \<lparr>e_now = 0, e_ParseDuration = (\<lambda>_. None), e_format = (\<lambda>_. []), e_field = (\<lambda>_ _. [])\<rparr>"

definition inactive_user :: "string \<Rightarrow> User" where
  "inactive_user i = zero_user\<lparr>UID := i, Status := ''inactive''\<rparr>"

definition two_inactive :: IdentityMemoryRepository where
  "two_inactive = NewIdentityMemoryRepository\<lparr>m_users := [''a'' \<mapsto> inactive_user ''a'', ''b'' \<mapsto> inactive_user ''b'']\<rparr>"

theorem lj_Run_ends_witness: "\<exists>res. lj_Run (identity_job key_order ''id'') cleanup demo_env (two_inactive, initial_errors) = Some res"
proof (rule lj_Run_ends)
  have "card (dom (m_users two_inactive)) \<le> 2"
    by (simp add: two_inactive_def card_insert_if)
  then show "card (dom (m_users two_inactive)) < 2 ^ 62" by (rule le_less_trans) simp
qed (simp_all add: order_ok_key_order cleanup_def)

lemma cleanup_matches: "lc_Evaluate demo_env (inactive_user i) (LJRules cleanup) = Ok [\<lparr>AType = ActionDelete, AParams = []\<rparr>]"
  by (simp add: lc_Evaluate_def cleanup_def evaluateRule_def evaluateCondition_def getAttributeValue_def user_fields_def
      EqualFold_def lower_char_def inactive_user_def compare_def toTime_def compare_numbers_def toFloat_def compare_text_def
      sprint_def sprint_value_def operators)

lemma page_ab: "key_order (\<lambda>k. if k = ''a'' then Some x else if k = ''b'' then Some y else None) = [''a'', ''b'']"
proof -
  have "dom (\<lambda>k. if k = ''a'' then Some x else if k = ''b'' then Some y else None) = {''a'', ''b''}" by (auto split: if_splits)
  then show ?thesis by (simp add: key_order_def)
qed
lemma dom_two_inactive: "dom (m_users two_inactive) = {''a'', ''b''}"
  by (auto simp: two_inactive_def split: if_splits)

lemma first_page: "mem_ListUsers (key_order (m_users two_inactive)) two_inactive (page_filter 1 1) = Ok ([inactive_user ''a''], 2)"
proof -
  have "key_order (m_users two_inactive) = [''a'', ''b'']" by (simp add: key_order_def dom_two_inactive)
  then show ?thesis
    by (simp add: mem_ListUsers_def page_filter_def go_int_def range_values_def map_filter_simps two_inactive_def go_slice_int_def)
qed

definition one_inactive :: IdentityMemoryRepository where
  "one_inactive = snd (mem_DeleteUser two_inactive ''a'')"

lemma one_inactive_users: "m_users one_inactive = [''b'' \<mapsto> inactive_user ''b'']"
  by (auto simp: one_inactive_def mem_DeleteUser_def two_inactive_def fun_eq_iff)

lemma second_page: "mem_ListUsers (key_order (m_users one_inactive)) one_inactive (page_filter 2 1) = Ok ([], 1)"
  unfolding mem_ListUsers_def one_inactive_users
  by (simp add: page_filter_def go_int_def range_values_def map_filter_simps key_order_def go_slice_int_def)

text \<open>
  Deleting while paging moves the remaining users to earlier pages: with two users that a rule deletes
  and a page size of one, the job deletes the first and does not look at the second.
\<close>

theorem lj_Run_skips:
  "lc_Evaluate demo_env (inactive_user ''b'') (LJRules cleanup) = Ok [\<lparr>AType = ActionDelete, AParams = []\<rparr>] \<and>
   (\<exists>s'. lj_Run (identity_job key_order ''id'') cleanup demo_env (two_inactive, initial_errors) = Some (Ok (), s') \<and>
     m_users (fst s') = [''b'' \<mapsto> inactive_user ''b''])"
proof
  let ?svc = "identity_job key_order ''id''"
  show "lc_Evaluate demo_env (inactive_user ''b'') (LJRules cleanup) = Ok [\<lparr>AType = ActionDelete, AParams = []\<rparr>]"
    by (rule cleanup_matches)
  have l1: "lj_ListUsers ?svc (two_inactive, h) (page_filter 1 1) = Ok ([inactive_user ''a''], 2)" for h
    by (simp add: identity_job_def svc_ListUsers_def first_page)
  have l2: "lj_ListUsers ?svc (one_inactive, h) (page_filter 2 1) = Ok ([], 1)" for h
    by (simp add: identity_job_def svc_ListUsers_def second_page)
  have d: "lj_DeleteUser ?svc (two_inactive, h) ''a'' = Some (Ok (), one_inactive, h)" for h
    by (simp add: identity_job_def svc_DeleteUser_def one_inactive_def) (simp add: mem_DeleteUser_def two_inactive_def)
  have i: "UID (inactive_user x) = x" for x by (simp add: inactive_user_def)
  have e: "executeActions ?svc (inactive_user ''a'') [\<lparr>AType = ActionDelete, AParams = []\<rparr>] (two_inactive, h) =
      Some (Ok (), one_inactive, h)" for h
    by (simp add: i d) (simp add: action_types)
  have b: "lj_processBatch ?svc cleanup demo_env [inactive_user ''a''] (two_inactive, h) = Some (Ok (), one_inactive, h)" for h
    using e [of h] by (simp add: processUser_def cleanup_matches del: executeActions.simps) (simp add: cleanup_def)
  have "run_pages ?svc cleanup demo_env 1 2 (one_inactive, h) = Some (Ok (), one_inactive, h)" for h
    by (subst run_pages.simps) (simp add: l2)
  then have "run_pages ?svc cleanup demo_env 1 1 (two_inactive, h) = Some (Ok (), one_inactive, h)" for h
    by (subst run_pages.simps) (simp add: l1 b go_int_def del: lj_processBatch.simps)
  moreover have "lj_Run ?svc cleanup demo_env s = run_pages ?svc cleanup demo_env 1 1 s" for s
    by (simp add: lj_Run_def cleanup_def)
  ultimately show "\<exists>s'. lj_Run ?svc cleanup demo_env (two_inactive, initial_errors) = Some (Ok (), s') \<and>
     m_users (fst s') = [''b'' \<mapsto> inactive_user ''b'']"
    by (simp add: one_inactive_users)
qed
theorem lj_Run_dry_witness:
  "\<exists>res. lj_Run (identity_job key_order ''id'') (cleanup\<lparr>LJDryRun := True\<rparr>) demo_env (two_inactive, initial_errors) =
     Some (res, two_inactive, initial_errors)"
proof -
  let ?cfg = "cleanup\<lparr>LJDryRun := True\<rparr>"
  have "\<exists>r. run_pages (identity_job key_order ''id'') ?cfg demo_env 1 1 (two_inactive, initial_errors) = Some r"
  proof (rule memory_job.run_pages_returns)
    have "card (dom (m_users two_inactive)) \<le> 2" by (simp add: dom_two_inactive)
    then show "job_count (two_inactive, initial_errors) < 2 ^ 62"
      unfolding job_count_def fst_conv by (rule le_less_trans) simp
  qed simp_all
  then obtain res s' where r: "lj_Run (identity_job key_order ''id'') ?cfg demo_env (two_inactive, initial_errors) = Some (res, s')"
    by (fastforce simp: lj_Run_def cleanup_def)
  moreover have "s' = (two_inactive, initial_errors)" by (rule lj_Run_dry [OF _ r]) simp
  ultimately show ?thesis by blast
qed
end
