(* ===== verification/API_Keys.thy ===== *)
theory API_Keys
  imports Crypto_Manager Types
begin

text \<open>
  API keys: \<^verbatim>\<open>internal/domain/apikey\<close>, the service \<^verbatim>\<open>internal/services/platform/apikey_service.go\<close> and its
  PostgreSQL repository \<^verbatim>\<open>apikey_repository.go\<close>. The object-relational mapper is an argument, with a table
  as its instance; bcrypt and the random bytes are arguments. The locale is the contract of the
  repository that the service relies on.
\<close>

section \<open>Keys and policies\<close>

record APIKey =
  KID :: string
  KAppID :: string
  KKeyID :: string
  KHash :: string
  KPrefix :: string
  KScopes :: "string list"
  KExpiresAt :: "time option"
  KRevoked :: bool
  KCreatedAt :: time
  KUpdatedAt :: time

record RateLimitPolicy =
  RLAppID :: string
  RLLimit :: int
  RLWindow :: int

record 'd APIKeyRepo =
  ak_Create :: "'d \<Rightarrow> APIKey \<Rightarrow> (go_error, unit) outcome \<times> 'd"
  ak_GetByID :: "'d \<Rightarrow> string \<Rightarrow> (go_error, APIKey) outcome"
  ak_GetByPrefix :: "'d \<Rightarrow> string \<Rightarrow> (go_error, APIKey list) outcome"
  ak_GetByKeyID :: "'d \<Rightarrow> string \<Rightarrow> (go_error, APIKey) outcome"
  ak_Update :: "'d \<Rightarrow> APIKey \<Rightarrow> (go_error, unit) outcome \<times> 'd"
  ak_Delete :: "'d \<Rightarrow> string \<Rightarrow> (go_error, unit) outcome \<times> 'd"
  ak_ListByAppID :: "'d \<Rightarrow> string \<Rightarrow> (go_error, APIKey list) outcome"
  ak_GetRateLimitPolicy :: "'d \<Rightarrow> string \<Rightarrow> (go_error, RateLimitPolicy option) outcome"

section \<open>The service\<close>

text \<open>
  \<open>keyIDBytes\<close> and \<open>secretBytes\<close> are the random bytes, \<open>hash\<close> is \<^verbatim>\<open>bcrypt.GenerateFromPassword\<close>, \<open>now\<close> the
  clock and \<open>rowID\<close> the identifier of the row. \<^verbatim>\<open>rand.Read\<close> does not fail.
\<close>

definition GenerateKey ::
    "'d APIKeyRepo \<Rightarrow> (string \<Rightarrow> (go_error, string) outcome) \<Rightarrow> bytes \<Rightarrow> bytes \<Rightarrow> time \<Rightarrow> string \<Rightarrow> 'd \<Rightarrow> err_store
      \<Rightarrow> string \<Rightarrow> string \<Rightarrow> string list \<Rightarrow> int \<Rightarrow> (go_error, string \<times> APIKey) outcome \<times> 'd \<times> err_store" where
  "GenerateKey repo hash keyIDBytes secretBytes now rowID s h appID prefix0 scopes ttl =
     (let prefix = (if prefix0 = [] then ''qid_live_'' else prefix0);
          keyID = hex_encode keyIDBytes;
          secret = hex_encode secretBytes;
          plaintextKey = prefix @ keyID @ secret
      in case hash plaintextKey of
           Panic \<Rightarrow> (Panic, s, h)
         | Fail err \<Rightarrow> (case WithCause h ErrInternal err of (e, h') \<Rightarrow> (Fail e, s, h'))
         | Ok hashed \<Rightarrow>
             (let key = \<lparr>KID = rowID, KAppID = appID, KKeyID = keyID, KHash = hashed, KPrefix = prefix, KScopes = scopes,
                         KExpiresAt = (if 0 < ttl then Some (now + ttl) else None), KRevoked = False,
                         KCreatedAt = now, KUpdatedAt = now\<rparr>
              in case ak_Create repo s key of
                   (Panic, s') \<Rightarrow> (Panic, s', h)
                 | (Fail err, s') \<Rightarrow> (case WithCause h ErrInternal err of (e, h') \<Rightarrow> (Fail e, s', h'))
                 | (Ok _, s') \<Rightarrow> (Ok (plaintextKey, key), s', h)))"

text \<open>\<open>verify\<close> is \<^verbatim>\<open>bcrypt.CompareHashAndPassword\<close>.\<close>

definition ValidateKey ::
    "'d APIKeyRepo \<Rightarrow> (string \<Rightarrow> string \<Rightarrow> bool) \<Rightarrow> time \<Rightarrow> 'd \<Rightarrow> string \<Rightarrow> (go_error, APIKey) outcome" where
  "ValidateKey repo verify now s plaintextKey =
     (if length plaintextKey \<le> 48 then Fail ErrInvalidToken
      else let prefixLen = length plaintextKey - 48;
               keyID = take 16 (drop prefixLen plaintextKey)
           in case ak_GetByKeyID repo s keyID of
                Panic \<Rightarrow> Panic
              | Fail _ \<Rightarrow> Fail ErrInvalidToken
              | Ok key \<Rightarrow>
                  if KRevoked key then Fail ErrInvalidToken
                  else if (case KExpiresAt key of None \<Rightarrow> False | Some t \<Rightarrow> t < now) then Fail ErrInvalidToken
                  else if \<not> verify (KHash key) plaintextKey then Fail ErrInvalidToken
                  else Ok key)"

definition GetRateLimitPolicy :: "'d APIKeyRepo \<Rightarrow> 'd \<Rightarrow> string \<Rightarrow> (go_error, RateLimitPolicy option) outcome" where
  "GetRateLimitPolicy repo s appID = ak_GetRateLimitPolicy repo s appID"

definition RevokeKey :: "'d APIKeyRepo \<Rightarrow> time \<Rightarrow> 'd \<Rightarrow> string \<Rightarrow> (go_error, unit) outcome \<times> 'd" where
  "RevokeKey repo now s i =
     (case ak_GetByID repo s i of
        Panic \<Rightarrow> (Panic, s)
      | Fail err \<Rightarrow> (Fail err, s)
      | Ok key \<Rightarrow> ak_Update repo s (key\<lparr>KRevoked := True, KUpdatedAt := now\<rparr>))"

section \<open>The PostgreSQL repository\<close>

record 'd key_gorm =
  kg_create :: "'d \<Rightarrow> APIKey \<Rightarrow> (go_error, unit) outcome \<times> 'd"
  kg_first :: "'d \<Rightarrow> (APIKey \<Rightarrow> bool) \<Rightarrow> (go_error, APIKey) outcome"
  kg_find :: "'d \<Rightarrow> (APIKey \<Rightarrow> bool) \<Rightarrow> (go_error, APIKey list) outcome"
  kg_save :: "'d \<Rightarrow> APIKey \<Rightarrow> (go_error, unit) outcome \<times> 'd"
  kg_delete :: "'d \<Rightarrow> (APIKey \<Rightarrow> bool) \<Rightarrow> (go_error, unit) outcome \<times> 'd"
  kg_first_policy :: "'d \<Rightarrow> (RateLimitPolicy \<Rightarrow> bool) \<Rightarrow> (go_error, RateLimitPolicy) outcome"

definition key_ErrRecordNotFound :: go_error where
  "key_ErrRecordNotFound = Errorf ''record not found''"

definition key_not_found :: "(go_error, APIKey) outcome \<Rightarrow> (go_error, APIKey) outcome" where
  "key_not_found res =
     (case res of Fail err \<Rightarrow> Fail (if err = key_ErrRecordNotFound then ErrNotFound else err) | _ \<Rightarrow> res)"

definition pg_keys :: "'d key_gorm \<Rightarrow> 'd APIKeyRepo" where
  "pg_keys db =
     \<lparr>ak_Create = kg_create db,
      ak_GetByID = (\<lambda>d i. key_not_found (kg_first db d (\<lambda>k. KID k = i))),
      ak_GetByPrefix = (\<lambda>d p. kg_find db d (\<lambda>k. KPrefix k = p)),
      ak_GetByKeyID = (\<lambda>d i. key_not_found (kg_first db d (\<lambda>k. KKeyID k = i))),
      ak_Update = kg_save db,
      ak_Delete = (\<lambda>d i. kg_delete db d (\<lambda>k. KID k = i)),
      ak_ListByAppID = (\<lambda>d a. kg_find db d (\<lambda>k. KAppID k = a)),
      ak_GetRateLimitPolicy = (\<lambda>d a.
        case kg_first_policy db d (\<lambda>p. RLAppID p = a) of
          Panic \<Rightarrow> Panic
        | Fail err \<Rightarrow> if err = key_ErrRecordNotFound then Ok None else Fail err
        | Ok p \<Rightarrow> Ok (Some p))\<rparr>"

text \<open>
  A table with the indexes that the struct tags declare: the primary key and the unique key identifier.
  \<^verbatim>\<open>Save\<close> writes the row with the primary key of the object, or inserts it.
\<close>

type_synonym key_table = "APIKey list \<times> RateLimitPolicy list"

definition duplicate_key :: go_error where
  "duplicate_key = Errorf ''duplicate key value violates unique constraint''"

definition table_insert :: "key_table \<Rightarrow> APIKey \<Rightarrow> (go_error, unit) outcome \<times> key_table" where
  "table_insert d k =
     (if list_ex (\<lambda>x. KID x = KID k \<or> KKeyID x = KKeyID k) (fst d) then (Fail duplicate_key, d)
      else (Ok (), (fst d @ [k], snd d)))"

definition table_save :: "key_table \<Rightarrow> APIKey \<Rightarrow> (go_error, unit) outcome \<times> key_table" where
  "table_save d k =
     (if list_ex (\<lambda>x. KID x \<noteq> KID k \<and> KKeyID x = KKeyID k) (fst d) then (Fail duplicate_key, d)
      else if list_ex (\<lambda>x. KID x = KID k) (fst d)
      then (Ok (), (map (\<lambda>x. if KID x = KID k then k else x) (fst d), snd d))
      else (Ok (), (fst d @ [k], snd d)))"

definition key_db :: "key_table key_gorm" where
  "key_db =
     \<lparr>kg_create = table_insert,
      kg_first = (\<lambda>d P. case find P (fst d) of None \<Rightarrow> Fail key_ErrRecordNotFound | Some k \<Rightarrow> Ok k),
      kg_find = (\<lambda>d P. Ok (filter P (fst d))),
      kg_save = table_save,
      kg_delete = (\<lambda>d P. (Ok (), (filter (\<lambda>k. \<not> P k) (fst d), snd d))),
      kg_first_policy = (\<lambda>d P. case find P (snd d) of None \<Rightarrow> Fail key_ErrRecordNotFound | Some p \<Rightarrow> Ok p)\<rparr>"

definition unique_keys :: "key_table \<Rightarrow> bool" where
  "unique_keys d \<longleftrightarrow> distinct (map KID (fst d)) \<and> distinct (map KKeyID (fst d))"

section \<open>The contract\<close>

lemma ValidateKey_Ok:
  "ValidateKey repo verify now s p = Ok k \<longleftrightarrow>
    48 < length p \<and> ak_GetByKeyID repo s (take 16 (drop (length p - 48) p)) = Ok k \<and> \<not> KRevoked k \<and>
    (\<forall>t. KExpiresAt k = Some t \<longrightarrow> now \<le> t) \<and> verify (KHash k) p"
  by (auto simp: ValidateKey_def Let_def not_less split: outcome.splits option.splits)

locale key_repository =
  fixes repo :: "'d APIKeyRepo" and inv :: "'d \<Rightarrow> bool" and stored :: "'d \<Rightarrow> APIKey \<Rightarrow> bool"
  assumes by_key_id: "inv s \<Longrightarrow> ak_GetByKeyID repo s i = Ok k \<longleftrightarrow> stored s k \<and> KKeyID k = i"
    and by_id: "inv s \<Longrightarrow> ak_GetByID repo s i = Ok k \<longleftrightarrow> stored s k \<and> KID k = i"
    and no_panic: "inv s \<Longrightarrow> ak_GetByKeyID repo s i \<noteq> Panic"
    and create: "inv s \<Longrightarrow> ak_Create repo s k = (Ok (), s') \<Longrightarrow> inv s' \<and> (\<forall>x. stored s' x \<longleftrightarrow> stored s x \<or> x = k)"
    and update: "inv s \<Longrightarrow> stored s x \<Longrightarrow> KID k = KID x \<Longrightarrow> KKeyID k = KKeyID x \<Longrightarrow>
      \<exists>s'. ak_Update repo s k = (Ok (), s') \<and> inv s' \<and> (\<forall>y. stored s' y \<longleftrightarrow> y = k \<or> stored s y \<and> KID y \<noteq> KID k)"
begin

lemma ValidateKey_iff:
  assumes "inv s"
  shows "ValidateKey repo verify now s p = Ok k \<longleftrightarrow>
    48 < length p \<and> stored s k \<and> KKeyID k = take 16 (drop (length p - 48) p) \<and> \<not> KRevoked k \<and>
    (\<forall>t. KExpiresAt k = Some t \<longrightarrow> now \<le> t) \<and> verify (KHash k) p"
  unfolding ValidateKey_Ok by_key_id [OF assms] by auto

lemma ValidateKey_result:
  "inv s \<Longrightarrow> ValidateKey repo verify now s p = Fail ErrInvalidToken \<or> (\<exists>k. ValidateKey repo verify now s p = Ok k)"
  using no_panic [of s "take 16 (drop (length p - 48) p)"]
  by (auto simp: ValidateKey_def Let_def split: outcome.split)

lemma RevokeKey_revokes:
  assumes "inv s" and v: "ValidateKey repo verify now0 s p = Ok x" and "RevokeKey repo now s (KID x) = (Ok (), s')"
  shows "inv s' \<and> ValidateKey repo verify now' s' p = Fail ErrInvalidToken"
proof -
  let ?x = "x\<lparr>KRevoked := True, KUpdatedAt := now\<rparr>"
  from v have x: "stored s x" "KKeyID x = take 16 (drop (length p - 48) p)" by (auto simp: ValidateKey_iff [OF assms(1)])
  then have g: "ak_GetByID repo s (KID x) = Ok x" by (simp add: by_id [OF assms(1)])
  obtain s1 where u: "ak_Update repo s ?x = (Ok (), s1)" "inv s1" "\<forall>y. stored s1 y \<longleftrightarrow> y = ?x \<or> stored s y \<and> KID y \<noteq> KID x"
    using update [OF assms(1) x(1), of ?x] by auto
  with assms(3) g have s': "s' = s1" by (simp add: RevokeKey_def)
  have "ValidateKey repo verify now' s1 p \<noteq> Ok k" for k
  proof
    assume "ValidateKey repo verify now' s1 p = Ok k"
    then have k: "stored s1 k" "KKeyID k = KKeyID x" "\<not> KRevoked k"
      using x by (auto simp: ValidateKey_iff [OF u(2)])
    have "stored s1 ?x" using u(3) by simp
    with k have "k = ?x"
      using by_key_id [OF u(2), of "KKeyID x" k] by_key_id [OF u(2), of "KKeyID x" ?x] by simp
    with k show False by simp
  qed
  with ValidateKey_result [OF u(2)] u(2) s' show ?thesis by blast
qed

end

lemma length_hex_encode [simp]: "length (hex_encode bs) = 2 * length bs"
  by (induction bs) auto

lemma find_distinct:
  "distinct (map f xs) \<Longrightarrow> find (\<lambda>x. f x = v) xs = Some k \<longleftrightarrow> k \<in> set xs \<and> f k = v"
  by (induction xs) (auto simp: image_iff)

interpretation pg_store: key_repository "pg_keys key_db" unique_keys "\<lambda>d k. k \<in> set (fst d)"
proof
  fix s :: key_table and i k
  assume u: "unique_keys s"
  then show "ak_GetByKeyID (pg_keys key_db) s i = Ok k \<longleftrightarrow> k \<in> set (fst s) \<and> KKeyID k = i"
    "ak_GetByID (pg_keys key_db) s i = Ok k \<longleftrightarrow> k \<in> set (fst s) \<and> KID k = i"
    using find_distinct [of KKeyID "fst s" i k] find_distinct [of KID "fst s" i k]
    by (auto simp: pg_keys_def key_db_def key_not_found_def unique_keys_def split: option.splits)
  show "ak_GetByKeyID (pg_keys key_db) s i \<noteq> Panic"
    by (simp add: pg_keys_def key_db_def key_not_found_def split: option.splits)
next
  fix s s' :: key_table and k
  assume "unique_keys s" "ak_Create (pg_keys key_db) s k = (Ok (), s')"
  then show "unique_keys s' \<and> (\<forall>x. x \<in> set (fst s') \<longleftrightarrow> x \<in> set (fst s) \<or> x = k)"
    by (auto simp: pg_keys_def key_db_def table_insert_def unique_keys_def list_ex_iff split: if_splits) blast+
next
  fix s :: key_table and x k :: APIKey
  assume u: "unique_keys s" and x: "x \<in> set (fst s)" and k: "KID k = KID x" "KKeyID k = KKeyID x"
  let ?f = "\<lambda>y :: APIKey. if KID y = KID k then k else y"
  from u x have eq: "y = x" if "y \<in> set (fst s)" "KID y = KID x \<or> KKeyID y = KKeyID x" for y
    using that by (auto simp: unique_keys_def distinct_map dest: inj_onD)
  have m: "map KID (map ?f (fst s)) = map KID (fst s)" "map KKeyID (map ?f (fst s)) = map KKeyID (fst s)"
    using k eq by auto
  have "ak_Update (pg_keys key_db) s k = (Ok (), (map ?f (fst s), snd s))"
    using x k eq by (auto simp: pg_keys_def key_db_def table_save_def list_ex_iff)
  moreover have "unique_keys (map ?f (fst s), snd s)" using u by (simp only: unique_keys_def fst_conv m)
  moreover have "y \<in> set (map ?f (fst s)) \<longleftrightarrow> y = k \<or> y \<in> set (fst s) \<and> KID y \<noteq> KID k" for y
    using x k by (auto simp: image_iff)
  ultimately show "\<exists>s'. ak_Update (pg_keys key_db) s k = (Ok (), s') \<and> unique_keys s' \<and>
      (\<forall>y. y \<in> set (fst s') \<longleftrightarrow> y = k \<or> y \<in> set (fst s) \<and> KID y \<noteq> KID k)"
    by (intro exI [of _ "(map ?f (fst s), snd s)"]) (simp only: fst_conv, blast)
qed

section \<open>Properties\<close>

text \<open>
  C29: A key that was generated validates until it expires, and validation returns the record that was
  created, for every prefix.
\<close>

theorem GenerateKey_ValidateKey:
  assumes "unique_keys d" and "length kb = 8" and "length sb = 16"
    and "\<And>pw hp. hash pw = Ok hp \<Longrightarrow> verify hp pw"
    and "GenerateKey (pg_keys key_db) hash kb sb now rowID d h appID prefix scopes ttl = (Ok (p, key), d', h')"
    and "0 < ttl \<longrightarrow> now' \<le> now + ttl"
  shows "ValidateKey (pg_keys key_db) verify now' d' p = Ok key"
proof -
  let ?pre = "if prefix = [] then ''qid_live_'' else prefix"
  from assms(5) obtain hp where hp: "hash p = Ok hp"
    and key: "key = \<lparr>KID = rowID, KAppID = appID, KKeyID = hex_encode kb, KHash = hp, KPrefix = ?pre, KScopes = scopes,
        KExpiresAt = (if 0 < ttl then Some (now + ttl) else None), KRevoked = False, KCreatedAt = now, KUpdatedAt = now\<rparr>"
    and c: "ak_Create (pg_keys key_db) d key = (Ok (), d')" and p: "p = ?pre @ hex_encode kb @ hex_encode sb"
    by (auto simp: GenerateKey_def Let_def split: outcome.splits prod.splits)
  from pg_store.create [OF assms(1) c] have d': "unique_keys d'" "key \<in> set (fst d')" by auto
  have "48 < length p" "take 16 (drop (length p - 48) p) = hex_encode kb"
    using assms(2,3) by (auto simp: p)
  with d' assms(4) [OF hp] assms(6) show ?thesis
    by (subst pg_store.ValidateKey_iff) (auto simp: key)
qed

text \<open>A revoked key never validates again.\<close>

theorem RevokeKey_final:
  assumes "unique_keys d" and "ValidateKey (pg_keys key_db) verify now d p = Ok key"
    and "RevokeKey (pg_keys key_db) now1 d (KID key) = (Ok (), d')"
  shows "ValidateKey (pg_keys key_db) verify now2 d' p = Fail ErrInvalidToken"
  using pg_store.RevokeKey_revokes [OF assms] by simp

text \<open>A stand-in for bcrypt that satisfies the law, and a key generated into an empty table.\<close>

definition demo_key :: APIKey where
  "demo_key = \<lparr>KID = ''row'', KAppID = ''app'', KKeyID = hex_encode (replicate 8 0),
     KHash = ''qid_live_'' @ hex_encode (replicate 8 0) @ hex_encode (replicate 16 0), KPrefix = ''qid_live_'', KScopes = [],
     KExpiresAt = Some 15, KRevoked = False, KCreatedAt = 5, KUpdatedAt = 5\<rparr>"

lemma demo_generate:
  "GenerateKey (pg_keys key_db) Ok (replicate 8 0) (replicate 16 0) 5 ''row'' ([], []) initial_errors ''app'' [] [] 10 =
     (Ok (KHash demo_key, demo_key), ([demo_key], []), initial_errors)"
  by (simp add: GenerateKey_def pg_keys_def key_db_def table_insert_def demo_key_def Let_def)

theorem GenerateKey_ValidateKey_witness:
  "ValidateKey (pg_keys key_db) (=) 12 ([demo_key], []) (KHash demo_key) = Ok demo_key"
  by (rule GenerateKey_ValidateKey [OF _ _ _ _ demo_generate]) (simp_all add: unique_keys_def)

theorem RevokeKey_final_witness:
  "ValidateKey (pg_keys key_db) (=) 13 ([demo_key\<lparr>KRevoked := True, KUpdatedAt := 12\<rparr>], []) (KHash demo_key) = Fail ErrInvalidToken"
proof (rule RevokeKey_final)
  show "unique_keys ([demo_key], [])" by (simp add: unique_keys_def)
  show "ValidateKey (pg_keys key_db) (=) 12 ([demo_key], []) (KHash demo_key) = Ok demo_key"
    by (subst pg_store.ValidateKey_iff) (simp_all add: unique_keys_def demo_key_def)
  show "RevokeKey (pg_keys key_db) 12 ([demo_key], []) (KID demo_key) =
      (Ok (), [demo_key\<lparr>KRevoked := True, KUpdatedAt := 12\<rparr>], [])"
    by (simp add: RevokeKey_def pg_keys_def key_db_def key_not_found_def table_save_def)
qed
end
