(* ===== verification/Rate_Limit.thy ===== *)
theory Rate_Limit
  imports Redis_Store API_Keys
begin

text \<open>
  Counters in Redis: the Lua script of the rate limiter (\<^verbatim>\<open>internal/server/middleware/ratelimit.go\<close>) and the
  tenant quotas (\<^verbatim>\<open>internal/multitenant/quota_manager.go\<close>). A counter is a text value of the key space of
  \<^verbatim>\<open>Redis_Store\<close>: \<^verbatim>\<open>INCR\<close> reads it as a decimal number, adds one, writes it back and keeps the expiry.
\<close>

section \<open>Redis commands\<close>

definition ks_incr :: "keyspace \<Rightarrow> string \<Rightarrow> (go_error, int) outcome \<times> keyspace" where
  "ks_incr r k =
     (case ks_live r k of
        None \<Rightarrow> (Ok 1, r\<lparr>ks_strings := (ks_strings r)(k \<mapsto> (Text (show_int 1), None))\<rparr>)
      | Some (Text s) \<Rightarrow>
          (case sscanf_int s of
             Some n \<Rightarrow>
               if show_int n = s \<and> n < 2 ^ 63 - 1
               then (Ok (n + 1), r\<lparr>ks_strings := (ks_strings r)(k \<mapsto> (Text (show_int (n + 1)), Option.bind (ks_strings r k) snd))\<rparr>)
               else (Fail (Errorf ''ERR value is not an integer or out of range''), r)
           | None \<Rightarrow> (Fail (Errorf ''ERR value is not an integer or out of range''), r))
      | Some _ \<Rightarrow> (Fail (Errorf ''ERR value is not an integer or out of range''), r))"

text \<open>\<^verbatim>\<open>EXPIRE\<close> with a duration in nanoseconds; one of zero or less deletes the key.\<close>

definition ks_expire :: "keyspace \<Rightarrow> string \<Rightarrow> int \<Rightarrow> keyspace" where
  "ks_expire r k ttl =
     (case ks_live r k of
        None \<Rightarrow> r
      | Some v \<Rightarrow>
          r\<lparr>ks_strings := (ks_strings r)(k := if 0 < ttl then Some (v, Some (ks_now r + ttl)) else None)\<rparr>)"

section \<open>The rate limiter\<close>

text \<open>The script \<^verbatim>\<open>redisRateLimitScript\<close>, with the window in seconds; \<open>1\<close> is allowed, \<open>0\<close> rejected.\<close>

definition redisRateLimitScript :: "keyspace \<Rightarrow> string \<Rightarrow> int \<Rightarrow> int \<Rightarrow> (go_error, int) outcome \<times> keyspace" where
  "redisRateLimitScript r key limit window =
     (case ks_incr r key of
        (Panic, r1) \<Rightarrow> (Panic, r1)
      | (Fail err, r1) \<Rightarrow> (Fail err, r1)
      | (Ok current, r1) \<Rightarrow>
          (let r2 = (if current = 1 then ks_expire r1 key (window * 1000000000) else r1)
           in (Ok (if current > limit then 0 else 1), r2)))"

section \<open>Tenant quotas\<close>

definition ErrQuotaExceeded :: go_error where "ErrQuotaExceeded = Errorf ''quota exceeded''"

record TenantQuotas =
  MaxUsers :: int
  MaxApplications :: int
  MaxAPICallsPerDay :: int

text \<open>\<open>count\<close> is the number of rows of the table with the tenant's identifier.\<close>

definition check_rows ::
    "string \<Rightarrow> string \<Rightarrow> int option \<Rightarrow> (go_error, int) outcome \<Rightarrow> (go_error, unit) outcome" where
  "check_rows what failure maximum count =
     (case maximum of
        None \<Rightarrow> Ok ()
      | Some mx \<Rightarrow>
          if mx \<le> 0 then Ok ()
          else (case count of
                  Panic \<Rightarrow> Panic
                | Fail err \<Rightarrow> Fail (Wrapf failure err)
                | Ok n \<Rightarrow> if n \<ge> mx then Fail (Wrapf (''max '' @ what @ '' reached'') ErrQuotaExceeded) else Ok ()))"

definition CheckUserQuota ::
    "(string \<rightharpoonup> TenantQuotas) \<Rightarrow> (string \<Rightarrow> string \<Rightarrow> (go_error, int) outcome) \<Rightarrow> string \<Rightarrow> (go_error, unit) outcome" where
  "CheckUserQuota cfg count tenantID =
     check_rows ''users'' ''failed to count users'' (map_option MaxUsers (cfg tenantID)) (count ''users'' tenantID)"

definition CheckApplicationQuota ::
    "(string \<rightharpoonup> TenantQuotas) \<Rightarrow> (string \<Rightarrow> string \<Rightarrow> (go_error, int) outcome) \<Rightarrow> string \<Rightarrow> (go_error, unit) outcome" where
  "CheckApplicationQuota cfg count tenantID =
     check_rows ''applications'' ''failed to count applications'' (map_option MaxApplications (cfg tenantID))
       (count ''applications'' tenantID)"

text \<open>\<open>date\<close> formats the day of a time in UTC.\<close>

definition getAPIQuotaKey :: "(time \<Rightarrow> string) \<Rightarrow> time \<Rightarrow> string \<Rightarrow> string" where
  "getAPIQuotaKey date now tenantID = ''quota:api:'' @ tenantID @ '':'' @ date now"

definition CheckAPICallQuota ::
    "(string \<rightharpoonup> TenantQuotas) \<Rightarrow> (time \<Rightarrow> string) \<Rightarrow> keyspace \<Rightarrow> string \<Rightarrow> (go_error, unit) outcome" where
  "CheckAPICallQuota cfg date r tenantID =
     (case cfg tenantID of
        None \<Rightarrow> Ok ()
      | Some quotas \<Rightarrow>
          if MaxAPICallsPerDay quotas \<le> 0 then Ok ()
          else (case rd_Get ks_client r (getAPIQuotaKey date (ks_now r) tenantID) of
                  Panic \<Rightarrow> Panic
                | Fail err \<Rightarrow> if err = redis_Nil then Ok () else Fail (Wrapf ''failed to get api usage'' err)
                | Ok countStr \<Rightarrow>
                    (let count = (case countStr of Text s \<Rightarrow> (case sscanf_int s of Some n \<Rightarrow> n | None \<Rightarrow> 0) | _ \<Rightarrow> 0)
                     in if count \<ge> MaxAPICallsPerDay quotas
                        then Fail (Wrapf ''max api calls reached'' ErrQuotaExceeded) else Ok ())))"

definition one_day :: int where "one_day = 86400000000000"

definition IncrementAPICall ::
    "(string \<rightharpoonup> TenantQuotas) \<Rightarrow> (time \<Rightarrow> string) \<Rightarrow> keyspace \<Rightarrow> string \<Rightarrow> (go_error, unit) outcome \<times> keyspace" where
  "IncrementAPICall cfg date r tenantID =
     (case cfg tenantID of
        None \<Rightarrow> (Ok (), r)
      | Some quotas \<Rightarrow>
          if MaxAPICallsPerDay quotas \<le> 0 then (Ok (), r)
          else let key = getAPIQuotaKey date (ks_now r) tenantID
               in case ks_incr r key of
                    (Panic, r1) \<Rightarrow> (Panic, r1)
                  | (Fail err, r1) \<Rightarrow> (Fail (Wrapf ''failed to increment api usage'' err), r1)
                  | (Ok newVal, r1) \<Rightarrow>
                      (let nextDay = (ks_now r + one_day) div one_day * one_day;
                           r2 = (if newVal = 1 then ks_expire r1 key (nextDay - ks_now r) else r1)
                       in (if newVal > MaxAPICallsPerDay quotas
                           then Fail (Wrapf ''max api calls reached'' ErrQuotaExceeded) else Ok (), r2)))"

section \<open>What the counters guarantee\<close>

definition counter :: "keyspace \<Rightarrow> string \<Rightarrow> int \<Rightarrow> time \<Rightarrow> bool" where
  "counter r k n expiry \<longleftrightarrow> 1 \<le> n \<and> ks_strings r k = Some (Text (show_int n), Some expiry)"

lemma ks_incr_fresh: "ks_live r k = None \<Longrightarrow> ks_incr r k = (Ok 1, r\<lparr>ks_strings := (ks_strings r)(k \<mapsto> (Text (show_int 1), None))\<rparr>)"
  by (simp add: ks_incr_def)

lemma ks_incr_counter:
  assumes "counter r k n e" and "ks_now r < e" and "n < 2 ^ 63 - 1"
  shows "ks_incr r k = (Ok (n + 1), r\<lparr>ks_strings := (ks_strings r)(k \<mapsto> (Text (show_int (n + 1)), Some e))\<rparr>)"
  using assms sscanf_show_int [of n] by (simp add: counter_def ks_incr_def ks_live_def)

lemma counter_now [simp]: "counter (r\<lparr>ks_now := t\<rparr>) k n e = counter r k n e"
  by (simp add: counter_def)

lemma ks_expire_fresh:
  "0 < ttl \<Longrightarrow> counter (ks_expire (r\<lparr>ks_strings := (ks_strings r)(k \<mapsto> (Text (show_int 1), None))\<rparr>) k ttl) k 1 (ks_now r + ttl)"
  by (simp add: counter_def ks_expire_def ks_live_def)

text \<open>A sequence of requests with the same key at the given times.\<close>

fun rate_run :: "keyspace \<Rightarrow> string \<Rightarrow> int \<Rightarrow> int \<Rightarrow> time list \<Rightarrow> (go_error, int) outcome list" where
  "rate_run r key limit window [] = []"
| "rate_run r key limit window (t # ts) =
     (case redisRateLimitScript (r\<lparr>ks_now := t\<rparr>) key limit window of
        (res, r') \<Rightarrow> res # rate_run r' key limit window ts)"

lemma rate_run_counting:
  assumes "counter r key n e" and "\<forall>t\<in>set ts. t < e" and "n + int (length ts) < 2 ^ 63"
  shows "rate_run r key limit window ts =
    map (\<lambda>i. Ok (if n + 1 + int i > limit then 0 else 1)) [0..<length ts]"
  using assms
proof (induction ts arbitrary: r n)
  case (Cons t ts)
  have c: "counter (r\<lparr>ks_now := t\<rparr>) key n e" using Cons.prems(1) by simp
  let ?r = "(r\<lparr>ks_now := t\<rparr>)\<lparr>ks_strings := (ks_strings (r\<lparr>ks_now := t\<rparr>))(key \<mapsto> (Text (show_int (n + 1)), Some e))\<rparr>"
  have i: "ks_incr (r\<lparr>ks_now := t\<rparr>) key = (Ok (n + 1), ?r)"
    using Cons.prems by (intro ks_incr_counter [OF c]) auto
  have n: "1 \<le> n" using Cons.prems(1) by (simp add: counter_def)
  then have c': "counter ?r key (n + 1) e" by (simp add: counter_def)
  have "rate_run ?r key limit window ts = map (\<lambda>i. Ok (if n + 1 + 1 + int i > limit then 0 else 1)) [0..<length ts]"
    using Cons.prems by (intro Cons.IH [OF c']) auto
  with i n show ?case
    by (simp add: redisRateLimitScript_def Let_def upt_conv_Cons map_Suc_upt [symmetric] comp_def algebra_simps
        del: upt_Suc)
qed simp


definition empty_space :: keyspace where
  "empty_space = \<lparr>ks_now = 0, ks_strings = Map.empty, ks_zsets = (\<lambda>_. [])\<rparr>"

text \<open>The API calls of a tenant, each counted with \<^verbatim>\<open>IncrementAPICall\<close>.\<close>

fun quota_run ::
    "(string \<rightharpoonup> TenantQuotas) \<Rightarrow> (time \<Rightarrow> string) \<Rightarrow> keyspace \<Rightarrow> string \<Rightarrow> time list \<Rightarrow> (go_error, unit) outcome list" where
  "quota_run cfg date r tenantID [] = []"
| "quota_run cfg date r tenantID (t # ts) =
     (case IncrementAPICall cfg date (r\<lparr>ks_now := t\<rparr>) tenantID of
        (res, r') \<Rightarrow> res # quota_run cfg date r' tenantID ts)"

definition over_quota :: "(go_error, unit) outcome" where
  "over_quota = Fail (Wrapf ''max api calls reached'' ErrQuotaExceeded)"

lemma quota_run_counting:
  assumes "cfg tenantID = Some q" "0 < MaxAPICallsPerDay q" "counter r (getAPIQuotaKey date td tenantID) n e"
    and "\<forall>t\<in>set ts. t < e \<and> date t = date td" and "n + int (length ts) < 2 ^ 63"
  shows "quota_run cfg date r tenantID ts =
    map (\<lambda>i. if n + 1 + int i > MaxAPICallsPerDay q then over_quota else Ok ()) [0..<length ts]"
  using assms(3-5)
proof (induction ts arbitrary: r n)
  case (Cons t ts)
  let ?k = "getAPIQuotaKey date td tenantID"
  have k: "getAPIQuotaKey date t tenantID = ?k" using Cons.prems(2) by (simp add: getAPIQuotaKey_def)
  have c: "counter (r\<lparr>ks_now := t\<rparr>) ?k n e" using Cons.prems(1) by simp
  let ?r = "(r\<lparr>ks_now := t\<rparr>)\<lparr>ks_strings := (ks_strings (r\<lparr>ks_now := t\<rparr>))(?k \<mapsto> (Text (show_int (n + 1)), Some e))\<rparr>"
  have i: "ks_incr (r\<lparr>ks_now := t\<rparr>) ?k = (Ok (n + 1), ?r)"
    using Cons.prems by (intro ks_incr_counter [OF c]) auto
  have n: "1 \<le> n" using Cons.prems(1) by (simp add: counter_def)
  then have c': "counter ?r ?k (n + 1) e" by (simp add: counter_def)
  have "quota_run cfg date ?r tenantID ts =
      map (\<lambda>i. if n + 1 + 1 + int i > MaxAPICallsPerDay q then over_quota else Ok ()) [0..<length ts]"
    using Cons.prems by (intro Cons.IH [OF c']) auto
  with i n k assms(1,2) show ?case
    by (simp add: IncrementAPICall_def over_quota_def Let_def upt_conv_Cons map_Suc_upt [symmetric] comp_def algebra_simps
        del: upt_Suc)
qed simp

text \<open>
  A tenant with a daily limit gets exactly that many calls of a day through: the counter starts with the
  first call of the day and lives until midnight UTC.
\<close>

theorem quota_day:
  assumes "cfg tenantID = Some q" and "0 < MaxAPICallsPerDay q"
    and "ks_live (r\<lparr>ks_now := t\<rparr>) (getAPIQuotaKey date t tenantID) = None"
    and "\<forall>t'\<in>set ts. t' div one_day = t div one_day \<and> date t' = date t" and "int (length ts) < 2 ^ 63 - 1"
  shows "quota_run cfg date r tenantID (t # ts) =
    map (\<lambda>i. if int i < MaxAPICallsPerDay q then Ok () else over_quota) [0..<Suc (length ts)]"
proof -
  let ?k = "getAPIQuotaKey date t tenantID" and ?r = "r\<lparr>ks_now := t\<rparr>"
  let ?r1 = "?r\<lparr>ks_strings := (ks_strings ?r)(?k \<mapsto> (Text (show_int 1), None))\<rparr>"
  let ?e = "(t + one_day) div one_day * one_day" and ?r2 = "ks_expire ?r1 ?k ((t + one_day) div one_day * one_day - t)"
  have d: "(t + one_day) div one_day = t div one_day + 1" by (simp add: one_day_def)
  have lt: "t' < ?e" if "t' div one_day = t div one_day" for t'
  proof -
    have "t' < (t' div one_day + 1) * one_day"
      using pos_mod_bound [of one_day t'] div_mult_mod_eq [of t' one_day] by (simp add: one_day_def algebra_simps)
    with that d show ?thesis by simp
  qed
  have "counter ?r2 ?k 1 ?e" using ks_expire_fresh [of "?e - t" ?r ?k] lt [of t] by simp
  then have "quota_run cfg date ?r2 tenantID ts =
      map (\<lambda>i. if 1 + 1 + int i > MaxAPICallsPerDay q then over_quota else Ok ()) [0..<length ts]"
    using assms lt by (intro quota_run_counting [where cfg = cfg and tenantID = tenantID and td = t and e = ?e]) auto
  moreover have "IncrementAPICall cfg date ?r tenantID = (Ok (), ?r2)"
    using ks_incr_fresh [OF assms(3)] assms(1,2) by (simp add: IncrementAPICall_def Let_def)
  ultimately show ?thesis
    using assms(2) by (auto simp: upt_conv_Cons map_Suc_upt [symmetric] comp_def simp del: upt_Suc)
qed

theorem quota_day_witness:
  "quota_run [''acme'' \<mapsto> \<lparr>MaxUsers = 0, MaxApplications = 0, MaxAPICallsPerDay = 2\<rparr>] (\<lambda>_. ''2024-01-01'') empty_space ''acme''
     [0, 5, 7] = [Ok (), Ok (), over_quota]"
proof -
  have "quota_run [''acme'' \<mapsto> \<lparr>MaxUsers = 0, MaxApplications = 0, MaxAPICallsPerDay = 2\<rparr>] (\<lambda>_. ''2024-01-01'') empty_space ''acme''
     (0 # [5, 7]) = map (\<lambda>i. if int i < MaxAPICallsPerDay \<lparr>MaxUsers = 0, MaxApplications = 0, MaxAPICallsPerDay = 2\<rparr>
        then Ok () else over_quota) [0..<Suc (length [5 :: int, 7])]"
    by (rule quota_day) (simp_all add: empty_space_def ks_live_def one_day_def)
  then show ?thesis by (simp add: upt_rec)
qed
end
