(* ===== verification/Middleware.thy ===== *)
theory Middleware
  imports Rate_Limit OAuth Session_Manager Policy_Engine "HOL-Library.Multiset"
begin

text \<open>
  HTTP middleware (\<^verbatim>\<open>internal/server/middleware\<close>, \<^verbatim>\<open>internal/server/http/middleware\<close>), tenant scoping
  (\<^verbatim>\<open>internal/multitenant\<close>, \<^verbatim>\<open>tenant_middleware.go\<close>) and the security automator with its actions
  (\<^verbatim>\<open>internal/security\<close>). A middleware either answers the request or passes it, with its context, to the
  next handler. A key of a Go context has a type and a value: the type is written with its package. Risk
  scores are an arbitrary linear order.
\<close>

section \<open>Requests\<close>

datatype ctx_value = CString string | CStrings "string list" | CAPIKey APIKey

type_synonym ctx = "string \<times> string \<rightharpoonup> ctx_value"

record request =
  rq_method :: string
  rq_path :: string
  rq_header :: "string \<Rightarrow> string"
  rq_cookie :: "string \<Rightarrow> string option"
  rq_form :: "string \<Rightarrow> string"
  rq_remote :: string
  rq_ctx :: ctx

datatype handled = Pass request | Reply nat string

text \<open>The keys: \<^verbatim>\<open>contextKey\<close> of either middleware package, and the keys of \<^verbatim>\<open>pkg/types\<close>, which have a type of their own.\<close>

definition UserIDContextKey :: "string \<times> string" where "UserIDContextKey = (''server/middleware.contextKey'', ''user_id'')"
definition GroupsContextKey :: "string \<times> string" where "GroupsContextKey = (''server/middleware.contextKey'', ''groups'')"
definition userIDKey :: "string \<times> string" where "userIDKey = (''server/http/middleware.contextKey'', ''user_id'')"
definition csrfTokenContextKey :: "string \<times> string" where
  "csrfTokenContextKey = (''server/http/middleware.csrfContextKey'', ''csrf_token'')"
definition ContextKeyAppID :: "string \<times> string" where "ContextKeyAppID = (''types.ContextKey'', ''AppID'')"
definition ContextKeyAPIKey :: "string \<times> string" where "ContextKeyAPIKey = (''types.ContextKey'', ''APIKey'')"
definition tenantKey :: "string \<times> string" where "tenantKey = (''multitenant.tenantKey'', [])"

lemmas context_keys = UserIDContextKey_def GroupsContextKey_def userIDKey_def csrfTokenContextKey_def ContextKeyAppID_def
  ContextKeyAPIKey_def tenantKey_def

definition with_value :: "request \<Rightarrow> string \<times> string \<Rightarrow> ctx_value \<Rightarrow> request" where
  "with_value r k v = r\<lparr>rq_ctx := (rq_ctx r)(k \<mapsto> v)\<rparr>"

definition ctx_string :: "request \<Rightarrow> string \<times> string \<Rightarrow> string option" where
  "ctx_string r k = (case rq_ctx r k of Some (CString s) \<Rightarrow> Some s | _ \<Rightarrow> None)"

section \<open>Authentication\<close>

definition auth_Execute ::
    "(string \<Rightarrow> (go_error, gmap \<times> bool) outcome) \<Rightarrow> (string \<Rightarrow> (go_error, User) outcome) \<Rightarrow> request \<Rightarrow> (go_error, handled) outcome" where
  "auth_Execute parse getUser r =
     (let authHeader = rq_header r ''Authorization'' in
      if authHeader = [] then Ok (Reply 401 ''Unauthorized'')
      else let parts = split_on CHR '' '' authHeader in
      if length parts \<noteq> 2 \<or> ToLower (parts ! 0) \<noteq> ''bearer'' then Ok (Reply 401 ''Unauthorized'')
      else case cm_ValidateJWT parse (parts ! 1) of
        Panic \<Rightarrow> Panic
      | Fail _ \<Rightarrow> Ok (Reply 401 ''Unauthorized'')
      | Ok claims \<Rightarrow>
          (case claims ''sub'' of
             Some (VString sub) \<Rightarrow>
               (case getUser sub of
                  Panic \<Rightarrow> Panic
                | Fail _ \<Rightarrow> Ok (Reply 401 ''Unauthorized'')
                | Ok user \<Rightarrow>
                    Ok (Pass (with_value (with_value r UserIDContextKey (CString sub)) GroupsContextKey
                          (CStrings (map GName (UGroups user))))))
           | _ \<Rightarrow> Panic))"

definition writeUnauthorized :: "string \<Rightarrow> handled" where
  "writeUnauthorized msg = Reply 401 (''{\"code\":\"unauthorized\", \"message\":\"'' @ msg @ ''\"}'')"

definition apikey_Execute ::
    "'d APIKeyRepo \<Rightarrow> (string \<Rightarrow> string \<Rightarrow> bool) \<Rightarrow> time \<Rightarrow> 'd \<Rightarrow> request \<Rightarrow> (go_error, handled) outcome" where
  "apikey_Execute repo verify now s r =
     (let apiKeyHeader = rq_header r ''X-API-Key'' in
      if apiKeyHeader = [] then Ok (writeUnauthorized ''Missing API Key'')
      else case ValidateKey repo verify now s apiKeyHeader of
        Panic \<Rightarrow> Panic
      | Fail _ \<Rightarrow> Ok (writeUnauthorized ''Invalid API Key'')
      | Ok apiKey \<Rightarrow>
          Ok (Pass (with_value (with_value r ContextKeyAppID (CString (KAppID apiKey))) ContextKeyAPIKey (CAPIKey apiKey))))"

section \<open>Rate limiting\<close>

text \<open>\<^verbatim>\<open>ip[:strings.LastIndex(ip, ":")]\<close>.\<close>

definition before_last_colon :: "string \<Rightarrow> string" where
  "before_last_colon s =
     (if CHR '':'' \<in> set s then rev (tl (dropWhile (\<lambda>c. c \<noteq> CHR '':'') (rev s))) else s)"

definition rate_key :: "request \<Rightarrow> string \<times> string" where
  "rate_key r =
     (case ctx_string r ContextKeyAppID of
        Some (c # cs) \<Rightarrow> (''ratelimit:app:'' @ c # cs, c # cs)
      | _ \<Rightarrow> (''ratelimit:ip:'' @ before_last_colon (rq_remote r), []))"

text \<open>
  \<open>policy\<close> looks up the policy of an application, \<open>None\<close> standing for a limiter without the key service;
  \<open>eval\<close> runs the script.
\<close>

definition rate_Execute ::
    "(string \<Rightarrow> (go_error, RateLimitPolicy option) outcome) option \<Rightarrow> int \<Rightarrow> int
      \<Rightarrow> ('r \<Rightarrow> string \<Rightarrow> int \<Rightarrow> int \<Rightarrow> (go_error, int) outcome \<times> 'r) \<Rightarrow> 'r \<Rightarrow> request \<Rightarrow> (go_error, handled) outcome \<times> 'r" where
  "rate_Execute policy defaultLimit defaultWindow eval s r =
     (case rate_key r of (key, appID) \<Rightarrow>
        (case (if appID = [] then Ok None else case policy of None \<Rightarrow> Ok None | Some f \<Rightarrow> f appID) of
           Panic \<Rightarrow> (Panic, s)
         | looked \<Rightarrow>
             (let (limit, window) = (case looked of Ok (Some p) \<Rightarrow> (RLLimit p, RLWindow p) | _ \<Rightarrow> (defaultLimit, defaultWindow))
              in case eval s key limit window of
                   (Panic, s') \<Rightarrow> (Panic, s')
                 | (Fail _, s') \<Rightarrow> (Ok (Pass r), s')
                 | (Ok allowed, s') \<Rightarrow>
                     (Ok (if allowed = 0 then Reply 429 ''too_many_requests'' else Pass r), s'))))"

section \<open>Blocked addresses\<close>

definition blacklist_key :: "string \<Rightarrow> string" where
  "blacklist_key ip = ''security:blacklist:ip:'' @ ip"

definition IPBlacklistMiddleware :: "'r RedisClient \<Rightarrow> 'r \<Rightarrow> request \<Rightarrow> (go_error, handled) outcome" where
  "IPBlacklistMiddleware client s r =
     (case rd_Exists client s (blacklist_key (rq_remote r)) of
        Panic \<Rightarrow> Panic
      | Fail _ \<Rightarrow> Ok (Pass r)
      | Ok n \<Rightarrow> Ok (if n > 0 then Reply 403 ''Forbidden'' else Pass r))"

section \<open>Cross-site request forgery\<close>

definition csrfCookieName :: string where "csrfCookieName = ''_csrf''"
definition csrfHeaderName :: string where "csrfHeaderName = ''X-CSRF-Token''"
definition csrfFormName :: string where "csrfFormName = ''_csrf''"

definition generateCSRFToken :: "bytes \<Rightarrow> string" where
  "generateCSRFToken bs = b64url_encode bs"

text \<open>\<open>bs\<close> are the random bytes of a new token; the token of the answer's cookie is returned with the result.\<close>

definition CSRFMiddleware :: "bytes \<Rightarrow> request \<Rightarrow> handled \<times> string option" where
  "CSRFMiddleware bs r =
     (if take 5 (rq_path r) = ''/api/'' then (Pass r, None)
      else if rq_method r \<in> {''GET'', ''HEAD'', ''OPTIONS''} then
        (let token = generateCSRFToken bs in (Pass (with_value r csrfTokenContextKey (CString token)), Some token))
      else case rq_cookie r csrfCookieName of
        None \<Rightarrow> (Reply 403 ''forbidden'', None)
      | Some cookieToken \<Rightarrow>
          (let formToken = (if rq_form r csrfFormName = [] then rq_header r csrfHeaderName else rq_form r csrfFormName)
           in if cookieToken = [] \<or> formToken = [] \<or> cookieToken \<noteq> formToken then (Reply 403 ''forbidden'', None)
              else (Pass r, None)))"

definition GetCSRFToken :: "request \<Rightarrow> string" where
  "GetCSRFToken r = (case ctx_string r csrfTokenContextKey of Some t \<Rightarrow> t | None \<Rightarrow> [])"

section \<open>Permissions\<close>

definition RequirePermission ::
    "(EvaluationRequest \<Rightarrow> (go_error, bool) outcome) \<Rightarrow> string \<Rightarrow> request \<Rightarrow> (go_error, handled) outcome" where
  "RequirePermission evaluator requiredPermission r =
     (case ctx_string r userIDKey of
        Some (c # cs) \<Rightarrow>
          (let parts = split_on CHR '':'' requiredPermission in
           if length parts \<noteq> 2 then Ok (Reply 500 ''Invalid permission format'')
           else case evaluator \<lparr>ReqSubjectID = c # cs, ReqAction = parts ! 1, ReqResource = parts ! 0, ReqAttrs = []\<rparr> of
                  Panic \<Rightarrow> Panic
                | Fail _ \<Rightarrow> Ok (Reply 500 ''Policy evaluation error'')
                | Ok allowed \<Rightarrow> Ok (if \<not> allowed then Reply 403 ''Permission denied'' else Pass r))
      | _ \<Rightarrow> Ok (Reply 401 ''Unauthorized''))"

definition WithUserID :: "request \<Rightarrow> string \<Rightarrow> request" where
  "WithUserID r userID = with_value r userIDKey (CString userID)"

section \<open>Tenants\<close>

definition WithTenantID :: "request \<Rightarrow> string \<Rightarrow> request" where
  "WithTenantID r tenantID = with_value r tenantKey (CString tenantID)"

definition GetTenantID :: "request \<Rightarrow> string option" where
  "GetTenantID r = ctx_string r tenantKey"

definition MustGetTenantID :: "request \<Rightarrow> (go_error, string) outcome" where
  "MustGetTenantID r = (case GetTenantID r of None \<Rightarrow> Panic | Some t \<Rightarrow> Ok t)"

definition tenant_Middleware :: "request \<Rightarrow> handled" where
  "tenant_Middleware r =
     (let tenantID = rq_header r ''X-Tenant-ID'' in if tenantID = [] then Pass r else Pass (WithTenantID r tenantID))"

text \<open>
  The callback before a database statement: the tenant condition that it adds, for the tenant of the
  statement's context, the field names of the model (\<open>None\<close> without one) and the table.
\<close>

definition TenantScopeMiddleware :: "string option \<Rightarrow> string list option \<Rightarrow> string \<Rightarrow> string option" where
  "TenantScopeMiddleware tenant schema tbl =
     (case tenant of
        None \<Rightarrow> None
      | Some tenantID \<Rightarrow>
          (case schema of
             Some flds \<Rightarrow> if ''TenantID'' \<in> set flds \<or> ''tenant_id'' \<in> set flds then Some tenantID else None
           | None \<Rightarrow> if tbl \<in> {''users'', ''groups'', ''applications''} then Some tenantID else None))"

text \<open>The statements that switch row-level security on, up to the first that fails.\<close>

definition rls_statements :: "string \<Rightarrow> (string \<times> string) list" where
  "rls_statements tbl =
     [(''ALTER TABLE '' @ tbl @ '' ENABLE ROW LEVEL SECURITY'', ''failed to enable RLS on '' @ tbl),
      (''DROP POLICY IF EXISTS '' @ tbl @ ''_tenant_isolation ON '' @ tbl, ''failed to drop existing policy on '' @ tbl),
      (''CREATE POLICY '' @ tbl @ ''_tenant_isolation ON '' @ tbl @
         '' USING (tenant_id = current_setting('' @ quoted ''app.current_tenant'' @ ''))'',
       ''failed to create policy on '' @ tbl)]"

fun exec_all :: "('d \<Rightarrow> string \<Rightarrow> (go_error, unit) outcome \<times> 'd) \<Rightarrow> 'd \<Rightarrow> (string \<times> string) list \<Rightarrow> (go_error, unit) outcome \<times> 'd" where
  "exec_all ex d [] = (Ok (), d)"
| "exec_all ex d ((stmt, failure) # rest) =
     (case ex d stmt of
        (Panic, d') \<Rightarrow> (Panic, d')
      | (Fail err, d') \<Rightarrow> (Fail (Wrapf failure err), d')
      | (Ok _, d') \<Rightarrow> exec_all ex d' rest)"

definition EnableRowLevelSecurity ::
    "('d \<Rightarrow> string \<Rightarrow> (go_error, unit) outcome \<times> 'd) \<Rightarrow> 'd \<Rightarrow> (go_error, unit) outcome \<times> 'd" where
  "EnableRowLevelSecurity ex d = exec_all ex d (concat (map rls_statements [''users'', ''groups'', ''applications'']))"

section \<open>The security automator\<close>

record 'f ActionInput =
  AIUserID :: string
  AIIP :: string
  AISessionID :: string
  AIRiskScore :: 'f

record 'f ResponsePolicy =
  RPName :: string
  RPThreshold :: 'f
  RPActionIDs :: "string list"
  RPIsBlocking :: bool

text \<open>An action over the state that the actions share; its errors are logged.\<close>

record ('f, 's) SecurityAction =
  SAID :: string
  SAExecute :: "'f ActionInput \<Rightarrow> 's \<Rightarrow> (go_error, unit) outcome \<times> 's"

definition RegisterAction :: "(string \<rightharpoonup> ('f, 's) SecurityAction) \<Rightarrow> ('f, 's) SecurityAction \<Rightarrow> (string \<rightharpoonup> ('f, 's) SecurityAction)" where
  "RegisterAction registry action = registry(SAID action \<mapsto> action)"

definition triggered :: "('f :: linorder) ResponsePolicy list \<Rightarrow> 'f ActionInput \<Rightarrow> 'f ResponsePolicy list" where
  "triggered policies input = filter (\<lambda>p. AIRiskScore input \<ge> RPThreshold p) policies"

definition actions_to_run ::
    "(string \<rightharpoonup> ('f :: linorder, 's) SecurityAction) \<Rightarrow> 'f ResponsePolicy list \<Rightarrow> 'f ActionInput \<Rightarrow> ('f, 's) SecurityAction list" where
  "actions_to_run registry policies input = concat (map (\<lambda>p. List.map_filter registry (RPActionIDs p)) (triggered policies input))"

fun run_actions :: "'f ActionInput \<Rightarrow> ('f, 's) SecurityAction list \<Rightarrow> 's \<Rightarrow> bool \<times> 's" where
  "run_actions input [] s = (True, s)"
| "run_actions input (a # as) s =
     (case SAExecute a input s of (Panic, s') \<Rightarrow> (False, s') | (_, s') \<Rightarrow> run_actions input as s')"

text \<open>The actions run concurrently: \<open>order\<close> is the sequence in which they take effect.\<close>

definition automator_Execute ::
    "(('f, 's) SecurityAction list \<Rightarrow> ('f, 's) SecurityAction list) \<Rightarrow> (string \<rightharpoonup> ('f :: linorder, 's) SecurityAction)
      \<Rightarrow> 'f ResponsePolicy list \<Rightarrow> 'f ActionInput \<Rightarrow> 's \<Rightarrow> (go_error, bool) outcome \<times> 's" where
  "automator_Execute order registry policies input s =
     (let isBlocking = list_ex RPIsBlocking (triggered policies input);
          actions = actions_to_run registry policies input
      in if actions = [] then (Ok False, s)
         else case run_actions input (order actions) s of
           (False, s') \<Rightarrow> (Panic, s')
         | (True, s') \<Rightarrow> (Ok isBlocking, s'))"

definition one_hour_ns :: int where "one_hour_ns = 3600000000000"

definition BlockIP_Execute :: "'r RedisClient \<Rightarrow> 'f ActionInput \<Rightarrow> 'r \<Rightarrow> (go_error, unit) outcome \<times> 'r" where
  "BlockIP_Execute client input r =
     (if AIIP input = [] then (Fail (Errorf ''IP address is required for BlockIPAction''), r)
      else rd_SetEx client r (blacklist_key (AIIP input)) (Text ''1'') one_hour_ns)"

definition KillSession_Execute :: "'r RedisClient \<Rightarrow> 'f ActionInput \<Rightarrow> 'r \<Rightarrow> (go_error, unit) outcome \<times> 'r" where
  "KillSession_Execute client input r =
     (if AIUserID input = [] then (Fail (Errorf ''UserID is required for KillSessionAction''), r)
      else case RevokeAllUserSessions client r (AIUserID input) of
             (Fail err, r') \<Rightarrow> (Fail (Wrapf ''failed to kill sessions for user'' err), r')
           | (res, r') \<Rightarrow> (res, r'))"

text \<open>\<open>update\<close> sets the status of the rows with the identifier and returns how many there were.\<close>

definition LockUser_Execute ::
    "('d \<Rightarrow> string \<Rightarrow> UserStatus \<Rightarrow> (go_error, int) outcome \<times> 'd) \<Rightarrow> 'f ActionInput \<Rightarrow> 'd \<Rightarrow> (go_error, unit) outcome \<times> 'd" where
  "LockUser_Execute update input d =
     (if AIUserID input = [] then (Fail (Errorf ''UserID is required for LockUserAction''), d)
      else case update d (AIUserID input) UserStatusLocked of
             (Panic, d') \<Rightarrow> (Panic, d')
           | (Fail err, d') \<Rightarrow> (Fail (Wrapf ''failed to lock user'' err), d')
           | (Ok n, d') \<Rightarrow> if n = 0 then (Fail (Errorf ''user not found for locking''), d') else (Ok (), d'))"

section \<open>Properties\<close>

text \<open>
  C34: A state-changing request outside the API passes the CSRF check exactly when its cookie and its form
  field (or, without one, its header) carry the same non-empty token.
\<close>

theorem CSRF_double_submit:
  assumes "rq_method r \<notin> {''GET'', ''HEAD'', ''OPTIONS''}" and "take 5 (rq_path r) \<noteq> ''/api/''"
  shows "CSRFMiddleware bs r = (Pass r, None) \<longleftrightarrow>
    (\<exists>token. token \<noteq> [] \<and> rq_cookie r csrfCookieName = Some token \<and>
       (rq_form r csrfFormName = token \<or> rq_form r csrfFormName = [] \<and> rq_header r csrfHeaderName = token))"
  using assms by (auto simp: CSRFMiddleware_def Let_def split: option.splits)

definition demo_request :: request where
  "demo_request = \<lparr>rq_method = ''POST'', rq_path = ''/login'', rq_header = (\<lambda>_. []), rq_cookie = [''_csrf'' \<mapsto> ''t''],
     rq_form = (\<lambda>f. if f = ''_csrf'' then ''t'' else []), rq_remote = ''10.0.0.1:5000'', rq_ctx = Map.empty\<rparr>"

theorem CSRF_double_submit_witness: "CSRFMiddleware [] demo_request = (Pass demo_request, None)"
  by (subst CSRF_double_submit) (simp_all add: demo_request_def csrfCookieName_def csrfFormName_def)

text \<open>
  The authentication middleware lets a request through exactly when it carries a bearer token that
  validates and names a user that the identity service finds; the user's identifier and groups are then
  in the context.
\<close>

theorem auth_Execute_pass:
  "auth_Execute parse getUser r = Ok (Pass r') \<longleftrightarrow>
     (\<exists>scheme token claims sub user. split_on CHR '' '' (rq_header r ''Authorization'') = [scheme, token] \<and>
        rq_header r ''Authorization'' \<noteq> [] \<and> ToLower scheme = ''bearer'' \<and> parse token = Ok (claims, True) \<and>
        claims ''sub'' = Some (VString sub) \<and> getUser sub = Ok user \<and>
        r' = with_value (with_value r UserIDContextKey (CString sub)) GroupsContextKey (CStrings (map GName (UGroups user))))"
  (is "?l \<longleftrightarrow> ?r")
proof (cases "\<exists>scheme token. split_on CHR '' '' (rq_header r ''Authorization'') = [scheme, token]")
  case True
  then show ?thesis
    by (auto simp: auth_Execute_def cm_ValidateJWT_def Let_def
        split: outcome.splits option.splits gvalue.splits prod.splits if_splits)
next
  case False
  then have "length (split_on CHR '' '' (rq_header r ''Authorization'')) \<noteq> 2"
    by (auto simp: length_Suc_conv numeral_2_eq_2)
  with False show ?thesis by (auto simp: auth_Execute_def Let_def)
qed

text \<open>
  The permission check reads the user from a key of its own package, which the authentication
  middleware does not set: behind it every request is turned away, whatever the policy says.
\<close>

theorem RequirePermission_behind_auth:
  assumes "auth_Execute parse getUser r = Ok (Pass r')" and "rq_ctx r userIDKey = None"
  shows "RequirePermission evaluator permission r' = Ok (Reply 401 ''Unauthorized'')"
proof -
  from assms(1) obtain u gs where "r' = with_value (with_value r UserIDContextKey (CString u)) GroupsContextKey (CStrings gs)"
    by (auto simp: auth_Execute_def Let_def split: if_splits outcome.splits option.splits gvalue.splits)
  with assms(2) show ?thesis
    by (simp add: RequirePermission_def ctx_string_def with_value_def context_keys)
qed
definition bearer_request :: request where
  "bearer_request = demo_request\<lparr>rq_header := (\<lambda>h. if h = ''Authorization'' then ''Bearer tok'' else [])\<rparr>"

theorem RequirePermission_behind_auth_witness:
  "\<exists>r'. auth_Execute (\<lambda>_. Ok ([''sub'' \<mapsto> VString ''u1''], True)) (\<lambda>_. Ok zero_user) bearer_request = Ok (Pass r') \<and>
     RequirePermission (\<lambda>_. Ok True) ''user:read'' r' = Ok (Reply 401 ''Unauthorized'')"
proof -
  have "\<exists>r'. auth_Execute (\<lambda>_. Ok ([''sub'' \<mapsto> VString ''u1''], True)) (\<lambda>_. Ok zero_user) bearer_request = Ok (Pass r')"
    by (simp add: auth_Execute_def bearer_request_def cm_ValidateJWT_def lower_char_def char_of_def bit_0)
  moreover have "rq_ctx bearer_request userIDKey = None" by (simp add: bearer_request_def demo_request_def)
  ultimately show ?thesis using RequirePermission_behind_auth by blast
qed

text \<open>
  A blocked address is compared with \<^verbatim>\<open>RemoteAddr\<close>, which carries the port: blocking an address changes
  nothing for a request from any port of it.
\<close>

theorem BlockIP_ineffective:
  assumes "BlockIP_Execute ks_client input s = (Ok (), s')" and "rq_remote r = AIIP input @ '':'' @ port"
  shows "IPBlacklistMiddleware ks_client s' r = IPBlacklistMiddleware ks_client s r"
proof -
  have "AIIP input @ '':'' @ port \<noteq> AIIP input" by simp
  with assms show ?thesis
    by (auto simp: BlockIP_Execute_def one_hour_ns_def IPBlacklistMiddleware_def blacklist_key_def ks_live_put
        split: if_splits)
qed

definition demo_threat :: "nat ActionInput" where
  "demo_threat = \<lparr>AIUserID = ''u1'', AIIP = ''10.0.0.1'', AISessionID = [], AIRiskScore = 9\<rparr>"

theorem BlockIP_ineffective_witness:
  "IPBlacklistMiddleware ks_client (snd (BlockIP_Execute ks_client demo_threat empty_space)) demo_request =
     IPBlacklistMiddleware ks_client empty_space demo_request"
proof (rule BlockIP_ineffective)
  show "BlockIP_Execute ks_client demo_threat empty_space = (Ok (), snd (BlockIP_Execute ks_client demo_threat empty_space))"
    by (simp add: BlockIP_Execute_def demo_threat_def one_hour_ns_def)
  show "rq_remote demo_request = AIIP demo_threat @ '':'' @ ''5000''" by (simp add: demo_request_def demo_threat_def)
qed

text \<open>A blocking policy whose actions are not registered does not block.\<close>

theorem automator_blocking_lost:
  assumes "\<forall>p\<in>set policies. \<forall>i\<in>set (RPActionIDs p). registry i = None"
  shows "automator_Execute order registry policies input s = (Ok False, s)"
proof -
  have "List.map_filter registry (RPActionIDs p) = []" if "p \<in> set policies" for p
    using assms that by (induction "RPActionIDs p") (auto simp: List.map_filter_def filter_empty_conv)
  then have "actions_to_run registry policies input = []"
    by (auto simp: actions_to_run_def triggered_def)
  then show ?thesis by (simp add: automator_Execute_def)
qed

definition blocking_policy :: "nat ResponsePolicy" where
  "blocking_policy = \<lparr>RPName = ''p'', RPThreshold = 5, RPActionIDs = [''block_ip''], RPIsBlocking = True\<rparr>"

theorem automator_blocking_lost_witness:
  "automator_Execute id Map.empty [blocking_policy] demo_threat () = (Ok False, ())"
  by (rule automator_blocking_lost) simp

text \<open>With no action in the registry failing by a panic, a triggered policy with a known action blocks as configured.\<close>

lemma run_actions_True:
  assumes "\<And>a s. a \<in> set as \<Longrightarrow> fst (SAExecute a input s) \<noteq> Panic"
  shows "\<exists>s'. run_actions input as s = (True, s')"
  using assms
proof (induction as arbitrary: s)
  case (Cons a as)
  obtain res s1 where r: "SAExecute a input s = (res, s1)" by fastforce
  with Cons.prems(1) [of a s] have "res \<noteq> Panic" by auto
  moreover obtain s' where "run_actions input as s1 = (True, s')" using Cons by force
  ultimately show ?case using r by (cases res) auto
qed simp

lemma automator_blocks:
  assumes "p \<in> set policies" "RPIsBlocking p" "AIRiskScore input \<ge> RPThreshold p" "i \<in> set (RPActionIDs p)" "registry i = Some a"
    and "\<And>a s. a \<in> ran registry \<Longrightarrow> fst (SAExecute a input s) \<noteq> Panic" and "\<And>as. set (order as) = set as"
  shows "\<exists>s'. automator_Execute order registry policies input s = (Ok True, s')"
proof -
  let ?as = "actions_to_run registry policies input"
  have "a \<in> set (List.map_filter registry (RPActionIDs p))"
    using assms(4,5) by (force simp: List.map_filter_def)
  with assms(1,3) have "a \<in> set ?as" by (auto simp: actions_to_run_def triggered_def)
  then have ne: "?as \<noteq> []" by auto
  have "set ?as \<subseteq> ran registry"
    by (auto simp: actions_to_run_def List.map_filter_def ran_def)
  then obtain s' where "run_actions input (order ?as) s = (True, s')"
    using run_actions_True [of "order ?as" input s] assms(6,7) by blast
  with ne assms(1-3) show ?thesis by (auto simp: automator_Execute_def Let_def triggered_def list_ex_iff)
qed

text \<open>
  The tenant condition is never added to a statement on the model \<^verbatim>\<open>types.User\<close>, which has no tenant field,
  whatever tenant the context names.
\<close>

definition user_model_fields :: "string list" where
  "user_model_fields = [''ID'', ''Username'', ''Email'', ''Phone'', ''Password'', ''Status'', ''Attributes'', ''PrivacySettings'',
     ''Groups'', ''CreatedAt'', ''UpdatedAt'', ''DeletedAt'', ''LastLoginAt'', ''MergeHistory'', ''ExternalID'', ''SourceType'']"

lemma TenantScope_skips_users: "TenantScopeMiddleware tenant (Some user_model_fields) tbl = None"
  by (simp add: TenantScopeMiddleware_def user_model_fields_def split: option.split)

text \<open>Behind the key middleware the limiter counts per application, in front of it per address.\<close>

lemma rate_key_app:
  "apikey_Execute repo verify now s r = Ok (Pass r') \<Longrightarrow>
     \<exists>k. ValidateKey repo verify now s (rq_header r ''X-API-Key'') = Ok k \<and>
       (KAppID k \<noteq> [] \<longrightarrow> rate_key r' = (''ratelimit:app:'' @ KAppID k, KAppID k))"
  by (auto simp: apikey_Execute_def writeUnauthorized_def rate_key_def ctx_string_def with_value_def context_keys Let_def
      neq_Nil_conv split: if_splits outcome.splits)

text \<open>The limiter fails open: when the script cannot be run, the request is passed on.\<close>

lemma rate_Execute_fails_open:
  assumes "\<And>key limit window. \<exists>e. eval s key limit window = (Fail e, s)" and "\<And>f a. policy = Some f \<Longrightarrow> f a \<noteq> Panic"
  shows "rate_Execute policy dl dw eval s r = (Ok (Pass r), s)"
proof -
  obtain key appID where k: "rate_key r = (key, appID)" by fastforce
  let ?looked = "if appID = [] then Ok None else case policy of None \<Rightarrow> Ok None | Some f \<Rightarrow> f appID"
  obtain E where e: "\<And>l w. eval s key l w = (Fail (E l w), s)" using assms(1) [of key] by metis
  have "?looked \<noteq> Panic" using assms(2) by (auto split: option.split)
  then show ?thesis
    unfolding rate_Execute_def k prod.case by (cases ?looked) (simp_all add: Let_def e split_beta)
qed

end
