(* ===== verification/Session_Evaluation.thy ===== *)
theory Session_Evaluation
  imports Complex_Main Redis_Store "HOL-Library.Multiset" "HOL-Library.Sublist"
begin

text \<open>
  Continuous evaluation of sessions, \<^verbatim>\<open>internal/auth/session\<close>: the risk monitor, the rules, the evaluator, the
  actions, the session manager and the scheduler, with the risk data in Redis
  (\<^verbatim>\<open>internal/storage/redis/session_risk_store.go\<close>). The session repository, the event repository, the
  notifications, the location service and the reputation service are interfaces that no code of the
  repository implements, so they are arguments. Each reading of the clock has its own index in
  \<open>clock\<close>. Minutes and hours are exact fractions where the code rounds to floating point; the one
  product it computes with, 0.6 times a multiple of five, is exact after rounding.
\<close>

section \<open>Risk data in Redis\<close>

definition sessionRiskTTL :: int where "sessionRiskTTL = 1800000000000"

definition risk_key :: "string \<Rightarrow> string" where "risk_key sessionID = ''session:risk:'' @ sessionID"

definition zero_risk :: SessionRiskData where
  "zero_risk = \<lparr>RdSessionID = [], RdRiskScore = 0, RdRiskLevel = [], RdLastEvaluated = zero_time, RdSignals = [],
     RdActionsTaken = [], RdNextEvaluation = zero_time\<rparr>"

fun unmarshal_risk :: "redis_value \<Rightarrow> SessionRiskData option" where
  "unmarshal_risk (JsonRisk d) = Some d"
| "unmarshal_risk (Text _) = None"
| "unmarshal_risk _ = Some zero_risk"

definition risk_Set :: "'r RedisClient \<Rightarrow> 'r \<Rightarrow> string \<Rightarrow> SessionRiskData \<Rightarrow> (go_error, unit) outcome \<times> 'r" where
  "risk_Set client r sessionID data = rd_Set client r (risk_key sessionID) (JsonRisk data) sessionRiskTTL"

definition risk_Get :: "'r RedisClient \<Rightarrow> 'r \<Rightarrow> string \<Rightarrow> (go_error, SessionRiskData option) outcome" where
  "risk_Get client r sessionID =
     (case rd_Get client r (risk_key sessionID) of
        Panic \<Rightarrow> Panic
      | Fail err \<Rightarrow> if err = redis_Nil then Ok None else Fail err
      | Ok val \<Rightarrow>
          (case unmarshal_risk val of None \<Rightarrow> Fail (Errorf ''json'') | Some data \<Rightarrow> Ok (Some data)))"

text \<open>The record that is there, or a new one for the session.\<close>

definition risk_or_new :: "string \<Rightarrow> SessionRiskData option \<Rightarrow> SessionRiskData" where
  "risk_or_new sessionID data = (case data of None \<Rightarrow> zero_risk\<lparr>RdSessionID := sessionID\<rparr> | Some d \<Rightarrow> d)"

definition UpdateScore ::
    "'r RedisClient \<Rightarrow> time \<Rightarrow> 'r \<Rightarrow> string \<Rightarrow> int \<Rightarrow> string \<Rightarrow> (go_error, unit) outcome \<times> 'r" where
  "UpdateScore client now r sessionID score level =
     (case risk_Get client r sessionID of
        Panic \<Rightarrow> (Panic, r)
      | Fail err \<Rightarrow> (Fail err, r)
      | Ok data \<Rightarrow>
          risk_Set client r sessionID ((risk_or_new sessionID data)
            \<lparr>RdRiskScore := score, RdRiskLevel := level, RdLastEvaluated := now\<rparr>))"

definition AddSignal :: "'r RedisClient \<Rightarrow> 'r \<Rightarrow> string \<Rightarrow> string \<Rightarrow> (go_error, unit) outcome \<times> 'r" where
  "AddSignal client r sessionID signal =
     (case risk_Get client r sessionID of
        Panic \<Rightarrow> (Panic, r)
      | Fail err \<Rightarrow> (Fail err, r)
      | Ok data \<Rightarrow>
          (let d = risk_or_new sessionID data
           in risk_Set client r sessionID
                (if signal \<in> set (RdSignals d) then d else d\<lparr>RdSignals := RdSignals d @ [signal]\<rparr>)))"

definition ClearSignals :: "'r RedisClient \<Rightarrow> 'r \<Rightarrow> string \<Rightarrow> (go_error, unit) outcome \<times> 'r" where
  "ClearSignals client r sessionID =
     (case risk_Get client r sessionID of
        Panic \<Rightarrow> (Panic, r)
      | Fail err \<Rightarrow> (Fail err, r)
      | Ok None \<Rightarrow> (Ok (), r)
      | Ok (Some d) \<Rightarrow> risk_Set client r sessionID (d\<lparr>RdSignals := []\<rparr>))"

definition risk_Delete :: "'r RedisClient \<Rightarrow> 'r \<Rightarrow> string \<Rightarrow> (go_error, unit) outcome \<times> 'r" where
  "risk_Delete client r sessionID = rd_Del client r (risk_key sessionID)"

section \<open>Sessions\<close>

type_synonym SessionStatus = string

definition SessionStatusActive :: SessionStatus where "SessionStatusActive = ''active''"
definition SessionStatusDowngraded :: SessionStatus where "SessionStatusDowngraded = ''downgraded''"
definition SessionStatusStepUpRequired :: SessionStatus where "SessionStatusStepUpRequired = ''step_up_required''"
definition SessionStatusTerminated :: SessionStatus where "SessionStatusTerminated = ''terminated''"

lemmas session_statuses = SessionStatusActive_def SessionStatusDowngraded_def SessionStatusStepUpRequired_def
  SessionStatusTerminated_def

record Session =
  SsID :: string
  SsUserID :: string
  SsTenantID :: string
  SsDeviceID :: string
  SsStatus :: SessionStatus
  SsAuthLevel :: int
  SsRiskLevel :: string
  SsCurrentRiskScore :: int
  SsPermissions :: "string list"
  SsCurrentIP :: string
  SsPreviousIP :: string
  SsLastIPChangeAt :: time
  SsPreviousDeviceID :: string
  SsCreatedAt :: time
  SsExpiresAt :: time
  SsLastActivityAt :: time
  SsLastEvaluatedAt :: time
  SsLastStepUpAt :: time
  SsStepUpReason :: string
  SsStepUpRequiredAt :: time
  SsDowngradeReason :: string
  SsDowngradedAt :: time
  SsTerminateReason :: string
  SsTerminatedAt :: time
  SsUserAgent :: string
  SsDeviceFingerprint :: string

record SessionState =
  StStatus :: string
  StRiskLevel :: string
  StPermissions :: "string list"
  StAuthLevel :: int
  StLastEvaluatedAt :: time

definition GetState :: "Session \<Rightarrow> SessionState" where
  "GetState s = \<lparr>StStatus = SsStatus s, StRiskLevel = SsRiskLevel s, StPermissions = SsPermissions s,
     StAuthLevel = SsAuthLevel s, StLastEvaluatedAt = SsLastEvaluatedAt s\<rparr>"

definition IsExpired :: "time \<Rightarrow> Session \<Rightarrow> bool" where
  "IsExpired now s \<longleftrightarrow> now > SsExpiresAt s"

section \<open>The risk monitor\<close>

record IPReputation =
  RepScore :: int
  RepIsTor :: bool
  RepIsProxy :: bool

record GeoLocation =
  Latitude :: rat
  Longitude :: rat
  City :: string
  Country :: string

datatype signal_value =
    SvIPs string string
  | SvGeo rat rat
  | SvReputation IPReputation
  | SvMinutes rat

record RiskSignal =
  SgType :: string
  SgSeverity :: string
  SgValue :: signal_value
  SgDetectedAt :: time

record MonitorConfig =
  GeoJumpThresholdKm :: rat
  GeoJumpTimeMinutes :: int
  SuspiciousIPThreshold :: int

record RiskMonitor =
  rm_geoService :: "(string \<Rightarrow> GeoLocation option) option"
  rm_ipChecker :: "(string \<Rightarrow> IPReputation option) option"
  rm_config :: MonitorConfig

definition NewRiskMonitor ::
    "(string \<Rightarrow> GeoLocation option) option \<Rightarrow> (string \<Rightarrow> IPReputation option) option \<Rightarrow> MonitorConfig \<Rightarrow> RiskMonitor" where
  "NewRiskMonitor geo rep cfg =
     \<lparr>rm_geoService = geo, rm_ipChecker = rep,
      rm_config = \<lparr>GeoJumpThresholdKm = (if GeoJumpThresholdKm cfg = 0 then 500 else GeoJumpThresholdKm cfg),
        GeoJumpTimeMinutes = (if GeoJumpTimeMinutes cfg = 0 then 60 else GeoJumpTimeMinutes cfg),
        SuspiciousIPThreshold = (if SuspiciousIPThreshold cfg = 0 then 30 else SuspiciousIPThreshold cfg)\<rparr>\<rparr>"

definition in_minutes :: "int \<Rightarrow> rat" where "in_minutes d = of_int d / 60000000000"

definition in_hours :: "int \<Rightarrow> rat" where "in_hours d = of_int d / 3600000000000"

definition HaversineDistance :: "GeoLocation \<Rightarrow> GeoLocation \<Rightarrow> rat" where
  "HaversineDistance p1 p2 = 0"

definition checkIPChange :: "(nat \<Rightarrow> time) \<Rightarrow> Session \<Rightarrow> RiskSignal option" where
  "checkIPChange clock s =
     (if SsPreviousIP s \<noteq> [] \<and> SsPreviousIP s \<noteq> SsCurrentIP s
      then Some \<lparr>SgType = ''ip_change'', SgSeverity = ''low'', SgValue = SvIPs (SsPreviousIP s) (SsCurrentIP s),
                SgDetectedAt = clock 1\<rparr>
      else None)"

definition checkGeoJump :: "RiskMonitor \<Rightarrow> (nat \<Rightarrow> time) \<Rightarrow> Session \<Rightarrow> RiskSignal option" where
  "checkGeoJump m clock s =
     (if SsPreviousIP s = [] \<or> SsPreviousIP s = SsCurrentIP s then None
      else case rm_geoService m of
        None \<Rightarrow> None
      | Some loc \<Rightarrow>
          (case (loc (SsPreviousIP s), loc (SsCurrentIP s)) of
             (Some prevLoc, Some currLoc) \<Rightarrow>
               (let distance = HaversineDistance prevLoc currLoc;
                    diff = time_since (clock 2) (SsLastIPChangeAt s);
                    timeDiff = if in_minutes diff < 1 then 60000000000 else diff
                in if distance > GeoJumpThresholdKm (rm_config m)
                      \<and> in_minutes timeDiff < of_int (GeoJumpTimeMinutes (rm_config m))
                   then let speed = distance / in_hours timeDiff
                        in Some \<lparr>SgType = ''geo_jump'', SgSeverity = (if speed < 500 then ''medium'' else ''high''),
                                SgValue = SvGeo distance speed, SgDetectedAt = clock 3\<rparr>
                   else None)
           | _ \<Rightarrow> None))"

definition checkIPReputation :: "RiskMonitor \<Rightarrow> (nat \<Rightarrow> time) \<Rightarrow> string \<Rightarrow> RiskSignal option" where
  "checkIPReputation m clock ip =
     (case rm_ipChecker m of
        None \<Rightarrow> None
      | Some reputation_of \<Rightarrow>
          (case reputation_of ip of
             None \<Rightarrow> None
           | Some rep \<Rightarrow>
               if RepScore rep < SuspiciousIPThreshold (rm_config m)
               then Some \<lparr>SgType = ''suspicious_ip'',
                      SgSeverity = (if RepIsTor rep \<or> RepIsProxy rep \<or> RepScore rep < 15 then ''high'' else ''medium''),
                      SgValue = SvReputation rep, SgDetectedAt = clock 4\<rparr>
               else None))"

text \<open>The device service is looked up and its answer is not used; the lookup has no effect.\<close>

definition checkDeviceChange :: "Session \<Rightarrow> RiskSignal option" where
  "checkDeviceChange s = None"

definition checkInactivity :: "(nat \<Rightarrow> time) \<Rightarrow> Session \<Rightarrow> RiskSignal option" where
  "checkInactivity clock s =
     (let inactiveMinutes = in_minutes (time_since (clock 5) (SsLastActivityAt s))
      in if inactiveMinutes > 30
         then Some \<lparr>SgType = ''inactive'', SgSeverity = (if inactiveMinutes > 60 then ''medium'' else ''low''),
                   SgValue = SvMinutes inactiveMinutes, SgDetectedAt = clock 6\<rparr>
         else None)"

definition opt_list :: "'a option \<Rightarrow> 'a list" where
  "opt_list x = (case x of None \<Rightarrow> [] | Some v \<Rightarrow> [v])"

definition CollectSignals :: "RiskMonitor \<Rightarrow> (nat \<Rightarrow> time) \<Rightarrow> Session \<Rightarrow> RiskSignal list" where
  "CollectSignals m clock s =
     opt_list (checkIPChange clock s) @ opt_list (checkGeoJump m clock s)
     @ opt_list (checkIPReputation m clock (SsCurrentIP s)) @ opt_list (checkDeviceChange s)
     @ opt_list (checkInactivity clock s)"

definition RegisterSignal :: "'r RedisClient \<Rightarrow> 'r \<Rightarrow> string \<Rightarrow> RiskSignal \<Rightarrow> (go_error, unit) outcome \<times> 'r" where
  "RegisterSignal client r sessionID signal = AddSignal client r sessionID (SgType signal)"


section \<open>The rules\<close>

type_synonym ActionType = string

definition ActionNone :: ActionType where "ActionNone = ''none''"
definition ActionMonitor :: ActionType where "ActionMonitor = ''monitor''"
definition ActionRequireMFA :: ActionType where "ActionRequireMFA = ''require_mfa''"
definition ActionDowngrade :: ActionType where "ActionDowngrade = ''downgrade''"
definition ActionTerminate :: ActionType where "ActionTerminate = ''terminate''"

lemmas session_actions = ActionNone_def ActionMonitor_def ActionRequireMFA_def ActionDowngrade_def
  ActionTerminate_def

datatype eval_value =
    EvString string
  | EvInt int
  | EvFloat rat
  | EvDuration int
  | EvStrings "string list"

record PolicyCondition =
  PcField :: string
  PcOperator :: string
  PcValue :: eval_value

record PolicyRule =
  PrID :: string
  PrName :: string
  PrPriority :: int
  PrConditions :: "PolicyCondition list"
  PrAction :: ActionType
  PrReason :: string

definition DefaultPolicyRules :: "PolicyRule list" where
  "DefaultPolicyRules =
     [\<lparr>PrID = ''critical_risk_terminate'', PrName = ''Terminate Critical Risk Sessions'', PrPriority = 1,
       PrConditions = [\<lparr>PcField = ''risk_level'', PcOperator = ''=='', PcValue = EvString ''critical''\<rparr>],
       PrAction = ActionTerminate, PrReason = ''Risk level reached critical threshold''\<rparr>,
      \<lparr>PrID = ''high_risk_downgrade'', PrName = ''Downgrade High Risk Sessions'', PrPriority = 2,
       PrConditions = [\<lparr>PcField = ''risk_level'', PcOperator = ''=='', PcValue = EvString ''high''\<rparr>],
       PrAction = ActionDowngrade, PrReason = ''High risk level detected, restricting permissions''\<rparr>,
      \<lparr>PrID = ''medium_risk_mfa'', PrName = ''Require MFA for Medium Risk'', PrPriority = 3,
       PrConditions = [\<lparr>PcField = ''risk_level'', PcOperator = ''=='', PcValue = EvString ''medium''\<rparr>],
       PrAction = ActionRequireMFA, PrReason = ''Suspicious activity detected, verification required''\<rparr>,
      \<lparr>PrID = ''geo_jump_mfa'', PrName = ''Require MFA on Geo Jump'', PrPriority = 4,
       PrConditions = [\<lparr>PcField = ''signals'', PcOperator = ''contains'', PcValue = EvString ''geo_jump''\<rparr>],
       PrAction = ActionRequireMFA, PrReason = ''Abnormal geographical movement detected''\<rparr>,
      \<lparr>PrID = ''long_inactive_reauth'', PrName = ''Re-auth after Long Inactivity'', PrPriority = 5,
       PrConditions = [\<lparr>PcField = ''inactive_minutes'', PcOperator = ''>'', PcValue = EvInt 60\<rparr>],
       PrAction = ActionRequireMFA, PrReason = ''Session inactive for too long''\<rparr>]"

text \<open>The format \<^verbatim>\<open>%v\<close>; \<open>pr\<close> prints floating-point numbers and durations.\<close>

fun join_space :: "string list \<Rightarrow> string" where
  "join_space [] = []"
| "join_space [x] = x"
| "join_space (x # xs) = x @ '' '' @ join_space xs"

fun fmt_v :: "(eval_value \<Rightarrow> string) \<Rightarrow> eval_value \<Rightarrow> string" where
  "fmt_v pr (EvString s) = s"
| "fmt_v pr (EvInt n) = show_int n"
| "fmt_v pr (EvStrings xs) = ''['' @ join_space xs @ '']''"
| "fmt_v pr v = pr v"

fun policy_toFloat :: "eval_value \<Rightarrow> rat" where
  "policy_toFloat (EvInt n) = of_int n"
| "policy_toFloat (EvFloat q) = q"
| "policy_toFloat (EvDuration d) = of_int d / 1000000000"
| "policy_toFloat _ = 0"

definition matchCondition :: "(eval_value \<Rightarrow> string) \<Rightarrow> eval_value \<Rightarrow> string \<Rightarrow> eval_value \<Rightarrow> bool" where
  "matchCondition pr actual operator expected \<longleftrightarrow>
     (if operator = ''=='' then fmt_v pr actual = fmt_v pr expected
      else if operator = ''!='' then fmt_v pr actual \<noteq> fmt_v pr expected
      else if operator = ''>'' then policy_toFloat actual > policy_toFloat expected
      else if operator = ''<'' then policy_toFloat actual < policy_toFloat expected
      else if operator = ''>='' then policy_toFloat actual \<ge> policy_toFloat expected
      else if operator = ''<='' then policy_toFloat actual \<le> policy_toFloat expected
      else if operator = ''contains''
      then (case actual of
              EvStrings arr \<Rightarrow> fmt_v pr expected \<in> set arr
            | EvString str \<Rightarrow> sublist (fmt_v pr expected) str
            | _ \<Rightarrow> False)
      else False)"

type_synonym eval_context = "string \<rightharpoonup> eval_value"

definition matchAllConditions :: "(eval_value \<Rightarrow> string) \<Rightarrow> eval_context \<Rightarrow> PolicyCondition list \<Rightarrow> bool" where
  "matchAllConditions pr ctx conditions =
     list_all (\<lambda>cond. case ctx (PcField cond) of
         None \<Rightarrow> False
       | Some val \<Rightarrow> matchCondition pr val (PcOperator cond) (PcValue cond)) conditions"

text \<open>
  \<^verbatim>\<open>sort.Slice\<close> gives some permutation in ascending order of the priorities and is not stable, so the
  sorting is an argument. On fewer than twelve elements it is an insertion sort.
\<close>

fun first_match :: "(eval_value \<Rightarrow> string) \<Rightarrow> eval_context \<Rightarrow> PolicyRule list \<Rightarrow> ActionType \<times> string" where
  "first_match pr ctx [] = (ActionNone, [])"
| "first_match pr ctx (rule # rules) =
     (if matchAllConditions pr ctx (PrConditions rule) then (PrAction rule, PrReason rule)
      else first_match pr ctx rules)"

type_synonym rule_sort = "PolicyRule list \<Rightarrow> PolicyRule list"

definition DetermineAction ::
    "(eval_value \<Rightarrow> string) \<Rightarrow> rule_sort \<Rightarrow> PolicyRule list \<Rightarrow> eval_context \<Rightarrow> ActionType \<times> string" where
  "DetermineAction pr sort_slice rules ctx = first_match pr ctx (sort_slice rules)"

definition AddRule :: "PolicyRule list \<Rightarrow> PolicyRule \<Rightarrow> PolicyRule list" where
  "AddRule rules rule = rules @ [rule]"

definition RemoveRule :: "PolicyRule list \<Rightarrow> string \<Rightarrow> PolicyRule list" where
  "RemoveRule rules ruleID = filter (\<lambda>r. PrID r \<noteq> ruleID) rules"

section \<open>The evaluator\<close>

record EvaluationConfig =
  LowRiskThreshold :: int
  MediumRiskThreshold :: int
  HighRiskThreshold :: int
  MaxInactiveMinutes :: int
  EnableGeoCheck :: bool

record EvaluationResult =
  ErSessionID :: string
  ErRiskScore :: int
  ErRiskLevel :: string
  ErSignals :: "RiskSignal list"
  ErRecommendedAction :: ActionType
  ErReason :: string
  ErEvaluatedAt :: time

record 'r SessionEvaluator =
  ev_riskMonitor :: RiskMonitor
  ev_rules :: "PolicyRule list"
  ev_sort :: rule_sort
  ev_print :: "eval_value \<Rightarrow> string"
  ev_riskStore :: "'r RedisClient option"
  ev_config :: EvaluationConfig

definition NewSessionEvaluator ::
    "RiskMonitor \<Rightarrow> PolicyRule list \<Rightarrow> rule_sort \<Rightarrow> (eval_value \<Rightarrow> string) \<Rightarrow> 'r RedisClient option \<Rightarrow> EvaluationConfig
     \<Rightarrow> 'r SessionEvaluator" where
  "NewSessionEvaluator monitor rules srt pr store config =
     \<lparr>ev_riskMonitor = monitor, ev_rules = rules, ev_sort = srt, ev_print = pr, ev_riskStore = store,
      ev_config = \<lparr>LowRiskThreshold = (if LowRiskThreshold config = 0 then 25 else LowRiskThreshold config),
        MediumRiskThreshold = (if MediumRiskThreshold config = 0 then 50 else MediumRiskThreshold config),
        HighRiskThreshold = (if HighRiskThreshold config = 0 then 75 else HighRiskThreshold config),
        MaxInactiveMinutes = (if MaxInactiveMinutes config = 0 then 30 else MaxInactiveMinutes config),
        EnableGeoCheck = EnableGeoCheck config\<rparr>\<rparr>"

fun severity_score :: "string \<Rightarrow> int" where
  "severity_score severity =
     (if severity = ''high'' then 30 else if severity = ''medium'' then 15 else if severity = ''low'' then 5 else 0)"

definition calculateCombinedScore :: "RiskSignal list \<Rightarrow> int \<Rightarrow> int" where
  "calculateCombinedScore signals profileRiskScore =
     (let signalScore = foldl (\<lambda>acc s. acc + severity_score (SgSeverity s)) 0 signals;
          combined = (signalScore * 3 + profileRiskScore * 2) div 5
      in if combined > 100 then 100 else combined)"

definition scoreToLevel :: "EvaluationConfig \<Rightarrow> int \<Rightarrow> string" where
  "scoreToLevel cfg score =
     (if score < LowRiskThreshold cfg then ''low''
      else if score < MediumRiskThreshold cfg then ''medium''
      else if score < HighRiskThreshold cfg then ''high''
      else ''critical'')"

definition buildEvalContext :: "(nat \<Rightarrow> time) \<Rightarrow> Session \<Rightarrow> int \<Rightarrow> string \<Rightarrow> RiskSignal list \<Rightarrow> eval_context" where
  "buildEvalContext clock s score level signals =
     [''risk_level'' \<mapsto> EvString level, ''risk_score'' \<mapsto> EvInt score,
      ''signal_count'' \<mapsto> EvInt (int (length signals)), ''signals'' \<mapsto> EvStrings (map SgType signals),
      ''inactive_minutes'' \<mapsto> EvFloat (in_minutes (time_since (clock 7) (SsLastActivityAt s))),
      ''session_age_hours'' \<mapsto> EvFloat (in_hours (time_since (clock 8) (SsCreatedAt s))),
      ''auth_level'' \<mapsto> EvInt (SsAuthLevel s)]"

text \<open>
  The profile's risk score is always zero: the call that would read it is commented out. A panic of the
  risk store is a panic of the evaluation, its errors are ignored.
\<close>

definition Evaluate ::
    "'r SessionEvaluator \<Rightarrow> (nat \<Rightarrow> time) \<Rightarrow> 'r \<Rightarrow> Session \<Rightarrow> (go_error, EvaluationResult) outcome \<times> 'r" where
  "Evaluate e clock r s =
     (let signals = CollectSignals (ev_riskMonitor e) clock s;
          score = calculateCombinedScore signals 0;
          level = scoreToLevel (ev_config e) score;
          (action, reason) = DetermineAction (ev_print e) (ev_sort e) (ev_rules e)
                               (buildEvalContext clock s score level signals);
          result = \<lparr>ErSessionID = SsID s, ErRiskScore = score, ErRiskLevel = level, ErSignals = signals,
                    ErRecommendedAction = action, ErReason = reason, ErEvaluatedAt = clock 0\<rparr>
      in case ev_riskStore e of
           None \<Rightarrow> (Ok result, r)
         | Some client \<Rightarrow>
             (case UpdateScore client (clock 9) r (SsID s) score level of
                (Panic, r1) \<Rightarrow> (Panic, r1)
              | (_, r1) \<Rightarrow> (Ok result, r1)))"

definition QuickCheck ::
    "'r SessionEvaluator \<Rightarrow> (nat \<Rightarrow> time) \<Rightarrow> 'r \<Rightarrow> Session \<Rightarrow> (go_error, bool) outcome \<times> 'r" where
  "QuickCheck e clock r s =
     (let full = (case Evaluate e clock r s of
                    (Panic, r1) \<Rightarrow> (Panic, r1)
                  | (Fail err, r1) \<Rightarrow> (Fail err, r1)
                  | (Ok result, r1) \<Rightarrow> (Ok (ErRiskLevel result \<noteq> ''critical''), r1))
      in case ev_riskStore e of
        None \<Rightarrow> (Ok True, r)
      | Some client \<Rightarrow>
          (case risk_Get client r (SsID s) of
             Panic \<Rightarrow> (Panic, r)
           | Fail err \<Rightarrow> (Fail err, r)
           | Ok None \<Rightarrow> full
           | Ok (Some cached) \<Rightarrow>
               if time_since (clock 10) (RdLastEvaluated cached) < 60000000000
               then (Ok (RdRiskLevel cached \<noteq> ''critical''), r) else full))"

section \<open>Actions\<close>

record SessionEvent =
  SeID :: string
  SeSessionID :: string
  SeTenantID :: string
  SeUserID :: string
  SeEventType :: string
  SePreviousState :: "SessionState option"
  SeNewState :: SessionState
  SeTriggerReason :: string
  SeRiskScore :: int
  SeIPAddress :: string
  SeDeviceID :: string
  SeCreatedAt :: time

definition SessionEventCreated :: string where "SessionEventCreated = ''created''"
definition SessionEventUpgraded :: string where "SessionEventUpgraded = ''upgraded''"

text \<open>The other types of events that \<^verbatim>\<open>models/session_event.go\<close> declares.\<close>

definition session_event_types :: "string list" where
  "session_event_types = [SessionEventCreated, ''evaluated'', ''downgraded'', SessionEventUpgraded, ''step_up_required'',
     ''reauthenticated'', ''terminated'', ''expired'', ''risk_changed'']"

record 's SessionRepository =
  se_GetByID :: "'s \<Rightarrow> string \<Rightarrow> (go_error, Session) outcome"
  se_Update :: "'s \<Rightarrow> Session \<Rightarrow> (go_error, unit) outcome \<times> 's"
  se_Delete :: "'s \<Rightarrow> string \<Rightarrow> (go_error, unit) outcome \<times> 's"
  se_DeleteFromCache :: "'s \<Rightarrow> string \<Rightarrow> (go_error, unit) outcome \<times> 's"
  se_FindByRiskLevel :: "'s \<Rightarrow> string \<Rightarrow> int \<Rightarrow> Session list"
  se_FindActiveSessions :: "'s \<Rightarrow> int \<Rightarrow> Session list"

text \<open>
  The scheduler ignores the errors of the two searches, so they return the list they found. The notification
  service is a list of what was sent: its errors are ignored too.
\<close>

record ('s, 'e) SessionActions =
  sa_repo :: "'s SessionRepository"
  sa_events :: "('e \<Rightarrow> SessionEvent \<Rightarrow> (go_error, unit) outcome \<times> 'e) option"
  sa_notifies :: bool

record ('s, 'e, 'r) session_world =
  w_sessions :: 's
  w_events :: 'e
  w_sent :: "(string \<times> string \<times> string) list"
  w_risk :: 'r

definition w_Update :: "('s, 'e) SessionActions \<Rightarrow> ('s, 'e, 'r) session_world \<Rightarrow> Session \<Rightarrow> (go_error, unit) outcome \<times> ('s, 'e, 'r) session_world" where
  "w_Update a w s = (let (res, d) = se_Update (sa_repo a) (w_sessions w) s in (res, w\<lparr>w_sessions := d\<rparr>))"

definition w_notify :: "('s, 'e) SessionActions \<Rightarrow> string \<Rightarrow> string \<Rightarrow> string \<Rightarrow> ('s, 'e, 'r) session_world \<Rightarrow> ('s, 'e, 'r) session_world" where
  "w_notify a kind userID reason w =
     (if sa_notifies a then w\<lparr>w_sent := w_sent w @ [(kind, userID, reason)]\<rparr> else w)"

definition recordEvent ::
    "('s, 'e) SessionActions \<Rightarrow> string \<Rightarrow> time \<Rightarrow> ('s, 'e, 'r) session_world \<Rightarrow> Session \<Rightarrow> ActionType \<Rightarrow> SessionState \<Rightarrow> string
     \<Rightarrow> (go_error, unit) outcome \<times> ('s, 'e, 'r) session_world" where
  "recordEvent a uuid now w s action prevState reason =
     (case sa_events a of
        None \<Rightarrow> (Ok (), w)
      | Some create \<Rightarrow>
          (let event = \<lparr>SeID = uuid, SeSessionID = SsID s, SeTenantID = SsTenantID s, SeUserID = SsUserID s,
                 SeEventType = (if action = ''upgraded'' then SessionEventUpgraded else action),
                 SePreviousState = Some prevState, SeNewState = GetState s, SeTriggerReason = reason,
                 SeRiskScore = SsCurrentRiskScore s, SeIPAddress = SsCurrentIP s, SeDeviceID = SsDeviceID s,
                 SeCreatedAt = now\<rparr>;
               (res, e1) = create (w_events w) event
           in (res, w\<lparr>w_events := e1\<rparr>)))"

text \<open>
  The actions change the session they are given a pointer to, also when the repository then fails, so they return
  it with the result.
\<close>

definition requireMFA ::
    "('s, 'e) SessionActions \<Rightarrow> time \<Rightarrow> ('s, 'e, 'r) session_world \<Rightarrow> Session \<Rightarrow> string
     \<Rightarrow> (go_error, unit) outcome \<times> Session \<times> ('s, 'e, 'r) session_world" where
  "requireMFA a now w s reason =
     (let s1 = s\<lparr>SsStatus := SessionStatusStepUpRequired, SsStepUpReason := reason, SsStepUpRequiredAt := now\<rparr>
      in case w_Update a w s1 of
           (Ok _, w1) \<Rightarrow> (Ok (), s1, w_notify a ''step_up_required'' (SsUserID s1) reason w1)
         | (res, w1) \<Rightarrow> (res, s1, w1))"

definition downgrade ::
    "('s, 'e) SessionActions \<Rightarrow> time \<Rightarrow> ('s, 'e, 'r) session_world \<Rightarrow> Session \<Rightarrow> string
     \<Rightarrow> (go_error, unit) outcome \<times> Session \<times> ('s, 'e, 'r) session_world" where
  "downgrade a now w s reason =
     (let s1 = s\<lparr>SsStatus := SessionStatusDowngraded, SsDowngradeReason := reason, SsDowngradedAt := now,
                 SsAuthLevel := (if SsAuthLevel s > 1 then SsAuthLevel s - 1 else 1)\<rparr>
      in case w_Update a w s1 of
           (Ok _, w1) \<Rightarrow> (Ok (), s1, w_notify a ''session_downgraded'' (SsUserID s1) reason w1)
         | (res, w1) \<Rightarrow> (res, s1, w1))"

definition terminate ::
    "('s, 'e) SessionActions \<Rightarrow> time \<Rightarrow> ('s, 'e, 'r) session_world \<Rightarrow> Session \<Rightarrow> string
     \<Rightarrow> (go_error, unit) outcome \<times> Session \<times> ('s, 'e, 'r) session_world" where
  "terminate a now w s reason =
     (let s1 = s\<lparr>SsStatus := SessionStatusTerminated, SsTerminatedAt := now, SsTerminateReason := reason\<rparr>
      in case w_Update a w s1 of
           (Ok _, w1) \<Rightarrow>
             (case se_DeleteFromCache (sa_repo a) (w_sessions w1) (SsID s1) of
                (Panic, d) \<Rightarrow> (Panic, s1, w1\<lparr>w_sessions := d\<rparr>)
              | (_, d) \<Rightarrow>
                  (Ok (), s1, w_notify a ''session_terminated'' (SsUserID s1) reason (w1\<lparr>w_sessions := d\<rparr>)))
         | (res, w1) \<Rightarrow> (res, s1, w1))"

text \<open>An action that is none of the five records its event and does nothing else, like \<^verbatim>\<open>monitor\<close>.\<close>

definition Execute ::
    "('s, 'e) SessionActions \<Rightarrow> (nat \<Rightarrow> time) \<Rightarrow> string \<Rightarrow> ('s, 'e, 'r) session_world \<Rightarrow> Session \<Rightarrow> ActionType \<Rightarrow> string
     \<Rightarrow> (go_error, unit) outcome \<times> Session \<times> ('s, 'e, 'r) session_world" where
  "Execute a clock uuid w s action reason =
     (if action = ActionNone then (Ok (), s, w)
      else case (if action = ActionRequireMFA then requireMFA a (clock 11) w s reason
                 else if action = ActionDowngrade then downgrade a (clock 11) w s reason
                 else if action = ActionTerminate then terminate a (clock 11) w s reason
                 else (Ok (), s, w)) of
             (Ok _, s1, w1) \<Rightarrow>
               (let (res, w2) = recordEvent a uuid (clock 12) w1 s1 action (GetState s) reason in (res, s1, w2))
           | (res, s1, w1) \<Rightarrow> (res, s1, w1))"

definition Upgrade ::
    "('s, 'e) SessionActions \<Rightarrow> (nat \<Rightarrow> time) \<Rightarrow> string \<Rightarrow> ('s, 'e, 'r) session_world \<Rightarrow> Session
     \<Rightarrow> (go_error, unit) outcome \<times> Session \<times> ('s, 'e, 'r) session_world" where
  "Upgrade a clock uuid w s =
     (let s1 = s\<lparr>SsStatus := SessionStatusActive, SsStepUpReason := [], SsAuthLevel := min (SsAuthLevel s + 1) 4,
                 SsLastStepUpAt := clock 11\<rparr>
      in case w_Update a w s1 of
           (Ok _, w1) \<Rightarrow>
             (let (res, w2) = recordEvent a uuid (clock 12) w1 s1 ''upgraded'' (GetState s) ''MFA Verification Successful''
              in (res, s1, w2))
         | (res, w1) \<Rightarrow> (res, s1, w1))"

section \<open>The session manager\<close>

definition new_session :: "(nat \<Rightarrow> time) \<Rightarrow> string \<Rightarrow> User \<Rightarrow> string \<Rightarrow> int \<Rightarrow> string \<Rightarrow> string \<Rightarrow> Session" where
  "new_session clock sessionID user deviceID authLevel ip userAgent =
     \<lparr>SsID = sessionID, SsUserID = UID user, SsTenantID = [], SsDeviceID = deviceID, SsStatus = SessionStatusActive,
      SsAuthLevel = authLevel, SsRiskLevel = [], SsCurrentRiskScore = 0, SsPermissions = [], SsCurrentIP = ip,
      SsPreviousIP = [], SsLastIPChangeAt = zero_time, SsPreviousDeviceID = [], SsCreatedAt = clock 13,
      SsExpiresAt = clock 15 + 86400000000000, SsLastActivityAt = clock 14, SsLastEvaluatedAt = zero_time,
      SsLastStepUpAt = zero_time, SsStepUpReason = [], SsStepUpRequiredAt = zero_time, SsDowngradeReason = [],
      SsDowngradedAt = zero_time, SsTerminateReason = [], SsTerminatedAt = zero_time, SsUserAgent = userAgent,
      SsDeviceFingerprint = []\<rparr>"

definition recordSessionEvent ::
    "('s, 'e) SessionActions \<Rightarrow> string \<Rightarrow> time \<Rightarrow> ('s, 'e, 'r) session_world \<Rightarrow> Session \<Rightarrow> string \<Rightarrow> string
     \<Rightarrow> (go_error, unit) outcome \<times> ('s, 'e, 'r) session_world" where
  "recordSessionEvent a uuid now w s eventType reason =
     (case sa_events a of
        None \<Rightarrow> (Ok (), w)
      | Some create \<Rightarrow>
          (let (res, e1) = create (w_events w) \<lparr>SeID = uuid, SeSessionID = SsID s, SeTenantID = SsTenantID s,
                 SeUserID = SsUserID s, SeEventType = eventType, SePreviousState = None, SeNewState = GetState s,
                 SeTriggerReason = reason, SeRiskScore = SsCurrentRiskScore s, SeIPAddress = SsCurrentIP s,
                 SeDeviceID = SsDeviceID s, SeCreatedAt = now\<rparr>
           in (if res = Panic then Panic else Ok (), w\<lparr>w_events := e1\<rparr>)))"

text \<open>
  The manager and its actions are given the same repositories. The identifiers \<open>uuid 0\<close> and \<open>uuid 1\<close> are those of
  the session and of its event.
\<close>

definition CreateSession ::
    "('s, 'e) SessionActions \<Rightarrow> 'r SessionEvaluator \<Rightarrow> (nat \<Rightarrow> time) \<Rightarrow> (nat \<Rightarrow> string) \<Rightarrow> ('s, 'e, 'r) session_world \<Rightarrow> User
     \<Rightarrow> string \<Rightarrow> int \<Rightarrow> string \<Rightarrow> string \<Rightarrow> (go_error, Session) outcome \<times> ('s, 'e, 'r) session_world" where
  "CreateSession a e clock uuid w user deviceID authLevel ip userAgent =
     (let s = new_session clock (uuid 0) user deviceID authLevel ip userAgent
      in case Evaluate e clock (w_risk w) s of
           (Panic, r) \<Rightarrow> (Panic, w\<lparr>w_risk := r\<rparr>)
         | (evaluated, r) \<Rightarrow>
             (let s1 = (case evaluated of
                          Ok result \<Rightarrow> s\<lparr>SsCurrentRiskScore := ErRiskScore result, SsRiskLevel := ErRiskLevel result,
                                        SsLastEvaluatedAt := clock 16\<rparr>
                        | _ \<Rightarrow> s\<lparr>SsRiskLevel := ''unknown''\<rparr>)
              in case w_Update a (w\<lparr>w_risk := r\<rparr>) s1 of
                   (Panic, w1) \<Rightarrow> (Panic, w1)
                 | (Fail err, w1) \<Rightarrow> (Fail err, w1)
                 | (Ok _, w1) \<Rightarrow>
                     (case recordSessionEvent a (uuid 1) (clock 17) w1 s1 SessionEventCreated ''Session Created'' of
                        (Ok _, w2) \<Rightarrow> (Ok s1, w2)
                      | (_, w2) \<Rightarrow> (Panic, w2))))"

text \<open>\<^verbatim>\<open>ValidateSession\<close> after it has read the session.\<close>

definition validate_read ::
    "('s, 'e) SessionActions \<Rightarrow> 'r SessionEvaluator \<Rightarrow> (nat \<Rightarrow> time) \<Rightarrow> ('s, 'e, 'r) session_world \<Rightarrow> Session
     \<Rightarrow> (go_error, Session) outcome \<times> ('s, 'e, 'r) session_world" where
  "validate_read a e clock w s =
     (if SsStatus s = SessionStatusTerminated then (Fail (Errorf ''session terminated''), w)
      else if IsExpired (clock 13) s then (Fail (Errorf ''session expired''), w)
      else case QuickCheck e clock (w_risk w) s of
        (Panic, r) \<Rightarrow> (Panic, w\<lparr>w_risk := r\<rparr>)
      | (safe, r) \<Rightarrow>
          (let w1 = w\<lparr>w_risk := r\<rparr>
           in if safe = Ok False then (Fail (Errorf ''session risk too high''), w1)
              else if SsStatus s = SessionStatusStepUpRequired
              then (Fail (Errorf ''step-up authentication required''), w1)
              else let s1 = s\<lparr>SsLastActivityAt := clock 14\<rparr>; (res, w2) = w_Update a w1 s1
                   in (if res = Panic then Panic else Ok s1, w2)))"

definition ValidateSession ::
    "('s, 'e) SessionActions \<Rightarrow> 'r SessionEvaluator \<Rightarrow> (nat \<Rightarrow> time) \<Rightarrow> ('s, 'e, 'r) session_world \<Rightarrow> string
     \<Rightarrow> (go_error, Session) outcome \<times> ('s, 'e, 'r) session_world" where
  "ValidateSession a e clock w sessionID =
     (case se_GetByID (sa_repo a) (w_sessions w) sessionID of
        Panic \<Rightarrow> (Panic, w)
      | Fail err \<Rightarrow> (Fail err, w)
      | Ok s \<Rightarrow> validate_read a e clock w s)"

definition TerminateSession ::
    "('s, 'e) SessionActions \<Rightarrow> (nat \<Rightarrow> time) \<Rightarrow> string \<Rightarrow> ('s, 'e, 'r) session_world \<Rightarrow> string \<Rightarrow> string
     \<Rightarrow> (go_error, unit) outcome \<times> ('s, 'e, 'r) session_world" where
  "TerminateSession a clock uuid w sessionID reason =
     (case se_GetByID (sa_repo a) (w_sessions w) sessionID of
        Panic \<Rightarrow> (Panic, w)
      | Fail err \<Rightarrow> (Fail err, w)
      | Ok s \<Rightarrow> (let (res, _, w1) = Execute a clock uuid w s ActionTerminate reason in (res, w1)))"

section \<open>The scheduler\<close>

record SchedulerConfig =
  DefaultInterval :: int
  HighRiskInterval :: int
  CriticalInterval :: int
  BatchSize :: int
  WorkerCount :: int

definition scheduler_config :: "SchedulerConfig \<Rightarrow> SchedulerConfig" where
  "scheduler_config c =
     c\<lparr>DefaultInterval := (if DefaultInterval c = 0 then 300000000000 else DefaultInterval c),
       BatchSize := (if BatchSize c = 0 then 100 else BatchSize c),
       WorkerCount := (if WorkerCount c = 0 then 4 else WorkerCount c)\<rparr>"

text \<open>Go's division truncates towards zero.\<close>

definition quarter :: "int \<Rightarrow> int" where
  "quarter n = (if n < 0 then - ((- n) div 4) else n div 4)"

definition due :: "(nat \<Rightarrow> time) \<Rightarrow> int \<Rightarrow> Session list \<Rightarrow> Session list" where
  "due clock interval ss = filter (\<lambda>s. time_since (clock 18) (SsLastEvaluatedAt s) > interval) ss"

definition getSessionsNeedingEvaluation ::
    "'s SessionRepository \<Rightarrow> SchedulerConfig \<Rightarrow> (nat \<Rightarrow> time) \<Rightarrow> 's \<Rightarrow> Session list" where
  "getSessionsNeedingEvaluation repo c clock d =
     (let r1 = due clock (CriticalInterval c) (se_FindByRiskLevel repo d ''critical'' (quarter (BatchSize c)));
          r2 = (if int (length r1) < BatchSize c
                then r1 @ due clock (HighRiskInterval c) (se_FindByRiskLevel repo d ''high'' (quarter (BatchSize c)))
                else r1)
      in if int (length r2) < BatchSize c
         then r2 @ due clock (DefaultInterval c) (se_FindActiveSessions repo d (BatchSize c - int (length r2)))
         else r2)"

definition evaluateSession ::
    "('s, 'e) SessionActions \<Rightarrow> 'r SessionEvaluator \<Rightarrow> (nat \<Rightarrow> time) \<Rightarrow> string \<Rightarrow> ('s, 'e, 'r) session_world \<Rightarrow> Session
     \<Rightarrow> (go_error, unit) outcome \<times> ('s, 'e, 'r) session_world" where
  "evaluateSession a e clock uuid w s =
     (case Evaluate e clock (w_risk w) s of
        (Panic, r) \<Rightarrow> (Panic, w\<lparr>w_risk := r\<rparr>)
      | (Fail err, r) \<Rightarrow> (Ok (), w\<lparr>w_risk := r\<rparr>)
      | (Ok result, r) \<Rightarrow>
          (case Execute a clock uuid (w\<lparr>w_risk := r\<rparr>) s (ErRecommendedAction result) (ErReason result) of
             (Panic, _, w1) \<Rightarrow> (Panic, w1)
           | (_, s1, w1) \<Rightarrow>
               (let (res, w2) = w_Update a w1 (s1\<lparr>SsLastEvaluatedAt := clock 19\<rparr>)
                in (if res = Panic then Panic else Ok (), w2))))"

definition TriggerImmediate ::
    "('s, 'e) SessionActions \<Rightarrow> 'r SessionEvaluator \<Rightarrow> (nat \<Rightarrow> time) \<Rightarrow> string \<Rightarrow> ('s, 'e, 'r) session_world \<Rightarrow> string
     \<Rightarrow> (go_error, unit) outcome \<times> ('s, 'e, 'r) session_world" where
  "TriggerImmediate a e clock uuid w sessionID =
     (case se_GetByID (sa_repo a) (w_sessions w) sessionID of
        Panic \<Rightarrow> (Panic, w)
      | Fail err \<Rightarrow> (Fail err, w)
      | Ok s \<Rightarrow> evaluateSession a e clock uuid w s)"

text \<open>
  A batch starts one goroutine per session; the model runs them one after the other in the order of the batch, each
  on the copy that the batch has read.
\<close>

fun evaluate_batch ::
    "('s, 'e) SessionActions \<Rightarrow> 'r SessionEvaluator \<Rightarrow> (nat \<Rightarrow> time) \<Rightarrow> (nat \<Rightarrow> string) \<Rightarrow> ('s, 'e, 'r) session_world
     \<Rightarrow> Session list \<Rightarrow> (go_error, unit) outcome \<times> ('s, 'e, 'r) session_world" where
  "evaluate_batch a e clock uuid w [] = (Ok (), w)"
| "evaluate_batch a e clock uuid w (s # ss) =
     (case evaluateSession a e clock (uuid (length ss)) w s of
        (Ok _, w1) \<Rightarrow> evaluate_batch a e clock uuid w1 ss
      | (_, w1) \<Rightarrow> (Panic, w1))"

definition scheduleBatch ::
    "('s, 'e) SessionActions \<Rightarrow> 'r SessionEvaluator \<Rightarrow> SchedulerConfig \<Rightarrow> (nat \<Rightarrow> time) \<Rightarrow> (nat \<Rightarrow> string)
     \<Rightarrow> ('s, 'e, 'r) session_world \<Rightarrow> (go_error, unit) outcome \<times> ('s, 'e, 'r) session_world" where
  "scheduleBatch a e c clock uuid w =
     evaluate_batch a e clock uuid w (getSessionsNeedingEvaluation (sa_repo a) c clock (w_sessions w))"


section \<open>Rules in order of priority\<close>

lemma first_match_spec:
  assumes "sorted (map PrPriority rs)"
  shows "(first_match pr ctx rs = (ActionNone, []) \<and> (\<forall>r \<in> set rs. \<not> matchAllConditions pr ctx (PrConditions r)))
    \<or> (\<exists>r \<in> set rs. matchAllConditions pr ctx (PrConditions r) \<and> first_match pr ctx rs = (PrAction r, PrReason r) \<and>
         (\<forall>r' \<in> set rs. matchAllConditions pr ctx (PrConditions r') \<longrightarrow> PrPriority r \<le> PrPriority r'))"
  using assms by (induction rs) auto

text \<open>
  The action is that of a matching rule with the least priority number; there is none exactly when no rule matches.
  The rules are sorted by any sort that gives an ascending permutation.
\<close>

theorem DetermineAction_least_priority:
  assumes "mset (sort_slice rules) = mset rules" and "sorted (map PrPriority (sort_slice rules))"
  shows "(DetermineAction pr sort_slice rules ctx = (ActionNone, [])
            \<and> (\<forall>r \<in> set rules. \<not> matchAllConditions pr ctx (PrConditions r)))
    \<or> (\<exists>r \<in> set rules. matchAllConditions pr ctx (PrConditions r)
         \<and> DetermineAction pr sort_slice rules ctx = (PrAction r, PrReason r)
         \<and> (\<forall>r' \<in> set rules. matchAllConditions pr ctx (PrConditions r') \<longrightarrow> PrPriority r \<le> PrPriority r'))"
  using first_match_spec [OF assms(2), of pr ctx] mset_eq_setD [OF assms(1)]
  by (simp add: DetermineAction_def)

section \<open>How high the risk can be\<close>

lemma score_foldl: "foldl (\<lambda>acc s. acc + severity_score (SgSeverity s)) n ss = n + sum_list (map (severity_score \<circ> SgSeverity) ss)"
  by (induction ss arbitrary: n) (simp_all del: severity_score.simps)

lemma severity_nonneg: "0 \<le> severity_score x" by simp

lemma signal_scores:
  "sum_list (map (severity_score \<circ> SgSeverity) (opt_list (checkIPChange clock s))) \<le> 5"
  "sum_list (map (severity_score \<circ> SgSeverity) (opt_list (checkIPReputation m clock ip))) \<le> 30"
  "sum_list (map (severity_score \<circ> SgSeverity) (opt_list (checkDeviceChange s))) = 0"
  "sum_list (map (severity_score \<circ> SgSeverity) (opt_list (checkInactivity clock s))) \<le> 15"
  by (auto simp: opt_list_def checkIPChange_def checkIPReputation_def checkDeviceChange_def checkInactivity_def Let_def
      split: option.split)

text \<open>The distance is always zero, so a jump is reported for a negative threshold only and never as fast.\<close>

lemma geo_score: "sum_list (map (severity_score \<circ> SgSeverity) (opt_list (checkGeoJump m clock s))) \<le> 15"
  by (auto simp: opt_list_def checkGeoJump_def HaversineDistance_def Let_def split: option.split)

lemma geo_jump_never:
  assumes "0 \<le> GeoJumpThresholdKm (rm_config m)"
  shows "checkGeoJump m clock s = None"
  using assms by (auto simp: checkGeoJump_def HaversineDistance_def Let_def split: option.split)

lemma combined_bounds: "0 \<le> calculateCombinedScore (CollectSignals m clock s) 0 \<and> calculateCombinedScore (CollectSignals m clock s) 0 \<le> 39"
proof -
  let ?sc = "\<lambda>xs. sum_list (map (severity_score \<circ> SgSeverity) xs)"
  have "0 \<le> ?sc (CollectSignals m clock s)"
    by (rule sum_list_nonneg) (auto simp del: severity_score.simps intro: severity_nonneg)
  moreover have "?sc (CollectSignals m clock s) \<le> 65"
    using signal_scores(1)[of clock s] signal_scores(2)[of m clock "SsCurrentIP s"] signal_scores(3)[of s]
      signal_scores(4)[of clock s] geo_score[of m clock s]
    by (simp add: CollectSignals_def del: severity_score.simps)
  ultimately have "0 \<le> ?sc (CollectSignals m clock s) * 3 div 5 \<and> ?sc (CollectSignals m clock s) * 3 div 5 \<le> 39"
    by presburger
  then show ?thesis
    by (simp add: calculateCombinedScore_def score_foldl Let_def del: severity_score.simps)
qed

lemma Evaluate_result:
  assumes "Evaluate e clock r s = (Ok result, r')"
  shows "ErSignals result = CollectSignals (ev_riskMonitor e) clock s
    \<and> ErRiskScore result = calculateCombinedScore (ErSignals result) 0
    \<and> ErRiskLevel result = scoreToLevel (ev_config e) (ErRiskScore result)
    \<and> (ErRecommendedAction result, ErReason result) = DetermineAction (ev_print e) (ev_sort e) (ev_rules e)
         (buildEvalContext clock s (ErRiskScore result) (ErRiskLevel result) (ErSignals result))"
  using assms by (auto simp: Evaluate_def Let_def split: prod.splits option.splits outcome.splits)

lemma default_rules_action:
  assumes "set rs \<subseteq> set DefaultPolicyRules" and "ctx ''risk_level'' = Some (EvString level)" and "level \<in> {''low'', ''medium''}"
  shows "fst (first_match pr ctx rs) \<in> {ActionNone, ActionRequireMFA}"
  using assms
  by (induction rs) (auto simp: DefaultPolicyRules_def matchAllConditions_def matchCondition_def)

text \<open>
  With the default thresholds and rules no session is ever rated above medium: the score is at most 39 of 100, whatever
  the addresses, reputations and times. So the rules for high and critical risk are dead, and the
  evaluation never ends or downgrades a session.
\<close>

theorem evaluation_never_high:
  assumes "e = NewSessionEvaluator m DefaultPolicyRules srt pr store cfg"
    and "LowRiskThreshold cfg = 0 \<and> MediumRiskThreshold cfg = 0 \<and> HighRiskThreshold cfg = 0"
    and "mset (srt DefaultPolicyRules) = mset DefaultPolicyRules"
    and "Evaluate e clock r s = (Ok result, r')"
  shows "0 \<le> ErRiskScore result \<and> ErRiskScore result \<le> 39 \<and> ErRiskLevel result \<in> {''low'', ''medium''}
    \<and> ErRecommendedAction result \<in> {ActionNone, ActionRequireMFA}"
proof -
  note res = Evaluate_result [OF assms(4)]
  with combined_bounds [of "ev_riskMonitor e" clock s]
  have score: "0 \<le> ErRiskScore result" "ErRiskScore result \<le> 39" by simp_all
  with res assms(1,2) have level: "ErRiskLevel result \<in> {''low'', ''medium''}"
    by (simp add: scoreToLevel_def NewSessionEvaluator_def)
  let ?ctx = "buildEvalContext clock s (ErRiskScore result) (ErRiskLevel result) (ErSignals result)"
  have ctx: "?ctx ''risk_level'' = Some (EvString (ErRiskLevel result))"
    by (simp add: buildEvalContext_def)
  have "ErRecommendedAction result = fst (first_match pr ?ctx (srt DefaultPolicyRules))"
    using res assms(1) by (simp add: NewSessionEvaluator_def DetermineAction_def prod_eq_iff)
  with default_rules_action [where ctx = ?ctx and rs = "srt DefaultPolicyRules" and pr = pr, OF _ ctx level] mset_eq_setD [OF assms(3)] score level
  show ?thesis by simp
qed

section \<open>Termination under atomic operations\<close>

text \<open>
  A table of sessions as the repository, with upserts as the manager assumes them; \<open>ord\<close> is the order in which it is
  searched.
\<close>

type_synonym session_table = "string \<rightharpoonup> Session"

definition table_sessions :: "(session_table \<Rightarrow> string list) \<Rightarrow> session_table SessionRepository" where
  "table_sessions ord =
     \<lparr>se_GetByID = (\<lambda>d i. case d i of None \<Rightarrow> Fail ErrNotFound | Some s \<Rightarrow> Ok s),
      se_Update = (\<lambda>d s. (Ok (), d(SsID s \<mapsto> s))),
      se_Delete = (\<lambda>d i. (Ok (), d(i := None))),
      se_DeleteFromCache = (\<lambda>d i. (Ok (), d)),
      se_FindByRiskLevel = (\<lambda>d level limit. take (nat limit) (filter (\<lambda>s. SsRiskLevel s = level) (range_values (ord d) d))),
      se_FindActiveSessions = (\<lambda>d limit. take (nat limit)
         (filter (\<lambda>s. SsStatus s = SessionStatusActive) (range_values (ord d) d)))\<rparr>"

definition table_actions ::
    "(session_table \<Rightarrow> string list) \<Rightarrow> ('e \<Rightarrow> SessionEvent \<Rightarrow> (go_error, unit) outcome \<times> 'e) option \<Rightarrow> bool
     \<Rightarrow> (session_table, 'e) SessionActions" where
  "table_actions ord create n = \<lparr>sa_repo = table_sessions ord, sa_events = create, sa_notifies = n\<rparr>"

lemma table_actions_sel [simp]:
  "se_GetByID (sa_repo (table_actions ord create n)) d i = (case d i of None \<Rightarrow> Fail ErrNotFound | Some s \<Rightarrow> Ok s)"
  "se_DeleteFromCache (sa_repo (table_actions ord create n)) d i = (Ok (), d)"
  "w_Update (table_actions ord create n) w s = (Ok (), w\<lparr>w_sessions := (w_sessions w)(SsID s \<mapsto> s)\<rparr>)"
  by (simp_all add: table_actions_def table_sessions_def w_Update_def)

lemma w_notify_sessions [simp]: "w_sessions (w_notify a k u reason w) = w_sessions w"
  by (simp add: w_notify_def)

lemma recordEvent_sessions [simp]: "w_sessions (snd (recordEvent a uuid now w s action st reason)) = w_sessions w"
  by (simp add: recordEvent_def Let_def split: option.split prod.split)

lemma recordSessionEvent_sessions [simp]: "w_sessions (snd (recordSessionEvent a uuid now w s ty reason)) = w_sessions w"
  by (simp add: recordSessionEvent_def Let_def split: option.split prod.split)

lemma recordEventD: "recordEvent a uuid now w s action st reason = (res, w') \<Longrightarrow> w_sessions w' = w_sessions w"
  using recordEvent_sessions [of a uuid now w s action st reason] by simp

lemma recordSessionEventD: "recordSessionEvent a uuid now w s ty reason = (res, w') \<Longrightarrow> w_sessions w' = w_sessions w"
  using recordSessionEvent_sessions [of a uuid now w s ty reason] by simp

text \<open>An action writes the session it is given and no other; it keeps its identifier and its risk level.\<close>

lemma Execute_table:
  assumes "Execute (table_actions ord create n) clock uuid w s action reason = (res, s1, w1)"
  shows "SsID s1 = SsID s \<and> SsRiskLevel s1 = SsRiskLevel s
    \<and> (w_sessions w1 = w_sessions w \<and> s1 = s \<or> w_sessions w1 = (w_sessions w)(SsID s \<mapsto> s1))"
  using assms
  by (auto simp: Execute_def requireMFA_def downgrade_def terminate_def Let_def dest!: recordEventD
      split: if_splits prod.splits)

lemma evaluateSession_table:
  assumes "evaluateSession (table_actions ord create n) e clock uuid w s = (res, w1)"
  shows "w_sessions w1 = w_sessions w
    \<or> (\<exists>s1. SsID s1 = SsID s \<and> SsRiskLevel s1 = SsRiskLevel s \<and> w_sessions w1 = (w_sessions w)(SsID s \<mapsto> s1))"
proof (cases "Evaluate e clock (w_risk w) s")
  case (Pair ev r)
  show ?thesis
  proof (cases ev)
    case (Ok result)
    obtain x s1 w2 where ex: "Execute (table_actions ord create n) clock uuid (w\<lparr>w_risk := r\<rparr>) s (ErRecommendedAction result)
        (ErReason result) = (x, s1, w2)" by (cases "Execute (table_actions ord create n) clock uuid (w\<lparr>w_risk := r\<rparr>) s
        (ErRecommendedAction result) (ErReason result)") auto
    from Execute_table [OF ex] assms Pair Ok ex show ?thesis
      by (auto simp: evaluateSession_def split: outcome.splits intro: exI [of _ "s1\<lparr>SsLastEvaluatedAt := clock 19\<rparr>"])
  qed (use assms Pair in \<open>auto simp: evaluateSession_def\<close>)
qed

text \<open>The scheduler never writes the risk level back, so its searches by risk level see the level of the creation.\<close>

definition low_risk :: "string \<Rightarrow> bool" where "low_risk level \<longleftrightarrow> level \<in> {''low'', ''medium''}"

definition session_wf :: "session_table \<Rightarrow> bool" where
  "session_wf d \<longleftrightarrow> (\<forall>i s. d i = Some s \<longrightarrow> SsID s = i \<and> low_risk (SsRiskLevel s))"

definition ended :: "session_table \<Rightarrow> string \<Rightarrow> bool" where
  "ended d i \<longleftrightarrow> (\<exists>s. d i = Some s \<and> SsStatus s = SessionStatusTerminated)"

lemma session_wf_upd: "session_wf d \<Longrightarrow> SsID s = i \<Longrightarrow> low_risk (SsRiskLevel s) \<Longrightarrow> session_wf (d(i \<mapsto> s))"
  by (auto simp: session_wf_def)

lemma evaluate_batch_table:
  assumes "evaluate_batch (table_actions ord create n) e clock uuid w ss = (res, w')"
    and "session_wf (w_sessions w)" and "\<forall>s \<in> set ss. low_risk (SsRiskLevel s)"
  shows "session_wf (w_sessions w') \<and> (\<forall>i. i \<notin> SsID ` set ss \<longrightarrow> w_sessions w' i = w_sessions w i)"
  using assms
proof (induction ss arbitrary: w)
  case (Cons s ss)
  obtain x w1 where one: "evaluateSession (table_actions ord create n) e clock (uuid (length ss)) w s = (x, w1)"
    by (cases "evaluateSession (table_actions ord create n) e clock (uuid (length ss)) w s")
  have wf: "session_wf (w_sessions w1)" and other: "\<forall>i. i \<noteq> SsID s \<longrightarrow> w_sessions w1 i = w_sessions w i"
    using evaluateSession_table [OF one] Cons.prems(2,3) by (auto intro!: session_wf_upd)
  show ?case
  proof (cases x)
    case (Ok u)
    with one Cons.prems have "evaluate_batch (table_actions ord create n) e clock uuid w1 ss = (res, w')" by simp
    from Cons.IH [OF this wf] Cons.prems(3) other show ?thesis by simp
  qed (use one Cons.prems wf other in auto)
qed simp

lemma batch_active:
  assumes "session_wf d"
  shows "\<forall>s \<in> set (getSessionsNeedingEvaluation (table_sessions ord) c clock d).
    d (SsID s) = Some s \<and> SsStatus s = SessionStatusActive"
proof -
  have ran: "d (SsID s) = Some s \<and> low_risk (SsRiskLevel s)" if "s \<in> set (range_values (ord d) d)" for s
    using assms that by (fastforce simp: range_values_def List.map_filter_def session_wf_def)
  have none: "due clock c' (se_FindByRiskLevel (table_sessions ord) d level limit) = []" if "\<not> low_risk level" for c' level limit
    using ran that by (auto simp: due_def table_sessions_def filter_empty_conv dest!: in_set_takeD)
  have active: "d (SsID s) = Some s \<and> SsStatus s = SessionStatusActive"
    if "s \<in> set (due clock c' (se_FindActiveSessions (table_sessions ord) d limit))" for s c' limit
    using that ran by (auto simp: due_def table_sessions_def dest!: in_set_takeD)
  have "\<not> low_risk ''critical''" "\<not> low_risk ''high''" by (simp_all add: low_risk_def)
  with none active show ?thesis by (auto simp: getSessionsNeedingEvaluation_def Let_def)
qed

text \<open>
  The steps of a system with the default evaluation, each operation in one piece: sessions are created under new
  identifiers, validated and ended, and the scheduler runs its batches.
\<close>

inductive session_step ::
    "(session_table, 'e) SessionActions \<Rightarrow> 'r SessionEvaluator \<Rightarrow> (session_table, 'e, 'r) session_world
     \<Rightarrow> (session_table, 'e, 'r) session_world \<Rightarrow> bool"
  for a e where
  created: "CreateSession a e clock uuid w user deviceID authLevel ip userAgent = (res, w') \<Longrightarrow>
    w_sessions w (uuid 0) = None \<Longrightarrow> session_step a e w w'"
| validated: "ValidateSession a e clock w i = (res, w') \<Longrightarrow> session_step a e w w'"
| terminated: "TerminateSession a clock uid w i reason = (res, w') \<Longrightarrow> session_step a e w w'"
| batch: "scheduleBatch a e c clock uuid w = (res, w') \<Longrightarrow> session_step a e w w'"

definition default_evaluator :: "RiskMonitor \<Rightarrow> rule_sort \<Rightarrow> (eval_value \<Rightarrow> string) \<Rightarrow> 'r RedisClient option \<Rightarrow> 'r SessionEvaluator" where
  "default_evaluator m srt pr store = NewSessionEvaluator m DefaultPolicyRules srt pr store
     \<lparr>LowRiskThreshold = 0, MediumRiskThreshold = 0, HighRiskThreshold = 0, MaxInactiveMinutes = 0, EnableGeoCheck = True\<rparr>"

lemma default_level:
  assumes "Evaluate (default_evaluator m srt pr store) clock r s = (Ok result, r')"
  shows "low_risk (ErRiskLevel result)"
proof -
  note res = Evaluate_result [OF assms]
  with combined_bounds [of m clock s] show ?thesis
    by (simp add: default_evaluator_def NewSessionEvaluator_def scoreToLevel_def low_risk_def)
qed

lemma Evaluate_no_store: "ev_riskStore e = None \<Longrightarrow> \<exists>result. Evaluate e clock r s = (Ok result, r)"
  by (auto simp: Evaluate_def Let_def split: prod.splits)

lemma Evaluate_not_Fail: "Evaluate e clock r s \<noteq> (Fail err, r')"
  by (auto simp: Evaluate_def Let_def split: prod.splits option.splits outcome.splits)

lemma CreateSession_table:
  assumes "CreateSession (table_actions ord create n) (default_evaluator m srt pr store) clock uuid w user deviceID authLevel ip
      userAgent = (res, w')"
  shows "w_sessions w' = w_sessions w \<or> (\<exists>s. SsID s = uuid 0 \<and> low_risk (SsRiskLevel s)
    \<and> w_sessions w' = (w_sessions w)(uuid 0 \<mapsto> s))"
proof -
  let ?s = "new_session clock (uuid 0) user deviceID authLevel ip userAgent"
  let ?e = "default_evaluator m srt pr store"
  show ?thesis
  proof (cases "Evaluate ?e clock (w_risk w) ?s")
    case (Pair ev r)
    show ?thesis
    proof (cases ev)
      case (Ok result)
      let ?s1 = "?s\<lparr>SsCurrentRiskScore := ErRiskScore result, SsRiskLevel := ErRiskLevel result, SsLastEvaluatedAt := clock 16\<rparr>"
      have id: "SsID ?s1 = uuid 0" "low_risk (SsRiskLevel ?s1)"
        using default_level Pair Ok by (simp_all add: new_session_def)
      moreover have "w_sessions w' = (w_sessions w)(uuid 0 \<mapsto> ?s1)"
        using assms Pair Ok id(1)
        by (auto simp: CreateSession_def Let_def dest!: recordSessionEventD split: prod.splits outcome.splits)
      ultimately show ?thesis by blast
    next
      case (Fail err)
      with Pair Evaluate_not_Fail [of ?e clock "w_risk w" ?s err r] show ?thesis by simp
    next
      case Panic
      with Pair assms show ?thesis by (auto simp: CreateSession_def Let_def)
    qed
  qed
qed

lemma ValidateSession_table:
  assumes "ValidateSession (table_actions ord create n) e clock w i = (res, w')"
  shows "w_sessions w' = w_sessions w \<or> (\<exists>s. w_sessions w i = Some s \<and> SsStatus s \<noteq> SessionStatusTerminated
    \<and> w_sessions w' = (w_sessions w)(SsID s \<mapsto> s\<lparr>SsLastActivityAt := clock 14\<rparr>))"
  using assms
  by (auto simp: ValidateSession_def validate_read_def Let_def split: option.splits if_splits prod.splits outcome.splits)

lemma TerminateSession_table:
  assumes "TerminateSession (table_actions ord create n) clock uuid w i reason = (res, w')"
  shows "w_sessions w' = (case w_sessions w i of None \<Rightarrow> w_sessions w
    | Some s \<Rightarrow> (w_sessions w)(SsID s \<mapsto> s\<lparr>SsStatus := SessionStatusTerminated, SsTerminatedAt := clock 11, SsTerminateReason := reason\<rparr>))"
  using assms
  by (auto simp: TerminateSession_def Execute_def terminate_def Let_def session_actions
      dest!: recordEventD split: option.splits prod.splits)

lemma session_step_keeps:
  assumes "session_step (table_actions ord create n) (default_evaluator m srt pr store) w w'"
    and "session_wf (w_sessions w)"
  shows "session_wf (w_sessions w') \<and> (\<forall>i. ended (w_sessions w) i \<longrightarrow> ended (w_sessions w') i)"
  using assms
proof (cases rule: session_step.cases)
  case (created clock uuid user deviceID authLevel ip userAgent res)
  from CreateSession_table [OF this(1)] this(2) assms(2) show ?thesis
    by (auto simp: ended_def intro: session_wf_upd)
next
  case (validated clock i res)
  from ValidateSession_table [OF this] assms(2) show ?thesis
    by (auto simp: session_wf_def ended_def split: if_splits)
next
  case (terminated clock uid i reason res)
  from TerminateSession_table [OF this] assms(2) show ?thesis
    by (auto simp: session_wf_def ended_def split: option.splits if_splits)
next
  case (batch c clock uuid res)
  let ?ss = "getSessionsNeedingEvaluation (table_sessions ord) c clock (w_sessions w)"
  note act = batch_active [OF assms(2), of ord c clock]
  have "evaluate_batch (table_actions ord create n) (default_evaluator m srt pr store) clock uuid w ?ss = (res, w')"
    using batch by (simp add: scheduleBatch_def table_actions_def)
  moreover have "\<forall>s \<in> set ?ss. low_risk (SsRiskLevel s)" using act assms(2) unfolding session_wf_def by blast
  ultimately have "session_wf (w_sessions w')" and same: "\<forall>i. i \<notin> SsID ` set ?ss \<longrightarrow> w_sessions w' i = w_sessions w i"
    using evaluate_batch_table assms(2) by blast+
  moreover have "ended (w_sessions w') i" if "ended (w_sessions w) i" for i
  proof -
    have "i \<notin> SsID ` set ?ss" using act that by (force simp: ended_def session_statuses)
    with same that show ?thesis by (simp add: ended_def)
  qed
  ultimately show ?thesis by blast
qed

text \<open>
  C10: With the default evaluation and operations that run in one piece, a session that has been terminated stays
  terminated: from an empty table, whatever sessions are created, validated, terminated and evaluated in
  batches, every later validation of it is refused.
\<close>

theorem terminated_session_final:
  assumes "(session_step (table_actions ord create n) (default_evaluator m srt pr store))\<^sup>*\<^sup>* (wa\<lparr>w_sessions := Map.empty\<rparr>) wb"
    and "w_sessions wb i = Some s"
    and "TerminateSession (table_actions ord create n) clock uuid wb i reason = (res, wc)"
    and "(session_step (table_actions ord create n) (default_evaluator m srt pr store))\<^sup>*\<^sup>* wc wd"
  shows "ValidateSession (table_actions ord create n) (default_evaluator m srt pr store) clock' wd i
    = (Fail (Errorf ''session terminated''), wd)"
proof -
  let ?step = "session_step (table_actions ord create n) (default_evaluator m srt pr store)"
  have keep: "session_wf (w_sessions w') \<and> (\<forall>j. ended (w_sessions w) j \<longrightarrow> ended (w_sessions w') j)"
    if "?step\<^sup>*\<^sup>* w w'" "session_wf (w_sessions w)" for w w'
    using that by (induction rule: rtranclp_induct) (auto dest: session_step_keeps)
  have wf1: "session_wf (w_sessions wb)" using keep [OF assms(1)] by (simp add: session_wf_def)
  have "?step wb wc" using assms(3) by (rule session_step.terminated)
  then have wf2: "session_wf (w_sessions wc)" using session_step_keeps wf1 by blast
  have "ended (w_sessions wc) i"
    using TerminateSession_table [OF assms(3)] assms(2) wf1 by (auto simp: ended_def session_wf_def)
  then have "ended (w_sessions wd) i" using keep [OF assms(4) wf2] by blast
  then show ?thesis by (auto simp: ended_def ValidateSession_def validate_read_def)
qed

definition session_user :: User where "session_user = zero_user\<lparr>UID := ''u1'', Username := ''alice''\<rparr>"

definition demo_actions :: "(session_table, unit) SessionActions" where
  "demo_actions = table_actions (\<lambda>_. [''s1'']) None False"

definition demo_monitor :: RiskMonitor where
  "demo_monitor = NewRiskMonitor None (Some (\<lambda>ip. Some \<lparr>RepScore = 20, RepIsTor = True, RepIsProxy = False\<rparr>))
     \<lparr>GeoJumpThresholdKm = 0, GeoJumpTimeMinutes = 0, SuspiciousIPThreshold = 0\<rparr>"

definition demo_evaluator :: "unit SessionEvaluator" where
  "demo_evaluator = default_evaluator demo_monitor (sort_key PrPriority) (\<lambda>_. []) None"

definition session_world0 :: "(session_table, unit, unit) session_world" where
  "session_world0 = \<lparr>w_sessions = Map.empty, w_events = (), w_sent = [], w_risk = ()\<rparr>"

definition demo_created :: "(session_table, unit, unit) session_world" where
  "demo_created = snd (CreateSession demo_actions demo_evaluator (\<lambda>_. 0) (\<lambda>_. ''s1'') session_world0 session_user ''d1'' 1 ''10.0.0.1'' [])"

lemma demo_created_session: "\<exists>s. w_sessions demo_created ''s1'' = Some s \<and> SsID s = ''s1'' \<and> SsStatus s = SessionStatusActive
    \<and> SsExpiresAt s = 86400000000000"
  by (simp add: demo_created_def CreateSession_def demo_evaluator_def default_evaluator_def NewSessionEvaluator_def Evaluate_def
      Let_def demo_actions_def recordSessionEvent_def table_actions_def new_session_def w_Update_def table_sessions_def
      split: prod.split)

theorem terminated_session_final_witness:
  "ValidateSession demo_actions demo_evaluator (\<lambda>_. 1) (snd (TerminateSession demo_actions (\<lambda>_. 0) ''e1'' demo_created ''s1'' ''logout''))
     ''s1'' = (Fail (Errorf ''session terminated''),
       snd (TerminateSession demo_actions (\<lambda>_. 0) ''e1'' demo_created ''s1'' ''logout''))"
proof -
  obtain s where s: "w_sessions demo_created ''s1'' = Some s" using demo_created_session by blast
  have w: "session_world0\<lparr>w_sessions := Map.empty\<rparr> = session_world0" by (simp add: session_world0_def)
  have step: "session_step demo_actions demo_evaluator session_world0 demo_created"
    unfolding demo_created_def by (rule session_step.created [OF prod.collapse [symmetric]]) (simp add: session_world0_def)
  then have steps: "(session_step demo_actions demo_evaluator)\<^sup>*\<^sup>* session_world0 demo_created" by simp
  show ?thesis
    using terminated_session_final [where wa = session_world0 and ord = "\<lambda>_. [''s1'']" and create = None and n = False
        and m = demo_monitor and srt = "sort_key PrPriority" and pr = "\<lambda>_. []" and store = None
        and wb = demo_created and clock' = "\<lambda>_. 1", OF _ s prod.collapse [symmetric] rtranclp.rtrancl_refl,
        folded demo_actions_def demo_evaluator_def, unfolded w, OF steps] .
qed

definition demo_session :: Session where
  "demo_session = (new_session (\<lambda>_. 0) ''s1'' session_user ''d1'' 1 ''10.0.0.1'' [])\<lparr>SsPreviousIP := ''10.0.0.2''\<rparr>"

theorem evaluation_never_high_witness:
  "\<exists>result r'. Evaluate demo_evaluator (\<lambda>_. 7200000000000) () demo_session = (Ok result, r')
    \<and> ErRiskScore result = 30 \<and> ErRiskLevel result = ''medium'' \<and> ErRiskScore result \<le> 39
    \<and> ErRecommendedAction result \<in> {ActionNone, ActionRequireMFA}"
proof -
  let ?clock = "\<lambda>_. 7200000000000"
  obtain result where ev: "Evaluate demo_evaluator ?clock () demo_session = (Ok result, ())"
    using Evaluate_no_store [of demo_evaluator ?clock "()" demo_session]
    by (auto simp: demo_evaluator_def default_evaluator_def NewSessionEvaluator_def)
  have sc: "ErRiskScore result = 30"
    using Evaluate_result [OF ev]
    by (simp add: demo_evaluator_def default_evaluator_def NewSessionEvaluator_def CollectSignals_def demo_monitor_def
        NewRiskMonitor_def checkIPChange_def checkGeoJump_def checkIPReputation_def checkDeviceChange_def checkInactivity_def
        opt_list_def new_session_def demo_session_def in_minutes_def time_since_def calculateCombinedScore_def Let_def)
  moreover have "ErRiskLevel result = ''medium''"
    using Evaluate_result [OF ev] sc
    by (simp add: demo_evaluator_def default_evaluator_def NewSessionEvaluator_def scoreToLevel_def)
  moreover note evaluation_never_high [OF demo_evaluator_def [unfolded default_evaluator_def] _ _ ev]
  ultimately show ?thesis using ev by simp
qed

theorem DetermineAction_least_priority_witness:
  "fst (DetermineAction (\<lambda>_. []) (sort_key PrPriority) DefaultPolicyRules [''risk_level'' \<mapsto> EvString ''high'']) = ActionDowngrade"
  using DetermineAction_least_priority [of "sort_key PrPriority" DefaultPolicyRules "\<lambda>_. []" "[''risk_level'' \<mapsto> EvString ''high'']"]
  by (auto simp: DefaultPolicyRules_def matchAllConditions_def matchCondition_def)

section \<open>What the pieces allow\<close>

text \<open>
  A validation that has read the session before a concurrent termination writes it puts the old copy back: the
  terminated session is active again and later validations succeed.
\<close>

theorem validation_revives_terminated:
  assumes "w_sessions w i = Some s" and "SsID s = i" and "SsStatus s = SessionStatusActive" and "ev_riskStore e = None"
    and "TerminateSession (table_actions ord create n) clock1 uuid w i reason = (Ok (), w1)"
    and "clock2 13 \<le> SsExpiresAt s" and "clock3 13 \<le> SsExpiresAt s"
  shows "ended (w_sessions w1) i
    \<and> (\<exists>s2 w2 s3 w3. validate_read (table_actions ord create n) e clock2 w1 s = (Ok s2, w2)
         \<and> ValidateSession (table_actions ord create n) e clock3 w2 i = (Ok s3, w3) \<and> SsStatus s3 = SessionStatusActive)"
  using assms TerminateSession_table [OF assms(5)]
  by (simp add: ended_def validate_read_def ValidateSession_def QuickCheck_def IsExpired_def session_statuses Let_def)

theorem validation_revives_terminated_witness:
  "ended (w_sessions (snd (TerminateSession demo_actions (\<lambda>_. 0) ''e1'' demo_created ''s1'' ''logout''))) ''s1''
   \<and> (\<exists>s2 w2 s3 w3. validate_read demo_actions demo_evaluator (\<lambda>_. 0)
          (snd (TerminateSession demo_actions (\<lambda>_. 0) ''e1'' demo_created ''s1'' ''logout'')) (the (w_sessions demo_created ''s1'')) = (Ok s2, w2)
       \<and> ValidateSession demo_actions demo_evaluator (\<lambda>_. 0) w2 ''s1'' = (Ok s3, w3) \<and> SsStatus s3 = SessionStatusActive)"
proof -
  obtain s where s: "w_sessions demo_created ''s1'' = Some s" "SsID s = ''s1''" "SsStatus s = SessionStatusActive"
    "SsExpiresAt s = 86400000000000" using demo_created_session by blast
  have ok: "TerminateSession demo_actions (\<lambda>_. 0) ''e1'' demo_created ''s1'' ''logout''
      = (Ok (), snd (TerminateSession demo_actions (\<lambda>_. 0) ''e1'' demo_created ''s1'' ''logout''))"
    using s by (simp add: TerminateSession_def demo_actions_def Execute_def terminate_def session_actions Let_def recordEvent_def
        table_actions_def table_sessions_def w_Update_def)
  show ?thesis
    using validation_revives_terminated [OF s(1-3) _ ok [unfolded demo_actions_def], of demo_evaluator "\<lambda>_. 0" "\<lambda>_. 0"] s
    by (simp add: demo_actions_def [symmetric] demo_evaluator_def default_evaluator_def NewSessionEvaluator_def)
qed

text \<open>Raising a session after a second factor looks at no status: a terminated session becomes active.\<close>

lemma Upgrade_revives:
  "(case Upgrade (table_actions ord create n) clock uuid w s of (_, s1, w1) \<Rightarrow>
      w_sessions w1 = (w_sessions w)(SsID s \<mapsto> s1) \<and> SsStatus s1 = SessionStatusActive)"
  by (auto simp: Upgrade_def Let_def dest!: recordEventD split: prod.split)

text \<open>The authentication level stays between one and four.\<close>

lemma action_levels [simp]:
  "SsAuthLevel (fst (snd (requireMFA a now w s reason))) = SsAuthLevel s"
  "SsAuthLevel (fst (snd (downgrade a now w s reason))) = max 1 (SsAuthLevel s - 1)"
  "SsAuthLevel (fst (snd (terminate a now w s reason))) = SsAuthLevel s"
  by (simp_all add: requireMFA_def downgrade_def terminate_def Let_def split: prod.split outcome.split)

lemma after_action:
  "fst (snd (case x of (Ok _, s1, w1) \<Rightarrow> let (res, w2) = f s1 w1 in (res, s1, w2) | (res, s1, w1) \<Rightarrow> (res, s1, w1))) = fst (snd x)"
  by (auto split: prod.split outcome.split)

lemma Execute_level:
  "SsAuthLevel (fst (snd (Execute a clock uuid w s action reason)))
     = (if action = ActionDowngrade then max 1 (SsAuthLevel s - 1) else SsAuthLevel s)"
  unfolding Execute_def by (simp add: after_action session_actions)

lemma Upgrade_level: "SsAuthLevel (fst (snd (Upgrade a clock uuid w s))) = min (SsAuthLevel s + 1) 4"
  by (simp add: Upgrade_def Let_def split: prod.split outcome.split)

lemma auth_level_bounds:
  assumes "1 \<le> SsAuthLevel s" and "SsAuthLevel s \<le> 4"
  shows "SsAuthLevel (fst (snd (Execute a clock uuid w s action reason))) \<in> {1..4}"
    and "SsAuthLevel (fst (snd (Upgrade a clock uuid w s))) \<in> {1..4}"
  using assms by (auto simp: Execute_level Upgrade_level)

text \<open>The events of the actions carry the names of the actions, which are none of the declared types of events.\<close>

lemma action_events_undeclared:
  "action \<in> {ActionRequireMFA, ActionDowngrade, ActionTerminate, ActionMonitor} \<Longrightarrow> action \<notin> set session_event_types"
  by (auto simp: session_actions session_event_types_def SessionEventCreated_def SessionEventUpgraded_def)

text \<open>A batch has at most the configured size, when the searches respect their limits.\<close>

lemma batch_bounded:
  assumes "\<And>level k. int (length (se_FindByRiskLevel repo d level k)) \<le> max 0 k"
    and "\<And>k. int (length (se_FindActiveSessions repo d k)) \<le> max 0 k" and "0 < BatchSize c"
  shows "int (length (getSessionsNeedingEvaluation repo c clock d)) \<le> BatchSize c"
proof -
  let ?q = "quarter (BatchSize c)"
  have due: "int (length (due clock i ss)) \<le> int (length ss)" for i ss by (simp add: due_def)
  have q: "?q + ?q \<le> BatchSize c" "0 \<le> ?q" using assms(3) by (simp_all add: quarter_def)
  define x where "x = due clock (CriticalInterval c) (se_FindByRiskLevel repo d ''critical'' ?q)"
  define y where "y = due clock (HighRiskInterval c) (se_FindByRiskLevel repo d ''high'' ?q)"
  have x: "int (length x) \<le> ?q" and y: "int (length y) \<le> ?q"
    using order_trans [OF due assms(1) [of _ ?q]] q(2) by (auto simp: x_def y_def)
  have z: "int (length (due clock (DefaultInterval c) (se_FindActiveSessions repo d k))) \<le> max 0 k" for k
    using order_trans [OF due assms(2)] .
  have "int (length x) < BatchSize c" using x q assms(3) by (simp add: quarter_def)
  then have "getSessionsNeedingEvaluation repo c clock d = (if int (length (x @ y)) < BatchSize c
      then (x @ y) @ due clock (DefaultInterval c) (se_FindActiveSessions repo d (BatchSize c - int (length (x @ y)))) else x @ y)"
    by (simp only: getSessionsNeedingEvaluation_def Let_def x_def [symmetric] y_def [symmetric] if_True)
  then show ?thesis using x y q z [of "BatchSize c - int (length (x @ y))"] by (auto split: if_splits)
qed
end
