(* ===== verification/Sql_Table.thy ===== *)
theory Sql_Table
  imports Errors
begin

text \<open>
  The calls of the object-relational mapper that the PostgreSQL repositories make on one table, and a table
  that answers them as the indexes of the struct tags say: a primary key \<open>pk\<close> and one unique index \<open>uk\<close>.
  \<^verbatim>\<open>Save\<close> writes the row with the primary key of the object, or inserts it; \<^verbatim>\<open>First\<close> fails when no row meets
  the condition.
\<close>

section \<open>Calls\<close>

record ('d, 'a) gorm_table =
  db_create :: "'d \<Rightarrow> 'a \<Rightarrow> (go_error, unit) outcome \<times> 'd"
  db_first :: "'d \<Rightarrow> ('a \<Rightarrow> bool) \<Rightarrow> (go_error, 'a) outcome"
  db_find :: "'d \<Rightarrow> ('a \<Rightarrow> bool) \<Rightarrow> (go_error, 'a list) outcome"
  db_save :: "'d \<Rightarrow> 'a \<Rightarrow> (go_error, unit) outcome \<times> 'd"
  db_updates :: "'d \<Rightarrow> ('a \<Rightarrow> bool) \<Rightarrow> ('a \<Rightarrow> 'a) \<Rightarrow> (go_error, unit) outcome \<times> 'd"
  db_delete :: "'d \<Rightarrow> ('a \<Rightarrow> bool) \<Rightarrow> (go_error, unit) outcome \<times> 'd"

definition ErrRecordNotFound :: go_error where "ErrRecordNotFound = Errorf ''record not found''"

definition ErrDuplicatedKey :: go_error where
  "ErrDuplicatedKey = Errorf ''duplicate key value violates unique constraint''"

section \<open>A table\<close>

definition row_insert :: "('a \<Rightarrow> 'k) \<Rightarrow> ('a \<Rightarrow> 'u) \<Rightarrow> 'a list \<Rightarrow> 'a \<Rightarrow> (go_error, unit) outcome \<times> 'a list" where
  "row_insert pk uk rows x =
     (if list_ex (\<lambda>y. pk y = pk x \<or> uk y = uk x) rows then (Fail ErrDuplicatedKey, rows) else (Ok (), rows @ [x]))"

definition row_save :: "('a \<Rightarrow> 'k) \<Rightarrow> ('a \<Rightarrow> 'u) \<Rightarrow> 'a list \<Rightarrow> 'a \<Rightarrow> (go_error, unit) outcome \<times> 'a list" where
  "row_save pk uk rows x =
     (if list_ex (\<lambda>y. pk y \<noteq> pk x \<and> uk y = uk x) rows then (Fail ErrDuplicatedKey, rows)
      else if list_ex (\<lambda>y. pk y = pk x) rows then (Ok (), map (\<lambda>y. if pk y = pk x then x else y) rows)
      else (Ok (), rows @ [x]))"

definition row_db :: "('a \<Rightarrow> 'k) \<Rightarrow> ('a \<Rightarrow> 'u) \<Rightarrow> ('a list, 'a) gorm_table" where
  "row_db pk uk =
     \<lparr>db_create = row_insert pk uk,
      db_first = (\<lambda>rows P. case find P rows of None \<Rightarrow> Fail ErrRecordNotFound | Some x \<Rightarrow> Ok x),
      db_find = (\<lambda>rows P. Ok (filter P rows)),
      db_save = row_save pk uk,
      db_updates = (\<lambda>rows P f. (Ok (), map (\<lambda>x. if P x then f x else x) rows)),
      db_delete = (\<lambda>rows P. (Ok (), filter (\<lambda>x. \<not> P x) rows))\<rparr>"

lemma row_db_sel [simp]:
  "db_create (row_db pk uk) = row_insert pk uk"
  "db_first (row_db pk uk) rows P = (case find P rows of None \<Rightarrow> Fail ErrRecordNotFound | Some x \<Rightarrow> Ok x)"
  "db_find (row_db pk uk) rows P = Ok (filter P rows)"
  "db_save (row_db pk uk) = row_save pk uk"
  "db_updates (row_db pk uk) rows P f = (Ok (), map (\<lambda>x. if P x then f x else x) rows)"
  "db_delete (row_db pk uk) rows P = (Ok (), filter (\<lambda>x. \<not> P x) rows)"
  by (simp_all add: row_db_def)

definition unique_rows :: "('a \<Rightarrow> 'k) \<Rightarrow> ('a \<Rightarrow> 'u) \<Rightarrow> 'a list \<Rightarrow> bool" where
  "unique_rows pk uk rows \<longleftrightarrow> distinct (map pk rows) \<and> distinct (map uk rows)"

lemma unique_rows_Nil [simp]: "unique_rows pk uk []"
  by (simp add: unique_rows_def)

lemma unique_rowsD:
  assumes "unique_rows pk uk rows" and "x \<in> set rows" and "y \<in> set rows" and "pk x = pk y \<or> uk x = uk y"
  shows "x = y"
  using assms by (auto simp: unique_rows_def distinct_map dest: inj_onD)

lemma find_key:
  "distinct (map f rows) \<Longrightarrow> find (\<lambda>x. f x = v) rows = Some x \<longleftrightarrow> x \<in> set rows \<and> f x = v"
  by (induction rows) (auto simp: image_iff)

lemma find_row:
  assumes "unique_rows pk uk rows"
  shows "find (\<lambda>x. pk x = k) rows = Some x \<longleftrightarrow> x \<in> set rows \<and> pk x = k"
    and "find (\<lambda>x. uk x = u) rows = Some x \<longleftrightarrow> x \<in> set rows \<and> uk x = u"
  using assms by (simp_all add: unique_rows_def find_key)

lemma row_insert_Ok:
  assumes "row_insert pk uk rows x = (Ok (), rows')"
  shows "rows' = rows @ [x] \<and> (unique_rows pk uk rows \<longrightarrow> unique_rows pk uk rows')"
  using assms by (fastforce simp: row_insert_def unique_rows_def list_ex_iff split: if_splits)

lemma row_save_Ok:
  assumes "unique_rows pk uk rows" and "row_save pk uk rows x = (Ok (), rows')"
  shows "unique_rows pk uk rows' \<and> (\<forall>y. y \<in> set rows' \<longleftrightarrow> y = x \<or> y \<in> set rows \<and> pk y \<noteq> pk x)"
proof (cases "list_ex (\<lambda>y. pk y = pk x) rows")
  case True
  let ?f = "\<lambda>y. if pk y = pk x then x else y"
  from assms(2) True have rows': "rows' = map ?f rows" and c: "\<forall>y \<in> set rows. pk y \<noteq> pk x \<longrightarrow> uk y \<noteq> uk x"
    by (auto simp: row_save_def list_ex_iff split: if_splits)
  have p: "map pk (map ?f rows) = map pk rows" by auto
  have i: "inj_on uk (set (map ?f rows))"
  proof (rule inj_onI)
    fix a b assume "a \<in> set (map ?f rows)" "b \<in> set (map ?f rows)" and uk: "uk a = uk b"
    then obtain a' b' where ab: "a' \<in> set rows" "b' \<in> set rows" "a = ?f a'" "b = ?f b'" by auto
    show "a = b"
    proof (cases "pk a' = pk x \<or> pk b' = pk x")
      case True
      with ab uk c show ?thesis by (auto split: if_splits)
    next
      case False
      with ab uk unique_rowsD [OF assms(1), of a' b'] show ?thesis by simp
    qed
  qed
  have "distinct (map ?f rows)" using assms(1) p unfolding unique_rows_def by (metis distinct_map)
  with i have "distinct (map uk (map ?f rows))" using distinct_map [of uk "map ?f rows"] by blast
  with assms(1) have "unique_rows pk uk rows'" by (simp only: unique_rows_def rows' p simp_thms)
  moreover have "y \<in> set rows' \<longleftrightarrow> y = x \<or> y \<in> set rows \<and> pk y \<noteq> pk x" for y
    using True by (auto simp: rows' image_iff list_ex_iff)
  ultimately show ?thesis by blast
next
  case False
  with assms show ?thesis by (fastforce simp: row_save_def unique_rows_def list_ex_iff split: if_splits)
qed

lemma row_save_present:
  assumes "unique_rows pk uk rows" and "y \<in> set rows" and "pk x = pk y" and "uk x = uk y"
  shows "\<exists>rows'. row_save pk uk rows x = (Ok (), rows')"
proof -
  have "\<not> list_ex (\<lambda>z. pk z \<noteq> pk x \<and> uk z = uk x) rows"
    using unique_rowsD [OF assms(1,2)] assms(3,4) by (fastforce simp: list_ex_iff)
  then show ?thesis by (simp add: row_save_def)
qed

lemma row_save_cases: "row_save pk uk rows x = (res, rows') \<Longrightarrow> res = Ok () \<or> res = Fail ErrDuplicatedKey \<and> rows' = rows"
  by (auto simp: row_save_def split: if_splits)

lemma row_insert_cases: "row_insert pk uk rows x = (res, rows') \<Longrightarrow> res = Ok () \<or> res = Fail ErrDuplicatedKey \<and> rows' = rows"
  by (auto simp: row_insert_def split: if_splits)

lemma unique_rows_updates:
  assumes "unique_rows pk uk rows" and "\<And>x. pk (f x) = pk x" and "\<And>x. uk (f x) = uk x"
  shows "unique_rows pk uk (map (\<lambda>x. if P x then f x else x) rows)"
proof -
  have "map k (map (\<lambda>x. if P x then f x else x) rows) = map k rows" if "\<And>x. k (f x) = k x" for k :: "'a \<Rightarrow> 'c"
    using that by simp
  with assms show ?thesis by (simp add: unique_rows_def comp_def if_distrib cong: if_cong)
qed

lemma unique_rows_filter: "unique_rows pk uk rows \<Longrightarrow> unique_rows pk uk (filter P rows)"
  by (simp add: unique_rows_def distinct_map_filter)

end
