(* ===== verification/Devices.thy ===== *)
theory Devices
  imports Complex_Main Sql_Table Crypto_Manager "HOL-Library.List_Lexorder" "HOL-Library.Char_ord"
begin

text \<open>
  Devices and their fingerprints, \<^verbatim>\<open>internal/auth/device\<close>: the fingerprint hash, the anomaly detector, the trust
  score, the PostgreSQL repository and the service. A fingerprint is an association list with distinct keys,
  the contents of a Go map. \<^verbatim>\<open>json.Marshal\<close> and the hour of a time in the local time zone are
  arguments; degrees, distances and speeds are real numbers where the code rounds to floating point.
\<close>

section \<open>Fingerprints\<close>

type_synonym fingerprint = "(string \<times> gvalue) list"

record Device =
  DvID :: string
  DvTenantID :: string
  DvUserID :: string
  DvFingerprint :: string
  DvFingerprintRaw :: fingerprint
  DvDeviceName :: string
  DvDeviceType :: string
  DvOS :: string
  DvBrowser :: string
  DvTrustScore :: int
  DvLastIP :: string
  DvLastLocation :: string
  DvLastActiveAt :: time
  DvCreatedAt :: time
  DvUpdatedAt :: time
  DvBoundAt :: "time option"

definition stableFields :: "string list" where
  "stableFields = [''user_agent'', ''screen_resolution'', ''timezone'', ''language'', ''platform'', ''cpu_class'',
     ''hardware_concurrency'', ''device_memory'', ''canvas_hash'', ''webgl_hash'']"

definition GenerateHash :: "(gvalue \<Rightarrow> string) \<Rightarrow> fingerprint \<Rightarrow> string" where
  "GenerateHash marshal data =
     (let normalized = filter (\<lambda>f. map_of data f \<noteq> None) stableFields;
          keys = sort normalized;
          sb = concat (map (\<lambda>k. k @ '':'' @ marshal (the (map_of data k)) @ '';'') keys)
      in hex_encode (sha256 (bytes_of sb)))"

definition compare_fields :: "string list" where
  "compare_fields = stableFields @ [''plugins'', ''fonts'']"

definition isValueEqual :: "(gvalue \<Rightarrow> string) \<Rightarrow> gvalue \<Rightarrow> gvalue \<Rightarrow> bool" where
  "isValueEqual marshal v1 v2 \<longleftrightarrow> marshal v1 = marshal v2"

definition Compare :: "(gvalue \<Rightarrow> string) \<Rightarrow> fingerprint \<Rightarrow> fingerprint \<Rightarrow> real" where
  "Compare marshal oldData newData =
     (if oldData = [] \<or> newData = [] then 0
      else let checked = filter (\<lambda>f. map_of oldData f \<noteq> None) compare_fields;
               matches = filter (\<lambda>f. case (map_of oldData f, map_of newData f) of
                           (Some oldVal, Some newVal) \<Rightarrow> isValueEqual marshal oldVal newVal | _ \<Rightarrow> False) checked
           in if checked = [] then 0 else real (length matches) / real (length checked))"

section \<open>Anomalies\<close>

type_synonym AnomalyType = string

definition AnomalyGeoJump :: AnomalyType where "AnomalyGeoJump = ''geo_jump''"
definition AnomalyFingerprintChange :: AnomalyType where "AnomalyFingerprintChange = ''fingerprint_change''"
definition AnomalyUnusualTime :: AnomalyType where "AnomalyUnusualTime = ''unusual_time''"

record AnomalyResult =
  ArDetected :: bool
  ArType :: AnomalyType
  ArSeverity :: string
  ArDetails :: string
  ArConfidence :: real

definition not_detected :: AnomalyResult where
  "not_detected = \<lparr>ArDetected = False, ArType = [], ArSeverity = [], ArDetails = [], ArConfidence = 0\<rparr>"

record AnomalyDetector =
  ad_geoService :: "(string \<Rightarrow> (go_error, real \<times> real) outcome) option"
  ad_maxSpeedKmH :: real
  ad_fingerprintThreshold :: real

definition NewAnomalyDetector ::
    "(string \<Rightarrow> (go_error, real \<times> real) outcome) option \<Rightarrow> real \<Rightarrow> real \<Rightarrow> AnomalyDetector" where
  "NewAnomalyDetector geo maxSpeedKmH fingerprintThreshold =
     \<lparr>ad_geoService = geo, ad_maxSpeedKmH = (if maxSpeedKmH = 0 then 900 else maxSpeedKmH),
      ad_fingerprintThreshold = (if fingerprintThreshold = 0 then 7 / 10 else fingerprintThreshold)\<rparr>"

text \<open>\<^verbatim>\<open>math.Atan2(y, x)\<close> for arguments that are not negative, as the two distance functions call it.\<close>

definition atan2_pos :: "real \<Rightarrow> real \<Rightarrow> real" where
  "atan2_pos y x = (if x = 0 then (if y = 0 then 0 else pi / 2) else arctan (y / x))"

definition haversineDistance :: "real \<Rightarrow> real \<Rightarrow> real \<Rightarrow> real \<Rightarrow> real" where
  "haversineDistance lat1 lon1 lat2 lon2 =
     (let dLat = (lat2 - lat1) * (pi / 180); dLon = (lon2 - lon1) * (pi / 180);
          a = sin (dLat / 2) * sin (dLat / 2)
              + cos (lat1 * (pi / 180)) * cos (lat2 * (pi / 180)) * sin (dLon / 2) * sin (dLon / 2)
      in 6371 * (2 * atan2_pos (sqrt a) (sqrt (1 - a))))"

definition hours :: "int \<Rightarrow> real" where "hours d = real_of_int d / 3600000000000"

definition geo_jump :: "string \<Rightarrow> AnomalyResult" where
  "geo_jump details = \<lparr>ArDetected = True, ArType = AnomalyGeoJump, ArSeverity = ''high'', ArDetails = details, ArConfidence = 1\<rparr>"

definition DetectGeoJump ::
    "AnomalyDetector \<Rightarrow> string \<Rightarrow> time \<Rightarrow> string \<Rightarrow> time \<Rightarrow> (go_error, AnomalyResult) outcome" where
  "DetectGeoJump d prevIP prevTime currIP currTime =
     (case ad_geoService d of
        None \<Rightarrow> Ok not_detected
      | Some GetLocation \<Rightarrow>
          if prevIP = [] \<or> currIP = [] then Ok not_detected
          else case (GetLocation prevIP, GetLocation currIP) of
            (Panic, _) \<Rightarrow> Panic
          | (_, Panic) \<Rightarrow> Panic
          | (Ok (lat1, lon1), Ok (lat2, lon2)) \<Rightarrow>
              (let distance = haversineDistance lat1 lon1 lat2 lon2;
                   timeDiff = hours (time_since currTime prevTime)
               in Ok (if timeDiff \<le> 0
                      then if distance > 100 then geo_jump ''Distance > 100km with zero or negative time difference''
                           else not_detected
                      else if distance / timeDiff > ad_maxSpeedKmH d then geo_jump ''Speed exceeds threshold''
                      else not_detected))
          | _ \<Rightarrow> Ok not_detected)"

text \<open>
  Comparing two interface values compares their dynamic types first; two values of the same type that is not
  comparable, slices or maps, make the comparison panic.
\<close>

fun go_differ :: "gvalue \<Rightarrow> gvalue \<Rightarrow> (go_error, bool) outcome" where
  "go_differ (VList _) (VList _) = Panic"
| "go_differ (VStrings _) (VStrings _) = Panic"
| "go_differ (VMap _) (VMap _) = Panic"
| "go_differ v1 v2 = Ok (v1 \<noteq> v2)"

fun count_changes :: "fingerprint \<Rightarrow> fingerprint \<Rightarrow> string list \<Rightarrow> (go_error, nat) outcome" where
  "count_changes oldFP newFP [] = Ok 0"
| "count_changes oldFP newFP (field # fs) =
     obind (case (map_of oldFP field, map_of newFP field) of
              (Some v1, Some v2) \<Rightarrow> go_differ v1 v2 | _ \<Rightarrow> Ok False)
       (\<lambda>changed. obind (count_changes oldFP newFP fs) (\<lambda>n. Ok (if changed then Suc n else n)))"

definition fingerprint_change :: "string \<Rightarrow> string \<Rightarrow> real \<Rightarrow> AnomalyResult" where
  "fingerprint_change severity details confidence = \<lparr>ArDetected = True, ArType = AnomalyFingerprintChange,
     ArSeverity = severity, ArDetails = details, ArConfidence = confidence\<rparr>"

definition DetectFingerprintChange :: "fingerprint \<Rightarrow> fingerprint \<Rightarrow> (go_error, AnomalyResult) outcome" where
  "DetectFingerprintChange oldFP newFP =
     obind (count_changes oldFP newFP [''screen_resolution'', ''timezone'', ''platform''])
       (\<lambda>coreChanges.
          if coreChanges \<ge> 2
          then Ok (fingerprint_change ''critical'' ''Multiple core fingerprint fields changed'' (9 / 10))
          else obind (count_changes oldFP newFP [''plugins'', ''fonts'', ''canvas_hash''])
            (\<lambda>minorChanges.
               if minorChanges \<ge> 3
               then Ok (fingerprint_change ''medium'' ''Multiple minor fingerprint fields changed'' (7 / 10))
               else Ok not_detected))"

definition DetectUnusualTime :: "(time \<Rightarrow> int) \<Rightarrow> time \<Rightarrow> time list \<Rightarrow> AnomalyResult" where
  "DetectUnusualTime hour accessTime historicalTimes =
     (if length historicalTimes < 10 then not_detected
      else let hourCounts = (\<lambda>h. length (filter (\<lambda>t. hour t = h) historicalTimes));
               probability = real (hourCounts (hour accessTime)) / real (length historicalTimes)
           in if probability < 5 / 100
              then \<lparr>ArDetected = True, ArType = AnomalyUnusualTime, ArSeverity = ''low'',
                    ArDetails = ''Access time is unusual for this user'', ArConfidence = 6 / 10\<rparr>
              else not_detected)"

section \<open>Trust\<close>

type_synonym TrustLevel = string

record DeviceTrustConfig =
  BaseScore :: int
  AgeBonus :: int
  MaxAgeBonus :: int
  BoundBonus :: int
  FrequencyBonus :: int
  VerifiedBonus :: int
  MaxSpeedKmH :: real
  FingerprintThreshold :: real

definition NewTrustScorer :: "DeviceTrustConfig \<Rightarrow> DeviceTrustConfig" where
  "NewTrustScorer c =
     \<lparr>BaseScore = (if BaseScore c = 0 then 20 else BaseScore c),
      AgeBonus = (if AgeBonus c = 0 then 1 else AgeBonus c),
      MaxAgeBonus = (if MaxAgeBonus c = 0 then 30 else MaxAgeBonus c),
      BoundBonus = (if BoundBonus c = 0 then 20 else BoundBonus c),
      FrequencyBonus = (if FrequencyBonus c = 0 then 10 else FrequencyBonus c),
      VerifiedBonus = (if VerifiedBonus c = 0 then 20 else VerifiedBonus c),
      MaxSpeedKmH = MaxSpeedKmH c, FingerprintThreshold = FingerprintThreshold c\<rparr>"

text \<open>\<^verbatim>\<open>int(d.Hours() / 24)\<close>: whole days, truncated towards zero.\<close>

definition whole_days :: "int \<Rightarrow> int" where
  "whole_days d = (if 0 \<le> d then d div 86400000000000 else - ((- d) div 86400000000000))"

definition CalculateScore :: "DeviceTrustConfig \<Rightarrow> time \<Rightarrow> Device \<Rightarrow> int" where
  "CalculateScore c now device =
     (let s1 = (if DvCreatedAt device = zero_time then BaseScore c
                else let ageBonus = go_int (whole_days (time_since now (DvCreatedAt device)) * AgeBonus c)
                     in go_int (BaseScore c + (if ageBonus > MaxAgeBonus c then MaxAgeBonus c else ageBonus)));
          s2 = (if DvUserID device \<noteq> [] then go_int (s1 + BoundBonus c) else s1);
          s3 = (case DvBoundAt device of
                  None \<Rightarrow> s2
                | Some t \<Rightarrow> if t \<noteq> zero_time \<and> whole_days (time_since now t) > 7 then go_int (s2 + VerifiedBonus c) else s2);
          s4 = (if s3 > 100 then 100 else s3)
      in if s4 < 0 then 0 else s4)"

definition TrustLevelLow :: TrustLevel where "TrustLevelLow = ''low''"
definition TrustLevelMedium :: TrustLevel where "TrustLevelMedium = ''medium''"
definition TrustLevelHigh :: TrustLevel where "TrustLevelHigh = ''high''"
definition TrustLevelVerified :: TrustLevel where "TrustLevelVerified = ''verified''"

definition ts_GetTrustLevel :: "int \<Rightarrow> TrustLevel" where
  "ts_GetTrustLevel score =
     (if score < 30 then TrustLevelLow else if score < 60 then TrustLevelMedium
      else if score < 80 then TrustLevelHigh else TrustLevelVerified)"

section \<open>The repository\<close>

text \<open>
  Creating and updating a device fills in times of the object that the caller passed a pointer to, so these calls
  return it. \<open>now\<close> is the clock of the call.
\<close>

record 'd DeviceRepository =
  dr_Create :: "time \<Rightarrow> 'd \<Rightarrow> Device \<Rightarrow> (go_error, unit) outcome \<times> Device \<times> 'd"
  dr_GetByID :: "'d \<Rightarrow> string \<Rightarrow> (go_error, Device option) outcome"
  dr_GetByFingerprint :: "'d \<Rightarrow> string \<Rightarrow> (go_error, Device option) outcome"
  dr_GetByUserID :: "'d \<Rightarrow> string \<Rightarrow> (go_error, Device list) outcome"
  dr_Update :: "time \<Rightarrow> 'd \<Rightarrow> Device \<Rightarrow> (go_error, unit) outcome \<times> Device \<times> 'd"
  dr_Delete :: "'d \<Rightarrow> string \<Rightarrow> (go_error, unit) outcome \<times> 'd"
  dr_UpdateTrustScore :: "time \<Rightarrow> 'd \<Rightarrow> string \<Rightarrow> int \<Rightarrow> (go_error, unit) outcome \<times> 'd"
  dr_UpdateLastActive :: "time \<Rightarrow> 'd \<Rightarrow> string \<Rightarrow> string \<Rightarrow> string \<Rightarrow> (go_error, unit) outcome \<times> 'd"

definition pgd_Create :: "('d, Device) gorm_table \<Rightarrow> time \<Rightarrow> 'd \<Rightarrow> Device \<Rightarrow> (go_error, unit) outcome \<times> Device \<times> 'd" where
  "pgd_Create db now d device =
     (let device1 = device\<lparr>DvCreatedAt := (if DvCreatedAt device = zero_time then now else DvCreatedAt device),
                           DvUpdatedAt := (if DvUpdatedAt device = zero_time then now else DvUpdatedAt device)\<rparr>;
          (res, d1) = db_create db d device1
      in (res, device1, d1))"

definition pgd_GetByID :: "('d, Device) gorm_table \<Rightarrow> 'd \<Rightarrow> string \<Rightarrow> (go_error, Device option) outcome" where
  "pgd_GetByID db d i = obind (db_first db d (\<lambda>x. DvID x = i)) (\<lambda>x. Ok (Some x))"

definition pgd_GetByFingerprint :: "('d, Device) gorm_table \<Rightarrow> 'd \<Rightarrow> string \<Rightarrow> (go_error, Device option) outcome" where
  "pgd_GetByFingerprint db d fp =
     (case db_first db d (\<lambda>x. DvFingerprint x = fp) of
        Panic \<Rightarrow> Panic
      | Fail err \<Rightarrow> if err = ErrRecordNotFound then Ok None else Fail err
      | Ok x \<Rightarrow> Ok (Some x))"

definition pgd_Update :: "('d, Device) gorm_table \<Rightarrow> time \<Rightarrow> 'd \<Rightarrow> Device \<Rightarrow> (go_error, unit) outcome \<times> Device \<times> 'd" where
  "pgd_Update db now d device =
     (let device1 = device\<lparr>DvUpdatedAt := now\<rparr>; (res, d1) = db_save db d device1 in (res, device1, d1))"

definition pgd_UpdateTrustScore :: "('d, Device) gorm_table \<Rightarrow> time \<Rightarrow> 'd \<Rightarrow> string \<Rightarrow> int \<Rightarrow> (go_error, unit) outcome \<times> 'd" where
  "pgd_UpdateTrustScore db now d i score =
     db_updates db d (\<lambda>x. DvID x = i) (\<lambda>x. x\<lparr>DvTrustScore := score, DvUpdatedAt := now\<rparr>)"

definition pgd_UpdateLastActive ::
    "('d, Device) gorm_table \<Rightarrow> time \<Rightarrow> 'd \<Rightarrow> string \<Rightarrow> string \<Rightarrow> string \<Rightarrow> (go_error, unit) outcome \<times> 'd" where
  "pgd_UpdateLastActive db now d i ip location =
     db_updates db d (\<lambda>x. DvID x = i)
       (\<lambda>x. x\<lparr>DvLastActiveAt := now, DvUpdatedAt := now, DvLastIP := (if ip \<noteq> [] then ip else DvLastIP x),
              DvLastLocation := (if location \<noteq> [] then location else DvLastLocation x)\<rparr>)"

definition pg_devices :: "('d, Device) gorm_table \<Rightarrow> 'd DeviceRepository" where
  "pg_devices db =
     \<lparr>dr_Create = pgd_Create db, dr_GetByID = pgd_GetByID db, dr_GetByFingerprint = pgd_GetByFingerprint db,
      dr_GetByUserID = (\<lambda>d u. db_find db d (\<lambda>x. DvUserID x = u)), dr_Update = pgd_Update db,
      dr_Delete = (\<lambda>d i. db_delete db d (\<lambda>x. DvID x = i)),
      dr_UpdateTrustScore = pgd_UpdateTrustScore db, dr_UpdateLastActive = pgd_UpdateLastActive db\<rparr>"

section \<open>The service\<close>

record 'd DeviceService =
  ds_repo :: "'d DeviceRepository"
  ds_trust :: DeviceTrustConfig
  ds_detector :: "AnomalyDetector option"
  ds_marshal :: "gvalue \<Rightarrow> string"

definition ErrDeviceAlreadyBound :: go_error where "ErrDeviceAlreadyBound = Errorf ''device already bound to another user''"
definition ErrNotDeviceOwner :: go_error where "ErrNotDeviceOwner = Errorf ''user does not own this device''"

text \<open>Both results of the detector are computed and dropped; only a panic shows.\<close>

definition detect_anomalies :: "'d DeviceService \<Rightarrow> time \<Rightarrow> Device \<Rightarrow> fingerprint \<Rightarrow> string \<Rightarrow> (go_error, unit) outcome" where
  "detect_anomalies s now existing data ip =
     (case ds_detector s of
        None \<Rightarrow> Ok ()
      | Some det \<Rightarrow>
          obind (DetectGeoJump det (DvLastIP existing) (DvLastActiveAt existing) ip now)
            (\<lambda>_. obind (DetectFingerprintChange (DvFingerprintRaw existing) data) (\<lambda>_. Ok ())))"

definition RegisterOrUpdate ::
    "'d DeviceService \<Rightarrow> (nat \<Rightarrow> time) \<Rightarrow> string \<Rightarrow> 'd \<Rightarrow> fingerprint \<Rightarrow> string \<Rightarrow> string \<Rightarrow> (go_error, Device) outcome \<times> 'd" where
  "RegisterOrUpdate s clock uuid d data ip tenantID =
     (case dr_GetByFingerprint (ds_repo s) d (GenerateHash (ds_marshal s) data) of
        Panic \<Rightarrow> (Panic, d)
      | Fail err \<Rightarrow> (Fail err, d)
      | Ok (Some existing) \<Rightarrow>
          (case detect_anomalies s (clock 0) existing data ip of
             Ok _ \<Rightarrow>
               (let e1 = existing\<lparr>DvLastIP := ip, DvFingerprintRaw := data, DvLastActiveAt := clock 1\<rparr>;
                    e2 = e1\<lparr>DvTrustScore := CalculateScore (ds_trust s) (clock 2) e1\<rparr>;
                    (res, e3, d1) = dr_Update (ds_repo s) (clock 3) d e2
                in (obind res (\<lambda>_. Ok e3), d1))
           | Fail err \<Rightarrow> (Fail err, d)
           | Panic \<Rightarrow> (Panic, d))
      | Ok None \<Rightarrow>
          (let now = clock 0;
               n1 = \<lparr>DvID = uuid, DvTenantID = tenantID, DvUserID = [], DvFingerprint = GenerateHash (ds_marshal s) data,
                     DvFingerprintRaw = data, DvDeviceName = [], DvDeviceType = [], DvOS = [], DvBrowser = [],
                     DvTrustScore = 0, DvLastIP = ip, DvLastLocation = [], DvLastActiveAt = now, DvCreatedAt = now,
                     DvUpdatedAt = now, DvBoundAt = None\<rparr>;
               n2 = n1\<lparr>DvTrustScore := CalculateScore (ds_trust s) (clock 1) n1\<rparr>;
               (res, n3, d1) = dr_Create (ds_repo s) (clock 2) d n2
           in (obind res (\<lambda>_. Ok n3), d1)))"

definition BindToUser ::
    "'d DeviceService \<Rightarrow> (nat \<Rightarrow> time) \<Rightarrow> 'd \<Rightarrow> string \<Rightarrow> string \<Rightarrow> (go_error, unit) outcome \<times> 'd" where
  "BindToUser s clock d deviceID userID =
     (case dr_GetByID (ds_repo s) d deviceID of
        Panic \<Rightarrow> (Panic, d)
      | Fail err \<Rightarrow> (Fail err, d)
      | Ok None \<Rightarrow> (Fail (Errorf ''device not found''), d)
      | Ok (Some device) \<Rightarrow>
          if DvUserID device \<noteq> [] \<and> DvUserID device \<noteq> userID then (Fail ErrDeviceAlreadyBound, d)
          else let d1 = device\<lparr>DvUserID := userID, DvBoundAt := Some (clock 0)\<rparr>;
                   d2 = d1\<lparr>DvTrustScore := CalculateScore (ds_trust s) (clock 1) d1\<rparr>;
                   (res, _, d') = dr_Update (ds_repo s) (clock 2) d d2
               in (res, d'))"

definition UnbindFromUser ::
    "'d DeviceService \<Rightarrow> (nat \<Rightarrow> time) \<Rightarrow> 'd \<Rightarrow> string \<Rightarrow> string \<Rightarrow> (go_error, unit) outcome \<times> 'd" where
  "UnbindFromUser s clock d deviceID userID =
     (case dr_GetByID (ds_repo s) d deviceID of
        Panic \<Rightarrow> (Panic, d)
      | Fail err \<Rightarrow> (Fail err, d)
      | Ok None \<Rightarrow> (Fail (Errorf ''device not found''), d)
      | Ok (Some device) \<Rightarrow>
          if DvUserID device \<noteq> userID then (Fail ErrNotDeviceOwner, d)
          else let d1 = device\<lparr>DvUserID := [], DvBoundAt := None\<rparr>;
                   d2 = d1\<lparr>DvTrustScore := CalculateScore (ds_trust s) (clock 0) d1\<rparr>;
                   (res, _, d') = dr_Update (ds_repo s) (clock 1) d d2
               in (res, d'))"

definition GetUserDevices :: "'d DeviceService \<Rightarrow> 'd \<Rightarrow> string \<Rightarrow> (go_error, Device list) outcome" where
  "GetUserDevices s d userID = dr_GetByUserID (ds_repo s) d userID"

definition ds_GetTrustLevel :: "'d DeviceService \<Rightarrow> 'd \<Rightarrow> string \<Rightarrow> (go_error, TrustLevel) outcome" where
  "ds_GetTrustLevel s d deviceID =
     obind (dr_GetByID (ds_repo s) d deviceID)
       (\<lambda>x. case x of None \<Rightarrow> Fail (Errorf ''device not found'') | Some device \<Rightarrow> Ok (ts_GetTrustLevel (DvTrustScore device)))"


section \<open>Distances\<close>

lemma haversine_term:
  fixes x :: real
  assumes "\<bar>lat1\<bar> \<le> 90" and "\<bar>lat2\<bar> \<le> 90"
  defines "a \<equiv> sin ((lat2 - lat1) * (pi / 180) / 2) * sin ((lat2 - lat1) * (pi / 180) / 2)
      + cos (lat1 * (pi / 180)) * cos (lat2 * (pi / 180)) * sin x * sin x"
  shows "0 \<le> a \<and> a \<le> 1"
proof -
  let ?p = "lat1 * (pi / 180)" and ?q = "lat2 * (pi / 180)"
  have range: "- (pi / 2) \<le> l * (pi / 180) \<and> l * (pi / 180) \<le> pi / 2" if "\<bar>l\<bar> \<le> 90" for l
    using that mult_right_mono [of "- 90" l "pi / 180"] mult_right_mono [of l 90 "pi / 180"] by (simp add: abs_le_iff)
  have c: "0 \<le> cos ?p * cos ?q"
    using range [OF assms(1)] range [OF assms(2)] by (intro mult_nonneg_nonneg cos_ge_zero) auto
  have x: "0 \<le> sin x * sin x" "sin x * sin x \<le> 1"
    using abs_square_le_1 [of "sin x"] by (simp_all add: power2_eq_square)
  have d: "(lat2 - lat1) * (pi / 180) = ?q - ?p" by (rule left_diff_distrib)
  have s: "sin (z / 2) * sin (z / 2) = (1 - cos z) / 2" for z :: real
    using cos_double_sin [of "z / 2"] by (simp add: power2_eq_square)
  have p: "cos ?p * cos ?q = (cos (?q - ?p) + cos (?q + ?p)) / 2"
    by (simp add: cos_diff cos_add)
  have "cos ?p * cos ?q * (sin x * sin x) \<le> cos ?p * cos ?q"
    using mult_left_mono [OF x(2) c] by simp
  moreover have "0 \<le> cos ?p * cos ?q * (sin x * sin x)" using c x(1) by simp
  moreover have "0 \<le> (1 - u) / 2 + k \<and> (1 - u) / 2 + k \<le> 1"
    if "k \<le> m" "0 \<le> k" "m = (u + v) / 2" "u \<le> 1" "v \<le> 1" for k m u v :: real
    using that by (simp add: field_simps)
  ultimately have "0 \<le> (1 - cos (?q - ?p)) / 2 + cos ?p * cos ?q * (sin x * sin x)
      \<and> (1 - cos (?q - ?p)) / 2 + cos ?p * cos ?q * (sin x * sin x) \<le> 1"
    using p cos_le_one by blast
  then show ?thesis unfolding a_def d s by (simp only: mult.assoc)
qed

lemma atan2_pos_range: "0 \<le> y \<Longrightarrow> 0 \<le> x \<Longrightarrow> 0 \<le> atan2_pos y x \<and> atan2_pos y x \<le> pi / 2"
  using arctan_ubound [of "y / x"] pi_gt_zero by (auto simp: atan2_pos_def)

lemma haversine_range:
  assumes "\<bar>lat1\<bar> \<le> 90" and "\<bar>lat2\<bar> \<le> 90"
  shows "0 \<le> haversineDistance lat1 lon1 lat2 lon2 \<and> haversineDistance lat1 lon1 lat2 lon2 \<le> 6371 * pi"
proof -
  let ?a = "sin ((lat2 - lat1) * (pi / 180) / 2) * sin ((lat2 - lat1) * (pi / 180) / 2)
      + cos (lat1 * (pi / 180)) * cos (lat2 * (pi / 180)) * sin ((lon2 - lon1) * (pi / 180) / 2)
        * sin ((lon2 - lon1) * (pi / 180) / 2)"
  have "0 \<le> atan2_pos (sqrt ?a) (sqrt (1 - ?a)) \<and> atan2_pos (sqrt ?a) (sqrt (1 - ?a)) \<le> pi / 2"
    using haversine_term [OF assms] by (intro atan2_pos_range) auto
  then show ?thesis by (simp add: haversineDistance_def Let_def)
qed

text \<open>
  The distance of two places lies between zero and half the circumference of the earth, does not depend on
  the direction, and is zero from a place to itself.
\<close>

theorem haversineDistance_bounds:
  assumes "\<bar>lat1\<bar> \<le> 90" and "\<bar>lat2\<bar> \<le> 90"
  shows "0 \<le> haversineDistance lat1 lon1 lat2 lon2 \<and> haversineDistance lat1 lon1 lat2 lon2 \<le> 6371 * pi
    \<and> haversineDistance lat1 lon1 lat2 lon2 = haversineDistance lat2 lon2 lat1 lon1
    \<and> haversineDistance lat1 lon1 lat1 lon1 = 0"
proof -
  have neg: "sin ((u - v) * (pi / 180) / 2) = - sin ((v - u) * (pi / 180) / 2)" for u v :: real
  proof -
    have "(u - v) * (pi / 180) / 2 = - ((v - u) * (pi / 180) / 2)" by (simp add: field_simps)
    then show ?thesis by (simp only: sin_minus)
  qed
  have "haversineDistance lat1 lon1 lat2 lon2 = haversineDistance lat2 lon2 lat1 lon1"
    unfolding haversineDistance_def Let_def neg [of lat1 lat2] neg [of lon1 lon2] by (simp add: mult.commute)
  moreover have "haversineDistance lat1 lon1 lat1 lon1 = 0"
    by (simp add: haversineDistance_def atan2_pos_def)
  ultimately show ?thesis using haversine_range [OF assms, of lon1 lon2] by blast
qed

theorem haversineDistance_bounds_witness:
  "0 \<le> haversineDistance 40 116 31 121 \<and> haversineDistance 40 116 31 121 \<le> 6371 * pi"
  using haversineDistance_bounds [of 40 31 116 121] by simp

text \<open>No pair of places is reported as a jump at the default speed when thirty hours lie between the visits.\<close>

lemma no_jump_after_thirty_hours:
  assumes "ad_geoService det = Some loc" and "\<And>ip lat lon. loc ip = Ok (lat, lon) \<Longrightarrow> \<bar>lat\<bar> \<le> 90"
    and "\<And>ip. loc ip \<noteq> Panic"
    and "ad_maxSpeedKmH det = 900" and "t1 + 108000000000000 \<le> t2" and "t2 - t1 < 2 ^ 63"
  shows "DetectGeoJump det ip1 t1 ip2 t2 = Ok not_detected"
proof -
  have diff: "30 \<le> hours (time_since t2 t1)" using assms(5,6) by (simp add: hours_def time_since_def max_def min_def)
  have "haversineDistance lat1 lon1 lat2 lon2 / hours (time_since t2 t1) \<le> 900"
    if "loc ip1 = Ok (lat1, lon1)" "loc ip2 = Ok (lat2, lon2)" for lat1 lon1 lat2 lon2
  proof -
    have "haversineDistance lat1 lon1 lat2 lon2 \<le> 6371 * pi"
      using haversine_range [OF assms(2) [OF that(1)] assms(2) [OF that(2)], of lon1 lon2] by simp
    also have "\<dots> \<le> 6371 * 4" using pi_less_4 by simp
    also have "\<dots> \<le> 900 * hours (time_since t2 t1)" using diff by simp
    finally show ?thesis using diff by (simp add: divide_le_eq)
  qed
  then show ?thesis
    using diff assms(1,3,4)
    by (fastforce simp: DetectGeoJump_def Let_def split: outcome.splits)
qed

section \<open>The contract of the repository\<close>

text \<open>The score is between 0 and 100 for every configuration and every time.\<close>

lemma CalculateScore_range: "0 \<le> CalculateScore c now x \<and> CalculateScore c now x \<le> 100"
  by (simp add: CalculateScore_def Let_def)

locale device_store =
  fixes repo :: "'d DeviceRepository" and inv :: "'d \<Rightarrow> bool" and stored :: "'d \<Rightarrow> Device \<Rightarrow> bool"
  assumes by_id: "inv d \<Longrightarrow> dr_GetByID repo d i = Ok (Some x) \<longleftrightarrow> stored d x \<and> DvID x = i"
    and by_fingerprint: "inv d \<Longrightarrow> dr_GetByFingerprint repo d f = Ok (Some x) \<longleftrightarrow> stored d x \<and> DvFingerprint x = f"
    and create: "inv d \<Longrightarrow> dr_Create repo now d x = (res, x', d') \<Longrightarrow>
      inv d' \<and> DvTrustScore x' = DvTrustScore x \<and> DvID x' = DvID x
      \<and> (if res = Ok () then \<forall>y. stored d' y \<longleftrightarrow> stored d y \<or> y = x' else d' = d)"
    and update: "inv d \<Longrightarrow> stored d y \<Longrightarrow> DvID x = DvID y \<Longrightarrow> DvFingerprint x = DvFingerprint y \<Longrightarrow>
      \<exists>d'. dr_Update repo now d x = (Ok (), x\<lparr>DvUpdatedAt := now\<rparr>, d') \<and> inv d'
        \<and> (\<forall>z. stored d' z \<longleftrightarrow> z = x\<lparr>DvUpdatedAt := now\<rparr> \<or> stored d z \<and> DvID z \<noteq> DvID x)"
begin

lemma same_id: "inv d \<Longrightarrow> stored d x \<Longrightarrow> stored d y \<Longrightarrow> DvID x = DvID y \<Longrightarrow> x = y"
  using by_id [of d "DvID y" x] by_id [of d "DvID y" y] by simp

text \<open>
  What an operation does to the devices that were there: every one is still there, with its identifier,
  and has the owner it had unless \<open>changed\<close> allows otherwise; all scores in the table are in range if they were.
\<close>

definition keeps :: "(string \<Rightarrow> string \<Rightarrow> bool) \<Rightarrow> 'd \<Rightarrow> 'd \<Rightarrow> bool" where
  "keeps changed d d' \<longleftrightarrow> inv d'
     \<and> (\<forall>x. stored d x \<longrightarrow> (\<exists>x'. stored d' x' \<and> DvID x' = DvID x \<and> (DvUserID x' = DvUserID x \<or> changed (DvID x) (DvUserID x))))
     \<and> ((\<forall>x. stored d x \<longrightarrow> DvTrustScore x \<in> {0..100}) \<longrightarrow> (\<forall>x. stored d' x \<longrightarrow> DvTrustScore x \<in> {0..100}))"

lemma keeps_refl: "inv d \<Longrightarrow> keeps c d d"
  by (auto simp: keeps_def)

lemma keeps_mono: "keeps c d d' \<Longrightarrow> (\<And>i u. c i u \<Longrightarrow> c' i u) \<Longrightarrow> keeps c' d d'"
  unfolding keeps_def by blast

lemma keeps_trans:
  assumes "keeps c d d'" and "keeps c' d' d''"
  shows "keeps (\<lambda>i u. c i u \<or> c' i u) d d''"
proof -
  have "\<exists>z. stored d'' z \<and> DvID z = DvID x \<and> (DvUserID z = DvUserID x \<or> c (DvID x) (DvUserID x) \<or> c' (DvID x) (DvUserID x))"
    if "stored d x" for x
  proof -
    obtain y where y: "stored d' y" "DvID y = DvID x" "DvUserID y = DvUserID x \<or> c (DvID x) (DvUserID x)"
      using assms(1) \<open>stored d x\<close> unfolding keeps_def by blast
    obtain z where "stored d'' z" "DvID z = DvID y" "DvUserID z = DvUserID y \<or> c' (DvID y) (DvUserID y)"
      using assms(2) y(1) unfolding keeps_def by blast
    with y(2,3) show ?thesis by (intro exI [of _ z]) auto
  qed
  with assms show ?thesis unfolding keeps_def by blast
qed

lemma keeps_update:
  assumes "inv d" and "stored d y" and "DvID x = DvID y" and "DvFingerprint x = DvFingerprint y"
    and "DvTrustScore x = CalculateScore c now0 x0" and "DvUserID x = DvUserID y \<or> changed (DvID y) (DvUserID y)"
    and "dr_Update repo now d x = (res, x', d')"
  shows "keeps changed d d' \<and> res = Ok () \<and> x' = x\<lparr>DvUpdatedAt := now\<rparr> \<and> stored d' x'"
proof -
  from update [OF assms(1-4), of now] assms(7)
  have r: "res = Ok ()" "x' = x\<lparr>DvUpdatedAt := now\<rparr>" "inv d'" and
    s: "\<And>z. stored d' z \<longleftrightarrow> z = x' \<or> stored d z \<and> DvID z \<noteq> DvID x" by auto
  have "\<exists>z'. stored d' z' \<and> DvID z' = DvID z \<and> (DvUserID z' = DvUserID z \<or> changed (DvID z) (DvUserID z))" if "stored d z" for z
  proof (cases "DvID z = DvID x")
    case True
    then have "z = y" using same_id [OF assms(1) that assms(2)] assms(3) by simp
    then show ?thesis using s r(2) assms(3,6) by (intro exI [of _ x']) auto
  next
    case False
    with that s show ?thesis by blast
  qed
  moreover have "DvTrustScore x' \<in> {0..100}" using assms(5) CalculateScore_range [of c now0 x0] r(2) by simp
  ultimately show ?thesis using r s by (auto simp: keeps_def)
qed

lemma RegisterOrUpdate_known:
  assumes "inv d" and "stored d y" and "ds_repo s = repo" and "DvFingerprint y = GenerateHash (ds_marshal s) data"
    and "detect_anomalies s (clock 0) y data ip = Ok ()"
  shows "\<exists>x d'. RegisterOrUpdate s clock uuid d data ip tenantID = (Ok x, d') \<and> keeps (\<lambda>_ _. False) d d' \<and> stored d' x
    \<and> DvID x = DvID y \<and> DvTenantID x = DvTenantID y \<and> DvUserID x = DvUserID y"
proof -
  let ?e1 = "y\<lparr>DvLastIP := ip, DvFingerprintRaw := data, DvLastActiveAt := clock 1\<rparr>"
  let ?e2 = "?e1\<lparr>DvTrustScore := CalculateScore (ds_trust s) (clock 2) ?e1\<rparr>"
  obtain res x' d' where u: "dr_Update repo (clock 3) d ?e2 = (res, x', d')" by (cases "dr_Update repo (clock 3) d ?e2") auto
  have "keeps (\<lambda>_ _. False) d d' \<and> res = Ok () \<and> x' = ?e2\<lparr>DvUpdatedAt := clock 3\<rparr> \<and> stored d' x'"
    using u by (intro keeps_update [OF assms(1,2)]) simp_all
  moreover have "dr_GetByFingerprint (ds_repo s) d (GenerateHash (ds_marshal s) data) = Ok (Some y)"
    using assms(1-4) by (simp add: by_fingerprint)
  ultimately show ?thesis using assms(3,5) u by (auto simp: RegisterOrUpdate_def Let_def)
qed

lemma RegisterOrUpdate_keeps:
  assumes "inv d" and "ds_repo s = repo" and "RegisterOrUpdate s clock uuid d data ip tenantID = (res, d')"
  shows "keeps (\<lambda>_ _. False) d d'"
proof (cases "dr_GetByFingerprint repo d (GenerateHash (ds_marshal s) data)")
  case (Ok found)
  show ?thesis
  proof (cases found)
    case (Some y)
    with Ok assms(1) have y: "stored d y" "DvFingerprint y = GenerateHash (ds_marshal s) data" by (simp_all add: by_fingerprint)
    show ?thesis
    proof (cases "detect_anomalies s (clock 0) y data ip")
      case (Ok u)
      with RegisterOrUpdate_known [OF assms(1) y(1) assms(2) y(2), where clock = clock and ip = ip and uuid = uuid and tenantID = tenantID] assms(3) show ?thesis by auto
    qed (use assms Ok Some keeps_refl in \<open>auto simp: RegisterOrUpdate_def\<close>)
  next
    case None
    obtain n x' dd r where c: "dr_Create repo (clock 2) d n = (r, x', dd)" "d' = dd"
      and n: "DvTrustScore n = CalculateScore (ds_trust s) (clock 1) (n\<lparr>DvTrustScore := 0\<rparr>)"
      using Ok None assms(2,3) by (auto simp: RegisterOrUpdate_def Let_def split: prod.splits)
    have "DvTrustScore x' \<in> {0..100}" using create [OF assms(1) c(1)] n CalculateScore_range [of "ds_trust s" "clock 1"] by simp
    with create [OF assms(1) c(1)] c(2) show ?thesis by (auto simp: keeps_def split: if_splits)
  qed
qed (use assms keeps_refl in \<open>auto simp: RegisterOrUpdate_def\<close>)

lemma BindToUser_keeps:
  assumes "inv d" and "ds_repo s = repo" and "BindToUser s clock d i u = (res, d')"
  shows "keeps (\<lambda>_ owner. owner = []) d d'"
proof (cases "dr_GetByID repo d i")
  case (Ok found)
  show ?thesis
  proof (cases found)
    case (Some y)
    with Ok assms(1) have y: "stored d y" "DvID y = i" by (simp_all add: by_id)
    show ?thesis
    proof (cases "DvUserID y \<noteq> [] \<and> DvUserID y \<noteq> u")
      case False
      let ?d1 = "y\<lparr>DvUserID := u, DvBoundAt := Some (clock 0)\<rparr>"
      let ?d2 = "?d1\<lparr>DvTrustScore := CalculateScore (ds_trust s) (clock 1) ?d1\<rparr>"
      obtain r x' where up: "dr_Update repo (clock 2) d ?d2 = (r, x', d')"
        using assms(2,3) Ok Some False by (auto simp: BindToUser_def Let_def split: prod.splits if_splits)
      have "keeps (\<lambda>_ owner. owner = []) d d' \<and> r = Ok () \<and> x' = ?d2\<lparr>DvUpdatedAt := clock 2\<rparr> \<and> stored d' x'"
        using up False by (intro keeps_update [OF assms(1) y(1)]) auto
      then show ?thesis by blast
    qed (use assms Ok Some keeps_refl in \<open>auto simp: BindToUser_def\<close>)
  qed (use assms Ok keeps_refl in \<open>auto simp: BindToUser_def\<close>)
qed (use assms keeps_refl in \<open>auto simp: BindToUser_def\<close>)

lemma UnbindFromUser_keeps:
  assumes "inv d" and "ds_repo s = repo" and "UnbindFromUser s clock d i u = (res, d')"
  shows "keeps (\<lambda>j owner. j = i \<and> owner = u) d d'"
proof (cases "dr_GetByID repo d i")
  case (Ok found)
  show ?thesis
  proof (cases found)
    case (Some y)
    with Ok assms(1) have y: "stored d y" "DvID y = i" by (simp_all add: by_id)
    show ?thesis
    proof (cases "DvUserID y \<noteq> u")
      case False
      let ?d1 = "y\<lparr>DvUserID := [], DvBoundAt := None\<rparr>"
      let ?d2 = "?d1\<lparr>DvTrustScore := CalculateScore (ds_trust s) (clock 0) ?d1\<rparr>"
      obtain r x' where up: "dr_Update repo (clock 1) d ?d2 = (r, x', d')"
        using assms(2,3) Ok Some False by (auto simp: UnbindFromUser_def Let_def split: prod.splits if_splits)
      have "keeps (\<lambda>j owner. j = i \<and> owner = u) d d' \<and> r = Ok () \<and> x' = ?d2\<lparr>DvUpdatedAt := clock 1\<rparr> \<and> stored d' x'"
        using up False y(2) by (intro keeps_update [OF assms(1) y(1)]) auto
      then show ?thesis by blast
    qed (use assms Ok Some keeps_refl in \<open>auto simp: UnbindFromUser_def\<close>)
  qed (use assms Ok keeps_refl in \<open>auto simp: UnbindFromUser_def\<close>)
qed (use assms keeps_refl in \<open>auto simp: UnbindFromUser_def\<close>)

end

section \<open>Devices in PostgreSQL\<close>

definition device_db :: "(Device list, Device) gorm_table" where
  "device_db = row_db DvID DvFingerprint"

interpretation pgd: device_store "pg_devices device_db" "unique_rows DvID DvFingerprint" "\<lambda>d x. x \<in> set d"
proof
  fix d :: "Device list" and i f x
  assume u: "unique_rows DvID DvFingerprint d"
  show "dr_GetByID (pg_devices device_db) d i = Ok (Some x) \<longleftrightarrow> x \<in> set d \<and> DvID x = i"
    using find_row(1) [OF u, of i x] by (auto simp: pg_devices_def pgd_GetByID_def device_db_def split: option.splits)
  show "dr_GetByFingerprint (pg_devices device_db) d f = Ok (Some x) \<longleftrightarrow> x \<in> set d \<and> DvFingerprint x = f"
    using find_row(2) [OF u, of f x]
    by (auto simp: pg_devices_def pgd_GetByFingerprint_def device_db_def split: option.splits)
next
  fix d d' :: "Device list" and now x res x'
  assume u: "unique_rows DvID DvFingerprint d" and c: "dr_Create (pg_devices device_db) now d x = (res, x', d')"
  then have ins: "row_insert DvID DvFingerprint d x' = (res, d')" "DvTrustScore x' = DvTrustScore x" "DvID x' = DvID x"
    by (auto simp: pg_devices_def pgd_Create_def device_db_def Let_def split: prod.splits)
  show "unique_rows DvID DvFingerprint d' \<and> DvTrustScore x' = DvTrustScore x \<and> DvID x' = DvID x
      \<and> (if res = Ok () then \<forall>y. (y \<in> set d') = (y \<in> set d \<or> y = x') else d' = d)"
    using row_insert_cases [OF ins(1)] row_insert_Ok [of DvID DvFingerprint d x' d'] ins u by auto
next
  fix d :: "Device list" and now and x y :: Device
  assume u: "unique_rows DvID DvFingerprint d" and y: "y \<in> set d" "DvID x = DvID y" "DvFingerprint x = DvFingerprint y"
  let ?x = "x\<lparr>DvUpdatedAt := now\<rparr>"
  obtain d' where s: "row_save DvID DvFingerprint d ?x = (Ok (), d')"
    using row_save_present [OF u y(1), of ?x] y by auto
  with row_save_Ok [OF u s]
  show "\<exists>d'. dr_Update (pg_devices device_db) now d x = (Ok (), ?x, d') \<and> unique_rows DvID DvFingerprint d'
      \<and> (\<forall>z. (z \<in> set d') = (z = ?x \<or> z \<in> set d \<and> DvID z \<noteq> DvID x))"
    by (intro exI [of _ d']) (simp add: pg_devices_def pgd_Update_def device_db_def)
qed

text \<open>The calls of the service over the table, labelled with the unbinding they are, if they are one.\<close>

inductive device_step :: "Device list DeviceService \<Rightarrow> (string \<times> string) option \<Rightarrow> Device list \<Rightarrow> Device list \<Rightarrow> bool" for s where
  registered: "RegisterOrUpdate s clock uuid d data ip tenantID = (res, d') \<Longrightarrow> device_step s None d d'"
| bound: "BindToUser s clock d i u = (res, d') \<Longrightarrow> device_step s None d d'"
| unbound: "UnbindFromUser s clock d i u = (res, d') \<Longrightarrow> device_step s (Some (i, u)) d d'"

inductive device_steps :: "Device list DeviceService \<Rightarrow> (string \<times> string) list \<Rightarrow> Device list \<Rightarrow> Device list \<Rightarrow> bool" for s where
  none: "device_steps s [] d d"
| more: "device_steps s ls d d' \<Longrightarrow> device_step s l d' d'' \<Longrightarrow> device_steps s (ls @ (case l of None \<Rightarrow> [] | Some x \<Rightarrow> [x])) d d''"

lemma device_step_keeps:
  assumes "device_step s l d d'" and "unique_rows DvID DvFingerprint d" and "ds_repo s = pg_devices device_db"
  shows "pgd.keeps (\<lambda>i owner. owner = [] \<or> l = Some (i, owner)) d d'"
  using assms(1)
proof cases
  case (registered clock uuid data ip tenantID res)
  from pgd.RegisterOrUpdate_keeps [OF assms(2,3) registered(2)] show ?thesis by (rule pgd.keeps_mono) simp
next
  case (bound clock i u res)
  from pgd.BindToUser_keeps [OF assms(2,3) bound(2)] show ?thesis by (rule pgd.keeps_mono) simp
next
  case (unbound clock i u res)
  from pgd.UnbindFromUser_keeps [OF assms(2,3) unbound(2)] show ?thesis by (rule pgd.keeps_mono) (simp add: unbound(1))
qed

lemma device_steps_keep:
  assumes "device_steps s ls d d'" and "unique_rows DvID DvFingerprint d" and "ds_repo s = pg_devices device_db"
  shows "pgd.keeps (\<lambda>i owner. owner = [] \<or> (i, owner) \<in> set ls) d d'"
  using assms
proof (induction rule: device_steps.induct)
  case (none d)
  then show ?case by (simp add: pgd.keeps_refl)
next
  case (more ls d d' l d'')
  then have k: "pgd.keeps (\<lambda>i owner. owner = [] \<or> (i, owner) \<in> set ls) d d'" by blast
  then have "unique_rows DvID DvFingerprint d'" by (simp add: pgd.keeps_def)
  from pgd.keeps_trans [OF k device_step_keeps [OF more.hyps(2) this more.prems(2)]] show ?case
    by (rule pgd.keeps_mono) auto
qed

text \<open>
  A device belongs to one user until that user gives it up: whatever devices are registered, bound and unbound, a
  device that is bound stays bound to its user as long as no unbinding of this device by this user
  is among the calls, and every trust score stays between 0 and 100.
\<close>

theorem device_owner_stable:
  assumes "device_steps s ls d d'" and "unique_rows DvID DvFingerprint d" and "ds_repo s = pg_devices device_db"
    and "x \<in> set d" and "DvUserID x \<noteq> []" and "(DvID x, DvUserID x) \<notin> set ls"
    and "\<forall>y \<in> set d. DvTrustScore y \<in> {0..100}"
  shows "(\<exists>x' \<in> set d'. DvID x' = DvID x \<and> DvUserID x' = DvUserID x) \<and> unique_rows DvID DvFingerprint d'
    \<and> (\<forall>y \<in> set d'. DvTrustScore y \<in> {0..100})"
  using device_steps_keep [OF assms(1-3)] assms(4-7) unfolding pgd.keeps_def by blast

definition bound_device :: "fingerprint \<Rightarrow> Device" where
  "bound_device data = \<lparr>DvID = ''d1'', DvTenantID = ''t1'', DvUserID = ''u1'', DvFingerprint = GenerateHash (\<lambda>_. []) data,
     DvFingerprintRaw = data, DvDeviceName = [], DvDeviceType = [], DvOS = [], DvBrowser = [], DvTrustScore = 40, DvLastIP = [],
     DvLastLocation = [], DvLastActiveAt = 0, DvCreatedAt = 0, DvUpdatedAt = 0, DvBoundAt = Some 0\<rparr>"

definition device_svc :: "AnomalyDetector option \<Rightarrow> Device list DeviceService" where
  "device_svc det = \<lparr>ds_repo = pg_devices device_db,
     ds_trust = \<lparr>BaseScore = 20, AgeBonus = 1, MaxAgeBonus = 30, BoundBonus = 20, FrequencyBonus = 10, VerifiedBonus = 20,
       MaxSpeedKmH = 0, FingerprintThreshold = 0\<rparr>,
     ds_detector = det, ds_marshal = (\<lambda>_. [])\<rparr>"

theorem device_owner_stable_witness:
  "\<exists>x' \<in> set (snd (BindToUser (device_svc None) (\<lambda>_. 5) [bound_device []] ''d1'' ''u2'')). DvID x' = ''d1'' \<and> DvUserID x' = ''u1''"
proof -
  let ?d = "[bound_device []]"
  have "device_steps (device_svc None) ([] @ (case None of None \<Rightarrow> [] | Some x \<Rightarrow> [x])) ?d
      (snd (BindToUser (device_svc None) (\<lambda>_. 5) ?d ''d1'' ''u2''))"
    by (rule device_steps.more [OF device_steps.none device_step.bound [OF prod.collapse [symmetric]]])
  from device_owner_stable [OF this, of "bound_device []"] show ?thesis
    by (simp add: bound_device_def device_svc_def unique_rows_def)
qed

text \<open>The hash depends on the stable fields only.\<close>

lemma GenerateHash_stable:
  assumes "\<forall>f \<in> set stableFields. map_of data f = map_of data' f"
  shows "GenerateHash marshal data = GenerateHash marshal data'"
proof -
  have f: "filter (\<lambda>f. map_of data f \<noteq> None) stableFields = filter (\<lambda>f. map_of data' f \<noteq> None) stableFields"
    using assms by (intro filter_cong) auto
  have "map (\<lambda>k. k @ '':'' @ marshal (the (map_of data k)) @ '';'') (sort (filter (\<lambda>f. map_of data' f \<noteq> None) stableFields))
      = map (\<lambda>k. k @ '':'' @ marshal (the (map_of data' k)) @ '';'') (sort (filter (\<lambda>f. map_of data' f \<noteq> None) stableFields))"
    using assms by (intro map_cong) auto
  then show ?thesis by (simp only: GenerateHash_def Let_def f)
qed

text \<open>
  The fingerprint alone identifies a device: a registration with the same stable fields by another tenant, without a detector,
  answers with the first tenant's record and its owner.
\<close>

theorem device_shared_across_tenants:
  assumes "unique_rows DvID DvFingerprint d" and "x \<in> set d" and "ds_repo s = pg_devices device_db" and "ds_detector s = None"
    and "DvFingerprint x = GenerateHash (ds_marshal s) data" and "\<forall>f \<in> set stableFields. map_of data f = map_of data' f"
  shows "\<exists>y d'. RegisterOrUpdate s clock uuid d data' ip tenant' = (Ok y, d')
    \<and> DvID y = DvID x \<and> DvTenantID y = DvTenantID x \<and> DvUserID y = DvUserID x"
  using pgd.RegisterOrUpdate_known [of d x s data' clock ip uuid tenant'] assms GenerateHash_stable [OF assms(6), of "ds_marshal s"]
  by (auto simp: detect_anomalies_def)

theorem device_shared_across_tenants_witness:
  "\<exists>y d'. RegisterOrUpdate (device_svc None) (\<lambda>_. 5) ''new'' [bound_device []] [(''fonts'', VString ''x'')] ''10.0.0.1'' ''t2'' = (Ok y, d')
    \<and> DvID y = ''d1'' \<and> DvTenantID y = ''t1'' \<and> DvUserID y = ''u1''"
  using device_shared_across_tenants [of "[bound_device []]" "bound_device []" "device_svc None" "[]" "[(''fonts'', VString ''x'')]"
      "\<lambda>_. 5" "''new''" "''10.0.0.1''" "''t2''"]
  by (simp add: bound_device_def device_svc_def unique_rows_def stableFields_def)

text \<open>
  The fingerprint of a browser lists plugins; when a known device comes back with its list, the comparison
  of the two lists panics.
\<close>

theorem known_device_panics:
  assumes "unique_rows DvID DvFingerprint d" and "x \<in> set d" and "ds_repo s = pg_devices device_db"
    and "ds_detector s = Some det" and "ad_geoService det = None"
    and "DvFingerprint x = GenerateHash (ds_marshal s) data"
    and "map_of (DvFingerprintRaw x) ''plugins'' = Some (VList ps)" and "map_of data ''plugins'' = Some (VList qs)"
    and "\<forall>f \<in> {''screen_resolution'', ''timezone'', ''platform''}. map_of (DvFingerprintRaw x) f = map_of data f"
  shows "fst (RegisterOrUpdate s clock uuid d data ip tenantID) = Panic"
proof -
  have g: "dr_GetByFingerprint (ds_repo s) d (GenerateHash (ds_marshal s) data) = Ok (Some x)"
    using pgd.by_fingerprint [OF assms(1)] assms(2,3,6) by simp
  have same: "go_differ v v = Panic \<or> go_differ v v = Ok False" for v by (cases v) auto
  have core: "count_changes (DvFingerprintRaw x) data fs = Panic \<or> count_changes (DvFingerprintRaw x) data fs = Ok 0"
    if "\<forall>f \<in> set fs. map_of (DvFingerprintRaw x) f = map_of data f" for fs
    using that
  proof (induction fs)
    case (Cons f fs)
    then have IH: "count_changes (DvFingerprintRaw x) data fs = Panic \<or> count_changes (DvFingerprintRaw x) data fs = Ok 0"
      and f: "map_of (DvFingerprintRaw x) f = map_of data f" by auto
    show ?case
    proof (cases "map_of data f")
      case None
      with IH f show ?thesis by auto
    next
      case (Some v)
      with IH f same [of v] show ?thesis by auto
    qed
  qed simp
  have minor: "count_changes (DvFingerprintRaw x) data [''plugins'', ''fonts'', ''canvas_hash''] = Panic"
    using assms(7,8) by simp
  have "DetectFingerprintChange (DvFingerprintRaw x) data = Panic"
    using core [of "[''screen_resolution'', ''timezone'', ''platform'']"] minor assms(9)
    by (auto simp: DetectFingerprintChange_def simp del: count_changes.simps(2))
  then have "detect_anomalies s (clock 0) x data ip = Panic"
    using assms(4,5) by (simp add: detect_anomalies_def DetectGeoJump_def)
  with g show ?thesis by (simp add: RegisterOrUpdate_def)
qed

theorem known_device_panics_witness:
  "fst (RegisterOrUpdate (device_svc (Some (NewAnomalyDetector None 0 0))) (\<lambda>_. 5) ''new'' [bound_device [(''plugins'', VList [])]]
     [(''plugins'', VList [])] ''10.0.0.1'' ''t1'') = Panic"
  using known_device_panics [of "[bound_device [(''plugins'', VList [])]]" "bound_device [(''plugins'', VList [])]"
      "device_svc (Some (NewAnomalyDetector None 0 0))" "NewAnomalyDetector None 0 0" "[(''plugins'', VList [])]" "[]" "[]"]
  by (simp add: bound_device_def device_svc_def unique_rows_def NewAnomalyDetector_def)

text \<open>The similarity of two fingerprints is a share.\<close>

lemma Compare_range: "0 \<le> Compare marshal old new \<and> Compare marshal old new \<le> 1"
  by (simp add: Compare_def Let_def length_filter_le del: filter_filter)

end
