(* ===== verification/Adaptive_Risk.thy ===== *)
theory Adaptive_Risk
  imports Devices Auth_Service Redis_Store
begin

text \<open>
  The adaptive risk engine: \<^verbatim>\<open>internal/auth/adaptive\<close>, the login history of
  \<^verbatim>\<open>internal/storage/redis/geo_manager.go\<close> and the scores of \<^verbatim>\<open>internal/domain/auth/risk_model.go\<close>. Scores, weights
  and degrees are real numbers where the code rounds to floating point. The Redis commands and the
  GeoIP database are arguments.
\<close>

section \<open>The login history\<close>

record GeoPoint =
  GpLat :: real
  GpLon :: real
  GpTimestamp :: time

record 'r GeoClient =
  gc_GeoAdd :: "'r \<Rightarrow> string \<Rightarrow> string \<Rightarrow> real \<Rightarrow> real \<Rightarrow> (go_error, unit) outcome \<times> 'r"
  gc_ZAdd :: "'r \<Rightarrow> string \<Rightarrow> int \<Rightarrow> string \<Rightarrow> (go_error, unit) outcome \<times> 'r"
  gc_ZRange :: "'r \<Rightarrow> string \<Rightarrow> int \<Rightarrow> int \<Rightarrow> (go_error, string list) outcome"
  gc_GeoPos :: "'r \<Rightarrow> string \<Rightarrow> string \<Rightarrow> (go_error, (real \<times> real) option list) outcome"
  gc_Expire :: "'r \<Rightarrow> string \<Rightarrow> int \<Rightarrow> 'r"
  gc_SIsMember :: "'r \<Rightarrow> string \<Rightarrow> string \<Rightarrow> (go_error, bool) outcome"

definition geoKey :: "string \<Rightarrow> string" where "geoKey userID = ''user:geo:'' @ userID"
definition timelineKey :: "string \<Rightarrow> string" where "timelineKey userID = ''user:geo:timeline:'' @ userID"

definition SaveLoginGeo ::
    "'r GeoClient \<Rightarrow> 'r \<Rightarrow> string \<Rightarrow> real \<Rightarrow> real \<Rightarrow> time \<Rightarrow> (go_error, unit) outcome \<times> 'r" where
  "SaveLoginGeo c r userID lat lon timestamp =
     (let tsStr = show_int (unix_seconds timestamp)
      in case gc_GeoAdd c r (geoKey userID) tsStr lon lat of
           (Panic, r1) \<Rightarrow> (Panic, r1)
         | (Fail err, r1) \<Rightarrow> (Fail (Wrapf ''failed to add geo location'' err), r1)
         | (Ok _, r1) \<Rightarrow>
             (case gc_ZAdd c r1 (timelineKey userID) (unix_seconds timestamp) tsStr of
                (Panic, r2) \<Rightarrow> (Panic, r2)
              | (Fail err, r2) \<Rightarrow> (Fail (Wrapf ''failed to update geo timeline'' err), r2)
              | (Ok _, r2) \<Rightarrow>
                  (Ok (), gc_Expire c (gc_Expire c r2 (geoKey userID) 2592000000000000) (timelineKey userID) 2592000000000000)))"

text \<open>\<^verbatim>\<open>strconv.ParseInt(s, 10, 64)\<close>: the whole string is an optional sign and digits, in range.\<close>

definition ParseInt :: "string \<Rightarrow> int option" where
  "ParseInt s =
     (let ds = (case s of [] \<Rightarrow> [] | c # r \<Rightarrow> if c = CHR ''-'' \<or> c = CHR ''+'' then r else s)
      in if ds \<noteq> [] \<and> list_all is_digit ds then sscanf_int s else None)"

definition GetLastLoginLocation :: "'r GeoClient \<Rightarrow> 'r \<Rightarrow> string \<Rightarrow> (go_error, GeoPoint) outcome" where
  "GetLastLoginLocation c r userID =
     (case gc_ZRange c r (timelineKey userID) (- 1) (- 1) of
        Panic \<Rightarrow> Panic
      | Fail err \<Rightarrow> Fail (Wrapf ''failed to get last login timestamp'' err)
      | Ok [] \<Rightarrow> Fail ErrNotFound
      | Ok (lastTsStr # _) \<Rightarrow>
          (case gc_GeoPos c r (geoKey userID) lastTsStr of
             Panic \<Rightarrow> Panic
           | Fail err \<Rightarrow> Fail (Wrapf ''failed to get geo position'' err)
           | Ok (Some (lat, lon) # _) \<Rightarrow>
               (case ParseInt lastTsStr of
                  None \<Rightarrow> Fail (Wrapf ''invalid timestamp format in storage'' (Errorf ''strconv.ParseInt''))
                | Some ts \<Rightarrow> Ok \<lparr>GpLat = lat, GpLon = lon, GpTimestamp = ts * 1000000000\<rparr>)
           | Ok _ \<Rightarrow> Fail ErrNotFound))"

section \<open>Strategies\<close>

definition MaxTravelSpeedKmH :: real where "MaxTravelSpeedKmH = 800"

definition haversine :: "real \<Rightarrow> real \<Rightarrow> real \<Rightarrow> real \<Rightarrow> real" where
  "haversine lat1 lon1 lat2 lon2 =
     (let dLat = (lat2 - lat1) * (pi / 180); dLon = (lon2 - lon1) * (pi / 180);
          lat1Rad = lat1 * (pi / 180); lat2Rad = lat2 * (pi / 180);
          a = sin (dLat / 2) * sin (dLat / 2) + sin (dLon / 2) * sin (dLon / 2) * cos lat1Rad * cos lat2Rad
      in 6371 * (2 * atan2_pos (sqrt a) (sqrt (1 - a))))"

definition travel_CalculateRisk ::
    "'r GeoClient \<Rightarrow> time \<Rightarrow> 'r \<Rightarrow> string \<Rightarrow> real \<Rightarrow> real \<Rightarrow> (go_error, real) outcome" where
  "travel_CalculateRisk c now r userID currentLat currentLon =
     (case GetLastLoginLocation c r userID of
        Panic \<Rightarrow> Panic
      | Fail err \<Rightarrow> if err = ErrNotFound then Ok 0 else Fail err
      | Ok lastGeo \<Rightarrow>
          (let distance = haversine (GpLat lastGeo) (GpLon lastGeo) currentLat currentLon;
               duration = hours (time_since now (GpTimestamp lastGeo))
           in if duration \<le> 0 then Ok (if distance > 10 then 1 else 0)
              else Ok (if distance / duration > MaxTravelSpeedKmH then 1 else 0)))"

definition ip_CalculateRisk :: "string \<Rightarrow> real" where
  "ip_CalculateRisk ip = (if ip = ''1.2.3.4'' then 9 / 10 else if ip = ''8.8.8.8'' then 1 / 10 else 4 / 10)"

section \<open>Scores\<close>

record RiskThresholds =
  RtLow :: real
  RtMedium :: real
  RtHigh :: real

record RiskWeights =
  RwIPReputation :: real
  RwGeoReputation :: real
  RwDeviceChange :: real
  RwGeoVelocity :: real
  RwTimeAnomaly :: real

record RiskConfig =
  RcThresholds :: RiskThresholds
  RcWeights :: RiskWeights

record RiskFactors =
  RfIPReputation :: real
  RfGeoReputation :: real
  RfDeviceTrusted :: bool
  RfTimeWindow :: time
  RfLoginHistory :: "time list"
  RfIsKnownDevice :: bool
  RfGeoVelocity :: real
  RfUserAgent :: string
  RfIPAddress :: string
  RfAcceptLanguage :: string

definition ToScore :: "RiskFactors \<Rightarrow> RiskConfig \<Rightarrow> real" where
  "ToScore f cfg =
     (let w = RcWeights cfg;
          s1 = RfIPReputation f * RwIPReputation w + RfGeoReputation f * RwGeoReputation w + RfGeoVelocity f * RwGeoVelocity w;
          s2 = (if \<not> RfIsKnownDevice f then s1 + RwDeviceChange w else s1);
          s3 = (if s2 > 1 then 1 else s2)
      in if s3 < 0 then 0 else s3)"

definition RiskLevelLow :: RiskLevel where "RiskLevelLow = ''LOW''"
definition RiskLevelMedium :: RiskLevel where "RiskLevelMedium = ''MEDIUM''"
definition RiskLevelHigh :: RiskLevel where "RiskLevelHigh = ''HIGH''"

definition Level :: "real \<Rightarrow> RiskThresholds \<Rightarrow> RiskLevel" where
  "Level s t = (if s \<le> RtLow t then RiskLevelLow else if s \<le> RtMedium t then RiskLevelMedium else RiskLevelHigh)"

section \<open>The engine\<close>

text \<open>
  The reader of the GeoIP database is an interface value. It can be nil, it can hold a nil pointer, which is what the
  failed constructor returns, or a reader. \<open>locate\<close> is \<^verbatim>\<open>net.ParseIP\<close> followed by the lookup: whether
  the text is an address, and the coordinates if the lookup finds any.
\<close>

datatype geo_reader =
    NilInterface
  | NilPointer "string \<Rightarrow> bool"
  | Reader "string \<Rightarrow> (real \<times> real) option"

fun resolveGeo :: "geo_reader \<Rightarrow> string \<Rightarrow> (go_error, real \<times> real) outcome" where
  "resolveGeo NilInterface ip = Ok (0, 0)"
| "resolveGeo (NilPointer is_address) ip = (if is_address ip then Panic else Ok (0, 0))"
| "resolveGeo (Reader locate) ip = (case locate ip of None \<Rightarrow> Ok (0, 0) | Some p \<Rightarrow> Ok p)"

record 'r RiskEngine =
  re_config :: RiskConfig
  re_client :: "'r GeoClient"
  re_geoIPReader :: geo_reader

definition isKnownDevice :: "'r GeoClient \<Rightarrow> 'r \<Rightarrow> string \<Rightarrow> string \<Rightarrow> (go_error, bool) outcome" where
  "isKnownDevice c r userID fp =
     (if userID = [] \<or> fp = [] then Ok False else gc_SIsMember c r (''user:'' @ userID @ '':devices'') fp)"

text \<open>
  The travel strategy runs in a goroutine of its own, where a panic ends the process; the model counts
  it as a panic of the call. Errors of the strategy and of the device lookup leave their zero values. The location is
  saved by a goroutine that is still running when the call returns; the state is the one after it.
\<close>

definition risk_Evaluate ::
    "'r RiskEngine \<Rightarrow> time \<Rightarrow> 'r \<Rightarrow> AuthContext \<Rightarrow> (go_error, real \<times> RiskLevel) outcome \<times> 'r" where
  "risk_Evaluate e now r ac =
     (case resolveGeo (re_geoIPReader e) (AcIPAddress ac) of
        Panic \<Rightarrow> (Panic, r)
      | Fail err \<Rightarrow> (Fail err, r)
      | Ok (lat, lon) \<Rightarrow>
          (case (if AcUserID ac = [] then Ok 0 else travel_CalculateRisk (re_client e) now r (AcUserID ac) lat lon) of
             Panic \<Rightarrow> (Panic, r)
           | travel \<Rightarrow>
               (case isKnownDevice (re_client e) r (AcUserID ac) (AcDeviceFingerprint ac) of
                  Panic \<Rightarrow> (Panic, r)
                | known \<Rightarrow>
                    (let factors = \<lparr>RfIPReputation = ip_CalculateRisk (AcIPAddress ac), RfGeoReputation = 2 / 10,
                           RfDeviceTrusted = False, RfTimeWindow = AcTimestamp ac, RfLoginHistory = [],
                           RfIsKnownDevice = (known = Ok True),
                           RfGeoVelocity = (case travel of Ok v \<Rightarrow> v | _ \<Rightarrow> 0),
                           RfUserAgent = AcUserAgent ac, RfIPAddress = AcIPAddress ac,
                           RfAcceptLanguage = AcAcceptLanguage ac\<rparr>;
                         score = ToScore factors (re_config e);
                         level = Level score (RcThresholds (re_config e))
                     in (Ok (score, level),
                         if AcUserID ac = [] then r
                         else snd (SaveLoginGeo (re_client e) r (AcUserID ac) lat lon (AcTimestamp ac)))))))"

definition adaptive_Decide :: "RiskLevel \<Rightarrow> AuthContext \<Rightarrow> string" where
  "adaptive_Decide level ac =
     (if level = RiskLevelLow then ''ALLOW'' else if level = RiskLevelMedium then ''REQUIRE_MFA''
      else if level = RiskLevelHigh then ''REQUIRE_MFA'' else ''DENY'')"

section \<open>Fingerprints of the adaptive package\<close>

record FingerprintData =
  FdUserAgent :: string
  FdScreenResolution :: string
  FdTimezone :: int
  FdLanguage :: string
  FdPlatform :: string
  FdPlugins :: "string list"
  FdCanvasHash :: string
  FdWebGLHash :: string
  FdAudioHash :: string
  FdFonts :: "string list"
  FdMobile :: string
  FdPlat :: string
  FdArch :: string
  FdModel :: string

definition Generate :: "FingerprintData \<Rightarrow> string" where
  "Generate data =
     (let features = [FdUserAgent data, FdScreenResolution data, show_int (FdTimezone data), FdLanguage data,
            FdPlatform data, str_join '','' (FdPlugins data), FdCanvasHash data, FdWebGLHash data, FdAudioHash data,
            str_join '','' (FdFonts data), FdMobile data, FdPlat data, FdArch data, FdModel data]
      in hex_encode (sha256 (bytes_of (str_join ''|'' features))))"


section \<open>Scores and decisions\<close>

text \<open>The two distance functions of the repository are the same function.\<close>

lemma haversine_eq: "haversine = haversineDistance"
  by (intro ext) (simp add: haversine_def haversineDistance_def Let_def mult.commute mult.left_commute)

lemma ToScore_range: "0 \<le> ToScore f cfg \<and> ToScore f cfg \<le> 1"
  by (simp add: ToScore_def Let_def)

text \<open>
  An evaluated login is never denied: it is allowed when its score does not exceed the low threshold and asked for a
  second factor otherwise.
\<close>

theorem adaptive_decision:
  assumes "risk_Evaluate e now r ac = (Ok (score, level), r')"
  shows "adaptive_Decide level ac = (if score \<le> RtLow (RcThresholds (re_config e)) then ''ALLOW'' else ''REQUIRE_MFA'')
    \<and> 0 \<le> score \<and> score \<le> 1"
proof -
  from assms obtain f where "score = ToScore f (re_config e)" "level = Level score (RcThresholds (re_config e))"
    by (auto simp: risk_Evaluate_def Let_def split: outcome.splits prod.splits if_splits)
  then show ?thesis
    using ToScore_range [of f "re_config e"]
    by (simp add: adaptive_Decide_def Level_def RiskLevelLow_def RiskLevelMedium_def RiskLevelHigh_def)
qed

definition no_geo :: "'r GeoClient" where
  "no_geo = \<lparr>gc_GeoAdd = (\<lambda>r k m lon lat. (Ok (), r)), gc_ZAdd = (\<lambda>r k s m. (Ok (), r)), gc_ZRange = (\<lambda>r k lo hi. Ok []),
     gc_GeoPos = (\<lambda>r k m. Ok []), gc_Expire = (\<lambda>r k ttl. r), gc_SIsMember = (\<lambda>r k m. Ok False)\<rparr>"

definition demo_risk_engine :: "geo_reader \<Rightarrow> unit RiskEngine" where
  "demo_risk_engine reader =
     \<lparr>re_config = \<lparr>RcThresholds = \<lparr>RtLow = 3 / 10, RtMedium = 7 / 10, RtHigh = 9 / 10\<rparr>,
        RcWeights = \<lparr>RwIPReputation = 3 / 10, RwGeoReputation = 2 / 10, RwDeviceChange = 3 / 10, RwGeoVelocity = 1 / 10,
          RwTimeAnomaly = 1 / 10\<rparr>\<rparr>,
      re_client = no_geo, re_geoIPReader = reader\<rparr>"

definition demo_context :: AuthContext where
  "demo_context = \<lparr>AcUserID = ''u1'', AcIPAddress = ''8.8.8.8'', AcUserAgent = [], AcAcceptLanguage = [], AcTimestamp = 0,
     AcDeviceFingerprint = [], AcIsKnownDevice = False\<rparr>"

theorem adaptive_decision_witness:
  "\<exists>score level r'. risk_Evaluate (demo_risk_engine NilInterface) 5 () demo_context = (Ok (score, level), r')
    \<and> adaptive_Decide level demo_context = ''REQUIRE_MFA'' \<and> score = 37 / 100"
proof -
  obtain level r' where run: "risk_Evaluate (demo_risk_engine NilInterface) 5 () demo_context = (Ok (37 / 100, level), r')"
    by (simp add: risk_Evaluate_def demo_risk_engine_def demo_context_def travel_CalculateRisk_def GetLastLoginLocation_def no_geo_def
        isKnownDevice_def ToScore_def ip_CalculateRisk_def Let_def)
  from adaptive_decision [OF this] have "adaptive_Decide level demo_context = ''REQUIRE_MFA''" by (simp add: demo_risk_engine_def)
  with run show ?thesis by blast
qed

text \<open>
  The login passes no fingerprint to the engine, so every login counts as one from an unknown device.
\<close>

lemma login_device_unknown: "AcDeviceFingerprint ac = [] \<Longrightarrow> isKnownDevice c r (AcUserID ac) (AcDeviceFingerprint ac) = Ok False"
  by (simp add: isKnownDevice_def)

text \<open>
  When the GeoIP database cannot be opened, the server passes the nil pointer of the failed constructor on, and every
  login with the right password from a valid address panics instead of being evaluated without location.
\<close>

theorem login_panics_without_geoip:
  assumes "as_risk svc = (\<lambda>ac. map_outcome id snd (fst (risk_Evaluate e now r ac)))"
    and "re_geoIPReader e = NilPointer is_address" and "is_address (RIPAddress req)"
    and "as_GetUserByUsername svc (w_errs w) (RUsername req) = (Ok user, h)"
    and "Status user = UserStatusActive" and "as_CheckPasswordHash svc (RPassword req) (Password user)"
  shows "fst (LoginWithPassword svc clock fresh cfg w req) = Panic"
  using assms by (simp add: LoginWithPassword_def risk_Evaluate_def)

theorem login_panics_without_geoip_witness:
  "fst (LoginWithPassword (demo_svc\<lparr>as_risk := (\<lambda>ac. map_outcome id snd (fst (risk_Evaluate (demo_risk_engine (NilPointer (\<lambda>ip. ip \<noteq> []))) 5 () ac)))\<rparr>)
     (\<lambda>_. 0) demo_fresh demo_cfg demo_world (demo_login\<lparr>RIPAddress := ''8.8.8.8''\<rparr>)) = Panic"
  using login_panics_without_geoip [of "demo_svc\<lparr>as_risk := (\<lambda>ac. map_outcome id snd (fst (risk_Evaluate (demo_risk_engine (NilPointer (\<lambda>ip. ip \<noteq> []))) 5 () ac)))\<rparr>"
      "demo_risk_engine (NilPointer (\<lambda>ip. ip \<noteq> []))" 5 "()" "\<lambda>ip. ip \<noteq> []" "demo_login\<lparr>RIPAddress := ''8.8.8.8''\<rparr>" demo_world
      "alice\<lparr>UID := ''u1''\<rparr>" "w_errs demo_world" "\<lambda>_. 0" demo_fresh demo_cfg] demo_lookup(1) [of "w_errs demo_world"]
  by (simp add: demo_risk_engine_def demo_login_def alice_def)

section \<open>The login history over Redis\<close>

text \<open>
  Geo sets and sorted sets as the commands are documented, within the thirty days after which a history expires. A
  geo set rounds the coordinates to the cells of its hash; \<open>snap\<close> is that rounding.
\<close>

record geo_space =
  gs_geo :: "string \<Rightarrow> string \<rightharpoonup> real \<times> real"
  gs_zsets :: "string \<Rightarrow> (int \<times> string) list"
  gs_sets :: "string \<Rightarrow> string set"

definition geo_client :: "(real \<times> real \<Rightarrow> real \<times> real) \<Rightarrow> geo_space GeoClient" where
  "geo_client snap =
     \<lparr>gc_GeoAdd = (\<lambda>r k m lon lat. (Ok (), r\<lparr>gs_geo := (gs_geo r)(k := (gs_geo r k)(m \<mapsto> snap (lat, lon)))\<rparr>)),
      gc_ZAdd = (\<lambda>r k s m. (Ok (), r\<lparr>gs_zsets := (gs_zsets r)(k := z_insert s m (filter (\<lambda>z. snd z \<noteq> m) (gs_zsets r k)))\<rparr>)),
      gc_ZRange = (\<lambda>r k lo hi. let zs = map snd (gs_zsets r k); n = int (length zs);
                     i = (if lo < 0 then max 0 (n + lo) else lo); j = (if hi < 0 then n + hi else hi)
                   in Ok (take (nat (j + 1 - i)) (drop (nat i) zs))),
      gc_GeoPos = (\<lambda>r k m. Ok [gs_geo r k m]),
      gc_Expire = (\<lambda>r k ttl. r),
      gc_SIsMember = (\<lambda>r k m. Ok (m \<in> gs_sets r k))\<rparr>"

lemma ZRange_last [simp]:
  "gc_ZRange (geo_client snap) r k (- 1) (- 1) = Ok (if gs_zsets r k = [] then [] else [snd (last (gs_zsets r k))])"
proof (cases "gs_zsets r k" rule: rev_cases)
  case (snoc zs z)
  then show ?thesis by (simp add: geo_client_def Let_def)
qed (simp add: geo_client_def)

lemma z_insert_not_Nil [simp]: "z_insert s m zs \<noteq> []"
  by (cases zs) (auto split: if_splits)

lemma sorted_z_insert: "sorted (map fst zs) \<Longrightarrow> sorted (map fst (z_insert s m zs))"
  by (induction s m zs rule: z_insert.induct) auto

lemma last_z_insert:
  "\<forall>z \<in> set zs. fst z < s \<Longrightarrow> last (z_insert s m zs) = (s, m)"
  by (induction s m zs rule: z_insert.induct) auto

lemma last_z_insert_less:
  "zs \<noteq> [] \<Longrightarrow> sorted (map fst zs) \<Longrightarrow> s < fst (last zs) \<Longrightarrow> last (z_insert s m zs) = last zs"
  by (induction s m zs rule: z_insert.induct) (auto split: if_splits)

lemma sorted_last: "sorted (map fst zs) \<Longrightarrow> z \<in> set zs \<Longrightarrow> fst z \<le> fst (last zs)"
  by (induction zs) (auto split: if_splits intro: order_trans)

lemma last_filter_last: "zs \<noteq> [] \<Longrightarrow> P (last zs) \<Longrightarrow> last (filter P zs) = last zs"
  by (cases zs rule: rev_cases) auto

text \<open>The login that counts as the last one: the latest second, and in it the login that was saved last.\<close>

fun latest :: "(real \<times> real \<times> time) list \<Rightarrow> (real \<times> real \<times> time) option" where
  "latest [] = None"
| "latest ((lat, lon, t) # ls) =
     (case latest ls of
        None \<Rightarrow> Some (lat, lon, t)
      | Some (lat', lon', t') \<Rightarrow> if unix_seconds t' \<ge> unix_seconds t then Some (lat', lon', t') else Some (lat, lon, t))"

definition save_all :: "(real \<times> real \<Rightarrow> real \<times> real) \<Rightarrow> string \<Rightarrow> geo_space \<Rightarrow> (real \<times> real \<times> time) list \<Rightarrow> geo_space" where
  "save_all snap userID = foldl (\<lambda>r (lat, lon, t). snd (SaveLoginGeo (geo_client snap) r userID lat lon t))"

text \<open>Seconds that the score of a sorted set, a floating-point number, holds exactly.\<close>

definition storable_time :: "time \<Rightarrow> bool" where
  "storable_time t \<longleftrightarrow> 0 \<le> unix_seconds t \<and> unix_seconds t < 2 ^ 53"

lemma latest_snoc:
  "latest (ls @ [(lat, lon, t)]) =
     (case latest ls of
        None \<Rightarrow> Some (lat, lon, t)
      | Some (lat', lon', t') \<Rightarrow> if unix_seconds t \<ge> unix_seconds t' then Some (lat, lon, t) else Some (lat', lon', t'))"
  by (induction ls rule: latest.induct) (auto split: option.splits)

lemma latest_member: "latest ls = Some x \<Longrightarrow> x \<in> set ls"
  by (induction ls arbitrary: x rule: latest.induct) (auto split: option.splits if_splits)

definition history :: "(real \<times> real \<Rightarrow> real \<times> real) \<Rightarrow> string \<Rightarrow> geo_space \<Rightarrow> (real \<times> real \<times> time) list \<Rightarrow> bool" where
  "history snap u r ls \<longleftrightarrow>
     (let zs = gs_zsets r (timelineKey u)
      in sorted (map fst zs) \<and> (\<forall>z \<in> set zs. snd z = show_int (fst z) \<and> 0 \<le> fst z \<and> fst z < 2 ^ 63)
         \<and> (case latest ls of
              None \<Rightarrow> zs = []
            | Some (lat, lon, t) \<Rightarrow> zs \<noteq> [] \<and> fst (last zs) = unix_seconds t
                \<and> gs_geo r (geoKey u) (show_int (unix_seconds t)) = Some (snap (lat, lon))))"

lemma SaveLoginGeo_space:
  "SaveLoginGeo (geo_client snap) r u lat lon t =
     (Ok (), r\<lparr>gs_geo := (gs_geo r)(geoKey u := (gs_geo r (geoKey u))(show_int (unix_seconds t) \<mapsto> snap (lat, lon))),
       gs_zsets := (gs_zsets r)(timelineKey u := z_insert (unix_seconds t) (show_int (unix_seconds t))
          (filter (\<lambda>z. snd z \<noteq> show_int (unix_seconds t)) (gs_zsets r (timelineKey u))))\<rparr>)"
  by (simp add: SaveLoginGeo_def geo_client_def Let_def)

lemma historyI:
  assumes "gs_zsets r (timelineKey u) = zs" and "sorted (map fst zs)" and "zs \<noteq> []"
    and "\<forall>z \<in> set zs. snd z = show_int (fst z) \<and> 0 \<le> fst z \<and> fst z < 2 ^ 63"
    and "latest ls = Some (lat, lon, t)" and "fst (last zs) = unix_seconds t"
    and "gs_geo r (geoKey u) (show_int (unix_seconds t)) = Some (snap (lat, lon))"
  shows "history snap u r ls"
  unfolding history_def Let_def assms(1,5) using assms(2-4,6,7) by (simp only: option.case prod.case simp_thms)

lemma history_save:
  assumes "history snap u r ls" and "storable_time t"
  shows "history snap u (snd (SaveLoginGeo (geo_client snap) r u lat lon t)) (ls @ [(lat, lon, t)])"
proof -
  let ?zs = "gs_zsets r (timelineKey u)" and ?n = "unix_seconds t"
  let ?f = "filter (\<lambda>z. snd z \<noteq> show_int ?n) ?zs"
  let ?zs' = "z_insert ?n (show_int ?n) ?f"
  from assms(1) have s: "sorted (map fst ?zs)" and m: "\<forall>z \<in> set ?zs. snd z = show_int (fst z) \<and> 0 \<le> fst z \<and> fst z < 2 ^ 63"
    by (auto simp: history_def Let_def)
  have f: "?f = filter (\<lambda>z. fst z \<noteq> ?n) ?zs"
    using m assms(2) show_int_inject by (intro filter_cong) (auto simp: storable_time_def)
  have sf: "sorted (map fst ?f)" using s by (simp add: sorted_filter)
  have z': "?zs' \<noteq> []" "sorted (map fst ?zs')" "\<forall>z \<in> set ?zs'. snd z = show_int (fst z) \<and> 0 \<le> fst z \<and> fst z < 2 ^ 63"
    using sorted_z_insert [OF sf] m assms(2) set_z_insert [of ?n "show_int ?n" ?f] by (force simp: storable_time_def)+
  show ?thesis
  proof (cases "\<forall>z \<in> set ?f. fst z < ?n")
    case True
    have "latest (ls @ [(lat, lon, t)]) = Some (lat, lon, t)"
    proof (cases "latest ls")
      case (Some x)
      then obtain la lo t' where x: "latest ls = Some (la, lo, t')" by (cases x) auto
      with assms(1) have l: "?zs \<noteq> []" "fst (last ?zs) = unix_seconds t'" by (auto simp: history_def Let_def)
      have "unix_seconds t' \<le> ?n"
      proof (cases "fst (last ?zs) = ?n")
        case False
        then have "last ?zs \<in> set ?f" using last_in_set [OF l(1)] by (simp add: f)
        with True l(2) show ?thesis by fastforce
      qed (simp add: l(2))
      with x show ?thesis by (simp add: latest_snoc)
    qed (simp add: latest_snoc)
    moreover have "last ?zs' = (?n, show_int ?n)" by (rule last_z_insert [OF True])
    ultimately show ?thesis
      by (intro historyI [where lat = lat and lon = lon and t = t, OF _ z'(2,1,3)]) (simp_all add: SaveLoginGeo_space)
  next
    case False
    then obtain z where z: "z \<in> set ?f" "?n \<le> fst z" by (auto simp: not_less)
    then have "?n < fst z" unfolding f by auto
    moreover have "fst z \<le> fst (last ?zs)" using z(1) sorted_last [OF s] by auto
    ultimately have lt: "?n < fst (last ?zs)" by simp
    have ne: "?zs \<noteq> []" using z(1) by auto
    then obtain la lo t' where x: "latest ls = Some (la, lo, t')"
      using assms(1) by (cases "latest ls") (auto simp: history_def Let_def)
    with assms(1) have t': "fst (last ?zs) = unix_seconds t'"
      "gs_geo r (geoKey u) (show_int (unix_seconds t')) = Some (snap (la, lo))" by (auto simp: history_def Let_def)
    have "?f \<noteq> []" and lf: "last ?f = last ?zs"
      using z(1) lt last_filter_last [OF ne, of "\<lambda>z. fst z \<noteq> ?n"] unfolding f by (auto simp: filter_empty_conv)
    then have "last ?zs' = last ?zs" using last_z_insert_less [OF _ sf] lt by simp
    moreover have "show_int ?n \<noteq> show_int (unix_seconds t')"
      using lt t'(1) m last_in_set [OF ne] assms(2) show_int_inject [of ?n "unix_seconds t'"] by (auto simp: storable_time_def)
    moreover have "latest (ls @ [(lat, lon, t)]) = Some (la, lo, t')" using x lt t'(1) by (simp add: latest_snoc)
    ultimately show ?thesis using t' 
      by (intro historyI [where lat = la and lon = lo and t = t', OF _ z'(2,1,3)]) (simp_all add: SaveLoginGeo_space)
  qed
qed

lemma history_all:
  assumes "history snap u r ls" and "\<forall>(lat, lon, t) \<in> set ls'. storable_time t"
  shows "history snap u (save_all snap u r ls') (ls @ ls')"
  using assms
proof (induction ls' arbitrary: r ls)
  case (Cons x ls')
  obtain lat lon t where x: "x = (lat, lon, t)" by (cases x)
  with Cons.prems have "history snap u (snd (SaveLoginGeo (geo_client snap) r u lat lon t)) (ls @ [(lat, lon, t)])"
    by (intro history_save) auto
  from Cons.IH [OF this] Cons.prems(2) x show ?case by (simp add: save_all_def)
qed (simp add: save_all_def)

lemma ParseInt_show: "0 \<le> n \<Longrightarrow> n < 2 ^ 63 \<Longrightarrow> ParseInt (show_int n) = Some n"
proof -
  assume n: "0 \<le> n" "n < 2 ^ 63"
  obtain c cs where s: "show_int n = c # cs" "list_all is_digit (c # cs)"
    using show_nat_digits [of "nat n"] n(1) by (cases "show_int n") (auto simp: show_int_def)
  then have "c \<noteq> CHR ''-'' \<and> c \<noteq> CHR ''+''" by (auto simp: is_digit_def)
  with s sscanf_show_int [OF n] show ?thesis by (simp add: ParseInt_def)
qed

text \<open>
  The history answers with the login of the latest second, and with the last one saved in it, for logins saved in
  any order: the coordinates as the geo set rounds them, the time to the second.
\<close>

theorem GetLastLoginLocation_latest:
  assumes "\<forall>(lat, lon, t) \<in> set ls. storable_time t" and "gs_zsets r (timelineKey u) = []"
  shows "GetLastLoginLocation (geo_client snap) (save_all snap u r ls) u =
    (case latest ls of
       None \<Rightarrow> Fail ErrNotFound
     | Some (lat, lon, t) \<Rightarrow> Ok \<lparr>GpLat = fst (snap (lat, lon)), GpLon = snd (snap (lat, lon)),
                                GpTimestamp = unix_seconds t * 1000000000\<rparr>)"
proof -
  let ?r = "save_all snap u r ls"
  have h: "history snap u ?r ls"
    using history_all [of snap u r "[]" ls] assms by (simp add: history_def)
  show ?thesis
  proof (cases "latest ls")
    case None
    with h show ?thesis by (simp add: history_def GetLastLoginLocation_def Let_def)
  next
    case (Some x)
    then obtain lat lon t where x: "latest ls = Some (lat, lon, t)" by (cases x) auto
    then have "storable_time t" using latest_member assms(1) by fastforce
    then have p: "ParseInt (show_int (unix_seconds t)) = Some (unix_seconds t)" by (simp add: ParseInt_show storable_time_def)
    from h x have z: "gs_zsets ?r (timelineKey u) \<noteq> []" "snd (last (gs_zsets ?r (timelineKey u))) = show_int (unix_seconds t)"
      "gs_geo ?r (geoKey u) (show_int (unix_seconds t)) = Some (snap (lat, lon))"
      by (auto simp: history_def Let_def)
    have g: "gc_GeoPos (geo_client snap) ?r (geoKey u) (show_int (unix_seconds t)) = Ok [Some (snap (lat, lon))]"
      by (simp add: geo_client_def z(3))
    show ?thesis using z(1,2) x p g by (simp add: GetLastLoginLocation_def split: prod.split)
  qed
qed

definition no_history :: geo_space where
  "no_history = \<lparr>gs_geo = (\<lambda>_. Map.empty), gs_zsets = (\<lambda>_. []), gs_sets = (\<lambda>_. {})\<rparr>"

theorem GetLastLoginLocation_latest_witness:
  "GetLastLoginLocation (geo_client id) (save_all id ''u1'' no_history [(50, 8, 7000000001), (1, 2, 3000000000), (48, 2, 7000000009)]) ''u1''
    = Ok \<lparr>GpLat = 48, GpLon = 2, GpTimestamp = 7000000000\<rparr>"
  using GetLastLoginLocation_latest [of "[(50, 8, 7000000001), (1, 2, 3000000000), (48, 2, 7000000009)]" no_history "''u1''" id]
  by (simp add: storable_time_def unix_seconds_def no_history_def)

text \<open>
  After a login at one place, a login at another place is a travel risk exactly when the distance of the places exceeds what
  800 kilometres per hour allow since the second of the first login.
\<close>

corollary travel_risk_iff:
  assumes "storable_time t" and "gs_zsets r (timelineKey u) = []" and "unix_seconds t * 1000000000 < now" and "now - unix_seconds t * 1000000000 < 2 ^ 63"
  shows "travel_CalculateRisk (geo_client id) now (save_all id u r [(lat1, lon1, t)]) u lat2 lon2 =
    Ok (if haversineDistance lat1 lon1 lat2 lon2 > 800 * hours (now - unix_seconds t * 1000000000) then 1 else 0)"
proof -
  have "GetLastLoginLocation (geo_client id) (save_all id u r [(lat1, lon1, t)]) u
      = Ok \<lparr>GpLat = lat1, GpLon = lon1, GpTimestamp = unix_seconds t * 1000000000\<rparr>"
    using history_all [of id u r "[]" "[(lat1, lon1, t)]"] assms(1,2) ParseInt_show
    by (auto simp: GetLastLoginLocation_def history_def Let_def geo_client_def save_all_def SaveLoginGeo_def storable_time_def)
  moreover have "time_since now (unix_seconds t * 1000000000) = now - unix_seconds t * 1000000000"
    using assms(3,4) by (simp add: time_since_def)
  moreover have "0 < hours (now - unix_seconds t * 1000000000)" using assms(3) by (simp add: hours_def)
  ultimately show ?thesis
    by (simp add: travel_CalculateRisk_def haversine_eq MaxTravelSpeedKmH_def less_divide_eq Let_def)
qed

end
