(* ===== verification/Profiles.thy ===== *)
theory Profiles
  imports Devices "HOL-Library.Sublist"
begin

text \<open>
  User profiles, \<^verbatim>\<open>internal/identity/profile\<close>: behaviour metrics from the access log, risk and quality scores, tags
  by rules over reflected field paths, the PostgreSQL repository, the service and the event handler. The access
  log, the user service, the MFA service and the hour of a time in the local time zone are arguments; weights and rates are real
  numbers where the code rounds to floating point. The events published are commented out in the code.
\<close>

section \<open>Profiles\<close>

record BehaviorMetrics =
  BmTotalLogins :: int
  BmFailedLogins :: int
  BmUniqueDevices :: int
  BmUniqueLocations :: int
  BmUniqueIPs :: int
  BmAvgSessionDuration :: real
  BmPeakActivityHours :: "int list"
  BmLastLocations :: "string list"
  BmLoginFrequency :: real
  BmMFAUsageRate :: real
  BmPasswordChangeCount :: int
  BmLastPasswordChange :: "time option"

record RiskIndicators =
  RiAnomalyCount :: int
  RiLastAnomalyAt :: "time option"
  RiGeoJumpCount :: int
  RiFailedMFACount :: int
  RiSuspiciousIPCount :: int
  RiUnusualTimeAccess :: int
  RiNewDeviceCount30d :: int
  RiCompromiseIndicators :: "string list"

record QualityDetails =
  QdHasEmail :: bool
  QdEmailVerified :: bool
  QdHasPhone :: bool
  QdPhoneVerified :: bool
  QdHasMFA :: bool
  QdHasRecoveryEmail :: bool
  QdProfileComplete :: real
  QdLastVerification :: "time option"

record UserProfile =
  UpID :: string
  UpUserID :: string
  UpTenantID :: string
  UpBehavior :: BehaviorMetrics
  UpRisk :: RiskIndicators
  UpRiskScore :: int
  UpRiskLevel :: string
  UpAutoTags :: "string list"
  UpManualTags :: "string list"
  UpQualityScore :: int
  UpQualityDetails :: QualityDetails
  UpLastActivityAt :: "time option"
  UpLastRiskUpdateAt :: "time option"
  UpCreatedAt :: time
  UpUpdatedAt :: time

definition zero_metrics :: BehaviorMetrics where
  "zero_metrics = \<lparr>BmTotalLogins = 0, BmFailedLogins = 0, BmUniqueDevices = 0, BmUniqueLocations = 0, BmUniqueIPs = 0,
     BmAvgSessionDuration = 0, BmPeakActivityHours = [], BmLastLocations = [], BmLoginFrequency = 0, BmMFAUsageRate = 0,
     BmPasswordChangeCount = 0, BmLastPasswordChange = None\<rparr>"

definition zero_indicators :: RiskIndicators where
  "zero_indicators = \<lparr>RiAnomalyCount = 0, RiLastAnomalyAt = None, RiGeoJumpCount = 0, RiFailedMFACount = 0,
     RiSuspiciousIPCount = 0, RiUnusualTimeAccess = 0, RiNewDeviceCount30d = 0, RiCompromiseIndicators = []\<rparr>"

definition zero_quality :: QualityDetails where
  "zero_quality = \<lparr>QdHasEmail = False, QdEmailVerified = False, QdHasPhone = False, QdPhoneVerified = False,
     QdHasMFA = False, QdHasRecoveryEmail = False, QdProfileComplete = 0, QdLastVerification = None\<rparr>"

definition TagFrequentTraveler :: string where "TagFrequentTraveler = ''frequent_traveler''"
definition TagHighValueUser :: string where "TagHighValueUser = ''high_value''"
definition TagDormantUser :: string where "TagDormantUser = ''dormant''"
definition TagNewUser :: string where "TagNewUser = ''new_user''"
definition TagSecurityConscious :: string where "TagSecurityConscious = ''security_conscious''"
definition TagHighRisk :: string where "TagHighRisk = ''high_risk''"

section \<open>Risk\<close>

record RiskScorerConfig =
  AnomalyWeight :: real
  GeoJumpWeight :: real
  FailedMFAWeight :: real
  SuspiciousIPWeight :: real
  NewDeviceWeight :: real
  DecayDays :: int
  DecayRate :: real

text \<open>
  \<^verbatim>\<open>int(x)\<close> of a floating-point number drops the fraction. \<^verbatim>\<open>math.Pow\<close> is the real power; the decay rate is not
  negative.
\<close>

definition go_trunc :: "real \<Rightarrow> int" where
  "go_trunc x = (if 0 \<le> x then \<lfloor>x\<rfloor> else \<lceil>x\<rceil>)"

definition ScoreToLevel :: "int \<Rightarrow> string" where
  "ScoreToLevel score =
     (if score < 25 then ''low'' else if score < 50 then ''medium'' else if score < 75 then ''high'' else ''critical'')"

definition risk_CalculateScore :: "RiskScorerConfig \<Rightarrow> time \<Rightarrow> RiskIndicators \<Rightarrow> int \<times> string" where
  "risk_CalculateScore c now i =
     (let score = real_of_int (RiAnomalyCount i) * AnomalyWeight c + real_of_int (RiGeoJumpCount i) * GeoJumpWeight c
            + real_of_int (RiFailedMFACount i) * FailedMFAWeight c + real_of_int (RiSuspiciousIPCount i) * SuspiciousIPWeight c
            + real_of_int (RiNewDeviceCount30d i) * NewDeviceWeight c;
          decayed = (case RiLastAnomalyAt i of
             None \<Rightarrow> score
           | Some t \<Rightarrow>
               let daysSince = hours (time_since now t) / 24
               in if daysSince > 0 \<and> DecayDays c > 0 then score * (DecayRate c powr (daysSince / real_of_int (DecayDays c)))
                  else score);
          s1 = go_trunc decayed;
          s2 = (if s1 > 100 then 100 else s1);
          finalScore = (if s2 < 0 then 0 else s2)
      in (finalScore, ScoreToLevel finalScore))"

record AnomalyEvent =
  AeType :: string
  AeTimestamp :: time
  AeDetails :: gmap

definition UpdateFromEvent :: "UserProfile \<Rightarrow> AnomalyEvent \<Rightarrow> RiskIndicators" where
  "UpdateFromEvent profile event =
     (let i = UpRisk profile;
          i1 = (if AeType event = ''geo_jump'' then i\<lparr>RiGeoJumpCount := go_int (RiGeoJumpCount i + 1)\<rparr>
                else if AeType event = ''fingerprint_change'' then i\<lparr>RiAnomalyCount := go_int (RiAnomalyCount i + 1)\<rparr>
                else if AeType event = ''suspicious_ip'' then i\<lparr>RiSuspiciousIPCount := go_int (RiSuspiciousIPCount i + 1)\<rparr>
                else if AeType event = ''mfa_failure'' then i\<lparr>RiFailedMFACount := go_int (RiFailedMFACount i + 1)\<rparr>
                else if AeType event = ''new_device'' then i\<lparr>RiNewDeviceCount30d := go_int (RiNewDeviceCount30d i + 1)\<rparr>
                else i\<lparr>RiAnomalyCount := go_int (RiAnomalyCount i + 1)\<rparr>)
      in i1\<lparr>RiLastAnomalyAt := Some (AeTimestamp event)\<rparr>)"

definition CheckIP :: "(string \<Rightarrow> (go_error, int) outcome) option \<Rightarrow> string \<Rightarrow> (go_error, bool) outcome" where
  "CheckIP ipChecker ip =
     (case ipChecker of None \<Rightarrow> Ok False | Some GetReputation \<Rightarrow> obind (GetReputation ip) (\<lambda>score. Ok (score < 30)))"

section \<open>Quality\<close>

record QualityWeightsConfig =
  QwEmail :: int
  QwEmailVerified :: int
  QwPhone :: int
  QwPhoneVerified :: int
  QwMFA :: int
  QwRecoveryEmail :: int
  QwProfileComplete :: int

definition quality_CalculateScore :: "QualityWeightsConfig \<Rightarrow> QualityDetails \<Rightarrow> int" where
  "quality_CalculateScore w d =
     (let add = (\<lambda>b n s. if b then go_int (s + n) else s);
          s1 = add (QdHasEmail d) (QwEmail w) 0;
          s2 = add (QdEmailVerified d) (QwEmailVerified w) s1;
          s3 = add (QdHasPhone d) (QwPhone w) s2;
          s4 = add (QdPhoneVerified d) (QwPhoneVerified w) s3;
          s5 = add (QdHasMFA d) (QwMFA w) s4;
          s6 = add (QdHasRecoveryEmail d) (QwRecoveryEmail w) s5;
          score = go_int (s6 + go_trunc (QdProfileComplete d * real_of_int (QwProfileComplete w)))
      in if score > 100 then 100 else score)"

definition GetImprovementSuggestions :: "QualityDetails \<Rightarrow> string list" where
  "GetImprovementSuggestions d =
     (if \<not> QdHasEmail d then [''Add an email address'']
      else if \<not> QdEmailVerified d then [''Verify your email address''] else []) @
     (if \<not> QdHasPhone d then [''Add a phone number'']
      else if \<not> QdPhoneVerified d then [''Verify your phone number''] else []) @
     (if \<not> QdHasMFA d then [''Enable Multi-Factor Authentication (MFA)''] else []) @
     (if \<not> QdHasRecoveryEmail d then [''Add a recovery email address''] else [])"

section \<open>Tags\<close>

text \<open>
  What reflection sees of a profile and of a configured value. The fields of a struct carry their name and their
  \<^verbatim>\<open>json\<close> tag. The fields of a \<^verbatim>\<open>time.Time\<close> are not exported: they are found by name, and reading one panics. Paths are ASCII.
\<close>

datatype rvalue =
    RvNil
  | RvInt int
  | RvFloat real
  | RvString string
  | RvBool bool
  | RvTime time
  | RvPtr "time option"
  | RvInts "int list"
  | RvStrings "string list"
  | RvMap "(string \<times> rvalue) list"
  | RvStruct "(string \<times> string \<times> rvalue) list"
  | RvUnexported

definition behavior_value :: "BehaviorMetrics \<Rightarrow> rvalue" where
  "behavior_value b = RvStruct
     [(''TotalLogins'', ''total_logins'', RvInt (BmTotalLogins b)),
      (''FailedLogins'', ''failed_logins'', RvInt (BmFailedLogins b)),
      (''UniqueDevices'', ''unique_devices'', RvInt (BmUniqueDevices b)),
      (''UniqueLocations'', ''unique_locations'', RvInt (BmUniqueLocations b)),
      (''UniqueIPs'', ''unique_ips'', RvInt (BmUniqueIPs b)),
      (''AvgSessionDuration'', ''avg_session_duration'', RvFloat (BmAvgSessionDuration b)),
      (''PeakActivityHours'', ''peak_activity_hours'', RvInts (BmPeakActivityHours b)),
      (''LastLocations'', ''last_locations'', RvStrings (BmLastLocations b)),
      (''LoginFrequency'', ''login_frequency'', RvFloat (BmLoginFrequency b)),
      (''MFAUsageRate'', ''mfa_usage_rate'', RvFloat (BmMFAUsageRate b)),
      (''PasswordChangeCount'', ''password_change_count'', RvInt (BmPasswordChangeCount b)),
      (''LastPasswordChange'', ''last_password_change,omitempty'', RvPtr (BmLastPasswordChange b))]"

definition risk_value :: "RiskIndicators \<Rightarrow> rvalue" where
  "risk_value i = RvStruct
     [(''AnomalyCount'', ''anomaly_count'', RvInt (RiAnomalyCount i)),
      (''LastAnomalyAt'', ''last_anomaly_at,omitempty'', RvPtr (RiLastAnomalyAt i)),
      (''GeoJumpCount'', ''geo_jump_count'', RvInt (RiGeoJumpCount i)),
      (''FailedMFACount'', ''failed_mfa_count'', RvInt (RiFailedMFACount i)),
      (''SuspiciousIPCount'', ''suspicious_ip_count'', RvInt (RiSuspiciousIPCount i)),
      (''UnusualTimeAccess'', ''unusual_time_access'', RvInt (RiUnusualTimeAccess i)),
      (''NewDeviceCount30d'', ''new_device_count_30d'', RvInt (RiNewDeviceCount30d i)),
      (''CompromiseIndicators'', ''compromise_indicators'', RvStrings (RiCompromiseIndicators i))]"

definition quality_value :: "QualityDetails \<Rightarrow> rvalue" where
  "quality_value q = RvStruct
     [(''HasEmail'', ''has_email'', RvBool (QdHasEmail q)),
      (''EmailVerified'', ''email_verified'', RvBool (QdEmailVerified q)),
      (''HasPhone'', ''has_phone'', RvBool (QdHasPhone q)),
      (''PhoneVerified'', ''phone_verified'', RvBool (QdPhoneVerified q)),
      (''HasMFA'', ''has_mfa'', RvBool (QdHasMFA q)),
      (''HasRecoveryEmail'', ''has_recovery_email'', RvBool (QdHasRecoveryEmail q)),
      (''ProfileComplete'', ''profile_complete'', RvFloat (QdProfileComplete q)),
      (''LastVerification'', ''last_verification,omitempty'', RvPtr (QdLastVerification q))]"

definition profile_value :: "UserProfile \<Rightarrow> rvalue" where
  "profile_value p = RvStruct
     [(''ID'', [], RvString (UpID p)), (''UserID'', [], RvString (UpUserID p)), (''TenantID'', [], RvString (UpTenantID p)),
      (''Behavior'', [], behavior_value (UpBehavior p)), (''Risk'', [], risk_value (UpRisk p)),
      (''RiskScore'', [], RvInt (UpRiskScore p)), (''RiskLevel'', [], RvString (UpRiskLevel p)),
      (''AutoTags'', [], RvStrings (UpAutoTags p)), (''ManualTags'', [], RvStrings (UpManualTags p)),
      (''QualityScore'', [], RvInt (UpQualityScore p)), (''QualityDetails'', [], quality_value (UpQualityDetails p)),
      (''LastActivityAt'', [], RvPtr (UpLastActivityAt p)), (''LastRiskUpdateAt'', [], RvPtr (UpLastRiskUpdateAt p)),
      (''CreatedAt'', [], RvTime (UpCreatedAt p)), (''UpdatedAt'', [], RvTime (UpUpdatedAt p))]"

fun struct_fields :: "rvalue \<Rightarrow> (string \<times> string \<times> rvalue) list option" where
  "struct_fields (RvStruct fs) = Some fs"
| "struct_fields (RvTime t) = Some [(''wall'', [], RvUnexported), (''ext'', [], RvUnexported), (''loc'', [], RvUnexported)]"
| "struct_fields _ = None"

definition upper_char :: "char \<Rightarrow> char" where
  "upper_char c = (let n = of_char c :: nat in if 97 \<le> n \<and> n \<le> 122 then char_of (n - 32) else c)"

definition toCamelCase :: "string \<Rightarrow> string" where
  "toCamelCase s = concat (map (\<lambda>p. case p of [] \<Rightarrow> [] | c # r \<Rightarrow> upper_char c # r) (split_on CHR ''_'' s))"

definition FieldByName :: "(string \<times> string \<times> rvalue) list \<Rightarrow> string \<Rightarrow> rvalue option" where
  "FieldByName fs n = map_option (\<lambda>(_, _, v). v) (find (\<lambda>(name, _, _). name = n) fs)"

definition find_field :: "(string \<times> string \<times> rvalue) list \<Rightarrow> string \<Rightarrow> rvalue option" where
  "find_field fs part =
     (case FieldByName fs (toCamelCase part) of
        Some v \<Rightarrow> Some v
      | None \<Rightarrow>
          (case FieldByName fs part of
             Some v \<Rightarrow> Some v
           | None \<Rightarrow> map_option (\<lambda>(_, _, v). v)
               (find (\<lambda>(name, tag, _). EqualFold name part \<or> tag \<noteq> [] \<and> hd (split_on CHR '','' tag) = part) fs)))"

fun walk_path :: "rvalue \<Rightarrow> string list \<Rightarrow> (go_error, rvalue option) outcome" where
  "walk_path val [] = (if val = RvUnexported then Panic else Ok (Some val))"
| "walk_path val (part # parts) =
     (case struct_fields val of
        None \<Rightarrow> Ok None
      | Some fs \<Rightarrow> (case find_field fs part of None \<Rightarrow> Ok None | Some f \<Rightarrow> walk_path f parts))"

definition getFieldValue :: "rvalue \<Rightarrow> string \<Rightarrow> (go_error, rvalue option) outcome" where
  "getFieldValue obj path = walk_path obj (split_on CHR ''.'' path)"

fun profile_toFloat :: "rvalue \<Rightarrow> real option" where
  "profile_toFloat (RvInt n) = Some (real_of_int n)"
| "profile_toFloat (RvFloat x) = Some x"
| "profile_toFloat _ = None"

text \<open>
  \<^verbatim>\<open>reflect.DeepEqual\<close> of a field and a configured value, which is a number, a string, a boolean, a list of interface
  values, a map or nil; values of different types are different.
\<close>

fun deep_equal :: "rvalue \<Rightarrow> rvalue \<Rightarrow> bool" where
  "deep_equal (RvString s) (RvString t) = (s = t)"
| "deep_equal (RvBool a) (RvBool b) = (a = b)"
| "deep_equal _ _ = False"

definition compareValues :: "rvalue \<Rightarrow> string \<Rightarrow> rvalue \<Rightarrow> bool" where
  "compareValues actual operator target =
     (let generic = (if operator = ''=='' then deep_equal actual target
            else if operator = ''contains'' then
              (case (actual, target) of (RvString s1, RvString s2) \<Rightarrow> sublist s2 s1 | _ \<Rightarrow> False)
            else False)
      in case (profile_toFloat actual, profile_toFloat target) of
           (Some f1, Some f2) \<Rightarrow>
             if operator = ''>'' then f1 > f2 else if operator = ''>='' then f1 \<ge> f2
             else if operator = ''<'' then f1 < f2 else if operator = ''<='' then f1 \<le> f2
             else if operator = ''=='' then f1 = f2 else generic
         | _ \<Rightarrow> generic)"

record TagCondition =
  TcField :: string
  TcOperator :: string
  TcValue :: rvalue

record AutoTagRule =
  AtTag :: string
  AtCondition :: TagCondition

definition string_at :: "(string \<times> rvalue) list \<Rightarrow> string \<Rightarrow> string" where
  "string_at r k = (case map_of r k of Some (RvString s) \<Rightarrow> s | _ \<Rightarrow> [])"

definition NewTagManager :: "(string \<times> rvalue) list list \<Rightarrow> AutoTagRule list" where
  "NewTagManager = map (\<lambda>r.
     \<lparr>AtTag = string_at r ''tag'',
      AtCondition = (case map_of r ''condition'' of
         Some (RvMap c) \<Rightarrow> \<lparr>TcField = string_at c ''field'', TcOperator = string_at c ''operator'',
                            TcValue = (case map_of c ''value'' of None \<Rightarrow> RvNil | Some v \<Rightarrow> v)\<rparr>
       | _ \<Rightarrow> \<lparr>TcField = [], TcOperator = [], TcValue = RvNil\<rparr>)\<rparr>)"

definition tag_rule :: "string \<Rightarrow> string \<Rightarrow> string \<Rightarrow> rvalue \<Rightarrow> AutoTagRule" where
  "tag_rule tag field operator val = \<lparr>AtTag = tag, AtCondition = \<lparr>TcField = field, TcOperator = operator, TcValue = val\<rparr>\<rparr>"

definition DefaultAutoTagRules :: "AutoTagRule list" where
  "DefaultAutoTagRules =
     [tag_rule TagFrequentTraveler ''behavior.unique_locations'' ''>='' (RvInt 5),
      tag_rule TagHighValueUser ''behavior.login_frequency'' ''>='' (RvFloat 10),
      tag_rule TagDormantUser ''last_activity_days'' ''>'' (RvInt 30),
      tag_rule TagNewUser ''account_age_days'' ''<'' (RvInt 7),
      tag_rule TagSecurityConscious ''behavior.mfa_usage_rate'' ''>='' (RvFloat (9 / 10)),
      tag_rule TagHighRisk ''risk_score'' ''>='' (RvInt 75)]"

definition in_days :: "time \<Rightarrow> time \<Rightarrow> real" where
  "in_days now t = hours (time_since now t) / 24"

definition tag_evaluateCondition :: "time \<Rightarrow> UserProfile \<Rightarrow> TagCondition \<Rightarrow> (go_error, bool) outcome" where
  "tag_evaluateCondition now profile cond =
     obind (if TcField cond = ''last_activity_days''
            then Ok (map_option (\<lambda>t. RvFloat (in_days now t)) (UpLastActivityAt profile))
            else if TcField cond = ''account_age_days'' then Ok (Some (RvFloat (in_days now (UpCreatedAt profile))))
            else getFieldValue (profile_value profile) (TcField cond))
       (\<lambda>found. Ok (case found of None \<Rightarrow> False | Some v \<Rightarrow> compareValues v (TcOperator cond) (TcValue cond)))"

text \<open>The clock is read once per rule that needs it; \<open>clock\<close> gives the time at each rule.\<close>

fun EvaluateAutoTags :: "(nat \<Rightarrow> time) \<Rightarrow> AutoTagRule list \<Rightarrow> UserProfile \<Rightarrow> (go_error, string list) outcome" where
  "EvaluateAutoTags clock [] profile = Ok []"
| "EvaluateAutoTags clock (rule # rules) profile =
     obind (tag_evaluateCondition (clock 0) profile (AtCondition rule))
       (\<lambda>met. obind (EvaluateAutoTags (\<lambda>n. clock (Suc n)) rules profile)
          (\<lambda>tags. Ok (if met then AtTag rule # tags else tags)))"

section \<open>The repository\<close>

text \<open>
  The time stamps that the mapper fills in by itself on an insert are left out: the object is saved again with its own
  before it is read. An update of columns that matches no row is no error.
\<close>

record 'd ProfileRepository =
  pr_Create :: "'d \<Rightarrow> UserProfile \<Rightarrow> (go_error, unit) outcome \<times> 'd"
  pr_GetByUserID :: "'d \<Rightarrow> string \<Rightarrow> (go_error, UserProfile option) outcome"
  pr_Update :: "time \<Rightarrow> 'd \<Rightarrow> UserProfile \<Rightarrow> (go_error, unit) outcome \<times> 'd"
  pr_UpdateRisk :: "(nat \<Rightarrow> time) \<Rightarrow> 'd \<Rightarrow> string \<Rightarrow> RiskIndicators \<Rightarrow> int \<Rightarrow> string \<Rightarrow> (go_error, unit) outcome \<times> 'd"
  pr_UpdateBehavior :: "time \<Rightarrow> 'd \<Rightarrow> string \<Rightarrow> BehaviorMetrics \<Rightarrow> (go_error, unit) outcome \<times> 'd"
  pr_UpdateTags :: "time \<Rightarrow> 'd \<Rightarrow> string \<Rightarrow> string list \<Rightarrow> string list \<Rightarrow> (go_error, unit) outcome \<times> 'd"
  pr_UpdateQuality :: "time \<Rightarrow> 'd \<Rightarrow> string \<Rightarrow> int \<Rightarrow> QualityDetails \<Rightarrow> (go_error, unit) outcome \<times> 'd"
  pr_FindByRiskLevel :: "'d \<Rightarrow> string \<Rightarrow> string \<Rightarrow> int \<Rightarrow> (go_error, UserProfile list) outcome"
  pr_FindByTag :: "'d \<Rightarrow> string \<Rightarrow> string \<Rightarrow> (go_error, UserProfile list) outcome"
  pr_Delete :: "'d \<Rightarrow> string \<Rightarrow> (go_error, unit) outcome \<times> 'd"

definition pgp_GetByUserID :: "('d, UserProfile) gorm_table \<Rightarrow> 'd \<Rightarrow> string \<Rightarrow> (go_error, UserProfile option) outcome" where
  "pgp_GetByUserID db d userID =
     (case db_first db d (\<lambda>x. UpUserID x = userID) of
        Panic \<Rightarrow> Panic
      | Fail err \<Rightarrow> if err = ErrRecordNotFound then Ok None else Fail err
      | Ok x \<Rightarrow> Ok (Some x))"

definition pgp_UpdateRisk ::
    "('d, UserProfile) gorm_table \<Rightarrow> (nat \<Rightarrow> time) \<Rightarrow> 'd \<Rightarrow> string \<Rightarrow> RiskIndicators \<Rightarrow> int \<Rightarrow> string \<Rightarrow> (go_error, unit) outcome \<times> 'd" where
  "pgp_UpdateRisk db clock d userID risk score level =
     db_updates db d (\<lambda>x. UpUserID x = userID)
       (\<lambda>x. x\<lparr>UpRisk := risk, UpRiskScore := score, UpRiskLevel := level, UpLastRiskUpdateAt := Some (clock 0), UpUpdatedAt := clock 1\<rparr>)"

definition pgp_UpdateBehavior ::
    "('d, UserProfile) gorm_table \<Rightarrow> time \<Rightarrow> 'd \<Rightarrow> string \<Rightarrow> BehaviorMetrics \<Rightarrow> (go_error, unit) outcome \<times> 'd" where
  "pgp_UpdateBehavior db now d userID behavior =
     db_updates db d (\<lambda>x. UpUserID x = userID) (\<lambda>x. x\<lparr>UpBehavior := behavior, UpUpdatedAt := now\<rparr>)"

definition pgp_UpdateTags ::
    "('d, UserProfile) gorm_table \<Rightarrow> time \<Rightarrow> 'd \<Rightarrow> string \<Rightarrow> string list \<Rightarrow> string list \<Rightarrow> (go_error, unit) outcome \<times> 'd" where
  "pgp_UpdateTags db now d userID autoTags manualTags =
     db_updates db d (\<lambda>x. UpUserID x = userID) (\<lambda>x. x\<lparr>UpAutoTags := autoTags, UpManualTags := manualTags, UpUpdatedAt := now\<rparr>)"

definition pgp_UpdateQuality ::
    "('d, UserProfile) gorm_table \<Rightarrow> time \<Rightarrow> 'd \<Rightarrow> string \<Rightarrow> int \<Rightarrow> QualityDetails \<Rightarrow> (go_error, unit) outcome \<times> 'd" where
  "pgp_UpdateQuality db now d userID score details =
     db_updates db d (\<lambda>x. UpUserID x = userID) (\<lambda>x. x\<lparr>UpQualityScore := score, UpQualityDetails := details, UpUpdatedAt := now\<rparr>)"

text \<open>\<^verbatim>\<open>Limit\<close> with a negative number is no limit; zero is \<^verbatim>\<open>LIMIT 0\<close>.\<close>

definition pgp_FindByRiskLevel ::
    "('d, UserProfile) gorm_table \<Rightarrow> 'd \<Rightarrow> string \<Rightarrow> string \<Rightarrow> int \<Rightarrow> (go_error, UserProfile list) outcome" where
  "pgp_FindByRiskLevel db d tenantID level limit =
     obind (db_find db d (\<lambda>x. UpTenantID x = tenantID \<and> UpRiskLevel x = level))
       (\<lambda>xs. Ok (if limit < 0 then xs else take (nat limit) xs))"

definition pgp_FindByTag :: "('d, UserProfile) gorm_table \<Rightarrow> 'd \<Rightarrow> string \<Rightarrow> string \<Rightarrow> (go_error, UserProfile list) outcome" where
  "pgp_FindByTag db d tenantID tag =
     db_find db d (\<lambda>x. UpTenantID x = tenantID \<and> (tag \<in> set (UpAutoTags x) \<or> tag \<in> set (UpManualTags x)))"

definition pg_profiles :: "('d, UserProfile) gorm_table \<Rightarrow> 'd ProfileRepository" where
  "pg_profiles db =
     \<lparr>pr_Create = db_create db, pr_GetByUserID = pgp_GetByUserID db,
      pr_Update = (\<lambda>now d profile. db_save db d (profile\<lparr>UpUpdatedAt := now\<rparr>)),
      pr_UpdateRisk = pgp_UpdateRisk db, pr_UpdateBehavior = pgp_UpdateBehavior db, pr_UpdateTags = pgp_UpdateTags db,
      pr_UpdateQuality = pgp_UpdateQuality db, pr_FindByRiskLevel = pgp_FindByRiskLevel db,
      pr_FindByTag = pgp_FindByTag db, pr_Delete = (\<lambda>d userID. db_delete db d (\<lambda>x. UpUserID x = userID))\<rparr>"

section \<open>The builder\<close>

record AccessLog =
  AlID :: string
  AlTenantID :: string
  AlUserID :: string
  AlDeviceID :: string
  AlEventType :: string
  AlAction :: string
  AlIPAddress :: string
  AlUserAgent :: string
  AlLocation :: string
  AlSuccess :: bool
  AlMFAVerified :: bool
  AlMetadata :: gmap
  AlCreatedAt :: time

record 'd ProfileBuilder =
  pb_profileRepo :: "'d ProfileRepository"
  pb_GetLogsForUser :: "string \<Rightarrow> time \<Rightarrow> (go_error, AccessLog list) outcome"
  pb_GetUserByID :: "string \<Rightarrow> (go_error, User) outcome"
  pb_HasAnyMethod :: "string \<Rightarrow> bool \<times> go_error option"
  pb_hour :: "time \<Rightarrow> nat"

text \<open>The variables of the loop over the log. The keys of a set are kept as a list without duplicates.\<close>

record log_scan =
  sc_total :: int
  sc_failed :: int
  sc_devices :: "string list"
  sc_locations :: "string list"
  sc_ips :: "string list"
  sc_hours :: "nat list"
  sc_mfa :: int

definition add_key :: "string \<Rightarrow> string list \<Rightarrow> string list" where
  "add_key k ks = (if k = [] then ks else List.insert k ks)"

definition scan_log :: "(time \<Rightarrow> nat) \<Rightarrow> AccessLog \<Rightarrow> log_scan \<Rightarrow> log_scan" where
  "scan_log hour entry s =
     (let h = hour (AlCreatedAt entry)
      in \<lparr>sc_total = (if AlAction entry = ''login'' \<and> AlSuccess entry then sc_total s + 1 else sc_total s),
          sc_failed = (if AlAction entry = ''login'' \<and> \<not> AlSuccess entry then sc_failed s + 1 else sc_failed s),
          sc_devices = add_key (AlDeviceID entry) (sc_devices s),
          sc_locations = add_key (AlLocation entry) (sc_locations s),
          sc_ips = add_key (AlIPAddress entry) (sc_ips s),
          sc_hours = (sc_hours s)[h := sc_hours s ! h + 1],
          sc_mfa = (if AlMFAVerified entry then sc_mfa s + 1 else sc_mfa s)\<rparr>)"

definition empty_scan :: log_scan where
  "empty_scan = \<lparr>sc_total = 0, sc_failed = 0, sc_devices = [], sc_locations = [], sc_ips = [], sc_hours = replicate 24 0, sc_mfa = 0\<rparr>"

definition ninety_days :: int where "ninety_days = 90 * 86400000000000"

definition buildBehaviorMetrics :: "'d ProfileBuilder \<Rightarrow> time \<Rightarrow> string \<Rightarrow> (go_error, BehaviorMetrics) outcome" where
  "buildBehaviorMetrics b now userID =
     obind (pb_GetLogsForUser b userID (now - ninety_days))
       (\<lambda>logs. let s = fold (scan_log (pb_hour b)) logs empty_scan
          in Ok (zero_metrics\<lparr>BmTotalLogins := sc_total s, BmFailedLogins := sc_failed s,
               BmUniqueDevices := int (length (sc_devices s)), BmUniqueLocations := int (length (sc_locations s)),
               BmUniqueIPs := int (length (sc_ips s)),
               BmLoginFrequency := real_of_int (sc_total s) / (90 / 7),
               BmMFAUsageRate := (if sc_total s > 0 then real_of_int (sc_mfa s) / real_of_int (sc_total s) else 0),
               BmPeakActivityHours := map int (filter (\<lambda>h. sc_hours s ! h > 0) [0..<24])\<rparr>))"

definition profile_attr :: "User \<Rightarrow> string \<Rightarrow> gvalue option" where
  "profile_attr user k = (case UAttributes user of None \<Rightarrow> None | Some m \<Rightarrow> m k)"

definition buildQualityDetails :: "'d ProfileBuilder \<Rightarrow> string \<Rightarrow> (go_error, QualityDetails) outcome" where
  "buildQualityDetails b userID =
     obind (pb_GetUserByID b userID)
       (\<lambda>user. let verified = (\<lambda>k. case profile_attr user k of Some (VBool v) \<Rightarrow> v | _ \<Rightarrow> False);
                   checks = [Email user \<noteq> [], verified ''email_verified'', Phone user \<noteq> [], verified ''phone_verified'']
          in Ok \<lparr>QdHasEmail = (Email user \<noteq> []), QdEmailVerified = verified ''email_verified'',
                 QdHasPhone = (Phone user \<noteq> []), QdPhoneVerified = verified ''phone_verified'',
                 QdHasMFA = fst (pb_HasAnyMethod b userID), QdHasRecoveryEmail = False,
                 QdProfileComplete = real (length (filter id checks)) / real (length checks), QdLastVerification = None\<rparr>)"

definition new_profile :: "time \<Rightarrow> string \<Rightarrow> string \<Rightarrow> string \<Rightarrow> UserProfile" where
  "new_profile now uuid userID tenantID =
     \<lparr>UpID = uuid, UpUserID = userID, UpTenantID = tenantID, UpBehavior = zero_metrics, UpRisk = zero_indicators,
      UpRiskScore = 0, UpRiskLevel = [], UpAutoTags = [], UpManualTags = [], UpQualityScore = 0, UpQualityDetails = zero_quality,
      UpLastActivityAt = None, UpLastRiskUpdateAt = None, UpCreatedAt = now, UpUpdatedAt = zero_time\<rparr>"

definition find_or_create ::
    "'d ProfileBuilder \<Rightarrow> time \<Rightarrow> string \<Rightarrow> 'd \<Rightarrow> string \<Rightarrow> (go_error, UserProfile) outcome \<times> 'd" where
  "find_or_create b now uuid d userID =
     sbind (pr_GetByUserID (pb_profileRepo b) d userID, d)
       (\<lambda>found d1. case found of
          Some profile \<Rightarrow> (Ok profile, d1)
        | None \<Rightarrow>
            sbind (pb_GetUserByID b userID, d1)
              (\<lambda>user d2. let tenantID = (case profile_attr user ''tenant_id'' of Some (VString tid) \<Rightarrow> tid | _ \<Rightarrow> ''default'');
                             profile = new_profile now uuid userID tenantID
                 in sbind (pr_Create (pb_profileRepo b) d2 profile) (\<lambda>_ d3. (Ok profile, d3))))"

text \<open>An error of the metrics or of the details leaves what the profile has; a panic is not caught.\<close>

definition BuildOrUpdate ::
    "'d ProfileBuilder \<Rightarrow> (nat \<Rightarrow> time) \<Rightarrow> string \<Rightarrow> 'd \<Rightarrow> string \<Rightarrow> (go_error, UserProfile) outcome \<times> 'd" where
  "BuildOrUpdate b clock uuid d userID =
     sbind (find_or_create b (clock 0) uuid d userID)
       (\<lambda>profile d1.
          case (buildBehaviorMetrics b (clock 1) userID, buildQualityDetails b userID) of
            (Panic, _) \<Rightarrow> (Panic, d1)
          | (_, Panic) \<Rightarrow> (Panic, d1)
          | (behavior, quality) \<Rightarrow>
              (let p1 = (case behavior of Ok m \<Rightarrow> profile\<lparr>UpBehavior := m\<rparr> | _ \<Rightarrow> profile);
                   p2 = (case quality of Ok q \<Rightarrow> p1\<lparr>UpQualityDetails := q\<rparr> | _ \<Rightarrow> p1);
                   p3 = p2\<lparr>UpLastActivityAt := Some (clock 2), UpUpdatedAt := clock 2\<rparr>
               in sbind (pr_Update (pb_profileRepo b) (clock 3) d1 p3) (\<lambda>_ d2. (Ok (p3\<lparr>UpUpdatedAt := clock 3\<rparr>), d2))))"

definition IncrementalUpdate ::
    "'d ProfileBuilder \<Rightarrow> (nat \<Rightarrow> time) \<Rightarrow> string \<Rightarrow> 'd \<Rightarrow> string \<Rightarrow> gmap \<Rightarrow> (go_error, unit) outcome \<times> 'd" where
  "IncrementalUpdate b clock uuid d userID event =
     sbind (pr_GetByUserID (pb_profileRepo b) d userID, d)
       (\<lambda>found d1. case found of
          None \<Rightarrow> sbind (BuildOrUpdate b clock uuid d1 userID) (\<lambda>_ d2. (Ok (), d2))
        | Some profile \<Rightarrow>
            (let eventType = (case event ''type'' of Some (VString s) \<Rightarrow> s | _ \<Rightarrow> []);
                 m = UpBehavior profile;
                 m1 = (if eventType = ''login'' then m\<lparr>BmTotalLogins := go_int (BmTotalLogins m + 1)\<rparr> else m)
             in pr_UpdateBehavior (pb_profileRepo b) (clock 0) d1 userID m1))"

section \<open>Manual tags\<close>

definition AddManualTag :: "'d ProfileRepository \<Rightarrow> time \<Rightarrow> 'd \<Rightarrow> string \<Rightarrow> string \<Rightarrow> (go_error, unit) outcome \<times> 'd" where
  "AddManualTag repo now d userID tag =
     sbind (pr_GetByUserID repo d userID, d)
       (\<lambda>found d1. case found of
          None \<Rightarrow> (Ok (), d1)
        | Some profile \<Rightarrow>
            if tag \<in> set (UpManualTags profile) then (Ok (), d1)
            else pr_UpdateTags repo now d1 userID (UpAutoTags profile) (UpManualTags profile @ [tag]))"

definition RemoveManualTag :: "'d ProfileRepository \<Rightarrow> time \<Rightarrow> 'd \<Rightarrow> string \<Rightarrow> string \<Rightarrow> (go_error, unit) outcome \<times> 'd" where
  "RemoveManualTag repo now d userID tag =
     sbind (pr_GetByUserID repo d userID, d)
       (\<lambda>found d1. case found of
          None \<Rightarrow> (Ok (), d1)
        | Some profile \<Rightarrow>
            pr_UpdateTags repo now d1 userID (UpAutoTags profile) (filter (\<lambda>t. t \<noteq> tag) (UpManualTags profile)))"

section \<open>The service\<close>

record 'd ProfileService =
  ps_profileRepo :: "'d ProfileRepository"
  ps_profileBuilder :: "'d ProfileBuilder"
  ps_riskScorer :: RiskScorerConfig
  ps_autoRules :: "AutoTagRule list"
  ps_qualityScorer :: QualityWeightsConfig

definition GetProfile ::
    "'d ProfileService \<Rightarrow> (nat \<Rightarrow> time) \<Rightarrow> string \<Rightarrow> 'd \<Rightarrow> string \<Rightarrow> (go_error, UserProfile) outcome \<times> 'd" where
  "GetProfile s clock uuid d userID =
     sbind (pr_GetByUserID (ps_profileRepo s) d userID, d)
       (\<lambda>found d1. case found of None \<Rightarrow> BuildOrUpdate (ps_profileBuilder s) clock uuid d1 userID | Some p \<Rightarrow> (Ok p, d1))"

definition GetRiskLevel ::
    "'d ProfileService \<Rightarrow> (nat \<Rightarrow> time) \<Rightarrow> string \<Rightarrow> 'd \<Rightarrow> string \<Rightarrow> (go_error, int \<times> string) outcome \<times> 'd" where
  "GetRiskLevel s clock uuid d userID =
     sbind (GetProfile s clock uuid d userID) (\<lambda>p d1. (Ok (UpRiskScore p, UpRiskLevel p), d1))"

text \<open>
  A refresh reads the clock for the build (four times), the risk score, the update of the risk (twice), each rule and the last
  two updates.
\<close>

definition RefreshProfile ::
    "'d ProfileService \<Rightarrow> (nat \<Rightarrow> time) \<Rightarrow> string \<Rightarrow> 'd \<Rightarrow> string \<Rightarrow> (go_error, UserProfile) outcome \<times> 'd" where
  "RefreshProfile s clock uuid d userID =
     sbind (BuildOrUpdate (ps_profileBuilder s) clock uuid d userID)
       (\<lambda>profile d1.
          let (score, level) = risk_CalculateScore (ps_riskScorer s) (clock 4) (UpRisk profile);
              p1 = profile\<lparr>UpRiskScore := score, UpRiskLevel := level\<rparr>;
              n = length (ps_autoRules s)
          in sbind (pr_UpdateRisk (ps_profileRepo s) (\<lambda>k. clock (5 + k)) d1 userID (UpRisk p1) score level)
               (\<lambda>_ d2. sbind (EvaluateAutoTags (\<lambda>k. clock (7 + k)) (ps_autoRules s) p1, d2)
                  (\<lambda>tags d3.
                     let p2 = p1\<lparr>UpAutoTags := tags\<rparr>
                     in sbind (pr_UpdateTags (ps_profileRepo s) (clock (7 + n)) d3 userID (UpAutoTags p2) (UpManualTags p2))
                          (\<lambda>_ d4.
                             let p3 = p2\<lparr>UpQualityScore := quality_CalculateScore (ps_qualityScorer s) (UpQualityDetails p2)\<rparr>
                             in sbind (pr_UpdateQuality (ps_profileRepo s) (clock (8 + n)) d4 userID (UpQualityScore p3) (UpQualityDetails p3))
                                  (\<lambda>_ d5. (Ok p3, d5))))))"

definition profile_HandleAnomaly ::
    "'d ProfileService \<Rightarrow> (nat \<Rightarrow> time) \<Rightarrow> string \<Rightarrow> 'd \<Rightarrow> string \<Rightarrow> AnomalyEvent \<Rightarrow> (go_error, unit) outcome \<times> 'd" where
  "profile_HandleAnomaly s clock uuid d userID event =
     sbind (GetProfile s clock uuid d userID)
       (\<lambda>profile d1.
          let risk = UpdateFromEvent profile event;
              (score, level) = risk_CalculateScore (ps_riskScorer s) (clock 4) risk
          in pr_UpdateRisk (ps_profileRepo s) (\<lambda>k. clock (5 + k)) d1 userID risk score level)"

definition GetQualityScore ::
    "'d ProfileService \<Rightarrow> (nat \<Rightarrow> time) \<Rightarrow> string \<Rightarrow> 'd \<Rightarrow> string \<Rightarrow> (go_error, int \<times> string list) outcome \<times> 'd" where
  "GetQualityScore s clock uuid d userID =
     sbind (GetProfile s clock uuid d userID)
       (\<lambda>p d1. (Ok (UpQualityScore p, GetImprovementSuggestions (UpQualityDetails p)), d1))"

definition GetUserTags ::
    "'d ProfileService \<Rightarrow> (nat \<Rightarrow> time) \<Rightarrow> string \<Rightarrow> 'd \<Rightarrow> string \<Rightarrow> (go_error, string list \<times> string list) outcome \<times> 'd" where
  "GetUserTags s clock uuid d userID =
     sbind (GetProfile s clock uuid d userID) (\<lambda>p d1. (Ok (UpAutoTags p, UpManualTags p), d1))"

section \<open>Events\<close>

text \<open>The payload of an event is a map, or another value, which the handlers ignore.\<close>

definition event_string :: "gmap \<Rightarrow> string \<Rightarrow> string" where
  "event_string evt k = (case evt k of Some (VString s) \<Rightarrow> s | _ \<Rightarrow> [])"

definition HandleLoginEvent ::
    "'d ProfileBuilder \<Rightarrow> (nat \<Rightarrow> time) \<Rightarrow> string \<Rightarrow> 'd \<Rightarrow> gmap option \<Rightarrow> (go_error, unit) outcome \<times> 'd" where
  "HandleLoginEvent b clock uuid d event =
     (case event of
        None \<Rightarrow> (Ok (), d)
      | Some evt \<Rightarrow>
          if event_string evt ''user_id'' = [] then (Ok (), d)
          else IncrementalUpdate b clock uuid d (event_string evt ''user_id'')
                 [''type'' \<mapsto> VString ''login'', ''success'' \<mapsto> (case evt ''success'' of None \<Rightarrow> VNil | Some v \<Rightarrow> v)])"

definition HandleAnomalyEvent ::
    "'d ProfileService \<Rightarrow> (nat \<Rightarrow> time) \<Rightarrow> string \<Rightarrow> 'd \<Rightarrow> gmap option \<Rightarrow> (go_error, unit) outcome \<times> 'd" where
  "HandleAnomalyEvent s clock uuid d event =
     (case event of
        None \<Rightarrow> (Ok (), d)
      | Some evt \<Rightarrow>
          if event_string evt ''user_id'' = [] then (Ok (), d)
          else profile_HandleAnomaly s (\<lambda>k. clock (Suc k)) uuid d (event_string evt ''user_id'')
                 \<lparr>AeType = event_string evt ''anomaly_type'', AeTimestamp = clock 0, AeDetails = evt\<rparr>)"

definition HandleNewDeviceEvent ::
    "'d ProfileService \<Rightarrow> (nat \<Rightarrow> time) \<Rightarrow> string \<Rightarrow> 'd \<Rightarrow> gmap option \<Rightarrow> (go_error, unit) outcome \<times> 'd" where
  "HandleNewDeviceEvent s clock uuid d event =
     (case event of
        None \<Rightarrow> (Ok (), d)
      | Some evt \<Rightarrow>
          if event_string evt ''user_id'' = [] then (Ok (), d)
          else profile_HandleAnomaly s (\<lambda>k. clock (Suc k)) uuid d (event_string evt ''user_id'')
                 \<lparr>AeType = ''new_device'', AeTimestamp = clock 0, AeDetails = Map.empty\<rparr>)"

text \<open>The counter is raised in the object that was read, which the refresh does not use.\<close>

definition HandlePasswordChangeEvent ::
    "'d ProfileService \<Rightarrow> (nat \<Rightarrow> time) \<Rightarrow> (nat \<Rightarrow> string) \<Rightarrow> 'd \<Rightarrow> gmap option \<Rightarrow> (go_error, unit) outcome \<times> 'd" where
  "HandlePasswordChangeEvent s clock uuid d event =
     (case event of
        None \<Rightarrow> (Ok (), d)
      | Some evt \<Rightarrow>
          if event_string evt ''user_id'' = [] then (Ok (), d)
          else sbind (GetProfile s clock (uuid 0) d (event_string evt ''user_id''))
            (\<lambda>profile d1.
               sbind (RefreshProfile s (\<lambda>k. clock (5 + k)) (uuid 1) d1 (event_string evt ''user_id'')) (\<lambda>_ d2. (Ok (), d2))))"

definition HandleMFAEvent ::
    "'d ProfileService \<Rightarrow> 'd ProfileBuilder \<Rightarrow> (nat \<Rightarrow> time) \<Rightarrow> string \<Rightarrow> 'd \<Rightarrow> gmap option \<Rightarrow> (go_error, unit) outcome \<times> 'd" where
  "HandleMFAEvent s b clock uuid d event =
     (case event of
        None \<Rightarrow> (Ok (), d)
      | Some evt \<Rightarrow>
          if evt ''success'' \<noteq> Some (VBool True)
          then profile_HandleAnomaly s (\<lambda>k. clock (Suc k)) uuid d (event_string evt ''user_id'')
                 \<lparr>AeType = ''mfa_failure'', AeTimestamp = clock 0, AeDetails = Map.empty\<rparr>
          else IncrementalUpdate b clock uuid d (event_string evt ''user_id'') [''type'' \<mapsto> VString ''mfa_verified''])"

section \<open>Behaviour metrics\<close>

lemma set_add_key [simp]: "set (add_key k ks) = (if k = [] then set ks else insert k (set ks))"
  by (simp add: add_key_def)

lemma distinct_add_key [simp]: "distinct ks \<Longrightarrow> distinct (add_key k ks)"
  by (simp add: add_key_def)

definition named :: "(AccessLog \<Rightarrow> string) \<Rightarrow> AccessLog list \<Rightarrow> string set" where
  "named f logs = f ` set logs - {[]}"

lemma scan_sets:
  assumes "distinct (sc_devices s)" and "distinct (sc_locations s)" and "distinct (sc_ips s)"
  shows "set (sc_devices (fold (scan_log hour) logs s)) = set (sc_devices s) \<union> named AlDeviceID logs"
    and "set (sc_locations (fold (scan_log hour) logs s)) = set (sc_locations s) \<union> named AlLocation logs"
    and "set (sc_ips (fold (scan_log hour) logs s)) = set (sc_ips s) \<union> named AlIPAddress logs"
    and "distinct (sc_devices (fold (scan_log hour) logs s))" and "distinct (sc_locations (fold (scan_log hour) logs s))"
    and "distinct (sc_ips (fold (scan_log hour) logs s))"
  using assms by (induction logs arbitrary: s) (auto simp: named_def scan_log_def Let_def)

lemma scan_counts:
  "sc_total (fold (scan_log hour) logs s) = sc_total s + int (length (filter (\<lambda>l. AlAction l = ''login'' \<and> AlSuccess l) logs))"
  "sc_failed (fold (scan_log hour) logs s) = sc_failed s + int (length (filter (\<lambda>l. AlAction l = ''login'' \<and> \<not> AlSuccess l) logs))"
  "sc_mfa (fold (scan_log hour) logs s) = sc_mfa s + int (length (filter AlMFAVerified logs))"
  by (induction logs arbitrary: s) (auto simp: scan_log_def Let_def)

lemma scan_hours:
  assumes "\<forall>l \<in> set logs. hour (AlCreatedAt l) < length (sc_hours s)" and "h < length (sc_hours s)"
  shows "sc_hours (fold (scan_log hour) logs s) ! h
    = sc_hours s ! h + length (filter (\<lambda>l. hour (AlCreatedAt l) = h) logs)"
  using assms
proof (induction logs arbitrary: s)
  case (Cons l logs)
  let ?s = "scan_log hour l s"
  have len: "length (sc_hours ?s) = length (sc_hours s)" by (simp add: scan_log_def Let_def)
  have "sc_hours (fold (scan_log hour) logs ?s) ! h = sc_hours ?s ! h + length (filter (\<lambda>l. hour (AlCreatedAt l) = h) logs)"
    using Cons.prems by (intro Cons.IH) (auto simp: len)
  moreover have "sc_hours ?s ! h = sc_hours s ! h + (if hour (AlCreatedAt l) = h then 1 else 0)"
    using Cons.prems by (auto simp: scan_log_def Let_def)
  ultimately show ?case by simp
qed simp

text \<open>
  The metrics of a user count what the log of the last ninety days holds: logins by outcome, the different devices,
  locations and addresses that are named, and the hours with any entry, in order.
\<close>

theorem buildBehaviorMetrics_counts:
  assumes "pb_GetLogsForUser b userID (now - ninety_days) = Ok logs" and "\<And>t. pb_hour b t < 24"
  shows "\<exists>m. buildBehaviorMetrics b now userID = Ok m
    \<and> BmTotalLogins m = int (length (filter (\<lambda>l. AlAction l = ''login'' \<and> AlSuccess l) logs))
    \<and> BmFailedLogins m = int (length (filter (\<lambda>l. AlAction l = ''login'' \<and> \<not> AlSuccess l) logs))
    \<and> BmUniqueDevices m = int (card (named AlDeviceID logs)) \<and> BmUniqueLocations m = int (card (named AlLocation logs))
    \<and> BmUniqueIPs m = int (card (named AlIPAddress logs))
    \<and> sorted_wrt (<) (BmPeakActivityHours m) \<and> set (BmPeakActivityHours m) = (\<lambda>l. int (pb_hour b (AlCreatedAt l))) ` set logs"
proof -
  let ?s = "fold (scan_log (pb_hour b)) logs empty_scan"
  have e: "distinct (sc_devices empty_scan)" "distinct (sc_locations empty_scan)" "distinct (sc_ips empty_scan)"
    "length (sc_hours empty_scan) = 24"
    by (simp_all add: empty_scan_def)
  have h: "sc_hours ?s ! h > 0 \<longleftrightarrow> (\<exists>l \<in> set logs. pb_hour b (AlCreatedAt l) = h)" if "h < 24" for h
  proof -
    have "sc_hours ?s ! h = length (filter (\<lambda>l. pb_hour b (AlCreatedAt l) = h) logs)"
      using scan_hours [of logs "pb_hour b" empty_scan h] that assms(2) e(4) by (simp add: empty_scan_def)
    then show ?thesis by (auto simp: filter_empty_conv)
  qed
  have l: "length (sc_devices ?s) = card (named AlDeviceID logs)" "length (sc_locations ?s) = card (named AlLocation logs)"
    "length (sc_ips ?s) = card (named AlIPAddress logs)"
    using scan_sets [OF e(1-3), of "pb_hour b" logs] distinct_card
    by (metis empty_scan_def log_scan.select_convs(3-5) set_empty2 sup_bot.left_neutral list.set(1))+
  have p: "set (map int (filter (\<lambda>h. sc_hours ?s ! h > 0) [0..<24])) = (\<lambda>l. int (pb_hour b (AlCreatedAt l))) ` set logs"
    using h assms(2) by (fastforce simp: image_iff)
  have "sorted_wrt (<) (map int (filter (\<lambda>h. sc_hours ?s ! h > 0) [0..<24]))"
    unfolding sorted_wrt_map by (rule sorted_wrt_mono_rel [OF _ sorted_wrt_filter [OF sorted_wrt_upt]]) simp
  with l p show ?thesis
    using assms(1) by (simp add: buildBehaviorMetrics_def Let_def scan_counts empty_scan_def zero_metrics_def)
qed

definition login_entry :: "string \<Rightarrow> bool \<Rightarrow> bool \<Rightarrow> AccessLog" where
  "login_entry device ok mfa = \<lparr>AlID = [], AlTenantID = [], AlUserID = ''u1'', AlDeviceID = device, AlEventType = [], AlAction = ''login'',
     AlIPAddress = ''10.0.0.1'', AlUserAgent = [], AlLocation = [], AlSuccess = ok, AlMFAVerified = mfa, AlMetadata = Map.empty, AlCreatedAt = 0\<rparr>"

definition profile_db :: "(UserProfile list, UserProfile) gorm_table" where
  "profile_db = row_db UpID UpUserID"

definition profile_builder :: "AccessLog list \<Rightarrow> UserProfile list ProfileBuilder" where
  "profile_builder logs = \<lparr>pb_profileRepo = pg_profiles profile_db, pb_GetLogsForUser = (\<lambda>_ _. Ok logs),
     pb_GetUserByID = (\<lambda>u. Ok (zero_user\<lparr>UID := u\<rparr>)), pb_HasAnyMethod = (\<lambda>_. (False, None)), pb_hour = (\<lambda>_. 0)\<rparr>"

theorem buildBehaviorMetrics_counts_witness:
  "\<exists>m. buildBehaviorMetrics (profile_builder [login_entry ''d1'' True True, login_entry ''d1'' False False]) 0 ''u1'' = Ok m
    \<and> BmTotalLogins m = 1 \<and> BmFailedLogins m = 1 \<and> BmUniqueDevices m = 1 \<and> BmUniqueLocations m = 0"
  using buildBehaviorMetrics_counts [of "profile_builder [login_entry ''d1'' True True, login_entry ''d1'' False False]" "''u1''" 0
      "[login_entry ''d1'' True True, login_entry ''d1'' False False]"]
  by (auto simp: profile_builder_def login_entry_def named_def)

text \<open>
  The share of logins with a second factor is documented as a number up to one. It counts the entries of
  every kind with a verified factor, and one login followed by one such entry gives two.
\<close>

lemma mfa_rate_exceeds_one:
  "\<exists>m. buildBehaviorMetrics (profile_builder [login_entry [] True True, (login_entry [] True True)\<lparr>AlAction := ''mfa_verify''\<rparr>]) 0 ''u1'' = Ok m
    \<and> BmMFAUsageRate m = 2"
  by (simp add: buildBehaviorMetrics_def profile_builder_def login_entry_def scan_log_def empty_scan_def Let_def)

section \<open>Risk scores\<close>

lemma go_trunc_mono: "x \<le> y \<Longrightarrow> go_trunc x \<le> go_trunc y"
  by (auto simp: go_trunc_def intro: floor_mono ceiling_mono order_trans [of "\<lceil>x\<rceil>" 0 "\<lfloor>y\<rfloor>"])

definition weighted_sum :: "RiskScorerConfig \<Rightarrow> RiskIndicators \<Rightarrow> real" where
  "weighted_sum c i = real_of_int (RiAnomalyCount i) * AnomalyWeight c + real_of_int (RiGeoJumpCount i) * GeoJumpWeight c
     + real_of_int (RiFailedMFACount i) * FailedMFAWeight c + real_of_int (RiSuspiciousIPCount i) * SuspiciousIPWeight c
     + real_of_int (RiNewDeviceCount30d i) * NewDeviceWeight c"

definition decay :: "RiskScorerConfig \<Rightarrow> time \<Rightarrow> time option \<Rightarrow> real" where
  "decay c now lastAt = (case lastAt of
     None \<Rightarrow> 1
   | Some t \<Rightarrow> if in_days now t > 0 \<and> DecayDays c > 0 then DecayRate c powr (in_days now t / real_of_int (DecayDays c)) else 1)"

definition clamp_score :: "int \<Rightarrow> int" where "clamp_score s = max 0 (min 100 s)"

lemma risk_score_eq:
  "risk_CalculateScore c now i =
     (let s = clamp_score (go_trunc (weighted_sum c i * decay c now (RiLastAnomalyAt i))) in (s, ScoreToLevel s))"
proof -
  have "(case RiLastAnomalyAt i of
             None \<Rightarrow> weighted_sum c i
           | Some t \<Rightarrow>
               let daysSince = hours (time_since now t) / 24
               in if daysSince > 0 \<and> DecayDays c > 0
                  then weighted_sum c i * (DecayRate c powr (daysSince / real_of_int (DecayDays c))) else weighted_sum c i)
      = weighted_sum c i * decay c now (RiLastAnomalyAt i)"
    by (simp add: decay_def in_days_def Let_def split: option.split)
  then show ?thesis
    unfolding risk_CalculateScore_def weighted_sum_def [symmetric] Let_def by (auto simp: clamp_score_def)
qed

lemma risk_score_range:
  "0 \<le> fst (risk_CalculateScore c now i) \<and> fst (risk_CalculateScore c now i) \<le> 100
    \<and> snd (risk_CalculateScore c now i) = ScoreToLevel (fst (risk_CalculateScore c now i))"
  by (simp add: risk_score_eq clamp_score_def Let_def)

lemma clamp_score_mono: "s \<le> t \<Longrightarrow> clamp_score s \<le> clamp_score t"
  by (auto simp: clamp_score_def)

lemma in_days_mono: "now \<le> now' \<Longrightarrow> t' \<le> t \<Longrightarrow> in_days now t \<le> in_days now' t'"
  by (simp add: in_days_def hours_def time_since_def divide_right_mono)

lemma decay_antimono:
  assumes "0 \<le> DecayRate c" and "DecayRate c \<le> 1" and "in_days now t \<le> in_days now' t'"
  shows "decay c now' (Some t') \<le> decay c now (Some t)"
proof -
  have p: "DecayRate c powr y \<le> DecayRate c powr x" if "0 < x" "x \<le> y" for x y
  proof (cases "DecayRate c = 0")
    case False
    with assms(1,2) that show ?thesis by (intro powr_mono') auto
  qed simp
  have "DecayRate c powr y \<le> 1" if "0 < y" for y
  proof (cases "DecayRate c = 0")
    case False
    with assms(1,2) that show ?thesis by (intro powr_le1) auto
  qed simp
  with assms(3) p show ?thesis by (auto simp: decay_def divide_right_mono)
qed

lemma decay_bounds: "0 \<le> DecayRate c \<Longrightarrow> DecayRate c \<le> 1 \<Longrightarrow> 0 \<le> decay c now lastAt \<and> decay c now lastAt \<le> 1"
  using decay_antimono [of c now now now] by (auto simp: decay_def powr_le1 split: option.split)

definition weights_ok :: "RiskScorerConfig \<Rightarrow> bool" where
  "weights_ok c \<longleftrightarrow> 0 \<le> AnomalyWeight c \<and> 0 \<le> GeoJumpWeight c \<and> 0 \<le> FailedMFAWeight c \<and> 0 \<le> SuspiciousIPWeight c
     \<and> 0 \<le> NewDeviceWeight c \<and> 0 \<le> DecayRate c \<and> DecayRate c \<le> 1"

definition counts_ok :: "RiskIndicators \<Rightarrow> bool" where
  "counts_ok i \<longleftrightarrow> (\<forall>n \<in> {RiAnomalyCount i, RiGeoJumpCount i, RiFailedMFACount i, RiSuspiciousIPCount i, RiNewDeviceCount30d i}.
     0 \<le> n \<and> n < 2 ^ 63 - 1)"

lemma weighted_sum_event:
  assumes "weights_ok c" and "counts_ok (UpRisk p)"
  shows "0 \<le> weighted_sum c (UpRisk p) \<and> weighted_sum c (UpRisk p) \<le> weighted_sum c (UpdateFromEvent p ev)"
proof -
  have "real_of_int n * w \<le> real_of_int (go_int (n + 1)) * w" if "0 \<le> n" "n < 2 ^ 63 - 1" "0 \<le> w" for n w
    using that by (intro mult_right_mono) auto
  with assms show ?thesis
    by (auto simp: weighted_sum_def weights_ok_def counts_ok_def UpdateFromEvent_def Let_def)
qed

text \<open>
  A new anomaly never lowers the risk score, although it restarts the decay, whatever its type: for weights that are not
  negative and a decay rate between zero and one, a profile whose earlier anomalies lie before the event has at any later time at least
  the score with the event that it has without.
\<close>

theorem anomaly_never_lowers_risk:
  assumes "weights_ok c" and "counts_ok (UpRisk p)" and "RiLastAnomalyAt (UpRisk p) = Some t" and "t \<le> AeTimestamp ev"
  shows "fst (risk_CalculateScore c now (UpRisk p)) \<le> fst (risk_CalculateScore c now (UpdateFromEvent p ev))"
proof -
  let ?i = "UpRisk p" and ?j = "UpdateFromEvent p ev"
  have r: "0 \<le> DecayRate c" "DecayRate c \<le> 1" using assms(1) by (simp_all add: weights_ok_def)
  have l: "RiLastAnomalyAt ?j = Some (AeTimestamp ev)" by (simp add: UpdateFromEvent_def Let_def)
  have "decay c now (RiLastAnomalyAt ?i) \<le> decay c now (RiLastAnomalyAt ?j)"
    unfolding assms(3) l by (intro decay_antimono r in_days_mono assms(4) order_refl)
  then have "weighted_sum c ?i * decay c now (RiLastAnomalyAt ?i) \<le> weighted_sum c ?j * decay c now (RiLastAnomalyAt ?j)"
    using weighted_sum_event [OF assms(1,2), of ev] decay_bounds [OF r] by (intro mult_mono) auto
  then show ?thesis by (simp add: risk_score_eq Let_def clamp_score_mono go_trunc_mono)
qed

text \<open>Without new anomalies the score only falls.\<close>

lemma risk_decays:
  fixes p :: UserProfile
  assumes "weights_ok c" and "counts_ok (UpRisk p)" and "now \<le> now'"
  shows "fst (risk_CalculateScore c now' (UpRisk p)) \<le> fst (risk_CalculateScore c now (UpRisk p))"
proof -
  have r: "0 \<le> DecayRate c" "DecayRate c \<le> 1" using assms(1) by (simp_all add: weights_ok_def)
  have "decay c now' l \<le> decay c now l" for l
    using decay_antimono [OF r in_days_mono [OF assms(3) order_refl]] by (cases l) (simp_all add: decay_def)
  then have "weighted_sum c (UpRisk p) * decay c now' l \<le> weighted_sum c (UpRisk p) * decay c now l" for l
    using weighted_sum_event [OF assms(1,2)] by (intro mult_left_mono) auto
  then show ?thesis by (simp add: risk_score_eq Let_def clamp_score_mono go_trunc_mono)
qed

definition demo_risk_config :: RiskScorerConfig where
  "demo_risk_config = \<lparr>AnomalyWeight = 15, GeoJumpWeight = 20, FailedMFAWeight = 10, SuspiciousIPWeight = 10, NewDeviceWeight = 5,
     DecayDays = 7, DecayRate = 1 / 2\<rparr>"

theorem anomaly_never_lowers_risk_witness:
  "20 \<le> fst (risk_CalculateScore demo_risk_config 5
     (UpdateFromEvent ((new_profile 0 ''p1'' ''u1'' ''t1'')\<lparr>UpRisk := zero_indicators\<lparr>RiGeoJumpCount := 1, RiLastAnomalyAt := Some 5\<rparr>\<rparr>)
        \<lparr>AeType = ''new_device'', AeTimestamp = 5, AeDetails = Map.empty\<rparr>))"
proof -
  let ?p = "(new_profile 0 ''p1'' ''u1'' ''t1'')\<lparr>UpRisk := zero_indicators\<lparr>RiGeoJumpCount := 1, RiLastAnomalyAt := Some 5\<rparr>\<rparr>"
  have "fst (risk_CalculateScore demo_risk_config 5 (UpRisk ?p)) = 20"
    by (simp add: risk_score_eq weighted_sum_def decay_def in_days_def time_since_def hours_def clamp_score_def go_trunc_def
        demo_risk_config_def zero_indicators_def)
  then show ?thesis
    using anomaly_never_lowers_risk [of demo_risk_config ?p 5 "\<lparr>AeType = ''new_device'', AeTimestamp = 5, AeDetails = Map.empty\<rparr>" 5]
    by (simp add: weights_ok_def counts_ok_def demo_risk_config_def zero_indicators_def)
qed

section \<open>Rules\<close>

lemma camel_cases:
  "toCamelCase ''behavior'' = ''Behavior''" "toCamelCase ''unique_locations'' = ''UniqueLocations''"
  "toCamelCase ''login_frequency'' = ''LoginFrequency''" "toCamelCase ''mfa_usage_rate'' = ''MfaUsageRate''"
  "toCamelCase ''risk_score'' = ''RiskScore''" "toCamelCase ''created_at'' = ''CreatedAt''" "toCamelCase ''wall'' = ''Wall''"
  by code_simp+

lemma not_folded:
  "list_all (\<lambda>name. \<not> EqualFold name ''mfa_usage_rate'')
     [''TotalLogins'', ''FailedLogins'', ''UniqueDevices'', ''UniqueLocations'', ''UniqueIPs'', ''AvgSessionDuration'',
      ''PeakActivityHours'', ''LastLocations'', ''LoginFrequency'', ''MFAUsageRate'']"
  by code_simp

lemma paths:
  "getFieldValue (profile_value p) ''behavior.unique_locations'' = Ok (Some (RvInt (BmUniqueLocations (UpBehavior p))))"
  "getFieldValue (profile_value p) ''behavior.login_frequency'' = Ok (Some (RvFloat (BmLoginFrequency (UpBehavior p))))"
  "getFieldValue (profile_value p) ''behavior.mfa_usage_rate'' = Ok (Some (RvFloat (BmMFAUsageRate (UpBehavior p))))"
  "getFieldValue (profile_value p) ''risk_score'' = Ok (Some (RvInt (UpRiskScore p)))"
  "getFieldValue (profile_value p) ''created_at.wall'' = Panic"
  using not_folded by (simp_all add: getFieldValue_def profile_value_def behavior_value_def find_field_def FieldByName_def camel_cases)

lemma DefaultAutoTagRules_eval:
  "EvaluateAutoTags clock DefaultAutoTagRules p = Ok (
     (if BmUniqueLocations (UpBehavior p) \<ge> 5 then [TagFrequentTraveler] else []) @
     (if BmLoginFrequency (UpBehavior p) \<ge> 10 then [TagHighValueUser] else []) @
     (case UpLastActivityAt p of None \<Rightarrow> [] | Some t \<Rightarrow> if in_days (clock 2) t > 30 then [TagDormantUser] else []) @
     (if in_days (clock 3) (UpCreatedAt p) < 7 then [TagNewUser] else []) @
     (if BmMFAUsageRate (UpBehavior p) \<ge> 9 / 10 then [TagSecurityConscious] else []) @
     (if UpRiskScore p \<ge> 75 then [TagHighRisk] else []))"
  by (simp add: DefaultAutoTagRules_def tag_rule_def tag_evaluateCondition_def compareValues_def paths numeral_2_eq_2 numeral_3_eq_3
      split: option.split)

text \<open>
  The default rules, whose paths the reflection resolves by field name or by \<^verbatim>\<open>json\<close> tag, give a profile exactly the tags that their
  names say.
\<close>

theorem DefaultAutoTagRules_exact:
  "EvaluateAutoTags clock DefaultAutoTagRules p = Ok (
     (if BmUniqueLocations (UpBehavior p) \<ge> 5 then [TagFrequentTraveler] else []) @
     (if BmLoginFrequency (UpBehavior p) \<ge> 10 then [TagHighValueUser] else []) @
     (case UpLastActivityAt p of None \<Rightarrow> [] | Some t \<Rightarrow> if in_days (clock 2) t > 30 then [TagDormantUser] else []) @
     (if in_days (clock 3) (UpCreatedAt p) < 7 then [TagNewUser] else []) @
     (if BmMFAUsageRate (UpBehavior p) \<ge> 9 / 10 then [TagSecurityConscious] else []) @
     (if UpRiskScore p \<ge> 75 then [TagHighRisk] else []))"
  by (rule DefaultAutoTagRules_eval)

text \<open>A configured rule on a field of a time panics when it is evaluated.\<close>

lemma time_field_panics:
  "EvaluateAutoTags clock (tag_rule tag ''created_at.wall'' operator val # rules) p = Panic"
  by (simp add: tag_evaluateCondition_def tag_rule_def paths)

lemma quality_score_le: "quality_CalculateScore w q \<le> 100"
proof -
  have cap: "(if s > 100 then 100 else s) \<le> (100 :: int)" for s by simp
  show ?thesis unfolding quality_CalculateScore_def Let_def by (rule cap)
qed

definition nothing_counted :: "RiskIndicators \<Rightarrow> bool" where
  "nothing_counted i \<longleftrightarrow> RiAnomalyCount i = 0 \<and> RiGeoJumpCount i = 0 \<and> RiFailedMFACount i = 0 \<and> RiSuspiciousIPCount i = 0
     \<and> RiNewDeviceCount30d i = 0"

text \<open>
  A profile as the service keeps it: the score and its level agree, or both are the initial ones; before the first anomaly nothing is
  counted; the quality score does not exceed 100; a manual tag is there once.
\<close>

definition profile_sound :: "UserProfile \<Rightarrow> bool" where
  "profile_sound x \<longleftrightarrow> 0 \<le> UpRiskScore x \<and> UpRiskScore x \<le> 100
     \<and> (UpRiskLevel x = ScoreToLevel (UpRiskScore x) \<or> UpRiskLevel x = [] \<and> UpRiskScore x = 0)
     \<and> (RiLastAnomalyAt (UpRisk x) = None \<longrightarrow> nothing_counted (UpRisk x))
     \<and> UpQualityScore x \<le> 100 \<and> distinct (UpManualTags x)"

section \<open>What the service relies on\<close>

text \<open>
  The contract of the repository for its clients: the profile that a lookup returns is stored under the user asked for, and
  after an operation every stored profile was stored before, or is the one written, or is a stored one of the user with the columns changed.
\<close>

locale profile_store =
  fixes repo :: "'d ProfileRepository" and inv :: "'d \<Rightarrow> bool" and stored :: "'d \<Rightarrow> UserProfile \<Rightarrow> bool"
  assumes get: "inv d \<Longrightarrow> pr_GetByUserID repo d u = Ok (Some x) \<Longrightarrow> stored d x \<and> UpUserID x = u"
    and create: "inv d \<Longrightarrow> pr_Create repo d x = (res, d') \<Longrightarrow> inv d' \<and> (\<forall>y. stored d' y \<longrightarrow> stored d y \<or> y = x)"
    and update: "inv d \<Longrightarrow> pr_Update repo now d x = (res, d') \<Longrightarrow>
      inv d' \<and> (\<forall>y. stored d' y \<longrightarrow> stored d y \<or> y = x\<lparr>UpUpdatedAt := now\<rparr>)"
    and update_risk: "inv d \<Longrightarrow> pr_UpdateRisk repo clock d u risk score level = (res, d') \<Longrightarrow>
      inv d' \<and> (\<forall>y. stored d' y \<longrightarrow> stored d y \<or> (\<exists>x. stored d x \<and> y = x\<lparr>UpRisk := risk, UpRiskScore := score,
        UpRiskLevel := level, UpLastRiskUpdateAt := Some (clock 0), UpUpdatedAt := clock 1\<rparr>))"
    and update_behavior: "inv d \<Longrightarrow> pr_UpdateBehavior repo now d u m = (res, d') \<Longrightarrow>
      inv d' \<and> (\<forall>y. stored d' y \<longrightarrow> stored d y \<or> (\<exists>x. stored d x \<and> y = x\<lparr>UpBehavior := m, UpUpdatedAt := now\<rparr>))"
    and update_tags: "inv d \<Longrightarrow> pr_UpdateTags repo now d u ats ms = (res, d') \<Longrightarrow>
      inv d' \<and> (\<forall>y. stored d' y \<longrightarrow> stored d y \<or> (\<exists>x. stored d x \<and> y = x\<lparr>UpAutoTags := ats, UpManualTags := ms, UpUpdatedAt := now\<rparr>))"
    and update_quality: "inv d \<Longrightarrow> pr_UpdateQuality repo now d u score q = (res, d') \<Longrightarrow>
      inv d' \<and> (\<forall>y. stored d' y \<longrightarrow> stored d y \<or> (\<exists>x. stored d x \<and> y = x\<lparr>UpQualityScore := score, UpQualityDetails := q, UpUpdatedAt := now\<rparr>))"
begin

definition safe :: "'d \<Rightarrow> bool" where
  "safe d \<longleftrightarrow> inv d \<and> (\<forall>x. stored d x \<longrightarrow> profile_sound x)"

lemma safe_get: "safe d \<Longrightarrow> yields safe (\<lambda>found. \<forall>x. found = Some x \<longrightarrow> profile_sound x) (pr_GetByUserID repo d u, d)"
  using get by (auto simp: yields_def safe_def)

lemma safe_create: "safe d \<Longrightarrow> profile_sound x \<Longrightarrow> yields safe (\<lambda>_. True) (pr_Create repo d x)"
  using create [of d x] by (cases "pr_Create repo d x") (fastforce simp: yields_def safe_def)

lemma safe_update: "safe d \<Longrightarrow> profile_sound x \<Longrightarrow> yields safe (\<lambda>_. True) (pr_Update repo now d x)"
  using update [of d now x] by (cases "pr_Update repo now d x") (fastforce simp: yields_def safe_def profile_sound_def)

lemma safe_update_risk:
  assumes "safe d" and "RiLastAnomalyAt risk = None \<longrightarrow> nothing_counted risk" and "risk_CalculateScore c t i = (score, level)"
  shows "yields safe (\<lambda>_. True) (pr_UpdateRisk repo clock d u risk score level)"
proof -
  obtain res d' where r: "pr_UpdateRisk repo clock d u risk score level = (res, d')" by fastforce
  have "0 \<le> score \<and> score \<le> 100 \<and> level = ScoreToLevel score" using risk_score_range [of c t i] assms(3) by simp
  with update_risk [OF _ r] assms(1,2) r show ?thesis by (fastforce simp: yields_def safe_def profile_sound_def)
qed

lemma safe_update_behavior: "safe d \<Longrightarrow> yields safe (\<lambda>_. True) (pr_UpdateBehavior repo now d u m)"
  using update_behavior [of d now u m] by (cases "pr_UpdateBehavior repo now d u m") (fastforce simp: yields_def safe_def profile_sound_def)

lemma safe_update_tags: "safe d \<Longrightarrow> distinct ms \<Longrightarrow> yields safe (\<lambda>_. True) (pr_UpdateTags repo now d u ats ms)"
  using update_tags [of d now u ats ms] by (cases "pr_UpdateTags repo now d u ats ms") (fastforce simp: yields_def safe_def profile_sound_def)

lemma safe_update_quality: "safe d \<Longrightarrow> score \<le> 100 \<Longrightarrow> yields safe (\<lambda>_. True) (pr_UpdateQuality repo now d u score q)"
  using update_quality [of d now u score q] by (cases "pr_UpdateQuality repo now d u score q") (fastforce simp: yields_def safe_def profile_sound_def)

lemmas safe_ops = safe_get safe_create safe_update safe_update_risk safe_update_behavior safe_update_tags safe_update_quality

lemma find_or_create_safe:
  assumes "pb_profileRepo b = repo" and "safe d"
  shows "yields safe profile_sound (find_or_create b now uuid d u)"
  unfolding find_or_create_def assms(1) using assms(2)
  by (intro yields_sbind [OF safe_get])
    (auto simp: Let_def profile_sound_def new_profile_def nothing_counted_def zero_indicators_def split: option.split
      intro!: yields_sbind [of _ "\<lambda>_. True"] yields_pure safe_create)

lemma BuildOrUpdate_safe:
  assumes "pb_profileRepo b = repo" and "safe d"
  shows "yields safe profile_sound (BuildOrUpdate b clock uuid d u)"
  unfolding BuildOrUpdate_def assms(1)
  by (rule yields_sbind [OF find_or_create_safe [OF assms]])
    (auto simp: Let_def profile_sound_def split: outcome.split intro!: yields_sbind [of _ "\<lambda>_. True"] safe_update)

lemma IncrementalUpdate_safe:
  assumes "pb_profileRepo b = repo" and "safe d"
  shows "yields safe (\<lambda>_. True) (IncrementalUpdate b clock uuid d u event)"
  unfolding IncrementalUpdate_def assms(1) using assms(2)
  by (intro yields_sbind [OF safe_get])
    (auto simp: Let_def split: option.split intro!: safe_update_behavior yields_sbind [OF BuildOrUpdate_safe [OF assms(1)]])

lemma AddManualTag_safe: "safe d \<Longrightarrow> yields safe (\<lambda>_. True) (AddManualTag repo now d u tag)"
  unfolding AddManualTag_def
  by (rule yields_sbind [OF safe_get]) (auto simp: profile_sound_def split: option.split intro!: safe_update_tags)

lemma RemoveManualTag_safe: "safe d \<Longrightarrow> yields safe (\<lambda>_. True) (RemoveManualTag repo now d u tag)"
  unfolding RemoveManualTag_def
  by (rule yields_sbind [OF safe_get]) (auto simp: profile_sound_def split: option.split intro!: safe_update_tags)

lemma GetProfile_safe:
  assumes "ps_profileRepo s = repo" and "pb_profileRepo (ps_profileBuilder s) = repo" and "safe d"
  shows "yields safe profile_sound (GetProfile s clock uuid d u)"
  unfolding GetProfile_def assms(1) using assms(3)
  by (intro yields_sbind [OF safe_get]) (auto split: option.split intro!: BuildOrUpdate_safe assms(2))

lemma profile_HandleAnomaly_safe:
  assumes "ps_profileRepo s = repo" and "pb_profileRepo (ps_profileBuilder s) = repo" and "safe d"
  shows "yields safe (\<lambda>_. True) (profile_HandleAnomaly s clock uuid d u event)"
  unfolding profile_HandleAnomaly_def assms(1)
  by (rule yields_sbind [OF GetProfile_safe [OF assms]])
    (auto simp: Let_def UpdateFromEvent_def split: prod.split intro!: safe_update_risk)

lemma RefreshProfile_safe:
  assumes "ps_profileRepo s = repo" and "pb_profileRepo (ps_profileBuilder s) = repo" and "safe d"
  shows "yields safe (\<lambda>_. True) (RefreshProfile s clock uuid d u)"
  unfolding RefreshProfile_def assms(1)
proof (rule yields_sbind [OF BuildOrUpdate_safe [OF assms(2,3)]], unfold Let_def split_beta, goal_cases)
  case (1 p d1)
  then have "RiLastAnomalyAt (UpRisk p) = None \<longrightarrow> nothing_counted (UpRisk p)" and m: "distinct (UpManualTags p)"
    by (simp_all add: profile_sound_def)
  then show ?case
    using 1(1) quality_score_le
    by (auto intro!: yields_sbind [OF safe_update_risk [OF _ _ prod.collapse [symmetric]]] yields_sbind [OF yields_pure]
        yields_sbind [OF safe_update_tags] yields_sbind [OF safe_update_quality])
qed

end
section \<open>Profiles in PostgreSQL\<close>

lemma pg_profiles_sel [simp]:
  "pr_Create (pg_profiles profile_db) = row_insert UpID UpUserID"
  "pr_GetByUserID (pg_profiles profile_db) d u = Ok (find (\<lambda>x. UpUserID x = u) d)"
  "pr_Update (pg_profiles profile_db) now d x = row_save UpID UpUserID d (x\<lparr>UpUpdatedAt := now\<rparr>)"
  "pr_FindByTag (pg_profiles profile_db) d t tag =
     Ok (filter (\<lambda>x. UpTenantID x = t \<and> (tag \<in> set (UpAutoTags x) \<or> tag \<in> set (UpManualTags x))) d)"
  "pr_UpdateRisk (pg_profiles profile_db) clock d u risk score level =
     (Ok (), map (\<lambda>x. if UpUserID x = u then x\<lparr>UpRisk := risk, UpRiskScore := score, UpRiskLevel := level,
        UpLastRiskUpdateAt := Some (clock 0), UpUpdatedAt := clock 1\<rparr> else x) d)"
  "pr_UpdateBehavior (pg_profiles profile_db) now d u m =
     (Ok (), map (\<lambda>x. if UpUserID x = u then x\<lparr>UpBehavior := m, UpUpdatedAt := now\<rparr> else x) d)"
  "pr_UpdateTags (pg_profiles profile_db) now d u ats ms =
     (Ok (), map (\<lambda>x. if UpUserID x = u then x\<lparr>UpAutoTags := ats, UpManualTags := ms, UpUpdatedAt := now\<rparr> else x) d)"
  "pr_UpdateQuality (pg_profiles profile_db) now d u n q =
     (Ok (), map (\<lambda>x. if UpUserID x = u then x\<lparr>UpQualityScore := n, UpQualityDetails := q, UpUpdatedAt := now\<rparr> else x) d)"
  by (simp_all add: pg_profiles_def profile_db_def pgp_GetByUserID_def pgp_FindByTag_def pgp_UpdateRisk_def pgp_UpdateBehavior_def
      pgp_UpdateTags_def pgp_UpdateQuality_def split: option.split)

lemma row_insert_mem:
  assumes "row_insert pk uk d x = (res, d')" and "unique_rows pk uk d"
  shows "unique_rows pk uk d' \<and> (\<forall>y. y \<in> set d' \<longrightarrow> y \<in> set d \<or> y = x)"
  using row_insert_cases [OF assms(1)] row_insert_Ok [of pk uk d x d'] assms by auto

lemma row_save_mem:
  assumes "row_save pk uk d x = (res, d')" and "unique_rows pk uk d"
  shows "unique_rows pk uk d' \<and> (\<forall>y. y \<in> set d' \<longrightarrow> y \<in> set d \<or> y = x)"
  using row_save_cases [OF assms(1)] row_save_Ok [OF assms(2), of x d'] assms by auto

interpretation pgp: profile_store "pg_profiles profile_db" "unique_rows UpID UpUserID" "\<lambda>d x. x \<in> set d"
proof (unfold_locales, goal_cases)
  case (1 d u x)
  then show ?case using find_row(2) [OF 1(1), of u x] by simp
next
  case (2 d x res d')
  then show ?case using row_insert_mem [of UpID UpUserID d x res d'] by simp
next
  case (3 d now x res d')
  then show ?case using row_save_mem [of UpID UpUserID d "x\<lparr>UpUpdatedAt := now\<rparr>" res d'] by simp
qed (auto intro!: unique_rows_updates split: if_splits)

text \<open>The calls that change profiles, over the table.\<close>

inductive profile_step :: "UserProfile list ProfileService \<Rightarrow> UserProfile list \<Rightarrow> UserProfile list \<Rightarrow> bool" for s where
  read: "profile_step s d (snd (GetProfile s clock uuid d u))"
| refreshed: "profile_step s d (snd (RefreshProfile s clock uuid d u))"
| logged_in: "profile_step s d (snd (HandleLoginEvent (ps_profileBuilder s) clock uuid d event))"
| anomaly: "profile_step s d (snd (HandleAnomalyEvent s clock uuid d event))"
| new_device: "profile_step s d (snd (HandleNewDeviceEvent s clock uuid d event))"
| password: "profile_step s d (snd (HandlePasswordChangeEvent s clock uuids d event))"
| mfa: "profile_step s d (snd (HandleMFAEvent s (ps_profileBuilder s) clock uuid d event))"
| tagged: "profile_step s d (snd (AddManualTag (ps_profileRepo s) now d u tag))"
| untagged: "profile_step s d (snd (RemoveManualTag (ps_profileRepo s) now d u tag))"
| deleted: "profile_step s d (snd (pr_Delete (ps_profileRepo s) d u))"

inductive profiles_reachable :: "UserProfile list ProfileService \<Rightarrow> UserProfile list \<Rightarrow> bool" for s where
  start: "profiles_reachable s []"
| step: "profiles_reachable s d \<Longrightarrow> profile_step s d d' \<Longrightarrow> profiles_reachable s d'"

lemma profile_step_safe:
  assumes "profile_step s d d'" and "pgp.safe d" and r: "ps_profileRepo s = pg_profiles profile_db"
    and b: "pb_profileRepo (ps_profileBuilder s) = pg_profiles profile_db"
  shows "pgp.safe d'"
proof -
  have y: "yields pgp.safe Q m \<Longrightarrow> pgp.safe (snd m)" for Q and m :: "(go_error, 'b) outcome \<times> UserProfile list"
    by (simp add: yields_def)
  note ops = pgp.GetProfile_safe [OF r b] pgp.RefreshProfile_safe [OF r b] pgp.profile_HandleAnomaly_safe [OF r b]
    pgp.IncrementalUpdate_safe [OF b] pgp.AddManualTag_safe pgp.RemoveManualTag_safe
  show ?thesis
    using assms(1)
  proof cases
    case (password clock uuids event)
    have "yields pgp.safe (\<lambda>_. True) (HandlePasswordChangeEvent s clock uuids d event)"
      using assms(2)
      by (auto simp: HandlePasswordChangeEvent_def split: option.split intro!: yields_sbind [OF ops(1)] yields_sbind [OF ops(2)])
    then show ?thesis unfolding password by (rule y)
  next
    case (deleted u)
    then show ?thesis using assms(2)
      by (auto simp: r pg_profiles_def profile_db_def pgp.safe_def unique_rows_filter)
  qed (use assms(2) in \<open>auto simp: r HandleLoginEvent_def HandleAnomalyEvent_def HandleNewDeviceEvent_def HandleMFAEvent_def
      split: option.split intro!: y [OF ops(1)] y [OF ops(2)] y [OF ops(3)] y [OF ops(4)] y [OF ops(5)] y [OF ops(6)]\<close>)
qed

text \<open>
  C39: Whatever events, refreshes, reads, tags and deletions follow each other, a user has at most one profile, its risk level is the level
  of its score, or both are the initial ones, no score exceeds 100, and no manual tag is there twice.
\<close>

theorem profiles_stay_sound:
  assumes "profiles_reachable s d" and "ps_profileRepo s = pg_profiles profile_db"
    and "pb_profileRepo (ps_profileBuilder s) = pg_profiles profile_db"
  shows "unique_rows UpID UpUserID d \<and> list_all profile_sound d"
proof -
  have "pgp.safe d"
    using assms(1)
  proof induction
    case (step d d')
    then show ?case using profile_step_safe [OF _ _ assms(2,3)] by blast
  qed (simp add: pgp.safe_def)
  then show ?thesis by (simp add: pgp.safe_def list_all_iff)
qed

definition profile_svc :: "AutoTagRule list \<Rightarrow> UserProfile list ProfileService" where
  "profile_svc rules = \<lparr>ps_profileRepo = pg_profiles profile_db, ps_profileBuilder = profile_builder [], ps_riskScorer = demo_risk_config,
     ps_autoRules = rules, ps_qualityScorer = \<lparr>QwEmail = 20, QwEmailVerified = 20, QwPhone = 10, QwPhoneVerified = 10, QwMFA = 20,
       QwRecoveryEmail = 10, QwProfileComplete = 10\<rparr>\<rparr>"

theorem profiles_stay_sound_witness:
  "\<exists>p. snd (GetProfile (profile_svc []) (\<lambda>_. 7) ''p1'' [] ''u1'') = [p] \<and> profile_sound p"
proof -
  let ?d = "snd (GetProfile (profile_svc []) (\<lambda>_. 7) ''p1'' [] ''u1'')"
  have "profiles_reachable (profile_svc []) ?d"
    by (rule profiles_reachable.step [OF profiles_reachable.start profile_step.read])
  from profiles_stay_sound [OF this] have "list_all profile_sound ?d" by (simp add: profile_svc_def profile_builder_def)
  moreover obtain p where "?d = [p]"
    by (simp add: GetProfile_def profile_svc_def profile_builder_def BuildOrUpdate_def find_or_create_def row_insert_def row_save_def
        buildBehaviorMetrics_def buildQualityDetails_def new_profile_def Let_def)
  ultimately show ?thesis by simp
qed

text \<open>The profile of a user whose risk is asked for the first time is built without a level, so a search for low risks misses it.\<close>

lemma first_risk_level_empty:
  "fst (GetRiskLevel (profile_svc []) (\<lambda>_. 7) ''p1'' [] ''u1'') = Ok (0, [])"
  by (simp add: GetRiskLevel_def GetProfile_def profile_svc_def profile_builder_def BuildOrUpdate_def find_or_create_def row_insert_def
      row_save_def buildBehaviorMetrics_def buildQualityDetails_def new_profile_def Let_def)

section \<open>Tags in the table\<close>

text \<open>
  A manual tag that is added is found by the search for it, and removing it again leaves the profile as it was but for
  the time of the change.
\<close>

theorem manual_tag_round_trip:
  assumes "unique_rows UpID UpUserID d" and "x \<in> set d" and "tag \<notin> set (UpManualTags x)"
    and "AddManualTag (pg_profiles profile_db) t1 d (UpUserID x) tag = (res, d1)"
    and "RemoveManualTag (pg_profiles profile_db) t2 d1 (UpUserID x) tag = (res', d2)"
  shows "res = Ok () \<and> res' = Ok ()
    \<and> (\<exists>y xs. pr_FindByTag (pg_profiles profile_db) d1 (UpTenantID x) tag = Ok xs \<and> y \<in> set xs \<and> UpID y = UpID x)
    \<and> d2 = map (\<lambda>y. if UpID y = UpID x then x\<lparr>UpUpdatedAt := t2\<rparr> else y) d"
proof -
  let ?a = "x\<lparr>UpManualTags := UpManualTags x @ [tag], UpUpdatedAt := t1\<rparr>"
  have fl: "filter (\<lambda>t. t \<noteq> tag) (UpManualTags x) = UpManualTags x" using assms(3) by (intro filter_True) auto
  have same: "UpUserID y = UpUserID x \<longleftrightarrow> y = x" "UpID y = UpID x \<longleftrightarrow> y = x" if "y \<in> set d" for y
    using unique_rowsD [OF assms(1) that assms(2)] by auto
  have f: "find (\<lambda>y. UpUserID y = UpUserID x) d = Some x" using find_row(2) [OF assms(1)] assms(2) by simp
  then have r1: "res = Ok ()" "d1 = map (\<lambda>y. if UpUserID y = UpUserID x
      then y\<lparr>UpAutoTags := UpAutoTags x, UpManualTags := UpManualTags x @ [tag], UpUpdatedAt := t1\<rparr> else y) d"
    using assms(3,4) by (auto simp: AddManualTag_def)
  have d1: "d1 = map (\<lambda>y. if y = x then ?a else y) d"
    unfolding r1(2) using same(1) by (intro map_cong) auto
  have u1: "unique_rows UpID UpUserID d1" unfolding r1(2) by (rule unique_rows_updates [OF assms(1)]) simp_all
  have a: "?a \<in> set d1" using assms(2) by (auto simp: d1)
  then have "find (\<lambda>y. UpUserID y = UpUserID x) d1 = Some ?a" using find_row(2) [OF u1, of "UpUserID x" ?a] by simp
  then have r2: "res' = Ok ()" "d2 = map (\<lambda>y. if UpUserID y = UpUserID x
      then y\<lparr>UpAutoTags := UpAutoTags x, UpManualTags := UpManualTags x, UpUpdatedAt := t2\<rparr> else y) d1"
    using assms(5) fl by (auto simp: RemoveManualTag_def)
  have "d2 = map (\<lambda>y. if UpID y = UpID x then x\<lparr>UpUpdatedAt := t2\<rparr> else y) d"
    unfolding r2(2) d1 using same by (auto simp: comp_def)
  with r1(1) r2(1) a show ?thesis
    by (fastforce intro!: exI [of _ ?a])
qed

theorem manual_tag_round_trip_witness:
  "\<exists>d1 d2. AddManualTag (pg_profiles profile_db) 1 [new_profile 0 ''p1'' ''u1'' ''t1''] ''u1'' ''vip'' = (Ok (), d1)
    \<and> RemoveManualTag (pg_profiles profile_db) 2 d1 ''u1'' ''vip'' = (Ok (), d2)
    \<and> d2 = [(new_profile 0 ''p1'' ''u1'' ''t1'')\<lparr>UpUpdatedAt := 2\<rparr>]"
proof -
  let ?x = "new_profile 0 ''p1'' ''u1'' ''t1''"
  obtain res d1 where a: "AddManualTag (pg_profiles profile_db) 1 [?x] ''u1'' ''vip'' = (res, d1)" by fastforce
  obtain res' d2 where b: "RemoveManualTag (pg_profiles profile_db) 2 d1 ''u1'' ''vip'' = (res', d2)" by fastforce
  have "UpUserID ?x = ''u1''" by (simp add: new_profile_def)
  from manual_tag_round_trip [of "[?x]" ?x "''vip''" 1 res d1 2 res' d2] a b show ?thesis
    by (simp add: new_profile_def unique_rows_def)
qed

section \<open>Events that are lost\<close>

text \<open>The order of reads, builds and updates in a refresh, over the table.\<close>

lemma BuildOrUpdate_present:
  assumes "unique_rows UpID UpUserID d" and "x \<in> set d" and "pb_profileRepo b = pg_profiles profile_db"
    and "pb_GetLogsForUser b (UpUserID x) (clock 1 - ninety_days) = Ok logs" and "pb_GetUserByID b (UpUserID x) = Ok user"
  shows "\<exists>p d'. BuildOrUpdate b clock uuid d (UpUserID x) = (Ok p, d') \<and> unique_rows UpID UpUserID d' \<and> p \<in> set d'
    \<and> UpUserID p = UpUserID x \<and> buildBehaviorMetrics b (clock 1) (UpUserID x) = Ok (UpBehavior p)
    \<and> UpLastActivityAt p = Some (clock 2)"
proof -
  obtain m where m: "buildBehaviorMetrics b (clock 1) (UpUserID x) = Ok m"
    using assms(4) by (simp add: buildBehaviorMetrics_def Let_def)
  obtain q where q: "buildQualityDetails b (UpUserID x) = Ok q" using assms(5) by (simp add: buildQualityDetails_def Let_def)
  let ?p = "x\<lparr>UpBehavior := m, UpQualityDetails := q, UpLastActivityAt := Some (clock 2), UpUpdatedAt := clock 3\<rparr>"
  have f: "find (\<lambda>y. UpUserID y = UpUserID x) d = Some x" using find_row(2) [OF assms(1)] assms(2) by simp
  obtain d' where s: "row_save UpID UpUserID d ?p = (Ok (), d')"
    using row_save_present [OF assms(1,2), of ?p] by auto
  have "BuildOrUpdate b clock uuid d (UpUserID x) = (Ok ?p, d')"
    using f m q s by (simp add: BuildOrUpdate_def find_or_create_def assms(3) Let_def)
  then show ?thesis using row_save_Ok [OF assms(1) s] m by auto
qed

definition has_profile :: "string \<Rightarrow> BehaviorMetrics \<Rightarrow> UserProfile list \<Rightarrow> bool" where
  "has_profile u m d \<longleftrightarrow> (\<exists>y \<in> set d. UpUserID y = u \<and> UpBehavior y = m)"

lemma has_profile_updates:
  assumes "has_profile u m d" and "\<And>y. UpUserID (g y) = UpUserID y" and "\<And>y. UpBehavior (g y) = UpBehavior y"
  shows "has_profile u m (map (\<lambda>y. if UpUserID y = u then g y else y) d)"
  using assms by (auto simp: has_profile_def)

lemma metrics_without_password:
  "buildBehaviorMetrics b now u = Ok m \<Longrightarrow> BmPasswordChangeCount m = 0 \<and> BmLastPasswordChange m = None"
  by (auto simp: buildBehaviorMetrics_def zero_metrics_def Let_def obind_eq_Ok)

lemma RefreshProfile_present:
  assumes "unique_rows UpID UpUserID d" and "x \<in> set d" and "ps_profileRepo s = pg_profiles profile_db"
    and "pb_profileRepo (ps_profileBuilder s) = pg_profiles profile_db" and "ps_autoRules s = DefaultAutoTagRules"
    and "pb_GetLogsForUser (ps_profileBuilder s) (UpUserID x) (clock 1 - ninety_days) = Ok logs"
    and "pb_GetUserByID (ps_profileBuilder s) (UpUserID x) = Ok user"
  shows "\<exists>q d' y. RefreshProfile s clock uuid d (UpUserID x) = (Ok q, d') \<and> y \<in> set d' \<and> UpUserID y = UpUserID x
    \<and> buildBehaviorMetrics (ps_profileBuilder s) (clock 1) (UpUserID x) = Ok (UpBehavior y)"
proof -
  from BuildOrUpdate_present [where uuid = uuid and clock = clock, OF assms(1,2,4,6,7)]
  obtain p d1 where b: "BuildOrUpdate (ps_profileBuilder s) clock uuid d (UpUserID x) = (Ok p, d1)" "p \<in> set d1"
    "UpUserID p = UpUserID x" "buildBehaviorMetrics (ps_profileBuilder s) (clock 1) (UpUserID x) = Ok (UpBehavior p)" by blast
  then have p: "has_profile (UpUserID x) (UpBehavior p) d1" by (auto simp: has_profile_def)
  have "\<exists>q d'. RefreshProfile s clock uuid d (UpUserID x) = (Ok q, d') \<and> has_profile (UpUserID x) (UpBehavior p) d'"
    unfolding RefreshProfile_def b(1) sbind.simps Let_def split_beta assms(3,5) pg_profiles_sel DefaultAutoTagRules_eval
    by (intro exI conjI, rule refl) (intro has_profile_updates p; simp)
  with b(4) show ?thesis unfolding has_profile_def by metis
qed

lemma not_dormant:
  assumes "EvaluateAutoTags clock DefaultAutoTagRules p = Ok tags" and "UpLastActivityAt p = Some t" and "in_days (clock 2) t \<le> 30"
  shows "TagDormantUser \<notin> set tags"
  using assms unfolding DefaultAutoTagRules_eval
  by (auto simp: TagFrequentTraveler_def TagHighValueUser_def TagDormantUser_def TagNewUser_def TagSecurityConscious_def TagHighRisk_def)

lemma BuildOrUpdate_activity:
  "BuildOrUpdate b clock uuid d u = (Ok p, d') \<Longrightarrow> UpLastActivityAt p = Some (clock 2)"
  by (cases "buildBehaviorMetrics b (clock 1) u"; cases "buildQualityDetails b u") (auto simp: BuildOrUpdate_def sbind_eq_Ok Let_def)

text \<open>
  A refresh sets the last activity to the present before it evaluates the rules, so it never gives the tag for
  dormant users, however long the user has been away.
\<close>

theorem dormant_never_tagged:
  assumes "RefreshProfile s clock uuid d u = (Ok p, d')" and "ps_autoRules s = DefaultAutoTagRules" and "in_days (clock 9) (clock 2) \<le> 30"
  shows "TagDormantUser \<notin> set (UpAutoTags p)"
proof -
  from assms(1) obtain p0 d0 tags p1 where b: "BuildOrUpdate (ps_profileBuilder s) clock uuid d u = (Ok p0, d0)"
    and t: "EvaluateAutoTags (\<lambda>k. clock (7 + k)) (ps_autoRules s) p1 = Ok tags" "UpLastActivityAt p1 = UpLastActivityAt p0"
    and p: "UpAutoTags p = tags"
    by (auto simp: RefreshProfile_def sbind_eq_Ok Let_def split_beta)
  from b t(2) have "UpLastActivityAt p1 = Some (clock 2)" using BuildOrUpdate_activity [OF b] by simp
  moreover have "in_days (clock (7 + 2)) (clock 2) \<le> 30" using assms(3) by simp
  ultimately have "TagDormantUser \<notin> set tags" using not_dormant t(1) assms(2) by metis
  with p show ?thesis by simp
qed

theorem dormant_never_tagged_witness:
  "\<exists>p d'. RefreshProfile (profile_svc DefaultAutoTagRules) (\<lambda>_. 10 ^ 18) ''p2'' [new_profile 0 ''p1'' ''u1'' ''t1''] ''u1'' = (Ok p, d')
    \<and> TagDormantUser \<notin> set (UpAutoTags p)"
proof -
  obtain p d' where run: "RefreshProfile (profile_svc DefaultAutoTagRules) (\<lambda>_. 10 ^ 18) ''p2'' [new_profile 0 ''p1'' ''u1'' ''t1''] ''u1'' = (Ok p, d')"
    using RefreshProfile_present [of "[new_profile 0 ''p1'' ''u1'' ''t1'']" "new_profile 0 ''p1'' ''u1'' ''t1''"
        "profile_svc DefaultAutoTagRules" "\<lambda>_. 10 ^ 18" "[]" _ "''p2''"]
    by (auto simp: unique_rows_def profile_svc_def profile_builder_def new_profile_def)
  with dormant_never_tagged [OF run] show ?thesis
    by (simp add: profile_svc_def in_days_def time_since_def hours_def)
qed

text \<open>
  The event of a changed password counts the change in an object that is dropped; the refresh that follows writes metrics without any
  password change.
\<close>

theorem password_change_lost:
  assumes "unique_rows UpID UpUserID d" and "x \<in> set d" and "evt ''user_id'' = Some (VString (UpUserID x))" and "UpUserID x \<noteq> []"
    and "ps_profileRepo s = pg_profiles profile_db" and "pb_profileRepo (ps_profileBuilder s) = pg_profiles profile_db"
    and "pb_GetLogsForUser (ps_profileBuilder s) (UpUserID x) (clock 6 - ninety_days) = Ok logs"
    and "pb_GetUserByID (ps_profileBuilder s) (UpUserID x) = Ok user" and "ps_autoRules s = DefaultAutoTagRules"
  shows "\<exists>d' y. HandlePasswordChangeEvent s clock uuid d (Some evt) = (Ok (), d') \<and> y \<in> set d' \<and> UpUserID y = UpUserID x
    \<and> BmPasswordChangeCount (UpBehavior y) = 0 \<and> BmLastPasswordChange (UpBehavior y) = None"
proof -
  let ?c = "\<lambda>k. clock (5 + k)" and ?u = "UpUserID x"
  have l: "pb_GetLogsForUser (ps_profileBuilder s) ?u (?c 1 - ninety_days) = Ok logs" using assms(7) by simp
  from RefreshProfile_present [where clock = ?c and uuid = "uuid 1", OF assms(1,2,5,6,9) l assms(8)]
  obtain q d' y where r: "RefreshProfile s ?c (uuid 1) d ?u = (Ok q, d')" "y \<in> set d'" "UpUserID y = ?u"
    "buildBehaviorMetrics (ps_profileBuilder s) (?c 1) ?u = Ok (UpBehavior y)" by blast
  note m = metrics_without_password [OF r(4)]
  have f: "find (\<lambda>y. UpUserID y = ?u) d = Some x" using find_row(2) [OF assms(1)] assms(2) by simp
  have "HandlePasswordChangeEvent s clock uuid d (Some evt) = (Ok (), d')"
    using f r(1) assms(3,4) by (simp add: HandlePasswordChangeEvent_def event_string_def GetProfile_def assms(5))
  with r m show ?thesis by auto
qed

text \<open>A failed login counts as a login.\<close>

theorem failed_login_counted:
  assumes "unique_rows UpID UpUserID d" and "x \<in> set d" and "evt ''user_id'' = Some (VString (UpUserID x))" and "UpUserID x \<noteq> []"
    and "evt ''success'' = Some (VBool False)" and "pb_profileRepo b = pg_profiles profile_db"
  shows "\<exists>d' y. HandleLoginEvent b clock uuid d (Some evt) = (Ok (), d') \<and> y \<in> set d' \<and> UpUserID y = UpUserID x
    \<and> BmTotalLogins (UpBehavior y) = go_int (BmTotalLogins (UpBehavior x) + 1)
    \<and> BmFailedLogins (UpBehavior y) = BmFailedLogins (UpBehavior x) \<and> UpLastActivityAt y = UpLastActivityAt x"
proof -
  have f: "find (\<lambda>y. UpUserID y = UpUserID x) d = Some x" using find_row(2) [OF assms(1)] assms(2) by simp
  show ?thesis
    using f assms(2-4) by (auto simp: HandleLoginEvent_def IncrementalUpdate_def event_string_def assms(6) Let_def image_iff
        intro!: bexI [of _ x])
qed

definition used_profile :: UserProfile where
  "used_profile = (new_profile 0 ''p1'' ''u1'' ''t1'')\<lparr>UpBehavior := zero_metrics\<lparr>BmPasswordChangeCount := 3, BmTotalLogins := 4\<rparr>\<rparr>"

theorem password_change_lost_witness:
  "\<exists>d' y. HandlePasswordChangeEvent (profile_svc DefaultAutoTagRules) (\<lambda>_. 7) (\<lambda>_. ''p2'') [used_profile]
      (Some [''user_id'' \<mapsto> VString ''u1'']) = (Ok (), d') \<and> y \<in> set d' \<and> BmPasswordChangeCount (UpBehavior y) = 0"
  using password_change_lost [of "[used_profile]" used_profile "[''user_id'' \<mapsto> VString ''u1'']" "profile_svc DefaultAutoTagRules"
      "\<lambda>_. 7" "[]" "zero_user\<lparr>UID := ''u1''\<rparr>" "\<lambda>_. ''p2''"]
  by (auto simp: used_profile_def new_profile_def unique_rows_def profile_svc_def profile_builder_def)

theorem failed_login_counted_witness:
  "\<exists>d' y. HandleLoginEvent (profile_builder []) (\<lambda>_. 7) ''p2'' [used_profile]
      (Some [''user_id'' \<mapsto> VString ''u1'', ''success'' \<mapsto> VBool False]) = (Ok (), d') \<and> y \<in> set d' \<and> BmTotalLogins (UpBehavior y) = 5"
  using failed_login_counted [of "[used_profile]" used_profile "[''user_id'' \<mapsto> VString ''u1'', ''success'' \<mapsto> VBool False]" "profile_builder []"
      "\<lambda>_. 7" "''p2''"]
  by (auto simp: used_profile_def new_profile_def unique_rows_def profile_builder_def)

end
