(* ===== verification/Audit_Log.thy ===== *)
theory Audit_Log
  imports Sql_Table Middleware Complex_Main "HOL-Library.Multiset" "HOL-Library.Sublist"
begin

text \<open>
  Audit events and their way into the database: \<^verbatim>\<open>pkg/audit/events\<close>, \<^verbatim>\<open>internal/audit\<close>,
  \<^verbatim>\<open>internal/audit/sinks\<close>, \<^verbatim>\<open>internal/services/audit\<close> and the auditing middleware. The asynchronous logger is a
  step relation: the callers of \<^verbatim>\<open>Record\<close> and the flush loop run in goroutines of their own and interleave. \<^verbatim>\<open>json.Marshal\<close> is an
  argument.
\<close>

section \<open>Events\<close>

record Actor =
  ActID :: string
  ActType :: string
  ActName :: string

record Target =
  TgtID :: string
  TgtType :: string
  TgtName :: string

record AuditEvent =
  EvID :: string
  EvTimestamp :: time
  EvEventType :: string
  EvActor :: Actor
  EvTarget :: Target
  EvAction :: string
  EvResult :: string
  EvMetadata :: "gmap option"
  EvIPAddress :: string
  EvUserAgent :: string
  EvTraceID :: string
  EvCategory :: string
  EvUserID :: string
  EvIP :: string
  EvDetails :: "gmap option"
  EvResource :: string

definition EventConfigChanged :: string where "EventConfigChanged = ''system.config.changed''"
definition EventKeyRotated :: string where "EventKeyRotated = ''system.key.rotated''"
definition EventDataModified :: string where "EventDataModified = ''data.modified''"
definition ResultSuccess :: string where "ResultSuccess = ''success''"
definition ResultFailure :: string where "ResultFailure = ''failure''"

definition no_actor :: Actor where "no_actor = \<lparr>ActID = [], ActType = [], ActName = []\<rparr>"
definition no_target :: Target where "no_target = \<lparr>TgtID = [], TgtType = [], TgtName = []\<rparr>"

definition zero_event :: AuditEvent where
  "zero_event = \<lparr>EvID = [], EvTimestamp = zero_time, EvEventType = [], EvActor = no_actor, EvTarget = no_target, EvAction = [],
     EvResult = [], EvMetadata = None, EvIPAddress = [], EvUserAgent = [], EvTraceID = [], EvCategory = [], EvUserID = [],
     EvIP = [], EvDetails = None, EvResource = []\<rparr>"

section \<open>The pipeline\<close>

text \<open>
  Sinks act on a shared world. The two packages declare a sink interface each; an error of a sink is logged and the
  next sink is served, a panic ends the call.
\<close>

record 'w Sink =
  sk_WriteBatch :: "'w \<Rightarrow> AuditEvent list \<Rightarrow> (go_error, unit) outcome \<times> 'w"
  sk_WriteSync :: "'w \<Rightarrow> AuditEvent \<Rightarrow> (go_error, unit) outcome \<times> 'w"
  sk_Close :: "'w \<Rightarrow> (go_error, unit) outcome \<times> 'w"

fun each_sink :: "('k \<Rightarrow> 'w \<Rightarrow> (go_error, unit) outcome \<times> 'w) \<Rightarrow> 'k list \<Rightarrow> 'w \<Rightarrow> (go_error, unit) outcome \<times> 'w" where
  "each_sink f [] w = (Ok (), w)"
| "each_sink f (s # ss) w = (case f s w of (Panic, w') \<Rightarrow> (Panic, w') | (_, w') \<Rightarrow> each_sink f ss w')"

definition Emit ::
    "('w \<Rightarrow> AuditEvent \<Rightarrow> (go_error, unit) outcome \<times> 'w) list \<Rightarrow> 'w \<Rightarrow> AuditEvent \<Rightarrow> (go_error, unit) outcome \<times> 'w" where
  "Emit sinks w event = each_sink (\<lambda>Write w. Write w event) sinks w"

text \<open>A line of JSON per event, to a file or to standard output: \<open>w\<close> is what has been written.\<close>

definition line_Write :: "(AuditEvent \<Rightarrow> (go_error, string) outcome) \<Rightarrow> string \<Rightarrow> AuditEvent \<Rightarrow> (go_error, unit) outcome \<times> string" where
  "line_Write marshal w event =
     (case marshal event of
        Panic \<Rightarrow> (Panic, w)
      | Fail err \<Rightarrow> (Fail (Wrapf ''failed to marshal audit event'' err), w)
      | Ok data \<Rightarrow> (Ok (), w @ data @ [CHR 0x0A]))"

section \<open>The asynchronous logger\<close>

record 'w AuditLogger =
  al_sinks :: "'w Sink list"
  al_bufferSize :: nat
  al_batchSize :: nat

record 'w logger_state =
  ls_buffer :: "AuditEvent list"
  ls_closed :: bool
  ls_batch :: "AuditEvent list"
  ls_cancelled :: bool
  ls_done :: bool
  ls_world :: 'w

definition writeSync :: "'w AuditLogger \<Rightarrow> AuditEvent \<Rightarrow> 'w \<Rightarrow> (go_error, unit) outcome \<times> 'w" where
  "writeSync al event w = each_sink (\<lambda>s w. sk_WriteSync s w event) (al_sinks al) w"

definition flushBatch :: "'w AuditLogger \<Rightarrow> AuditEvent list \<Rightarrow> 'w \<Rightarrow> (go_error, unit) outcome \<times> 'w" where
  "flushBatch al batch w = each_sink (\<lambda>s w. sk_WriteBatch s w batch) (al_sinks al) w"

definition enrich :: "string \<Rightarrow> time \<Rightarrow> AuditEvent \<Rightarrow> AuditEvent" where
  "enrich uuid now event =
     event\<lparr>EvID := (if EvID event = [] then uuid else EvID event),
           EvTimestamp := (if EvTimestamp event = zero_time then now else EvTimestamp event)\<rparr>"

text \<open>
  A send to a closed channel panics, also under \<^verbatim>\<open>select\<close> with a default. The buffer of the channel holds at least one
  event; a channel without a buffer would also hand an event over when the loop waits for one.
\<close>

definition Record ::
    "'w AuditLogger \<Rightarrow> string \<Rightarrow> time \<Rightarrow> AuditEvent \<Rightarrow> 'w logger_state \<Rightarrow> (go_error, unit) outcome \<times> 'w logger_state" where
  "Record al uuid now event s =
     (let e = enrich uuid now event
      in if ls_closed s then (Panic, s)
         else if length (ls_buffer s) < al_bufferSize al then (Ok (), s\<lparr>ls_buffer := ls_buffer s @ [e]\<rparr>)
         else let (res, w) = writeSync al e (ls_world s) in (res, s\<lparr>ls_world := w\<rparr>))"

text \<open>The three cases of the loop, each as what it does when the select takes it.\<close>

definition loop_receive :: "'w AuditLogger \<Rightarrow> 'w logger_state \<Rightarrow> (go_error, unit) outcome \<times> 'w logger_state" where
  "loop_receive al s =
     (let batch = ls_batch s @ [hd (ls_buffer s)];
          s1 = s\<lparr>ls_buffer := tl (ls_buffer s), ls_batch := batch\<rparr>
      in if length batch \<ge> al_batchSize al
         then let (res, w) = flushBatch al batch (ls_world s) in (res, s1\<lparr>ls_batch := [], ls_world := w\<rparr>)
         else (Ok (), s1))"

definition loop_tick :: "'w AuditLogger \<Rightarrow> 'w logger_state \<Rightarrow> (go_error, unit) outcome \<times> 'w logger_state" where
  "loop_tick al s =
     (if ls_batch s = [] then (Ok (), s)
      else let (res, w) = flushBatch al (ls_batch s) (ls_world s) in (res, s\<lparr>ls_batch := [], ls_world := w\<rparr>))"

definition loop_done :: "'w AuditLogger \<Rightarrow> 'w logger_state \<Rightarrow> (go_error, unit) outcome \<times> 'w logger_state" where
  "loop_done al s =
     (let batch = ls_batch s @ ls_buffer s;
          s1 = s\<lparr>ls_closed := True, ls_buffer := [], ls_batch := [], ls_done := True\<rparr>;
          (res, w) = sbind (if batch = [] then (Ok (), ls_world s) else flushBatch al batch (ls_world s))
            (\<lambda>_ w. each_sink (\<lambda>k. sk_Close k) (al_sinks al) w)
      in (res, s1\<lparr>ls_world := w\<rparr>))"

definition NewAuditLogger :: "'w \<Rightarrow> 'w logger_state" where
  "NewAuditLogger w = \<lparr>ls_buffer = [], ls_closed = False, ls_batch = [], ls_cancelled = False, ls_done = False, ls_world = w\<rparr>"

text \<open>
  A step of the process. A step is labelled with the events it accepts: those whose \<^verbatim>\<open>Record\<close> returned. The loop may take
  any case that is ready; \<^verbatim>\<open>Shutdown\<close> cancels the context and waits for the loop.
\<close>

inductive logger_step :: "'w AuditLogger \<Rightarrow> AuditEvent list \<Rightarrow> 'w logger_state \<Rightarrow> 'w logger_state \<Rightarrow> bool" for al where
  recorded: "Record al uuid now event s = (Ok (), s') \<Longrightarrow> logger_step al [enrich uuid now event] s s'"
| received: "ls_buffer s \<noteq> [] \<Longrightarrow> \<not> ls_done s \<Longrightarrow> loop_receive al s = (Ok (), s') \<Longrightarrow> logger_step al [] s s'"
| ticked: "\<not> ls_done s \<Longrightarrow> loop_tick al s = (Ok (), s') \<Longrightarrow> logger_step al [] s s'"
| cancelled: "logger_step al [] s (s\<lparr>ls_cancelled := True\<rparr>)"
| stopped: "ls_cancelled s \<Longrightarrow> \<not> ls_done s \<Longrightarrow> loop_done al s = (Ok (), s') \<Longrightarrow> logger_step al [] s s'"

inductive logger_run :: "'w AuditLogger \<Rightarrow> 'w \<Rightarrow> AuditEvent list \<Rightarrow> 'w logger_state \<Rightarrow> bool" for al w where
  started: "logger_run al w [] (NewAuditLogger w)"
| continued: "logger_run al w es s \<Longrightarrow> logger_step al new s s' \<Longrightarrow> logger_run al w (es @ new) s'"

section \<open>The PostgreSQL sink\<close>

record AuditLogEntry =
  AleID :: string
  AleTimestamp :: time
  AleEventType :: string
  AleActor :: string
  AleTarget :: string
  AleAction :: string
  AleResult :: string
  AleMetadata :: string
  AleIPAddress :: string
  AleUserAgent :: string
  AleTraceID :: string
  AleCategory :: string
  AleUserID :: string
  AleDetails :: string

record event_json =
  js_actor :: "Actor \<Rightarrow> string"
  js_target :: "Target \<Rightarrow> string"
  js_map :: "gmap option \<Rightarrow> string"

definition toAuditLogEntry :: "event_json \<Rightarrow> AuditEvent \<Rightarrow> AuditLogEntry" where
  "toAuditLogEntry js e =
     \<lparr>AleID = EvID e, AleTimestamp = EvTimestamp e, AleEventType = EvEventType e, AleActor = js_actor js (EvActor e),
      AleTarget = js_target js (EvTarget e), AleAction = EvAction e, AleResult = EvResult e, AleMetadata = js_map js (EvMetadata e),
      AleIPAddress = EvIPAddress e, AleUserAgent = EvUserAgent e, AleTraceID = EvTraceID e, AleCategory = EvCategory e,
      AleUserID = EvUserID e, AleDetails = js_map js (EvDetails e)\<rparr>"

text \<open>A \<^verbatim>\<open>Create\<close> of a slice is one statement: it inserts all rows or none.\<close>

definition insert_rows :: "AuditLogEntry list \<Rightarrow> AuditLogEntry list \<Rightarrow> (go_error, unit) outcome \<times> AuditLogEntry list" where
  "insert_rows rows new =
     (if distinct (map AleID (rows @ new)) then (Ok (), rows @ new) else (Fail ErrDuplicatedKey, rows))"

definition PostgresSink :: "event_json \<Rightarrow> AuditLogEntry list Sink" where
  "PostgresSink js =
     \<lparr>sk_WriteBatch = (\<lambda>rows batch. if batch = [] then (Ok (), rows) else insert_rows rows (map (toAuditLogEntry js) batch)),
      sk_WriteSync = (\<lambda>rows event. insert_rows rows [toAuditLogEntry js event]),
      sk_Close = (\<lambda>rows. (Ok (), rows))\<rparr>"

section \<open>Queries and retention\<close>

record QueryFilter =
  QfStartTimestamp :: time
  QfEndTimestamp :: time
  QfEventTypes :: "string list"
  QfActorID :: string
  QfTargetID :: string

definition no_filter :: QueryFilter where
  "no_filter = \<lparr>QfStartTimestamp = zero_time, QfEndTimestamp = zero_time, QfEventTypes = [], QfActorID = [], QfTargetID = []\<rparr>"

definition query_matches :: "QueryFilter \<Rightarrow> AuditEvent \<Rightarrow> bool" where
  "query_matches f e \<longleftrightarrow>
     (QfStartTimestamp f \<noteq> zero_time \<longrightarrow> EvTimestamp e \<ge> QfStartTimestamp f)
     \<and> (QfEndTimestamp f \<noteq> zero_time \<longrightarrow> EvTimestamp e \<le> QfEndTimestamp f)
     \<and> (QfEventTypes f \<noteq> [] \<longrightarrow> EvEventType e \<in> set (QfEventTypes f))
     \<and> (QfActorID f \<noteq> [] \<longrightarrow> ActID (EvActor e) = QfActorID f)
     \<and> (QfTargetID f \<noteq> [] \<longrightarrow> TgtID (EvTarget e) = QfTargetID f)"

record 'd AuditRepository =
  ar_WriteBatch :: "'d \<Rightarrow> AuditEvent list \<Rightarrow> (go_error, unit) outcome \<times> 'd"
  ar_WriteSync :: "'d \<Rightarrow> AuditEvent \<Rightarrow> (go_error, unit) outcome \<times> 'd"
  ar_Query :: "'d \<Rightarrow> QueryFilter \<Rightarrow> (go_error, AuditEvent list) outcome"
  ar_DeleteBefore :: "'d \<Rightarrow> time \<Rightarrow> (go_error, unit) outcome \<times> 'd"

text \<open>\<open>create_all\<close> is the mapper's insert of a slice.\<close>

definition PostgresAuditLogRepository ::
    "('d, AuditEvent) gorm_table \<Rightarrow> ('d \<Rightarrow> AuditEvent list \<Rightarrow> (go_error, unit) outcome \<times> 'd) \<Rightarrow> 'd AuditRepository" where
  "PostgresAuditLogRepository db create_all =
     \<lparr>ar_WriteBatch = create_all, ar_WriteSync = db_create db,
      ar_Query = (\<lambda>d f. db_find db d (query_matches f)),
      ar_DeleteBefore = (\<lambda>d cutoff. db_delete db d (\<lambda>e. EvTimestamp e < cutoff))\<rparr>"

definition retention_day :: int where "retention_day = 86400000000000"

text \<open>The job that the retention manager schedules, if it schedules one.\<close>

definition retention_job :: "'d AuditRepository \<Rightarrow> int \<Rightarrow> time \<Rightarrow> 'd \<Rightarrow> 'd" where
  "retention_job repo retentionDays now d =
     (if retentionDays \<le> 0 then d else snd (ar_DeleteBefore repo d (now - retentionDays * retention_day)))"

record RetentionConfig =
  HotDataRetention :: int
  WarmDataRetention :: int
  ColdDataRetention :: int
  EnableAutoArchive :: bool
  EnableAutoDelete :: bool

record 'd RetentionRepository =
  rr_ArchiveLogs :: "'d \<Rightarrow> time \<Rightarrow> string \<Rightarrow> (go_error, int) outcome \<times> 'd"
  rr_DeleteLogsBefore :: "'d \<Rightarrow> time \<Rightarrow> (go_error, int) outcome \<times> 'd"

definition retention_Execute :: "'d RetentionRepository \<Rightarrow> RetentionConfig \<Rightarrow> time \<Rightarrow> 'd \<Rightarrow> (go_error, unit) outcome \<times> 'd" where
  "retention_Execute repo c now d =
     (case (if EnableAutoArchive c then rr_ArchiveLogs repo d (now - HotDataRetention c) ''warm'' else (Ok 0, d)) of
        (Panic, d1) \<Rightarrow> (Panic, d1)
      | (_, d1) \<Rightarrow>
          if EnableAutoDelete c
          then sbind (rr_DeleteLogsBefore repo d1 (now - ColdDataRetention c)) (\<lambda>_ d2. (Ok (), d2))
          else (Ok (), d1))"

section \<open>Compliance\<close>

record ComplianceResult =
  CrRuleID :: string
  CrStatus :: string
  CrDetails :: string
  CrError :: "go_error option"

record 'c ComplianceRule =
  RuID :: string
  RuName :: string
  RuStandard :: string
  RuDescription :: string
  RuCheckFunc :: "'c \<Rightarrow> (go_error, ComplianceResult option) outcome"

record ComplianceReport =
  RpStandard :: string
  RpTimestamp :: time
  RpResults :: "ComplianceResult list"
  RpPassRate :: real

definition getRulesByStandard :: "'c ComplianceRule list \<Rightarrow> string \<Rightarrow> 'c ComplianceRule list" where
  "getRulesByStandard rules standard = filter (\<lambda>r. RuStandard r = standard) rules"

text \<open>A check that returns neither a result nor an error makes the loop dereference nil. \<open>text\<close> is the message of an error.\<close>

fun run_checks :: "(go_error \<Rightarrow> string) \<Rightarrow> 'c \<Rightarrow> 'c ComplianceRule list \<Rightarrow> (go_error, ComplianceResult list) outcome" where
  "run_checks text cc [] = Ok []"
| "run_checks text cc (rule # rules) =
     obind (case RuCheckFunc rule cc of
              Panic \<Rightarrow> Panic
            | Fail err \<Rightarrow> Ok \<lparr>CrRuleID = RuID rule, CrStatus = ''error'', CrDetails = text err, CrError = Some err\<rparr>
            | Ok None \<Rightarrow> Panic
            | Ok (Some result) \<Rightarrow> Ok result)
       (\<lambda>result. obind (run_checks text cc rules) (\<lambda>results. Ok (result # results)))"

definition RunChecksForStandard ::
    "(go_error \<Rightarrow> string) \<Rightarrow> 'c ComplianceRule list \<Rightarrow> 'c \<Rightarrow> time \<Rightarrow> string \<Rightarrow> (go_error, ComplianceReport) outcome" where
  "RunChecksForStandard text rules cc now standard =
     (let rulesForStandard = getRulesByStandard rules standard
      in if rulesForStandard = [] then Fail (Errorf ''no compliance rules defined for standard'')
         else obind (run_checks text cc rulesForStandard)
           (\<lambda>results. Ok \<lparr>RpStandard = standard, RpTimestamp = now, RpResults = results,
              RpPassRate = real (length (filter (\<lambda>r. CrStatus r = ''pass'') results)) / real (length rulesForStandard)\<rparr>))"

definition utc_hour :: "time \<Rightarrow> int" where "utc_hour t = t div 3600000000000 mod 24"

definition ValidateAction :: "time \<Rightarrow> string \<Rightarrow> (go_error, unit) outcome" where
  "ValidateAction now action =
     (if action = ''data.export'' \<and> (utc_hour now < 6 \<or> utc_hour now \<ge> 20)
      then Fail (Errorf ''data export is restricted to business hours (06:00 - 20:00 UTC)'') else Ok ())"

definition compliance_ErrNotFound :: go_error where "compliance_ErrNotFound = Errorf ''not found''"

definition plain_result :: "string \<Rightarrow> string \<Rightarrow> string \<Rightarrow> ComplianceResult option" where
  "plain_result ruleID status details = Some \<lparr>CrRuleID = ruleID, CrStatus = status, CrDetails = details, CrError = None\<rparr>"

text \<open>\<open>find_accounts\<close> is the identity repository's search by creation time, \<open>day\<close> the date in the message.\<close>

definition CheckGDPRDataRetention ::
    "(time \<Rightarrow> (go_error, 'u list) outcome) \<Rightarrow> (time \<Rightarrow> string) \<Rightarrow> time \<Rightarrow> (go_error, ComplianceResult option) outcome" where
  "CheckGDPRDataRetention find_accounts day now =
     (let cutoff = now - 7 * 365 * retention_day
      in case find_accounts cutoff of
           Panic \<Rightarrow> Panic
         | Fail err \<Rightarrow>
             if err = compliance_ErrNotFound
             then Ok (plain_result ''GDPR-05'' ''pass'' ''No user accounts found beyond the retention period.'')
             else Fail err
         | Ok expiredUsers \<Rightarrow>
             if expiredUsers \<noteq> []
             then Ok (plain_result ''GDPR-05'' ''fail'' (''Found '' @ show_int (int (length expiredUsers)) @
                    '' user accounts with creation dates older than '' @ day cutoff @ ''.''))
             else Ok (plain_result ''GDPR-05'' ''pass'' []))"

definition CheckSOC2MonitoringCoverage :: "'d AuditRepository \<Rightarrow> 'd \<Rightarrow> time \<Rightarrow> (go_error, ComplianceResult option) outcome" where
  "CheckSOC2MonitoringCoverage repo d now =
     obind (ar_Query repo d (no_filter\<lparr>QfStartTimestamp := now - 7 * retention_day, QfEventTypes := [EventConfigChanged, EventKeyRotated]\<rparr>))
       (\<lambda>evs. if evs = []
          then Ok (plain_result ''SOC2-CC7.2'' ''fail''
                 ''No critical system events (e.g., config change, key rotation) were audited in the last 7 days.'')
          else Ok (plain_result ''SOC2-CC7.2'' ''pass''
                 (''Found '' @ show_int (int (length evs)) @ '' critical system events in the last 7 days.'')))"

section \<open>The audit service\<close>

text \<open>
  The service writes an event through the pipeline and starts a goroutine that dispatches it to webhooks, if it has a dispatcher;
  \<open>aw_dispatched\<close> lists what was started. The details that a caller passes are a Go map, which two of the calls add entries to.
\<close>

record 'w AuditService =
  aus_sinks :: "('w \<Rightarrow> AuditEvent \<Rightarrow> (go_error, unit) outcome \<times> 'w) list"
  aus_dispatcher :: bool

record 'w audit_world =
  aw_world :: 'w
  aw_dispatched :: "(string \<times> AuditEvent) list"

definition pipeline_Emit :: "'w AuditService \<Rightarrow> AuditEvent \<Rightarrow> 'w audit_world \<Rightarrow> (go_error, unit) outcome \<times> 'w audit_world" where
  "pipeline_Emit s event a = (let (res, w) = Emit (aus_sinks s) (aw_world a) event in (res, a\<lparr>aw_world := w\<rparr>))"

definition dispatchWebhook :: "'w AuditService \<Rightarrow> string \<Rightarrow> AuditEvent \<Rightarrow> 'w audit_world \<Rightarrow> (go_error, unit) outcome \<times> 'w audit_world" where
  "dispatchWebhook s eventType event a =
     (Ok (), if aus_dispatcher s then a\<lparr>aw_dispatched := aw_dispatched a @ [(eventType, event)]\<rparr> else a)"

definition service_event :: "string \<Rightarrow> time \<Rightarrow> string \<Rightarrow> string \<Rightarrow> string \<Rightarrow> string \<Rightarrow> string \<Rightarrow> string \<Rightarrow> string \<Rightarrow> gmap option \<Rightarrow> AuditEvent" where
  "service_event uuid now category action userID ip resource result traceID details =
     zero_event\<lparr>EvID := uuid, EvTimestamp := now, EvCategory := category, EvAction := action, EvUserID := userID, EvIP := ip,
       EvResource := resource, EvResult := result, EvTraceID := traceID, EvDetails := details\<rparr>"

definition add_detail :: "gmap option \<Rightarrow> string \<Rightarrow> gvalue \<Rightarrow> gmap option" where
  "add_detail details k v = Some ((case details of None \<Rightarrow> Map.empty | Some m \<Rightarrow> m)(k \<mapsto> v))"

definition RecordLoginSuccess ::
    "'w AuditService \<Rightarrow> string \<Rightarrow> time \<Rightarrow> string \<Rightarrow> string \<Rightarrow> string \<Rightarrow> gmap option \<Rightarrow> 'w audit_world \<Rightarrow> (go_error, unit) outcome \<times> 'w audit_world" where
  "RecordLoginSuccess s uuid now userID ip traceID details a =
     (let event = service_event uuid now ''auth'' ''login_success'' userID ip [] ResultSuccess traceID details
      in sbind (pipeline_Emit s event a) (\<lambda>_. dispatchWebhook s ''login.success'' event))"

definition RecordLoginFailed ::
    "'w AuditService \<Rightarrow> string \<Rightarrow> time \<Rightarrow> string \<Rightarrow> string \<Rightarrow> string \<Rightarrow> string \<Rightarrow> gmap option \<Rightarrow> 'w audit_world \<Rightarrow> (go_error, unit) outcome \<times> 'w audit_world" where
  "RecordLoginFailed s uuid now userID ip traceID reason details a =
     (let event = service_event uuid now ''auth'' ''login_failed'' userID ip [] ResultFailure traceID
            (add_detail details ''reason'' (VString reason))
      in sbind (pipeline_Emit s event a) (\<lambda>_. dispatchWebhook s ''login.failed'' event))"

definition RecordUserCreated ::
    "'w AuditService \<Rightarrow> string \<Rightarrow> time \<Rightarrow> User \<Rightarrow> string \<Rightarrow> string \<Rightarrow> 'w audit_world \<Rightarrow> (go_error, unit) outcome \<times> 'w audit_world" where
  "RecordUserCreated s uuid now user ip traceID a =
     (let event = service_event uuid now ''identity'' ''user.created'' (UID user) ip [] ResultSuccess traceID
            (Some [''username'' \<mapsto> VString (Username user), ''email'' \<mapsto> VString (Email user)])
      in sbind (pipeline_Emit s event a) (\<lambda>_. dispatchWebhook s ''user.created'' event))"

definition RecordPolicyDecision ::
    "'w AuditService \<Rightarrow> string \<Rightarrow> time \<Rightarrow> string \<Rightarrow> string \<Rightarrow> string \<Rightarrow> string \<Rightarrow> string \<Rightarrow> gmap option \<Rightarrow> 'w audit_world \<Rightarrow> (go_error, unit) outcome \<times> 'w audit_world" where
  "RecordPolicyDecision s uuid now userID ip resource traceID result details a =
     pipeline_Emit s (service_event uuid now ''policy'' ''policy_evaluated'' userID ip resource result traceID details) a"

definition RecordAdminAction ::
    "'w AuditService \<Rightarrow> string \<Rightarrow> time \<Rightarrow> string \<Rightarrow> string \<Rightarrow> string \<Rightarrow> string \<Rightarrow> string \<Rightarrow> gmap option \<Rightarrow> 'w audit_world \<Rightarrow> (go_error, unit) outcome \<times> 'w audit_world" where
  "RecordAdminAction s uuid now userID ip resource action traceID details a =
     pipeline_Emit s (service_event uuid now ''admin'' action userID ip resource ResultSuccess traceID details) a"

text \<open>\<open>score\<close> is the value of the details that stands for the floating-point score.\<close>

definition RecordHighRiskLogin ::
    "'w AuditService \<Rightarrow> string \<Rightarrow> time \<Rightarrow> string \<Rightarrow> string \<Rightarrow> string \<Rightarrow> gvalue \<Rightarrow> string list \<Rightarrow> gmap option \<Rightarrow> 'w audit_world \<Rightarrow> (go_error, unit) outcome \<times> 'w audit_world" where
  "RecordHighRiskLogin s uuid now userID ip traceID score factors details a =
     pipeline_Emit s (service_event uuid now ''risk'' ''high_risk_login'' userID ip [] ResultSuccess traceID
       (add_detail (add_detail details ''risk_score'' score) ''risk_factors'' (VStrings factors))) a"

definition GetLogsForUser :: "'d AuditRepository option \<Rightarrow> (nat \<Rightarrow> time) \<Rightarrow> 'd \<Rightarrow> string \<Rightarrow> int \<Rightarrow> (go_error, AuditEvent list) outcome" where
  "GetLogsForUser repo clock d userID limit =
     (case repo of
        None \<Rightarrow> Fail (Errorf ''audit repository not configured'')
      | Some r \<Rightarrow>
          obind (ar_Query r d (no_filter\<lparr>QfActorID := userID, QfStartTimestamp := clock 0 - 30 * retention_day, QfEndTimestamp := clock 1\<rparr>))
            (\<lambda>logs. Ok (if limit > 0 \<and> int (length logs) > limit then take (nat limit) logs else logs)))"

section \<open>The auditing middleware\<close>

text \<open>
  \<open>parse\<close> is \<^verbatim>\<open>json.Unmarshal\<close> into a map, as an association list with distinct keys, and \<open>print\<close> is \<^verbatim>\<open>json.Marshal\<close> of
  one.
\<close>

definition sensitive :: "string \<Rightarrow> bool" where
  "sensitive key \<longleftrightarrow> (let k = ToLower key in sublist ''password'' k \<or> sublist ''secret'' k \<or> sublist ''token'' k)"

definition mask_entry :: "string \<times> gvalue \<Rightarrow> string \<times> gvalue" where
  "mask_entry kv = (case kv of (k, VString s) \<Rightarrow> (k, if sensitive k then VString ''***'' else VString s) | _ \<Rightarrow> kv)"

definition maskSensitiveData ::
    "(string \<Rightarrow> (string \<times> gvalue) list option) \<Rightarrow> ((string \<times> gvalue) list \<Rightarrow> string) \<Rightarrow> string \<Rightarrow> string" where
  "maskSensitiveData parse print body =
     (if body = [] then []
      else case parse body of None \<Rightarrow> body | Some data \<Rightarrow> print (map mask_entry data))"

definition getResult :: "int \<Rightarrow> string" where
  "getResult statusCode = (if statusCode \<ge> 200 \<and> statusCode < 300 then ResultSuccess else ResultFailure)"

text \<open>
  What the middleware records for a request, if anything, once the next handler has answered with \<open>status\<close>; the event gets its
  identifier and its time from the logger.
\<close>

definition AuditorMiddleware ::
    "(string \<Rightarrow> (string \<times> gvalue) list option) \<Rightarrow> ((string \<times> gvalue) list \<Rightarrow> string) \<Rightarrow> request \<Rightarrow> string \<Rightarrow> int \<Rightarrow> AuditEvent option" where
  "AuditorMiddleware parse print r body status =
     (if rq_method r \<noteq> ''POST'' \<and> rq_method r \<noteq> ''PUT'' \<and> rq_method r \<noteq> ''DELETE'' then None
      else let userID = (case ctx_string r UserIDContextKey of None \<Rightarrow> [] | Some u \<Rightarrow> u)
           in Some (zero_event\<lparr>EvEventType := EventDataModified, EvActor := \<lparr>ActID = userID, ActType = ''user'', ActName = []\<rparr>,
                EvTarget := \<lparr>TgtID = [], TgtType = ''http-request'', TgtName = []\<rparr>, EvResult := getResult status,
                EvMetadata := Some [''path'' \<mapsto> VString (rq_path r), ''method'' \<mapsto> VString (rq_method r), ''status'' \<mapsto> VInt status,
                  ''body'' \<mapsto> VString (maskSensitiveData parse print body)],
                EvIPAddress := rq_remote r, EvUserAgent := rq_header r ''User-Agent''\<rparr>))"

section \<open>No event is lost\<close>

lemma each_sink_single [simp]: "each_sink f [s] w = (if fst (f s w) = Panic then (Panic, snd (f s w)) else (Ok (), snd (f s w)))"
  by (cases "f s w") (auto split: outcome.split)

text \<open>
  The contract of the sinks towards the logger: writing events that are \<open>fresh\<close> in a world delivers each of them once, and events that
  were fresh together with them stay fresh; closing delivers nothing. Freshness does not depend on the order of the events.
\<close>

locale audit_sinks =
  fixes al :: "'w AuditLogger" and delivered :: "'w \<Rightarrow> 'r multiset" and conv :: "AuditEvent \<Rightarrow> 'r"
    and fresh :: "'w \<Rightarrow> AuditEvent list \<Rightarrow> bool"
  assumes fresh_perm: "fresh w es \<Longrightarrow> mset es = mset fs \<Longrightarrow> fresh w fs"
    and batch: "fresh w (es @ fs) \<Longrightarrow> es \<noteq> [] \<Longrightarrow>
      \<exists>w'. flushBatch al es w = (Ok (), w') \<and> delivered w' = delivered w + image_mset conv (mset es) \<and> fresh w' fs"
    and sync: "fresh w (e # fs) \<Longrightarrow> \<exists>w'. writeSync al e w = (Ok (), w') \<and> delivered w' = add_mset (conv e) (delivered w) \<and> fresh w' fs"
    and close: "each_sink (\<lambda>k. sk_Close k) (al_sinks al) w = (Ok (), w)"
begin

definition pending :: "'w logger_state \<Rightarrow> AuditEvent list" where
  "pending s = ls_batch s @ ls_buffer s"

text \<open>What holds after the events \<open>es\<close> have been accepted.\<close>

definition accounted :: "'w \<Rightarrow> AuditEvent list \<Rightarrow> 'w logger_state \<Rightarrow> bool" where
  "accounted w es s \<longleftrightarrow>
     delivered (ls_world s) + image_mset conv (mset (pending s)) = delivered w + image_mset conv (mset es)
     \<and> length (ls_buffer s) \<le> al_bufferSize al \<and> (ls_closed s = ls_done s) \<and> (ls_done s \<longrightarrow> pending s = [])"

lemma step_accounted:
  assumes "logger_step al new s s'" and "accounted w es s" and "fresh (ls_world s) (pending s @ new @ future)"
  shows "accounted w (es @ new) s' \<and> fresh (ls_world s') (pending s' @ future)"
  using assms(1)
proof cases
  case (recorded uuid now event)
  let ?e = "enrich uuid now event"
  show ?thesis
  proof (cases "length (ls_buffer s) < al_bufferSize al")
    case True
    with recorded assms(2,3) show ?thesis
      by (auto simp: Record_def accounted_def pending_def Let_def split: if_splits)
  next
    case False
    have "fresh (ls_world s) (?e # pending s @ future)" using assms(3) by (rule fresh_perm) (simp add: recorded(1))
    from sync [OF this] obtain w' where "writeSync al ?e (ls_world s) = (Ok (), w')"
      "delivered w' = add_mset (conv ?e) (delivered (ls_world s))" "fresh w' (pending s @ future)" by blast
    with recorded False assms(2) show ?thesis
      by (auto simp: Record_def accounted_def pending_def Let_def split: if_splits)
  qed
next
  case received
  then obtain e bs where b: "ls_buffer s = e # bs" by (cases "ls_buffer s") auto
  let ?b = "ls_batch s @ [e]"
  have p: "pending s = ?b @ bs" by (simp add: pending_def b)
  show ?thesis
  proof (cases "length ?b \<ge> al_batchSize al")
    case True
    have "fresh (ls_world s) (?b @ bs @ future)" using assms(3) by (simp add: p received(1))
    from batch [OF this] obtain w' where f: "flushBatch al ?b (ls_world s) = (Ok (), w')"
      "delivered w' = delivered (ls_world s) + image_mset conv (mset ?b)" "fresh w' (bs @ future)" by auto
    with received True b have "s' = s\<lparr>ls_buffer := bs, ls_batch := [], ls_world := w'\<rparr>" by (simp add: loop_receive_def)
    then show ?thesis using assms(2) f p b received by (auto simp: accounted_def pending_def add.assoc)
  next
    case False
    with received b have "s' = s\<lparr>ls_buffer := bs, ls_batch := ?b\<rparr>" by (simp add: loop_receive_def)
    then show ?thesis using assms(2,3) p b received by (auto simp: accounted_def pending_def)
  qed
next
  case ticked
  show ?thesis
  proof (cases "ls_batch s = []")
    case False
    have "fresh (ls_world s) (ls_batch s @ ls_buffer s @ future)" using assms(3) by (simp add: pending_def ticked(1))
    from batch [OF this False] obtain w' where f: "flushBatch al (ls_batch s) (ls_world s) = (Ok (), w')"
      "delivered w' = delivered (ls_world s) + image_mset conv (mset (ls_batch s))" "fresh w' (ls_buffer s @ future)" by auto
    with ticked False have "s' = s\<lparr>ls_batch := [], ls_world := w'\<rparr>" by (simp add: loop_tick_def)
    then show ?thesis using assms(2) f ticked by (auto simp: accounted_def pending_def add.assoc)
  qed (use ticked assms(2,3) in \<open>simp add: loop_tick_def\<close>)
next
  case cancelled
  then show ?thesis using assms(2,3) by (auto simp: accounted_def pending_def)
next
  case stopped
  show ?thesis
  proof (cases "pending s = []")
    case True
    with stopped close have "s' = s\<lparr>ls_closed := True, ls_buffer := [], ls_batch := [], ls_done := True\<rparr>"
      by (simp add: loop_done_def pending_def)
    then show ?thesis using assms(2,3) True stopped by (auto simp: accounted_def pending_def)
  next
    case False
    have "fresh (ls_world s) (pending s @ future)" using assms(3) by (simp add: stopped(1))
    from batch [OF this False] obtain w' where f: "flushBatch al (pending s) (ls_world s) = (Ok (), w')"
      "delivered w' = delivered (ls_world s) + image_mset conv (mset (pending s))" "fresh w' future" by auto
    with stopped False close have "s' = s\<lparr>ls_closed := True, ls_buffer := [], ls_batch := [], ls_done := True, ls_world := w'\<rparr>"
      by (simp add: loop_done_def pending_def del: append_is_Nil_conv)
    then show ?thesis using assms(2) f stopped by (auto simp: accounted_def pending_def)
  qed
qed

lemma run_accounted:
  assumes "logger_run al w es s" and "fresh w (es @ future)"
  shows "accounted w es s \<and> fresh (ls_world s) (pending s @ future)"
  using assms
proof (induction arbitrary: future rule: logger_run.induct)
  case started
  then show ?case by (simp add: accounted_def pending_def NewAuditLogger_def)
next
  case (continued es s new s')
  then have "accounted w es s \<and> fresh (ls_world s) (pending s @ new @ future)" by simp
  with step_accounted [OF continued.hyps(2)] show ?case by blast
qed

text \<open>From any state the process can stop, with everything delivered.\<close>

lemma run_can_stop:
  assumes "logger_run al w es s" and "fresh w es"
  shows "\<exists>s'. logger_run al w es s' \<and> ls_done s'"
proof (cases "ls_done s")
  case False
  let ?c = "s\<lparr>ls_cancelled := True\<rparr>"
  have c: "logger_run al w es ?c" using logger_run.continued [OF assms(1) logger_step.cancelled] by simp
  have "fresh (ls_world ?c) (pending ?c @ [])" using run_accounted [OF c, of "[]"] assms(2) by simp
  then have "\<exists>s'. loop_done al ?c = (Ok (), s') \<and> ls_done s'"
    using batch [of "ls_world ?c" "pending ?c" "[]"] close
    by (cases "pending ?c = []") (auto simp: loop_done_def pending_def simp del: append_is_Nil_conv)
  then obtain s' where s': "loop_done al ?c = (Ok (), s')" "ls_done s'" by blast
  have "logger_run al w (es @ []) s'" using False by (intro logger_run.continued [OF c] logger_step.stopped [OF _ _ s'(1)]) auto
  with s' show ?thesis by auto
qed (use assms in blast)

end

text \<open>The sink that the server configures, over a table in which the identifiers of the new events are not taken.\<close>

definition audit_fresh :: "AuditLogEntry list \<Rightarrow> AuditEvent list \<Rightarrow> bool" where
  "audit_fresh rows es \<longleftrightarrow> distinct (map AleID rows @ map EvID es)"

definition pg_logger :: "event_json \<Rightarrow> nat \<Rightarrow> nat \<Rightarrow> AuditLogEntry list AuditLogger" where
  "pg_logger js bufferSize batchSize = \<lparr>al_sinks = [PostgresSink js], al_bufferSize = bufferSize, al_batchSize = batchSize\<rparr>"

lemma AleID_entry [simp]: "AleID (toAuditLogEntry js e) = EvID e"
  by (simp add: toAuditLogEntry_def)

lemma insert_fresh:
  assumes "audit_fresh rows (es @ fs)"
  shows "insert_rows rows (map (toAuditLogEntry js) es) = (Ok (), rows @ map (toAuditLogEntry js) es)
    \<and> audit_fresh (rows @ map (toAuditLogEntry js) es) fs"
  using assms by (auto simp: audit_fresh_def insert_rows_def comp_def)

interpretation pgl: audit_sinks "pg_logger js bufferSize batchSize" mset "toAuditLogEntry js" audit_fresh
proof
  fix rows es fs
  assume "audit_fresh rows es" and "mset es = mset fs"
  then show "audit_fresh rows fs"
    using mset_eq_imp_distinct_iff [of "map AleID rows @ map EvID es" "map AleID rows @ map EvID fs"] by (simp add: audit_fresh_def)
next
  fix rows es fs
  assume "audit_fresh rows (es @ fs)" and "es \<noteq> []"
  with insert_fresh [of rows es fs js]
  show "\<exists>w'. flushBatch (pg_logger js bufferSize batchSize) es rows = (Ok (), w')
      \<and> mset w' = mset rows + image_mset (toAuditLogEntry js) (mset es) \<and> audit_fresh w' fs"
    by (simp add: flushBatch_def pg_logger_def PostgresSink_def)
next
  fix rows e fs
  assume "audit_fresh rows (e # fs)"
  with insert_fresh [of rows "[e]" fs js]
  show "\<exists>w'. writeSync (pg_logger js bufferSize batchSize) e rows = (Ok (), w')
      \<and> mset w' = add_mset (toAuditLogEntry js e) (mset rows) \<and> audit_fresh w' fs"
    by (simp add: writeSync_def pg_logger_def PostgresSink_def)
qed (simp add: pg_logger_def PostgresSink_def)



text \<open>
  An event that is recorded after the loop has stopped makes the caller panic, because the channel is closed.
\<close>

theorem record_after_shutdown_panics:
  assumes "logger_run (pg_logger js bufferSize batchSize) [] es s" and "distinct (map EvID es)" and "ls_done s"
  shows "Record (pg_logger js bufferSize batchSize) uuid now event s = (Panic, s)"
  using pgl.run_accounted [OF assms(1), of "[]"] assms(2,3) by (auto simp: pgl.accounted_def audit_fresh_def Record_def)

definition plain_json :: event_json where
  "plain_json = \<lparr>js_actor = (\<lambda>a. ActID a), js_target = (\<lambda>t. TgtID t), js_map = (\<lambda>_. ''{}'')\<rparr>"

text \<open>Two events at a buffer of one: the first waits in the buffer, the second is written at once; then the loop stops.\<close>

definition demo_event :: "string \<Rightarrow> AuditEvent" where
  "demo_event i = zero_event\<lparr>EvID := i, EvTimestamp := 1\<rparr>"

definition two_recorded :: "AuditLogEntry list logger_state" where
  "two_recorded = \<lparr>ls_buffer = [demo_event ''a''], ls_closed = False, ls_batch = [], ls_cancelled = False, ls_done = False,
     ls_world = [toAuditLogEntry plain_json (demo_event ''b'')]\<rparr>"

lemma enrich_demo [simp]: "i \<noteq> [] \<Longrightarrow> enrich uuid now (demo_event i) = demo_event i"
  by (simp add: enrich_def demo_event_def zero_time_def)

lemma two_recorded_run: "logger_run (pg_logger plain_json 1 10) [] [demo_event ''a'', demo_event ''b''] two_recorded"
proof -
  let ?al = "pg_logger plain_json 1 10"
  have "logger_run ?al [] ([] @ [enrich [] 0 (demo_event ''a'')]) ((NewAuditLogger [])\<lparr>ls_buffer := [demo_event ''a'']\<rparr>)"
    by (rule logger_run.continued [OF logger_run.started logger_step.recorded]) (simp add: Record_def NewAuditLogger_def pg_logger_def)
  then have "logger_run ?al [] (([] @ [enrich [] 0 (demo_event ''a'')]) @ [enrich [] 0 (demo_event ''b'')]) two_recorded"
    by (rule logger_run.continued [OF _ logger_step.recorded])
      (simp add: Record_def NewAuditLogger_def pg_logger_def two_recorded_def writeSync_def PostgresSink_def insert_rows_def)
  then show ?thesis by simp
qed



theorem record_after_shutdown_panics_witness:
  "fst (Record (pg_logger plain_json 1 10) [] 0 (demo_event ''c'')
     ((NewAuditLogger [])\<lparr>ls_cancelled := True, ls_closed := True, ls_done := True\<rparr>)) = Panic"
proof -
  let ?al = "pg_logger plain_json 1 10" and ?c = "(NewAuditLogger ([] :: AuditLogEntry list))\<lparr>ls_cancelled := True\<rparr>"
  have "logger_run ?al [] ([] @ []) ?c" by (rule logger_run.continued [OF logger_run.started logger_step.cancelled])
  then have "logger_run ?al [] (([] @ []) @ []) (?c\<lparr>ls_closed := True, ls_done := True\<rparr>)"
    by (rule logger_run.continued [OF _ logger_step.stopped])
      (simp_all add: loop_done_def NewAuditLogger_def pg_logger_def PostgresSink_def)
  from record_after_shutdown_panics [OF this, of "[]" 0 "demo_event ''c''"] show ?thesis by simp
qed

section \<open>The user's own log\<close>

text \<open>
  The events of the service name the user in \<^verbatim>\<open>UserID\<close> and have no actor; the page of a user's own log searches by actor. None of the service's
  events is ever found there.
\<close>

theorem own_logs_not_found:
  assumes "\<forall>e \<in> set rows. \<exists>uuid now category action u ip resource result traceID details.
      e = service_event uuid now category action u ip resource result traceID details" and "userID \<noteq> []"
  shows "GetLogsForUser (Some (PostgresAuditLogRepository (row_db EvID EvID) create_all)) clock rows userID limit = Ok []"
proof -
  have "\<not> query_matches (no_filter\<lparr>QfActorID := userID, QfStartTimestamp := clock 0 - 30 * retention_day, QfEndTimestamp := clock 1\<rparr>) e"
    if "e \<in> set rows" for e
    using assms that by (fastforce simp: query_matches_def service_event_def zero_event_def no_actor_def)
  then have "filter (query_matches (no_filter\<lparr>QfActorID := userID, QfStartTimestamp := clock 0 - 30 * retention_day, QfEndTimestamp := clock 1\<rparr>)) rows = []"
    by (simp add: filter_empty_conv)
  then show ?thesis by (simp add: GetLogsForUser_def PostgresAuditLogRepository_def)
qed

theorem own_logs_not_found_witness:
  "GetLogsForUser (Some (PostgresAuditLogRepository (row_db EvID EvID) (\<lambda>d _. (Ok (), d)))) (\<lambda>_. 10)
     [service_event ''e1'' 5 ''auth'' ''login_success'' ''u1'' [] [] ResultSuccess [] None] ''u1'' 50 = Ok []"
  by (rule own_logs_not_found) (simp, blast, simp)

section \<open>Masking\<close>

text \<open>
  A recorded JSON body keeps all its keys, every text under a top-level key that names a password, a secret or a token is replaced,
  and nothing else is changed.
\<close>

theorem mask_exact:
  "map fst (map mask_entry data) = map fst data
   \<and> list_all2 (\<lambda>(k, v) (_, v'). v' = (case v of VString s \<Rightarrow> if sensitive k then VString ''***'' else v | _ \<Rightarrow> v)) data (map mask_entry data)"
  by (auto simp: list_all2_map2 mask_entry_def split: prod.splits gvalue.splits intro!: list.rel_refl_strong)

text \<open>
  A body that is not JSON, such as the form of the login page, is recorded as it is, with the password in it.
\<close>

theorem form_body_recorded:
  assumes "parse body = None" and "rq_method r = ''POST''"
  shows "\<exists>e m. AuditorMiddleware parse print r body status = Some e \<and> EvMetadata e = Some m \<and> m ''body'' = Some (VString body)"
  using assms by (cases "body = []") (auto simp: AuditorMiddleware_def maskSensitiveData_def)

theorem form_body_recorded_witness:
  "\<exists>e m. AuditorMiddleware (\<lambda>_. None) (\<lambda>_. []) (demo_request\<lparr>rq_method := ''POST''\<rparr>) ''username=a&password=b'' 200 = Some e
    \<and> EvMetadata e = Some m \<and> m ''body'' = Some (VString ''username=a&password=b'')"
  by (rule form_body_recorded) simp_all

text \<open>A password in a nested object is not masked.\<close>

lemma nested_not_masked: "mask_entry (''user'', VMap [(''password'', VString p)]) = (''user'', VMap [(''password'', VString p)])"
  by (simp add: mask_entry_def)

section \<open>Reports of checks\<close>

lemma run_checks_length: "run_checks text cc rules = Ok results \<Longrightarrow> length results = length rules"
  by (induction rules arbitrary: results) (auto simp: obind_eq_Ok)

text \<open>
  A compliance report exists when no check panics; its rate lies between zero and one, and is one exactly when every rule of the standard
  passed: a check that fails with an error does not count as passed.
\<close>

theorem compliance_pass_rate:
  assumes "RunChecksForStandard text rules cc now standard = Ok report"
  shows "length (RpResults report) = length (getRulesByStandard rules standard) \<and> 0 \<le> RpPassRate report \<and> RpPassRate report \<le> 1
    \<and> (RpPassRate report = 1 \<longleftrightarrow> list_all (\<lambda>r. CrStatus r = ''pass'') (RpResults report))"
proof -
  from assms obtain results where r: "run_checks text cc (getRulesByStandard rules standard) = Ok results" "RpResults report = results"
    and ne: "getRulesByStandard rules standard \<noteq> []"
    and p: "RpPassRate report = real (length (filter (\<lambda>r. CrStatus r = ''pass'') results)) / real (length (getRulesByStandard rules standard))"
    by (auto simp: RunChecksForStandard_def obind_eq_Ok Let_def split: if_splits)
  have l: "length results = length (getRulesByStandard rules standard)" by (rule run_checks_length [OF r(1)])
  have iff: "length (filter (\<lambda>r. CrStatus r = ''pass'') results) = length results \<longleftrightarrow> list_all (\<lambda>r. CrStatus r = ''pass'') results"
    by (metis (no_types, lifting) filter_True length_filter_less list_all_iff nat_less_le)
  have "0 < length results" using l ne by simp
  then show ?thesis
    unfolding p r(2) l [symmetric] using length_filter_le [of "\<lambda>r. CrStatus r = ''pass''" results] iff
    by (auto simp: divide_le_eq_1 divide_eq_1_iff)
qed

theorem compliance_pass_rate_witness:
  "\<exists>report. RunChecksForStandard (\<lambda>_. []) [\<lparr>RuID = ''GDPR-05'', RuName = [], RuStandard = ''GDPR'', RuDescription = [],
      RuCheckFunc = (\<lambda>now. CheckGDPRDataRetention (\<lambda>_. Ok [()]) (\<lambda>_. ''2018-01-01'') now)\<rparr>] 0 0 ''GDPR'' = Ok report \<and> RpPassRate report \<noteq> 1"
proof -
  let ?rules = "[\<lparr>RuID = ''GDPR-05'', RuName = [], RuStandard = ''GDPR'', RuDescription = [],
      RuCheckFunc = (\<lambda>now. CheckGDPRDataRetention (\<lambda>_. Ok [()]) (\<lambda>_. ''2018-01-01'') now)\<rparr>]"
  obtain report where run: "RunChecksForStandard (\<lambda>_. []) ?rules 0 0 ''GDPR'' = Ok report" and "\<not> list_all (\<lambda>r. CrStatus r = ''pass'') (RpResults report)"
    by (auto simp: RunChecksForStandard_def getRulesByStandard_def CheckGDPRDataRetention_def plain_result_def Let_def)
  with compliance_pass_rate [OF run] show ?thesis by blast
qed

end
