(* ===== verification/Audit_Report.thy ===== *)
theory Audit_Report
  imports Audit_Log
begin

text \<open>
  Audit reports, \<^verbatim>\<open>internal/audit/report_generator.go\<close>, with the writer of \<^verbatim>\<open>encoding/csv\<close> that it uses. The formats
  of times and the JSON encoder are arguments.
\<close>

section \<open>Comma-separated values\<close>

text \<open>\<^verbatim>\<open>unicode.IsSpace\<close> of the first rune of a string in UTF-8.\<close>

definition starts_with_space :: "string \<Rightarrow> bool" where
  "starts_with_space s =
     (case map (of_char :: char \<Rightarrow> nat) s of
        [] \<Rightarrow> False
      | a # r \<Rightarrow>
          a \<in> {9, 10, 11, 12, 13, 32}
          \<or> (case r of
               [] \<Rightarrow> False
             | b # r' \<Rightarrow>
                 (a = 0xC2 \<and> (b = 0x85 \<or> b = 0xA0))
                 \<or> (case r' of
                      [] \<Rightarrow> False
                    | c # _ \<Rightarrow>
                        (a = 0xE1 \<and> b = 0x9A \<and> c = 0x80)
                        \<or> (a = 0xE2 \<and> b = 0x80 \<and> (0x80 \<le> c \<and> c \<le> 0x8A \<or> c = 0xA8 \<or> c = 0xA9 \<or> c = 0xAF))
                        \<or> (a = 0xE2 \<and> b = 0x81 \<and> c = 0x9F) \<or> (a = 0xE3 \<and> b = 0x80 \<and> c = 0x80))))"

definition csv_special :: "char \<Rightarrow> bool" where
  "csv_special c \<longleftrightarrow> c = CHR 0x0A \<or> c = CHR 0x0D \<or> c = CHR 0x22 \<or> c = CHR '',''"

definition fieldNeedsQuotes :: "string \<Rightarrow> bool" where
  "fieldNeedsQuotes field \<longleftrightarrow> field \<noteq> [] \<and> (field = [CHR 0x5C, CHR ''.''] \<or> list_ex csv_special field \<or> starts_with_space field)"

definition csv_escape :: "string \<Rightarrow> string" where
  "csv_escape field = concat (map (\<lambda>c. if c = CHR 0x22 then [c, c] else [c]) field)"

definition csv_field :: "string \<Rightarrow> string" where
  "csv_field field = (if fieldNeedsQuotes field then CHR 0x22 # csv_escape field @ [CHR 0x22] else field)"

definition csv_Write :: "string list \<Rightarrow> string" where
  "csv_Write rec = str_join '','' (map csv_field rec) @ [CHR 0x0A]"

section \<open>Reports\<close>

definition csv_header :: "string list" where
  "csv_header = [''id'', ''timestamp'', ''event_type'', ''actor_id'', ''actor_type'', ''target_id'', ''target_type'', ''action'',
     ''result'', ''ip_address'', ''user_agent'']"

definition csv_record :: "(time \<Rightarrow> string) \<Rightarrow> AuditEvent \<Rightarrow> string list" where
  "csv_record rfc3339 event =
     [EvID event, rfc3339 (EvTimestamp event), EvEventType event, ActID (EvActor event), ActType (EvActor event),
      TgtID (EvTarget event), TgtType (EvTarget event), EvAction event, EvResult event, EvIPAddress event, EvUserAgent event]"

definition exportCSV :: "(time \<Rightarrow> string) \<Rightarrow> AuditEvent list \<Rightarrow> string" where
  "exportCSV rfc3339 logEvents = csv_Write csv_header @ concat (map (\<lambda>e. csv_Write (csv_record rfc3339 e)) logEvents)"

definition summary_lines :: "(time \<Rightarrow> string) \<Rightarrow> nat \<Rightarrow> AuditEvent \<Rightarrow> string list" where
  "summary_lines rfc3339 i event =
     [''Event #'' @ show_int (int i + 1), ''  ID: '' @ EvID event, ''  Timestamp: '' @ rfc3339 (EvTimestamp event),
      ''  Type: '' @ EvEventType event, ''  Actor: '' @ ActID (EvActor event) @ '' ('' @ ActType (EvActor event) @ '')'',
      ''  Action: '' @ EvAction event, ''  Result: '' @ EvResult event]
     @ (if EvIPAddress event \<noteq> [] then [''  IP Address: '' @ EvIPAddress event] else []) @ [[]]"

definition exportTextSummary :: "(time \<Rightarrow> string) \<Rightarrow> (time \<Rightarrow> string) \<Rightarrow> time \<Rightarrow> AuditEvent list \<Rightarrow> string" where
  "exportTextSummary rfc1123 rfc3339 now logEvents =
     concat (map (\<lambda>l. l @ [CHR 0x0A])
       ([''========================================'', ''       Audit Log Report Summary'',
         ''========================================'', ''Report Generated: '' @ rfc1123 now,
         ''Total Events: '' @ show_int (int (length logEvents)), ''----------------------------------------'', []]
        @ concat (map (\<lambda>(i, e). summary_lines rfc3339 i e) (enumerate 0 logEvents)) @ [''--- End of Report ---'']))"

record ReportRequest =
  RqFormat :: string
  RqFilter :: QueryFilter

record Report =
  RepTitle :: string
  RepGeneratedAt :: time
  RepFormat :: string
  RepContent :: string
  RepMimeType :: string

record report_formats =
  fm_json :: "AuditEvent list \<Rightarrow> (go_error, string) outcome"
  fm_rfc3339 :: "time \<Rightarrow> string"
  fm_rfc1123 :: "time \<Rightarrow> string"

definition GenerateReport ::
    "report_formats \<Rightarrow> 'd AuditRepository \<Rightarrow> (nat \<Rightarrow> time) \<Rightarrow> 'd \<Rightarrow> ReportRequest \<Rightarrow> (go_error, Report) outcome" where
  "GenerateReport fm repo clock d req =
     (case ar_Query repo d (RqFilter req) of
        Panic \<Rightarrow> Panic
      | Fail err \<Rightarrow> Fail (Wrapf ''failed to query audit events for report'' err)
      | Ok evs \<Rightarrow>
          (let content = (if RqFormat req = ''json'' then
                 (case fm_json fm evs of
                    Panic \<Rightarrow> Panic
                  | Fail err \<Rightarrow> Fail (Wrapf ''failed to marshal report data to JSON'' err)
                  | Ok data \<Rightarrow> Ok (data, ''application/json''))
               else if RqFormat req = ''csv'' then Ok (exportCSV (fm_rfc3339 fm) evs, ''text/csv'')
               else if RqFormat req = ''pdf''
               then Ok (exportTextSummary (fm_rfc1123 fm) (fm_rfc3339 fm) (clock 0) evs, ''application/pdf'')
               else Fail (Errorf ''unsupported report format''))
           in obind content
                (\<lambda>(data, mimeType). Ok \<lparr>RepTitle = ''Audit Log Report'', RepGeneratedAt = clock 1, RepFormat = RqFormat req,
                   RepContent = data, RepMimeType = mimeType\<rparr>)))"

section \<open>Reading a report\<close>

text \<open>
  A reader of the format, as a reference: the fields of a record are separated by commas and records end with a line feed; a field may be
  quoted, and a quote in it is doubled.
\<close>

datatype csv_mode = Start | Plain | Quoted | QuoteSeen

fun csv_scan :: "csv_mode \<Rightarrow> string \<Rightarrow> string list \<Rightarrow> string \<Rightarrow> string list list option" where
  "csv_scan m f r [] = (if m = Start \<and> r = [] then Some [] else None)"
| "csv_scan m f r (c # cs) =
     (if m = Quoted then (if c = CHR 0x22 then csv_scan QuoteSeen f r cs else csv_scan Quoted (f @ [c]) r cs)
      else if c = CHR '','' then csv_scan Start [] (r @ [f]) cs
      else if c = CHR 0x0A then map_option ((#) (r @ [f])) (csv_scan Start [] [] cs)
      else if c = CHR 0x22 then
        (case m of Start \<Rightarrow> csv_scan Quoted [] r cs | QuoteSeen \<Rightarrow> csv_scan Quoted (f @ [c]) r cs | _ \<Rightarrow> None)
      else if m = QuoteSeen then None
      else csv_scan Plain (f @ [c]) r cs)"

lemma scan_plain:
  "\<not> list_ex csv_special f \<Longrightarrow> csv_scan Plain acc r (f @ cs) = csv_scan Plain (acc @ f) r cs"
  by (induction f arbitrary: acc) (auto simp: csv_special_def)

lemma scan_quoted: "csv_scan Quoted acc r (csv_escape f @ CHR 0x22 # cs) = csv_scan QuoteSeen (acc @ f) r cs"
  by (induction f arbitrary: acc) (auto simp: csv_escape_def)

lemma scan_field:
  assumes "c = CHR '','' \<or> c = CHR 0x0A"
  shows "csv_scan Start [] r (csv_field f @ c # cs) = (if c = CHR '','' then csv_scan Start [] (r @ [f]) cs
    else map_option ((#) (r @ [f])) (csv_scan Start [] [] cs))"
proof (cases "fieldNeedsQuotes f")
  case True
  then show ?thesis using assms scan_quoted [of "[]" r f "c # cs"] by (auto simp: csv_field_def)
next
  case False
  show ?thesis
  proof (cases f)
    case (Cons a f')
    with False have n: "\<not> csv_special a" "\<not> list_ex csv_special f'" by (auto simp: fieldNeedsQuotes_def)
    then have "csv_scan Start [] r (f @ c # cs) = csv_scan Plain [a] r (f' @ c # cs)" by (simp add: Cons csv_special_def)
    then show ?thesis using assms False scan_plain [OF n(2), of "[a]" r "c # cs"] by (auto simp: csv_field_def Cons)
  qed (use assms False in \<open>auto simp: csv_field_def fieldNeedsQuotes_def\<close>)
qed

lemma scan_record:
  "fs \<noteq> [] \<Longrightarrow> csv_scan Start [] r (str_join '','' (map csv_field fs) @ CHR 0x0A # cs)
    = map_option ((#) (r @ fs)) (csv_scan Start [] [] cs)"
proof (induction fs arbitrary: r)
  case (Cons f fs)
  show ?case
  proof (cases fs)
    case Nil
    then show ?thesis by (simp add: scan_field)
  next
    case (Cons g gs)
    then have "str_join '','' (map csv_field (f # fs)) = csv_field f @ CHR '','' # str_join '','' (map csv_field fs)" by simp
    with Cons.IH [of "r @ [f]"] Cons show ?thesis by (simp add: scan_field del: list.map)
  qed
qed simp

lemma scan_records: "list_all (\<lambda>fs. fs \<noteq> []) rs \<Longrightarrow> csv_scan Start [] [] (concat (map csv_Write rs)) = Some rs"
  by (induction rs) (simp_all add: csv_Write_def scan_record)

text \<open>
  C36: A report in the CSV format can be read back: whatever texts the events carry, with commas, quotes or line feeds in them, a reader gets the
  header and then one record per event that the filter selects, in order, with every field as it was.
\<close>

theorem csv_report_round_trip:
  assumes "ar_Query repo d (RqFilter req) = Ok evs" and "RqFormat req = ''csv''"
  shows "\<exists>rep. GenerateReport fm repo clock d req = Ok rep
    \<and> csv_scan Start [] [] (RepContent rep) = Some (csv_header # map (csv_record (fm_rfc3339 fm)) evs)"
proof -
  have "exportCSV (fm_rfc3339 fm) evs = concat (map csv_Write (csv_header # map (csv_record (fm_rfc3339 fm)) evs))"
    by (simp add: exportCSV_def comp_def)
  moreover have "list_all (\<lambda>fs. fs \<noteq> []) (csv_header # map (csv_record (fm_rfc3339 fm)) evs)"
    by (simp add: csv_header_def csv_record_def list_all_iff)
  ultimately have "csv_scan Start [] [] (exportCSV (fm_rfc3339 fm) evs) = Some (csv_header # map (csv_record (fm_rfc3339 fm)) evs)"
    using scan_records by presburger
  then show ?thesis using assms by (simp add: GenerateReport_def)
qed

theorem csv_report_round_trip_witness:
  "\<exists>rep. GenerateReport \<lparr>fm_json = (\<lambda>_. Ok []), fm_rfc3339 = (\<lambda>_. ''t''), fm_rfc1123 = (\<lambda>_. ''t'')\<rparr>
      (PostgresAuditLogRepository (row_db EvID EvID) (\<lambda>d _. (Ok (), d))) (\<lambda>_. 9)
      [(demo_event ''e1'')\<lparr>EvUserAgent := ''a,b''\<rparr>] \<lparr>RqFormat = ''csv'', RqFilter = no_filter\<rparr> = Ok rep
    \<and> csv_scan Start [] [] (RepContent rep) = Some [csv_header, [''e1'', ''t'', [], [], [], [], [], [], [], [], ''a,b'']]"
proof -
  let ?fm = "\<lparr>fm_json = (\<lambda>_. Ok []), fm_rfc3339 = (\<lambda>_. ''t''), fm_rfc1123 = (\<lambda>_. ''t'')\<rparr>"
    and ?repo = "PostgresAuditLogRepository (row_db EvID EvID) (\<lambda>d _. (Ok (), d))"
    and ?d = "[(demo_event ''e1'')\<lparr>EvUserAgent := ''a,b''\<rparr>]" and ?req = "\<lparr>RqFormat = ''csv'', RqFilter = no_filter\<rparr>"
  have "ar_Query ?repo ?d (RqFilter ?req) = Ok ?d"
    by (simp add: PostgresAuditLogRepository_def query_matches_def no_filter_def)
  from csv_report_round_trip [OF this, of ?fm "\<lambda>_. 9"] show ?thesis
    by (simp add: csv_record_def demo_event_def zero_event_def no_actor_def no_target_def)
qed

end
