(* ===== verification/Webhooks.thy ===== *)
theory Webhooks
  imports Audit_Log Crypto_Manager

begin

text \<open>
  Webhook subscriptions, their dispatch and their delivery: \<^verbatim>\<open>internal/domain/webhook\<close>,
  \<^verbatim>\<open>internal/services/webhook\<close>, \<^verbatim>\<open>internal/worker/webhook_sender.go\<close> and
  \<^verbatim>\<open>webhook_repository.go\<close>. The JSON encoder and the network are arguments. Waiting is not
  modelled: a delivery reads the clock after it has waited.
\<close>

section \<open>Subscriptions\<close>

record Subscription =
  SubID :: string
  SubURL :: string
  SubSecret :: string
  SubEvents :: "string list"
  SubActive :: bool
  SubCreatedAt :: time
  SubUpdatedAt :: time

record DeliveryTask =
  DtSubscriptionID :: string
  DtEventID :: string
  DtEventType :: string
  DtPayload :: AuditEvent
  DtAttempt :: int
  DtNextRetry :: time

definition ErrSubscriptionNotFound :: go_error where "ErrSubscriptionNotFound = Sentinel ''SUBSCRIPTION_NOT_FOUND''"

record 'd WebhookRepo =
  wr_Create :: "'d \<Rightarrow> Subscription \<Rightarrow> (go_error, unit) outcome \<times> 'd"
  wr_GetByID :: "'d \<Rightarrow> string \<Rightarrow> (go_error, Subscription) outcome"
  wr_List :: "'d \<Rightarrow> (go_error, Subscription list) outcome"
  wr_Update :: "'d \<Rightarrow> Subscription \<Rightarrow> (go_error, unit) outcome \<times> 'd"
  wr_Delete :: "'d \<Rightarrow> string \<Rightarrow> (go_error, unit) outcome \<times> 'd"
  wr_FindByEventType :: "'d \<Rightarrow> string \<Rightarrow> (go_error, Subscription list) outcome"

definition pgw_GetByID :: "('d, Subscription) gorm_table \<Rightarrow> 'd \<Rightarrow> string \<Rightarrow> (go_error, Subscription) outcome" where
  "pgw_GetByID db d i =
     (case db_first db d (\<lambda>x. SubID x = i) of
        Panic \<Rightarrow> Panic
      | Fail err \<Rightarrow> Fail (if err = ErrRecordNotFound then ErrSubscriptionNotFound else err)
      | Ok sub \<Rightarrow> Ok sub)"

definition pgw_FindByEventType :: "('d, Subscription) gorm_table \<Rightarrow> 'd \<Rightarrow> string \<Rightarrow> (go_error, Subscription list) outcome" where
  "pgw_FindByEventType db d eventType = db_find db d (\<lambda>x. eventType \<in> set (SubEvents x) \<and> SubActive x)"

definition WebhookRepository :: "('d, Subscription) gorm_table \<Rightarrow> 'd WebhookRepo" where
  "WebhookRepository db =
     \<lparr>wr_Create = db_create db, wr_GetByID = pgw_GetByID db, wr_List = (\<lambda>d. db_find db d (\<lambda>_. True)), wr_Update = db_save db,
      wr_Delete = (\<lambda>d i. db_delete db d (\<lambda>x. SubID x = i)), wr_FindByEventType = pgw_FindByEventType db\<rparr>"

section \<open>The service\<close>

text \<open>\<open>random\<close> is what \<^verbatim>\<open>rand.Read\<close> fills 32 bytes with, or its error.\<close>

definition generateSecret :: "(go_error, bytes) outcome \<Rightarrow> (go_error, string) outcome" where
  "generateSecret random = obind random (\<lambda>bs. Ok (hex_encode bs))"

definition CreateSubscription ::
    "'d WebhookRepo \<Rightarrow> (go_error, bytes) outcome \<Rightarrow> string \<Rightarrow> (nat \<Rightarrow> time) \<Rightarrow> 'd \<Rightarrow> string \<Rightarrow> string list \<Rightarrow> (go_error, Subscription) outcome \<times> 'd" where
  "CreateSubscription repo random uuid clock d url evs =
     sbind (generateSecret random, d)
       (\<lambda>secret d1.
          let sub = \<lparr>SubID = uuid, SubURL = url, SubSecret = secret, SubEvents = evs, SubActive = True,
                     SubCreatedAt = clock 0, SubUpdatedAt = clock 1\<rparr>
          in sbind (wr_Create repo d1 sub) (\<lambda>_ d2. (Ok sub, d2)))"

definition RotateSecret ::
    "'d WebhookRepo \<Rightarrow> (go_error, bytes) outcome \<Rightarrow> time \<Rightarrow> 'd \<Rightarrow> string \<Rightarrow> (go_error, Subscription) outcome \<times> 'd" where
  "RotateSecret repo random now d i =
     sbind (wr_GetByID repo d i, d)
       (\<lambda>sub d1. sbind (generateSecret random, d1)
          (\<lambda>newSecret d2.
             let sub1 = sub\<lparr>SubSecret := newSecret, SubUpdatedAt := now\<rparr>
             in sbind (wr_Update repo d2 sub1) (\<lambda>_ d3. (Ok sub1, d3))))"

section \<open>Dispatch\<close>

text \<open>The queue is a channel; a task that finds it full is dropped.\<close>

definition Enqueue :: "nat \<Rightarrow> DeliveryTask list \<Rightarrow> DeliveryTask \<Rightarrow> DeliveryTask list" where
  "Enqueue queueSize queue task = (if length queue < queueSize then queue @ [task] else queue)"

definition delivery_task :: "string \<Rightarrow> time \<Rightarrow> string \<Rightarrow> AuditEvent \<Rightarrow> Subscription \<Rightarrow> DeliveryTask" where
  "delivery_task eventID now eventType payload sub =
     \<lparr>DtSubscriptionID = SubID sub, DtEventID = eventID, DtEventType = eventType, DtPayload = payload, DtAttempt = 0, DtNextRetry = now\<rparr>"

definition Dispatch ::
    "'d WebhookRepo \<Rightarrow> nat \<Rightarrow> string \<Rightarrow> time \<Rightarrow> 'd \<Rightarrow> string \<Rightarrow> AuditEvent \<Rightarrow> DeliveryTask list \<Rightarrow> (go_error, DeliveryTask list) outcome" where
  "Dispatch repo queueSize eventID now d eventType payload queue =
     (case wr_FindByEventType repo d eventType of
        Panic \<Rightarrow> Panic
      | Fail _ \<Rightarrow> Ok queue
      | Ok subs \<Rightarrow> Ok (foldl (\<lambda>q sub. Enqueue queueSize q (delivery_task eventID now eventType payload sub)) queue subs))"

section \<open>Delivery\<close>

text \<open>\<^verbatim>\<open>hmac.New(sha256.New, key)\<close>, as RFC 2104 defines it.\<close>

definition hmac_sha256 :: "bytes \<Rightarrow> bytes \<Rightarrow> bytes" where
  "hmac_sha256 key msg =
     (let k0 = (if length key > 64 then sha256 key else key);
          k = k0 @ replicate (64 - length k0) 0
      in sha256 (map (\<lambda>b. b XOR 0x5c) k @ sha256 (map (\<lambda>b. b XOR 0x36) k @ msg)))"

definition signPayload :: "string \<Rightarrow> string \<Rightarrow> int \<Rightarrow> string" where
  "signPayload secret body ts = hex_encode (hmac_sha256 (bytes_of secret) (bytes_of (show_int ts @ ''.'' @ body)))"

record webhook_request =
  wq_URL :: string
  wq_Body :: string
  wq_Signature :: string
  wq_Timestamp :: string
  wq_EventID :: string
  wq_EventType :: string

text \<open>
  \<open>ws_GetByID\<close> is the repository's lookup as the attempt with a given number finds it, since subscriptions change between attempts. The client answers with an
  error, if any, and with the status, zero if there is no response.
\<close>

record 'n WebhookSender =
  ws_GetByID :: "int \<Rightarrow> string \<Rightarrow> (go_error, Subscription) outcome"
  ws_marshal :: "AuditEvent \<Rightarrow> (go_error, string) outcome"
  ws_valid_url :: "string \<Rightarrow> bool"
  ws_Do :: "'n \<Rightarrow> webhook_request \<Rightarrow> (go_error option \<times> int) \<times> 'n"
  ws_maxRetries :: int

definition webhook_call :: "Subscription \<Rightarrow> string \<Rightarrow> int \<Rightarrow> DeliveryTask \<Rightarrow> webhook_request" where
  "webhook_call sub body ts task =
     \<lparr>wq_URL = SubURL sub, wq_Body = body, wq_Signature = signPayload (SubSecret sub) body ts, wq_Timestamp = show_int ts,
      wq_EventID = DtEventID task, wq_EventType = DtEventType task\<rparr>"

definition backoff :: "int \<Rightarrow> int" where "backoff attempt = 2 ^ nat attempt * 1000000000"

text \<open>\<open>clock\<close> gives the time of each attempt at its signature and after its failure. A failed lookup or encoding ends the delivery.\<close>

function webhook_process :: "'n WebhookSender \<Rightarrow> (int \<Rightarrow> time) \<Rightarrow> (int \<Rightarrow> time) \<Rightarrow> 'n \<Rightarrow> DeliveryTask \<Rightarrow> 'n" where
  "webhook_process w clock failed n task =
     (case ws_GetByID w (DtAttempt task) (DtSubscriptionID task) of
        Ok sub \<Rightarrow>
          (case ws_marshal w (DtPayload task) of
             Ok body \<Rightarrow>
               if \<not> ws_valid_url w (SubURL sub) then n
               else let ((err, statusCode), n1) = ws_Do w n (webhook_call sub body (unix_seconds (clock (DtAttempt task))) task)
                    in if (err \<noteq> None \<or> statusCode < 200 \<or> statusCode \<ge> 300) \<and> DtAttempt task < ws_maxRetries w
                       then webhook_process w clock failed n1
                              (task\<lparr>DtAttempt := DtAttempt task + 1, DtNextRetry := failed (DtAttempt task) + backoff (DtAttempt task + 1)\<rparr>)
                       else n1
           | _ \<Rightarrow> n)
      | _ \<Rightarrow> n)"
  by pat_completeness auto

termination
  by (relation "measure (\<lambda>(w, clock, failed, n, task). nat (ws_maxRetries w - DtAttempt task))") auto

declare webhook_process.simps [simp del]

section \<open>Dispatch reaches the subscribers\<close>

lemma foldl_Enqueue:
  "foldl (\<lambda>q sub. Enqueue cap q (f sub)) queue subs = queue @ take (cap - length queue) (map f subs)"
proof (induction subs arbitrary: queue)
  case (Cons sub subs)
  show ?case
  proof (cases "length queue < cap")
    case True
    then have "cap - length queue = Suc (cap - Suc (length queue))" by simp
    with True Cons.IH [of "queue @ [f sub]"] show ?thesis by (simp add: Enqueue_def)
  next
    case False
    with Cons.IH [of queue] show ?thesis by (simp add: Enqueue_def)
  qed
qed simp

text \<open>
  An event is queued for exactly the active subscriptions that name its type, in the order of the table and under one event identifier, as far as
  the queue has room; the rest is dropped.
\<close>

theorem Dispatch_exact:
  "Dispatch (WebhookRepository (row_db SubID SubID)) queueSize eventID now rows eventType payload queue
   = Ok (queue @ take (queueSize - length queue)
       (map (delivery_task eventID now eventType payload) (filter (\<lambda>x. eventType \<in> set (SubEvents x) \<and> SubActive x) rows)))"
  by (simp add: Dispatch_def WebhookRepository_def pgw_FindByEventType_def foldl_Enqueue)

section \<open>Delivery ends and is signed\<close>

text \<open>A network that keeps the requests it got and answers the attempts in turn with \<open>resp\<close>.\<close>

definition recording :: "(nat \<Rightarrow> go_error option \<times> int) \<Rightarrow> webhook_request list \<Rightarrow> webhook_request \<Rightarrow> (go_error option \<times> int) \<times> webhook_request list" where
  "recording resp n req = (resp (length n), n @ [req])"

definition accepted :: "go_error option \<times> int \<Rightarrow> bool" where
  "accepted r \<longleftrightarrow> fst r = None \<and> 200 \<le> snd r \<and> snd r < 300"

lemma process_from:
  assumes "\<And>i. ws_GetByID w i (DtSubscriptionID task) = Ok (subs i)" and "ws_marshal w (DtPayload task) = Ok body"
    and "\<And>i. ws_valid_url w (SubURL (subs i))" and "ws_Do w = recording resp" and "ws_maxRetries w = int m"
    and "DtAttempt task = int a" and "length n = a" and "a \<le> m"
  shows "\<exists>k. a \<le> k \<and> k \<le> m \<and> (\<forall>i. a \<le> i \<and> i < k \<longrightarrow> \<not> accepted (resp i)) \<and> (k = m \<or> accepted (resp k))
    \<and> webhook_process w clock failed n task = n @ map (\<lambda>i. webhook_call (subs (int i)) body (unix_seconds (clock (int i))) task) [a..<Suc k]"
  using assms
proof (induction "m - a" arbitrary: a n task)
  case (0 a n task)
  then have "a = m" by simp
  then show ?case using 0 by (subst webhook_process.simps) (auto simp: recording_def)
next
  case (Suc d a n task)
  let ?req = "webhook_call (subs (int a)) body (unix_seconds (clock (int a))) task"
  let ?task = "task\<lparr>DtAttempt := DtAttempt task + 1, DtNextRetry := failed (DtAttempt task) + backoff (DtAttempt task + 1)\<rparr>"
  have am: "a < m" using Suc.hyps(2) by simp
  show ?case
  proof (cases "accepted (resp a)")
    case True
    with Suc.prems have "webhook_process w clock failed n task = n @ [?req]"
      by (subst webhook_process.simps) (auto simp: recording_def accepted_def split: prod.split)
    with True Suc.prems(8) show ?thesis by (intro exI [of _ a]) auto
  next
    case False
    have step: "webhook_process w clock failed n task = webhook_process w clock failed (n @ [?req]) ?task"
      using Suc.prems False am by (subst webhook_process.simps) (auto simp: recording_def accepted_def split: prod.split)
    have "\<exists>k. Suc a \<le> k \<and> k \<le> m \<and> (\<forall>i. Suc a \<le> i \<and> i < k \<longrightarrow> \<not> accepted (resp i)) \<and> (k = m \<or> accepted (resp k))
      \<and> webhook_process w clock failed (n @ [?req]) ?task
        = (n @ [?req]) @ map (\<lambda>i. webhook_call (subs (int i)) body (unix_seconds (clock (int i))) ?task) [Suc a..<Suc k]"
      using Suc.hyps(2) Suc.prems am by (intro Suc.hyps(1)) auto
    then obtain k where k: "Suc a \<le> k" "k \<le> m" "\<forall>i. Suc a \<le> i \<and> i < k \<longrightarrow> \<not> accepted (resp i)" "k = m \<or> accepted (resp k)"
      "webhook_process w clock failed (n @ [?req]) ?task
        = (n @ [?req]) @ map (\<lambda>i. webhook_call (subs (int i)) body (unix_seconds (clock (int i))) ?task) [Suc a..<Suc k]" by blast
    have "webhook_call s b t ?task = webhook_call s b t task" for s b t by (simp add: webhook_call_def)
    with step k(5) k(1) have "webhook_process w clock failed n task
        = n @ map (\<lambda>i. webhook_call (subs (int i)) body (unix_seconds (clock (int i))) task) [a..<Suc k]"
      by (simp add: upt_conv_Cons [of a "Suc k"] del: upt_Suc)
    moreover have "\<forall>i. a \<le> i \<and> i < k \<longrightarrow> \<not> accepted (resp i)" using k(3) False by (metis Suc_leI le_neq_implies_less)
    ultimately show ?thesis using k(1,2,4) by (intro exI [of _ k]) auto
  qed
qed

text \<open>
  C37: The delivery of an event ends after at most one attempt more than the retries: it calls the subscriber until a call is accepted or the retries are used up,
  never again after an accepted call, and every call carries the time of the attempt and the signature of the body and that time under the secret that
  the subscription has then.
\<close>

theorem webhook_delivery:
  assumes "\<And>i. ws_GetByID w i (DtSubscriptionID task) = Ok (subs i)" and "ws_marshal w (DtPayload task) = Ok body"
    and "\<And>i. ws_valid_url w (SubURL (subs i))" and "ws_Do w = recording resp" and "ws_maxRetries w = int m"
    and "DtAttempt task = 0"
  shows "\<exists>k \<le> m. (\<forall>i < k. \<not> accepted (resp i)) \<and> (k = m \<or> accepted (resp k))
    \<and> webhook_process w clock failed [] task = map (\<lambda>i. \<lparr>wq_URL = SubURL (subs (int i)), wq_Body = body,
        wq_Signature = signPayload (SubSecret (subs (int i))) body (unix_seconds (clock (int i))),
        wq_Timestamp = show_int (unix_seconds (clock (int i))), wq_EventID = DtEventID task, wq_EventType = DtEventType task\<rparr>) [0..<Suc k]"
  using process_from [OF assms(1-5), of 0 "[]" clock failed] assms(6) unfolding webhook_call_def by auto

definition demo_sub :: "string \<Rightarrow> Subscription" where
  "demo_sub secret = \<lparr>SubID = ''s1'', SubURL = ''https://a.example'', SubSecret = secret, SubEvents = [''login.success''], SubActive = True,
     SubCreatedAt = 0, SubUpdatedAt = 0\<rparr>"

definition demo_sender :: "webhook_request list WebhookSender" where
  "demo_sender = \<lparr>ws_GetByID = (\<lambda>_ _. Ok (demo_sub ''k'')), ws_marshal = (\<lambda>_. Ok ''{}''), ws_valid_url = (\<lambda>_. True),
     ws_Do = recording (\<lambda>_. (None, 500)), ws_maxRetries = 3\<rparr>"

theorem webhook_delivery_witness:
  "length (webhook_process demo_sender (\<lambda>_. 0) (\<lambda>_. 0) [] (delivery_task ''e1'' 0 ''login.success'' zero_event (demo_sub ''k''))) = 4"
proof -
  let ?t = "delivery_task ''e1'' 0 ''login.success'' zero_event (demo_sub ''k'')"
  have "\<exists>k \<le> 3. (\<forall>i < k. \<not> accepted ((\<lambda>_. (None, 500)) i)) \<and> (k = 3 \<or> accepted ((\<lambda>_. (None, 500)) k))
    \<and> webhook_process demo_sender (\<lambda>_. 0) (\<lambda>_. 0) [] ?t = map (\<lambda>i. \<lparr>wq_URL = SubURL (demo_sub ''k''), wq_Body = ''{}'',
        wq_Signature = signPayload (SubSecret (demo_sub ''k'')) ''{}'' (unix_seconds 0), wq_Timestamp = show_int (unix_seconds 0),
        wq_EventID = DtEventID ?t, wq_EventType = DtEventType ?t\<rparr>) [0..<Suc k]"
    by (rule webhook_delivery) (simp_all add: demo_sender_def delivery_task_def)
  then show ?thesis by (auto simp: accepted_def)
qed

section \<open>Rotation\<close>

text \<open>After a rotation the subscription is found with the new secret and is otherwise as it was.\<close>

theorem RotateSecret_lookup:
  assumes "unique_rows SubID SubID rows" and "x \<in> set rows"
  shows "\<exists>rows'. RotateSecret (WebhookRepository (row_db SubID SubID)) (Ok bs) now rows (SubID x)
      = (Ok (x\<lparr>SubSecret := hex_encode bs, SubUpdatedAt := now\<rparr>), rows')
    \<and> wr_GetByID (WebhookRepository (row_db SubID SubID)) rows' (SubID x) = Ok (x\<lparr>SubSecret := hex_encode bs, SubUpdatedAt := now\<rparr>)
    \<and> (\<forall>y. SubID y \<noteq> SubID x \<longrightarrow> (y \<in> set rows' \<longleftrightarrow> y \<in> set rows))"
proof -
  let ?y = "x\<lparr>SubSecret := hex_encode bs, SubUpdatedAt := now\<rparr>"
  have f: "find (\<lambda>z. SubID z = SubID x) rows = Some x" using find_row(1) [OF assms(1)] assms(2) by simp
  obtain rows' where s: "row_save SubID SubID rows ?y = (Ok (), rows')" using row_save_present [OF assms, of ?y] by auto
  from row_save_Ok [OF assms(1) s] have u: "unique_rows SubID SubID rows'"
    and m: "\<forall>z. z \<in> set rows' \<longleftrightarrow> z = ?y \<or> z \<in> set rows \<and> SubID z \<noteq> SubID ?y" by auto
  have "find (\<lambda>z. SubID z = SubID x) rows' = Some ?y" using find_row(1) [OF u, of "SubID x" ?y] m by auto
  with f s m show ?thesis
    by (auto simp: RotateSecret_def WebhookRepository_def pgw_GetByID_def generateSecret_def)
qed

theorem RotateSecret_lookup_witness:
  "\<exists>rows'. wr_GetByID (WebhookRepository (row_db SubID SubID)) rows' ''s1'' = Ok ((demo_sub (hex_encode [0, 0xff]))\<lparr>SubUpdatedAt := 7\<rparr>)"
  using RotateSecret_lookup [of "[demo_sub ''k'']" "demo_sub ''k''" "[0, 0xff]" 7]
  by (auto simp: unique_rows_def demo_sub_def)

end
