(* ===== verification/Privacy.thy ===== *)
theory Privacy
  imports Audit_Log Auth_Memory Identity_Memory Session_Manager "HOL-Library.List_Lexorder" "HOL-Library.Char_ord"
begin

text \<open>
  Consent, export and erasure of personal data: \<^verbatim>\<open>internal/services/privacy\<close>, \<^verbatim>\<open>internal/domain/privacy\<close> and
  \<^verbatim>\<open>privacy_repository.go\<close>. The service works on the object that the user repository returns a pointer to: \<open>pv_assign\<close> says what an
  assignment through that pointer does to the repository, nothing for a database and a change of the stored object for the in-memory repository.
\<close>

section \<open>Records\<close>

record ConsentRecord =
  CnID :: string
  CnUserID :: string
  CnPolicyID :: string
  CnPolicyVersion :: string
  CnAction :: string
  CnUserAgent :: string
  CnIPAddress :: string
  CnCreatedAt :: time

record DSRRequest =
  DsrID :: string
  DsrUserID :: string
  DsrType :: string
  DsrStatus :: string
  DsrCreatedAt :: time
  DsrUpdatedAt :: time

definition ConsentActionGranted :: string where "ConsentActionGranted = ''GRANTED''"
definition ConsentActionRevoked :: string where "ConsentActionRevoked = ''REVOKED''"

section \<open>The repository\<close>

text \<open>
  The mapper fills in the creation time. Of the records with the latest creation time, \<^verbatim>\<open>First\<close> takes the one with the least
  primary key.
\<close>

definition later :: "ConsentRecord \<Rightarrow> ConsentRecord \<Rightarrow> bool" where
  "later x y \<longleftrightarrow> CnCreatedAt x > CnCreatedAt y \<or> CnCreatedAt x = CnCreatedAt y \<and> CnID x < CnID y"

fun latest_consent :: "ConsentRecord list \<Rightarrow> ConsentRecord option" where
  "latest_consent [] = None"
| "latest_consent (x # xs) = (case latest_consent xs of None \<Rightarrow> Some x | Some y \<Rightarrow> if later y x then Some y else Some x)"

definition CreateConsentRecord :: "('d, ConsentRecord) gorm_table \<Rightarrow> time \<Rightarrow> 'd \<Rightarrow> ConsentRecord \<Rightarrow> (go_error, unit) outcome \<times> 'd" where
  "CreateConsentRecord db now d rec =
     db_create db d (rec\<lparr>CnCreatedAt := (if CnCreatedAt rec = zero_time then now else CnCreatedAt rec)\<rparr>)"

definition GetLastConsentRecord :: "('d, ConsentRecord) gorm_table \<Rightarrow> 'd \<Rightarrow> string \<Rightarrow> string \<Rightarrow> (go_error, ConsentRecord) outcome" where
  "GetLastConsentRecord db d userID policyID =
     obind (db_find db d (\<lambda>x. CnUserID x = userID \<and> CnPolicyID x = policyID))
       (\<lambda>xs. case latest_consent xs of None \<Rightarrow> Fail ErrNotFound | Some x \<Rightarrow> Ok x)"

definition GetConsentHistory :: "('d, ConsentRecord) gorm_table \<Rightarrow> 'd \<Rightarrow> string \<Rightarrow> (go_error, ConsentRecord list) outcome" where
  "GetConsentHistory db d userID =
     obind (db_find db d (\<lambda>x. CnUserID x = userID)) (\<lambda>xs. Ok (sort_key (\<lambda>x. - CnCreatedAt x) xs))"

definition GetDSRRequest :: "('d, DSRRequest) gorm_table \<Rightarrow> 'd \<Rightarrow> string \<Rightarrow> (go_error, DSRRequest) outcome" where
  "GetDSRRequest db d requestID =
     (case db_first db d (\<lambda>x. DsrID x = requestID) of
        Fail err \<Rightarrow> Fail (if err = ErrRecordNotFound then ErrNotFound else err)
      | res \<Rightarrow> res)"

definition UpdateDSRRequestStatus :: "('d, DSRRequest) gorm_table \<Rightarrow> time \<Rightarrow> 'd \<Rightarrow> string \<Rightarrow> string \<Rightarrow> (go_error, unit) outcome \<times> 'd" where
  "UpdateDSRRequestStatus db now d requestID status =
     db_updates db d (\<lambda>x. DsrID x = requestID) (\<lambda>x. x\<lparr>DsrStatus := status, DsrUpdatedAt := now\<rparr>)"

section \<open>The service\<close>

record ('s, 'c, 'l, 'r, 'w) PrivacyService =
  pv_users :: "'s UserRepository"
  pv_assign :: "'s \<Rightarrow> User \<Rightarrow> 's"
  pv_consents :: "('c, ConsentRecord) gorm_table"
  pv_logs :: "'l \<Rightarrow> string \<Rightarrow> PaginationQuery \<Rightarrow> (go_error, AuditLog list) outcome"
  pv_revoke :: "'r \<Rightarrow> string \<Rightarrow> (go_error, unit) outcome \<times> 'r"
  pv_audit :: "'w AuditService"
  pv_transaction :: "((go_error, unit) outcome \<times> (go_error, unit) outcome) option"
  pv_versions :: "string \<rightharpoonup> string"

text \<open>\<open>pv_transaction\<close> is what beginning and committing a transaction answer; it is None when the service has no database.\<close>

record ('s, 'c, 'l, 'r, 'w) privacy_world =
  pw_users :: 's
  pw_consents :: 'c
  pw_logs :: 'l
  pw_sessions :: 'r
  pw_audit :: "'w audit_world"
  pw_errs :: err_store

type_synonym ('s, 'c, 'l, 'r, 'w, 'a) privacy_run = "(go_error, 'a) outcome \<times> ('s, 'c, 'l, 'r, 'w) privacy_world"

definition caused :: "('s, 'c, 'l, 'r, 'w) privacy_world \<Rightarrow> go_error \<Rightarrow> go_error \<Rightarrow> ('s, 'c, 'l, 'r, 'w, 'a) privacy_run" where
  "caused w e c = (let (e', h) = WithCause (pw_errs w) e c in (Fail e', w\<lparr>pw_errs := h\<rparr>))"

definition detailed :: "('s, 'c, 'l, 'r, 'w) privacy_world \<Rightarrow> go_error \<Rightarrow> string \<Rightarrow> ('s, 'c, 'l, 'r, 'w, 'a) privacy_run" where
  "detailed w e reason = (let (e', h) = WithDetails (pw_errs w) e [(''reason'', reason)] in (Fail e', w\<lparr>pw_errs := h\<rparr>))"

definition HasConsentedLatest ::
    "('s, 'c, 'l, 'r, 'w) PrivacyService \<Rightarrow> ('s, 'c, 'l, 'r, 'w) privacy_world \<Rightarrow> string \<Rightarrow> string \<Rightarrow> ('s, 'c, 'l, 'r, 'w, bool) privacy_run" where
  "HasConsentedLatest s w userID policyID =
     (let latestVersion = (case pv_versions s policyID of None \<Rightarrow> [] | Some v \<Rightarrow> v)
      in if latestVersion = [] then detailed w ErrNotFound ''Policy not found.''
         else case GetLastConsentRecord (pv_consents s) (pw_consents w) userID policyID of
                Panic \<Rightarrow> (Panic, w)
              | Fail err \<Rightarrow> if err = ErrNotFound then (Ok False, w) else caused w ErrInternal err
              | Ok rec \<Rightarrow> (Ok (CnPolicyVersion rec \<ge> latestVersion), w))"

record GrantConsentRequest =
  GcUserID :: string
  GcPolicyID :: string
  GcPolicyVersion :: string
  GcUserAgent :: string
  GcIPAddress :: string

definition consent_record :: "string \<Rightarrow> GrantConsentRequest \<Rightarrow> ConsentRecord" where
  "consent_record uuid req =
     \<lparr>CnID = uuid, CnUserID = GcUserID req, CnPolicyID = GcPolicyID req, CnPolicyVersion = GcPolicyVersion req,
      CnAction = ConsentActionGranted, CnUserAgent = GcUserAgent req, CnIPAddress = GcIPAddress req, CnCreatedAt = zero_time\<rparr>"

definition GrantConsent ::
    "('s, 'c, 'l, 'r, 'w) PrivacyService \<Rightarrow> string \<Rightarrow> time \<Rightarrow> ('s, 'c, 'l, 'r, 'w) privacy_world \<Rightarrow> GrantConsentRequest \<Rightarrow> ('s, 'c, 'l, 'r, 'w, unit) privacy_run" where
  "GrantConsent s uuid now w req =
     (if GcPolicyVersion req = [] then detailed w ErrInvalidRequest ''PolicyVersion is required.''
      else case CreateConsentRecord (pv_consents s) now (pw_consents w) (consent_record uuid req) of
             (Panic, c) \<Rightarrow> (Panic, w\<lparr>pw_consents := c\<rparr>)
           | (Fail err, c) \<Rightarrow> caused (w\<lparr>pw_consents := c\<rparr>) ErrInternal err
           | (Ok _, c) \<Rightarrow>
               (let w1 = w\<lparr>pw_consents := c\<rparr>
                in case ur_GetUserByID (pv_users s) (pw_users w1) (GcUserID req) of
                     Panic \<Rightarrow> (Panic, w1)
                   | Fail err \<Rightarrow> caused w1 ErrInternal err
                   | Ok user \<Rightarrow>
                       (let settings = (case PrivacySettings user of None \<Rightarrow> Map.empty | Some m \<Rightarrow> m);
                            user1 = user\<lparr>PrivacySettings := Some (settings(GcPolicyID req \<mapsto> VString (GcPolicyVersion req)))\<rparr>
                        in case ur_UpdateUser (pv_users s) (pv_assign s (pw_users w1) user1) user1 of
                             (Panic, u) \<Rightarrow> (Panic, w1\<lparr>pw_users := u\<rparr>)
                           | (Fail err, u) \<Rightarrow> caused (w1\<lparr>pw_users := u\<rparr>) ErrInternal err
                           | (Ok _, u) \<Rightarrow> (Ok (), w1\<lparr>pw_users := u\<rparr>))))"

record ExportData =
  XdUser :: User
  XdAuditHistory :: "AuditEvent list"
  XdConsentHistory :: "ConsentRecord list"

definition exported_event :: "AuditLog \<Rightarrow> AuditEvent" where
  "exported_event entry =
     zero_event\<lparr>EvID := LogID entry, EvTimestamp := LogTimestamp entry, EvEventType := LogAction entry,
       EvActor := no_actor\<lparr>ActID := LogActorID entry\<rparr>, EvTarget := no_target\<lparr>TgtID := LogResource entry\<rparr>,
       EvResult := LogStatus entry, EvIPAddress := LogIPAddress entry, EvUserAgent := LogUserAgent entry\<rparr>"

definition CollectUserData ::
    "('s, 'c, 'l, 'r, 'w) PrivacyService \<Rightarrow> ('s, 'c, 'l, 'r, 'w) privacy_world \<Rightarrow> string \<Rightarrow> ('s, 'c, 'l, 'r, 'w, ExportData) privacy_run" where
  "CollectUserData s w userID =
     (case ur_GetUserByID (pv_users s) (pw_users w) userID of
        Panic \<Rightarrow> (Panic, w)
      | Fail err \<Rightarrow> caused w ErrInternal err
      | Ok user \<Rightarrow>
          (let user1 = user\<lparr>Password := []\<rparr>;
               w1 = w\<lparr>pw_users := pv_assign s (pw_users w) user1\<rparr>
           in case pv_logs s (pw_logs w1) userID \<lparr>POffset = 0, PPageSize = 1000\<rparr> of
                Panic \<Rightarrow> (Panic, w1)
              | Fail err \<Rightarrow> caused w1 ErrInternal err
              | Ok logs \<Rightarrow>
                  (case GetConsentHistory (pv_consents s) (pw_consents w1) userID of
                     Panic \<Rightarrow> (Panic, w1)
                   | Fail err \<Rightarrow> caused w1 ErrInternal err
                   | Ok consents \<Rightarrow>
                       (Ok \<lparr>XdUser = user1, XdAuditHistory = map exported_event logs, XdConsentHistory = consents\<rparr>, w1))))"

definition anonymized :: "string \<Rightarrow> User \<Rightarrow> User" where
  "anonymized uuid user =
     user\<lparr>Username := ''deleted_'' @ uuid, Email := ''deleted_'' @ uuid @ ''@anonymized.local'', Phone := [], Password := [],
          Status := ''deleted''\<rparr>"

text \<open>The body of the transaction. Nothing in it uses the transaction, so what it has done stays done when it fails.\<close>

definition erase_body ::
    "('s, 'c, 'l, 'r, 'w) PrivacyService \<Rightarrow> (nat \<Rightarrow> string) \<Rightarrow> time \<Rightarrow> ('s, 'c, 'l, 'r, 'w) privacy_world \<Rightarrow> string \<Rightarrow> ('s, 'c, 'l, 'r, 'w, unit) privacy_run" where
  "erase_body s fresh now w userID =
     (case pv_revoke s (pw_sessions w) userID of
        (Panic, r) \<Rightarrow> (Panic, w\<lparr>pw_sessions := r\<rparr>)
      | (Fail err, r) \<Rightarrow> (Fail err, w\<lparr>pw_sessions := r\<rparr>)
      | (Ok _, r) \<Rightarrow>
          (case RecordAdminAction (pv_audit s) (fresh 0) now userID [] ''user'' ''account.erased'' []
                  (Some [''reason'' \<mapsto> VString ''gdpr_right_to_be_forgotten'']) (pw_audit w) of
             (Panic, a) \<Rightarrow> (Panic, w\<lparr>pw_sessions := r, pw_audit := a\<rparr>)
           | (_, a) \<Rightarrow>
               (let w1 = w\<lparr>pw_sessions := r, pw_audit := a\<rparr>
                in case ur_GetUserByID (pv_users s) (pw_users w1) userID of
                     Panic \<Rightarrow> (Panic, w1)
                   | Fail err \<Rightarrow> (Fail err, w1)
                   | Ok user \<Rightarrow>
                       (let user1 = anonymized (fresh 1) user
                        in case ur_UpdateUser (pv_users s) (pv_assign s (pw_users w1) user1) user1 of
                             (Panic, u) \<Rightarrow> (Panic, w1\<lparr>pw_users := u\<rparr>)
                           | (Fail err, u) \<Rightarrow> (Fail err, w1\<lparr>pw_users := u\<rparr>)
                           | (Ok _, u) \<Rightarrow> (Ok (), w1\<lparr>pw_users := u\<rparr>)))))"

definition EraseAccount ::
    "('s, 'c, 'l, 'r, 'w) PrivacyService \<Rightarrow> (nat \<Rightarrow> string) \<Rightarrow> time \<Rightarrow> ('s, 'c, 'l, 'r, 'w) privacy_world \<Rightarrow> string \<Rightarrow> ('s, 'c, 'l, 'r, 'w, unit) privacy_run" where
  "EraseAccount s fresh now w userID =
     (if userID = [] then (Fail ErrRecordNotFound, w)
      else case pv_transaction s of
             None \<Rightarrow> (Panic, w)
           | Some (begun, committed) \<Rightarrow>
               (case begun of
                  Panic \<Rightarrow> (Panic, w)
                | Fail err \<Rightarrow> (Fail err, w)
                | Ok _ \<Rightarrow> sbind (erase_body s fresh now w userID) (\<lambda>_ w1. (committed, w1))))"

section \<open>Consent\<close>

lemma latest_consent_None [simp]: "latest_consent xs = None \<longleftrightarrow> xs = []"
  by (cases xs) (auto split: option.split)

lemma latest_consent_last:
  assumes "\<And>y. y \<in> set xs \<Longrightarrow> CnCreatedAt y < CnCreatedAt x"
  shows "latest_consent (xs @ [x]) = Some x"
  using assms
proof (induction xs)
  case (Cons y xs)
  then have "latest_consent (xs @ [x]) = Some x" and "CnCreatedAt y < CnCreatedAt x" by auto
  then show ?case by (simp add: later_def)
qed simp

text \<open>The object that the in-memory repository keeps for a user and hands out a pointer to.\<close>

definition memory_assign :: "IdentityMemoryRepository \<Rightarrow> User \<Rightarrow> IdentityMemoryRepository" where
  "memory_assign r user = r\<lparr>m_users := (m_users r)(UID user \<mapsto> user)\<rparr>"

definition over_memory :: "(IdentityMemoryRepository, ConsentRecord list, 'l, 'r, 'w) PrivacyService \<Rightarrow> bool" where
  "over_memory s \<longleftrightarrow> ur_GetUserByID (pv_users s) = mem_GetUserByID \<and> ur_UpdateUser (pv_users s) = mem_UpdateUser
     \<and> pv_assign s = memory_assign \<and> pv_consents s = row_db CnID CnID"

definition asked_policy :: "string \<Rightarrow> string \<Rightarrow> ConsentRecord \<Rightarrow> bool" where
  "asked_policy u p x \<longleftrightarrow> CnUserID x = u \<and> CnPolicyID x = p"

lemma over_memoryD:
  assumes "over_memory s"
  shows "ur_GetUserByID (pv_users s) = mem_GetUserByID" and "ur_UpdateUser (pv_users s) = mem_UpdateUser"
    and "pv_assign s = memory_assign" and "pv_consents s = row_db CnID CnID"
  using assms by (simp_all add: over_memory_def)

lemma GetLastConsentRecord_rows:
  "GetLastConsentRecord (row_db CnID CnID) rows u p
   = (case latest_consent (filter (asked_policy u p) rows) of None \<Rightarrow> Fail ErrNotFound | Some x \<Rightarrow> Ok x)"
  by (simp add: GetLastConsentRecord_def asked_policy_def [abs_def])

lemma memory_update_assigned [simp]:
  "mem_UpdateUser (memory_assign r user) user = (Ok (), memory_assign r user)"
  by (simp add: mem_UpdateUser_def memory_assign_def)

lemma m_users_assign [simp]: "m_users (memory_assign r user) = (m_users r)(UID user \<mapsto> user)"
  by (simp add: memory_assign_def)

lemma CreateConsentRecord_fresh:
  assumes "CnID x \<notin> CnID ` set rows" and "CnCreatedAt x = zero_time"
  shows "CreateConsentRecord (row_db CnID CnID) now rows x = (Ok (), rows @ [x\<lparr>CnCreatedAt := now\<rparr>])"
proof -
  have "\<not> list_ex (\<lambda>y. CnID y = CnID x) rows" 
  proof
    assume "list_ex (\<lambda>y. CnID y = CnID x) rows"
    then obtain y where y: "y \<in> set rows" "CnID y = CnID x" by (auto simp: list_ex_iff)
    from imageI [OF y(1), of CnID] y(2) assms(1) show False by simp
  qed
  with assms(2) show ?thesis by (simp add: CreateConsentRecord_def row_insert_def)
qed

lemma GrantConsent_memory:
  assumes "over_memory s" and "m_users (pw_users w) (GcUserID req) = Some user" and "UID user = GcUserID req"
    and "GcPolicyVersion req \<noteq> []" and "uuid \<notin> CnID ` set (pw_consents w)"
  shows "GrantConsent s uuid now w req
    = (Ok (), w\<lparr>pw_consents := pw_consents w @ [(consent_record uuid req)\<lparr>CnCreatedAt := now\<rparr>],
                 pw_users := memory_assign (pw_users w)
                   (user\<lparr>PrivacySettings := Some ((case PrivacySettings user of None \<Rightarrow> Map.empty | Some m \<Rightarrow> m)
                      (GcPolicyID req \<mapsto> VString (GcPolicyVersion req)))\<rparr>)\<rparr>)"
  using assms
  by (simp add: GrantConsent_def CreateConsentRecord_fresh over_memoryD mem_GetUserByID_def Let_def consent_record_def)

text \<open>
  Consent that is granted in a version no older than the current one counts: the grant succeeds for a stored user, the next
  question for the latest consent answers yes, the user's privacy settings name the version, and what any other user or policy was last asked stays.
\<close>

theorem consent_round_trip:
  assumes "over_memory s" and "m_users (pw_users w) u = Some user" and "UID user = u"
    and "GcUserID req = u" and "GcPolicyID req = p" and "pv_versions s p = Some v" and "v \<noteq> []" and "v \<le> GcPolicyVersion req"
    and "uuid \<notin> CnID ` set (pw_consents w)"
    and "\<forall>x \<in> set (pw_consents w). asked_policy u p x \<longrightarrow> CnCreatedAt x < now"
  shows "\<exists>w' user'. GrantConsent s uuid now w req = (Ok (), w') \<and> HasConsentedLatest s w' u p = (Ok True, w')
    \<and> m_users (pw_users w') u = Some user'
    \<and> (\<exists>m. PrivacySettings user' = Some m \<and> m p = Some (VString (GcPolicyVersion req)))
    \<and> (\<forall>u' p'. (u', p') \<noteq> (u, p) \<longrightarrow>
         GetLastConsentRecord (pv_consents s) (pw_consents w') u' p' = GetLastConsentRecord (pv_consents s) (pw_consents w) u' p')"
proof -
  let ?x = "(consent_record uuid req)\<lparr>CnCreatedAt := now\<rparr>"
  have nv: "GcPolicyVersion req \<noteq> []" using assms(7,8) by auto
  have x: "asked_policy u' p' ?x \<longleftrightarrow> (u', p') = (u, p)" for u' p'
    using assms(4,5) by (auto simp: asked_policy_def consent_record_def)
  have "latest_consent (filter (asked_policy u p) (pw_consents w @ [?x])) = Some ?x"
    using x [of u p] latest_consent_last [of "filter (asked_policy u p) (pw_consents w)" ?x] assms(10) by simp
  then have l: "GetLastConsentRecord (row_db CnID CnID) (pw_consents w @ [?x]) u p = Ok ?x"
    by (simp only: GetLastConsentRecord_rows option.case)
  have g: "m_users (pw_users w) (GcUserID req) = Some user" "UID user = GcUserID req" using assms(2-4) by simp_all
  show ?thesis
    using GrantConsent_memory [OF assms(1) g nv assms(9), of now] assms(3-8) l x
    by (simp add: HasConsentedLatest_def over_memoryD [OF assms(1)] GetLastConsentRecord_rows consent_record_def)
qed

text \<open>
  The version is compared as a string and the action of the record is not looked at: a withdrawn consent to the current version still
  counts, and version 9 counts as newer than version 10.
\<close>

lemma revoked_consent_counts:
  assumes "GetLastConsentRecord (pv_consents s) (pw_consents w) u p = Ok x" and "CnAction x = ConsentActionRevoked"
    and "pv_versions s p = Some (CnPolicyVersion x)" and "CnPolicyVersion x \<noteq> []"
  shows "HasConsentedLatest s w u p = (Ok True, w)"
  using assms by (simp add: HasConsentedLatest_def)

lemma version_9_after_10: "''10'' \<le> (''9'' :: string)"
  by code_simp

section \<open>Export\<close>

text \<open>
  Exporting the data of a user of the in-memory repository erases the stored password, so that the user cannot log in any more: the
  password is cleared in the object that the repository keeps.
\<close>

theorem export_wipes_password:
  assumes "over_memory s" and "m_users (pw_users w) u = Some user" and "UID user = u"
  shows "m_users (pw_users (snd (CollectUserData s w u))) = (m_users (pw_users w))(u \<mapsto> user\<lparr>Password := []\<rparr>)"
  using assms
  by (simp add: CollectUserData_def over_memoryD mem_GetUserByID_def Let_def caused_def split: outcome.split prod.split)

section \<open>Erasure\<close>

lemma erase_body_memory:
  assumes "over_memory s" and "m_users (pw_users w) u = Some user" and "UID user = u"
    and "pv_revoke s (pw_sessions w) u = (Ok (), r)"
    and "RecordAdminAction (pv_audit s) (fresh 0) now u [] ''user'' ''account.erased'' []
           (Some [''reason'' \<mapsto> VString ''gdpr_right_to_be_forgotten'']) (pw_audit w) = (Ok (), a)"
  shows "erase_body s fresh now w u
    = (Ok (), w\<lparr>pw_sessions := r, pw_audit := a, pw_users := memory_assign (pw_users w) (anonymized (fresh 1) user)\<rparr>)"
  using assms by (simp add: erase_body_def over_memoryD mem_GetUserByID_def Let_def anonymized_def)


text \<open>
  The erasure of an account that does not exist fails, after the audit trail has recorded it as a success and after the sessions under that name have been
  revoked: neither step is part of the transaction that is rolled back.
\<close>

theorem erase_unknown_user_audited:
  assumes "over_memory s" and "pv_revoke s = RevokeAllUserSessions ks_client" and "pv_transaction s = Some (Ok (), Ok ())"
    and "m_users (pw_users w) u = None" and "u \<noteq> []" and "aus_sinks (pv_audit s) = [\<lambda>es e. (Ok (), es @ [e])]"
  shows "\<exists>w' e. EraseAccount s fresh now w u = (Fail (user_not_found ''ID'' u []), w')
    \<and> aw_world (pw_audit w') = aw_world (pw_audit w) @ [e]
    \<and> EvAction e = ''account.erased'' \<and> EvUserID e = u \<and> EvResult e = ResultSuccess
    \<and> ks_zsets (pw_sessions w') (user_sessions_key u) = []"
proof -
  obtain r where r: "RevokeAllUserSessions ks_client (pw_sessions w) u = (Ok (), r)" "ks_zsets r (user_sessions_key u) = []"
    using RevokeAll_ks [of "pw_sessions w" u] by auto
  then show ?thesis using assms
    by (simp add: EraseAccount_def erase_body_def over_memoryD mem_GetUserByID_def RecordAdminAction_def
        pipeline_Emit_def Emit_def service_event_def Let_def)
qed
section \<open>Witnesses\<close>

definition demo_privacy :: "(IdentityMemoryRepository, ConsentRecord list, unit, keyspace, AuditEvent list) PrivacyService" where
  "demo_privacy =
     \<lparr>pv_users = memory_users (\<lambda>_. []) ''u9'', pv_assign = memory_assign, pv_consents = row_db CnID CnID,
      pv_logs = (\<lambda>_ _ _. Ok []), pv_revoke = RevokeAllUserSessions ks_client,
      pv_audit = \<lparr>aus_sinks = [\<lambda>es e. (Ok (), es @ [e])], aus_dispatcher = False\<rparr>,
      pv_transaction = Some (Ok (), Ok ()), pv_versions = [''terms'' \<mapsto> ''2'']\<rparr>"

definition demo_person :: User where
  "demo_person = zero_user\<lparr>UID := ''u1'', Username := ''ann'', Password := ''hash'', ExternalID := ''cn=ann''\<rparr>"

definition demo_privacy_world :: "(IdentityMemoryRepository, ConsentRecord list, unit, keyspace, AuditEvent list) privacy_world" where
  "demo_privacy_world =
     \<lparr>pw_users = NewIdentityMemoryRepository\<lparr>m_users := [''u1'' \<mapsto> demo_person]\<rparr>, pw_consents = [], pw_logs = (),
      pw_sessions = demo_keys, pw_audit = \<lparr>aw_world = [], aw_dispatched = []\<rparr>, pw_errs = initial_errors\<rparr>"

lemma demo_privacy_simps [simp]:
  "over_memory demo_privacy" "pv_revoke demo_privacy = RevokeAllUserSessions ks_client"
  "pv_transaction demo_privacy = Some (Ok (), Ok ())" "pv_versions demo_privacy ''terms'' = Some ''2''"
  "aus_sinks (pv_audit demo_privacy) = [\<lambda>es e. (Ok (), es @ [e])]"
  "m_users (pw_users demo_privacy_world) = [''u1'' \<mapsto> demo_person]" "pw_consents demo_privacy_world = []"
  "UID demo_person = ''u1''" "ExternalID demo_person = ''cn=ann''"
  by (simp_all add: demo_privacy_def demo_privacy_world_def demo_person_def over_memory_def)

definition demo_grant :: GrantConsentRequest where
  "demo_grant = \<lparr>GcUserID = ''u1'', GcPolicyID = ''terms'', GcPolicyVersion = ''2'', GcUserAgent = [], GcIPAddress = []\<rparr>"

theorem consent_round_trip_witness:
  "\<exists>w'. GrantConsent demo_privacy ''c1'' 5 demo_privacy_world demo_grant = (Ok (), w')
     \<and> HasConsentedLatest demo_privacy w' ''u1'' ''terms'' = (Ok True, w')"
  using consent_round_trip [of demo_privacy demo_privacy_world "''u1''" demo_person demo_grant "''terms''" "''2''" "''c1''" 5]
  by (auto simp: demo_grant_def)

theorem export_wipes_password_witness:
  "Password demo_person = ''hash''
     \<and> m_users (pw_users (snd (CollectUserData demo_privacy demo_privacy_world ''u1''))) ''u1'' = Some (demo_person\<lparr>Password := []\<rparr>)"
  using export_wipes_password [of demo_privacy demo_privacy_world "''u1''" demo_person]
  by (simp add: demo_person_def)


theorem erase_unknown_user_audited_witness:
  "\<exists>w' e. EraseAccount demo_privacy (\<lambda>_. ''x'') 5 demo_privacy_world ''u2'' = (Fail (user_not_found ''ID'' ''u2'' []), w')
     \<and> aw_world (pw_audit w') = aw_world (pw_audit demo_privacy_world) @ [e] \<and> EvResult e = ResultSuccess"
  using erase_unknown_user_audited [of demo_privacy demo_privacy_world "''u2''" "\<lambda>_. ''x''" 5] by auto
end
