(* ===== verification/Workflow.thy ===== *)
theory Workflow
  imports Adaptive_Risk Middleware
begin

text \<open>
  The workflow engine \<^verbatim>\<open>internal/orchestrator/engine.go\<close> and the login workflow
  \<^verbatim>\<open>internal/orchestrator/workflows/auth_flow.go\<close> over the risk engine and the security automator. The state of a workflow is a
  map of dynamic values that the caller shares with the steps: a call returns the map as the steps leave it, also when it fails.
\<close>

section \<open>The engine\<close>

datatype wvalue =
    WString string
  | WTime time
  | WUser "User option"
  | WRiskScore real
  | WRiskLevel RiskLevel
  | WBool bool
  | WToken Token
  | WOther gvalue

type_synonym wstate = "string \<rightharpoonup> wvalue"

record 'w Step =
  StName :: string
  StFunc :: "'w \<times> wstate \<Rightarrow> (go_error, unit) outcome \<times> ('w \<times> wstate)"

record 'w Workflow =
  WfName :: string
  WfSteps :: "'w Step list"

type_synonym 'w orchestrator = "string \<rightharpoonup> 'w Workflow"

definition RegisterWorkflow :: "'w orchestrator \<Rightarrow> 'w Workflow \<Rightarrow> (go_error, unit) outcome \<times> 'w orchestrator" where
  "RegisterWorkflow e flow =
     (if e (WfName flow) \<noteq> None then (Fail (Errorf (''workflow with name '' @ WfName flow @ '' is already registered'')), e)
      else (Ok (), e(WfName flow \<mapsto> flow)))"

fun run_steps :: "'w Step list \<Rightarrow> 'w \<times> wstate \<Rightarrow> (go_error, unit) outcome \<times> ('w \<times> wstate)" where
  "run_steps [] s = (Ok (), s)"
| "run_steps (step # steps) s =
     (case StFunc step s of
        (Ok _, s') \<Rightarrow> run_steps steps s'
      | (Fail err, s') \<Rightarrow> (Fail (Wrapf (''step '' @ StName step @ '' failed'') err), s')
      | (Panic, s') \<Rightarrow> (Panic, s'))"

text \<open>The state that is returned on success is the caller's map.\<close>

definition workflow_Execute :: "'w orchestrator \<Rightarrow> string \<Rightarrow> 'w \<times> wstate \<Rightarrow> (go_error, wstate) outcome \<times> ('w \<times> wstate)" where
  "workflow_Execute e workflowName s =
     (case e workflowName of
        None \<Rightarrow> (Fail (Errorf (''workflow '' @ workflowName @ '' not found'')), s)
      | Some flow \<Rightarrow> sbind (run_steps (WfSteps flow) s) (\<lambda>_ s'. (Ok (snd s'), s')))"

section \<open>The login workflow\<close>

record ('r, 's) AuthWorkflow =
  awf_Evaluate :: "'r \<Rightarrow> AuthContext \<Rightarrow> (go_error, real \<times> RiskLevel) outcome \<times> 'r"
  awf_order :: "(real, 's) SecurityAction list \<Rightarrow> (real, 's) SecurityAction list"
  awf_registry :: "string \<rightharpoonup> (real, 's) SecurityAction"
  awf_policies :: "real ResponsePolicy list"
  awf_now :: time

text \<open>A type assertion with \<^verbatim>\<open>, _\<close> gives the zero value when it does not hold; without, it panics.\<close>

definition string_or_empty :: "wvalue option \<Rightarrow> string" where
  "string_or_empty v = (case v of Some (WString s) \<Rightarrow> s | _ \<Rightarrow> [])"

definition time_or_zero :: "wvalue option \<Rightarrow> time" where
  "time_or_zero v = (case v of Some (WTime t) \<Rightarrow> t | _ \<Rightarrow> zero_time)"

text \<open>\<^verbatim>\<open>state["user"].(*types.User)\<close> followed by a field access: a nil pointer passes the assertion and panics at the access.\<close>

definition user_of :: "wstate \<Rightarrow> User option" where
  "user_of st = (case st ''user'' of Some (WUser u) \<Rightarrow> u | _ \<Rightarrow> None)"

definition validateInput :: "('r \<times> 's) \<times> wstate \<Rightarrow> (go_error, unit) outcome \<times> (('r \<times> 's) \<times> wstate)" where
  "validateInput s =
     (if snd s ''username'' = None \<or> snd s ''password'' = None
      then (Fail (Errorf ''missing username or password in workflow state''), s) else (Ok (), s))"

definition authenticatePrimary :: "('r \<times> 's) \<times> wstate \<Rightarrow> (go_error, unit) outcome \<times> (('r \<times> 's) \<times> wstate)" where
  "authenticatePrimary s =
     (case snd s ''username'' of
        Some (WString username) \<Rightarrow>
          (Ok (), fst s, (snd s)(''user'' \<mapsto> WUser (Some (zero_user\<lparr>UID := ''user-123'', Username := username\<rparr>))))
      | _ \<Rightarrow> (Panic, s))"

definition risk_context :: "('r, 's) AuthWorkflow \<Rightarrow> User \<Rightarrow> wstate \<Rightarrow> AuthContext" where
  "risk_context awf user st =
     \<lparr>AcUserID = UID user, AcIPAddress = string_or_empty (st ''client_ip''), AcUserAgent = string_or_empty (st ''user_agent''),
      AcAcceptLanguage = [],
      AcTimestamp = (let now = time_or_zero (st ''now'') in if now = zero_time then awf_now awf else now),
      AcDeviceFingerprint = [], AcIsKnownDevice = False\<rparr>"

definition action_input :: "User \<Rightarrow> wstate \<Rightarrow> real \<Rightarrow> real ActionInput" where
  "action_input user st score =
     \<lparr>AIUserID = UID user, AIIP = string_or_empty (st ''client_ip''), AISessionID = [], AIRiskScore = score\<rparr>"

definition assessRisk ::
    "('r, 's) AuthWorkflow \<Rightarrow> ('r \<times> 's) \<times> wstate \<Rightarrow> (go_error, unit) outcome \<times> (('r \<times> 's) \<times> wstate)" where
  "assessRisk awf s =
     (case s of ((r, a), st) \<Rightarrow>
        (case user_of st of
           None \<Rightarrow> (Panic, s)
         | Some user \<Rightarrow>
             (case awf_Evaluate awf r (risk_context awf user st) of
                (Panic, r1) \<Rightarrow> (Panic, (r1, a), st)
              | (Fail err, r1) \<Rightarrow> (Fail err, (r1, a), st)
              | (Ok (score, level), r1) \<Rightarrow>
                  (let st1 = st(''risk_score'' \<mapsto> WRiskScore score, ''risk_level'' \<mapsto> WRiskLevel level)
                   in case automator_Execute (awf_order awf) (awf_registry awf) (awf_policies awf) (action_input user st score) a of
                        (Panic, a1) \<Rightarrow> (Panic, (r1, a1), st1)
                      | (res, a1) \<Rightarrow>
                          if res = Ok True then (Fail (Errorf ''login blocked by security policy''), (r1, a1), st1)
                          else if level = RiskLevelHigh then (Fail (Errorf ''login blocked due to high risk''), (r1, a1), st1)
                          else (Ok (), (r1, a1), st1)))))"

text \<open>Both branches use the user only to print its name, which panics for a nil pointer.\<close>

definition checkMfaRequired :: "('r \<times> 's) \<times> wstate \<Rightarrow> (go_error, unit) outcome \<times> (('r \<times> 's) \<times> wstate)" where
  "checkMfaRequired s =
     (case snd s ''user'' of
        Some (WUser user) \<Rightarrow>
          (let required = (case snd s ''risk_level'' of
                 Some (WRiskLevel level) \<Rightarrow> level = RiskLevelMedium \<or> level = RiskLevelHigh | _ \<Rightarrow> True);
               s1 = (fst s, (snd s)(''mfa_required'' \<mapsto> WBool required))
           in case (user, snd s ''risk_level'') of
                (Some _, _) \<Rightarrow> (Ok (), s1)
              | (None, Some (WRiskLevel _)) \<Rightarrow> (Panic, s)
              | (None, _) \<Rightarrow> (Panic, s1))
      | _ \<Rightarrow> (Panic, s))"

definition dummy_token :: Token where
  "dummy_token = \<lparr>AccessToken = ''dummy-access-token'', RefreshToken = [], TokenType = ''Bearer'', ExpiresIn = 0, IDToken = []\<rparr>"

definition issueTokens :: "('r \<times> 's) \<times> wstate \<Rightarrow> (go_error, unit) outcome \<times> (('r \<times> 's) \<times> wstate)" where
  "issueTokens s =
     (case user_of (snd s) of
        None \<Rightarrow> (Panic, s)
      | Some user \<Rightarrow> (Ok (), fst s, (snd s)(''tokens'' \<mapsto> WToken dummy_token)))"

definition standard_auth_flow :: "('r, 's) AuthWorkflow \<Rightarrow> ('r \<times> 's) Workflow" where
  "standard_auth_flow awf =
     \<lparr>WfName = ''standard_auth_flow'',
      WfSteps = [\<lparr>StName = ''validate_input'', StFunc = validateInput\<rparr>,
        \<lparr>StName = ''authenticate_primary'', StFunc = authenticatePrimary\<rparr>,
        \<lparr>StName = ''assess_risk'', StFunc = assessRisk awf\<rparr>,
        \<lparr>StName = ''check_mfa_required'', StFunc = checkMfaRequired\<rparr>,
        \<lparr>StName = ''issue_tokens'', StFunc = issueTokens\<rparr>]\<rparr>"

definition NewAuthWorkflow :: "('r \<times> 's) orchestrator \<Rightarrow> ('r, 's) AuthWorkflow \<Rightarrow> ('r \<times> 's) orchestrator" where
  "NewAuthWorkflow e awf = snd (RegisterWorkflow e (standard_auth_flow awf))"

section \<open>Types of the shared state\<close>

text \<open>The Go types that the steps write under their keys, and that they assert when they read them back.\<close>

fun has_type :: "string \<Rightarrow> wvalue \<Rightarrow> bool" where
  "has_type k v =
     (if k = ''username'' then (case v of WString _ \<Rightarrow> True | _ \<Rightarrow> False)
      else if k = ''user'' then (case v of WUser (Some _) \<Rightarrow> True | _ \<Rightarrow> False)
      else if k = ''risk_score'' then (case v of WRiskScore _ \<Rightarrow> True | _ \<Rightarrow> False)
      else if k = ''risk_level'' then (case v of WRiskLevel _ \<Rightarrow> True | _ \<Rightarrow> False)
      else if k = ''mfa_required'' then (case v of WBool _ \<Rightarrow> True | _ \<Rightarrow> False)
      else if k = ''tokens'' then (case v of WToken _ \<Rightarrow> True | _ \<Rightarrow> False)
      else True)"

definition typed :: "wstate \<Rightarrow> bool" where
  "typed st \<longleftrightarrow> (\<forall>k v. st k = Some v \<longrightarrow> has_type k v)"

lemma typed_upd [simp]: "typed st \<Longrightarrow> has_type k v \<Longrightarrow> typed (st(k \<mapsto> v))"
  by (simp add: typed_def)

text \<open>A step is safe between two sets of keys if from a typed state with the first keys it does not panic, keeps the types, and sets the second on success.\<close>

definition safe_step :: "string set \<Rightarrow> string set \<Rightarrow> ('w \<times> wstate \<Rightarrow> (go_error, unit) outcome \<times> ('w \<times> wstate)) \<Rightarrow> bool" where
  "safe_step needs gives f \<longleftrightarrow>
     (\<forall>w st. typed st \<longrightarrow> needs \<subseteq> dom st \<longrightarrow>
        fst (f (w, st)) \<noteq> Panic \<and> typed (snd (snd (f (w, st)))) \<and> (fst (f (w, st)) = Ok () \<longrightarrow> gives \<subseteq> dom (snd (snd (f (w, st))))))"

inductive safe_steps :: "string set \<Rightarrow> 'w Step list \<Rightarrow> bool" where
  no_steps: "safe_steps K []"
| first_step: "safe_step K L (StFunc step) \<Longrightarrow> safe_steps L steps \<Longrightarrow> safe_steps K (step # steps)"

lemma run_steps_safe:
  assumes "safe_steps K steps" and "typed st" and "K \<subseteq> dom st"
  shows "fst (run_steps steps (w, st)) \<noteq> Panic \<and> typed (snd (snd (run_steps steps (w, st))))"
  using assms
proof (induction arbitrary: w st rule: safe_steps.induct)
  case (first_step K L step steps)
  obtain res w1 st1 where f: "StFunc step (w, st) = (res, w1, st1)" by (metis prod.exhaust)
  have "res \<noteq> Panic" and t: "typed st1" and d: "res = Ok () \<longrightarrow> L \<subseteq> dom st1"
    using first_step.hyps(1) first_step.prems f unfolding safe_step_def by (metis fst_conv snd_conv)+
  with f first_step.IH [of st1 w1] show ?case by (cases res) auto
qed simp

lemma typedD: "typed st \<Longrightarrow> st k = Some v \<Longrightarrow> has_type k v"
  by (simp add: typed_def)

lemma user_typed: "typed st \<Longrightarrow> {''user''} \<subseteq> dom st \<Longrightarrow> \<exists>u. st ''user'' = Some (WUser (Some u))"
  using typedD [of st "''user''"] by (auto split: wvalue.splits option.splits)

lemma username_typed: "typed st \<Longrightarrow> {''username''} \<subseteq> dom st \<Longrightarrow> \<exists>n. st ''username'' = Some (WString n)"
  using typedD [of st "''username''"] by (auto split: wvalue.splits)

lemma safe_stepI:
  assumes "\<And>w st. typed st \<Longrightarrow> needs \<subseteq> dom st \<Longrightarrow>
    \<exists>res w' st'. f (w, st) = (res, w', st') \<and> res \<noteq> Panic \<and> typed st' \<and> (res = Ok () \<longrightarrow> gives \<subseteq> dom st')"
  shows "safe_step needs gives f"
  unfolding safe_step_def using assms by (metis fst_conv snd_conv)

lemma validateInput_safe: "safe_step {} {''username''} validateInput"
  by (rule safe_stepI) (auto simp: validateInput_def)

lemma authenticatePrimary_safe: "safe_step {''username''} {''user''} authenticatePrimary"
proof (rule safe_stepI, goal_cases)
  case (1 w st)
  with username_typed [OF this] show ?case by (auto simp: authenticatePrimary_def)
qed

lemma checkMfaRequired_safe: "safe_step {''user''} {''user''} checkMfaRequired"
proof (rule safe_stepI, goal_cases)
  case (1 w st)
  with user_typed [OF this] show ?case by (auto simp: checkMfaRequired_def Let_def)
qed

lemma issueTokens_safe: "safe_step {''user''} {} issueTokens"
proof (rule safe_stepI, goal_cases)
  case (1 w st)
  with user_typed [OF this] show ?case by (auto simp: issueTokens_def user_of_def)
qed

section \<open>The contract of the risk engine\<close>

locale risk_assessor =
  fixes Evaluate :: "'r \<Rightarrow> AuthContext \<Rightarrow> (go_error, real \<times> RiskLevel) outcome \<times> 'r"
  assumes no_panic: "fst (Evaluate r ac) \<noteq> Panic"
    and known_level: "Evaluate r ac = (Ok (score, level), r') \<Longrightarrow> level \<in> {RiskLevelLow, RiskLevelMedium, RiskLevelHigh}"
begin

lemma assessRisk_safe:
  assumes "awf_Evaluate awf = Evaluate"
    and "\<And>input a. fst (automator_Execute (awf_order awf) (awf_registry awf) (awf_policies awf) input a) \<noteq> Panic"
  shows "safe_step {''user''} {''user''} (assessRisk awf)"
proof (rule safe_stepI, goal_cases)
  case (1 w st)
  obtain r a where w: "w = (r, a)" by fastforce
  from user_typed [OF 1] obtain u where u: "user_of st = Some u" and d: "''user'' \<in> dom st" by (auto simp: user_of_def dom_def)
  obtain res r1 where e: "Evaluate r (risk_context awf u st) = (res, r1)" by fastforce
  with no_panic have "res \<noteq> Panic" by (metis fst_conv)
  then consider err where "res = Fail err" | score level where "res = Ok (score, level)"
    by (cases res) auto
  then show ?case
  proof cases
    case 1
    with w u e assms(1) d \<open>typed st\<close> show ?thesis by (simp add: assessRisk_def)
  next
    case 2
    obtain b a1 where x: "automator_Execute (awf_order awf) (awf_registry awf) (awf_policies awf) (action_input u st score) a = (b, a1)"
      by fastforce
    with assms(2) have "b \<noteq> Panic" by (metis fst_conv)
    with x w u e assms(1) d \<open>typed st\<close> 2 show ?thesis by (cases b) (auto simp: assessRisk_def Let_def)
  qed
qed

lemma standard_flow_safe:
  assumes "awf_Evaluate awf = Evaluate"
    and "\<And>input a. fst (automator_Execute (awf_order awf) (awf_registry awf) (awf_policies awf) input a) \<noteq> Panic"
  shows "safe_steps {} (WfSteps (standard_auth_flow awf))"
  using validateInput_safe authenticatePrimary_safe assessRisk_safe [OF assms] checkMfaRequired_safe issueTokens_safe
  by (simp add: standard_auth_flow_def) (intro first_step no_steps; simp)

end
definition geo_engine :: "RiskConfig \<Rightarrow> (real \<times> real \<Rightarrow> real \<times> real) \<Rightarrow> (string \<Rightarrow> (real \<times> real) option) \<Rightarrow> geo_space RiskEngine" where
  "geo_engine cfg snap locate = \<lparr>re_config = cfg, re_client = geo_client snap, re_geoIPReader = Reader locate\<rparr>"

lemma geo_location_no_panic: "GetLastLoginLocation (geo_client snap) r u \<noteq> Panic"
  by (auto simp: GetLastLoginLocation_def geo_client_def Let_def split: list.splits option.splits)

lemma travel_no_panic: "travel_CalculateRisk (geo_client snap) now r u lat lon \<noteq> Panic"
  using geo_location_no_panic [of snap r u] by (auto simp: travel_CalculateRisk_def Let_def split: outcome.splits)

lemma known_device_no_panic: "isKnownDevice (geo_client snap) r u fp \<noteq> Panic"
  by (simp add: isKnownDevice_def geo_client_def)

interpretation gre: risk_assessor "risk_Evaluate (geo_engine cfg snap locate) now" for cfg snap locate now
proof (unfold_locales, goal_cases)
  case (1 r ac)
  show ?case using travel_no_panic [of snap now r] known_device_no_panic [of snap r]
    by (auto simp: risk_Evaluate_def geo_engine_def Let_def split: outcome.splits option.splits prod.splits)
next
  case (2 r ac score level r')
  then show ?case
    by (auto simp: risk_Evaluate_def Let_def Level_def split: outcome.splits prod.splits if_splits)
qed

lemma automator_no_panic:
  assumes "\<And>a input s. a \<in> ran registry \<Longrightarrow> fst (SAExecute a input s) \<noteq> Panic" and "\<And>as. set (order as) = set as"
  shows "fst (automator_Execute order registry policies input s) \<noteq> Panic"
proof -
  let ?as = "actions_to_run registry policies input"
  have "set ?as \<subseteq> ran registry" by (auto simp: actions_to_run_def List.map_filter_def ran_def)
  then obtain s' where "run_actions input (order ?as) s = (True, s')"
    using run_actions_True [of "order ?as" input s] assms by blast
  then show ?thesis by (simp add: automator_Execute_def Let_def)
qed

text \<open>
  C26: The login workflow is type safe. From a caller's map whose entries have the types that the steps assert, with the risk engine over the login history and
  security actions that do not panic themselves, no step fails a type assertion or meets a nil user, and the map is left with entries of the right types whatever the outcome.
\<close>

theorem workflow_type_safe:
  assumes "e ''standard_auth_flow'' = Some (standard_auth_flow awf)"
    and "awf_Evaluate awf = risk_Evaluate (geo_engine cfg snap locate) now"
    and "\<And>a input s. a \<in> ran (awf_registry awf) \<Longrightarrow> fst (SAExecute a input s) \<noteq> Panic" and "\<And>as. set (awf_order awf as) = set as"
    and "typed st"
  shows "fst (workflow_Execute e ''standard_auth_flow'' (w, st)) \<noteq> Panic \<and> typed (snd (snd (workflow_Execute e ''standard_auth_flow'' (w, st))))"
proof -
  have "safe_steps {} (WfSteps (standard_auth_flow awf))"
    by (rule gre.standard_flow_safe [OF assms(2)]) (rule automator_no_panic [OF assms(3,4)])
  from run_steps_safe [OF this assms(5), of w] assms(1) show ?thesis
    by (cases "run_steps (WfSteps (standard_auth_flow awf)) (w, st)"; cases "fst (run_steps (WfSteps (standard_auth_flow awf)) (w, st))")
      (auto simp: workflow_Execute_def)
qed

section \<open>Decisions\<close>

text \<open>
  The login workflow on a map with a user name and a password: the login is refused when a triggered policy blocks it and when the risk is high; otherwise
  tokens are in the map that is returned, whether or not a second factor is marked as required. A refusal leaves the user and the risk in the
  caller's map, without tokens.
\<close>

theorem standard_flow_exact:
  assumes "e ''standard_auth_flow'' = Some (standard_auth_flow awf)"
    and "st ''username'' = Some (WString n)" and "st ''password'' = Some p"
    and "user = zero_user\<lparr>UID := ''user-123'', Username := n\<rparr>"
    and "awf_Evaluate awf r (risk_context awf user st) = (Ok (score, level), r')"
    and "automator_Execute (awf_order awf) (awf_registry awf) (awf_policies awf) (action_input user st score) a = (Ok blocked, a')"
    and "st1 = st(''user'' \<mapsto> WUser (Some user), ''risk_score'' \<mapsto> WRiskScore score, ''risk_level'' \<mapsto> WRiskLevel level)"
    and "st2 = st1(''mfa_required'' \<mapsto> WBool (level = RiskLevelMedium), ''tokens'' \<mapsto> WToken dummy_token)"
  shows "workflow_Execute e ''standard_auth_flow'' ((r, a), st)
    = (if blocked then (Fail (Wrapf ''step assess_risk failed'' (Errorf ''login blocked by security policy'')), (r', a'), st1)
       else if level = RiskLevelHigh then (Fail (Wrapf ''step assess_risk failed'' (Errorf ''login blocked due to high risk'')), (r', a'), st1)
       else (Ok st2, (r', a'), st2))"
proof -
  have c: "risk_context awf user (st(''user'' \<mapsto> WUser (Some user))) = risk_context awf user st"
    and i: "action_input user (st(''user'' \<mapsto> WUser (Some user))) score = action_input user st score"
    by (simp_all add: risk_context_def action_input_def)
  have v: "validateInput ((r, a), st) = (Ok (), (r, a), st)" using assms(2,3) by (simp add: validateInput_def)
  have p: "authenticatePrimary ((r, a), st) = (Ok (), (r, a), st(''user'' \<mapsto> WUser (Some user)))"
    using assms(2,4) by (simp add: authenticatePrimary_def)
  have k: "assessRisk awf ((r, a), st(''user'' \<mapsto> WUser (Some user)))
      = ((if blocked then Fail (Errorf ''login blocked by security policy'')
          else if level = RiskLevelHigh then Fail (Errorf ''login blocked due to high risk'') else Ok ()), (r', a'), st1)"
    using assms(5-7) c i by (simp add: assessRisk_def user_of_def Let_def)
  have m: "checkMfaRequired ((r', a'), st1) = (Ok (), (r', a'), st1(''mfa_required'' \<mapsto> WBool (level = RiskLevelMedium)))"
    if "level \<noteq> RiskLevelHigh"
    using that assms(7) by (simp add: checkMfaRequired_def Let_def)
  have t: "issueTokens ((r', a'), st1(''mfa_required'' \<mapsto> WBool (level = RiskLevelMedium))) = (Ok (), (r', a'), st2)"
    using assms(7,8) by (simp add: issueTokens_def user_of_def)
  show ?thesis
    using assms(1) v p k m t by (simp add: workflow_Execute_def standard_auth_flow_def)
qed
section \<open>The password\<close>

text \<open>Two runs that differ in the password only, by the steps they take.\<close>

definition agree :: "wstate \<Rightarrow> wstate \<Rightarrow> bool" where
  "agree st st' \<longleftrightarrow> (\<forall>k. k \<noteq> ''password'' \<longrightarrow> st k = st' k) \<and> (st ''password'' = None \<longleftrightarrow> st' ''password'' = None)"

definition same_but_password :: "'w \<times> wstate \<Rightarrow> 'w \<times> wstate \<Rightarrow> bool" where
  "same_but_password s t \<longleftrightarrow> fst s = fst t \<and> agree (snd s) (snd t)"

definition blind :: "('w \<times> wstate \<Rightarrow> (go_error, unit) outcome \<times> ('w \<times> wstate)) \<Rightarrow> bool" where
  "blind f \<longleftrightarrow> (\<forall>s t. same_but_password s t \<longrightarrow> fst (f s) = fst (f t) \<and> same_but_password (snd (f s)) (snd (f t)))"

lemma same_but_password_pair [simp]: "same_but_password (w, st) (w', st') \<longleftrightarrow> w = w' \<and> agree st st'"
  by (simp add: same_but_password_def)

lemma agree_upd [simp]: "agree st st' \<Longrightarrow> agree (st(k \<mapsto> v)) (st'(k \<mapsto> v))"
  by (simp add: agree_def)

lemma blindI:
  assumes "\<And>w st st'. agree st st' \<Longrightarrow>
    fst (f (w, st)) = fst (f (w, st')) \<and> same_but_password (snd (f (w, st))) (snd (f (w, st')))"
  shows "blind f"
  unfolding blind_def using assms by simp

lemma run_steps_blind:
  assumes "\<And>step. step \<in> set steps \<Longrightarrow> blind (StFunc step)" and "same_but_password s t"
  shows "fst (run_steps steps s) = fst (run_steps steps t) \<and> same_but_password (snd (run_steps steps s)) (snd (run_steps steps t))"
  using assms
proof (induction steps arbitrary: s t)
  case (Cons step steps)
  obtain res s1 t1 where f: "StFunc step s = (res, s1)" "StFunc step t = (res, t1)" "same_but_password s1 t1"
    using Cons.prems unfolding blind_def by (metis list.set_intros(1) prod.collapse)
  with Cons.IH [of s1 t1] Cons.prems(1) show ?case by (cases res) auto
qed simp

lemma same_keys:
  assumes "agree st st'"
  shows "k \<noteq> ''password'' \<Longrightarrow> st k = st' k" and "st ''password'' = None \<longleftrightarrow> st' ''password'' = None"
  using assms by (simp_all add: agree_def)

lemma validateInput_blind: "blind validateInput"
  by (rule blindI) (auto simp: validateInput_def same_keys)

lemma authenticatePrimary_blind: "blind authenticatePrimary"
  by (rule blindI) (auto simp: authenticatePrimary_def same_keys(1) split: option.split wvalue.split)

lemma assessRisk_blind: "blind (assessRisk awf)"
proof (rule blindI, goal_cases)
  case (1 w st st')
  then have "user_of st' = user_of st" "risk_context awf u st' = risk_context awf u st" "action_input u st' score = action_input u st score" for u score
    by (simp_all add: user_of_def risk_context_def action_input_def same_keys(1) [OF 1])
  with 1 show ?case
    by (auto simp: assessRisk_def Let_def split: prod.split option.split outcome.split)
qed

lemma checkMfaRequired_blind: "blind checkMfaRequired"
proof (rule blindI, goal_cases)
  case (1 w st st')
  then have "st' ''user'' = st ''user''" "st' ''risk_level'' = st ''risk_level''" by (simp_all add: same_keys(1) [OF 1])
  with 1 show ?case by (auto simp: checkMfaRequired_def Let_def split: option.split wvalue.split)
qed

lemma issueTokens_blind: "blind issueTokens"
proof (rule blindI, goal_cases)
  case (1 w st st')
  then have "user_of st' = user_of st" by (simp add: user_of_def same_keys(1) [OF 1])
  with 1 show ?case by (auto simp: issueTokens_def split: option.split)
qed

text \<open>
  The login workflow accepts every password: with any other password the outcome is the same, and the states are the same apart from the password.
\<close>

theorem workflow_ignores_password:
  assumes "e ''standard_auth_flow'' = Some (standard_auth_flow awf)"
  shows "\<exists>res w' st1 st2. run_steps (WfSteps (standard_auth_flow awf)) (w, st(''password'' \<mapsto> p)) = (res, w', st1)
    \<and> run_steps (WfSteps (standard_auth_flow awf)) (w, st(''password'' \<mapsto> q)) = (res, w', st2)
    \<and> st1(''password'' := None) = st2(''password'' := None)
    \<and> (fst (workflow_Execute e ''standard_auth_flow'' (w, st(''password'' \<mapsto> p))) = Ok st1
        \<longleftrightarrow> fst (workflow_Execute e ''standard_auth_flow'' (w, st(''password'' \<mapsto> q))) = Ok st2)"
proof -
  let ?steps = "WfSteps (standard_auth_flow awf)"
  let ?p = "run_steps ?steps (w, st(''password'' \<mapsto> p))" and ?q = "run_steps ?steps (w, st(''password'' \<mapsto> q))"
  have "blind (StFunc step)" if "step \<in> set ?steps" for step
    using that validateInput_blind authenticatePrimary_blind assessRisk_blind checkMfaRequired_blind issueTokens_blind
    by (auto simp: standard_auth_flow_def)
  then have s: "fst ?p = fst ?q" "same_but_password (snd ?p) (snd ?q)"
    using run_steps_blind [of ?steps "(w, st(''password'' \<mapsto> p))" "(w, st(''password'' \<mapsto> q))"]
    by (auto simp: agree_def)
  obtain res w' st1 where p: "?p = (res, w', st1)" by (rule prod_cases3)
  moreover obtain res' w'' st2 where q: "?q = (res', w'', st2)" by (rule prod_cases3)
  ultimately have r: "?p = (res, w', st1)" "?q = (res, w', st2)" using s by simp_all
  then have "st1(''password'' := None) = st2(''password'' := None)" using s(2) by (simp add: agree_def fun_eq_iff)
  with r assms show ?thesis by (cases res) (auto simp: workflow_Execute_def)
qed

section \<open>Witnesses\<close>

lemma NewAuthWorkflow_registers:
  "e ''standard_auth_flow'' = None \<Longrightarrow> NewAuthWorkflow e awf ''standard_auth_flow'' = Some (standard_auth_flow awf)"
  by (simp add: NewAuthWorkflow_def RegisterWorkflow_def standard_auth_flow_def)

definition demo_auth_workflow :: "(geo_space, unit) AuthWorkflow" where
  "demo_auth_workflow =
     \<lparr>awf_Evaluate = risk_Evaluate (geo_engine (re_config (demo_risk_engine NilInterface)) id (\<lambda>_. None)) 5, awf_order = id, awf_registry = Map.empty,
      awf_policies = [], awf_now = 5\<rparr>"

lemma demo_auth_workflow_sel:
  "awf_Evaluate demo_auth_workflow = risk_Evaluate (geo_engine (re_config (demo_risk_engine NilInterface)) id (\<lambda>_. None)) 5"
  "awf_order demo_auth_workflow = id" "awf_registry demo_auth_workflow = Map.empty"
  by (simp_all add: demo_auth_workflow_def)

theorem workflow_type_safe_witness:
  "fst (workflow_Execute (NewAuthWorkflow Map.empty demo_auth_workflow) ''standard_auth_flow'' ((no_history, ()), [''username'' \<mapsto> WString ''ann'', ''password'' \<mapsto> WString ''pw''])) \<noteq> Panic"
proof (rule workflow_type_safe [THEN conjunct1])
  show "NewAuthWorkflow Map.empty demo_auth_workflow ''standard_auth_flow'' = Some (standard_auth_flow demo_auth_workflow)"
    by (rule NewAuthWorkflow_registers) simp
  show "awf_Evaluate demo_auth_workflow = risk_Evaluate (geo_engine (re_config (demo_risk_engine NilInterface)) id (\<lambda>_. None)) 5"
    by (rule demo_auth_workflow_sel)
  have "typed [''username'' \<mapsto> WString ''ann'']" by (rule typed_upd) (simp_all add: typed_def)
  then show "typed [''username'' \<mapsto> WString ''ann'', ''password'' \<mapsto> WString ''pw'']" by (rule typed_upd) simp
qed (simp_all add: demo_auth_workflow_sel)

definition demo_login_state :: wstate where
  "demo_login_state = [''username'' \<mapsto> WString ''ann'', ''password'' \<mapsto> WString ''pw'']"

definition steady_workflow :: "(unit, unit) AuthWorkflow" where
  "steady_workflow =
     \<lparr>awf_Evaluate = (\<lambda>r ac. (Ok (1 / 2, RiskLevelMedium), r)), awf_order = id, awf_registry = Map.empty, awf_policies = [], awf_now = 5\<rparr>"

theorem standard_flow_exact_witness:
  "\<exists>st'. workflow_Execute (NewAuthWorkflow Map.empty steady_workflow) ''standard_auth_flow'' (((), ()), demo_login_state) = (Ok st', ((), ()), st')
     \<and> st' ''mfa_required'' = Some (WBool True) \<and> st' ''tokens'' = Some (WToken dummy_token)"
  using standard_flow_exact [of "NewAuthWorkflow Map.empty steady_workflow" steady_workflow demo_login_state "''ann''" "WString ''pw''" _ "()" "1 / 2" RiskLevelMedium "()" "()" False "()", OF _ _ _ refl _ _ refl refl]
  by (simp add: NewAuthWorkflow_registers demo_login_state_def steady_workflow_def automator_Execute_def actions_to_run_def triggered_def RiskLevelMedium_def RiskLevelHigh_def)

theorem workflow_ignores_password_witness:
  "\<exists>res w' st1 st2. run_steps (WfSteps (standard_auth_flow steady_workflow)) (((), ()), demo_login_state(''password'' \<mapsto> WString ''a'')) = (res, w', st1)
    \<and> run_steps (WfSteps (standard_auth_flow steady_workflow)) (((), ()), demo_login_state(''password'' \<mapsto> WString ''b'')) = (res, w', st2)"
  using workflow_ignores_password [of "NewAuthWorkflow Map.empty steady_workflow" steady_workflow "((), ())" demo_login_state "WString ''a''" "WString ''b''"]
  by (auto simp: NewAuthWorkflow_registers)

end
