(* ===== verification/SCIM.thy ===== *)
theory SCIM
  imports Identity_Service
begin

text \<open>
  Provisioning over SCIM: the resources of \<^verbatim>\<open>pkg/scim\<close>, the adapter \<^verbatim>\<open>internal/protocols/scim/adapter.go\<close> and the handlers of
  \<^verbatim>\<open>internal/server/http/handlers/scim.go\<close> over the identity service. A handler takes the decoded body, None when it does not decode,
  and gives the status and the body of the response. The time format and the members that a loaded group carries are arguments.
\<close>

section \<open>Resources\<close>

record ScimMeta =
  MtResourceType :: string
  MtCreated :: string
  MtLastModified :: string
  MtLocation :: string
  MtVersion :: string

record ScimName =
  NmFormatted :: string
  NmFamilyName :: string
  NmGivenName :: string
  NmMiddleName :: string
  NmHonorificPrefix :: string
  NmHonorificSuffix :: string

record ScimContact =
  CtValue :: string
  CtType :: string
  CtPrimary :: bool

record ScimReference =
  RefValue :: string
  RefDisplay :: string
  RefRef :: string

record ScimUser =
  SuSchemas :: "string list"
  SuID :: string
  SuMeta :: "ScimMeta option"
  SuUserName :: string
  SuExternalID :: string
  SuActive :: bool
  SuName :: "ScimName option"
  SuEmails :: "ScimContact list"
  SuPhoneNumbers :: "ScimContact list"
  SuGroups :: "ScimReference list"

record ScimGroup =
  SgSchemas :: "string list"
  SgID :: string
  SgMeta :: "ScimMeta option"
  SgDisplayName :: string
  SgExternalID :: string
  SgMembers :: "ScimReference list"

record 'a ListResponse =
  LrSchemas :: "string list"
  LrTotalResults :: int
  LrItemsPerPage :: int
  LrStartIndex :: int
  LrResources :: "'a list"

record ScimError =
  SeSchemas :: "string list"
  SeStatus :: string
  SeScimType :: string
  SeDetail :: string

definition SchemaUser :: string where "SchemaUser = ''urn:ietf:params:scim:schemas:core:2.0:User''"
definition SchemaGroup :: string where "SchemaGroup = ''urn:ietf:params:scim:schemas:core:2.0:Group''"
definition SchemaListResponse :: string where "SchemaListResponse = ''urn:ietf:params:scim:api:messages:2.0:ListResponse''"
definition SchemaError :: string where "SchemaError = ''urn:ietf:params:scim:api:messages:2.0:Error''"

section \<open>The adapter\<close>

text \<open>The loop over e-mail addresses and the one over telephone numbers: a primary value replaces what is there.\<close>

definition pick_contact :: "ScimContact list \<Rightarrow> string" where
  "pick_contact cs = foldl (\<lambda>v c. if CtPrimary c \<or> v = [] then CtValue c else v) [] cs"

definition name_map :: "ScimName \<Rightarrow> (string \<times> gvalue) list" where
  "name_map n =
     (if NmGivenName n \<noteq> [] then [(''givenName'', VString (NmGivenName n))] else [])
     @ (if NmFamilyName n \<noteq> [] then [(''familyName'', VString (NmFamilyName n))] else [])
     @ (if NmFormatted n \<noteq> [] then [(''formatted'', VString (NmFormatted n))] else [])"

definition domain_attributes :: "ScimUser \<Rightarrow> (string \<times> gvalue) list" where
  "domain_attributes sUser =
     (if SuExternalID sUser \<noteq> [] then [(''externalId'', VString (SuExternalID sUser))] else [])
     @ (case SuName sUser of None \<Rightarrow> [] | Some n \<Rightarrow> [(''name'', VMap (name_map n))])"

definition ToDomainUser :: "ScimUser \<Rightarrow> User" where
  "ToDomainUser sUser =
     zero_user\<lparr>Username := SuUserName sUser, Status := (if SuActive sUser then UserStatusActive else UserStatusInactive),
       UAttributes := Some (map_of (domain_attributes sUser)), Email := pick_contact (SuEmails sUser),
       Phone := pick_contact (SuPhoneNumbers sUser)\<rparr>"

definition scim_attribute :: "gmap option \<Rightarrow> string \<Rightarrow> gvalue option" where
  "scim_attribute m k = (case m of None \<Rightarrow> None | Some f \<Rightarrow> f k)"

definition json_text :: "gvalue option \<Rightarrow> string" where
  "json_text v = (case v of Some (VString s) \<Rightarrow> s | _ \<Rightarrow> [])"

definition work_contact :: "string \<Rightarrow> ScimContact list" where
  "work_contact v = (if v = [] then [] else [\<lparr>CtValue = v, CtType = ''work'', CtPrimary = True\<rparr>])"

definition scim_meta :: "(time \<Rightarrow> string) \<Rightarrow> string \<Rightarrow> time \<Rightarrow> time \<Rightarrow> ScimMeta" where
  "scim_meta fmt kind created modified =
     \<lparr>MtResourceType = kind, MtCreated = fmt created, MtLastModified = fmt modified, MtLocation = [], MtVersion = []\<rparr>"

definition scim_name :: "gvalue option \<Rightarrow> ScimName option" where
  "scim_name v =
     (case v of
        Some (VMap kvs) \<Rightarrow>
          Some \<lparr>NmFormatted = json_text (map_of kvs ''formatted''), NmFamilyName = json_text (map_of kvs ''familyName''),
                NmGivenName = json_text (map_of kvs ''givenName''), NmMiddleName = [], NmHonorificPrefix = [], NmHonorificSuffix = []\<rparr>
      | _ \<Rightarrow> None)"

definition ToSCIMUser :: "(time \<Rightarrow> string) \<Rightarrow> User \<Rightarrow> ScimUser" where
  "ToSCIMUser fmt user =
     \<lparr>SuSchemas = [SchemaUser], SuID = UID user, SuMeta = Some (scim_meta fmt ''User'' (UCreatedAt user) (UUpdatedAt user)),
      SuUserName = Username user, SuExternalID = json_text (scim_attribute (UAttributes user) ''externalId''),
      SuActive = (Status user = UserStatusActive), SuName = scim_name (scim_attribute (UAttributes user) ''name''),
      SuEmails = work_contact (Email user), SuPhoneNumbers = work_contact (Phone user), SuGroups = []\<rparr>"

definition ToDomainGroup :: "ScimGroup \<Rightarrow> UserGroup" where
  "ToDomainGroup sGroup =
     \<lparr>GID = [], GName = SgDisplayName sGroup, GDescription = [], GParentID = None,
      GMetadata = (if SgExternalID sGroup \<noteq> [] then [''externalId'' \<mapsto> VString (SgExternalID sGroup)] else Map.empty),
      GCreatedAt = zero_time, GUpdatedAt = zero_time\<rparr>"

definition scim_member :: "User \<Rightarrow> ScimReference" where
  "scim_member u = \<lparr>RefValue = UID u, RefDisplay = Username u, RefRef = ''/scim/v2/Users/'' @ UID u\<rparr>"

definition ToSCIMGroup :: "(time \<Rightarrow> string) \<Rightarrow> User list \<Rightarrow> UserGroup \<Rightarrow> ScimGroup" where
  "ToSCIMGroup fmt users g =
     \<lparr>SgSchemas = [SchemaGroup], SgID = GID g, SgMeta = Some (scim_meta fmt ''Group'' (GCreatedAt g) (GUpdatedAt g)),
      SgDisplayName = GName g, SgExternalID = json_text (GMetadata g ''externalId''), SgMembers = map scim_member users\<rparr>"

section \<open>The filter of a list request\<close>

text \<open>The expression \<^verbatim>\<open>userName\s+eq\s+"([^"]+)"\<close>, searched from the left.\<close>

definition regex_space :: "char \<Rightarrow> bool" where
  "regex_space c \<longleftrightarrow> c = CHR '' '' \<or> of_char c \<in> {9, 10, 12, 13 :: nat}"

definition after_text :: "string \<Rightarrow> string \<Rightarrow> string option" where
  "after_text p s = (if take (length p) s = p then Some (drop (length p) s) else None)"

definition after_spaces :: "string \<Rightarrow> string option" where
  "after_spaces s = (case s of [] \<Rightarrow> None | c # cs \<Rightarrow> if regex_space c then Some (dropWhile regex_space cs) else None)"

definition in_quotes :: "string \<Rightarrow> string option" where
  "in_quotes s =
     (case s of
        [] \<Rightarrow> None
      | c # cs \<Rightarrow>
          (let v = takeWhile (\<lambda>x. x \<noteq> CHR 0x22) cs
           in if c = CHR 0x22 \<and> v \<noteq> [] \<and> length v < length cs then Some v else None))"

definition filter_at :: "string \<Rightarrow> string option" where
  "filter_at s =
     Option.bind (after_text ''userName'' s) (\<lambda>s. Option.bind (after_spaces s) (\<lambda>s.
       Option.bind (after_text ''eq'' s) (\<lambda>s. Option.bind (after_spaces s) in_quotes)))"

fun find_filter :: "string \<Rightarrow> string option" where
  "find_filter [] = filter_at []"
| "find_filter (c # cs) = (case filter_at (c # cs) of Some v \<Rightarrow> Some v | None \<Rightarrow> find_filter cs)"

section \<open>The handlers\<close>

datatype scim_body =
    UserBody ScimUser
  | GroupBody ScimGroup
  | UsersBody "ScimUser ListResponse"
  | GroupsBody "ScimGroup ListResponse"
  | ErrorBody ScimError
  | NoBody

type_synonym scim_response = "int \<times> scim_body"

record 's SCIMHandler =
  sh_users :: "'s UserRepository"
  sh_groups :: "'s GroupRepository"
  sh_HashPassword :: "string \<Rightarrow> (go_error, string) outcome"
  sh_format :: "time \<Rightarrow> string"
  sh_members :: "UserGroup \<Rightarrow> User list"

definition writeError :: "int \<Rightarrow> string \<Rightarrow> string \<Rightarrow> scim_response" where
  "writeError status scimType detail =
     (status, ErrorBody \<lparr>SeSchemas = [SchemaError], SeStatus = show_int status, SeScimType = scimType, SeDetail = detail\<rparr>)"

abbreviation internal_error :: scim_response where
  "internal_error \<equiv> writeError 500 [] ''Internal server error''"

abbreviation bad_request :: scim_response where
  "bad_request \<equiv> writeError 400 ''invalidSyntax'' ''Failed to parse request body''"

definition scim_CreateUser ::
    "'s SCIMHandler \<Rightarrow> (go_error, string) outcome \<Rightarrow> string \<Rightarrow> 's \<Rightarrow> err_store \<Rightarrow> ScimUser option \<Rightarrow> ('s, scim_response) svc option" where
  "scim_CreateUser sh random uuid s h body =
     (case body of
        None \<Rightarrow> Some (Ok bad_request, s, h)
      | Some sUser \<Rightarrow>
          (let dUser = ToDomainUser sUser; attrs = domain_attributes sUser
           in case random of
                Panic \<Rightarrow> Some (Panic, s, h)
              | Fail err \<Rightarrow> Some (Ok internal_error, s, h)
              | Ok password \<Rightarrow>
                  (case svc_CreateUser (sh_users sh) (sh_HashPassword sh) uuid s h (Username dUser) (Email dUser) password of
                     None \<Rightarrow> None
                   | Some (Panic, s', h') \<Rightarrow> Some (Panic, s', h')
                   | Some (Fail err, s', h') \<Rightarrow>
                       (case errors_Is h' err ErrConflict of
                          None \<Rightarrow> None
                        | Some True \<Rightarrow> Some (Ok (writeError 409 ''uniqueness'' ''User already exists''), s', h')
                        | Some False \<Rightarrow> Some (Ok internal_error, s', h'))
                   | Some (Ok createdUser, s', h') \<Rightarrow>
                       if attrs = [] then Some (Ok (201, UserBody (ToSCIMUser (sh_format sh) createdUser)), s', h')
                       else let u = createdUser\<lparr>UAttributes :=
                                  Some ((case UAttributes createdUser of None \<Rightarrow> Map.empty | Some m \<Rightarrow> m) ++ map_of attrs)\<rparr>
                            in case svc_UpdateUser (sh_users sh) s' h' u of
                                 (Panic, s2, h2) \<Rightarrow> Some (Panic, s2, h2)
                               | (_, s2, h2) \<Rightarrow> Some (Ok (201, UserBody (ToSCIMUser (sh_format sh) u)), s2, h2))))"

text \<open>How the handlers answer an error of the service: \<^verbatim>\<open>errors.Is(err, types.ErrNotFound)\<close> decides.\<close>

definition not_found_or_500 :: "err_store \<Rightarrow> go_error \<Rightarrow> string \<Rightarrow> scim_response option" where
  "not_found_or_500 h err detail =
     (case errors_Is h err ErrNotFound of
        None \<Rightarrow> None
      | Some True \<Rightarrow> Some (writeError 404 [] detail)
      | Some False \<Rightarrow> Some internal_error)"

definition scim_GetUser :: "'s SCIMHandler \<Rightarrow> 's \<Rightarrow> err_store \<Rightarrow> string \<Rightarrow> ('s, scim_response) svc option" where
  "scim_GetUser sh s h i =
     (case svc_GetUserByID (sh_users sh) s h i of
        (Panic, s', h') \<Rightarrow> Some (Panic, s', h')
      | (Fail err, s', h') \<Rightarrow> map_option (\<lambda>resp. (Ok resp, s', h')) (not_found_or_500 h' err (''Resource '' @ i @ '' not found''))
      | (Ok user, s', h') \<Rightarrow> Some (Ok (200, UserBody (ToSCIMUser (sh_format sh) user)), s', h'))"

definition scim_DeleteUser :: "'s SCIMHandler \<Rightarrow> 's \<Rightarrow> err_store \<Rightarrow> string \<Rightarrow> ('s, scim_response) svc option" where
  "scim_DeleteUser sh s h i =
     (case svc_DeleteUser (sh_users sh) s h i of
        None \<Rightarrow> None
      | Some (Panic, s', h') \<Rightarrow> Some (Panic, s', h')
      | Some (Fail err, s', h') \<Rightarrow> map_option (\<lambda>resp. (Ok resp, s', h')) (not_found_or_500 h' err (''Resource '' @ i @ '' not found''))
      | Some (Ok _, s', h') \<Rightarrow> Some (Ok (204, NoBody), s', h'))"

definition scim_ListUsers :: "'s SCIMHandler \<Rightarrow> 's \<Rightarrow> err_store \<Rightarrow> string \<Rightarrow> ('s, scim_response) svc" where
  "scim_ListUsers sh s h filterParam =
     (let query = (if filterParam = [] then [] else case find_filter filterParam of None \<Rightarrow> [] | Some v \<Rightarrow> v)
      in case svc_ListUsers (sh_users sh) s h
                \<lparr>FQuery = query, FStatus = [], FPage = 0, FPageSize = 0, FSortBy = [], FSortOrder = []\<rparr> of
           (Panic, s', h') \<Rightarrow> (Panic, s', h')
         | (Fail _, s', h') \<Rightarrow> (Ok internal_error, s', h')
         | (Ok (users, n), s', h') \<Rightarrow>
             (Ok (200, UsersBody \<lparr>LrSchemas = [SchemaListResponse], LrTotalResults = n, LrItemsPerPage = int (length users), LrStartIndex = 1,
                LrResources = map (ToSCIMUser (sh_format sh)) users\<rparr>), s', h'))"

definition put_user :: "User \<Rightarrow> ScimUser \<Rightarrow> User" where
  "put_user user sUser =
     (let dUser = ToDomainUser sUser
      in user\<lparr>Username := Username dUser, Email := Email dUser, Phone := Phone dUser, Status := Status dUser, UAttributes := UAttributes dUser\<rparr>)"

definition scim_PutUser :: "'s SCIMHandler \<Rightarrow> 's \<Rightarrow> err_store \<Rightarrow> string \<Rightarrow> ScimUser option \<Rightarrow> ('s, scim_response) svc" where
  "scim_PutUser sh s h i body =
     (case svc_GetUserByID (sh_users sh) s h i of
        (Panic, s', h') \<Rightarrow> (Panic, s', h')
      | (Fail _, s', h') \<Rightarrow> (Ok (writeError 404 [] ''User not found''), s', h')
      | (Ok user, s', h') \<Rightarrow>
          (case body of
             None \<Rightarrow> (Ok bad_request, s', h')
           | Some sUser \<Rightarrow>
               (let u = put_user user sUser
                in case svc_UpdateUser (sh_users sh) s' h' u of
                     (Panic, s2, h2) \<Rightarrow> (Panic, s2, h2)
                   | (Fail _, s2, h2) \<Rightarrow> (Ok internal_error, s2, h2)
                   | (Ok _, s2, h2) \<Rightarrow> (Ok (200, UserBody (ToSCIMUser (sh_format sh) u)), s2, h2))))"

fun add_members :: "'s SCIMHandler \<Rightarrow> string \<Rightarrow> ScimReference list \<Rightarrow> 's \<Rightarrow> err_store \<Rightarrow> ('s, unit) svc" where
  "add_members sh gid [] s h = (Ok (), s, h)"
| "add_members sh gid (m # ms) s h =
     (if RefValue m = [] then add_members sh gid ms s h
      else case svc_AddUserToGroup (sh_users sh) (sh_groups sh) s h (RefValue m) gid of
             (Panic, s', h') \<Rightarrow> (Panic, s', h')
           | (_, s', h') \<Rightarrow> add_members sh gid ms s' h')"

text \<open>The store may give the group another identifier than the handler; the object that is returned has it.\<close>

definition scim_CreateGroup :: "'s SCIMHandler \<Rightarrow> string \<Rightarrow> 's \<Rightarrow> err_store \<Rightarrow> ScimGroup option \<Rightarrow> ('s, scim_response) svc" where
  "scim_CreateGroup sh uuid s h body =
     (case body of
        None \<Rightarrow> (Ok bad_request, s, h)
      | Some sGroup \<Rightarrow>
          (case svc_CreateGroup (sh_groups sh) s h ((ToDomainGroup sGroup)\<lparr>GID := uuid\<rparr>) of
             (Panic, s', h') \<Rightarrow> (Panic, s', h')
           | (Fail _, s', h') \<Rightarrow> (Ok internal_error, s', h')
           | (Ok g, s', h') \<Rightarrow>
               (case add_members sh (GID g) (SgMembers sGroup) s' h' of
                  (Panic, s2, h2) \<Rightarrow> (Panic, s2, h2)
                | (_, s2, h2) \<Rightarrow> (Ok (201, GroupBody (ToSCIMGroup (sh_format sh) [] g)), s2, h2))))"

definition scim_GetGroup :: "'s SCIMHandler \<Rightarrow> 's \<Rightarrow> err_store \<Rightarrow> string \<Rightarrow> ('s, scim_response) svc option" where
  "scim_GetGroup sh s h i =
     (case svc_GetGroup (sh_groups sh) s h i of
        (Panic, s', h') \<Rightarrow> Some (Panic, s', h')
      | (Fail err, s', h') \<Rightarrow> map_option (\<lambda>resp. (Ok resp, s', h')) (not_found_or_500 h' err ''Group not found'')
      | (Ok g, s', h') \<Rightarrow> Some (Ok (200, GroupBody (ToSCIMGroup (sh_format sh) (sh_members sh g) g)), s', h'))"

definition put_group :: "UserGroup \<Rightarrow> ScimGroup \<Rightarrow> UserGroup" where
  "put_group g sGroup =
     (let dGroup = ToDomainGroup sGroup
      in g\<lparr>GName := GName dGroup,
           GMetadata := (case GMetadata dGroup ''externalId'' of None \<Rightarrow> GMetadata g | Some v \<Rightarrow> (GMetadata g)(''externalId'' \<mapsto> v))\<rparr>)"

definition scim_PutGroup :: "'s SCIMHandler \<Rightarrow> 's \<Rightarrow> err_store \<Rightarrow> string \<Rightarrow> ScimGroup option \<Rightarrow> ('s, scim_response) svc" where
  "scim_PutGroup sh s h i body =
     (case svc_GetGroup (sh_groups sh) s h i of
        (Panic, s', h') \<Rightarrow> (Panic, s', h')
      | (Fail _, s', h') \<Rightarrow> (Ok (writeError 404 [] ''Group not found''), s', h')
      | (Ok g, s', h') \<Rightarrow>
          (case body of
             None \<Rightarrow> (Ok bad_request, s', h')
           | Some sGroup \<Rightarrow>
               (let g1 = put_group g sGroup
                in case svc_UpdateGroup (sh_groups sh) s' h' g1 of
                     (Panic, s2, h2) \<Rightarrow> (Panic, s2, h2)
                   | (Fail _, s2, h2) \<Rightarrow> (Ok internal_error, s2, h2)
                   | (Ok _, s2, h2) \<Rightarrow> (Ok (200, GroupBody (ToSCIMGroup (sh_format sh) (sh_members sh g) g1)), s2, h2))))"

definition scim_DeleteGroup :: "'s SCIMHandler \<Rightarrow> 's \<Rightarrow> err_store \<Rightarrow> string \<Rightarrow> ('s, scim_response) svc" where
  "scim_DeleteGroup sh s h i =
     (case svc_DeleteGroup (sh_groups sh) s h i of
        (Panic, s', h') \<Rightarrow> (Panic, s', h')
      | (Fail _, s', h') \<Rightarrow> (Ok (writeError 404 [] ''Group not found''), s', h')
      | (Ok _, s', h') \<Rightarrow> (Ok (204, NoBody), s', h'))"

definition scim_ListGroups :: "'s SCIMHandler \<Rightarrow> 's \<Rightarrow> err_store \<Rightarrow> ('s, scim_response) svc" where
  "scim_ListGroups sh s h =
     (case svc_ListGroups (sh_groups sh) s h 0 100 of
        (Panic, s', h') \<Rightarrow> (Panic, s', h')
      | (Fail _, s', h') \<Rightarrow> (Ok internal_error, s', h')
      | (Ok gs, s', h') \<Rightarrow>
          (Ok (200, GroupsBody \<lparr>LrSchemas = [SchemaListResponse], LrTotalResults = int (length gs), LrItemsPerPage = int (length gs),
             LrStartIndex = 1, LrResources = map (\<lambda>g. ToSCIMGroup (sh_format sh) (sh_members sh g) g) gs\<rparr>), s', h'))"
section \<open>Round trip of a user resource\<close>

text \<open>A resource that the server can represent: at most one contact of each kind, the primary one, and a name of the three parts that are kept.\<close>

definition single_contact :: "ScimContact list \<Rightarrow> bool" where
  "single_contact cs \<longleftrightarrow> (\<exists>v. cs = work_contact v)"

definition representable :: "ScimUser \<Rightarrow> bool" where
  "representable su \<longleftrightarrow> single_contact (SuEmails su) \<and> single_contact (SuPhoneNumbers su) \<and> SuGroups su = []
     \<and> (\<forall>n. SuName su = Some n \<longrightarrow> NmMiddleName n = [] \<and> NmHonorificPrefix n = [] \<and> NmHonorificSuffix n = [])"

lemma pick_work_contact [simp]: "pick_contact (work_contact v) = v"
  by (simp add: pick_contact_def work_contact_def)

lemma name_map_lookup:
  "json_text (map_of (name_map n) ''givenName'') = NmGivenName n"
  "json_text (map_of (name_map n) ''familyName'') = NmFamilyName n"
  "json_text (map_of (name_map n) ''formatted'') = NmFormatted n"
  by (simp_all add: name_map_def json_text_def)

lemma domain_attributes_lookup:
  "map_of (domain_attributes su) ''externalId'' = (if SuExternalID su = [] then None else Some (VString (SuExternalID su)))"
  "map_of (domain_attributes su) ''name'' = map_option (\<lambda>n. VMap (name_map n)) (SuName su)"
  by (simp_all add: domain_attributes_def split: option.split)

lemma scim_name_map: "scim_name (Some (VMap (name_map n)))
  = Some (n\<lparr>NmMiddleName := [], NmHonorificPrefix := [], NmHonorificSuffix := []\<rparr>)"
  by (simp add: scim_name_def name_map_lookup)

lemma name_kept:
  assumes "representable su"
  shows "scim_name (map_option (\<lambda>n. VMap (name_map n)) (SuName su)) = SuName su"
proof (cases "SuName su")
  case (Some n)
  with assms have "n\<lparr>NmMiddleName := [], NmHonorificPrefix := [], NmHonorificSuffix := []\<rparr> = n" by (simp add: representable_def)
  with Some show ?thesis by (simp only: option.map scim_name_map)
qed (simp add: scim_name_def)

lemma contact_kept: "single_contact cs \<Longrightarrow> work_contact (pick_contact cs) = cs"
  by (auto simp: single_contact_def)

lemma json_text_simps [simp]: "json_text None = []" "json_text (Some (VString s)) = s"
  by (simp_all add: json_text_def)

lemma ToSCIMUser_put:
  assumes "representable su"
  shows "ToSCIMUser fmt (put_user user su)
    = su\<lparr>SuSchemas := [SchemaUser], SuID := UID user, SuMeta := Some (scim_meta fmt ''User'' (UCreatedAt user) (UUpdatedAt user))\<rparr>"
proof -
  have c: "work_contact (pick_contact (SuEmails su)) = SuEmails su" "work_contact (pick_contact (SuPhoneNumbers su)) = SuPhoneNumbers su"
    using assms by (simp_all add: representable_def contact_kept)
  show ?thesis using assms c name_kept [OF assms]
    by (cases su) (simp add: ToSCIMUser_def put_user_def ToDomainUser_def scim_attribute_def domain_attributes_lookup
        representable_def UserStatusActive_def UserStatusInactive_def)
qed

definition scim_over_memory :: "IdentityMemoryRepository SCIMHandler \<Rightarrow> bool" where
  "scim_over_memory sh \<longleftrightarrow> (\<exists>ord uuid uuid'. sh_users sh = memory_users ord uuid \<and> sh_groups sh = memory_groups ord uuid')"


section \<open>Answers\<close>

text \<open>The service turns every failure of a lookup into a not-found error: a read is answered by the resource or by 404.\<close>

lemma scim_GetUser_status:
  assumes "ur_GetUserByID (sh_users sh) s i \<noteq> Panic"
  shows "\<exists>status body s' h'. scim_GetUser sh s h i = Some (Ok (status, body), s', h') \<and> status \<in> {200, 404}"
  using assms
  by (cases "ur_GetUserByID (sh_users sh) s i")
    (auto simp: scim_GetUser_def svc_GetUserByID_def not_found_or_500_def writeError_def)

lemma internal_is_not_found: "errors_Is (snd (WithCause h ErrInternal (Errorf m))) ErrInternal (Sentinel ''not_found'') = Some False"
  by (cases "h ''internal_error''") (subst errors_Is.simps, simp add: ErrInternal_def WithCause.simps)+

text \<open>
  Over the in-memory repository, deleting a user that does not exist is answered as an internal error: the repository's error is none that the service takes for
  not found.
\<close>

theorem scim_delete_unknown:
  assumes "scim_over_memory sh" and "m_users r i = None"
  shows "\<exists>h'. scim_DeleteUser sh r h i = Some (Ok internal_error, r, h')"
proof -
  obtain ord uuid where u: "sh_users sh = memory_users ord uuid" using assms(1) by (auto simp: scim_over_memory_def)
  show ?thesis using assms(2) u
    by (simp add: scim_DeleteUser_def svc_DeleteUser_def mem_DeleteUser_def user_not_found_def ErrNotFound_def not_found_or_500_def
        internal_is_not_found)
qed
text \<open>
  Over the in-memory repository, a list request finds nobody: the handler asks for page zero of size zero, whatever the filter says. The total that it reports is the number of all users.
\<close>

theorem scim_list_empty:
  assumes "scim_over_memory sh"
  shows "\<exists>n. scim_ListUsers sh r h filterParam
    = (Ok (200, UsersBody \<lparr>LrSchemas = [SchemaListResponse], LrTotalResults = n, LrItemsPerPage = 0, LrStartIndex = 1, LrResources = []\<rparr>), r, h)
      \<and> 0 \<le> n"
proof -
  obtain ord uuid where u: "sh_users sh = memory_users ord uuid" using assms(1) by (auto simp: scim_over_memory_def)
  have "mem_ListUsers (ord ''ListUsers'') r \<lparr>FQuery = q, FStatus = [], FPage = 0, FPageSize = 0, FSortBy = [], FSortOrder = []\<rparr>
      = Ok ([], int (length (range_values (ord ''ListUsers'') (m_users r))))" for q
    by (simp add: mem_ListUsers_def Let_def go_int_def go_slice_int_def go_slice_def)
  then show ?thesis using u by (auto simp: scim_ListUsers_def svc_ListUsers_def Let_def)
qed

text \<open>The filter that the documentation names is understood, for every name without quotes.\<close>

lemma find_filter_user:
  assumes "v \<noteq> []" and "CHR 0x22 \<notin> set v"
  shows "find_filter (''userName eq '' @ CHR 0x22 # v @ [CHR 0x22]) = Some v"
proof -
  have t: "takeWhile (\<lambda>x. x \<noteq> CHR 0x22) (v @ [CHR 0x22]) = v"
    using assms(2) by (subst takeWhile_append2) auto
  have "filter_at (''userName eq '' @ CHR 0x22 # v @ [CHR 0x22]) = Some v"
    using assms(1) t by (simp add: filter_at_def after_text_def after_spaces_def in_quotes_def regex_space_def)
  then show ?thesis by simp
qed

section \<open>Members of a new group\<close>

lemma svc_AddUserToGroup_memory:
  assumes "scim_over_memory sh" and "m_groups r gid \<noteq> None"
  shows "\<exists>res h'. svc_AddUserToGroup (sh_users sh) (sh_groups sh) r h u gid
    = (res, (if m_users r u = None then r
             else r\<lparr>m_userGroups := (m_userGroups r)(u \<mapsto> insert gid (case m_userGroups r u of None \<Rightarrow> {} | Some S \<Rightarrow> S))\<rparr>), h')
      \<and> res \<noteq> Panic"
  using assms
  by (auto simp: scim_over_memory_def memory_groups_def svc_AddUserToGroup_def mem_GetUserByID_def mem_GetGroupByID_def mem_AddUserToGroup_def
      split: option.split)

definition in_group :: "IdentityMemoryRepository \<Rightarrow> string \<Rightarrow> string \<Rightarrow> bool" where
  "in_group r u gid \<longleftrightarrow> (\<exists>S. m_userGroups r u = Some S \<and> gid \<in> S)"

lemma add_members_exact:
  assumes "scim_over_memory sh" and "m_groups r gid \<noteq> None"
  shows "\<exists>r' h'. add_members sh gid ms r h = (Ok (), r', h') \<and> m_users r' = m_users r \<and> m_groups r' = m_groups r
    \<and> (\<forall>u. in_group r' u gid \<longleftrightarrow> in_group r u gid \<or> (u \<noteq> [] \<and> u \<in> RefValue ` set ms \<and> m_users r u \<noteq> None))
    \<and> (\<forall>u g. g \<noteq> gid \<longrightarrow> in_group r' u g = in_group r u g)"
  using assms
proof (induction ms arbitrary: r h)
  case (Cons m ms)
  let ?u = "RefValue m"
  show ?case
  proof (cases "?u = []")
    case True
    with Cons.IH [OF Cons.prems, of h] show ?thesis by auto
  next
    case False
    let ?r = "if m_users r ?u = None then r
      else r\<lparr>m_userGroups := (m_userGroups r)(?u \<mapsto> insert gid (case m_userGroups r ?u of None \<Rightarrow> {} | Some S \<Rightarrow> S))\<rparr>"
    obtain res h1 where a: "svc_AddUserToGroup (sh_users sh) (sh_groups sh) r h ?u gid = (res, ?r, h1)" "res \<noteq> Panic"
      using svc_AddUserToGroup_memory [OF Cons.prems] by blast
    have g: "in_group ?r u g \<longleftrightarrow> in_group r u g \<or> (g = gid \<and> u = ?u \<and> m_users r ?u \<noteq> None)" for u g
      by (auto simp: in_group_def split: option.split)
    have "m_groups ?r gid \<noteq> None" and m: "m_users ?r = m_users r" "m_groups ?r = m_groups r" using Cons.prems(2) by auto
    then obtain r' h' where r': "add_members sh gid ms ?r h1 = (Ok (), r', h')" "m_users r' = m_users r" "m_groups r' = m_groups r"
      and i: "\<forall>u. in_group r' u gid \<longleftrightarrow> in_group ?r u gid \<or> (u \<noteq> [] \<and> u \<in> RefValue ` set ms \<and> m_users r u \<noteq> None)"
      and o: "\<forall>u g. g \<noteq> gid \<longrightarrow> in_group r' u g = in_group ?r u g"
      using Cons.IH [OF Cons.prems(1), of ?r h1] by (simp only: m) blast
    have "add_members sh gid (m # ms) r h = (Ok (), r', h')"
      using False a r'(1) by (cases res) simp_all
    moreover have "\<forall>u. in_group r' u gid \<longleftrightarrow> in_group r u gid \<or> (u \<noteq> [] \<and> u \<in> RefValue ` set (m # ms) \<and> m_users r u \<noteq> None)"
      using i False by (auto simp only: g list.set image_insert insert_iff)
    moreover have "\<forall>u g. g \<noteq> gid \<longrightarrow> in_group r' u g = in_group r u g" using o by (simp only: g) blast
    ultimately show ?thesis using r'(2,3) by blast
  qed
qed simp
text \<open>
  Creating a group over the in-memory repository puts exactly those members into it that the request names and that exist; unknown members are
  skipped, the response names none, and memberships of other groups stay.
\<close>

theorem scim_group_members:
  assumes "scim_over_memory sh" and "scim_CreateGroup sh uuid r h (Some sg) = (Ok (201, GroupBody resp), r', h')"
    and "\<forall>u. \<not> in_group r u (SgID resp)"
  shows "m_users r' = m_users r \<and> SgMembers resp = []
    \<and> (\<exists>g. m_groups r' = (m_groups r)(SgID resp \<mapsto> g) \<and> GName g = SgDisplayName sg)
    \<and> (\<forall>u. in_group r' u (SgID resp) \<longleftrightarrow> u \<noteq> [] \<and> u \<in> RefValue ` set (SgMembers sg) \<and> m_users r u \<noteq> None)
    \<and> (\<forall>u g. g \<noteq> SgID resp \<longrightarrow> in_group r' u g = in_group r u g)"
proof -
  obtain ord gid where gs: "sh_groups sh = memory_groups ord gid" using assms(1) by (auto simp: scim_over_memory_def)
  let ?g = "(ToDomainGroup sg)\<lparr>GID := gid\<rparr>"
  let ?r = "r\<lparr>m_groups := (m_groups r)(gid \<mapsto> ?g)\<rparr>"
  have c: "svc_CreateGroup (sh_groups sh) r h ((ToDomainGroup sg)\<lparr>GID := uuid\<rparr>) = (Ok ?g, ?r, h)"
    using assms(2) gs
    by (auto simp: scim_CreateGroup_def svc_CreateGroup_def memory_groups_def mem_CreateGroup_def Let_def writeError_def split: option.splits)
  obtain r1 h1 where a: "add_members sh gid (SgMembers sg) ?r h = (Ok (), r1, h1)" "m_users r1 = m_users ?r" "m_groups r1 = m_groups ?r"
    "\<forall>u. in_group r1 u gid \<longleftrightarrow> in_group ?r u gid \<or> (u \<noteq> [] \<and> u \<in> RefValue ` set (SgMembers sg) \<and> m_users ?r u \<noteq> None)"
    "\<forall>u g. g \<noteq> gid \<longrightarrow> in_group r1 u g = in_group ?r u g"
    using add_members_exact [OF assms(1), of ?r gid "SgMembers sg" h] by auto
  have resp: "resp = ToSCIMGroup (sh_format sh) [] ?g" "r' = r1"
    using assms(2) c a(1) by (simp_all add: scim_CreateGroup_def)
  then have i: "SgID resp = gid" "SgMembers resp = []" by (simp_all add: ToSCIMGroup_def)
  have "in_group ?r u g = in_group r u g" for u g by (simp add: in_group_def)
  moreover have "\<exists>g. m_groups r' = (m_groups r)(gid \<mapsto> g) \<and> GName g = SgDisplayName sg"
    by (rule exI [of _ ?g]) (simp add: resp(2) a(3) ToDomainGroup_def)
  ultimately show ?thesis using a assms(3) i resp by simp
qed

section \<open>What a create request loses\<close>

context user_repository
begin

lemma scim_create_active:
  assumes "sh_users sh = repo" and "inv s" and "scim_CreateUser sh random uuid s h (Some su) = Some (Ok (201, UserBody resp), s', h')"
  shows "SuActive resp \<and> SuPhoneNumbers resp = [] \<and> SuUserName resp = SuUserName su"
proof -
  obtain pw where random: "random = Ok pw" using assms(3) by (cases random) (auto simp: scim_CreateUser_def writeError_def)
  obtain u s1 h1 where c: "svc_CreateUser repo (sh_HashPassword sh) uuid s h (SuUserName su) (pick_contact (SuEmails su)) pw = Some (Ok u, s1, h1)"
    using assms(1,3) random
    by (auto simp: scim_CreateUser_def Let_def ToDomainUser_def writeError_def split: option.splits outcome.splits prod.splits if_splits bool.splits)
  then obtain hp where "ur_CreateUser repo s (new_user uuid (SuUserName su) (pick_contact (SuEmails su)) hp) = (Ok u, s1)"
    by (rule CreateUser_run)
  with create_Ok [OF assms(2)] obtain i where u: "u = (new_user uuid (SuUserName su) (pick_contact (SuEmails su)) hp)\<lparr>UID := i\<rparr>" by blast
  then have "Status u = UserStatusActive" "Phone u = []" "Username u = SuUserName su" by (simp_all add: new_user_def zero_user_def)
  moreover obtain m where "resp = ToSCIMUser (sh_format sh) (u\<lparr>UAttributes := m\<rparr>)"
  proof (cases "domain_attributes su = []")
    case True
    with assms(1,3) random c have "resp = ToSCIMUser (sh_format sh) (u\<lparr>UAttributes := UAttributes u\<rparr>)"
      by (simp add: scim_CreateUser_def Let_def ToDomainUser_def)
    then show ?thesis by (rule that)
  next
    case False
    with assms(1,3) random c show ?thesis
      by (auto simp: scim_CreateUser_def Let_def ToDomainUser_def split: prod.splits outcome.splits intro: that)
  qed
  ultimately show ?thesis by (simp add: ToSCIMUser_def work_contact_def)
qed

end

text \<open>
  A user that is created over the PostgreSQL repository is active and has no telephone number, whatever the request said.
\<close>

theorem scim_create_ignores_active:
  assumes "sh_users sh = pg_users (table_gorm seal kms) lst" and "\<not> SuActive su"
    and "scim_CreateUser sh random uuid t h (Some su) = Some (Ok (201, UserBody resp), t', h')"
  shows "SuActive resp \<and> SuPhoneNumbers resp = [] \<and> SuUserName resp = SuUserName su"
  using pg.scim_create_active [OF assms(1) TrueI assms(3)] .
section \<open>Witnesses\<close>

definition demo_scim :: "IdentityMemoryRepository SCIMHandler" where
  "demo_scim = \<lparr>sh_users = memory_users (\<lambda>_. []) ''u9'', sh_groups = memory_groups (\<lambda>_. []) ''g1'', sh_HashPassword = Ok,
     sh_format = (\<lambda>_. []), sh_members = (\<lambda>_. [])\<rparr>"

definition demo_scim_repo :: IdentityMemoryRepository where
  "demo_scim_repo = NewIdentityMemoryRepository\<lparr>m_users := [''u1'' \<mapsto> alice\<lparr>UID := ''u1''\<rparr>]\<rparr>"

lemma demo_scim_memory [simp]: "scim_over_memory demo_scim"
  by (auto simp: scim_over_memory_def demo_scim_def)

definition demo_resource :: "bool \<Rightarrow> ScimUser" where
  "demo_resource active =
     \<lparr>SuSchemas = [SchemaUser], SuID = [], SuMeta = None, SuUserName = ''alice'', SuExternalID = ''x7'', SuActive = active,
      SuName = Some \<lparr>NmFormatted = [], NmFamilyName = ''Doe'', NmGivenName = ''Alice'', NmMiddleName = [], NmHonorificPrefix = [], NmHonorificSuffix = []\<rparr>,
      SuEmails = work_contact ''a@x'', SuPhoneNumbers = work_contact ''123'', SuGroups = []\<rparr>"


theorem scim_delete_unknown_witness:
  "\<exists>h'. scim_DeleteUser demo_scim demo_scim_repo initial_errors ''u2'' = Some (Ok internal_error, demo_scim_repo, h')"
  by (rule scim_delete_unknown) (simp_all add: demo_scim_repo_def)

theorem scim_list_empty_witness:
  "\<exists>n. scim_ListUsers demo_scim demo_scim_repo initial_errors []
    = (Ok (200, UsersBody \<lparr>LrSchemas = [SchemaListResponse], LrTotalResults = n, LrItemsPerPage = 0, LrStartIndex = 1, LrResources = []\<rparr>),
       demo_scim_repo, initial_errors) \<and> 0 \<le> n"
  by (rule scim_list_empty) simp

definition demo_scim_group :: ScimGroup where
  "demo_scim_group = \<lparr>SgSchemas = [], SgID = [], SgMeta = None, SgDisplayName = ''staff'', SgExternalID = [],
     SgMembers = [\<lparr>RefValue = ''u1'', RefDisplay = [], RefRef = []\<rparr>]\<rparr>"

theorem scim_group_members_witness:
  "\<exists>resp r' h'. scim_CreateGroup demo_scim ''g0'' demo_scim_repo initial_errors (Some demo_scim_group) = (Ok (201, GroupBody resp), r', h')
    \<and> in_group r' ''u1'' (SgID resp) \<and> \<not> in_group r' ''u2'' (SgID resp)"
proof -
  obtain resp r' h' where run: "scim_CreateGroup demo_scim ''g0'' demo_scim_repo initial_errors (Some demo_scim_group) = (Ok (201, GroupBody resp), r', h')"
    by (simp add: scim_CreateGroup_def demo_scim_def demo_scim_group_def svc_CreateGroup_def memory_groups_def mem_CreateGroup_def range_find_def
        ToDomainGroup_def svc_AddUserToGroup_def mem_GetUserByID_def mem_GetGroupByID_def mem_AddUserToGroup_def demo_scim_repo_def Let_def)
  have "\<forall>u. \<not> in_group demo_scim_repo u (SgID resp)" by (simp add: in_group_def demo_scim_repo_def NewIdentityMemoryRepository_def)
  from scim_group_members [OF demo_scim_memory run this] run show ?thesis
    by (simp add: demo_scim_group_def demo_scim_repo_def)
qed

definition no_groups :: "'s GroupRepository" where
  "no_groups = \<lparr>gr_CreateGroup = (\<lambda>s g. (Ok g, s)), gr_GetGroupByID = (\<lambda>s i. Fail ErrNotFound), gr_UpdateGroup = (\<lambda>s g. (Fail ErrNotFound, s)),
     gr_DeleteGroup = (\<lambda>s i. (Fail ErrNotFound, s)), gr_ListGroups = (\<lambda>s q. Ok []), gr_AddUserToGroup = (\<lambda>s u g. (Fail ErrNotFound, s)),
     gr_GetUserGroups = (\<lambda>s u. Ok [])\<rparr>"

definition demo_pg_scim :: "table SCIMHandler" where
  "demo_pg_scim = \<lparr>sh_users = pg_users (table_gorm (\<lambda>k n t. t) (Some demo_kms)) (\<lambda>_ _. Ok ([], 0)), sh_groups = no_groups, sh_HashPassword = Ok,
     sh_format = (\<lambda>_. []), sh_members = (\<lambda>_. [])\<rparr>"

theorem scim_create_ignores_active_witness:
  "\<exists>resp t' h'. scim_CreateUser demo_pg_scim (Ok ''pw'') ''u2'' \<lparr>t_rows = [], t_nonces = (\<lambda>_. replicate 12 7)\<rparr> initial_errors (Some (demo_resource False))
     = Some (Ok (201, UserBody resp), t', h') \<and> SuActive resp \<and> \<not> SuActive (demo_resource False)"
proof -
  have v: "\<exists>col. Value (\<lambda>k n t. t) (Some demo_kms) (replicate 12 7) ''a@x'' = Ok col"
    by (simp add: Value_def kms_Encrypt_def demo_kms_def aes_key_ok_def)
  obtain resp t' h' where run: "scim_CreateUser demo_pg_scim (Ok ''pw'') ''u2'' \<lparr>t_rows = [], t_nonces = (\<lambda>_. replicate 12 7)\<rparr> initial_errors
      (Some (demo_resource False)) = Some (Ok (201, UserBody resp), t', h')"
    using v
    by (auto simp: scim_CreateUser_def demo_pg_scim_def demo_resource_def ToDomainUser_def svc_CreateUser_def pg_GetUserByUsername_def
        pg_GetUserByEmail_def pg_not_found_def table_first_def table_insert_def new_user_def zero_user_def domain_attributes_def
        svc_UpdateUser_def pg_users_def pg_CreateUser_def pg_UpdateUser_def table_gorm_def table_save_def Let_def)
  have "\<not> SuActive (demo_resource False)" by (simp add: demo_resource_def)
  from scim_create_ignores_active [OF _ this run] run this show ?thesis by (auto simp: demo_pg_scim_def)
qed
end
