(* ===== verification/RBAC_Store.thy ===== *)
theory RBAC_Store
  imports Policy_Engine Sql_Table
begin

text \<open>
  Roles and permissions in PostgreSQL: \<^verbatim>\<open>internal/storage/postgresql/rbac_repository.go\<close>, the service
  \<^verbatim>\<open>internal/services/policy/service.go\<close> and the handlers \<^verbatim>\<open>internal/api/admin/policy_handlers.go\<close>. The calls of the
  object-relational mapper are an argument, the record \<open>rbac_db\<close>; tables that rbac_status them follow the two schemas of the repository: the migrations, where deleting
  a role deletes what refers to it, and the automatic migration, where the database refuses to delete a role that is still referred to.
\<close>

section \<open>Rows\<close>

record RoleRow =
  RrID :: nat
  RrCode :: string
  RrDescription :: string

record PermissionRow =
  PrID :: nat
  PrResource :: string
  PrAction :: string
  PrDescription :: string

record UserRole =
  UrUserID :: string
  UrRoleID :: nat

text \<open>
  \<open>rb_append\<close> and \<open>rb_remove\<close> are \<^verbatim>\<open>Association("Permissions")\<close> with \<^verbatim>\<open>Append\<close> and \<^verbatim>\<open>Delete\<close>; the three queries join the tables.
\<close>

record 'd rbac_db =
  rb_roles :: "('d, RoleRow) gorm_table"
  rb_permissions :: "('d, PermissionRow) gorm_table"
  rb_user_roles :: "('d, UserRole) gorm_table"
  rb_append :: "'d \<Rightarrow> nat \<Rightarrow> nat \<Rightarrow> (go_error, unit) outcome \<times> 'd"
  rb_remove :: "'d \<Rightarrow> nat \<Rightarrow> nat \<Rightarrow> (go_error, unit) outcome \<times> 'd"
  rb_roles_of :: "'d \<Rightarrow> string \<Rightarrow> (go_error, Role list) outcome"
  rb_permissions_of :: "'d \<Rightarrow> string \<Rightarrow> (go_error, PermissionRow list) outcome"
  rb_preload :: "'d \<Rightarrow> nat \<Rightarrow> (go_error, PermissionRow list) outcome"

section \<open>The repository\<close>

definition rbac_CreateRole :: "'d rbac_db \<Rightarrow> 'd \<Rightarrow> RoleRow \<Rightarrow> (go_error, unit) outcome \<times> 'd" where
  "rbac_CreateRole db d role = db_create (rb_roles db) d role"

text \<open>A record that is not there is no error: the pointer that is returned is nil.\<close>

definition or_nil :: "(go_error, 'a) outcome \<Rightarrow> (go_error, 'a option) outcome" where
  "or_nil res =
     (case res of
        Panic \<Rightarrow> Panic
      | Fail err \<Rightarrow> if err = ErrRecordNotFound then Ok None else Fail err
      | Ok x \<Rightarrow> Ok (Some x))"

definition rbac_GetRoleByCode :: "'d rbac_db \<Rightarrow> 'd \<Rightarrow> string \<Rightarrow> (go_error, RoleRow option) outcome" where
  "rbac_GetRoleByCode db d code = or_nil (db_first (rb_roles db) d (\<lambda>x. RrCode x = code))"

definition rbac_UpdateRole :: "'d rbac_db \<Rightarrow> 'd \<Rightarrow> RoleRow \<Rightarrow> (go_error, unit) outcome \<times> 'd" where
  "rbac_UpdateRole db d role = db_save (rb_roles db) d role"

definition rbac_DeleteRole :: "'d rbac_db \<Rightarrow> 'd \<Rightarrow> nat \<Rightarrow> (go_error, unit) outcome \<times> 'd" where
  "rbac_DeleteRole db d roleID = db_delete (rb_roles db) d (\<lambda>x. RrID x = roleID)"

definition rbac_ListRoles :: "'d rbac_db \<Rightarrow> 'd \<Rightarrow> (go_error, RoleRow list) outcome" where
  "rbac_ListRoles db d = db_find (rb_roles db) d (\<lambda>_. True)"

definition rbac_CreatePermission :: "'d rbac_db \<Rightarrow> 'd \<Rightarrow> PermissionRow \<Rightarrow> (go_error, unit) outcome \<times> 'd" where
  "rbac_CreatePermission db d perm = db_create (rb_permissions db) d perm"

definition rbac_GetPermission :: "'d rbac_db \<Rightarrow> 'd \<Rightarrow> string \<Rightarrow> string \<Rightarrow> (go_error, PermissionRow option) outcome" where
  "rbac_GetPermission db d resource action =
     or_nil (db_first (rb_permissions db) d (\<lambda>x. PrResource x = resource \<and> PrAction x = action))"

definition rbac_ListPermissions :: "'d rbac_db \<Rightarrow> 'd \<Rightarrow> (go_error, PermissionRow list) outcome" where
  "rbac_ListPermissions db d = db_find (rb_permissions db) d (\<lambda>_. True)"

definition rbac_AddPermissionToRole :: "'d rbac_db \<Rightarrow> 'd \<Rightarrow> nat \<Rightarrow> nat \<Rightarrow> (go_error, unit) outcome \<times> 'd" where
  "rbac_AddPermissionToRole db d roleID permissionID = rb_append db d roleID permissionID"

definition rbac_RemovePermissionFromRole :: "'d rbac_db \<Rightarrow> 'd \<Rightarrow> nat \<Rightarrow> nat \<Rightarrow> (go_error, unit) outcome \<times> 'd" where
  "rbac_RemovePermissionFromRole db d roleID permissionID = rb_remove db d roleID permissionID"

definition rbac_AssignRoleToUser :: "'d rbac_db \<Rightarrow> 'd \<Rightarrow> string \<Rightarrow> nat \<Rightarrow> (go_error, unit) outcome \<times> 'd" where
  "rbac_AssignRoleToUser db d userID roleID = db_create (rb_user_roles db) d \<lparr>UrUserID = userID, UrRoleID = roleID\<rparr>"

definition rbac_UnassignRoleFromUser :: "'d rbac_db \<Rightarrow> 'd \<Rightarrow> string \<Rightarrow> nat \<Rightarrow> (go_error, unit) outcome \<times> 'd" where
  "rbac_UnassignRoleFromUser db d userID roleID =
     db_delete (rb_user_roles db) d (\<lambda>x. UrUserID x = userID \<and> UrRoleID x = roleID)"

definition rbac_GetRolesForUser :: "'d rbac_db \<Rightarrow> 'd \<Rightarrow> string \<Rightarrow> (go_error, Role list) outcome" where
  "rbac_GetRolesForUser db d userID = rb_roles_of db d userID"

definition rbac_GetPermissionsForUser :: "'d rbac_db \<Rightarrow> 'd \<Rightarrow> string \<Rightarrow> (go_error, PermissionRow list) outcome" where
  "rbac_GetPermissionsForUser db d userID = rb_permissions_of db d userID"

definition rbac_GetPermissionsForRole :: "'d rbac_db \<Rightarrow> 'd \<Rightarrow> nat \<Rightarrow> (go_error, PermissionRow list) outcome" where
  "rbac_GetPermissionsForRole db d roleID = rb_preload db d roleID"

section \<open>The handlers\<close>

text \<open>
  The service passes every call on to the repository, so the handlers are written over the repository. \<open>parsed\<close> is the role
  identifier of the path as \<^verbatim>\<open>strconv.ParseUint\<close> reads it with 32 bits, a body is None when it does not decode, and a handler gives the status of the response and
  what it shows.
\<close>

definition ParseUint32 :: "string \<Rightarrow> nat option" where
  "ParseUint32 s =
     (if s = [] \<or> \<not> list_all (\<lambda>c. (48 :: nat) \<le> of_char c \<and> of_char c \<le> (57 :: nat)) s then None
      else let n = foldl (\<lambda>acc c. 10 * acc + (of_char c - 48 :: nat)) 0 s in if n < 2 ^ 32 then Some n else None)"

definition rbac_status :: "int \<Rightarrow> (go_error, unit) outcome \<times> 'd \<Rightarrow> (go_error, int) outcome \<times> 'd" where
  "rbac_status ok run =
     (case run of
        (Panic, d) \<Rightarrow> (Panic, d)
      | (Fail _, d) \<Rightarrow> (Ok 500, d)
      | (Ok _, d) \<Rightarrow> (Ok ok, d))"

definition createRole :: "'d rbac_db \<Rightarrow> 'd \<Rightarrow> RoleRow option \<Rightarrow> (go_error, int) outcome \<times> 'd" where
  "createRole db d body = (case body of None \<Rightarrow> (Ok 400, d) | Some role \<Rightarrow> rbac_status 201 (rbac_CreateRole db d role))"

definition listing :: "(go_error, 'a list) outcome \<Rightarrow> (go_error, int \<times> 'a list) outcome" where
  "listing res = (case res of Panic \<Rightarrow> Panic | Fail _ \<Rightarrow> Ok (500, []) | Ok xs \<Rightarrow> Ok (200, xs))"

definition listRoles :: "'d rbac_db \<Rightarrow> 'd \<Rightarrow> (go_error, int \<times> RoleRow list) outcome" where
  "listRoles db d = listing (rbac_ListRoles db d)"

definition updateRole :: "'d rbac_db \<Rightarrow> 'd \<Rightarrow> string \<Rightarrow> RoleRow option \<Rightarrow> (go_error, int) outcome \<times> 'd" where
  "updateRole db d path body =
     (case ParseUint32 path of
        None \<Rightarrow> (Ok 400, d)
      | Some roleID \<Rightarrow>
          (case body of None \<Rightarrow> (Ok 400, d) | Some role \<Rightarrow> rbac_status 200 (rbac_UpdateRole db d (role\<lparr>RrID := roleID\<rparr>))))"

definition deleteRole :: "'d rbac_db \<Rightarrow> 'd \<Rightarrow> string \<Rightarrow> (go_error, int) outcome \<times> 'd" where
  "deleteRole db d path =
     (case ParseUint32 path of None \<Rightarrow> (Ok 400, d) | Some roleID \<Rightarrow> rbac_status 204 (rbac_DeleteRole db d roleID))"

definition assignRoleToUser :: "'d rbac_db \<Rightarrow> 'd \<Rightarrow> string \<Rightarrow> nat option \<Rightarrow> (go_error, int) outcome \<times> 'd" where
  "assignRoleToUser db d userID body =
     (case body of None \<Rightarrow> (Ok 400, d) | Some roleID \<Rightarrow> rbac_status 204 (rbac_AssignRoleToUser db d userID roleID))"

definition unassignRoleFromUser :: "'d rbac_db \<Rightarrow> 'd \<Rightarrow> string \<Rightarrow> string \<Rightarrow> (go_error, int) outcome \<times> 'd" where
  "unassignRoleFromUser db d userID path =
     (case ParseUint32 path of None \<Rightarrow> (Ok 400, d) | Some roleID \<Rightarrow> rbac_status 204 (rbac_UnassignRoleFromUser db d userID roleID))"

definition createPermission :: "'d rbac_db \<Rightarrow> 'd \<Rightarrow> PermissionRow option \<Rightarrow> (go_error, int) outcome \<times> 'd" where
  "createPermission db d body = (case body of None \<Rightarrow> (Ok 400, d) | Some perm \<Rightarrow> rbac_status 201 (rbac_CreatePermission db d perm))"

definition listPermissions :: "'d rbac_db \<Rightarrow> 'd \<Rightarrow> (go_error, int \<times> PermissionRow list) outcome" where
  "listPermissions db d = listing (rbac_ListPermissions db d)"

definition addPermissionToRole :: "'d rbac_db \<Rightarrow> 'd \<Rightarrow> string \<Rightarrow> nat option \<Rightarrow> (go_error, int) outcome \<times> 'd" where
  "addPermissionToRole db d path body =
     (case ParseUint32 path of
        None \<Rightarrow> (Ok 400, d)
      | Some roleID \<Rightarrow>
          (case body of None \<Rightarrow> (Ok 400, d) | Some permissionID \<Rightarrow> rbac_status 204 (rbac_AddPermissionToRole db d roleID permissionID)))"

section \<open>Tables\<close>

record rbac_tables =
  tb_roles :: "RoleRow list"
  tb_permissions :: "PermissionRow list"
  tb_links :: "(nat \<times> nat) list"
  tb_user_roles :: "UserRole list"
  tb_cascade :: bool

definition ErrForeignKey :: go_error where
  "ErrForeignKey = Errorf ''violates foreign key constraint''"

definition user_role_key :: "UserRole \<Rightarrow> string \<times> nat" where "user_role_key x = (UrUserID x, UrRoleID x)"

definition permission_key :: "PermissionRow \<Rightarrow> string \<times> string" where "permission_key x = (PrResource x, PrAction x)"

definition has_role :: "rbac_tables \<Rightarrow> nat \<Rightarrow> bool" where "has_role t i \<longleftrightarrow> list_ex (\<lambda>x. RrID x = i) (tb_roles t)"
definition has_permission :: "rbac_tables \<Rightarrow> nat \<Rightarrow> bool" where "has_permission t i \<longleftrightarrow> list_ex (\<lambda>x. PrID x = i) (tb_permissions t)"

definition delete_roles :: "rbac_tables \<Rightarrow> (RoleRow \<Rightarrow> bool) \<Rightarrow> (go_error, unit) outcome \<times> rbac_tables" where
  "delete_roles t P =
     (let gone = map RrID (filter P (tb_roles t));
          t' = t\<lparr>tb_roles := filter (\<lambda>x. \<not> P x) (tb_roles t)\<rparr>
      in if tb_cascade t
         then (Ok (), t'\<lparr>tb_links := filter (\<lambda>(r, p). r \<notin> set gone) (tb_links t),
                         tb_user_roles := filter (\<lambda>x. UrRoleID x \<notin> set gone) (tb_user_roles t)\<rparr>)
         else if list_ex (\<lambda>(r, p). r \<in> set gone) (tb_links t) \<or> list_ex (\<lambda>x. UrRoleID x \<in> set gone) (tb_user_roles t)
         then (Fail ErrForeignKey, t)
         else (Ok (), t'))"

definition on_part :: "('t \<Rightarrow> 'a list) \<Rightarrow> ('a list \<Rightarrow> 't \<Rightarrow> 't) \<Rightarrow> 't \<Rightarrow> (go_error, unit) outcome \<times> 'a list \<Rightarrow> (go_error, unit) outcome \<times> 't" where
  "on_part get put t run = (fst run, put (snd run) t)"

abbreviation put_roles :: "RoleRow list \<Rightarrow> rbac_tables \<Rightarrow> rbac_tables" where "put_roles xs t \<equiv> t\<lparr>tb_roles := xs\<rparr>"

definition part_db :: "('t \<Rightarrow> 'a list) \<Rightarrow> ('a list \<Rightarrow> 't \<Rightarrow> 't) \<Rightarrow> ('a \<Rightarrow> 'k) \<Rightarrow> ('a \<Rightarrow> 'u) \<Rightarrow> ('t, 'a) gorm_table" where
  "part_db get put pk uk =
     \<lparr>db_create = (\<lambda>t x. on_part get put t (row_insert pk uk (get t) x)),
      db_first = (\<lambda>t. db_first (row_db pk uk) (get t)),
      db_find = (\<lambda>t. db_find (row_db pk uk) (get t)),
      db_save = (\<lambda>t x. on_part get put t (row_save pk uk (get t) x)),
      db_updates = (\<lambda>t P f. on_part get put t (db_updates (row_db pk uk) (get t) P f)),
      db_delete = (\<lambda>t P. on_part get put t (db_delete (row_db pk uk) (get t) P))\<rparr>"

text \<open>Appending a permission that does not exist stores an empty one first; the join row is not stored twice.\<close>

definition append_permission :: "rbac_tables \<Rightarrow> nat \<Rightarrow> nat \<Rightarrow> (go_error, unit) outcome \<times> rbac_tables" where
  "append_permission t roleID permissionID =
     (let row = \<lparr>PrID = permissionID, PrResource = [], PrAction = [], PrDescription = []\<rparr>;
          t1 = (if list_ex (\<lambda>x. PrID x = permissionID \<or> PrResource x = [] \<and> PrAction x = []) (tb_permissions t) then t
                else t\<lparr>tb_permissions := tb_permissions t @ [row]\<rparr>)
      in if \<not> has_role t1 roleID \<or> \<not> has_permission t1 permissionID then (Fail ErrForeignKey, t)
         else (Ok (), t1\<lparr>tb_links := List.insert (roleID, permissionID) (tb_links t1)\<rparr>))"

definition remove_permission :: "rbac_tables \<Rightarrow> nat \<Rightarrow> nat \<Rightarrow> (go_error, unit) outcome \<times> rbac_tables" where
  "remove_permission t roleID permissionID = (Ok (), t\<lparr>tb_links := filter (\<lambda>l. l \<noteq> (roleID, permissionID)) (tb_links t)\<rparr>)"

definition permission_of :: "PermissionRow \<Rightarrow> Permission" where
  "permission_of x = \<lparr>PermResource = PrResource x, PermAction = PrAction x, PermDescription = PrDescription x\<rparr>"

definition role_permissions_of :: "rbac_tables \<Rightarrow> nat \<Rightarrow> PermissionRow list" where
  "role_permissions_of t i = filter (\<lambda>p. (i, PrID p) \<in> set (tb_links t)) (tb_permissions t)"

definition assigned :: "rbac_tables \<Rightarrow> string \<Rightarrow> nat \<Rightarrow> bool" where
  "assigned t u i \<longleftrightarrow> list_ex (\<lambda>x. UrUserID x = u \<and> UrRoleID x = i) (tb_user_roles t)"

definition load_role :: "rbac_tables \<Rightarrow> RoleRow \<Rightarrow> Role" where
  "load_role t x = \<lparr>RoleCode = RrCode x, RoleDescription = RrDescription x, RolePermissions = map permission_of (role_permissions_of t (RrID x))\<rparr>"

definition insert_user_role :: "rbac_tables \<Rightarrow> UserRole \<Rightarrow> (go_error, unit) outcome \<times> rbac_tables" where
  "insert_user_role t x =
     (if has_role t (UrRoleID x) then on_part tb_user_roles (\<lambda>xs t. t\<lparr>tb_user_roles := xs\<rparr>) t (row_insert user_role_key user_role_key (tb_user_roles t) x)
      else (Fail ErrForeignKey, t))"

definition tables_db :: "rbac_tables rbac_db" where
  "tables_db =
     \<lparr>rb_roles = (part_db tb_roles put_roles RrID RrCode)\<lparr>db_delete := delete_roles\<rparr>,
      rb_permissions = part_db tb_permissions (\<lambda>xs t. t\<lparr>tb_permissions := xs\<rparr>) PrID permission_key,
      rb_user_roles = (part_db tb_user_roles (\<lambda>xs t. t\<lparr>tb_user_roles := xs\<rparr>) user_role_key user_role_key)\<lparr>db_create := insert_user_role\<rparr>,
      rb_append = append_permission, rb_remove = remove_permission,
      rb_roles_of = (\<lambda>t u. Ok (map (load_role t) (filter (\<lambda>x. assigned t u (RrID x)) (tb_roles t)))),
      rb_permissions_of = (\<lambda>t u. Ok (filter (\<lambda>p. list_ex (\<lambda>(r, i). i = PrID p \<and> assigned t u r) (tb_links t)) (tb_permissions t))),
      rb_preload = (\<lambda>t i. if has_role t i then Ok (role_permissions_of t i) else Fail ErrRecordNotFound)\<rparr>"
section \<open>Referential integrity\<close>

definition integrity :: "rbac_tables \<Rightarrow> bool" where
  "integrity t \<longleftrightarrow> unique_rows RrID RrCode (tb_roles t) \<and> unique_rows PrID permission_key (tb_permissions t)
     \<and> unique_rows user_role_key user_role_key (tb_user_roles t)
     \<and> (\<forall>(r, p) \<in> set (tb_links t). has_role t r \<and> has_permission t p) \<and> (\<forall>x \<in> set (tb_user_roles t). has_role t (UrRoleID x))"

lemma has_role_iff: "has_role t i \<longleftrightarrow> i \<in> RrID ` set (tb_roles t)"
  by (auto simp: has_role_def list_ex_iff)

lemma has_permission_iff: "has_permission t i \<longleftrightarrow> i \<in> PrID ` set (tb_permissions t)"
  by (auto simp: has_permission_def list_ex_iff)

lemmas integrity_simps = integrity_def has_role_iff has_permission_iff

lemma integrity_grow:
  assumes "integrity t" and "unique_rows RrID RrCode xs" and "unique_rows PrID permission_key ps"
    and "RrID ` set (tb_roles t) \<subseteq> RrID ` set xs" and "PrID ` set (tb_permissions t) \<subseteq> PrID ` set ps"
  shows "integrity (t\<lparr>tb_roles := xs, tb_permissions := ps\<rparr>)"
  using assms by (fastforce simp: integrity_simps)

lemma integrity_insert_role:
  assumes "integrity t"
  shows "integrity (snd (on_part tb_roles put_roles t (row_insert RrID RrCode (tb_roles t) x)))"
proof (cases "row_insert RrID RrCode (tb_roles t) x")
  case (Pair res rows)
  with row_insert_cases [OF this] row_insert_Ok [of RrID RrCode "tb_roles t" x rows] assms
  show ?thesis by (auto simp: on_part_def integrity_simps)
qed

lemma integrity_save_role:
  assumes "integrity t"
  shows "integrity (snd (on_part tb_roles put_roles t (row_save RrID RrCode (tb_roles t) x)))"
proof (cases "row_save RrID RrCode (tb_roles t) x")
  case (Pair res rows)
  have u: "unique_rows RrID RrCode (tb_roles t)" "unique_rows PrID permission_key (tb_permissions t)" using assms by (simp_all add: integrity_def)
  consider "res = Ok ()" | "rows = tb_roles t" using row_save_cases [OF Pair] by blast
  then show ?thesis
  proof cases
    case 1
    with row_save_Ok [OF u(1)] Pair have r: "unique_rows RrID RrCode rows" "\<forall>y. y \<in> set rows \<longleftrightarrow> y = x \<or> y \<in> set (tb_roles t) \<and> RrID y \<noteq> RrID x"
      by blast+
    then have "RrID ` set (tb_roles t) \<subseteq> RrID ` set rows" by (auto simp: image_iff)
    with integrity_grow [OF assms r(1) u(2)] Pair show ?thesis by (simp add: on_part_def)
  next
    case 2
    with assms Pair show ?thesis by (simp add: on_part_def)
  qed
qed

lemma integrity_insert_permission:
  assumes "integrity t"
  shows "integrity (snd (on_part tb_permissions (\<lambda>xs t. t\<lparr>tb_permissions := xs\<rparr>) t (row_insert PrID permission_key (tb_permissions t) x)))"
proof (cases "row_insert PrID permission_key (tb_permissions t) x")
  case (Pair res rows)
  with row_insert_cases [OF this] row_insert_Ok [of PrID permission_key "tb_permissions t" x rows] assms
  show ?thesis by (auto simp: on_part_def integrity_simps)
qed

lemma integrity_user_role:
  assumes "integrity t"
  shows "integrity (snd (insert_user_role t x))"
proof (cases "row_insert user_role_key user_role_key (tb_user_roles t) x")
  case (Pair res rows)
  with row_insert_cases [OF this] row_insert_Ok [of user_role_key user_role_key "tb_user_roles t" x rows] assms
  show ?thesis by (auto simp: insert_user_role_def on_part_def integrity_simps)
qed

lemma integrity_unassign:
  "integrity t \<Longrightarrow> integrity (t\<lparr>tb_user_roles := filter P (tb_user_roles t)\<rparr>)"
  by (auto simp: integrity_simps unique_rows_filter)

lemma integrity_delete_roles:
  assumes "integrity t"
  shows "integrity (snd (delete_roles t P))"
proof -
  let ?gone = "RrID ` set (filter P (tb_roles t))" and ?left = "filter (\<lambda>x. \<not> P x) (tb_roles t)"
  have k: "i \<in> RrID ` set ?left" if "i \<in> RrID ` set (tb_roles t)" and "i \<notin> ?gone" for i
    using that by auto
  have i: "integrity (t\<lparr>tb_roles := ?left, tb_links := ls, tb_user_roles := us\<rparr>)"
    if "set ls \<subseteq> set (tb_links t)" "set us \<subseteq> set (tb_user_roles t)" "unique_rows user_role_key user_role_key us"
      "\<forall>(r, p) \<in> set ls. r \<notin> ?gone" "\<forall>x \<in> set us. UrRoleID x \<notin> ?gone" for ls us
  proof -
    have "\<forall>(r, p) \<in> set ls. r \<in> RrID ` set ?left \<and> p \<in> PrID ` set (tb_permissions t)"
      using assms that(1,4) k unfolding integrity_simps by blast
    moreover have "\<forall>x \<in> set us. UrRoleID x \<in> RrID ` set ?left"
      using assms that(2,5) k unfolding integrity_simps by blast
    ultimately show ?thesis
      using assms that(3) unique_rows_filter [of RrID RrCode "tb_roles t" "\<lambda>x. \<not> P x"] by (simp add: integrity_simps)
  qed
  show ?thesis
  proof (cases "tb_cascade t")
    case True
    have "unique_rows user_role_key user_role_key (filter (\<lambda>x. UrRoleID x \<notin> ?gone) (tb_user_roles t))"
      using assms by (simp add: integrity_def unique_rows_filter)
    with True i [of "filter (\<lambda>(r, p). r \<notin> ?gone) (tb_links t)" "filter (\<lambda>x. UrRoleID x \<notin> ?gone) (tb_user_roles t)"]
    show ?thesis by (auto simp: delete_roles_def Let_def)
  next
    case False
    have "unique_rows user_role_key user_role_key (tb_user_roles t)" using assms by (simp add: integrity_def)
    with False assms i [of "tb_links t" "tb_user_roles t"] show ?thesis
      by (auto simp: delete_roles_def Let_def list_ex_iff)
  qed
qed

lemma integrity_append:
  assumes "integrity t"
  shows "integrity (snd (append_permission t r p))"
proof -
  let ?row = "\<lparr>PrID = p, PrResource = [], PrAction = [], PrDescription = []\<rparr>"
  let ?t = "if list_ex (\<lambda>x. PrID x = p \<or> PrResource x = [] \<and> PrAction x = []) (tb_permissions t) then t
    else t\<lparr>tb_permissions := tb_permissions t @ [?row]\<rparr>"
  have "integrity ?t"
  proof (cases "list_ex (\<lambda>x. PrID x = p \<or> PrResource x = [] \<and> PrAction x = []) (tb_permissions t)")
    case False
    then have "row_insert PrID permission_key (tb_permissions t) ?row = (Ok (), tb_permissions t @ [?row])"
      by (auto simp: row_insert_def list_ex_iff permission_key_def)
    with integrity_insert_permission [OF assms, of ?row] False show ?thesis by (simp add: on_part_def)
  qed (use assms in simp)
  then have "integrity (?t\<lparr>tb_links := List.insert (r, p) (tb_links ?t)\<rparr>)" if "has_role ?t r" "has_permission ?t p"
    using that by (auto simp: integrity_simps)
  with assms show ?thesis unfolding append_permission_def Let_def by simp
qed

lemma integrity_remove: "integrity t \<Longrightarrow> integrity (snd (remove_permission t r p))"
  by (auto simp: integrity_simps remove_permission_def)
lemma tables_db_sel [simp]:
  "db_create (rb_roles tables_db) t x = on_part tb_roles put_roles t (row_insert RrID RrCode (tb_roles t) x)"
  "db_save (rb_roles tables_db) t x = on_part tb_roles put_roles t (row_save RrID RrCode (tb_roles t) x)"
  "db_delete (rb_roles tables_db) = delete_roles"
  "db_create (rb_permissions tables_db) t y = on_part tb_permissions (\<lambda>xs t. t\<lparr>tb_permissions := xs\<rparr>) t (row_insert PrID permission_key (tb_permissions t) y)"
  "db_create (rb_user_roles tables_db) = insert_user_role"
  "db_delete (rb_user_roles tables_db) t Q = (Ok (), t\<lparr>tb_user_roles := filter (\<lambda>x. \<not> Q x) (tb_user_roles t)\<rparr>)"
  "rb_append tables_db = append_permission" "rb_remove tables_db = remove_permission"
  by (simp_all add: tables_db_def part_db_def on_part_def)

datatype rbac_op =
    OpCreateRole "RoleRow option"
  | OpUpdateRole string "RoleRow option"
  | OpDeleteRole string
  | OpAssign string "nat option"
  | OpUnassign string string
  | OpCreatePermission "PermissionRow option"
  | OpAddPermission string "nat option"
  | OpRemovePermission nat nat

fun apply_rbac :: "rbac_op \<Rightarrow> rbac_tables \<Rightarrow> rbac_tables" where
  "apply_rbac (OpCreateRole body) t = snd (createRole tables_db t body)"
| "apply_rbac (OpUpdateRole path body) t = snd (updateRole tables_db t path body)"
| "apply_rbac (OpDeleteRole path) t = snd (deleteRole tables_db t path)"
| "apply_rbac (OpAssign u body) t = snd (assignRoleToUser tables_db t u body)"
| "apply_rbac (OpUnassign u path) t = snd (unassignRoleFromUser tables_db t u path)"
| "apply_rbac (OpCreatePermission body) t = snd (createPermission tables_db t body)"
| "apply_rbac (OpAddPermission path body) t = snd (addPermissionToRole tables_db t path body)"
| "apply_rbac (OpRemovePermission r p) t = snd (rbac_RemovePermissionFromRole tables_db t r p)"

lemma snd_rbac_status [simp]: "snd (rbac_status n run) = snd run"
  by (cases run) (auto simp: rbac_status_def split: outcome.split)

lemma integrity_apply: "integrity t \<Longrightarrow> integrity (apply_rbac op t)"
  by (cases op)
    (auto simp: createRole_def updateRole_def deleteRole_def assignRoleToUser_def unassignRoleFromUser_def createPermission_def
      addPermissionToRole_def rbac_CreateRole_def rbac_UpdateRole_def rbac_DeleteRole_def rbac_AssignRoleToUser_def
      rbac_UnassignRoleFromUser_def rbac_CreatePermission_def rbac_AddPermissionToRole_def rbac_RemovePermissionFromRole_def
      integrity_insert_role integrity_save_role integrity_delete_roles integrity_user_role integrity_unassign
      integrity_insert_permission integrity_append integrity_remove
      split: option.split)

definition no_tables :: "bool \<Rightarrow> rbac_tables" where
  "no_tables cascade = \<lparr>tb_roles = [], tb_permissions = [], tb_links = [], tb_user_roles = [], tb_cascade = cascade\<rparr>"

lemma integrity_empty: "integrity (no_tables cascade)"
  by (simp add: integrity_def no_tables_def)

lemma integrity_history: "integrity t \<Longrightarrow> integrity (fold apply_rbac ops t)"
  by (induction ops arbitrary: t) (simp_all add: integrity_apply)

section \<open>Decisions\<close>

text \<open>What the tables grant: a role that is assigned to the user and linked to the permission.\<close>

definition granted :: "rbac_tables \<Rightarrow> string \<Rightarrow> string \<Rightarrow> string \<Rightarrow> bool" where
  "granted t u resource action \<longleftrightarrow>
     (\<exists>i p. assigned t u i \<and> (i, PrID p) \<in> set (tb_links t) \<and> p \<in> set (tb_permissions t) \<and> PrResource p = resource \<and> PrAction p = action)"

lemma assigned_role: "integrity t \<Longrightarrow> assigned t u i \<Longrightarrow> \<exists>x \<in> set (tb_roles t). RrID x = i"
  by (auto simp: assigned_def list_ex_iff integrity_def has_role_def)

lemma GetRolesForUser_granted:
  assumes "integrity t" and "rbac_GetRolesForUser tables_db t u = Ok roles"
  shows "(\<exists>role \<in> set roles. \<exists>perm \<in> set (RolePermissions role). PermResource perm = resource \<and> PermAction perm = action)
    \<longleftrightarrow> granted t u resource action"
proof -
  have roles: "roles = map (load_role t) (filter (\<lambda>x. assigned t u (RrID x)) (tb_roles t))"
    using assms(2) by (simp add: rbac_GetRolesForUser_def tables_db_def)
  show ?thesis using assigned_role [OF assms(1)]
    unfolding roles granted_def by (fastforce simp: load_role_def role_permissions_of_def permission_of_def)
qed


text \<open>
  The two queries for the permissions of a user agree: the join over all tables gives the permissions of the roles that the other query loads, each once.
\<close>

theorem permission_queries_agree:
  assumes "integrity t" and "rbac_GetRolesForUser tables_db t u = Ok roles" and "rbac_GetPermissionsForUser tables_db t u = Ok perms"
  shows "permission_of ` set perms = (\<Union>role \<in> set roles. set (RolePermissions role)) \<and> distinct (map PrID perms)"
proof -
  have roles: "roles = map (load_role t) (filter (\<lambda>x. assigned t u (RrID x)) (tb_roles t))"
    and perms: "perms = filter (\<lambda>p. list_ex (\<lambda>(r, i). i = PrID p \<and> assigned t u r) (tb_links t)) (tb_permissions t)"
    using assms(2,3) by (simp_all add: rbac_GetRolesForUser_def rbac_GetPermissionsForUser_def tables_db_def)
  note e = assigned_role [OF assms(1)]
  have "p \<in> set perms \<longleftrightarrow> (\<exists>x \<in> set (tb_roles t). assigned t u (RrID x) \<and> p \<in> set (role_permissions_of t (RrID x)))" for p
    using e by (fastforce simp: perms role_permissions_of_def list_ex_iff)
  then have "set perms = (\<Union>x \<in> {x \<in> set (tb_roles t). assigned t u (RrID x)}. set (role_permissions_of t (RrID x)))" by blast
  then have "permission_of ` set perms = (\<Union>role \<in> set roles. set (RolePermissions role))"
    unfolding roles by (simp add: load_role_def image_UN)
  moreover have "distinct (map PrID (tb_permissions t))" using assms(1) by (simp add: integrity_def unique_rows_def)
  ultimately show ?thesis by (simp add: perms distinct_map_filter)
qed

text \<open>
  Taking a role from a user, and deleting a role, withdraw what only that role granted; a refused deletion changes nothing.
\<close>

theorem unassign_exact:
  assumes "ParseUint32 path = Some i" and "unassignRoleFromUser tables_db t u path = (Ok status, t')"
  shows "status = 204 \<and> (\<forall>v j. assigned t' v j \<longleftrightarrow> assigned t v j \<and> (v, j) \<noteq> (u, i))
    \<and> tb_links t' = tb_links t \<and> tb_permissions t' = tb_permissions t"
  using assms by (auto simp: unassignRoleFromUser_def rbac_UnassignRoleFromUser_def rbac_status_def assigned_def list_ex_iff)

theorem delete_role_exact:
  assumes "integrity t" and "ParseUint32 path = Some i" and "deleteRole tables_db t path = (Ok status, t')"
  shows "(status = 204 \<and> (\<forall>u j. assigned t' u j \<longleftrightarrow> assigned t u j \<and> j \<noteq> i) \<and> \<not> has_role t' i)
    \<or> (status = 500 \<and> t' = t \<and> \<not> tb_cascade t)"
proof -
  have g: "set (map RrID (filter (\<lambda>x. RrID x = i) (tb_roles t))) = (if has_role t i then {i} else {})"
    by (auto simp: has_role_iff)
  have a: "has_role t i" if "assigned t u i" for u
    using that assigned_role [OF assms(1)] by (auto simp: has_role_def list_ex_iff)
  have h: "\<not> has_role (t\<lparr>tb_roles := filter (\<lambda>x. RrID x \<noteq> i) (tb_roles t), tb_links := ls, tb_user_roles := us\<rparr>) i"
    "\<not> has_role (t\<lparr>tb_roles := filter (\<lambda>x. RrID x \<noteq> i) (tb_roles t)\<rparr>) i" for ls us
    by (auto simp: has_role_iff)
  from assms(2,3) have d: "rbac_status 204 (delete_roles t (\<lambda>x. RrID x = i)) = (Ok status, t')"
    by (simp add: deleteRole_def rbac_DeleteRole_def)
  show ?thesis
  proof (cases "has_role t i")
    case True
    with d h show ?thesis unfolding delete_roles_def Let_def g
      by (auto simp: rbac_status_def assigned_def list_ex_iff split: if_splits)
  next
    case False
    with a have n: "\<not> assigned t u i" for u by blast
    have "assigned (put_roles rs t) u j = assigned t u j" for rs u j by (simp add: assigned_def)
    with False d h n show ?thesis unfolding delete_roles_def Let_def g
      by (auto simp: rbac_status_def split: if_splits)
  qed
qed

section \<open>Witnesses\<close>

definition demo_ops :: "rbac_op list" where
  "demo_ops = [OpCreateRole (Some \<lparr>RrID = 1, RrCode = ''ops'', RrDescription = []\<rparr>),
     OpCreatePermission (Some \<lparr>PrID = 7, PrResource = ''doc'', PrAction = ''read'', PrDescription = []\<rparr>),
     OpAddPermission ''1'' (Some 7), OpAssign ''u1'' (Some 1)]"

definition demo_tables :: rbac_tables where
  "demo_tables = \<lparr>tb_roles = [\<lparr>RrID = 1, RrCode = ''ops'', RrDescription = []\<rparr>],
     tb_permissions = [\<lparr>PrID = 7, PrResource = ''doc'', PrAction = ''read'', PrDescription = []\<rparr>],
     tb_links = [(1, 7)], tb_user_roles = [\<lparr>UrUserID = ''u1'', UrRoleID = 1\<rparr>], tb_cascade = True\<rparr>"

lemma demo_tables_run: "fold apply_rbac demo_ops (no_tables True) = demo_tables"
  by code_simp

lemma demo_integrity: "integrity demo_tables"
  using integrity_history [OF integrity_empty [of True], of demo_ops] by (simp only: demo_tables_run)

lemma demo_granted: "granted demo_tables ''u1'' ''doc'' ''read''"
  by (simp add: granted_def demo_tables_def assigned_def)


theorem permission_queries_agree_witness:
  "\<exists>roles perms. rbac_GetRolesForUser tables_db demo_tables ''u1'' = Ok roles \<and> rbac_GetPermissionsForUser tables_db demo_tables ''u1'' = Ok perms
    \<and> permission_of ` set perms = (\<Union>role \<in> set roles. set (RolePermissions role))"
proof -
  obtain roles perms where "rbac_GetRolesForUser tables_db demo_tables ''u1'' = Ok roles" "rbac_GetPermissionsForUser tables_db demo_tables ''u1'' = Ok perms"
    by (simp add: rbac_GetRolesForUser_def rbac_GetPermissionsForUser_def tables_db_def)
  with permission_queries_agree [OF demo_integrity this] show ?thesis by blast
qed

theorem unassign_exact_witness:
  "\<exists>t'. unassignRoleFromUser tables_db demo_tables ''u1'' ''1'' = (Ok 204, t') \<and> \<not> assigned t' ''u1'' 1"
proof -
  have p: "ParseUint32 ''1'' = Some 1" by code_simp
  obtain t' where "unassignRoleFromUser tables_db demo_tables ''u1'' ''1'' = (Ok 204, t')"
    by (simp add: unassignRoleFromUser_def p rbac_UnassignRoleFromUser_def rbac_status_def)
  with unassign_exact [OF p this] show ?thesis by blast
qed

theorem delete_role_exact_witness:
  "\<exists>t'. deleteRole tables_db demo_tables ''1'' = (Ok 204, t') \<and> \<not> assigned t' ''u1'' 1"
proof -
  have p: "ParseUint32 ''1'' = Some 1" by code_simp
  obtain t' where "deleteRole tables_db demo_tables ''1'' = (Ok 204, t')"
    by (simp add: deleteRole_def p rbac_DeleteRole_def rbac_status_def delete_roles_def demo_tables_def)
  with delete_role_exact [OF demo_integrity p this] show ?thesis by auto
qed

end
