(* ===== verification/Postgres_Stores.thy ===== *)
theory Postgres_Stores
  imports Policy_Service Profiles OAuth
begin

text \<open>
  The PostgreSQL repositories of policies, identity providers, audit entries and applications
  (\<^verbatim>\<open>policy_repo.go\<close>, \<^verbatim>\<open>auth_repo.go\<close>, \<^verbatim>\<open>postgres_application_repository.go\<close>) and the history of accesses
  \<^verbatim>\<open>internal/portal/services/access_history_service.go\<close>. Where rows have the same time, the order of the model is the order of the table.
\<close>

section \<open>Pages\<close>

text \<open>\<^verbatim>\<open>Offset\<close> and \<^verbatim>\<open>Limit\<close>: a value that is not positive sets no offset, and a negative one no limit.\<close>

definition sql_page :: "int \<Rightarrow> int \<Rightarrow> 'a list \<Rightarrow> 'a list" where
  "sql_page off limit xs = (let ys = drop (nat off) xs in if limit < 0 then ys else take (nat limit) ys)"

definition newest_first :: "('a \<Rightarrow> time) \<Rightarrow> 'a list \<Rightarrow> 'a list" where
  "newest_first t xs = sort_key (\<lambda>x. - t x) xs"

section \<open>Policies\<close>

record PolicyRow = Policy +
  PolCreatedAt :: time

definition policy_found :: "err_store \<Rightarrow> string \<Rightarrow> (go_error, 'a) outcome \<Rightarrow> (go_error, 'a) outcome \<times> err_store" where
  "policy_found h i res =
     (case res of
        Fail err \<Rightarrow> if err = ErrRecordNotFound then (let (e, h') = WithDetails h ErrNotFound [(''id'', i)] in (Fail e, h')) else (Fail err, h)
      | _ \<Rightarrow> (res, h))"

definition pgpol_CreatePolicy :: "('d, PolicyRow) gorm_table \<Rightarrow> 'd \<Rightarrow> PolicyRow \<Rightarrow> (go_error, unit) outcome \<times> 'd" where
  "pgpol_CreatePolicy db d policy = db_create db d policy"

definition pgpol_GetPolicyByID :: "('d, PolicyRow) gorm_table \<Rightarrow> 'd \<Rightarrow> err_store \<Rightarrow> string \<Rightarrow> (go_error, PolicyRow) outcome \<times> err_store" where
  "pgpol_GetPolicyByID db d h i = policy_found h i (db_first db d (\<lambda>x. PolID x = i))"

definition pgpol_UpdatePolicy :: "('d, PolicyRow) gorm_table \<Rightarrow> 'd \<Rightarrow> PolicyRow \<Rightarrow> (go_error, unit) outcome \<times> 'd" where
  "pgpol_UpdatePolicy db d policy = db_save db d policy"

definition pgpol_DeletePolicy :: "('d, PolicyRow) gorm_table \<Rightarrow> 'd \<Rightarrow> string \<Rightarrow> (go_error, unit) outcome \<times> 'd" where
  "pgpol_DeletePolicy db d i = db_delete db d (\<lambda>x. PolID x = i)"

definition pgpol_ListPolicies :: "('d, PolicyRow) gorm_table \<Rightarrow> 'd \<Rightarrow> PaginationQuery \<Rightarrow> (go_error, PolicyRow list) outcome" where
  "pgpol_ListPolicies db d q =
     obind (db_find db d (\<lambda>_. True)) (\<lambda>xs. Ok (sql_page (POffset q) (PPageSize q) (newest_first PolCreatedAt xs)))"

definition pgpol_FindPoliciesForSubject :: "('d, PolicyRow) gorm_table \<Rightarrow> 'd \<Rightarrow> string \<Rightarrow> (go_error, PolicyRow list) outcome" where
  "pgpol_FindPoliciesForSubject db d subject = db_find db d (\<lambda>x. subject \<in> set (PolSubjects x) \<or> ''*'' \<in> set (PolSubjects x))"

section \<open>Identity providers and audit entries\<close>

text \<open>Providers are deleted softly: the row stays, with the time of its deletion, and the queries leave it out.\<close>

record IdentityProvider =
  IpID :: string
  IpName :: string
  IpType :: ProtocolType
  IpEnabled :: bool
  IpConfig :: string
  IpCreatedAt :: time
  IpUpdatedAt :: time
  IpDeletedAt :: "time option"

text \<open>\<open>violation\<close> is \<^verbatim>\<open>errors.As\<close> to an error of the driver \<^verbatim>\<open>lib/pq\<close> whose code is a unique violation, with its constraint.\<close>

definition CreateProvider ::
    "('d, IdentityProvider) gorm_table \<Rightarrow> (go_error \<Rightarrow> string option) \<Rightarrow> 'd \<Rightarrow> err_store \<Rightarrow> IdentityProvider \<Rightarrow> (go_error, unit) outcome \<times> 'd \<times> err_store" where
  "CreateProvider db violation d h provider =
     (case db_create db d provider of
        (Fail err, d') \<Rightarrow>
          (case violation err of
             Some constraint \<Rightarrow> (let (e, h') = WithDetails h ErrConflict [(''field'', constraint)] in (Fail e, d', h'))
           | None \<Rightarrow> (Fail err, d', h))
      | (res, d') \<Rightarrow> (res, d', h))"

definition live :: "IdentityProvider \<Rightarrow> bool" where "live x \<longleftrightarrow> IpDeletedAt x = None"

definition GetProviderByID :: "('d, IdentityProvider) gorm_table \<Rightarrow> 'd \<Rightarrow> err_store \<Rightarrow> string \<Rightarrow> (go_error, IdentityProvider) outcome \<times> err_store" where
  "GetProviderByID db d h i = policy_found h i (db_first db d (\<lambda>x. IpID x = i \<and> live x))"

definition GetProviderByName :: "('d, IdentityProvider) gorm_table \<Rightarrow> 'd \<Rightarrow> err_store \<Rightarrow> string \<Rightarrow> (go_error, IdentityProvider) outcome \<times> err_store" where
  "GetProviderByName db d h name =
     (case db_first db d (\<lambda>x. IpName x = name \<and> live x) of
        Fail err \<Rightarrow> if err = ErrRecordNotFound then (let (e, h') = WithDetails h ErrNotFound [(''name'', name)] in (Fail e, h')) else (Fail err, h)
      | res \<Rightarrow> (res, h))"

definition ListProviders :: "('d, IdentityProvider) gorm_table \<Rightarrow> 'd \<Rightarrow> (go_error, IdentityProvider list) outcome" where
  "ListProviders db d = db_find db d live"

definition UpdateProvider :: "('d, IdentityProvider) gorm_table \<Rightarrow> 'd \<Rightarrow> IdentityProvider \<Rightarrow> (go_error, unit) outcome \<times> 'd" where
  "UpdateProvider db d provider = db_save db d provider"

definition DeleteProvider :: "('d, IdentityProvider) gorm_table \<Rightarrow> time \<Rightarrow> 'd \<Rightarrow> string \<Rightarrow> (go_error, unit) outcome \<times> 'd" where
  "DeleteProvider db now d i = db_updates db d (\<lambda>x. IpID x = i \<and> live x) (\<lambda>x. x\<lparr>IpDeletedAt := Some now\<rparr>)"

definition pgl_CreateLogEntry :: "('d, AuditLog) gorm_table \<Rightarrow> 'd \<Rightarrow> AuditLog \<Rightarrow> (go_error, unit) outcome \<times> 'd" where
  "pgl_CreateLogEntry db d entry = db_create db d entry"

definition pgl_GetLogsForUser :: "('d, AuditLog) gorm_table \<Rightarrow> 'd \<Rightarrow> string \<Rightarrow> PaginationQuery \<Rightarrow> (go_error, AuditLog list) outcome" where
  "pgl_GetLogsForUser db d userID q =
     obind (db_find db d (\<lambda>x. LogActorID x = userID)) (\<lambda>xs. Ok (sql_page (POffset q) (PPageSize q) (newest_first LogTimestamp xs)))"

definition pgl_GetLogsByAction :: "('d, AuditLog) gorm_table \<Rightarrow> 'd \<Rightarrow> string \<Rightarrow> PaginationQuery \<Rightarrow> (go_error, AuditLog list) outcome" where
  "pgl_GetLogsByAction db d action q =
     obind (db_find db d (\<lambda>x. LogAction x = action)) (\<lambda>xs. Ok (sql_page (POffset q) (PPageSize q) (newest_first LogTimestamp xs)))"

section \<open>Applications\<close>

definition pga_CreateApplication :: "('d, Application) gorm_table \<Rightarrow> 'd \<Rightarrow> Application \<Rightarrow> (go_error, unit) outcome \<times> 'd" where
  "pga_CreateApplication db d app = db_create db d app"

definition pga_GetApplicationByID :: "('d, Application) gorm_table \<Rightarrow> 'd \<Rightarrow> string \<Rightarrow> (go_error, Application) outcome" where
  "pga_GetApplicationByID db d i = db_first db d (\<lambda>x. AppID x = i)"

definition pga_GetApplicationByName :: "('d, Application) gorm_table \<Rightarrow> 'd \<Rightarrow> string \<Rightarrow> (go_error, Application) outcome" where
  "pga_GetApplicationByName db d name = db_first db d (\<lambda>x. AppName x = name)"

definition pga_UpdateApplication :: "('d, Application) gorm_table \<Rightarrow> 'd \<Rightarrow> Application \<Rightarrow> (go_error, unit) outcome \<times> 'd" where
  "pga_UpdateApplication db d app = db_save db d app"

definition pga_DeleteApplication :: "('d, Application) gorm_table \<Rightarrow> 'd \<Rightarrow> string \<Rightarrow> (go_error, unit) outcome \<times> 'd" where
  "pga_DeleteApplication db d i = db_delete db d (\<lambda>x. AppID x = i)"

definition pga_ListApplications :: "('d, Application) gorm_table \<Rightarrow> 'd \<Rightarrow> PaginationQuery \<Rightarrow> (go_error, Application list) outcome" where
  "pga_ListApplications db d q = obind (db_find db d (\<lambda>_. True)) (\<lambda>xs. Ok (sql_page (POffset q) (PPageSize q) xs))"

definition pga_GetApplicationByClientID :: "('d, Application) gorm_table \<Rightarrow> 'd \<Rightarrow> string \<Rightarrow> (go_error, Application) outcome" where
  "pga_GetApplicationByClientID db d clientID = db_first db d (\<lambda>x. AppID x = clientID)"

section \<open>The history of accesses\<close>

record AccessLogFilter =
  FlUserID :: string
  FlDeviceID :: string
  FlEventType :: string
  FlStartTime :: "time option"
  FlEndTime :: "time option"
  FlSuccess :: "bool option"
  FlLimit :: int
  FlOffset :: int

definition RecordAccess ::
    "('d, AccessLog) gorm_table \<Rightarrow> (string \<Rightarrow> (go_error, string option) outcome) option \<Rightarrow> string \<Rightarrow> time \<Rightarrow> 'd \<Rightarrow> AccessLog
      \<Rightarrow> (go_error, unit) outcome \<times> 'd" where
  "RecordAccess db city uuid now d entry =
     (let e1 = (if AlID entry = [] then entry\<lparr>AlID := uuid\<rparr> else entry);
          located = (case city of None \<Rightarrow> Ok None | Some f \<Rightarrow> if AlIPAddress e1 = [] then Ok None else f (AlIPAddress e1))
      in if located = Panic then (Panic, d)
         else let e2 = (case located of Ok (Some c) \<Rightarrow> e1\<lparr>AlLocation := c\<rparr> | _ \<Rightarrow> e1);
                  e3 = (if AlCreatedAt e2 = zero_time then e2\<lparr>AlCreatedAt := now\<rparr> else e2)
              in db_create db d e3)"

definition access_matches :: "AccessLogFilter \<Rightarrow> AccessLog \<Rightarrow> bool" where
  "access_matches f x \<longleftrightarrow> (FlUserID f \<noteq> [] \<longrightarrow> AlUserID x = FlUserID f) \<and> (FlDeviceID f \<noteq> [] \<longrightarrow> AlDeviceID x = FlDeviceID f)
     \<and> (FlEventType f \<noteq> [] \<longrightarrow> AlEventType x = FlEventType f)
     \<and> (case FlStartTime f of None \<Rightarrow> True | Some t \<Rightarrow> AlCreatedAt x \<ge> t) \<and> (case FlEndTime f of None \<Rightarrow> True | Some t \<Rightarrow> AlCreatedAt x \<le> t)
     \<and> (case FlSuccess f of None \<Rightarrow> True | Some b \<Rightarrow> AlSuccess x = b)"

definition access_Query :: "('d, AccessLog) gorm_table \<Rightarrow> 'd \<Rightarrow> AccessLogFilter \<Rightarrow> (go_error, AccessLog list \<times> int) outcome" where
  "access_Query db d f =
     obind (db_find db d (access_matches f)) (\<lambda>counted.
       obind (db_find db d (access_matches f)) (\<lambda>xs.
         Ok (sql_page (if FlOffset f > 0 then FlOffset f else 0) (if FlLimit f > 0 then FlLimit f else - 1) (newest_first AlCreatedAt xs),
             int (length counted))))"

definition GetRecentByUser :: "('d, AccessLog) gorm_table \<Rightarrow> 'd \<Rightarrow> string \<Rightarrow> int \<Rightarrow> (go_error, AccessLog list) outcome" where
  "GetRecentByUser db d userID limit =
     obind (access_Query db d \<lparr>FlUserID = userID, FlDeviceID = [], FlEventType = [], FlStartTime = None, FlEndTime = None, FlSuccess = None,
         FlLimit = limit, FlOffset = 0\<rparr>) (\<lambda>(logs, _). Ok logs)"

text \<open>\<^verbatim>\<open>AddDate\<close> with whole days, in UTC, subtracts twenty-four hours for each; the number of rows that are affected is the number that meet the condition.\<close>

definition CleanupOldLogs :: "('d, AccessLog) gorm_table \<Rightarrow> time \<Rightarrow> 'd \<Rightarrow> string \<Rightarrow> int \<Rightarrow> (go_error, int) outcome \<times> 'd" where
  "CleanupOldLogs db now d tenantID retentionDays =
     (let old = (\<lambda>x. AlTenantID x = tenantID \<and> AlCreatedAt x < now - retentionDays * 86400000000000)
      in case db_find db d old of
           Panic \<Rightarrow> (Panic, d)
         | Fail err \<Rightarrow> (Fail err, d)
         | Ok xs \<Rightarrow> sbind (db_delete db d old) (\<lambda>_ d'. (Ok (int (length xs)), d')))"

section \<open>The two policy stores\<close>

lemma policy_Evaluate_sets:
  assumes "PResource c ''id'' = Some (VString rid)" and "\<And>s. set (f s) = set (g s)"
  shows "\<exists>d e. policy_Evaluate (\<lambda>s. Ok (f s)) h c = (Ok d, h) \<and> policy_Evaluate (\<lambda>s. Ok (g s)) h c = (Ok e, h) \<and> PAllowed d = PAllowed e"
proof -
  obtain ps where ps: "collect_policies (\<lambda>s. Ok (f s)) (getSubjectsFromContext c) = Ok ps" "set ps = (\<Union>s \<in> set (getSubjectsFromContext c). set (f s))"
    using collect_policies_Ok [of "getSubjectsFromContext c" "\<lambda>s. Ok (f s)"] by auto
  obtain qs where qs: "collect_policies (\<lambda>s. Ok (g s)) (getSubjectsFromContext c) = Ok qs" "set qs = (\<Union>s \<in> set (getSubjectsFromContext c). set (g s))"
    using collect_policies_Ok [of "getSubjectsFromContext c" "\<lambda>s. Ok (g s)"] by auto
  have "set ps = set qs" using ps(2) qs(2) assms(2) by simp
  with decide_loop_decision [OF assms(1), of ps False "[]"] decide_loop_decision [OF assms(1), of qs False "[]"] ps(1) qs(1)
  show ?thesis by (auto simp: policy_Evaluate_def)
qed

definition found_policies :: "PolicyRow list \<Rightarrow> string \<Rightarrow> Policy list" where
  "found_policies rows s = map Policy.truncate (filter (\<lambda>x. s \<in> set (PolSubjects x) \<or> ''*'' \<in> set (PolSubjects x)) rows)"

lemma pgpol_found:
  "obind (pgpol_FindPoliciesForSubject (row_db PolID PolID) rows s) (\<lambda>xs. Ok (map Policy.truncate xs)) = Ok (found_policies rows s)"
  by (simp add: pgpol_FindPoliciesForSubject_def found_policies_def)

text \<open>
  C25: The PostgreSQL store and the in-memory store give the same decisions on the same policies, as long as no policy names every subject.
\<close>

theorem policy_stores_agree:
  assumes "Policy.truncate ` set rows = ran (m_policies r)" and "\<forall>x \<in> set rows. ''*'' \<notin> set (PolSubjects x)"
    and "\<forall>s. visits (ord s) (m_policies r)" and "PResource c ''id'' = Some (VString rid)"
  shows "\<exists>d e. policy_Evaluate (\<lambda>s. obind (pgpol_FindPoliciesForSubject (row_db PolID PolID) rows s) (\<lambda>xs. Ok (map Policy.truncate xs))) h c = (Ok d, h)
    \<and> policy_Evaluate (\<lambda>s. Ok (pmem_FindPoliciesForSubject (ord s) r s)) h c = (Ok e, h) \<and> PAllowed d = PAllowed e"
proof -
  have "set (found_policies rows s) = set (pmem_FindPoliciesForSubject (ord s) r s)" for s
  proof -
    have "set (found_policies rows s) = {p \<in> Policy.truncate ` set rows. s \<in> set (PolSubjects p)}"
      using assms(2) by (auto simp: found_policies_def Policy.truncate_def)
    also have "\<dots> = set (pmem_FindPoliciesForSubject (ord s) r s)"
      using assms(1) set_range_values [OF assms(3) [rule_format], of s] by (simp add: pmem_FindPoliciesForSubject_def list_ex_iff)
    finally show ?thesis .
  qed
  then show ?thesis unfolding pgpol_found by (rule policy_Evaluate_sets [OF assms(4)])
qed

text \<open>
  A policy for every subject is found for each subject over PostgreSQL and for none over the in-memory store: a general denial has no effect there.
\<close>

theorem wildcard_subject_differs:
  assumes "PolSubjects p = [''*'']" and "subject \<noteq> ''*''"
  shows "pgpol_FindPoliciesForSubject (row_db PolID PolID) [p] subject = Ok [p]
    \<and> pmem_FindPoliciesForSubject [PolID p] \<lparr>m_policies = [PolID p \<mapsto> Policy.truncate p]\<rparr> subject = []"
  using assms by (simp add: pgpol_FindPoliciesForSubject_def pmem_FindPoliciesForSubject_def range_values_def List.map_filter_def Policy.truncate_def)

section \<open>Deleted providers\<close>

text \<open>
  A deleted provider is not found any more, and its name stays taken: a provider of the same name cannot be created again.
\<close>

theorem deleted_provider_name_taken:
  assumes "DeleteProvider (row_db IpID IpName) now rows i = (Ok (), rows')" and "x \<in> set rows" and "IpID x = i" and "IpName y = IpName x"
    and "unique_rows IpID IpName rows"
  shows "fst (GetProviderByID (row_db IpID IpName) rows' h i) = Fail ErrNotFound
    \<and> (\<exists>e h'. CreateProvider (row_db IpID IpName) violation rows' h y = (Fail e, rows', h'))"
proof -
  have rows': "rows' = map (\<lambda>x. if IpID x = i \<and> live x then x\<lparr>IpDeletedAt := Some now\<rparr> else x) rows"
    using assms(1) by (simp add: DeleteProvider_def)
  have "\<not> (IpID (if IpID z = i \<and> live z then z\<lparr>IpDeletedAt := Some now\<rparr> else z) = i
      \<and> live (if IpID z = i \<and> live z then z\<lparr>IpDeletedAt := Some now\<rparr> else z))" for z
    by (cases "IpID z = i \<and> live z") (simp_all add: live_def)
  then have "\<forall>z \<in> set rows'. \<not> (IpID z = i \<and> live z)" unfolding rows' set_map ball_simps by (rule ballI)
  then have "find (\<lambda>x. IpID x = i \<and> live x) rows' = None" by (simp add: find_None_iff)
  then have "fst (GetProviderByID (row_db IpID IpName) rows' h i) = Fail ErrNotFound"
    by (simp add: GetProviderByID_def policy_found_def Let_def case_prod_beta)
  moreover have "\<exists>z \<in> set rows'. IpName z = IpName y"
    unfolding rows' set_map by (rule bexI [OF _ imageI [OF assms(2)]]) (simp add: assms(4))
  then have "row_insert IpID IpName rows' y = (Fail ErrDuplicatedKey, rows')" by (auto simp: row_insert_def list_ex_iff)
  then have "\<exists>e h'. CreateProvider (row_db IpID IpName) violation rows' h y = (Fail e, rows', h')"
    by (auto simp: CreateProvider_def split: option.split prod.split)
  ultimately show ?thesis by blast
qed

section \<open>Pages of the history\<close>

lemma newest_first_sorted: "sorted_wrt (\<lambda>x y. t x \<ge> t y) (newest_first t xs)"
  using sorted_sort_key [of "\<lambda>x. - t x" xs] by (simp add: newest_first_def sorted_map)

lemma sql_page_append:
  assumes "0 \<le> off" and "0 < l"
  shows "sql_page off l xs @ sql_page (off + l) l xs = sql_page off (2 * l) xs"
proof -
  have "drop (nat (off + l)) xs = drop (nat l) (drop (nat off) xs)" using assms by (simp add: nat_add_distrib add.commute)
  moreover have "nat (2 * l) = nat l + nat l" using assms by linarith
  ultimately show ?thesis using assms by (simp add: sql_page_def Let_def take_add)
qed

text \<open>
  A page of the history: the total is the number of entries that match, the page holds matching entries only, newest first, as many as there are up to the limit, and the page
  that follows continues it.
\<close>

theorem access_Query_page:
  assumes "access_Query (row_db AlID AlID) rows f = Ok (page, n)" and "0 < FlLimit f" and "0 \<le> FlOffset f"
  shows "n = int (length (filter (access_matches f) rows)) \<and> set page \<subseteq> {x \<in> set rows. access_matches f x}
    \<and> int (length page) = min (FlLimit f) (max 0 (n - FlOffset f)) \<and> sorted_wrt (\<lambda>x y. AlCreatedAt x \<ge> AlCreatedAt y) page
    \<and> (\<forall>next m. access_Query (row_db AlID AlID) rows (f\<lparr>FlOffset := FlOffset f + FlLimit f\<rparr>) = Ok (next, m)
        \<longrightarrow> access_Query (row_db AlID AlID) rows (f\<lparr>FlLimit := 2 * FlLimit f\<rparr>) = Ok (page @ next, m))"
proof -
  let ?xs = "newest_first AlCreatedAt (filter (access_matches f) rows)"
  have page: "page = sql_page (FlOffset f) (FlLimit f) ?xs" and n: "n = int (length (filter (access_matches f) rows))"
    using assms by (auto simp: access_Query_def)
  have s: "set ?xs = {x \<in> set rows. access_matches f x}" "length ?xs = nat n" by (simp_all add: newest_first_def n)
  have "set page \<subseteq> set ?xs" using assms(2) by (auto simp: page sql_page_def Let_def dest: in_set_takeD in_set_dropD)
  moreover have "int (length page) = min (FlLimit f) (max 0 (n - FlOffset f))"
    using assms(2,3) s(2) by (auto simp: page sql_page_def Let_def n)
  moreover have "sorted_wrt (\<lambda>x y. AlCreatedAt x \<ge> AlCreatedAt y) page"
    using sorted_wrt_take [OF sorted_wrt_drop [OF newest_first_sorted [of AlCreatedAt]]] assms(2) by (simp add: page sql_page_def Let_def)
  moreover have m: "access_matches (f\<lparr>FlOffset := o'\<rparr>) = access_matches f" "access_matches (f\<lparr>FlLimit := l'\<rparr>) = access_matches f" for o' l'
    by (simp_all add: fun_eq_iff access_matches_def)
  have "access_Query (row_db AlID AlID) rows (f\<lparr>FlLimit := 2 * FlLimit f\<rparr>) = Ok (page @ next, m')"
    if "access_Query (row_db AlID AlID) rows (f\<lparr>FlOffset := FlOffset f + FlLimit f\<rparr>) = Ok (next, m')" for "next" m'
    using that assms(2,3) sql_page_append [OF assms(3,2), of ?xs] by (auto simp: access_Query_def m page)
  ultimately show ?thesis using n s(1) by blast
qed

text \<open>
  The clean-up removes exactly the entries of the tenant that are older than the retention period, and reports how many.
\<close>

theorem CleanupOldLogs_exact:
  "CleanupOldLogs (row_db AlID AlID) now rows tenant days
   = (Ok (int (length rows - length (filter (\<lambda>x. \<not> (AlTenantID x = tenant \<and> AlCreatedAt x < now - days * 86400000000000)) rows))),
      filter (\<lambda>x. \<not> (AlTenantID x = tenant \<and> AlCreatedAt x < now - days * 86400000000000)) rows)"
proof -
  let ?P = "\<lambda>x. AlTenantID x = tenant \<and> AlCreatedAt x < now - days * 86400000000000"
  have "length (filter ?P rows) = length rows - length (filter (\<lambda>x. \<not> ?P x) rows)"
    using sum_length_filter_compl [of ?P rows] by simp
  then show ?thesis by (simp only: CleanupOldLogs_def Let_def row_db_sel outcome.case sbind.simps)
qed

section \<open>Witnesses\<close>

definition demo_rows :: "PolicyRow list" where
  "demo_rows = [\<lparr>PolID = ''p1'', PolVersion = 1, PolEffect = ''allow'', PolActions = [''read''],
     PolResources = [''*''], PolSubjects = [''user:u1''], PolConditions = [], PolDescription = [], PolCreatedAt = 3\<rparr>]"

definition demo_question :: PolicyEvaluationContext where
  "demo_question = \<lparr>PSubject = [''id'' \<mapsto> VString ''u1''], PAction = ''read'', PResource = [''id'' \<mapsto> VString ''doc''], PContext = Map.empty\<rparr>"

theorem policy_stores_agree_witness:
  "\<exists>d e. policy_Evaluate (\<lambda>s. obind (pgpol_FindPoliciesForSubject (row_db PolID PolID) demo_rows s) (\<lambda>xs. Ok (map Policy.truncate xs))) initial_errors demo_question
      = (Ok d, initial_errors)
    \<and> policy_Evaluate (\<lambda>s. Ok (pmem_FindPoliciesForSubject [''p1''] \<lparr>m_policies = [''p1'' \<mapsto> demo_policy]\<rparr> s)) initial_errors demo_question = (Ok e, initial_errors)
    \<and> PAllowed d = PAllowed e"
  by (rule policy_stores_agree [of _ _ "\<lambda>_. [''p1'']" _ "''doc''"])
    (simp_all add: demo_rows_def demo_policy_def demo_question_def visits_def Policy.truncate_def)

theorem wildcard_subject_differs_witness:
  "pgpol_FindPoliciesForSubject (row_db PolID PolID) [(hd demo_rows)\<lparr>PolSubjects := [''*'']\<rparr>] ''user:u1'' = Ok [(hd demo_rows)\<lparr>PolSubjects := [''*'']\<rparr>]"
  using wildcard_subject_differs [of "(hd demo_rows)\<lparr>PolSubjects := [''*'']\<rparr>" "''user:u1''"] by simp

definition demo_idp :: "string \<Rightarrow> IdentityProvider" where
  "demo_idp i = \<lparr>IpID = i, IpName = ''corp'', IpType = ''oidc'', IpEnabled = True, IpConfig = [], IpCreatedAt = 0, IpUpdatedAt = 0, IpDeletedAt = None\<rparr>"

theorem deleted_provider_name_taken_witness:
  "\<exists>rows' e h'. DeleteProvider (row_db IpID IpName) 5 [demo_idp ''a''] ''a'' = (Ok (), rows')
    \<and> CreateProvider (row_db IpID IpName) (\<lambda>_. None) rows' initial_errors (demo_idp ''b'') = (Fail e, rows', h')"
proof -
  obtain rows' where r: "DeleteProvider (row_db IpID IpName) 5 [demo_idp ''a''] ''a'' = (Ok (), rows')" by (simp add: DeleteProvider_def)
  have "unique_rows IpID IpName [demo_idp ''a'']" by (simp add: unique_rows_def)
  with deleted_provider_name_taken [OF r, of "demo_idp ''a''" "demo_idp ''b''" initial_errors "\<lambda>_. None"] r show ?thesis
    by (auto simp: demo_idp_def)
qed

definition demo_access :: "string \<Rightarrow> time \<Rightarrow> AccessLog" where
  "demo_access i t = \<lparr>AlID = i, AlTenantID = ''t'', AlUserID = ''u1'', AlDeviceID = [], AlEventType = ''login'', AlAction = [], AlIPAddress = [],
     AlUserAgent = [], AlLocation = [], AlSuccess = True, AlMFAVerified = False, AlMetadata = Map.empty, AlCreatedAt = t\<rparr>"

definition demo_access_filter :: AccessLogFilter where
  "demo_access_filter = \<lparr>FlUserID = ''u1'', FlDeviceID = [], FlEventType = [], FlStartTime = None, FlEndTime = None, FlSuccess = None,
     FlLimit = 2, FlOffset = 0\<rparr>"

theorem access_Query_page_witness:
  "\<exists>page n. access_Query (row_db AlID AlID) [demo_access ''a'' 1, demo_access ''b'' 9, demo_access ''c'' 4] demo_access_filter = Ok (page, n)
     \<and> n = 3 \<and> length page = 2 \<and> sorted_wrt (\<lambda>x y. AlCreatedAt x \<ge> AlCreatedAt y) page"
proof -
  let ?rows = "[demo_access ''a'' 1, demo_access ''b'' 9, demo_access ''c'' 4]"
  obtain page n where q: "access_Query (row_db AlID AlID) ?rows demo_access_filter = Ok (page, n)" by (simp add: access_Query_def)
  have "filter (access_matches demo_access_filter) ?rows = ?rows" by (simp add: access_matches_def demo_access_filter_def demo_access_def)
  then have "length (filter (access_matches demo_access_filter) ?rows) = 3" by simp
  moreover have "FlLimit demo_access_filter = 2" "FlOffset demo_access_filter = 0" by (simp_all add: demo_access_filter_def)
  ultimately show ?thesis using access_Query_page [OF q] q by auto
qed

end
