(* ===== verification/App_Services.thy ===== *)
theory App_Services
  imports Postgres_Stores Privacy Auth_Service Identity_Service
begin

text \<open>
  The application services in front of the domain services: \<^verbatim>\<open>internal/services/identity\<close>, \<^verbatim>\<open>internal/services/auth\<close>,
  \<^verbatim>\<open>internal/services/application\<close> and \<^verbatim>\<open>internal/services/platform/devcenter_service.go\<close>, and the cache
  \<^verbatim>\<open>internal/cache/redis_cache.go\<close>. Methods that only pass a call on are left out.
\<close>

section \<open>Errors\<close>

text \<open>An error that is no \<^verbatim>\<open>*types.Error\<close> becomes the cause of an internal error.\<close>

definition app_error :: "err_store \<Rightarrow> go_error \<Rightarrow> go_error \<times> err_store" where
  "app_error h err = (case err of Sentinel _ \<Rightarrow> (err, h) | _ \<Rightarrow> WithCause h ErrInternal err)"

section \<open>The identity application service\<close>

text \<open>\<open>ia_assign\<close> is what an assignment through the pointer that the repository returned does to the repository, as in the privacy service.\<close>

record ('s, 'w) identity_app =
  ia_users :: "'s UserRepository"
  ia_groups :: "'s GroupRepository"
  ia_HashPassword :: "string \<Rightarrow> (go_error, string) outcome"
  ia_assign :: "'s \<Rightarrow> User \<Rightarrow> 's"
  ia_audit :: "'w AuditService option"

definition app_CreateUser ::
    "('s, 'w) identity_app \<Rightarrow> (nat \<Rightarrow> string) \<Rightarrow> time \<Rightarrow> 's \<Rightarrow> err_store \<Rightarrow> 'w audit_world \<Rightarrow> string \<Rightarrow> string \<Rightarrow> string
      \<Rightarrow> ((go_error, User) outcome \<times> 's \<times> err_store \<times> 'w audit_world) option" where
  "app_CreateUser ia fresh now s h a username email password =
     (case svc_CreateUser (ia_users ia) (ia_HashPassword ia) (fresh 0) s h username email password of
        None \<Rightarrow> None
      | Some (Panic, s', h') \<Rightarrow> Some (Panic, s', h', a)
      | Some (Fail err, s', h') \<Rightarrow> (let (e, h2) = app_error h' err in Some (Fail e, s', h2, a))
      | Some (Ok user, s', h') \<Rightarrow>
          (case (case ia_audit ia of None \<Rightarrow> (Ok (), a) | Some au \<Rightarrow> RecordUserCreated au (fresh 1) now user ''unknown'' [] a) of
             (Panic, a') \<Rightarrow> Some (Panic, s', h', a')
           | (_, a') \<Rightarrow> (let user1 = user\<lparr>Password := []\<rparr> in Some (Ok user1, ia_assign ia s' user1, h', a'))))"

definition app_GetUserByID :: "('s, 'w) identity_app \<Rightarrow> 's \<Rightarrow> err_store \<Rightarrow> string \<Rightarrow> ('s, User) svc" where
  "app_GetUserByID ia s h userID =
     (case svc_GetUser (ia_users ia) s h userID of
        (Panic, s', h') \<Rightarrow> (Panic, s', h')
      | (Fail err, s', h') \<Rightarrow> (let (e, h2) = app_error h' err in (Fail e, s', h2))
      | (Ok user, s', h') \<Rightarrow> (let user1 = user\<lparr>Password := []\<rparr> in (Ok user1, ia_assign ia s' user1, h')))"

definition app_AddUserToGroup :: "('s, 'w) identity_app \<Rightarrow> 's \<Rightarrow> err_store \<Rightarrow> string \<Rightarrow> string \<Rightarrow> ('s, unit) svc" where
  "app_AddUserToGroup ia s h userID groupID =
     (case svc_AddUserToGroup (ia_users ia) (ia_groups ia) s h userID groupID of
        (Fail err, s', h') \<Rightarrow> (let (e, h2) = app_error h' err in (Fail e, s', h2))
      | res \<Rightarrow> res)"

definition app_ChangeUserStatus :: "('s, 'w) identity_app \<Rightarrow> 's \<Rightarrow> err_store \<Rightarrow> string \<Rightarrow> UserStatus \<Rightarrow> ('s, unit) svc" where
  "app_ChangeUserStatus ia s h userID newStatus =
     (case svc_ChangeUserStatus (ia_users ia) s h userID newStatus of
        (Fail err, s', h') \<Rightarrow> (let (e, h2) = app_error h' err in (Fail e, s', h2))
      | res \<Rightarrow> res)"

section \<open>The authentication application service\<close>

text \<open>\<open>text_of_error\<close> is \<^verbatim>\<open>err.Error()\<close>.\<close>

definition app_LoginWithPassword ::
    "('s, 'f) AuthService \<Rightarrow> 'w AuditService \<Rightarrow> (go_error \<Rightarrow> string) \<Rightarrow> (nat \<Rightarrow> time) \<Rightarrow> (nat \<Rightarrow> string) \<Rightarrow> Config
      \<Rightarrow> ('s, 'f) world \<times> 'w audit_world \<Rightarrow> AuthnRequest \<Rightarrow> (go_error, AuthResult) outcome \<times> (('s, 'f) world \<times> 'w audit_world)" where
  "app_LoginWithPassword svc au text_of_error clock fresh cfg wa req =
     (case LoginWithPassword svc clock fresh cfg (fst wa) req of
        (Panic, w) \<Rightarrow> (Panic, w, snd wa)
      | (Ok res, w) \<Rightarrow> (Ok res, w, snd wa)
      | (Fail err, w) \<Rightarrow>
          (case RecordLoginFailed au (fresh 9) (clock 9) (RUsername req) ''not_implemented'' ''not_implemented'' (text_of_error err) None (snd wa) of
             (Panic, a) \<Rightarrow> (Panic, w, a)
           | (_, a) \<Rightarrow> (let (e, h) = app_error (w_errs w) err in (Fail e, w\<lparr>w_errs := h\<rparr>, a))))"

definition app_Logout ::
    "('s, 'f) AuthService \<Rightarrow> (nat \<Rightarrow> time) \<Rightarrow> ('s, 'f) world \<Rightarrow> string \<Rightarrow> string \<Rightarrow> ('s, 'f, unit) run" where
  "app_Logout svc clock w sessionID accessToken =
     (case Logout svc clock w sessionID accessToken of
        (Fail err, w') \<Rightarrow> (let (e, h) = app_error (w_errs w') err in (Fail e, w'\<lparr>w_errs := h\<rparr>))
      | res \<Rightarrow> res)"

section \<open>Applications\<close>

record CreateApplicationRequest =
  CaName :: string
  CaDescription :: string
  CaProtocol :: ProtocolType
  CaProtocolConfig :: gmap

definition ApplicationStatusActive :: string where "ApplicationStatusActive = ''active''"

definition svc_GetApplicationByID :: "('d, Application) gorm_table \<Rightarrow> 'd \<Rightarrow> err_store \<Rightarrow> string \<Rightarrow> (go_error, Application) outcome \<times> err_store" where
  "svc_GetApplicationByID db d h i =
     (case pga_GetApplicationByID db d i of
        Fail err \<Rightarrow> (let (e, h') = app_error h err in (Fail e, h'))
      | res \<Rightarrow> (res, h))"

definition new_application :: "string \<Rightarrow> CreateApplicationRequest \<Rightarrow> Application" where
  "new_application uuid req =
     \<lparr>AppID = uuid, AppName = CaName req, AppDescription = CaDescription req, AppStatus = ApplicationStatusActive, AppClientType = [],
      AppProtocol = CaProtocol req, AppProtocolConfig = CaProtocolConfig req, AppCreatedAt = zero_time, AppUpdatedAt = zero_time\<rparr>"

text \<open>The mapper fills the time stamps and the column default of the client type into the object that it writes.\<close>

definition svc_CreateApplication ::
    "('d, Application) gorm_table \<Rightarrow> string \<Rightarrow> time \<Rightarrow> 'd \<Rightarrow> err_store \<Rightarrow> CreateApplicationRequest \<Rightarrow> (go_error, Application) outcome \<times> 'd \<times> err_store" where
  "svc_CreateApplication db uuid now d h req =
     (let app = (new_application uuid req)\<lparr>AppClientType := ''confidential'', AppCreatedAt := now, AppUpdatedAt := now\<rparr>
      in case pga_CreateApplication db d app of
           (Panic, d') \<Rightarrow> (Panic, d', h)
         | (Fail err, d') \<Rightarrow> (let (e, h') = app_error h err in (Fail e, d', h'))
         | (Ok _, d') \<Rightarrow> (Ok app, d', h))"

definition svc_ListApplications :: "('d, Application) gorm_table \<Rightarrow> 'd \<Rightarrow> err_store \<Rightarrow> (go_error, Application list) outcome \<times> err_store" where
  "svc_ListApplications db d h =
     (case pga_ListApplications db d \<lparr>POffset = 0, PPageSize = 0\<rparr> of
        Fail err \<Rightarrow> (let (e, h') = app_error h err in (Fail e, h'))
      | res \<Rightarrow> (res, h))"

section \<open>The developer centre\<close>

record DevCenterAppDTO =
  DaID :: string
  DaName :: string
  DaProtocol :: string
  DaClientID :: string
  DaRedirectURI :: string
  DaEnabled :: bool

definition dev_ListApps :: "('d, Application) gorm_table \<Rightarrow> 'd \<Rightarrow> err_store \<Rightarrow> (go_error, DevCenterAppDTO list) outcome \<times> err_store" where
  "dev_ListApps db d h =
     (let (res, h') = svc_ListApplications db d h
      in (obind res (\<lambda>apps. Ok (map (\<lambda>app. \<lparr>DaID = AppID app, DaName = AppName app, DaProtocol = AppProtocol app, DaClientID = [], DaRedirectURI = [],
            DaEnabled = (AppStatus app = ApplicationStatusActive)\<rparr>) apps)), h'))"

record CreateAppRequest =
  CqName :: string
  CqProtocol :: string
  CqRedirectURI :: string

definition dev_CreateApp ::
    "('d, Application) gorm_table \<Rightarrow> string \<Rightarrow> time \<Rightarrow> 'd \<Rightarrow> err_store \<Rightarrow> CreateAppRequest \<Rightarrow> (go_error, DevCenterAppDTO) outcome \<times> 'd \<times> err_store" where
  "dev_CreateApp db uuid now d h req =
     (let (res, d', h') = svc_CreateApplication db uuid now d h
            \<lparr>CaName = CqName req, CaDescription = [], CaProtocol = CqProtocol req,
             CaProtocolConfig = [''redirect_uris'' \<mapsto> VStrings [CqRedirectURI req]]\<rparr>
      in (obind res (\<lambda>app. Ok \<lparr>DaID = AppID app, DaName = AppName app, DaProtocol = AppProtocol app, DaClientID = [], DaRedirectURI = CqRedirectURI req,
            DaEnabled = (AppStatus app = ApplicationStatusActive)\<rparr>), d', h'))"

section \<open>The cache\<close>

text \<open>
  Cached values are JSON texts. A user is encoded without the password, which the struct tag excludes. The random numbers are
  arguments: \<open>rnd n\<close> is \<^verbatim>\<open>rand.Intn(n)\<close>, which panics for a number that is not positive. Durations divide without a remainder where the code rounds floating-point quotients
  towards zero.
\<close>

datatype 'x cached =
    CachedUser User
  | CachedData 'x
  | CachedText string

record ('r, 'x) cache_client =
  cc_Get :: "'r \<Rightarrow> string \<Rightarrow> (go_error, 'x cached) outcome"
  cc_Set :: "'r \<Rightarrow> string \<Rightarrow> 'x cached \<Rightarrow> int \<Rightarrow> (go_error, unit) outcome \<times> 'r"

definition cache_ErrNotFound :: go_error where "cache_ErrNotFound = Errorf ''item not found in cache''"

definition json_user :: "User \<Rightarrow> User" where "json_user u = u\<lparr>Password := []\<rparr>"

definition Intn :: "(int \<Rightarrow> int) \<Rightarrow> int \<Rightarrow> (go_error, int) outcome" where
  "Intn rnd n = (if n \<le> 0 then Panic else Ok (rnd n))"

definition one_second :: int where "one_second = 1000000000"

definition cache_GetUser ::
    "('r, 'x) cache_client \<Rightarrow> (string \<Rightarrow> (go_error, User) outcome) \<Rightarrow> (int \<Rightarrow> int) \<Rightarrow> 'r \<Rightarrow> string \<Rightarrow> (go_error, User) outcome \<times> 'r" where
  "cache_GetUser c GetUserByID rnd r userID =
     (case cc_Get c r (''user:'' @ userID) of
        Ok (CachedUser u) \<Rightarrow> (Ok u, r)
      | Panic \<Rightarrow> (Panic, r)
      | _ \<Rightarrow>
          (case GetUserByID userID of
             Panic \<Rightarrow> (Panic, r)
           | Fail err \<Rightarrow> (Fail err, r)
           | Ok user \<Rightarrow>
               (case Intn rnd 60 of
                  Ok k \<Rightarrow> (Ok user, snd (cc_Set c r (''user:'' @ userID) (CachedUser (json_user user)) (300 * one_second + (k - 30) * one_second)))
                | _ \<Rightarrow> (Panic, r))))"

definition SetSession :: "('r, 'x) cache_client \<Rightarrow> (int \<Rightarrow> int) \<Rightarrow> 'r \<Rightarrow> string \<Rightarrow> 'x \<Rightarrow> (go_error, unit) outcome \<times> 'r" where
  "SetSession c rnd r sessionID data =
     (case Intn rnd 180 of
        Ok k \<Rightarrow> cc_Set c r (''session:'' @ sessionID) (CachedData data) (1800 * one_second + (k - 90) * one_second)
      | _ \<Rightarrow> (Panic, r))"

definition cache_read :: "('r, 'x) cache_client \<Rightarrow> 'r \<Rightarrow> string \<Rightarrow> (go_error, 'x) outcome" where
  "cache_read c r key =
     (case cc_Get c r key of
        Panic \<Rightarrow> Panic
      | Fail err \<Rightarrow> Fail (if err = redis_Nil then cache_ErrNotFound else err)
      | Ok (CachedData x) \<Rightarrow> Ok x
      | Ok _ \<Rightarrow> Fail (Errorf ''json: cannot unmarshal''))"

definition cache_GetSession :: "('r, 'x) cache_client \<Rightarrow> 'r \<Rightarrow> string \<Rightarrow> (go_error, 'x) outcome" where
  "cache_GetSession c r sessionID = cache_read c r (''session:'' @ sessionID)"

definition SetAccessToken :: "('r, 'x) cache_client \<Rightarrow> (int \<Rightarrow> int) \<Rightarrow> 'r \<Rightarrow> string \<Rightarrow> 'x \<Rightarrow> int \<Rightarrow> (go_error, unit) outcome \<times> 'r" where
  "SetAccessToken c rnd r accessToken data expiration =
     (let part = (\<lambda>k. if expiration < 0 then - ((- expiration) div (k * one_second)) else expiration div (k * one_second))
      in case Intn rnd (part 10) of
           Ok k \<Rightarrow> cc_Set c r (''token:'' @ accessToken) (CachedData data) (expiration + (k - part 20) * one_second)
         | _ \<Rightarrow> (Panic, r))"

definition GetAccessToken :: "('r, 'x) cache_client \<Rightarrow> 'r \<Rightarrow> string \<Rightarrow> (go_error, 'x) outcome" where
  "GetAccessToken c r accessToken = cache_read c r (''token:'' @ accessToken)"

section \<open>Properties\<close>

text \<open>
  Reading a user by ID blanks the password in the object that the repository handed out. Over the in-memory repository this is
  the stored object: afterwards no password that the hash check refuses against the empty hash signs the user in again.
\<close>

lemma LoginWithPassword_not_Ok:
  assumes "as_GetUserByUsername svc (w_errs w) (RUsername req) = (Ok user, h)"
    and "\<not> as_CheckPasswordHash svc (RPassword req) (Password user)"
  shows "\<exists>e w'. LoginWithPassword svc clock fresh cfg w req = (Fail e, w') \<and> w_repo w' = w_repo w"
  using assms by (simp add: LoginWithPassword_def Let_def logAuthFailure_def)

text \<open>
  Reading a user through the application service erases the password hash in the in-memory repository, and the next login of that
  user fails for every password that does not match the empty hash.
\<close>

theorem read_wipes_password:
  assumes "ia_users ia = memory_users ord uuid" and "ia_assign ia = memory_assign"
    and "m_users r i = Some user" and "UID user = i"
    and "as_GetUserByUsername svc = lookup_by_name (memory_users ord uuid) r'"
    and "mem_GetUserByUsername (ord ''GetUserByUsername'') r' (RUsername req) = Ok (user\<lparr>Password := []\<rparr>)"
    and "\<not> as_CheckPasswordHash svc (RPassword req) []"
    and "app_GetUserByID ia r h i = (res, r', h')"
  shows "res = Ok (user\<lparr>Password := []\<rparr>) \<and> h' = h \<and> m_users r' = (m_users r)(i \<mapsto> user\<lparr>Password := []\<rparr>)
    \<and> (\<exists>e w'. LoginWithPassword svc clock fresh cfg w req = (Fail e, w') \<and> w_repo w' = w_repo w)"
proof -
  have "as_GetUserByUsername svc (w_errs w) (RUsername req) = (Ok (user\<lparr>Password := []\<rparr>), w_errs w)"
    using assms(5,6) by (simp add: lookup_by_name_def svc_GetUserByUsername_def)
  from LoginWithPassword_not_Ok [OF this] assms(7)
  have "\<exists>e w'. LoginWithPassword svc clock fresh cfg w req = (Fail e, w') \<and> w_repo w' = w_repo w" by simp
  moreover have "res = Ok (user\<lparr>Password := []\<rparr>) \<and> h' = h \<and> r' = memory_assign r (user\<lparr>Password := []\<rparr>)"
    using assms(1-4,8) by (simp add: app_GetUserByID_def svc_GetUser_def mem_GetUserByID_def Let_def)
  ultimately show ?thesis using assms(4) by simp
qed

lemma recorded_failure:
  assumes "aus_sinks au = [\<lambda>es e. (Ok (), es @ [e])]"
  shows "\<exists>a' ev. RecordLoginFailed au uuid now u ip tr reason d a = (Ok (), a') \<and> aw_world a' = aw_world a @ [ev]
    \<and> EvAction ev = ''login_failed'' \<and> EvUserID ev = u \<and> EvResult ev = ResultFailure"
  using assms by (simp add: RecordLoginFailed_def pipeline_Emit_def Emit_def dispatchWebhook_def service_event_def Let_def)

text \<open>
  A failed login leaves exactly one event in a recording sink, a failure of the name in the request, and a successful login leaves
  none there.
\<close>

theorem failed_login_audited:
  assumes "aus_sinks au = [\<lambda>es e. (Ok (), es @ [e])]"
    and "app_LoginWithPassword svc au txt clock fresh cfg (w, a) req = (res, w', a')"
  shows "case res of Ok _ \<Rightarrow> a' = a | Panic \<Rightarrow> a' = a
    | Fail _ \<Rightarrow> \<exists>ev. aw_world a' = aw_world a @ [ev] \<and> EvAction ev = ''login_failed''
        \<and> EvUserID ev = RUsername req \<and> EvResult ev = ResultFailure"
proof (cases "LoginWithPassword svc clock fresh cfg w req")
  case (Pair r v)
  show ?thesis
  proof (cases r)
    case (Fail err)
    obtain b ev where "RecordLoginFailed au (fresh 9) (clock 9) (RUsername req) ''not_implemented'' ''not_implemented'' (txt err) None a = (Ok (), b)"
      "aw_world b = aw_world a @ [ev] \<and> EvAction ev = ''login_failed'' \<and> EvUserID ev = RUsername req \<and> EvResult ev = ResultFailure"
      using recorded_failure [OF assms(1)] by blast
    with assms(2) Pair Fail show ?thesis by (auto simp: app_LoginWithPassword_def case_prod_beta Let_def)
  qed (use assms(2) Pair in \<open>auto simp: app_LoginWithPassword_def\<close>)
qed

lemma created_Ok:
  assumes "(case p of (Panic, d) \<Rightarrow> (Panic, d, h) | (Fail err, d) \<Rightarrow> (let (e, h3) = app_error h err in (Fail e, d, h3))
      | (Ok _, d) \<Rightarrow> (Ok x, d, h)) = (Ok y, d', h')"
  shows "p = (Ok (), d')" and "y = x"
  using assms by (cases p; cases "fst p"; simp add: case_prod_beta Let_def)+

text \<open>
  A created application can be read by its ID, and still the listing of applications, which asks for a page of size zero, is empty.
\<close>

theorem application_listed_never:
  assumes "unique_rows AppID AppName rows"
    and "svc_CreateApplication (row_db AppID AppName) uuid now rows h req = (Ok app, rows', h')"
  shows "svc_GetApplicationByID (row_db AppID AppName) rows' h2 uuid = (Ok app, h2)
    \<and> AppStatus app = ApplicationStatusActive \<and> AppName app = CaName req
    \<and> svc_ListApplications (row_db AppID AppName) rows' h2 = (Ok [], h2)
    \<and> dev_ListApps (row_db AppID AppName) rows' h2 = (Ok [], h2)"
proof -
  let ?app = "(new_application uuid req)\<lparr>AppClientType := ''confidential'', AppCreatedAt := now, AppUpdatedAt := now\<rparr>"
  have "(case row_insert AppID AppName rows ?app of (Panic, d) \<Rightarrow> (Panic, d, h)
      | (Fail err, d) \<Rightarrow> (let (e, h3) = app_error h err in (Fail e, d, h3)) | (Ok _, d) \<Rightarrow> (Ok ?app, d, h)) = (Ok app, rows', h')"
    using assms(2) by (simp only: svc_CreateApplication_def pga_CreateApplication_def row_db_sel Let_def)
  note c = created_Ok [OF this]
  have eq: "app = ?app" by (rule c(2))
  have ins: "row_insert AppID AppName rows app = (Ok (), rows')" unfolding eq by (rule c(1))
  from eq have app: "AppID app = uuid" "AppStatus app = ApplicationStatusActive" "AppName app = CaName req"
    by (simp_all add: new_application_def)
  from row_insert_Ok [OF ins] assms(1) have "unique_rows AppID AppName rows'" and "app \<in> set rows'" by auto
  then have "find (\<lambda>x. AppID x = uuid) rows' = Some app" using app(1) find_row(1) [of AppID AppName rows' uuid app] by simp
  then have "svc_GetApplicationByID (row_db AppID AppName) rows' h2 uuid = (Ok app, h2)"
    by (simp add: svc_GetApplicationByID_def pga_GetApplicationByID_def)
  moreover have "svc_ListApplications (row_db AppID AppName) rows' h2 = (Ok [], h2)"
    by (simp add: svc_ListApplications_def pga_ListApplications_def sql_page_def)
  ultimately show ?thesis using app by (simp add: dev_ListApps_def)
qed

lemma SetAccessToken_eq:
  assumes "0 \<le> expiration"
  shows "SetAccessToken c rnd r t x expiration =
    (if expiration < 10 * one_second then (Panic, r)
     else cc_Set c r (''token:'' @ t) (CachedData x)
       (expiration + (rnd (expiration div (10 * one_second)) - expiration div (20 * one_second)) * one_second))"
proof -
  have "expiration div (10 * one_second) \<le> 0 \<longleftrightarrow> expiration < 10 * one_second"
    by (simp add: pos_imp_zdiv_pos_iff one_second_def flip: not_less)
  with assms show ?thesis by (simp add: SetAccessToken_def Intn_def Let_def)
qed

lemma token_ttl_bounds:
  assumes "10 * one_second * n \<le> e" and "20 * one_second * m \<le> e" and "e < 20 * one_second * m + 20 * one_second"
    and "0 \<le> k" and "k < n"
  shows "20 * (e + (k - m) * one_second) < 21 * e + 20 * one_second" and "19 * e \<le> 20 * (e + (k - m) * one_second)"
  using assms by (simp_all add: one_second_def algebra_simps)

text \<open>
  The cache keeps a token for a number of seconds around its lifetime: at least 95 and less than 105 percent of it, up to whole
  seconds. With a lifetime below ten seconds the random number has no range and the call panics.
\<close>

theorem token_cache_lifetime:
  assumes "0 \<le> expiration" and "\<forall>n. 0 < n \<longrightarrow> 0 \<le> rnd n \<and> rnd n < n"
  shows "(SetAccessToken c rnd r t x expiration = (Panic, r) \<and> expiration < 10 * one_second)
    \<or> (\<exists>ttl. SetAccessToken c rnd r t x expiration = cc_Set c r (''token:'' @ t) (CachedData x) ttl
        \<and> 19 * expiration \<le> 20 * ttl \<and> 20 * ttl < 21 * expiration + 20 * one_second)"
proof (cases "expiration < 10 * one_second")
  case True
  with assms(1) show ?thesis by (simp add: SetAccessToken_eq)
next
  case False
  let ?n = "expiration div (10 * one_second)" and ?m = "expiration div (20 * one_second)"
  have "0 < ?n" using False by (simp add: pos_imp_zdiv_pos_iff one_second_def)
  with assms(2) have k: "0 \<le> rnd ?n" "rnd ?n < ?n" by blast+
  have d: "10 * one_second * ?n \<le> expiration" "20 * one_second * ?m \<le> expiration" "expiration < 20 * one_second * ?m + 20 * one_second"
    using div_mult_mod_eq [of expiration "10 * one_second"] div_mult_mod_eq [of expiration "20 * one_second"]
      pos_mod_sign [of "10 * one_second" expiration] pos_mod_sign [of "20 * one_second" expiration]
      pos_mod_bound [of "20 * one_second" expiration]
    by (simp_all add: one_second_def mult.commute)
  have "20 * (expiration + (rnd ?n - ?m) * one_second) < 21 * expiration + 20 * one_second"
    and "19 * expiration \<le> 20 * (expiration + (rnd ?n - ?m) * one_second)"
    using token_ttl_bounds [OF d k] by blast+
  with False assms(1) show ?thesis by (auto simp: SetAccessToken_eq)
qed

text \<open>
  The cache stores a user without the password hash: the first read returns the user of the repository, the second the same user
  with an empty hash, for a client that returns what was set.
\<close>

theorem cached_user_loses_password:
  assumes "cc_Get c r (''user:'' @ i) = Fail redis_Nil" and "repo i = Ok user"
    and "\<And>v ttl. cc_Get c (snd (cc_Set c r (''user:'' @ i) v ttl)) (''user:'' @ i) = Ok v"
  shows "fst (cache_GetUser c repo rnd r i) = Ok user
    \<and> fst (cache_GetUser c repo rnd' (snd (cache_GetUser c repo rnd r i)) i) = Ok (user\<lparr>Password := []\<rparr>)"
  using assms by (simp add: cache_GetUser_def Intn_def json_user_def)
section \<open>Witnesses\<close>

definition demo_identity_app :: "(IdentityMemoryRepository, AuditEvent list) identity_app" where
  "demo_identity_app =
     \<lparr>ia_users = memory_users (\<lambda>_. [''u1'']) [], ia_groups = memory_groups (\<lambda>_. []) [], ia_HashPassword = Ok, ia_assign = memory_assign,
      ia_audit = None\<rparr>"

definition demo_app_repo :: IdentityMemoryRepository where
  "demo_app_repo = NewIdentityMemoryRepository\<lparr>m_users := [''u1'' \<mapsto> demo_person\<lparr>Status := UserStatusActive\<rparr>]\<rparr>"

definition demo_app_svc :: "(AuthMemoryRepository, TokenFamily) AuthService" where
  "demo_app_svc = demo_svc\<lparr>as_GetUserByUsername :=
      lookup_by_name (memory_users (\<lambda>_. [''u1'']) []) (memory_assign demo_app_repo (demo_person\<lparr>Status := UserStatusActive, Password := []\<rparr>)),
    as_CheckPasswordHash := (\<lambda>pw hash. pw = hash)\<rparr>"

definition demo_signin :: AuthnRequest where
  "demo_signin = \<lparr>RUsername = ''ann'', RPassword = ''hash'', RIPAddress = [], RDeviceFingerprint = [], RIsKnownDevice = True\<rparr>"

theorem read_wipes_password_witness:
  "Password (the (m_users demo_app_repo ''u1'')) = ''hash''
     \<and> (\<exists>e w'. LoginWithPassword demo_app_svc (\<lambda>_. 0) demo_fresh demo_cfg demo_world demo_signin = (Fail e, w') \<and> w_repo w' = w_repo demo_world)"
proof -
  let ?u = "demo_person\<lparr>Status := UserStatusActive\<rparr>"
  let ?r = "memory_assign demo_app_repo (?u\<lparr>Password := []\<rparr>)"
  have run: "app_GetUserByID demo_identity_app demo_app_repo initial_errors ''u1'' = (Ok (?u\<lparr>Password := []\<rparr>), ?r, initial_errors)"
    by (simp add: app_GetUserByID_def demo_identity_app_def svc_GetUser_def mem_GetUserByID_def demo_app_repo_def Let_def)
  have found: "mem_GetUserByUsername [''u1''] ?r ''ann'' = Ok (?u\<lparr>Password := []\<rparr>)"
    by (simp add: mem_GetUserByUsername_def range_values_def demo_app_repo_def demo_person_def List.map_filter_simps zero_user_def)
  show ?thesis
    using read_wipes_password [of demo_identity_app "\<lambda>_. [''u1'']" "[]" demo_app_repo "''u1''" ?u demo_app_svc ?r demo_signin
        initial_errors "Ok (?u\<lparr>Password := []\<rparr>)" initial_errors "\<lambda>_. 0" demo_fresh demo_cfg demo_world] run found
    by (simp add: demo_identity_app_def demo_app_svc_def demo_signin_def demo_app_repo_def demo_person_def)
qed

theorem failed_login_audited_witness:
  "\<exists>e w' a' ev. app_LoginWithPassword demo_svc \<lparr>aus_sinks = [\<lambda>es e. (Ok (), es @ [e])], aus_dispatcher = True\<rparr> (\<lambda>_. ''bad'') (\<lambda>_. 0) demo_fresh
       demo_cfg (demo_world, \<lparr>aw_world = [], aw_dispatched = []\<rparr>) (demo_signin\<lparr>RUsername := ''alice''\<rparr>) = (Fail e, w', a')
     \<and> aw_world a' = [ev] \<and> EvUserID ev = ''alice''"
proof -
  let ?au = "\<lparr>aus_sinks = [\<lambda>es e. (Ok (), es @ [e])], aus_dispatcher = True\<rparr> :: AuditEvent list AuditService"
  let ?a = "\<lparr>aw_world = [], aw_dispatched = []\<rparr> :: AuditEvent list audit_world" and ?req = "demo_signin\<lparr>RUsername := ''alice''\<rparr>"
  obtain res w' a' where run: "app_LoginWithPassword demo_svc ?au (\<lambda>_. ''bad'') (\<lambda>_. 0) demo_fresh demo_cfg (demo_world, ?a) ?req = (res, w', a')"
    by (metis surj_pair)
  have "fst (LoginWithPassword demo_svc (\<lambda>_. 0) demo_fresh demo_cfg demo_world ?req) = Fail ErrInvalidCredentials"
    by (simp add: LoginWithPassword_def demo_signin_def demo_lookup Let_def alice_def)
  then have "\<exists>e. res = Fail e" using run recorded_failure [of ?au] 
    by (cases "LoginWithPassword demo_svc (\<lambda>_. 0) demo_fresh demo_cfg demo_world ?req")
      (auto simp: app_LoginWithPassword_def RecordLoginFailed_def pipeline_Emit_def Emit_def dispatchWebhook_def Let_def case_prod_beta)
  with run failed_login_audited [OF _ run] show ?thesis by (auto simp: demo_signin_def)
qed

theorem application_listed_never_witness:
  "\<exists>app rows'. svc_CreateApplication (row_db AppID AppName) ''a1'' 5 [] initial_errors
       \<lparr>CaName = ''shop'', CaDescription = [], CaProtocol = ''oidc'', CaProtocolConfig = Map.empty\<rparr> = (Ok app, rows', initial_errors)
     \<and> svc_ListApplications (row_db AppID AppName) rows' initial_errors = (Ok [], initial_errors)"
proof -
  obtain app rows' where run: "svc_CreateApplication (row_db AppID AppName) ''a1'' 5 [] initial_errors
       \<lparr>CaName = ''shop'', CaDescription = [], CaProtocol = ''oidc'', CaProtocolConfig = Map.empty\<rparr> = (Ok app, rows', initial_errors)"
    by (simp add: svc_CreateApplication_def pga_CreateApplication_def row_insert_def Let_def)
  with application_listed_never [OF unique_rows_Nil run] show ?thesis by blast
qed

definition demo_cache :: "(string \<Rightarrow> unit cached option, unit) cache_client" where
  "demo_cache = \<lparr>cc_Get = (\<lambda>r k. case r k of None \<Rightarrow> Fail redis_Nil | Some v \<Rightarrow> Ok v), cc_Set = (\<lambda>r k v ttl. (Ok (), r(k \<mapsto> v)))\<rparr>"

theorem token_cache_lifetime_witness:
  "\<exists>ttl. SetAccessToken demo_cache (\<lambda>n. n - 1) Map.empty ''t'' () 60000000000 = cc_Set demo_cache Map.empty ''token:t'' (CachedData ()) ttl
     \<and> 19 * 60000000000 \<le> 20 * ttl \<and> 20 * ttl < 21 * 60000000000 + 20 * one_second"
  using token_cache_lifetime [of 60000000000 "\<lambda>n. n - 1" demo_cache Map.empty "''t''" "()"]
  by (simp add: one_second_def)

theorem cached_user_loses_password_witness:
  "fst (cache_GetUser demo_cache (\<lambda>_. Ok demo_person) (\<lambda>_. 0)
      (snd (cache_GetUser demo_cache (\<lambda>_. Ok demo_person) (\<lambda>_. 0) Map.empty ''u1'')) ''u1'') = Ok (demo_person\<lparr>Password := []\<rparr>)
    \<and> Password demo_person = ''hash''"
  using cached_user_loses_password [of demo_cache Map.empty "''u1''" "\<lambda>_. Ok demo_person" demo_person "\<lambda>_. 0" "\<lambda>_. 0"]
  by (simp add: demo_cache_def demo_person_def)
end
