(* ===== verification/WebAuthn.thy ===== *)
theory WebAuthn
  imports MFA_Providers Middleware Sql_Table Identity_Memory
begin

text \<open>
  Security keys: the table of factors (\<^verbatim>\<open>postgres_mfa_repository.go\<close>), the provider
  \<^verbatim>\<open>internal/auth/mfa/webauthn_provider.go\<close> and its HTTP handler \<^verbatim>\<open>handlers/webauthn.go\<close>. The ceremonies
  themselves, creating and checking challenges, are calls of a third-party package and arguments here, with
  its session data \<open>'s\<close>, its options \<open>'o\<close> and the state \<open>'au\<close> of an authenticator as types of their own.
\<close>

section \<open>Unpadded base64 for URLs\<close>

definition b64url_val :: "char \<Rightarrow> nat option" where
  "b64url_val c =
     (if c = CHR ''-'' then Some 62 else if c = CHR ''_'' then Some 63
      else if c = CHR ''+'' \<or> c = CHR ''/'' then None else b64_val c)"

text \<open>\<^verbatim>\<open>base64.RawURLEncoding.DecodeString\<close>: line breaks are skipped, two or three characters may end the input.\<close>

fun b64raw_quads :: "string \<Rightarrow> bytes option" where
  "b64raw_quads [] = Some []"
| "b64raw_quads [_] = None"
| "b64raw_quads [c0, c1] =
     (case (b64url_val c0, b64url_val c1) of (Some v0, Some v1) \<Rightarrow> Some [b64_byte0 v0 v1] | _ \<Rightarrow> None)"
| "b64raw_quads [c0, c1, c2] =
     (case (b64url_val c0, b64url_val c1, b64url_val c2) of
        (Some v0, Some v1, Some v2) \<Rightarrow> Some [b64_byte0 v0 v1, b64_byte1 v1 v2] | _ \<Rightarrow> None)"
| "b64raw_quads (c0 # c1 # c2 # c3 # cs) =
     (case (b64url_val c0, b64url_val c1, b64url_val c2, b64url_val c3) of
        (Some v0, Some v1, Some v2, Some v3) \<Rightarrow>
          map_option (\<lambda>bs. b64_byte0 v0 v1 # b64_byte1 v1 v2 # b64_byte2 v2 v3 # bs) (b64raw_quads cs)
      | _ \<Rightarrow> None)"

definition b64rawurl_decode :: "string \<Rightarrow> bytes option" where
  "b64rawurl_decode s = b64raw_quads (filter (\<lambda>c. c \<noteq> CHR 0x0A \<and> c \<noteq> CHR 0x0D) s)"

section \<open>Credentials and factors\<close>

record cred_flags =
  FgUserPresent :: bool
  FgUserVerified :: bool
  FgBackupEligible :: bool
  FgBackupState :: bool

definition zero_flags :: cred_flags where
  "zero_flags = \<lparr>FgUserPresent = False, FgUserVerified = False, FgBackupEligible = False, FgBackupState = False\<rparr>"

record 'au Credential =
  CrID :: bytes
  CrPublicKey :: bytes
  CrAttestationType :: string
  CrTransport :: "string list"
  CrFlags :: cred_flags
  CrAuthenticator :: 'au

record 'au CredMetadata =
  CmAttestationType :: string
  CmTransport :: "string list"
  CmFlags :: cred_flags
  CmAuthenticator :: 'au

text \<open>The metadata column: empty, the JSON text of the metadata, or another text.\<close>

datatype 'au meta_column = NoMeta | Meta "'au CredMetadata" | BadMeta

record 'au WebFactor = MFAFactor +
  FcCredentialID :: string
  FcPublicKey :: bytes
  FcMetadata :: "'au meta_column"

section \<open>The table of factors\<close>

text \<open>The database chooses an identifier for a factor without one; \<open>uuid\<close> is its choice.\<close>

definition pgm_CreateFactor ::
    "('d, 'au WebFactor) gorm_table \<Rightarrow> string \<Rightarrow> 'd \<Rightarrow> 'au WebFactor \<Rightarrow> (go_error, unit) outcome \<times> 'd" where
  "pgm_CreateFactor db uuid d factor = db_create db d (if FcID factor = uuid_Nil then factor\<lparr>FcID := uuid\<rparr> else factor)"

definition pgm_GetFactor :: "('d, 'au WebFactor) gorm_table \<Rightarrow> 'd \<Rightarrow> string \<Rightarrow> (go_error, 'au WebFactor) outcome" where
  "pgm_GetFactor db d factorID = db_first db d (\<lambda>f. FcID f = factorID)"

definition pgm_GetUserFactors :: "('d, 'au WebFactor) gorm_table \<Rightarrow> 'd \<Rightarrow> string \<Rightarrow> (go_error, 'au WebFactor list) outcome" where
  "pgm_GetUserFactors db d userID = db_find db d (\<lambda>f. FcUserID f = userID)"

definition pgm_GetUserFactorsByType ::
    "('d, 'au WebFactor) gorm_table \<Rightarrow> 'd \<Rightarrow> string \<Rightarrow> string \<Rightarrow> (go_error, 'au WebFactor list) outcome" where
  "pgm_GetUserFactorsByType db d userID factorType = db_find db d (\<lambda>f. FcUserID f = userID \<and> FcType f = factorType)"

definition pgm_UpdateFactor :: "('d, 'au WebFactor) gorm_table \<Rightarrow> 'd \<Rightarrow> 'au WebFactor \<Rightarrow> (go_error, unit) outcome \<times> 'd" where
  "pgm_UpdateFactor db d factor = db_save db d factor"

definition pgm_DeleteFactor :: "('d, 'au WebFactor) gorm_table \<Rightarrow> 'd \<Rightarrow> string \<Rightarrow> (go_error, unit) outcome \<times> 'd" where
  "pgm_DeleteFactor db d factorID = db_delete db d (\<lambda>f. FcID f = factorID)"

section \<open>The provider\<close>

record 'au WebAuthnUserAdapter =
  WuUser :: User
  WuCredentials :: "'au Credential list"

record ('s, 'o, 'q, 'au) webauthn =
  wn_BeginRegistration :: "'au WebAuthnUserAdapter \<Rightarrow> bytes list \<Rightarrow> (go_error, 'o \<times> 's) outcome"
  wn_FinishRegistration :: "'au WebAuthnUserAdapter \<Rightarrow> 's \<Rightarrow> 'q \<Rightarrow> (go_error, 'au Credential) outcome"
  wn_BeginLogin :: "'au WebAuthnUserAdapter \<Rightarrow> (go_error, 'o \<times> 's) outcome"
  wn_FinishLogin :: "'au WebAuthnUserAdapter \<Rightarrow> 's \<Rightarrow> 'q \<Rightarrow> (go_error, 'au Credential) outcome"
  wn_UserID :: "'s \<Rightarrow> bytes"
  wn_zero_authenticator :: 'au

record ('s, 'o, 'q, 'au, 'd) WebAuthnProvider =
  wp_w :: "('s, 'o, 'q, 'au) webauthn"
  wp_factors :: "('d, 'au WebFactor) gorm_table"
  wp_uuid_Parse :: "string \<Rightarrow> string option"

definition credential_of ::
    "('s, 'o, 'q, 'au, 'd) WebAuthnProvider \<Rightarrow> 'au WebFactor \<Rightarrow> (go_error, 'au Credential) outcome" where
  "credential_of p f =
     (case b64rawurl_decode (FcCredentialID f) of
        None \<Rightarrow> Fail (Wrapf (''failed to decode credential ID for factor '' @ FcID f) (Errorf ''illegal base64 data''))
      | Some credID \<Rightarrow>
          Ok (case FcMetadata f of
                Meta meta \<Rightarrow>
                  \<lparr>CrID = credID, CrPublicKey = FcPublicKey f, CrAttestationType = CmAttestationType meta,
                   CrTransport = CmTransport meta, CrFlags = zero_flags, CrAuthenticator = CmAuthenticator meta\<rparr>
              | _ \<Rightarrow>
                  \<lparr>CrID = credID, CrPublicKey = FcPublicKey f, CrAttestationType = [], CrTransport = [],
                   CrFlags = zero_flags, CrAuthenticator = wn_zero_authenticator (wp_w p)\<rparr>))"

fun credentials_of ::
    "('s, 'o, 'q, 'au, 'd) WebAuthnProvider \<Rightarrow> 'au WebFactor list \<Rightarrow> (go_error, 'au Credential list) outcome" where
  "credentials_of p [] = Ok []"
| "credentials_of p (f # fs) = obind (credential_of p f) (\<lambda>c. obind (credentials_of p fs) (\<lambda>cs. Ok (c # cs)))"

definition loadCredentials ::
    "('s, 'o, 'q, 'au, 'd) WebAuthnProvider \<Rightarrow> 'd \<Rightarrow> User \<Rightarrow> (go_error, 'au Credential list) outcome" where
  "loadCredentials p d user =
     (case wp_uuid_Parse p (UID user) of
        None \<Rightarrow> Fail (Wrapf ''invalid user id'' (Errorf ''uuid''))
      | Some userID \<Rightarrow> obind (pgm_GetUserFactorsByType (wp_factors p) d userID ''webauthn'') (credentials_of p))"

definition wp_BeginRegistration ::
    "('s, 'o, 'q, 'au, 'd) WebAuthnProvider \<Rightarrow> 'd \<Rightarrow> User \<Rightarrow> (go_error, 'o \<times> 's) outcome" where
  "wp_BeginRegistration p d user =
     obind (loadCredentials p d user)
       (\<lambda>creds. wn_BeginRegistration (wp_w p) \<lparr>WuUser = user, WuCredentials = creds\<rparr> (map CrID creds))"

definition cred_meta :: "'au Credential \<Rightarrow> 'au CredMetadata" where
  "cred_meta c =
     \<lparr>CmAttestationType = CrAttestationType c, CmTransport = CrTransport c, CmFlags = CrFlags c, CmAuthenticator = CrAuthenticator c\<rparr>"

definition factor_of :: "string \<Rightarrow> 'au Credential \<Rightarrow> 'au WebFactor" where
  "factor_of userID c =
     \<lparr>FcID = uuid_Nil, FcUserID = userID, FcType = ''webauthn'', FcStatus = ''active'', FcSecret = [], FcPhoneNumber = [],
      FcBackupCodes = NoCodes, FcCredentialID = b64rawurl_encode (CrID c), FcPublicKey = CrPublicKey c, FcMetadata = Meta (cred_meta c)\<rparr>"

text \<open>A user identifier that does not parse becomes the zero UUID, as the error of the parser is dropped.\<close>

definition wp_FinishRegistration ::
    "('s, 'o, 'q, 'au, 'd) WebAuthnProvider \<Rightarrow> string \<Rightarrow> 'd \<Rightarrow> User \<Rightarrow> 's \<Rightarrow> 'q \<Rightarrow> (go_error, 'au Credential) outcome \<times> 'd" where
  "wp_FinishRegistration p uuid d user sessionData q =
     (case wn_FinishRegistration (wp_w p) \<lparr>WuUser = user, WuCredentials = []\<rparr> sessionData q of
        Panic \<Rightarrow> (Panic, d)
      | Fail err \<Rightarrow> (Fail err, d)
      | Ok credential \<Rightarrow>
          (let userID = (case wp_uuid_Parse p (UID user) of Some u \<Rightarrow> u | None \<Rightarrow> uuid_Nil)
           in sbind (pgm_CreateFactor (wp_factors p) uuid d (factor_of userID credential)) (\<lambda>_ d'. (Ok credential, d'))))"

definition wp_BeginLogin ::
    "('s, 'o, 'q, 'au, 'd) WebAuthnProvider \<Rightarrow> 'd \<Rightarrow> User \<Rightarrow> (go_error, 'o \<times> 's) outcome" where
  "wp_BeginLogin p d user =
     obind (loadCredentials p d user)
       (\<lambda>creds. if creds = [] then Fail (Errorf ''no webauthn credentials found'')
               else wn_BeginLogin (wp_w p) \<lparr>WuUser = user, WuCredentials = creds\<rparr>)"

definition wp_FinishLogin ::
    "('s, 'o, 'q, 'au, 'd) WebAuthnProvider \<Rightarrow> 'd \<Rightarrow> User \<Rightarrow> 's \<Rightarrow> 'q \<Rightarrow> (go_error, 'au Credential) outcome" where
  "wp_FinishLogin p d user sessionData q =
     obind (loadCredentials p d user)
       (\<lambda>creds. wn_FinishLogin (wp_w p) \<lparr>WuUser = user, WuCredentials = creds\<rparr> sessionData q)"

definition wp_Challenge :: "User \<Rightarrow> (go_error, MFAChallenge) outcome" where
  "wp_Challenge user = Ok \<lparr>MFAProvider = ''webauthn'', ChallengeID = ''use_webauthn_endpoints'', ChOptions = None\<rparr>"

definition wp_Verify :: "User \<Rightarrow> string \<Rightarrow> (go_error, bool) outcome" where
  "wp_Verify user response = Fail (Errorf ''use FinishLogin endpoint for webauthn verification'')"

definition wp_ListMethods ::
    "('s, 'o, 'q, 'au, 'd) WebAuthnProvider \<Rightarrow> 'd \<Rightarrow> User \<Rightarrow> (go_error, MFAMethod list) outcome" where
  "wp_ListMethods p d user =
     (case wp_uuid_Parse p (UID user) of
        None \<Rightarrow> Fail (Errorf ''uuid'')
      | Some userID \<Rightarrow>
          obind (pgm_GetUserFactorsByType (wp_factors p) d userID ''webauthn'')
            (\<lambda>factors. Ok (map (\<lambda>f. \<lparr>MmID = FcID f, MmType = ''webauthn''\<rparr>) factors)))"

definition wp_Enroll :: "User \<Rightarrow> (go_error, MFAEnrollment) outcome" where
  "wp_Enroll user = Fail (Errorf ''use BeginRegistration endpoint for webauthn enrollment'')"

section \<open>The handler\<close>

text \<open>
  \<open>wh_marshal\<close> and \<open>wh_unmarshal\<close> are the JSON texts of session data. The user of a registration is the value of the
  plain string key \<^verbatim>\<open>user_id\<close> of the request's context; without one the type assertion panics.
\<close>

datatype 'o webauthn_body =
    WaError string
  | WaOptions 'o "string option"
  | WaRegistered bytes
  | WaAuthenticated bytes string

record ('s, 'o, 'q, 'au, 'd, 'u, 'r) WebAuthnHandler =
  wh_provider :: "('s, 'o, 'q, 'au, 'd) WebAuthnProvider"
  wh_users :: "'u UserRepository"
  wh_redis :: "'r RedisClient"
  wh_marshal :: "'s \<Rightarrow> string"
  wh_unmarshal :: "redis_value \<Rightarrow> 's option"

record ('d, 'u, 'r) webauthn_world =
  ww_factors :: 'd
  ww_users :: 'u
  ww_redis :: 'r

definition plain_user_id :: "string \<times> string" where "plain_user_id = (''string'', ''user_id'')"

definition webauthn_ttl :: int where "webauthn_ttl = 300000000000"

definition wh_BeginRegistration ::
    "('s, 'o, 'q, 'au, 'd, 'u, 'r) WebAuthnHandler \<Rightarrow> ('d, 'u, 'r) webauthn_world \<Rightarrow> request
      \<Rightarrow> (go_error, nat \<times> 'o webauthn_body) outcome \<times> ('d, 'u, 'r) webauthn_world" where
  "wh_BeginRegistration h w r =
     (case ctx_string r plain_user_id of
        None \<Rightarrow> (Panic, w)
      | Some userID \<Rightarrow>
          (case ur_GetUserByID (wh_users h) (ww_users w) userID of
             Panic \<Rightarrow> (Panic, w)
           | Fail _ \<Rightarrow> (Ok (500, WaError ''USER_NOT_FOUND''), w)
           | Ok user \<Rightarrow>
               (case wp_BeginRegistration (wh_provider h) (ww_factors w) user of
                  Panic \<Rightarrow> (Panic, w)
                | Fail _ \<Rightarrow> (Ok (500, WaError ''WEBAUTHN_ERROR''), w)
                | Ok (options, sessionData) \<Rightarrow>
                    (case rd_Set (wh_redis h) (ww_redis w) (''webauthn:reg:'' @ userID) (Text (wh_marshal h sessionData)) webauthn_ttl of
                       (Panic, k) \<Rightarrow> (Panic, w\<lparr>ww_redis := k\<rparr>)
                     | (Fail _, k) \<Rightarrow> (Ok (500, WaError ''REDIS_ERROR''), w\<lparr>ww_redis := k\<rparr>)
                     | (Ok _, k) \<Rightarrow> (Ok (200, WaOptions options None), w\<lparr>ww_redis := k\<rparr>)))))"

definition wh_FinishRegistration ::
    "('s, 'o, 'q, 'au, 'd, 'u, 'r) WebAuthnHandler \<Rightarrow> string \<Rightarrow> ('d, 'u, 'r) webauthn_world \<Rightarrow> request \<Rightarrow> 'q
      \<Rightarrow> (go_error, nat \<times> 'o webauthn_body) outcome \<times> ('d, 'u, 'r) webauthn_world" where
  "wh_FinishRegistration h uuid w r q =
     (case ctx_string r plain_user_id of
        None \<Rightarrow> (Panic, w)
      | Some userID \<Rightarrow>
          (case ur_GetUserByID (wh_users h) (ww_users w) userID of
             Panic \<Rightarrow> (Panic, w)
           | Fail _ \<Rightarrow> (Ok (500, WaError ''USER_NOT_FOUND''), w)
           | Ok user \<Rightarrow>
               (case rd_Get (wh_redis h) (ww_redis w) (''webauthn:reg:'' @ userID) of
                  Panic \<Rightarrow> (Panic, w)
                | Fail _ \<Rightarrow> (Ok (400, WaError ''SESSION_EXPIRED''), w)
                | Ok data \<Rightarrow>
                    (case wh_unmarshal h data of
                       None \<Rightarrow> (Ok (500, WaError ''INTERNAL_ERROR''), w)
                     | Some sessionData \<Rightarrow>
                         (case wp_FinishRegistration (wh_provider h) uuid (ww_factors w) user sessionData q of
                            (Panic, d) \<Rightarrow> (Panic, w\<lparr>ww_factors := d\<rparr>)
                          | (Fail _, d) \<Rightarrow> (Ok (400, WaError ''REGISTRATION_FAILED''), w\<lparr>ww_factors := d\<rparr>)
                          | (Ok credential, d) \<Rightarrow>
                              (case rd_Del (wh_redis h) (ww_redis w) (''webauthn:reg:'' @ userID) of
                                 (Panic, k) \<Rightarrow> (Panic, w\<lparr>ww_factors := d, ww_redis := k\<rparr>)
                               | (_, k) \<Rightarrow> (Ok (200, WaRegistered (CrID credential)), w\<lparr>ww_factors := d, ww_redis := k\<rparr>)))))))"

definition beginLoginForUser ::
    "('s, 'o, 'q, 'au, 'd, 'u, 'r) WebAuthnHandler \<Rightarrow> time \<Rightarrow> ('d, 'u, 'r) webauthn_world \<Rightarrow> User
      \<Rightarrow> (go_error, nat \<times> 'o webauthn_body) outcome \<times> ('d, 'u, 'r) webauthn_world" where
  "beginLoginForUser h now w user =
     (case wp_BeginLogin (wh_provider h) (ww_factors w) user of
        Panic \<Rightarrow> (Panic, w)
      | Fail _ \<Rightarrow> (Ok (500, WaError ''WEBAUTHN_ERROR''), w)
      | Ok (options, sessionData) \<Rightarrow>
          (case rd_Set (wh_redis h) (ww_redis w) (''webauthn:login:'' @ show_int now) (Text (wh_marshal h sessionData)) webauthn_ttl of
             (Panic, k) \<Rightarrow> (Panic, w\<lparr>ww_redis := k\<rparr>)
           | (_, k) \<Rightarrow> (Ok (200, WaOptions options (Some (show_int now))), w\<lparr>ww_redis := k\<rparr>)))"

text \<open>\<open>body\<close> is the decoded user name, \<open>None\<close> when the body does not decode.\<close>

definition wh_BeginLogin ::
    "('s, 'o, 'q, 'au, 'd, 'u, 'r) WebAuthnHandler \<Rightarrow> time \<Rightarrow> ('d, 'u, 'r) webauthn_world \<Rightarrow> request \<Rightarrow> string option
      \<Rightarrow> (go_error, nat \<times> 'o webauthn_body) outcome \<times> ('d, 'u, 'r) webauthn_world" where
  "wh_BeginLogin h now w r body =
     (case body of
        None \<Rightarrow>
          (case ctx_string r plain_user_id of
             None \<Rightarrow> (Ok (400, WaError ''INVALID_REQUEST''), w)
           | Some uid \<Rightarrow>
               (case ur_GetUserByID (wh_users h) (ww_users w) uid of
                  Panic \<Rightarrow> (Panic, w)
                | Fail _ \<Rightarrow> (Ok (500, WaError ''USER_NOT_FOUND''), w)
                | Ok user \<Rightarrow> beginLoginForUser h now w user))
      | Some username \<Rightarrow>
          (case ur_GetUserByUsername (wh_users h) (ww_users w) username of
             Panic \<Rightarrow> (Panic, w)
           | Fail _ \<Rightarrow> (Ok (404, WaError ''USER_NOT_FOUND''), w)
           | Ok user \<Rightarrow> beginLoginForUser h now w user))"

definition wh_FinishLogin ::
    "('s, 'o, 'q, 'au, 'd, 'u, 'r) WebAuthnHandler \<Rightarrow> ('d, 'u, 'r) webauthn_world \<Rightarrow> string \<Rightarrow> 'q
      \<Rightarrow> (go_error, nat \<times> 'o webauthn_body) outcome \<times> ('d, 'u, 'r) webauthn_world" where
  "wh_FinishLogin h w sessionID q =
     (if sessionID = [] then (Ok (400, WaError ''INVALID_REQUEST''), w)
      else case rd_Get (wh_redis h) (ww_redis w) (''webauthn:login:'' @ sessionID) of
        Panic \<Rightarrow> (Panic, w)
      | Fail _ \<Rightarrow> (Ok (400, WaError ''SESSION_EXPIRED''), w)
      | Ok data \<Rightarrow>
          (case wh_unmarshal h data of
             None \<Rightarrow> (Ok (500, WaError ''INTERNAL_ERROR''), w)
           | Some sessionData \<Rightarrow>
               (case ur_GetUserByID (wh_users h) (ww_users w) (string_of (wn_UserID (wp_w (wh_provider h)) sessionData)) of
                  Panic \<Rightarrow> (Panic, w)
                | Fail _ \<Rightarrow> (Ok (500, WaError ''USER_NOT_FOUND''), w)
                | Ok user \<Rightarrow>
                    (case wp_FinishLogin (wh_provider h) (ww_factors w) user sessionData q of
                       Panic \<Rightarrow> (Panic, w)
                     | Fail _ \<Rightarrow> (Ok (401, WaError ''AUTH_FAILED''), w)
                     | Ok credential \<Rightarrow>
                         (case rd_Del (wh_redis h) (ww_redis w) (''webauthn:login:'' @ sessionID) of
                            (Panic, k) \<Rightarrow> (Panic, w\<lparr>ww_redis := k\<rparr>)
                          | (_, k) \<Rightarrow> (Ok (200, WaAuthenticated (CrID credential) (UID user)), w\<lparr>ww_redis := k\<rparr>))))))"

section \<open>Properties\<close>

lemma b64url_char_char:
  assumes "i < 64"
  shows "b64url_val (b64url_char (b64_char i)) = Some i" and "b64url_char (b64_char i) \<noteq> CHR ''=''"
    and "b64url_char (b64_char i) \<noteq> CHR 0x0A" and "b64url_char (b64_char i) \<noteq> CHR 0x0D"
proof -
  have "b64_char 62 = CHR ''+''" "b64_char 63 = CHR ''/''" by (simp_all add: b64_char_def b64_alphabet_def)
  with b64_val_char [of 62] b64_val_char [of 63] have "b64_val CHR ''+'' = Some 62" "b64_val CHR ''/'' = Some 63" by simp_all
  with b64_val_char [OF assms] have "b64_char i = CHR ''+'' \<longrightarrow> i = 62" "b64_char i = CHR ''/'' \<longrightarrow> i = 63" by auto
  moreover have "b64_char i \<in> set b64_alphabet" using assms by (simp add: b64_char_def b64_alphabet_facts(1))
  then have "b64_char i \<noteq> CHR ''-'' \<and> b64_char i \<noteq> CHR ''_''" by (auto simp: b64_alphabet_def)
  ultimately have "b64_char i \<noteq> CHR ''-'' \<and> b64_char i \<noteq> CHR ''_''" and "b64_char i = CHR ''+'' \<longrightarrow> i = 62" and "b64_char i = CHR ''/'' \<longrightarrow> i = 63"
    by blast+
  with b64_val_char [OF assms] show "b64url_val (b64url_char (b64_char i)) = Some i"
    by (auto simp: b64url_val_def b64url_char_def)
  show "b64url_char (b64_char i) \<noteq> CHR ''=''" "b64url_char (b64_char i) \<noteq> CHR 0x0A" "b64url_char (b64_char i) \<noteq> CHR 0x0D"
    using b64_char_text [OF assms] by (auto simp: b64url_char_def)
qed

lemma b64rawurl_encode_simps:
  "b64rawurl_encode [] = []"
  "b64rawurl_encode [a] = map (\<lambda>i. b64url_char (b64_char i)) [unat a div 4, unat a mod 4 * 16]"
  "b64rawurl_encode [a, b] = map (\<lambda>i. b64url_char (b64_char i)) [unat a div 4, unat a mod 4 * 16 + unat b div 16, unat b mod 16 * 4]"
  "b64rawurl_encode (a # b # c # bs) = map (\<lambda>i. b64url_char (b64_char i)) [unat a div 4, unat a mod 4 * 16 + unat b div 16,
     unat b mod 16 * 4 + unat c div 64, unat c mod 64] @ b64rawurl_encode bs"
  by (simp_all add: b64rawurl_encode_def b64url_encode_def b64url_char_char) (simp_all add: b64url_char_def)

lemma b64raw_quads_encode: "b64raw_quads (b64rawurl_encode bs) = Some bs"
  by (induction bs rule: b64_encode.induct) (simp_all add: b64rawurl_encode_simps b64url_char_char)

lemma b64rawurl_encode_text: "c \<in> set (b64rawurl_encode bs) \<Longrightarrow> c \<noteq> CHR 0x0A \<and> c \<noteq> CHR 0x0D"
  by (induction bs rule: b64_encode.induct) (auto simp: b64rawurl_encode_simps b64url_char_char)

lemma b64rawurl_decode_encode [simp]: "b64rawurl_decode (b64rawurl_encode bs) = Some bs"
proof -
  have "filter (\<lambda>c. c \<noteq> CHR 0x0A \<and> c \<noteq> CHR 0x0D) (b64rawurl_encode bs) = b64rawurl_encode bs"
    using b64rawurl_encode_text by (auto intro!: filter_True)
  then show ?thesis by (simp add: b64rawurl_decode_def b64raw_quads_encode)
qed

lemma show_int_not_Nil: "show_int n \<noteq> []"
  by (simp add: show_int_def show_nat_digits)

lemma credential_of_factor [simp]:
  "credential_of p ((factor_of u c)\<lparr>FcID := i\<rparr>) = Ok (c\<lparr>CrFlags := zero_flags\<rparr>)"
  by (cases c) (simp add: credential_of_def factor_of_def cred_meta_def)

lemma credentials_of_append:
  "credentials_of p (fs @ gs) = obind (credentials_of p fs) (\<lambda>cs. obind (credentials_of p gs) (\<lambda>ds. Ok (cs @ ds)))"
proof (induction fs)
  case Nil
  show ?case by (cases "credentials_of p gs") simp_all
next
  case (Cons f fs)
  then show ?case by (cases "credential_of p f"; cases "credentials_of p fs"; cases "credentials_of p gs") simp_all
qed

lemma loadCredentials_append:
  assumes "wp_factors p = row_db FcID uk" and "wp_uuid_Parse p (UID user) = Some u" and "loadCredentials p fs user = Ok cs"
  shows "loadCredentials p (fs @ [(factor_of u c)\<lparr>FcID := i\<rparr>]) user = Ok (cs @ [c\<lparr>CrFlags := zero_flags\<rparr>])"
  using assms
  by (auto simp: loadCredentials_def pgm_GetUserFactorsByType_def credentials_of_append)
     (simp_all add: factor_of_def)
text \<open>
  C19: A registration that is answered with success stores the credential that the library accepted for the user: loading the user's
  credentials afterwards yields the previous ones and the new one, with the same identifier, key, transports and authenticator, but
  with its flags cleared. The pending registration is used up.
\<close>

theorem webauthn_registration_round_trip:
  assumes "wp_factors (wh_provider h) = row_db FcID FcID" and "wh_redis h = ks_client"
    and "ctx_string r plain_user_id = Some userID" and "ur_GetUserByID (wh_users h) (ww_users w) userID = Ok user"
    and "wp_uuid_Parse (wh_provider h) (UID user) = Some u" and "loadCredentials (wh_provider h) (ww_factors w) user = Ok cs"
    and "wh_FinishRegistration h uuid w r q = (Ok (200, body), w')"
  shows "\<exists>sd c. wn_FinishRegistration (wp_w (wh_provider h)) \<lparr>WuUser = user, WuCredentials = []\<rparr> sd q = Ok c
    \<and> body = WaRegistered (CrID c) \<and> loadCredentials (wh_provider h) (ww_factors w') user = Ok (cs @ [c\<lparr>CrFlags := zero_flags\<rparr>])
    \<and> wh_FinishRegistration h uuid' w' r q' = (Ok (400, WaError ''SESSION_EXPIRED''), w')"
proof -
  from assms(2-4,7) obtain sd c d k where
    fin: "wp_FinishRegistration (wh_provider h) uuid (ww_factors w) user sd q = (Ok c, d)"
    and del: "rd_Del ks_client (ww_redis w) (''webauthn:reg:'' @ userID) = (Ok (), k)"
    and w': "w' = w\<lparr>ww_factors := d, ww_redis := k\<rparr>" and body: "body = WaRegistered (CrID c)"
    by (auto simp: wh_FinishRegistration_def split: option.splits outcome.splits prod.splits)
  from fin have acc: "wn_FinishRegistration (wp_w (wh_provider h)) \<lparr>WuUser = user, WuCredentials = []\<rparr> sd q = Ok c"
    and ins: "row_insert FcID FcID (ww_factors w) ((factor_of u c)\<lparr>FcID := uuid\<rparr>) = (Ok (), d)"
    using assms(1,5)
    by (auto simp: wp_FinishRegistration_def pgm_CreateFactor_def factor_of_def Let_def sbind_eq_Ok split: outcome.splits)
  have "d = ww_factors w @ [(factor_of u c)\<lparr>FcID := uuid\<rparr>]" using row_insert_Ok [OF ins] by simp
  with loadCredentials_append [OF assms(1,5,6)]
  have "loadCredentials (wh_provider h) d user = Ok (cs @ [c\<lparr>CrFlags := zero_flags\<rparr>])" by simp
  moreover have "wh_FinishRegistration h uuid' w' r q' = (Ok (400, WaError ''SESSION_EXPIRED''), w')"
    using assms(2-4) del by (auto simp: wh_FinishRegistration_def w' ks_live_def)
  ultimately show ?thesis using acc body w' by auto
qed

text \<open>
  C18: A login that is answered with success had a live pending login under the given identifier, and the library accepted the response
  for the user of that login with the credentials stored for this user. It is used up: a second request with the identifier is
  refused. The stored factors do not change, so the authenticator's counter that the library returned is not kept.
\<close>

theorem webauthn_login_sound:
  assumes "wh_redis h = ks_client" and "wh_FinishLogin h w sid q = (Ok (200, body), w')"
  shows "\<exists>data sd user creds c. ks_live (ww_redis w) (''webauthn:login:'' @ sid) = Some data \<and> wh_unmarshal h data = Some sd
    \<and> ur_GetUserByID (wh_users h) (ww_users w) (string_of (wn_UserID (wp_w (wh_provider h)) sd)) = Ok user
    \<and> loadCredentials (wh_provider h) (ww_factors w) user = Ok creds
    \<and> wn_FinishLogin (wp_w (wh_provider h)) \<lparr>WuUser = user, WuCredentials = creds\<rparr> sd q = Ok c
    \<and> body = WaAuthenticated (CrID c) (UID user) \<and> ww_factors w' = ww_factors w \<and> ww_users w' = ww_users w
    \<and> wh_FinishLogin h w' sid q' = (Ok (400, WaError ''SESSION_EXPIRED''), w')"
proof -
  from assms obtain data sd user c where sid: "sid \<noteq> []" and live: "ks_live (ww_redis w) (''webauthn:login:'' @ sid) = Some data"
    and un: "wh_unmarshal h data = Some sd" and user: "ur_GetUserByID (wh_users h) (ww_users w) (string_of (wn_UserID (wp_w (wh_provider h)) sd)) = Ok user"
    and fin: "wp_FinishLogin (wh_provider h) (ww_factors w) user sd q = Ok c"
    and body: "body = WaAuthenticated (CrID c) (UID user)"
    and w': "w' = w\<lparr>ww_redis := snd (rd_Del ks_client (ww_redis w) (''webauthn:login:'' @ sid))\<rparr>"
    by (auto simp: wh_FinishLogin_def split: if_splits option.splits outcome.splits)
  from fin obtain creds where "loadCredentials (wh_provider h) (ww_factors w) user = Ok creds"
    and "wn_FinishLogin (wp_w (wh_provider h)) \<lparr>WuUser = user, WuCredentials = creds\<rparr> sd q = Ok c"
    by (auto simp: wp_FinishLogin_def obind_eq_Ok)
  moreover have "wh_FinishLogin h w' sid q' = (Ok (400, WaError ''SESSION_EXPIRED''), w')"
    using sid assms(1) by (simp add: wh_FinishLogin_def w' ks_live_def)
  ultimately show ?thesis using live un user body w' by auto
qed

text \<open>
  C40: Behind the authentication middleware a registration always panics: the middleware stores the user under a key of its own type, and
  the handler asks for the plain string.
\<close>

theorem registration_behind_auth_panics:
  assumes "auth_Execute parse getUser r = Ok (Pass r')" and "rq_ctx r plain_user_id = None"
  shows "wh_BeginRegistration h w r' = (Panic, w) \<and> wh_FinishRegistration h uuid w r' q = (Panic, w)"
proof -
  from assms(1) obtain u gs where "r' = with_value (with_value r UserIDContextKey (CString u)) GroupsContextKey (CStrings gs)"
    by (auto simp: auth_Execute_def Let_def split: if_splits outcome.splits option.splits gvalue.splits)
  with assms(2) have "ctx_string r' plain_user_id = None"
    by (simp add: ctx_string_def with_value_def context_keys plain_user_id_def)
  then show ?thesis by (simp add: wh_BeginRegistration_def wh_FinishRegistration_def)
qed

text \<open>
  A login that was begun can be completed for five minutes: when the library accepts the response for the credentials of the user,
  the handler answers that this user is authenticated.
\<close>

theorem webauthn_login_completes:
  assumes "wh_redis h = ks_client" and "\<And>sd. wh_unmarshal h (Text (wh_marshal h sd)) = Some sd"
    and "ur_GetUserByUsername (wh_users h) (ww_users w) name = Ok user" and "ur_GetUserByID (wh_users h) (ww_users w) (UID user) = Ok user"
    and "loadCredentials (wh_provider h) (ww_factors w) user = Ok creds" and "creds \<noteq> []"
    and "wn_BeginLogin (wp_w (wh_provider h)) \<lparr>WuUser = user, WuCredentials = creds\<rparr> = Ok (opts, sd)"
    and "string_of (wn_UserID (wp_w (wh_provider h)) sd) = UID user"
    and "wn_FinishLogin (wp_w (wh_provider h)) \<lparr>WuUser = user, WuCredentials = creds\<rparr> sd q = Ok c"
    and "t < ks_now (ww_redis w) + webauthn_ttl"
  shows "\<exists>w1 w2. wh_BeginLogin h now w r (Some name) = (Ok (200, WaOptions opts (Some (show_int now))), w1)
    \<and> wh_FinishLogin h (w1\<lparr>ww_redis := (ww_redis w1)\<lparr>ks_now := t\<rparr>\<rparr>) (show_int now) q = (Ok (200, WaAuthenticated (CrID c) (UID user)), w2)"
  using assms
  by (simp add: wh_BeginLogin_def beginLoginForUser_def wp_BeginLogin_def wh_FinishLogin_def wp_FinishLogin_def ks_live_def ks_put_def
      webauthn_ttl_def show_int_not_Nil)
section \<open>Witnesses\<close>

definition demo_credential :: "nat Credential" where
  "demo_credential = \<lparr>CrID = [1, 2], CrPublicKey = [7], CrAttestationType = ''none'', CrTransport = [''usb''],
     CrFlags = zero_flags\<lparr>FgBackupEligible := True\<rparr>, CrAuthenticator = 4\<rparr>"

definition demo_webauthn :: "(string, unit, bool, nat) webauthn" where
  "demo_webauthn =
     \<lparr>wn_BeginRegistration = (\<lambda>a _. Ok ((), UID (WuUser a))),
      wn_FinishRegistration = (\<lambda>a s q. if q then Ok demo_credential else Fail (Errorf ''refused'')),
      wn_BeginLogin = (\<lambda>a. Ok ((), UID (WuUser a))),
      wn_FinishLogin = (\<lambda>a s q. if q \<and> WuCredentials a \<noteq> [] then Ok (hd (WuCredentials a)) else Fail (Errorf ''refused'')),
      wn_UserID = bytes_of, wn_zero_authenticator = 0\<rparr>"

definition demo_key_user :: User where
  "demo_key_user = zero_user\<lparr>UID := ''u1'', Username := ''ann''\<rparr>"

definition demo_handler :: "(string, unit, bool, nat, nat WebFactor list, IdentityMemoryRepository, keyspace) WebAuthnHandler" where
  "demo_handler =
     \<lparr>wh_provider = \<lparr>wp_w = demo_webauthn, wp_factors = row_db FcID FcID, wp_uuid_Parse = Some\<rparr>,
      wh_users = memory_users (\<lambda>_. [''u1'']) [], wh_redis = ks_client, wh_marshal = id,
      wh_unmarshal = (\<lambda>v. case v of Text s \<Rightarrow> Some s | _ \<Rightarrow> None)\<rparr>"

definition demo_web_world :: "nat WebFactor list \<Rightarrow> (string \<rightharpoonup> redis_value \<times> time option) \<Rightarrow> (nat WebFactor list, IdentityMemoryRepository, keyspace) webauthn_world" where
  "demo_web_world fs m =
     \<lparr>ww_factors = fs, ww_users = NewIdentityMemoryRepository\<lparr>m_users := [''u1'' \<mapsto> demo_key_user]\<rparr>,
      ww_redis = \<lparr>ks_now = 5, ks_strings = m, ks_zsets = (\<lambda>_. [])\<rparr>\<rparr>"

definition demo_key_request :: request where
  "demo_key_request = \<lparr>rq_method = ''POST'', rq_path = [], rq_header = (\<lambda>_. ''bearer t''), rq_cookie = Map.empty, rq_form = (\<lambda>_. []),
     rq_remote = [], rq_ctx = Map.empty\<rparr>"

lemma demo_handler_sel [simp]:
  "wh_redis demo_handler = ks_client" "wp_factors (wh_provider demo_handler) = row_db FcID FcID"
  "wp_uuid_Parse (wh_provider demo_handler) = Some" "wp_w (wh_provider demo_handler) = demo_webauthn"
  "wh_users demo_handler = memory_users (\<lambda>_. [''u1'']) []" "wh_marshal demo_handler s = s"
  "wh_unmarshal demo_handler (Text s) = Some s" "CrID demo_credential = [1, 2]" "UID demo_key_user = ''u1''"
  "ww_factors (demo_web_world fs m) = fs" "ks_strings (ww_redis (demo_web_world fs m)) = m" "ks_now (ww_redis (demo_web_world fs m)) = 5"
  "mem_GetUserByID (ww_users (demo_web_world fs m)) ''u1'' = Ok demo_key_user"
  "mem_GetUserByUsername [''u1''] (ww_users (demo_web_world fs m)) ''ann'' = Ok demo_key_user"
  by (simp_all add: demo_handler_def demo_credential_def demo_key_user_def demo_web_world_def mem_GetUserByID_def mem_GetUserByUsername_def
      range_values_def List.map_filter_simps)

lemma demo_load:
  "loadCredentials (wh_provider demo_handler) [] demo_key_user = Ok []"
  "loadCredentials (wh_provider demo_handler) [(factor_of ''u1'' demo_credential)\<lparr>FcID := ''f''\<rparr>] demo_key_user
     = Ok [demo_credential\<lparr>CrFlags := zero_flags\<rparr>]"
proof -
  show *: "loadCredentials (wh_provider demo_handler) [] demo_key_user = Ok []"
    by (simp add: loadCredentials_def pgm_GetUserFactorsByType_def)
  show "loadCredentials (wh_provider demo_handler) [(factor_of ''u1'' demo_credential)\<lparr>FcID := ''f''\<rparr>] demo_key_user
     = Ok [demo_credential\<lparr>CrFlags := zero_flags\<rparr>]"
    using loadCredentials_append [OF _ _ *, where uk = FcID and u = "''u1''" and c = demo_credential and i = "''f''"] by simp
qed

theorem webauthn_registration_round_trip_witness:
  "\<exists>w'. wh_FinishRegistration demo_handler ''f'' (demo_web_world [] [''webauthn:reg:u1'' \<mapsto> (Text ''u1'', None)])
       (with_value demo_key_request plain_user_id (CString ''u1'')) True = (Ok (200, WaRegistered [1, 2]), w')
     \<and> loadCredentials (wh_provider demo_handler) (ww_factors w') demo_key_user = Ok [demo_credential\<lparr>CrFlags := zero_flags\<rparr>]"
proof -
  let ?w = "demo_web_world [] [''webauthn:reg:u1'' \<mapsto> (Text ''u1'', None)]"
  let ?r = "with_value demo_key_request plain_user_id (CString ''u1'')"
  have r: "ctx_string ?r plain_user_id = Some ''u1''" by (simp add: ctx_string_def with_value_def)
  obtain w' where run: "wh_FinishRegistration demo_handler ''f'' ?w ?r True = (Ok (200, WaRegistered [1, 2]), w')"
    using r by (simp add: wh_FinishRegistration_def ks_live_def wp_FinishRegistration_def demo_webauthn_def pgm_CreateFactor_def
        factor_of_def row_insert_def Let_def)
  from webauthn_registration_round_trip [OF _ _ r _ _ _ run, of demo_key_user "''u1''" "[]"] run demo_load(1)
  show ?thesis by (auto simp: demo_webauthn_def split: if_splits)
qed

theorem webauthn_login_sound_witness:
  "\<exists>w'. wh_FinishLogin demo_handler (demo_web_world [(factor_of ''u1'' demo_credential)\<lparr>FcID := ''f''\<rparr>] [''webauthn:login:9'' \<mapsto> (Text ''u1'', None)])
       ''9'' True = (Ok (200, WaAuthenticated [1, 2] ''u1''), w')
     \<and> wh_FinishLogin demo_handler w' ''9'' True = (Ok (400, WaError ''SESSION_EXPIRED''), w')"
proof -
  let ?w = "demo_web_world [(factor_of ''u1'' demo_credential)\<lparr>FcID := ''f''\<rparr>] [''webauthn:login:9'' \<mapsto> (Text ''u1'', None)]"
  obtain w' where run: "wh_FinishLogin demo_handler ?w ''9'' True = (Ok (200, WaAuthenticated [1, 2] ''u1''), w')"
    by (simp add: wh_FinishLogin_def ks_live_def wp_FinishLogin_def demo_load demo_webauthn_def)
  with webauthn_login_sound [OF _ run] show ?thesis by auto
qed

theorem registration_behind_auth_panics_witness:
  "\<exists>r'. auth_Execute (\<lambda>_. Ok ([''sub'' \<mapsto> VString ''u1''], True)) (\<lambda>_. Ok demo_key_user) demo_key_request = Ok (Pass r')
     \<and> wh_BeginRegistration demo_handler (demo_web_world [] Map.empty) r' = (Panic, demo_web_world [] Map.empty)"
proof -
  obtain r' where run: "auth_Execute (\<lambda>_. Ok ([''sub'' \<mapsto> VString ''u1''], True)) (\<lambda>_. Ok demo_key_user) demo_key_request = Ok (Pass r')"
    by (simp add: auth_Execute_def demo_key_request_def cm_ValidateJWT_def Let_def ToLower_def lower_char_def)
  then show ?thesis
    using registration_behind_auth_panics [OF run, of demo_handler "demo_web_world [] Map.empty"] by (auto simp: demo_key_request_def)
qed

theorem webauthn_login_completes_witness:
  "\<exists>w1 w2. wh_BeginLogin demo_handler 9 (demo_web_world [(factor_of ''u1'' demo_credential)\<lparr>FcID := ''f''\<rparr>] Map.empty) demo_key_request (Some ''ann'')
       = (Ok (200, WaOptions () (Some (show_int 9))), w1)
     \<and> wh_FinishLogin demo_handler (w1\<lparr>ww_redis := (ww_redis w1)\<lparr>ks_now := 100\<rparr>\<rparr>) (show_int 9) True = (Ok (200, WaAuthenticated [1, 2] ''u1''), w2)"
  using webauthn_login_completes [of demo_handler "demo_web_world [(factor_of ''u1'' demo_credential)\<lparr>FcID := ''f''\<rparr>] Map.empty" "''ann''" demo_key_user
      "[demo_credential\<lparr>CrFlags := zero_flags\<rparr>]" "()" "''u1''" True "demo_credential\<lparr>CrFlags := zero_flags\<rparr>" 100 9 demo_key_request] demo_load(2)
  by (simp add: demo_webauthn_def webauthn_ttl_def)
end
