(* ===== verification/HTTP_Handlers.thy ===== *)
theory HTTP_Handlers
  imports App_Services Webhooks Recovery_Service Middleware
begin

text \<open>
  The HTTP handlers in front of the services: \<^verbatim>\<open>internal/server/http/handlers\<close>, \<^verbatim>\<open>internal/server/http/ui\<close>,
  \<^verbatim>\<open>internal/api/privacy\<close> and \<^verbatim>\<open>internal/api/admin\<close>. A handler answers with a status and a body; a body that was decoded from
  JSON is \<open>None\<close> when decoding fails. The query and the variables of the path are arguments, as are the templates, which appear
  by name with what they are given. \<open>text_of\<close> is \<^verbatim>\<open>err.Error()\<close>.
\<close>

section \<open>Answers\<close>

datatype payload =
    TokenPayload "Token option"
  | ChallengePayload "MFAChallenge option"
  | UserPayload User
  | UsersPayload "User list" int
  | UserPagePayload "User list" int int int
  | GrantPayload TokenResponse
  | InfoPayload gmap
  | SubscriptionPayload Subscription
  | SubscriptionsPayload "Subscription list"
  | AppPayload DevCenterAppDTO
  | AppsPayload "DevCenterAppDTO list"
  | ExportPayload ExportData

datatype http_body =
    NoContent
  | JsonBody payload
  | ErrBody go_error
  | PlainBody string
  | Page string "(string \<times> string) list"
  | Location string

type_synonym reply = "(go_error, nat \<times> http_body) outcome"

definition error_status :: "err_store \<Rightarrow> go_error \<Rightarrow> nat" where
  "error_status h err = (case err of Sentinel c \<Rightarrow> (case h c of Some cell \<Rightarrow> ErrHttpStatus cell | None \<Rightarrow> 0) | _ \<Rightarrow> 0)"

definition WriteJSONError :: "err_store \<Rightarrow> go_error \<Rightarrow> nat \<Rightarrow> reply" where
  "WriteJSONError h err defaultStatus =
     Ok (let status = error_status h err in if status = 0 then defaultStatus else status, ErrBody err)"

text \<open>The error branch that the handlers share, with the default status of an application error.\<close>

definition answer_error :: "nat option \<Rightarrow> err_store \<Rightarrow> go_error \<Rightarrow> reply \<times> err_store" where
  "answer_error fallback h err =
     (case err of
        Sentinel _ \<Rightarrow> (WriteJSONError h err (case fallback of Some n \<Rightarrow> n | None \<Rightarrow> error_status h err), h)
      | _ \<Rightarrow> (let (e, h') = WithCause h ErrInternal err in (WriteJSONError h' e 500, h')))"

definition answer_cause :: "err_store \<Rightarrow> go_error \<Rightarrow> nat \<Rightarrow> go_error \<Rightarrow> reply \<times> err_store" where
  "answer_cause h e status err = (let (e', h') = WithCause h e err in (WriteJSONError h' e' status, h'))"

definition bad_json :: go_error where "bad_json = Errorf ''json''"

section \<open>Authentication\<close>

definition zero_Config :: Config where
  "zero_Config = \<lparr>AccessTokenDuration = 0, RefreshTokenDuration = 0, SessionDuration = 0\<rparr>"

definition h_Login ::
    "('s, 'f) AuthService \<Rightarrow> 'w AuditService \<Rightarrow> (go_error \<Rightarrow> string) \<Rightarrow> (nat \<Rightarrow> time) \<Rightarrow> (nat \<Rightarrow> string)
      \<Rightarrow> ('s, 'f) world \<times> 'w audit_world \<Rightarrow> AuthnRequest option \<Rightarrow> reply \<times> ('s, 'f) world \<times> 'w audit_world" where
  "h_Login svc au text_of clock fresh wa body =
     (case body of
        None \<Rightarrow> (let (r, h) = answer_cause (w_errs (fst wa)) ErrBadRequest 400 bad_json in (r, (fst wa)\<lparr>w_errs := h\<rparr>, snd wa))
      | Some req \<Rightarrow>
          (case app_LoginWithPassword svc au text_of clock fresh zero_Config wa req of
             (Panic, w, a) \<Rightarrow> (Panic, w, a)
           | (Fail err, w, a) \<Rightarrow> (let (r, h) = answer_error None (w_errs w) err in (r, w\<lparr>w_errs := h\<rparr>, a))
           | (Ok res, w, a) \<Rightarrow>
               (Ok (200, JsonBody (if ResIsMfaRequired res then ChallengePayload (ResMFAChallenge res) else TokenPayload (ResToken res))), w, a)))"

definition h_VerifyMFA ::
    "('s, 'f) AuthService \<Rightarrow> (nat \<Rightarrow> time) \<Rightarrow> (nat \<Rightarrow> string) \<Rightarrow> ('s, 'f) world \<Rightarrow> VerifyMFARequest option \<Rightarrow> reply \<times> ('s, 'f) world" where
  "h_VerifyMFA svc clock fresh w body =
     (case body of
        None \<Rightarrow> (let (r, h) = answer_cause (w_errs w) ErrBadRequest 400 bad_json in (r, w\<lparr>w_errs := h\<rparr>))
      | Some req \<Rightarrow>
          (case VerifyMFAChallenge svc clock fresh zero_Config w req of
             (Panic, w') \<Rightarrow> (Panic, w')
           | (Fail err, w') \<Rightarrow> (let (r, h) = answer_error None (w_errs w') err in (r, w'\<lparr>w_errs := h\<rparr>))
           | (Ok res, w') \<Rightarrow> (Ok (200, JsonBody (TokenPayload (ResToken res))), w')))"

definition h_Logout :: reply where "h_Logout = Ok (204, NoContent)"

section \<open>Users\<close>

record CreateUserRequest =
  CuUsername :: string
  CuEmail :: string
  CuPassword :: string

definition h_CreateUser ::
    "('s, 'w) identity_app \<Rightarrow> (nat \<Rightarrow> string) \<Rightarrow> time \<Rightarrow> 's \<Rightarrow> err_store \<Rightarrow> 'w audit_world \<Rightarrow> CreateUserRequest option
      \<Rightarrow> (reply \<times> 's \<times> err_store \<times> 'w audit_world) option" where
  "h_CreateUser ia fresh now s h a body =
     (case body of
        None \<Rightarrow> (let (r, h') = answer_cause h ErrBadRequest 400 bad_json in Some (r, s, h', a))
      | Some req \<Rightarrow>
          (case app_CreateUser ia fresh now s h a (CuUsername req) (CuEmail req) (CuPassword req) of
             None \<Rightarrow> None
           | Some (Panic, s', h', a') \<Rightarrow> Some (Panic, s', h', a')
           | Some (Fail err, s', h', a') \<Rightarrow> (let (r, h2) = answer_error None h' err in Some (r, s', h2, a'))
           | Some (Ok user, s', h', a') \<Rightarrow> Some (Ok (201, JsonBody (UserPayload user)), s', h', a')))"

definition h_GetUser :: "('s, 'w) identity_app \<Rightarrow> 's \<Rightarrow> err_store \<Rightarrow> string option \<Rightarrow> reply \<times> 's \<times> err_store" where
  "h_GetUser ia s h vars_id =
     (case vars_id of
        None \<Rightarrow> (let (e, h') = WithDetails h ErrBadRequest [(''error'', ''missing user ID'')] in (WriteJSONError h' e 400, s, h'))
      | Some userID \<Rightarrow>
          (case app_GetUserByID ia s h userID of
             (Panic, s', h') \<Rightarrow> (Panic, s', h')
           | (Fail err, s', h') \<Rightarrow> (let (r, h2) = answer_error None h' err in (r, s', h2))
           | (Ok user, s', h') \<Rightarrow> (Ok (200, JsonBody (UserPayload user)), s', h')))"

section \<open>Administration\<close>

text \<open>\<^verbatim>\<open>strconv.Atoi\<close> with its error dropped: zero for text that is no number, and the nearest value for one that is too large.\<close>

definition Atoi_or_zero :: "string \<Rightarrow> int" where
  "Atoi_or_zero s =
     (let (neg, ds) = (case s of [] \<Rightarrow> (False, []) | c # cs \<Rightarrow> if c = CHR ''-'' then (True, cs) else if c = CHR ''+'' then (False, cs) else (False, s))
      in if ds = [] \<or> \<not> list_all is_digit ds then 0
         else let n = foldl (\<lambda>a d. a * 10 + (of_char d - 48)) (0 :: int) ds
              in if neg then max (- (2 ^ 63)) (- n) else min (2 ^ 63 - 1) n)"

definition adminapi_ListUsers :: "'s UserRepository \<Rightarrow> 's \<Rightarrow> (string \<Rightarrow> string) \<Rightarrow> reply" where
  "adminapi_ListUsers users s query =
     (let page0 = Atoi_or_zero (query ''page''); size0 = Atoi_or_zero (query ''size'');
          size = (if size0 = 0 then 10 else size0); page = (if page0 < 0 then 0 else page0)
      in case ur_ListUsers users s \<lparr>FQuery = [], FStatus = [], FPage = page, FPageSize = size, FSortBy = [], FSortOrder = []\<rparr> of
           Panic \<Rightarrow> Panic
         | Fail _ \<Rightarrow> Ok (500, PlainBody ''query failed'')
         | Ok (us, n_users) \<Rightarrow> Ok (200, JsonBody (UserPagePayload us page size n_users)))"

definition adminapi_CreateUser ::
    "'s UserRepository \<Rightarrow> 's \<Rightarrow> (string \<times> string) option \<Rightarrow> string \<Rightarrow> reply \<times> 's" where
  "adminapi_CreateUser users s body decode_error =
     (case body of
        None \<Rightarrow> (Ok (400, PlainBody decode_error), s)
      | Some (username, email) \<Rightarrow>
          (case ur_CreateUser users s (zero_user\<lparr>Username := username, Email := email\<rparr>) of
             (Panic, s') \<Rightarrow> (Panic, s')
           | (Fail _, s') \<Rightarrow> (Ok (500, PlainBody ''create failed''), s')
           | (Ok user, s') \<Rightarrow> (Ok (201, JsonBody (UserPayload user)), s')))"

definition admin_ListUsers :: "'s UserRepository \<Rightarrow> 's \<Rightarrow> err_store \<Rightarrow> (string \<Rightarrow> string) \<Rightarrow> reply \<times> 's \<times> err_store" where
  "admin_ListUsers users s h query =
     (let page0 = Atoi_or_zero (query ''page''); page = (if page0 = 0 then 1 else page0);
          size0 = Atoi_or_zero (query ''pageSize''); pageSize = (if size0 = 0 then 20 else size0)
      in case svc_ListUsers users s h \<lparr>FQuery = query ''q'', FStatus = [query ''status''], FPage = page, FPageSize = pageSize,
                FSortBy = query ''sortBy'', FSortOrder = query ''sortOrder''\<rparr> of
           (Panic, s', h') \<Rightarrow> (Panic, s', h')
         | (Fail err, s', h') \<Rightarrow> (let (r, h2) = answer_cause h' ErrInternal 500 err in (r, s', h2))
         | (Ok (us, n_users), s', h') \<Rightarrow> (Ok (200, JsonBody (UsersPayload us n_users)), s', h'))"

text \<open>
  Banning and unbanning differ in the status. The user of the request is read by a type assertion when the event is made, after
  the change.
\<close>

definition admin_set_status ::
    "'s UserRepository \<Rightarrow> 'w AuditLogger \<Rightarrow> string \<Rightarrow> time \<Rightarrow> UserStatus \<Rightarrow> 's \<Rightarrow> err_store \<Rightarrow> 'w logger_state \<Rightarrow> request \<Rightarrow> string
      \<Rightarrow> reply \<times> 's \<times> err_store \<times> 'w logger_state" where
  "admin_set_status users al uuid now status s h ls rq userID =
     (case svc_ChangeUserStatus users s h userID status of
        (Panic, s', h') \<Rightarrow> (Panic, s', h', ls)
      | (Fail err, s', h') \<Rightarrow> (let (r, h2) = answer_cause h' ErrInternal 500 err in (r, s', h2, ls))
      | (Ok _, s', h') \<Rightarrow>
          (case ctx_string rq UserIDContextKey of
             None \<Rightarrow> (Panic, s', h', ls)
           | Some admin \<Rightarrow>
               (case Record al uuid now (zero_event\<lparr>EvEventType := EventDataModified, EvActor := \<lparr>ActID = admin, ActType = ''user'', ActName = []\<rparr>,
                       EvTarget := \<lparr>TgtID = userID, TgtType = ''user'', TgtName = []\<rparr>, EvResult := ResultSuccess\<rparr>) ls of
                  (Panic, ls') \<Rightarrow> (Panic, s', h', ls')
                | (_, ls') \<Rightarrow> (Ok (200, NoContent), s', h', ls'))))"

definition BanUser ::
    "'s UserRepository \<Rightarrow> 'w AuditLogger \<Rightarrow> string \<Rightarrow> time \<Rightarrow> 's \<Rightarrow> err_store \<Rightarrow> 'w logger_state \<Rightarrow> request \<Rightarrow> string
      \<Rightarrow> reply \<times> 's \<times> err_store \<times> 'w logger_state" where
  "BanUser users al uuid now s h ls rq userID = admin_set_status users al uuid now UserStatusLocked s h ls rq userID"

definition UnbanUser ::
    "'s UserRepository \<Rightarrow> 'w AuditLogger \<Rightarrow> string \<Rightarrow> time \<Rightarrow> 's \<Rightarrow> err_store \<Rightarrow> 'w logger_state \<Rightarrow> request \<Rightarrow> string
      \<Rightarrow> reply \<times> 's \<times> err_store \<times> 'w logger_state" where
  "UnbanUser users al uuid now s h ls rq userID = admin_set_status users al uuid now UserStatusActive s h ls rq userID"

section \<open>OAuth and OpenID Connect\<close>

definition h_Authorize ::
    "'r OAuthAdapter \<Rightarrow> (go_error \<Rightarrow> string) \<Rightarrow> bytes \<Rightarrow> 'r oauth_world \<Rightarrow> (string \<Rightarrow> string) \<Rightarrow> reply \<times> 'r oauth_world" where
  "h_Authorize a text_of rnd w query =
     (let req = \<lparr>ReqProtocol = ''oauth'',
            ReqCredentials = [''response_type'' \<mapsto> query ''response_type'', ''client_id'' \<mapsto> query ''client_id'',
              ''redirect_uri'' \<mapsto> query ''redirect_uri'', ''scope'' \<mapsto> query ''scope'', ''state'' \<mapsto> query ''state'',
              ''code_challenge'' \<mapsto> query ''code_challenge'', ''code_challenge_method'' \<mapsto> query ''code_challenge_method'',
              ''user_id'' \<mapsto> ''test_user''],
            ReqContext = Map.empty, ReqUserID = []\<rparr>
      in case HandleAuthRequest a rnd w req of
           (Panic, w') \<Rightarrow> (Panic, w')
         | (Fail err, w') \<Rightarrow> (Ok (400, PlainBody (text_of err)), w')
         | (Ok resp, w') \<Rightarrow> (Ok (302, Location (RespRedirectURI resp @ ''?code='' @ RespCode resp @ ''&state='' @ RespState resp)), w'))"

definition h_Token ::
    "'r OAuthAdapter \<Rightarrow> (go_error \<Rightarrow> string) \<Rightarrow> (nat \<Rightarrow> time) \<Rightarrow> bytes \<Rightarrow> 'r oauth_world \<Rightarrow> (string \<Rightarrow> string) \<Rightarrow> reply \<times> 'r oauth_world" where
  "h_Token a text_of clock rnd w form =
     (case HandleTokenRequest a clock rnd w
             \<lparr>TqGrantType = form ''grant_type'', TqCode = form ''code'', TqRedirectURI = form ''redirect_uri'', TqClientID = form ''client_id'',
              TqClientSecret = form ''client_secret'', TqCodeVerifier = form ''code_verifier'', TqRefreshToken = form ''refresh_token'',
              TqUserID = [], TqScope = []\<rparr> of
        (Panic, w') \<Rightarrow> (Panic, w')
      | (Fail err, w') \<Rightarrow> (Ok (500, PlainBody (text_of err)), w')
      | (Ok resp, w') \<Rightarrow> (Ok (200, JsonBody (GrantPayload resp)), w'))"

definition h_UserInfo :: "OIDCAdapter \<Rightarrow> (go_error \<Rightarrow> string) \<Rightarrow> err_store \<Rightarrow> request \<Rightarrow> reply \<times> err_store" where
  "h_UserInfo oi text_of h rq =
     (let authHeader = rq_header rq ''Authorization'' in
      if authHeader = [] then (Ok (401, PlainBody ''Authorization header required''), h)
      else let parts = split_on CHR '' '' authHeader in
      if length parts \<noteq> 2 \<or> ToLower (parts ! 0) \<noteq> ''bearer'' then (Ok (401, PlainBody ''Invalid Authorization header format''), h)
      else case GetUserInfo oi h (parts ! 1) of
        (Panic, h') \<Rightarrow> (Panic, h')
      | (Fail err, h') \<Rightarrow> (Ok (500, PlainBody (text_of err)), h')
      | (Ok info, h') \<Rightarrow> (Ok (200, JsonBody (InfoPayload info)), h'))"

section \<open>Privacy\<close>

type_synonym ('s, 'c, 'l, 'r, 'w) privacy_reply = "reply \<times> ('s, 'c, 'l, 'r, 'w) privacy_world"

definition getUserIDFromCtx ::
    "('s, 'c, 'l, 'r, 'w) privacy_world \<Rightarrow> request \<Rightarrow> ('s, 'c, 'l, 'r, 'w, string) privacy_run" where
  "getUserIDFromCtx w rq =
     (case ctx_string rq UserIDContextKey of
        Some userID \<Rightarrow> (Ok userID, w)
      | None \<Rightarrow> detailed w ErrInternal ''User ID not found in context.'')"

definition privacy_answer ::
    "('s, 'c, 'l, 'r, 'w, 'a) privacy_run \<Rightarrow> ('a \<Rightarrow> ('s, 'c, 'l, 'r, 'w) privacy_world \<Rightarrow> ('s, 'c, 'l, 'r, 'w) privacy_reply)
      \<Rightarrow> ('s, 'c, 'l, 'r, 'w) privacy_reply" where
  "privacy_answer run k =
     (case run of
        (Panic, w) \<Rightarrow> (Panic, w)
      | (Fail err, w) \<Rightarrow> (let (r, h) = answer_error (Some 500) (pw_errs w) err in (r, w\<lparr>pw_errs := h\<rparr>))
      | (Ok x, w) \<Rightarrow> k x w)"

definition handleConsent ::
    "('s, 'c, 'l, 'r, 'w) PrivacyService \<Rightarrow> string \<Rightarrow> time \<Rightarrow> ('s, 'c, 'l, 'r, 'w) privacy_world \<Rightarrow> request \<Rightarrow> GrantConsentRequest option
      \<Rightarrow> ('s, 'c, 'l, 'r, 'w) privacy_reply" where
  "handleConsent p uuid now w rq body =
     (case body of
        None \<Rightarrow> (let (r, h) = answer_cause (pw_errs w) ErrInvalidRequest 400 bad_json in (r, w\<lparr>pw_errs := h\<rparr>))
      | Some req \<Rightarrow>
          privacy_answer (getUserIDFromCtx w rq)
            (\<lambda>userID w1. privacy_answer (GrantConsent p uuid now w1
                 (req\<lparr>GcUserID := userID, GcIPAddress := rq_remote rq, GcUserAgent := rq_header rq ''User-Agent''\<rparr>))
               (\<lambda>_ w2. (Ok (200, NoContent), w2))))"

text \<open>\<open>encode\<close> is the JSON encoding of an export; the answer carries what was exported.\<close>

definition handleExport ::
    "('s, 'c, 'l, 'r, 'w) PrivacyService \<Rightarrow> (ExportData \<Rightarrow> (go_error, string) outcome) \<Rightarrow> ('s, 'c, 'l, 'r, 'w) privacy_world \<Rightarrow> request
      \<Rightarrow> ('s, 'c, 'l, 'r, 'w) privacy_reply" where
  "handleExport p encode w rq =
     privacy_answer (getUserIDFromCtx w rq)
       (\<lambda>userID w1. privacy_answer (CollectUserData p w1 userID)
          (\<lambda>data w2. privacy_answer (encode data, w2) (\<lambda>_ w3. (Ok (200, JsonBody (ExportPayload data)), w3))))"

definition handleErasure ::
    "('s, 'c, 'l, 'r, 'w) PrivacyService \<Rightarrow> (nat \<Rightarrow> string) \<Rightarrow> time \<Rightarrow> ('s, 'c, 'l, 'r, 'w) privacy_world \<Rightarrow> request
      \<Rightarrow> ('s, 'c, 'l, 'r, 'w) privacy_reply" where
  "handleErasure p fresh now w rq =
     privacy_answer (getUserIDFromCtx w rq)
       (\<lambda>userID w1. privacy_answer (EraseAccount p fresh now w1 userID) (\<lambda>_ w2. (Ok (200, NoContent), w2)))"

section \<open>Pages\<close>

record DeviceInfo =
  DiID :: string
  DiIPAddress :: string
  DiBrowser :: string
  DiOS :: string
  DiDevice :: string
  DiLastActive :: string
  DiDeviceFingerprint :: string
  DiCurrent :: bool

text \<open>What the user-agent library says of a header.\<close>

record user_agent =
  ua_browser :: string
  ua_version :: string
  ua_OS :: string
  ua_mobile :: bool
  ua_bot :: bool

definition device_info :: "(string \<Rightarrow> user_agent) \<Rightarrow> (time \<Rightarrow> string) \<Rightarrow> UserSession \<Rightarrow> DeviceInfo" where
  "device_info parse_ua format s =
     (let ua = parse_ua (SUserAgent s)
      in \<lparr>DiID = SID s, DiIPAddress = SIPAddress s, DiBrowser = ua_browser ua @ '' '' @ ua_version ua, DiOS = ua_OS ua,
          DiDevice = (if ua_bot ua then ''Bot'' else if ua_mobile ua then ''Mobile'' else ''Desktop''),
          DiLastActive = format (SLastRotatedAt s), DiDeviceFingerprint = SDeviceFingerprint s, DiCurrent = False\<rparr>)"

definition ui_ListDevices ::
    "'r RedisClient \<Rightarrow> (string \<Rightarrow> user_agent) \<Rightarrow> (time \<Rightarrow> string) \<Rightarrow> time \<Rightarrow> 'r \<Rightarrow> request \<Rightarrow> (go_error, http_body \<times> DeviceInfo list) outcome \<times> 'r" where
  "ui_ListDevices client parse_ua format now r rq =
     (case rq_ctx rq UserIDContextKey of
        None \<Rightarrow> (Ok (Location ''/auth/login'', []), r)
      | Some (CString userID) \<Rightarrow>
          (case sm_GetUserSessions client now r userID of
             (Panic, r') \<Rightarrow> (Panic, r')
           | (Fail _, r') \<Rightarrow> (Ok (PlainBody ''Internal Server Error'', []), r')
           | (Ok sessions, r') \<Rightarrow> (Ok (Page ''portal/devices.html'' [], map (device_info parse_ua format) sessions), r'))
      | Some _ \<Rightarrow> (Panic, r))"

definition ui_RevokeDevice ::
    "'r RedisClient \<Rightarrow> SessionConfig \<Rightarrow> time \<Rightarrow> 'r \<Rightarrow> request \<Rightarrow> string \<Rightarrow> reply \<times> 'r" where
  "ui_RevokeDevice client cfg now r rq sessionID =
     (case rq_ctx rq UserIDContextKey of
        None \<Rightarrow> (Ok (303, Location ''/auth/login''), r)
      | Some (CString userID) \<Rightarrow>
          (case RevokeSession client cfg now r userID sessionID of
             (Panic, r') \<Rightarrow> (Panic, r')
           | (_, r') \<Rightarrow> (Ok (303, Location ''/portal/devices''), r'))
      | Some _ \<Rightarrow> (Panic, r))"

definition HandleForgotPassword ::
    "'s UserRepository \<Rightarrow> 'r RedisClient \<Rightarrow> notifiers \<Rightarrow> OTPConfig \<Rightarrow> (nat \<Rightarrow> bytes) \<Rightarrow> err_store \<Rightarrow> 's \<Rightarrow> 'r \<Rightarrow> string
      \<Rightarrow> (reply \<times> 'r) option" where
  "HandleForgotPassword repo client nm cfg rnd h s r email =
     (case InitiateRecovery repo client nm cfg rnd h s r email of
        None \<Rightarrow> None
      | Some (Panic, r') \<Rightarrow> Some (Panic, r')
      | Some (_, r') \<Rightarrow> Some (Ok (200, Page ''auth/reset_password.html'' [(''Email'', email)]), r'))"

definition HandleResetPassword ::
    "'s UserRepository \<Rightarrow> 'r RedisClient \<Rightarrow> (string \<Rightarrow> (go_error, string) outcome) \<Rightarrow> err_store \<Rightarrow> 's \<Rightarrow> 'r \<Rightarrow> string \<Rightarrow> string \<Rightarrow> string
      \<Rightarrow> (reply \<times> 's \<times> 'r) option" where
  "HandleResetPassword repo client HashPassword h s r email code password =
     (case VerifyAndReset repo client HashPassword h s r email code password of
        None \<Rightarrow> None
      | Some (Panic, s', r') \<Rightarrow> Some (Panic, s', r')
      | Some (Fail _, s', r') \<Rightarrow>
          Some (Ok (200, Page ''auth/reset_password.html'' [(''Error'', ''Invalid code or request failed.''), (''Email'', email)]), s', r')
      | Some (Ok _, s', r') \<Rightarrow> Some (Ok (303, Location ''/auth/login?reset=success''), s', r'))"

text \<open>\<open>form\<close> is \<open>None\<close> when the form does not parse.\<close>

definition ui_HandleLogin :: "(string \<Rightarrow> string) option \<Rightarrow> reply" where
  "ui_HandleLogin form =
     (case form of
        None \<Rightarrow> Ok (400, PlainBody ''Failed to parse form'')
      | Some f \<Rightarrow>
          (if f ''username'' = ''admin'' \<and> f ''password'' = ''password'' then Ok (302, Location ''/auth/mfa'')
           else Ok (200, Page ''login.html'' [(''Error'', ''Invalid username or password''), (''Username'', f ''username'')])))"

definition ui_HandleMFA :: reply where "ui_HandleMFA = Ok (302, Location ''/dashboard'')"

section \<open>Webhooks and the developer centre\<close>

definition h_CreateSubscription ::
    "'d WebhookRepo \<Rightarrow> (go_error, bytes) outcome \<Rightarrow> string \<Rightarrow> (nat \<Rightarrow> time) \<Rightarrow> 'd \<Rightarrow> (string \<times> string list) option \<Rightarrow> reply \<times> 'd" where
  "h_CreateSubscription repo random uuid clock d body =
     (case body of
        None \<Rightarrow> (Ok (400, PlainBody ''Invalid request body''), d)
      | Some (url, events) \<Rightarrow>
          (case CreateSubscription repo random uuid clock d url events of
             (Panic, d') \<Rightarrow> (Panic, d')
           | (Fail _, d') \<Rightarrow> (Ok (500, PlainBody ''Failed to create subscription''), d')
           | (Ok sub, d') \<Rightarrow> (Ok (201, JsonBody (SubscriptionPayload sub)), d')))"

definition h_ListSubscriptions :: "'d WebhookRepo \<Rightarrow> 'd \<Rightarrow> reply" where
  "h_ListSubscriptions repo d =
     (case wr_List repo d of
        Panic \<Rightarrow> Panic
      | Fail _ \<Rightarrow> Ok (500, PlainBody ''Failed to list subscriptions'')
      | Ok subs \<Rightarrow> Ok (200, JsonBody (SubscriptionsPayload subs)))"

definition h_DeleteSubscription :: "'d WebhookRepo \<Rightarrow> 'd \<Rightarrow> string \<Rightarrow> reply \<times> 'd" where
  "h_DeleteSubscription repo d i =
     (case wr_Delete repo d i of
        (Panic, d') \<Rightarrow> (Panic, d')
      | (Fail _, d') \<Rightarrow> (Ok (500, PlainBody ''Failed to delete subscription''), d')
      | (Ok _, d') \<Rightarrow> (Ok (204, NoContent), d'))"

definition h_RotateSecret :: "'d WebhookRepo \<Rightarrow> (go_error, bytes) outcome \<Rightarrow> time \<Rightarrow> 'd \<Rightarrow> string \<Rightarrow> reply \<times> 'd" where
  "h_RotateSecret repo random now d i =
     (case RotateSecret repo random now d i of
        (Panic, d') \<Rightarrow> (Panic, d')
      | (Fail _, d') \<Rightarrow> (Ok (500, PlainBody ''Failed to rotate secret''), d')
      | (Ok sub, d') \<Rightarrow> (Ok (200, JsonBody (SubscriptionPayload sub)), d'))"

definition h_ListApps :: "('d, Application) gorm_table \<Rightarrow> (go_error \<Rightarrow> string) \<Rightarrow> 'd \<Rightarrow> err_store \<Rightarrow> reply \<times> err_store" where
  "h_ListApps db text_of d h =
     (case dev_ListApps db d h of
        (Panic, h') \<Rightarrow> (Panic, h')
      | (Fail err, h') \<Rightarrow> (Ok (500, PlainBody (text_of err)), h')
      | (Ok apps, h') \<Rightarrow> (Ok (200, JsonBody (AppsPayload apps)), h'))"

definition h_CreateApp ::
    "('d, Application) gorm_table \<Rightarrow> (go_error \<Rightarrow> string) \<Rightarrow> string \<Rightarrow> time \<Rightarrow> 'd \<Rightarrow> err_store \<Rightarrow> CreateAppRequest option \<Rightarrow> reply \<times> 'd \<times> err_store" where
  "h_CreateApp db text_of uuid now d h body =
     (case body of
        None \<Rightarrow> (Ok (400, PlainBody (text_of bad_json)), d, h)
      | Some req \<Rightarrow>
          (case dev_CreateApp db uuid now d h req of
             (Panic, d', h') \<Rightarrow> (Panic, d', h')
           | (Fail err, d', h') \<Rightarrow> (Ok (400, PlainBody (text_of err)), d', h')
           | (Ok app, d', h') \<Rightarrow> (Ok (201, JsonBody (AppPayload app)), d', h')))"
section \<open>Properties\<close>

lemma createSessionAndTokens_lifetime:
  assumes "createSessionAndTokens svc clock fresh cfg w user = (Ok res, w')"
  shows "\<exists>tok s. ResToken res = Some tok \<and> ExpiresIn tok = whole_seconds (AccessTokenDuration cfg)
    \<and> ResSession res = Some s \<and> SExpiresAt s = clock 1 + SessionDuration cfg"
  using assms by (auto simp: createSessionAndTokens_def Let_def split: outcome.splits prod.splits)

lemma LoginWithPassword_lifetime:
  assumes "LoginWithPassword svc clock fresh cfg w req = (Ok res, w')" and "\<not> ResIsMfaRequired res"
  shows "\<exists>tok s. ResToken res = Some tok \<and> ExpiresIn tok = whole_seconds (AccessTokenDuration cfg)
    \<and> ResSession res = Some s \<and> SExpiresAt s = clock 1 + SessionDuration cfg"
proof -
  from assms obtain w1 user where "createSessionAndTokens svc clock fresh cfg w1 user = (Ok res, w')"
    by (auto simp: LoginWithPassword_def Let_def split: outcome.splits prod.splits if_splits)
  then show ?thesis by (rule createSessionAndTokens_lifetime)
qed

lemma app_LoginWithPassword_Ok:
  assumes "app_LoginWithPassword svc au txt clock fresh cfg wa req = (Ok res, w', a')"
  shows "LoginWithPassword svc clock fresh cfg (fst wa) req = (Ok res, w') \<and> a' = snd wa"
  using assms by (cases "LoginWithPassword svc clock fresh cfg (fst wa) req")
    (auto simp: app_LoginWithPassword_def Let_def split: outcome.splits prod.splits)

text \<open>
  The login handler runs the service with an empty configuration: the token it answers with is valid for zero seconds, and the
  session behind it expires when it is made.
\<close>

theorem login_token_expires_at_once:
  assumes "h_Login svc au txt clock fresh (w, a) (Some req) = (Ok (200, JsonBody (TokenPayload tok)), w', a')"
  shows "\<exists>t s res. tok = Some t \<and> ExpiresIn t = 0 \<and> LoginWithPassword svc clock fresh zero_Config w req = (Ok res, w')
    \<and> ResSession res = Some s \<and> SExpiresAt s = clock 1"
proof -
  from assms obtain res where run: "app_LoginWithPassword svc au txt clock fresh zero_Config (w, a) req = (Ok res, w', a')"
    and res: "\<not> ResIsMfaRequired res" "tok = ResToken res"
    by (auto simp: h_Login_def answer_error_def WriteJSONError_def Let_def split: outcome.splits prod.splits if_splits go_error.splits)
  then have login: "LoginWithPassword svc clock fresh zero_Config w req = (Ok res, w')" using app_LoginWithPassword_Ok [OF run] by simp
  from LoginWithPassword_lifetime [OF this res(1)] res(2) login show ?thesis
    by (auto simp: zero_Config_def whole_seconds_def)
qed

text \<open>
  The handler of the second factor does not depend on the code: two requests for the same user that differ in the challenge and the
  code have the same answer and the same effect.
\<close>

theorem mfa_verify_ignores_code:
  assumes "VUserID req = VUserID req'"
  shows "h_VerifyMFA svc clock fresh w (Some req) = h_VerifyMFA svc clock fresh w (Some req')"
  using assms by (simp add: h_VerifyMFA_def VerifyMFAChallenge_def)

text \<open>
  The answer to a forgotten password does not tell whether the address is known: whatever users, keys, notifiers and errors there
  are, a request that is answered at all is answered with the same page.
\<close>

theorem forgot_password_uniform:
  assumes "HandleForgotPassword repo client nm cfg rnd h s r email = Some (Ok resp, r1)"
    and "HandleForgotPassword repo' client' nm' cfg' rnd' h' s' r' email = Some (Ok resp', r1')"
  shows "resp = resp' \<and> resp = (200, Page ''auth/reset_password.html'' [(''Email'', email)])"
  using assms by (auto simp: HandleForgotPassword_def split: option.splits outcome.splits)

text \<open>
  The portal revokes any session whose identifier is given, whoever owns it: the session's key is gone, no other key changes, and
  the list of sessions of another user keeps the identifier.
\<close>

theorem portal_revokes_any_session:
  assumes "rq_ctx rq UserIDContextKey = Some (CString u)" and "u \<noteq> []"
  shows "\<exists>r'. ui_RevokeDevice ks_client cfg now r rq sid = (Ok (303, Location ''/portal/devices''), r')
    \<and> ks_live r' (session_key sid) = None \<and> (\<forall>k. k \<noteq> session_key sid \<longrightarrow> ks_live r' k = ks_live r k)
    \<and> (\<forall>v. user_sessions_key v \<noteq> user_sessions_key u \<longrightarrow> ks_zsets r' (user_sessions_key v) = ks_zsets r (user_sessions_key v))"
  using assms by (auto simp: ui_RevokeDevice_def RevokeSession_def sm_DeleteSession_def ks_live_def split: option.split)

text \<open>
  Whoever asks for authorization, the code is issued for the user \<^verbatim>\<open>test_user\<close>.
\<close>

theorem authorize_is_test_user:
  assumes "oa_redis a = ks_client" and "h_Authorize a txt rnd w query = (Ok (302, Location url), w')"
  shows "url = query ''redirect_uri'' @ ''?code='' @ b64url_encode rnd @ ''&state='' @ query ''state''
    \<and> (\<exists>d. ks_live (ow_redis w') (''authcode:'' @ b64url_encode rnd) = Some (JsonMap d) \<and> map_of d ''user_id'' = Some ''test_user'')"
  using assms
  by (auto simp: h_Authorize_def HandleAuthRequest_def Let_def cred_def auth_code_data_def of_details_def of_cause_def ks_live_put authcode_ttl_def
      split: outcome.splits prod.splits option.splits gvalue.splits if_splits)
text \<open>
  Over the in-memory repository the administration's list of users panics for every request that names no page, or a page that is
  not positive, with the default size.
\<close>

theorem admin_listing_panics:
  assumes "Atoi_or_zero (query ''page'') \<le> 0" and "Atoi_or_zero (query ''size'') = 0"
  shows "adminapi_ListUsers (memory_users ord uuid) r query = Panic"
proof -
  have p: "(if Atoi_or_zero (query ''page'') < 0 then 0 else Atoi_or_zero (query ''page'')) = 0" using assms(1) by auto
  have m: "mem_ListUsers o' r \<lparr>FQuery = [], FStatus = [], FPage = 0, FPageSize = 10, FSortBy = [], FSortOrder = []\<rparr> = Panic" for o'
  proof -
    have "\<not> int (length (range_values o' (m_users r))) < - 10" by linarith
    then show ?thesis by (simp add: mem_ListUsers_def Let_def go_slice_int_def)
  qed
  show ?thesis by (simp add: adminapi_ListUsers_def Let_def p assms(2) m)
qed

text \<open>
  A user who has been banned is locked in the in-memory repository and nobody else is changed, and a login for this user is refused
  with any password.
\<close>

theorem ban_refuses_login:
  assumes "BanUser (memory_users ord uuid) al ev now r h ls rq i = (Ok (200, NoContent), r', h', ls')"
    and "m_users r i = Some user" and "UID user = i"
    and "as_GetUserByUsername svc (w_errs w) (RUsername req) = (Ok (the (m_users r' i)), e)"
  shows "m_users r' = (m_users r)(i \<mapsto> user\<lparr>Status := UserStatusLocked\<rparr>)
    \<and> fst (LoginWithPassword svc clock fresh cfg w req) = Fail ErrUserDisabled"
proof -
  from assms(1-3) have r': "m_users r' = (m_users r)(i \<mapsto> user\<lparr>Status := UserStatusLocked\<rparr>)"
    by (auto simp: BanUser_def admin_set_status_def svc_ChangeUserStatus_def mem_GetUserByID_def mem_UpdateUser_def
        split: outcome.splits option.splits prod.splits)
  with assms(4) have "as_GetUserByUsername svc (w_errs w) (RUsername req) = (Ok (user\<lparr>Status := UserStatusLocked\<rparr>), e)" by simp
  with r' show ?thesis by (simp add: LoginWithPassword_def Let_def UserStatusLocked_def UserStatusActive_def)
qed

text \<open>
  Consent that is given through the handler is recorded for the user of the request, whatever user the body names.
\<close>

theorem consent_for_caller:
  assumes "pv_consents p = row_db CnID CnID" and "ctx_string rq UserIDContextKey = Some u"
    and "handleConsent p uuid now w rq (Some req) = (Ok (200, NoContent), w')"
  shows "\<exists>c. pw_consents w' = pw_consents w @ [c] \<and> CnUserID c = u \<and> CnPolicyID c = GcPolicyID req
    \<and> CnPolicyVersion c = GcPolicyVersion req \<and> CnIPAddress c = rq_remote rq"
proof -
  let ?req = "req\<lparr>GcUserID := u, GcIPAddress := rq_remote rq, GcUserAgent := rq_header rq ''User-Agent''\<rparr>"
  from assms(2,3) have "\<exists>x. GrantConsent p uuid now w ?req = (Ok x, w')"
    by (auto simp: handleConsent_def getUserIDFromCtx_def privacy_answer_def answer_error_def WriteJSONError_def Let_def
        split: outcome.splits prod.splits go_error.splits)
  with assms(1) show ?thesis
    by (auto simp: GrantConsent_def CreateConsentRecord_def row_insert_def consent_record_def detailed_def caused_def Let_def
        split: if_splits outcome.splits prod.splits)
qed
section \<open>Witnesses\<close>

definition demo_portal :: "string \<Rightarrow> request" where
  "demo_portal u = \<lparr>rq_method = ''POST'', rq_path = [], rq_header = (\<lambda>_. []), rq_cookie = Map.empty, rq_form = (\<lambda>_. []),
     rq_remote = ''10.0.0.1'', rq_ctx = [UserIDContextKey \<mapsto> CString u]\<rparr>"

lemma demo_portal_sel [simp]:
  "rq_ctx (demo_portal u) UserIDContextKey = Some (CString u)" "ctx_string (demo_portal u) UserIDContextKey = Some u" "rq_remote (demo_portal u) = ''10.0.0.1''"
  by (simp_all add: demo_portal_def ctx_string_def)

definition demo_sink :: "AuditEvent list AuditService" where
  "demo_sink = \<lparr>aus_sinks = [], aus_dispatcher = False\<rparr>"

theorem login_token_expires_at_once_witness:
  "\<exists>tok t w' a'. h_Login demo_svc demo_sink (\<lambda>_. []) (\<lambda>_. 7) demo_fresh (demo_world, \<lparr>aw_world = [], aw_dispatched = []\<rparr>)
       (Some (demo_signin\<lparr>RUsername := ''alice'', RPassword := ''secret''\<rparr>)) = (Ok (200, JsonBody (TokenPayload tok)), w', a') \<and> tok = Some t \<and> ExpiresIn t = 0"
proof -
  let ?req = "demo_signin\<lparr>RUsername := ''alice'', RPassword := ''secret''\<rparr>" and ?a = "\<lparr>aw_world = [], aw_dispatched = []\<rparr> :: AuditEvent list audit_world"
  obtain tok w' a' where run: "h_Login demo_svc demo_sink (\<lambda>_. []) (\<lambda>_. 7) demo_fresh (demo_world, ?a) (Some ?req)
      = (Ok (200, JsonBody (TokenPayload tok)), w', a')"
    by (simp add: h_Login_def app_LoginWithPassword_def LoginWithPassword_def demo_lookup createSessionAndTokens_def Let_def alice_def
        demo_world_def zero_Config_def memory_auth_def amem_StoreRefreshToken_def amem_CreateSession_def)
  from login_token_expires_at_once [OF run] run show ?thesis by blast
qed

theorem mfa_verify_ignores_code_witness:
  "h_VerifyMFA demo_svc (\<lambda>_. 0) demo_fresh demo_world (Some \<lparr>VChallengeID = ''c'', VCode = ''123456'', VUserID = ''u1''\<rparr>)
     = h_VerifyMFA demo_svc (\<lambda>_. 0) demo_fresh demo_world (Some \<lparr>VChallengeID = [], VCode = [], VUserID = ''u1''\<rparr>)"
  using mfa_verify_ignores_code [of "\<lparr>VChallengeID = ''c'', VCode = ''123456'', VUserID = ''u1''\<rparr>" "\<lparr>VChallengeID = [], VCode = [], VUserID = ''u1''\<rparr>"
      demo_svc "\<lambda>_. 0" demo_fresh demo_world] by simp

theorem portal_revokes_any_session_witness:
  "\<exists>r'. ui_RevokeDevice ks_client cfg 5 demo_keys (demo_portal ''mallory'') sid = (Ok (303, Location ''/portal/devices''), r')
     \<and> ks_live r' (session_key sid) = None"
  using portal_revokes_any_session [of "demo_portal ''mallory''" "''mallory''" cfg 5 demo_keys sid] by auto

theorem admin_listing_panics_witness:
  "adminapi_ListUsers (memory_users (\<lambda>_. []) []) NewIdentityMemoryRepository (\<lambda>_. []) = Panic"
  using admin_listing_panics [of "\<lambda>_. []" "\<lambda>_. []" "[]" NewIdentityMemoryRepository] by (simp add: Atoi_or_zero_def)

theorem consent_for_caller_witness:
  "\<exists>w' c. handleConsent demo_privacy ''c1'' 5 demo_privacy_world (demo_portal ''u1'') (Some (demo_grant\<lparr>GcUserID := ''other''\<rparr>)) = (Ok (200, NoContent), w')
     \<and> pw_consents w' = pw_consents demo_privacy_world @ [c] \<and> CnUserID c = ''u1''"
proof -
  have p: "pv_consents demo_privacy = row_db CnID CnID" by (simp add: demo_privacy_def)
  obtain w' where run: "handleConsent demo_privacy ''c1'' 5 demo_privacy_world (demo_portal ''u1'') (Some (demo_grant\<lparr>GcUserID := ''other''\<rparr>)) = (Ok (200, NoContent), w')"
    using p by (simp add: handleConsent_def getUserIDFromCtx_def privacy_answer_def GrantConsent_def CreateConsentRecord_def row_insert_def demo_grant_def
        Let_def demo_privacy_def demo_privacy_world_def mem_GetUserByID_def demo_person_def)
  from consent_for_caller [OF p _ run, of "''u1''"] run show ?thesis by auto
qed
end
