(* ===== verification/Spec2Isabelle.thy ===== *)
theory Spec2Isabelle
  imports Radius_Server Plugins Auth_Service Policy_Engine Session_Manager OAuth_Device Recovery_Service
    LDAP_Server LDAP_Sync Lifecycle Middleware Session_Evaluation Adaptive_Risk Profiles Audit_Report Webhooks Privacy
    Workflow SCIM RBAC_Store Postgres_Stores App_Services WebAuthn HTTP_Handlers
begin

text \<open>
  QuantaID is an identity server in Go. This development models its core: the RADIUS and LDAP front ends, OAuth,
  the identity, authentication and authorization services, the stores behind them, the HTTP middleware, sessions
  and their evaluation, second factors, security keys, API keys, quotas, directory synchronisation, lifecycle rules,
  risk and devices, user profiles, audit, webhooks, privacy, workflows, SCIM and the HTTP handlers. Paths below are relative to \<^verbatim>\<open>src/\<close>.

  \<^bold>\<open>Parts and theories.\<close>

  \<^item> \<^verbatim>\<open>Prelude\<close>: bytes, Go slices and conversions, the type \<open>outcome\<close> (a value, an error, a run-time panic),
    map iteration in a given order, 64-bit integers. \<^verbatim>\<open>Digest_MD5\<close>, \<^verbatim>\<open>Digest_SHA1\<close>, \<^verbatim>\<open>Digest_SHA256\<close> and
    \<^verbatim>\<open>Cipher_DES\<close> are the standard-library primitives that the code calls.
  \<^item> \<^verbatim>\<open>Errors\<close>, \<^verbatim>\<open>Types\<close>: \<^verbatim>\<open>pkg/types\<close>. The standard errors are cells of a store that \<^verbatim>\<open>WithCause\<close> and
    \<^verbatim>\<open>WithDetails\<close> overwrite; \<^verbatim>\<open>errors.Is\<close> walks it and may not return.
  \<^item> \<^verbatim>\<open>Radius_Packet\<close>, \<^verbatim>\<open>Radius_Attributes\<close>, \<^verbatim>\<open>Radius_Auth\<close>, \<^verbatim>\<open>Radius_Server\<close>: \<^verbatim>\<open>internal/protocol/radius\<close>. The
    codec round trip and the exact panic conditions; password hiding; soundness of an Access-Accept,
    from the authenticator up to the datagram that is sent; accounting; the client cache.
  \<^item> \<^verbatim>\<open>Identity_Repository\<close> (interfaces and the locales that state their contracts), \<^verbatim>\<open>Identity_Memory\<close>,
    \<^verbatim>\<open>Identity_Postgres\<close>, \<^verbatim>\<open>Identity_Service\<close>, \<^verbatim>\<open>Field_Encryption\<close>: \<^verbatim>\<open>internal/domain/identity\<close> and its
    stores. Creation, lookup, paging, memberships as a relation, and what the service does over each
    store.
  \<^item> \<^verbatim>\<open>Plugins\<close>: \<^verbatim>\<open>pkg/plugins\<close>, \<^verbatim>\<open>pkg/auth\<close>: loading, dispatch, challenges.
  \<^item> \<^verbatim>\<open>Auth_Repository\<close> (interface and locale), \<^verbatim>\<open>Auth_Memory\<close>, \<^verbatim>\<open>Redis_Store\<close>, \<^verbatim>\<open>Auth_Service\<close>:
    \<^verbatim>\<open>internal/domain/auth\<close>: login, second factor, token rotation, logout, over both stores.
  \<^item> \<^verbatim>\<open>Policy_Service\<close>, \<^verbatim>\<open>Policy_Engine\<close>: \<^verbatim>\<open>internal/domain/policy\<close>, \<^verbatim>\<open>internal/policy/engine\<close>,
    \<^verbatim>\<open>internal/services/authorization\<close> and the authorization middleware: deny overrides, exactness and
    staleness of role decisions, and that the chain fails closed.
  \<^item> \<^verbatim>\<open>Session_Manager\<close>: \<^verbatim>\<open>internal/storage/redis/session_manager.go\<close>: the session limit, device binding,
    rotation, revocation.
  \<^item> \<^verbatim>\<open>Session_Evaluation\<close>: \<^verbatim>\<open>internal/auth/session\<close> and the risk data in Redis: signals, rules, actions, the
    manager, a batch of the scheduler. How high the risk can get; that termination is final when operations run in
    one piece, and that it is not when they interleave.
  \<^item> \<^verbatim>\<open>OAuth\<close>, \<^verbatim>\<open>OAuth_Device\<close>: \<^verbatim>\<open>pkg/auth/protocols\<close>, \<^verbatim>\<open>internal/domain/oauth\<close>: the code flow with PKCE from end to
    end, rotation, user information, the device flow, client registration, claims.
  \<^item> \<^verbatim>\<open>Crypto_Manager\<close>, \<^verbatim>\<open>MFA_Providers\<close>, \<^verbatim>\<open>Recovery_Service\<close>: \<^verbatim>\<open>pkg/utils/crypto.go\<close>, \<^verbatim>\<open>internal/auth/mfa\<close>,
    \<^verbatim>\<open>internal/domain/auth\<close>: one-time and recovery codes are used once; password recovery is sound.
  \<^item> \<^verbatim>\<open>LDAP_Filter\<close>, \<^verbatim>\<open>LDAP_Server\<close>: \<^verbatim>\<open>internal/protocol/ldap\<close>: the filter matcher against the meaning of RFC 4511,
    bind and search. \<^verbatim>\<open>LDAP_Sync\<close>: \<^verbatim>\<open>internal/identity/ldap\<close>, \<^verbatim>\<open>internal/services/sync\<close>: paging, mapping,
    deduplication, and the accounts of a synchronisation.
  \<^item> \<^verbatim>\<open>Lifecycle\<close>: \<^verbatim>\<open>internal/domain/identity/lifecycle\<close>, \<^verbatim>\<open>governance\<close>, \<^verbatim>\<open>internal/worker/lifecycle_job.go\<close>: exactness
    of the rules, termination of the job.
  \<^item> \<^verbatim>\<open>API_Keys\<close>, \<^verbatim>\<open>Rate_Limit\<close>, \<^verbatim>\<open>Middleware\<close>: \<^verbatim>\<open>internal/services/platform\<close>, \<^verbatim>\<open>internal/multitenant\<close>,
    \<^verbatim>\<open>internal/server/middleware\<close>, \<^verbatim>\<open>internal/security\<close>: keys, windows and daily quotas, the checks of a request, automation.
  \<^item> \<^verbatim>\<open>Sql_Table\<close> (the calls of the object-relational mapper on a table), \<^verbatim>\<open>Postgres_Stores\<close>, \<^verbatim>\<open>RBAC_Store\<close>:
    \<^verbatim>\<open>internal/storage/postgresql\<close>, \<^verbatim>\<open>internal/services/policy\<close>, \<^verbatim>\<open>internal/api/admin/policy_handlers.go\<close>: role decisions follow
    the administration's requests exactly; the two policy stores decide alike.
  \<^item> \<^verbatim>\<open>Adaptive_Risk\<close>, \<^verbatim>\<open>Devices\<close>: \<^verbatim>\<open>internal/auth/adaptive\<close>, \<^verbatim>\<open>internal/auth/device\<close>: locations, risk strategies and
    decisions, fingerprints, anomalies, trust. \<^verbatim>\<open>Profiles\<close>: \<^verbatim>\<open>internal/identity/profile\<close>: metrics, scores and tags, and that
    they stay in range under every event.
  \<^item> \<^verbatim>\<open>Audit_Log\<close>, \<^verbatim>\<open>Audit_Report\<close>: \<^verbatim>\<open>internal/audit\<close>, \<^verbatim>\<open>internal/services/audit\<close>: the asynchronous logger as a step
    relation that loses no event, retention, compliance checks, reports and their round trip. \<^verbatim>\<open>Webhooks\<close>:
    \<^verbatim>\<open>internal/services/webhook\<close>, \<^verbatim>\<open>internal/worker\<close>: dispatch and delivery with retries.
  \<^item> \<^verbatim>\<open>Privacy\<close>: \<^verbatim>\<open>internal/services/privacy\<close>: consent, export, erasure. \<^verbatim>\<open>Workflow\<close>: \<^verbatim>\<open>internal/orchestrator\<close>: workflows
    over a map of dynamic values, and when their type assertions hold. \<^verbatim>\<open>SCIM\<close>: \<^verbatim>\<open>internal/protocols/scim\<close>,
    \<^verbatim>\<open>handlers/scim.go\<close>: resources, filters, handlers, and that a replaced user reads back.
  \<^item> \<^verbatim>\<open>WebAuthn\<close>: \<^verbatim>\<open>internal/auth/mfa/webauthn_provider.go\<close>, \<^verbatim>\<open>handlers/webauthn.go\<close>: registration and login with security
    keys around the ceremonies of a library.
  \<^item> \<^verbatim>\<open>App_Services\<close>, \<^verbatim>\<open>HTTP_Handlers\<close>: \<^verbatim>\<open>internal/services\<close>, \<^verbatim>\<open>internal/cache\<close>, \<^verbatim>\<open>internal/server/http/handlers\<close>,
    \<^verbatim>\<open>internal/server/http/ui\<close>, \<^verbatim>\<open>internal/api\<close>: the use cases and the handlers in front of the services, with what a client sees.
  \<^item> This theory: properties that span components, namely the login under the policy engine and RADIUS
    against the account status.

  Interfaces that a component relies on are locales: the identity and token stores, the listing that the lifecycle job
  pages through, the repository of API keys, the assessment of risk that the workflow calls. Each is interpreted on the model of the store in the code.

  \<^bold>\<open>How the code is read.\<close> A struct is a record, an interface value a record of functions, a method that
  writes takes and returns the state. A non-nil error is \<open>Fail\<close>, a run-time panic \<open>Panic\<close>; a call that may
  not return gives an \<open>option\<close>. Every repository method holds its mutex for its whole body, so a
  concurrent history is a sequence of calls. What the program gets from outside is an argument: generated
  identifiers, clock readings, nonces, the iteration order of a Go map, the database, the network, and
  the packages that are not part of the repository (bcrypt, JWT, AES-GCM, MD4, go-cache, go-redis, GORM,
  OPA). Laws assumed of them are the hypotheses of the theorems and are met by the instances that the
  theories give: a table with unique indexes for GORM, a key space with expiry for Redis, a map with
  expiry for go-cache.

  \<^bold>\<open>Deviations.\<close> Pointers stored in maps are values, so changes through an alias that a caller keeps are not
  seen, except where a theory gives the assignment as an argument of its own (\<^verbatim>\<open>Privacy\<close>, \<^verbatim>\<open>App_Services\<close>). Slices are values with capacity equal to length. Go strings are lists of characters with codes
  below 256. The score of a sorted set is an integer, where the code rounds nanoseconds to a
  floating-point number; minutes, hours and weights are exact fractions, and risk scores and distances are real numbers. Letters are folded to lower case in
  ASCII only. A Redis value is the JSON of one of the stored objects or another text. Log lines and
  metrics are left out. Error messages leave out what is printed into them where no code reads it.

  \<^bold>\<open>Loops and bounds.\<close> Loops are structural recursions or have a termination proof; there is no fuel. What can
  diverge is a \<open>partial_function\<close> into \<open>option\<close>: \<^verbatim>\<open>errors.Is\<close> over a cyclic chain of causes, and the paged loops of
  the directory synchronisation and of the lifecycle job, for which theorems say when they return.
  Machine integers keep their width: attribute and packet lengths are 8-bit and
  16-bit words, page arithmetic wraps at 64 bits.

  \<^bold>\<open>Not modelled.\<close> The start of the server and routing (calls of third-party packages), templates, configuration,
  logging, metrics, the command line and the client library (input and output); SAML, BER, JSON and JWT texts
  (third-party or standard formats, arguments where they matter); the single calls of the Redis client and of the
  LDAP client, and the LDAP connector built on the latter; timers and sockets; test doubles.
\<close>

section \<open>Password login under the policy engine\<close>

text \<open>
  The policy engine that the HTTP server gives to the authentication service: the login decision over the
  hybrid evaluator.
\<close>

definition login_policy ::
    "(string \<Rightarrow> string \<Rightarrow> string \<Rightarrow> (go_error, bool) outcome) \<Rightarrow> OPAProvider option \<Rightarrow> RiskLevel \<Rightarrow> AuthContext \<Rightarrow> string" where
  "login_policy rbac opa level ac =
     (case Decide (adapter_Evaluate (hybrid_Evaluate rbac opa)) level (AcUserID ac) (AcIPAddress ac) of
        Ok d \<Rightarrow> d
      | _ \<Rightarrow> ''DENY'')"

text \<open>
  The policy's denial of a login is not enforced: when the roles do not permit the action \<open>login\<close> and no
  policy agent is configured, the policy engine answers \<open>DENY\<close>, and the login of an active user with
  the right password nevertheless returns a session and tokens.
\<close>

theorem login_despite_denial:
  assumes "as_Decide svc = login_policy rbac None" and "as_repo svc = memory_auth"
    and "as_GetUserByUsername svc (w_errs w) (RUsername req) = (Ok user, h)"
    and "Status user = UserStatusActive" and "as_CheckPasswordHash svc (RPassword req) (Password user)"
    and "\<forall>ac. as_risk svc ac = Ok level" and "rbac (UID user) ''login'' [] = Ok False"
    and "as_GenerateJWT svc (UID user) (AccessTokenDuration cfg) = Ok jwt"
  shows "(\<forall>ac. AcUserID ac = UID user \<longrightarrow> as_Decide svc level ac = ''DENY'') \<and>
    (\<exists>res w' tok s. LoginWithPassword svc clock fresh cfg w req = (Ok res, w') \<and>
       ResToken res = Some tok \<and> AccessToken tok = jwt \<and> ResSession res = Some s \<and> SUserID s = UID user)"
proof -
  have deny: "\<forall>ac. AcUserID ac = UID user \<longrightarrow> as_Decide svc level ac = ''DENY''"
    using assms(7) by (simp add: assms(1) login_policy_def Decide_def adapter_Evaluate_def adapter_request_def
        hybrid_Evaluate_def DecisionAllow_def DecisionDeny_def)
  then have "LoginWithPassword svc clock fresh cfg w req =
      createSessionAndTokens svc clock fresh cfg (w\<lparr>w_errs := h\<rparr>) user"
    using assms(3-6) by (simp add: LoginWithPassword_def)
  with deny assms(2,8) show ?thesis
    by (auto simp: createSessionAndTokens_def Let_def amem_defs)
qed

theorem login_despite_denial_witness:
  "\<exists>res w'. LoginWithPassword (demo_svc\<lparr>as_Decide := login_policy (\<lambda>_ _ _. Ok False) None\<rparr>) (\<lambda>_. 0) demo_fresh demo_cfg
      demo_world demo_login = (Ok res, w') \<and> ResToken res \<noteq> None"
proof -
  let ?svc = "demo_svc\<lparr>as_Decide := login_policy (\<lambda>_ _ _. Ok False) None\<rparr>"
  have "as_GetUserByUsername ?svc (w_errs demo_world) (RUsername demo_login) = (Ok (alice\<lparr>UID := ''u1''\<rparr>), w_errs demo_world)"
    using demo_lookup(1) [of "w_errs demo_world"] by (simp add: demo_login_def)
  from login_despite_denial [OF _ _ this, of "\<lambda>_ _ _. Ok False" "''LOW''" demo_cfg "''jwt:u1''"]
  show ?thesis by (fastforce simp: alice_def demo_login_def)
qed

section \<open>RADIUS and the account status\<close>

definition with_status :: "(User \<Rightarrow> UserStatus) \<Rightarrow> (go_error, User option) outcome \<Rightarrow> (go_error, User option) outcome" where
  "with_status st res = (case res of Ok u \<Rightarrow> Ok (map_option (\<lambda>u. u\<lparr>Status := st u\<rparr>) u) | _ \<Rightarrow> res)"

text \<open>
  RADIUS authentication does not look at the account status: giving any other status to the users that
  the user service returns changes no response. A locked, disabled or deleted user who is refused by
  the password login is accepted over RADIUS.
\<close>

theorem Authenticate_ignores_status:
  "Authenticate (a\<lparr>userService := (\<lambda>n. with_status st (userService a n))\<rparr>) request client = Authenticate a request client"
proof -
  let ?a = "a\<lparr>userService := (\<lambda>n. with_status st (userService a n))\<rparr>"
  have acc: "createAccept (a\<lparr>userService := s\<rparr>) request (u\<lparr>Status := v\<rparr>) = createAccept a request u" for s u v
    by (simp add: createAccept_def Let_def cong: if_cong)
  have "verifyPAP ?a request n pw = verifyPAP a request n pw" for n pw
    by (auto simp: verifyPAP_def with_status_def acc split: outcome.split option.split)
  then have pap: "verifyPAP ?a request n = verifyPAP a request n" for n by (simp add: fun_eq_iff)
  have "pap_password ?a request client enc = pap_password a request client enc" for enc
    by (simp add: pap_password_def Let_def cong: if_cong)
  with pap have "authenticatePAP ?a request client n = authenticatePAP a request client n" for n
    by (simp add: authenticatePAP_def cong: option.case_cong)
  moreover have "authenticateCHAP ?a request n chap = authenticateCHAP a request n chap" for n chap
    by (auto simp: authenticateCHAP_def with_status_def acc Let_def split: outcome.split option.split)
  moreover have "mschapAuthenticate ?a request n = mschapAuthenticate a request n" for n
    by (auto simp: mschapAuthenticate_def with_status_def getNTHash_def Let_def
        intro!: arg_cong2 [where f = obind] ext split: outcome.split option.split)
  ultimately show ?thesis by (simp add: Authenticate_def Let_def cong: if_cong option.case_cong)
qed

end
